(* ===== verification/Py_Prelude.thy ===== *)
theory Py_Prelude
  imports Complex_Main "HOL-Library.AList"
begin

text \<open>
  Prelude of the development: the Python values the modelled code computes with.

  A Python \<open>str\<close> is a \<open>string\<close>: one \<open>char\<close> per code point, for code points below 256
  (identifiers, keys, subjects, error codes). Text that a person reads or types may hold any code
  point and is a \<open>utext\<close>, the list of its code points. A JSON-like value is a \<open>json\<close>;
  a dict is an association list in insertion order, updated the way \<open>d[k] = v\<close> updates it
  (in place when the key is present, at the end otherwise). An exception is a value of
  \<open>py_error\<close>, and a call that may raise returns a \<open>result\<close>: \<open>Inl\<close> the exception or
  \<open>Inr\<close> the value.
\<close>

type_synonym utext = "int list"

datatype py_error =
    PermissionDeniedError string
  | ValidationError string
  | NotFoundError string
  | ConflictError string
  | RuntimeError string
  | ValueError string
  | KeyError string
  | TypeError string
  | IntegrityError string
  | AsyncTimeoutError string
  | ToolPermissionError string
  | OtherError string string

type_synonym 'a result = "py_error + 'a"

fun is_ok :: "'a result \<Rightarrow> bool" where
  "is_ok (Inl e) = False"
| "is_ok (Inr x) = True"

lemma is_ok_iff: "is_ok r \<longleftrightarrow> (\<exists>x. r = Inr x)"
  by (cases r) auto

text \<open>\<open>str(exc)\<close>: the message an exception carries; a \<open>KeyError\<close> shows its key in quotes.\<close>

fun exc_message :: "py_error \<Rightarrow> string" where
  "exc_message (PermissionDeniedError m) = m"
| "exc_message (ValidationError m) = m"
| "exc_message (NotFoundError m) = m"
| "exc_message (ConflictError m) = m"
| "exc_message (RuntimeError m) = m"
| "exc_message (ValueError m) = m"
| "exc_message (KeyError m) = CHR 0x27 # m @ [CHR 0x27]"
| "exc_message (TypeError m) = m"
| "exc_message (IntegrityError m) = m"
| "exc_message (AsyncTimeoutError m) = m"
| "exc_message (ToolPermissionError m) = m"
| "exc_message (OtherError n m) = m"

text \<open>\<open>type(exc).__name__\<close>.\<close>

fun exc_type_name :: "py_error \<Rightarrow> string" where
  "exc_type_name (PermissionDeniedError m) = ''PermissionDeniedError''"
| "exc_type_name (ValidationError m) = ''ValidationError''"
| "exc_type_name (NotFoundError m) = ''NotFoundError''"
| "exc_type_name (ConflictError m) = ''ConflictError''"
| "exc_type_name (RuntimeError m) = ''RuntimeError''"
| "exc_type_name (ValueError m) = ''ValueError''"
| "exc_type_name (KeyError m) = ''KeyError''"
| "exc_type_name (TypeError m) = ''TypeError''"
| "exc_type_name (IntegrityError m) = ''IntegrityError''"
| "exc_type_name (AsyncTimeoutError m) = ''TimeoutError''"
| "exc_type_name (ToolPermissionError m) = ''ToolPermissionError''"
| "exc_type_name (OtherError n m) = n"


section \<open>Dicts\<close>

abbreviation dict_put :: "'k \<Rightarrow> 'v \<Rightarrow> ('k \<times> 'v) list \<Rightarrow> ('k \<times> 'v) list" where
  "dict_put \<equiv> AList.update"

abbreviation dict_del :: "'k \<Rightarrow> ('k \<times> 'v) list \<Rightarrow> ('k \<times> 'v) list" where
  "dict_del \<equiv> AList.delete"

text \<open>\<open>{**a, **b}\<close>: the entries of \<open>b\<close> written over those of \<open>a\<close>.\<close>

fun dict_merge :: "('k \<times> 'v) list \<Rightarrow> ('k \<times> 'v) list \<Rightarrow> ('k \<times> 'v) list" where
  "dict_merge a [] = a"
| "dict_merge a ((k, v) # b) = dict_merge (dict_put k v a) b"

text \<open>\<open>d.setdefault(k, v)\<close>.\<close>

definition dict_setdefault :: "'k \<Rightarrow> 'v \<Rightarrow> ('k \<times> 'v) list \<Rightarrow> ('k \<times> 'v) list" where
  "dict_setdefault k v d = (if map_of d k = None then d @ [(k, v)] else d)"

lemma map_of_dict_put [simp]:
  "map_of (dict_put k v d) = (map_of d)(k \<mapsto> v)"
  by (simp add: update_conv')

lemma map_of_dict_del [simp]:
  "map_of (dict_del k d) = (map_of d)(k := None)"
  by (simp add: delete_conv')

lemma set_dict_del: "set (dict_del k d) = {p \<in> set d. fst p \<noteq> k}"
  by (auto simp: AList.delete_eq)

lemma map_of_dict_merge:
  "distinct (map fst b) \<Longrightarrow> map_of (dict_merge a b) = map_of a ++ map_of b"
proof (induction b arbitrary: a)
  case Nil
  then show ?case by simp
next
  case (Cons p b)
  obtain k v where p: "p = (k, v)" by (cases p)
  with Cons.prems have d: "distinct (map fst b)" and k: "map_of b k = None"
    by (auto simp: map_of_eq_None_iff)
  show ?case
    using Cons.IH [OF d] k by (auto simp: p map_add_def fun_eq_iff split: option.splits)
qed

lemma map_of_dict_setdefault:
  "map_of (dict_setdefault k v d) x =
     (if x = k \<and> map_of d k = None then Some v else map_of d x)"
  by (auto simp: dict_setdefault_def map_add_def split: option.splits)

lemma distinct_dict_put:
  "distinct (map fst d) \<Longrightarrow> distinct (map fst (dict_put k v d))"
  by (rule distinct_update)

lemma distinct_dict_merge:
  "distinct (map fst a) \<Longrightarrow> distinct (map fst (dict_merge a b))"
  by (induction a b rule: dict_merge.induct) (auto simp: distinct_update)

lemma dict_put_new:
  "map_of d k = None \<Longrightarrow> dict_put k v d = d @ [(k, v)]"
  by (induction d) (auto split: if_splits)


lemma dict_put_same: "map_of d k = Some v \<Longrightarrow> dict_put k v d = d"
  by (induction d) (auto split: if_splits)

lemma dict_merge_same: "\<forall>p \<in> set b. map_of a (fst p) = Some (snd p) \<Longrightarrow> dict_merge a b = a"
proof (induction a b rule: dict_merge.induct)
  case (2 a k v b)
  then have "dict_put k v a = a" by (simp add: dict_put_same)
  with 2 show ?case by simp
qed simp

lemma dict_merge_idem: "distinct (map fst b) \<Longrightarrow> dict_merge (dict_merge a b) b = dict_merge a b"
  by (rule dict_merge_same) (auto simp: map_of_dict_merge map_add_Some_iff)

text \<open>Updating the elements with a property, where they are up to date already.\<close>

lemma map_if_same: "(\<And>x. x \<in> set xs \<Longrightarrow> P x \<Longrightarrow> f x = x) \<Longrightarrow> map (\<lambda>x. if P x then f x else x) xs = xs"
  by (simp add: map_idI)


section \<open>JSON values\<close>

text \<open>
  A float is carried as its exact rational value; the modelled code compares and forwards floats
  but does no float arithmetic. \<open>py_eq\<close> is Python's \<open>==\<close>: booleans and numbers compare by
  value, dicts compare as sets of entries, whatever their order.
\<close>

datatype json =
    JNull
  | JBool bool
  | JInt int
  | JFloat rat
  | JStr string
  | JList "json list"
  | JDict "(string \<times> json) list"

fun truthy :: "json \<Rightarrow> bool" where
  "truthy JNull = False"
| "truthy (JBool b) = b"
| "truthy (JInt i) = (i \<noteq> 0)"
| "truthy (JFloat q) = (q \<noteq> 0)"
| "truthy (JStr s) = (s \<noteq> [])"
| "truthy (JList l) = (l \<noteq> [])"
| "truthy (JDict d) = (d \<noteq> [])"

text \<open>\<open>a or b\<close>.\<close>

definition py_or :: "json \<Rightarrow> json \<Rightarrow> json" where
  "py_or a b = (if truthy a then a else b)"

fun json_num :: "json \<Rightarrow> rat option" where
  "json_num (JBool b) = Some (if b then 1 else 0)"
| "json_num (JInt i) = Some (of_int i)"
| "json_num (JFloat q) = Some q"
| "json_num _ = None"

fun py_eq :: "json \<Rightarrow> json \<Rightarrow> bool"
  and py_eq_list :: "json list \<Rightarrow> json list \<Rightarrow> bool"
  and py_eq_dict :: "(string \<times> json) list \<Rightarrow> (string \<times> json) list \<Rightarrow> bool" where
  "py_eq JNull y = (y = JNull)"
| "py_eq (JBool b) y = (json_num y = json_num (JBool b))"
| "py_eq (JInt i) y = (json_num y = json_num (JInt i))"
| "py_eq (JFloat q) y = (json_num y = json_num (JFloat q))"
| "py_eq (JStr s) y = (y = JStr s)"
| "py_eq (JList xs) y = (case y of JList ys \<Rightarrow> py_eq_list xs ys | _ \<Rightarrow> False)"
| "py_eq (JDict d) y = (case y of JDict e \<Rightarrow> length d = length e \<and> py_eq_dict d e | _ \<Rightarrow> False)"
| "py_eq_list [] ys = (ys = [])"
| "py_eq_list (x # xs) ys = (case ys of [] \<Rightarrow> False | z # zs \<Rightarrow> py_eq x z \<and> py_eq_list xs zs)"
| "py_eq_dict [] e = True"
| "py_eq_dict ((k, v) # d) e =
     ((case map_of e k of None \<Rightarrow> False | Some w \<Rightarrow> py_eq v w) \<and> py_eq_dict d e)"

text \<open>A Python dict has each key once, at every depth.\<close>

fun dict_ok :: "json \<Rightarrow> bool"
  and dict_ok_list :: "json list \<Rightarrow> bool"
  and dict_ok_entries :: "(string \<times> json) list \<Rightarrow> bool" where
  "dict_ok (JList xs) = dict_ok_list xs"
| "dict_ok (JDict d) = (distinct (map fst d) \<and> dict_ok_entries d)"
| "dict_ok _ = True"
| "dict_ok_list [] = True"
| "dict_ok_list (x # xs) = (dict_ok x \<and> dict_ok_list xs)"
| "dict_ok_entries [] = True"
| "dict_ok_entries ((k, v) # d) = (dict_ok v \<and> dict_ok_entries d)"

lemma py_eq_entryI:
  "distinct (map fst e) \<Longrightarrow> (k, v) \<in> set e \<Longrightarrow> py_eq v v
     \<Longrightarrow> (case map_of e k of None \<Rightarrow> False | Some w \<Rightarrow> py_eq v w)"
  by simp

lemma py_eq_refl_aux:
  "dict_ok j \<longrightarrow> py_eq j j"
  "dict_ok_list xs \<longrightarrow> py_eq_list xs xs"
  "dict_ok_entries d \<longrightarrow> (\<forall>e. distinct (map fst e) \<and> set d \<subseteq> set e \<longrightarrow> py_eq_dict d e)"
  by (induction j and xs and d rule: dict_ok_dict_ok_list_dict_ok_entries.induct)
    (auto intro: py_eq_entryI)

lemma py_eq_refl: "dict_ok j \<Longrightarrow> py_eq j j"
  using py_eq_refl_aux(1) by blast

text \<open>\<open>dict(x or {})\<close> and \<open>d.get(k)\<close> on a value known to be a dict.\<close>

fun as_dict :: "json \<Rightarrow> (string \<times> json) list" where
  "as_dict (JDict d) = d"
| "as_dict _ = []"

definition dict_get :: "(string \<times> json) list \<Rightarrow> string \<Rightarrow> json" where
  "dict_get d k = (case map_of d k of None \<Rightarrow> JNull | Some v \<Rightarrow> v)"

text \<open>Optional values as JSON.\<close>

fun jopt_str :: "string option \<Rightarrow> json" where
  "jopt_str None = JNull"
| "jopt_str (Some s) = JStr s"

fun jopt_int :: "int option \<Rightarrow> json" where
  "jopt_int None = JNull"
| "jopt_int (Some i) = JInt i"

fun jopt_dict :: "(string \<times> json) list option \<Rightarrow> json" where
  "jopt_dict None = JNull"
| "jopt_dict (Some d) = JDict d"


section \<open>Strings\<close>

definition is_space :: "char \<Rightarrow> bool" where
  "is_space c =
     (let n = (of_char c :: nat)
      in 9 \<le> n \<and> n \<le> 13 \<or> 28 \<le> n \<and> n \<le> 32 \<or> n = 133 \<or> n = 160)"

text \<open>\<open>s.strip()\<close>.\<close>

definition py_strip :: "string \<Rightarrow> string" where
  "py_strip s = rev (dropWhile is_space (rev (dropWhile is_space s)))"

lemma py_strip_Nil [simp]: "py_strip [] = []"
  by (simp add: py_strip_def)

lemma dropWhile_rev_stable:
  "dropWhile P s = s \<Longrightarrow> dropWhile P (rev (dropWhile P (rev s))) = rev (dropWhile P (rev s))"
proof (cases "rev (dropWhile P (rev s))")
  case (Cons x t)
  assume s: "dropWhile P s = s"
  have "s = rev (dropWhile P (rev s)) @ rev (takeWhile P (rev s))"
    by (metis rev_append rev_rev_ident takeWhile_dropWhile_id)
  then obtain u where "s = x # u" by (simp add: Cons)
  with s have "\<not> P x" by (metis dropWhile_eq_Cons_conv)
  then show ?thesis by (simp add: Cons)
next
  case Nil
  then show ?thesis by (simp only: dropWhile.simps)
qed

lemma py_strip_idem [simp]: "py_strip (py_strip s) = py_strip s"
proof -
  have "dropWhile is_space (dropWhile is_space s) = dropWhile is_space s"
    by (rule dropWhile_idem)
  from dropWhile_rev_stable [OF this] show ?thesis
    by (simp add: py_strip_def)
qed

text \<open>\<open>s.startswith(p)\<close>.\<close>

definition starts_with :: "'a list \<Rightarrow> 'a list \<Rightarrow> bool" where
  "starts_with s p = (take (length p) s = p)"

text \<open>\<open>xs[-n:]\<close>: the last \<open>n\<close> elements, and the whole list for \<open>n = 0\<close>, as \<open>xs[-0:]\<close> is.\<close>

definition py_tail :: "int \<Rightarrow> 'a list \<Rightarrow> 'a list" where
  "py_tail n xs = (if n > 0 then drop (length xs - nat n) xs else drop (nat (- n)) xs)"

lemma length_py_tail: "n > 0 \<Longrightarrow> length (py_tail n xs) = min (nat n) (length xs)"
  by (simp add: py_tail_def)

lemma set_py_tail: "set (py_tail n xs) \<subseteq> set xs"
  by (simp add: py_tail_def set_drop_subset)

lemma py_tail_all: "n > 0 \<Longrightarrow> int (length xs) \<le> n \<Longrightarrow> py_tail n xs = xs"
  by (simp add: py_tail_def)

text \<open>Decimal digits of a number, as \<open>str(n)\<close> writes them.\<close>

definition digit_char :: "nat \<Rightarrow> char" where
  "digit_char n = char_of (48 + n)"

fun nat_str :: "nat \<Rightarrow> string" where
  "nat_str n = (if n < 10 then [digit_char n] else nat_str (n div 10) @ [digit_char (n mod 10)])"

declare nat_str.simps [simp del]

definition int_str :: "int \<Rightarrow> string" where
  "int_str i = (if i < 0 then CHR ''-'' # nat_str (nat (- i)) else nat_str (nat i))"

definition digit_val :: "char \<Rightarrow> nat option" where
  "digit_val c = (let k = (of_char c :: nat) in if 48 \<le> k \<and> k \<le> 57 then Some (k - 48) else None)"

lemma digit_val_digit_char [simp]: "n < 10 \<Longrightarrow> digit_val (digit_char n) = Some n"
  by (simp add: digit_val_def digit_char_def of_char_of)

lemma digit_char_inj: "m < 10 \<Longrightarrow> n < 10 \<Longrightarrow> digit_char m = digit_char n \<Longrightarrow> m = n"
  by (metis digit_val_digit_char option.inject)

lemma digit_char_not_minus: "n < 10 \<Longrightarrow> digit_char n \<noteq> CHR ''-''"
proof
  assume "n < 10" "digit_char n = CHR ''-''"
  then have "digit_val (CHR ''-'') = Some n" by (metis digit_val_digit_char)
  then show False by (simp add: digit_val_def)
qed

lemma nat_str_nonempty: "nat_str n \<noteq> []"
  by (subst nat_str.simps) simp

lemma nat_str_inj: "nat_str m = nat_str n \<Longrightarrow> m = n"
proof (induction m arbitrary: n rule: less_induct)
  case (less m)
  show ?case
  proof (cases "m < 10 \<or> n < 10")
    case True
    with less.prems show ?thesis
      by (auto simp: nat_str.simps [of m] nat_str.simps [of n] nat_str_nonempty
          append_eq_Cons_conv Cons_eq_append_conv dest: digit_char_inj split: if_splits)
  next
    case False
    then have m: "nat_str m = nat_str (m div 10) @ [digit_char (m mod 10)]"
      and n: "nat_str n = nat_str (n div 10) @ [digit_char (n mod 10)]"
      by (simp_all add: nat_str.simps [of m] nat_str.simps [of n])
    from less.prems have eq: "nat_str (m div 10) = nat_str (n div 10)"
      and dig: "digit_char (m mod 10) = digit_char (n mod 10)"
      by (simp_all add: m n)
    from False have "m div 10 < m" by simp
    from less.IH [OF this eq] have d: "m div 10 = n div 10" .
    from dig have "m mod 10 = n mod 10" by (intro digit_char_inj) simp_all
    with d show ?thesis by (metis div_mult_mod_eq)
  qed
qed

lemma nat_str_digits: "c \<in> set (nat_str n) \<Longrightarrow> \<exists>d < 10. c = digit_char d"
proof (induction n rule: nat_str.induct)
  case (1 n)
  show ?case
  proof (cases "n < 10")
    case True
    with 1 show ?thesis by (auto simp: nat_str.simps [of n])
  next
    case False
    with 1 have "c \<in> set (nat_str (n div 10)) \<or> c = digit_char (n mod 10)"
      by (auto simp: nat_str.simps [of n])
    then show ?thesis
    proof
      assume "c \<in> set (nat_str (n div 10))"
      with 1 False show ?thesis by blast
    next
      assume "c = digit_char (n mod 10)"
      moreover have "n mod 10 < 10" by simp
      ultimately show ?thesis by blast
    qed
  qed
qed

lemma nat_str_not_minus: "CHR ''-'' \<notin> set (nat_str n)"
  using nat_str_digits digit_char_not_minus by metis

lemma int_str_inj: "int_str i = int_str j \<Longrightarrow> i = j"
proof -
  assume eq: "int_str i = int_str j"
  have hd_nat: "nat_str n \<noteq> CHR ''-'' # s" for n s
    using nat_str_not_minus [of n] by (metis list.set_intros(1))
  from eq show "i = j"
    by (auto simp: int_str_def hd_nat hd_nat [symmetric] dest!: nat_str_inj split: if_splits)
qed


section \<open>Stable sorting\<close>

text \<open>
  \<open>sorted(xs, key=f)\<close> is stable, as \<open>sort_key\<close> is. \<open>sorted(xs, key=f, reverse=True)\<close>
  keeps the order of equal elements too, so it is the stable sort of the reversed list, reversed.
\<close>

definition sort_key_desc :: "('a \<Rightarrow> 'k::linorder) \<Rightarrow> 'a list \<Rightarrow> 'a list" where
  "sort_key_desc f xs = rev (sort_key f (rev xs))"

lemma set_sort_key_desc [simp]: "set (sort_key_desc f xs) = set xs"
  by (simp add: sort_key_desc_def)

lemma length_sort_key_desc [simp]: "length (sort_key_desc f xs) = length xs"
  by (simp add: sort_key_desc_def)

lemma sorted_sort_key_desc: "sorted (rev (map f (sort_key_desc f xs)))"
  by (simp add: sort_key_desc_def rev_map [symmetric])

text \<open>The first element of a list with a property, and its defining facts.\<close>

lemma find_SomeD: "find P xs = Some x \<Longrightarrow> P x \<and> x \<in> set xs"
  by (induction xs) (auto split: if_splits)

lemma find_NoneD: "find P xs = None \<Longrightarrow> \<forall>x \<in> set xs. \<not> P x"
  by (simp add: find_None_iff)

lemma find_map_update:
  "(\<And>x. P (f x) = P x) \<Longrightarrow> find P (map f xs) = map_option f (find P xs)"
  by (induction xs) auto

end
