(* ===== verification/Py_Time.thy ===== *)
theory Py_Time
  imports Py_Prelude
begin

text \<open>
  The standard library's \<open>datetime\<close>, as far as the modelled code uses it: its fields, the
  instant an aware value stands for, \<open>isoformat\<close> and \<open>fromisoformat\<close> on the texts
  \<open>isoformat\<close> writes. Offsets are whole minutes. \<open>fromisoformat\<close> accepts other ISO 8601
  spellings as well; the code only ever gives it texts that \<open>isoformat\<close> wrote, and every other
  text is a \<open>ValueError\<close> here.

  Where only the order of instants or a duration matters (delivery times, leases), a time is an
  \<open>instant\<close>: microseconds since the epoch, UTC.
\<close>

type_synonym instant = int

definition seconds :: "int \<Rightarrow> int" where
  "seconds n = n * 1000000"

record datetime =
  dt_year :: nat
  dt_month :: nat
  dt_day :: nat
  dt_hour :: nat
  dt_minute :: nat
  dt_second :: nat
  dt_micro :: nat
  dt_offset :: "int option"

definition dt_valid :: "datetime \<Rightarrow> bool" where
  "dt_valid d =
     (dt_year d < 10000 \<and> dt_month d < 100 \<and> dt_day d < 100 \<and> dt_hour d < 24
      \<and> dt_minute d < 60 \<and> dt_second d < 60 \<and> dt_micro d < 1000000
      \<and> (case dt_offset d of None \<Rightarrow> True | Some z \<Rightarrow> \<bar>z\<bar> < 1440))"

text \<open>Days from 1970-01-01 in the proleptic Gregorian calendar.\<close>

definition days_from_civil :: "nat \<Rightarrow> nat \<Rightarrow> nat \<Rightarrow> int" where
  "days_from_civil y m d =
     (let y' = int y - (if m \<le> 2 then 1 else 0);
          era = y' div 400;
          yoe = y' - era * 400;
          doy = (153 * (int m + (if m > 2 then -3 else 9)) + 2) div 5 + int d - 1;
          doe = yoe * 365 + yoe div 4 - yoe div 100 + doy
      in era * 146097 + doe - 719468)"

text \<open>The instant of a datetime; a naive value is read as UTC.\<close>

definition dt_instant :: "datetime \<Rightarrow> instant" where
  "dt_instant d =
     (((days_from_civil (dt_year d) (dt_month d) (dt_day d) * 24 + int (dt_hour d)) * 60
       + int (dt_minute d) - (case dt_offset d of None \<Rightarrow> 0 | Some z \<Rightarrow> z)) * 60
      + int (dt_second d)) * 1000000 + int (dt_micro d)"

text \<open>A SQLite \<open>DateTime\<close> column keeps the fields and drops the offset.\<close>

definition sql_datetime :: "datetime \<Rightarrow> datetime" where
  "sql_datetime d = d\<lparr>dt_offset := None\<rparr>"

lemma dt_instant_sql_utc:
  "dt_offset d = Some 0 \<Longrightarrow> dt_instant (sql_datetime d) = dt_instant d"
  by (simp add: dt_instant_def sql_datetime_def)


section \<open>Fixed-width digits\<close>

fun pad_num :: "nat \<Rightarrow> nat \<Rightarrow> string" where
  "pad_num 0 n = []"
| "pad_num (Suc w) n = pad_num w (n div 10) @ [digit_char (n mod 10)]"

fun num_val :: "nat \<Rightarrow> string \<Rightarrow> nat option" where
  "num_val acc [] = Some acc"
| "num_val acc (c # cs) =
     (case digit_val c of None \<Rightarrow> None | Some d \<Rightarrow> num_val (acc * 10 + d) cs)"

lemma length_pad_num [simp]: "length (pad_num w n) = w"
  by (induction w n rule: pad_num.induct) auto

lemma num_val_append:
  "num_val acc (s @ t) = (case num_val acc s of None \<Rightarrow> None | Some a \<Rightarrow> num_val a t)"
  by (induction acc s rule: num_val.induct) (auto split: option.splits)

lemma num_val_pad_num: "n < 10 ^ w \<Longrightarrow> num_val acc (pad_num w n) = Some (acc * 10 ^ w + n)"
proof (induction w n arbitrary: acc rule: pad_num.induct)
  case (1 n)
  then show ?case by simp
next
  case (2 w n)
  from "2.prems" have "n div 10 < 10 ^ w" by (simp add: less_mult_imp_div_less mult.commute)
  with "2.IH" show ?case by (simp add: num_val_append algebra_simps)
qed

lemma num_val_pad2 [simp]: "n < 100 \<Longrightarrow> num_val 0 (pad_num 2 n) = Some n"
  by (simp add: num_val_pad_num)

lemma num_val_pad4 [simp]: "n < 10000 \<Longrightarrow> num_val 0 (pad_num 4 n) = Some n"
  by (simp add: num_val_pad_num)

lemma num_val_pad6 [simp]: "n < 1000000 \<Longrightarrow> num_val 0 (pad_num 6 n) = Some n"
  by (simp add: num_val_pad_num)


section \<open>isoformat and fromisoformat\<close>

definition iso_offset :: "int option \<Rightarrow> string" where
  "iso_offset z =
     (case z of None \<Rightarrow> []
      | Some m \<Rightarrow> (if m < 0 then CHR ''-'' else CHR ''+'')
                  # pad_num 2 (nat \<bar>m\<bar> div 60) @ CHR '':'' # pad_num 2 (nat \<bar>m\<bar> mod 60))"

definition isoformat :: "datetime \<Rightarrow> string" where
  "isoformat d =
     pad_num 4 (dt_year d) @ CHR ''-'' # pad_num 2 (dt_month d) @ CHR ''-'' # pad_num 2 (dt_day d)
     @ CHR ''T'' # pad_num 2 (dt_hour d) @ CHR '':'' # pad_num 2 (dt_minute d)
     @ CHR '':'' # pad_num 2 (dt_second d)
     @ (if dt_micro d = 0 then [] else CHR ''.'' # pad_num 6 (dt_micro d))
     @ iso_offset (dt_offset d)"

definition parse_offset :: "string \<Rightarrow> int option option" where
  "parse_offset s =
     (if s = [] then Some None
      else if length s = 6 \<and> (s ! 0 = CHR ''+'' \<or> s ! 0 = CHR ''-'') \<and> s ! 3 = CHR '':''
      then (case (num_val 0 (take 2 (drop 1 s)), num_val 0 (drop 4 s)) of
              (Some h, Some m) \<Rightarrow>
                 Some (Some ((if s ! 0 = CHR ''-'' then - 1 else 1) * (int h * 60 + int m)))
            | _ \<Rightarrow> None)
      else None)"

definition parse_tail :: "string \<Rightarrow> (nat \<times> int option) option" where
  "parse_tail s =
     (if s \<noteq> [] \<and> hd s = CHR ''.''
      then (case (num_val 0 (take 6 (tl s)), parse_offset (drop 6 (tl s))) of
              (Some u, Some z) \<Rightarrow> if length (tl s) \<ge> 6 then Some (u, z) else None
            | _ \<Rightarrow> None)
      else (case parse_offset s of None \<Rightarrow> None | Some z \<Rightarrow> Some (0, z)))"

definition parse_fields :: "string \<Rightarrow> (nat \<times> nat \<times> nat \<times> nat \<times> nat \<times> nat) option" where
  "parse_fields s =
     (if length s = 19 \<and> s ! 4 = CHR ''-'' \<and> s ! 7 = CHR ''-'' \<and> s ! 10 = CHR ''T''
         \<and> s ! 13 = CHR '':'' \<and> s ! 16 = CHR '':''
      then (case (num_val 0 (take 4 s), num_val 0 (take 2 (drop 5 s)), num_val 0 (take 2 (drop 8 s)),
                  num_val 0 (take 2 (drop 11 s)), num_val 0 (take 2 (drop 14 s)),
                  num_val 0 (take 2 (drop 17 s))) of
              (Some y, Some mo, Some d, Some h, Some mi, Some sec) \<Rightarrow> Some (y, mo, d, h, mi, sec)
            | _ \<Rightarrow> None)
      else None)"

definition fromisoformat :: "string \<Rightarrow> datetime result" where
  "fromisoformat s =
     (case (parse_fields (take 19 s), parse_tail (drop 19 s)) of
        (Some (y, mo, d, h, mi, sec), Some (u, z)) \<Rightarrow>
          Inr \<lparr>dt_year = y, dt_month = mo, dt_day = d, dt_hour = h, dt_minute = mi,
               dt_second = sec, dt_micro = u, dt_offset = z\<rparr>
      | _ \<Rightarrow> Inl (ValueError ''Invalid isoformat string''))"

lemma take_pad_num [simp]: "take w (pad_num w n @ s) = pad_num w n"
  by simp

lemma iso_offset_cases: "iso_offset z = [] \<or> hd (iso_offset z) \<noteq> CHR ''.''"
  by (auto simp: iso_offset_def split: option.splits)

lemma parse_offset_iso_offset:
  assumes "case z of None \<Rightarrow> True | Some m \<Rightarrow> \<bar>m\<bar> < 1440"
  shows "parse_offset (iso_offset z) = Some z"
proof (cases z)
  case None
  then show ?thesis by (simp add: iso_offset_def parse_offset_def)
next
  case (Some m)
  with assms have b: "nat \<bar>m\<bar> div 60 < 100" "nat \<bar>m\<bar> mod 60 < 100" by auto
  have eq: "int (nat \<bar>m\<bar> div 60) * 60 + int (nat \<bar>m\<bar> mod 60) = \<bar>m\<bar>"
    by (simp add: zdiv_int zmod_int)
  show ?thesis
    using b eq by (auto simp: Some iso_offset_def parse_offset_def nth_append nth_Cons')
qed

lemma parse_tail_iso:
  assumes "u < 1000000" "case z of None \<Rightarrow> True | Some m \<Rightarrow> \<bar>m\<bar> < 1440"
  shows "parse_tail ((if u = 0 then [] else CHR ''.'' # pad_num 6 u) @ iso_offset z) = Some (u, z)"
  using assms(1) iso_offset_cases [of z] parse_offset_iso_offset [OF assms(2)]
  by (auto simp: parse_tail_def)

definition iso_fields :: "datetime \<Rightarrow> string" where
  "iso_fields d =
     pad_num 4 (dt_year d) @ CHR ''-'' # pad_num 2 (dt_month d) @ CHR ''-'' # pad_num 2 (dt_day d)
     @ CHR ''T'' # pad_num 2 (dt_hour d) @ CHR '':'' # pad_num 2 (dt_minute d)
     @ CHR '':'' # pad_num 2 (dt_second d)"

lemma length_iso_fields: "length (iso_fields d) = 19"
  by (simp add: iso_fields_def)

lemma isoformat_split:
  "isoformat d = iso_fields d
     @ (if dt_micro d = 0 then [] else CHR ''.'' # pad_num 6 (dt_micro d)) @ iso_offset (dt_offset d)"
  by (simp add: isoformat_def iso_fields_def)

lemma parse_fields_iso:
  assumes "dt_valid d"
  shows "parse_fields (iso_fields d)
     = Some (dt_year d, dt_month d, dt_day d, dt_hour d, dt_minute d, dt_second d)"
proof -
  from assms have b: "dt_year d < 10000" "dt_month d < 100" "dt_day d < 100" "dt_hour d < 100"
    "dt_minute d < 100" "dt_second d < 100"
    by (auto simp: dt_valid_def)
  show ?thesis
    unfolding parse_fields_def using b
    by (simp add: length_iso_fields) (simp add: iso_fields_def nth_append nth_Cons')
qed

text \<open>Reading back what \<open>isoformat\<close> wrote gives the same datetime.\<close>

lemma fromisoformat_isoformat:
  assumes "dt_valid d"
  shows "fromisoformat (isoformat d) = Inr d"
proof -
  have 1: "take 19 (isoformat d) = iso_fields d"
    by (simp add: isoformat_split length_iso_fields)
  have 2: "drop 19 (isoformat d)
      = (if dt_micro d = 0 then [] else CHR ''.'' # pad_num 6 (dt_micro d)) @ iso_offset (dt_offset d)"
    by (simp add: isoformat_split length_iso_fields)
  have 3: "parse_tail (drop 19 (isoformat d)) = Some (dt_micro d, dt_offset d)"
    unfolding 2 using assms by (intro parse_tail_iso) (auto simp: dt_valid_def)
  show ?thesis
    unfolding fromisoformat_def 1 3 using parse_fields_iso [OF assms] by simp
qed

lemma isoformat_nonempty: "isoformat d \<noteq> []"
  by (metis append_is_Nil_conv isoformat_split length_iso_fields list.size(3) zero_neq_numeral)

text \<open>Optional datetimes in JSON: \<open>value.isoformat() if value is not None else None\<close>.\<close>

fun jopt_dt :: "datetime option \<Rightarrow> json" where
  "jopt_dt None = JNull"
| "jopt_dt (Some d) = JStr (isoformat d)"

end
