(* ===== verification/Core_Types.thy ===== *)
theory Core_Types
  imports Py_Time
begin

text \<open>
  The value types of \<open>core/types\<close> that the modelled components exchange: the turn context
  (\<open>turn_context.py\<close>), tool schemas, calls and results (\<open>tool.py\<close>, \<open>ports/tool.py\<close>), chat
  messages (\<open>messages.py\<close>) and the enumerations of \<open>turn.py\<close>. Enumerations carry their wire value
  as a function to \<open>string\<close>.
\<close>

section \<open>Turn context\<close>

text \<open>The fields of the SDK's speaker observation that this program reads.\<close>

record speaker_observation =
  so_status :: string
  so_reason :: json
  so_person_id :: "string option"
  so_person_revision :: json
  so_confidence :: json
  so_turn_id :: json
  so_decision_version :: json
  so_audio_quality :: json

record turn_context =
  tx_owner_id :: string
  tx_companion_id :: string
  tx_device_id :: "string option"
  tx_memory_realm_id :: string
  tx_genome_id :: string
  tx_trace_id :: string
  tx_request_id :: string
  tx_person_id :: "string option"
  tx_identity_epoch :: "int option"
  tx_person_revision :: "int option"
  tx_schema_version :: string
  tx_genome_hash :: string
  tx_realizer_version :: string
  tx_locale :: string
  tx_memory_enabled :: bool
  tx_speaker_observation :: "speaker_observation option"
  tx_source_session_id :: "string option"
  tx_provisional_memory_save :: bool
  tx_provisional_memory_recall :: bool

definition nonempty_opt :: "string option \<Rightarrow> bool" where
  "nonempty_opt s = (case s of None \<Rightarrow> False | Some t \<Rightarrow> t \<noteq> [])"

text \<open>\<open>TurnContext.__post_init__\<close>: a provisional permission needs an isolated, bound Person session.\<close>

definition turn_context_post_init :: "turn_context \<Rightarrow> turn_context result" where
  "turn_context_post_init c =
     (if (tx_provisional_memory_save c \<or> tx_provisional_memory_recall c)
         \<and> (tx_memory_enabled c \<or> tx_owner_id c = [] \<or> \<not> nonempty_opt (tx_person_id c)
            \<or> (case tx_identity_epoch c of None \<Rightarrow> True | Some e \<Rightarrow> e < 0)
            \<or> (case tx_person_revision c of None \<Rightarrow> True | Some r \<Rightarrow> r < 1)
            \<or> \<not> nonempty_opt (tx_source_session_id c))
      then Inl (ValueError ''provisional save requires an isolated, bound Person session'')
      else Inr c)"

definition memory_write_enabled :: "turn_context \<Rightarrow> bool" where
  "memory_write_enabled c = (tx_memory_enabled c \<or> tx_provisional_memory_save c)"


section \<open>Enumerations\<close>

datatype input_modality = Voice | TextInput

fun modality_value :: "input_modality \<Rightarrow> string" where
  "modality_value Voice = ''voice''"
| "modality_value TextInput = ''text''"

datatype turn_trigger = USER_UTTERANCE | CONTINUATION | PROACTIVE_TRIGGER | SIGNAL_ONLY
  | COORDINATED_REPLY | SYSTEM_TRIGGER

fun trigger_value :: "turn_trigger \<Rightarrow> string" where
  "trigger_value USER_UTTERANCE = ''user_utterance''"
| "trigger_value CONTINUATION = ''continuation''"
| "trigger_value PROACTIVE_TRIGGER = ''proactive''"
| "trigger_value SIGNAL_ONLY = ''signal_only''"
| "trigger_value COORDINATED_REPLY = ''coordinated_reply''"
| "trigger_value SYSTEM_TRIGGER = ''system''"

datatype triage_kind = SIMPLE | COMPLEX_LONG | TOOL_DIRECT

fun triage_value :: "triage_kind \<Rightarrow> string" where
  "triage_value SIMPLE = ''simple''"
| "triage_value COMPLEX_LONG = ''complex_long''"
| "triage_value TOOL_DIRECT = ''tool_direct''"

datatype turn_status = OK | CANCELLED_TURN | ERRORED | HANDED_OFF

fun turn_status_value :: "turn_status \<Rightarrow> string" where
  "turn_status_value OK = ''ok''"
| "turn_status_value CANCELLED_TURN = ''cancelled''"
| "turn_status_value ERRORED = ''errored''"
| "turn_status_value HANDED_OFF = ''handed_off''"

datatype message_role = USER | ASSISTANT | SYSTEM_ROLE | TOOL | PROACTIVE

fun role_value :: "message_role \<Rightarrow> string" where
  "role_value USER = ''user''"
| "role_value ASSISTANT = ''assistant''"
| "role_value SYSTEM_ROLE = ''system''"
| "role_value TOOL = ''tool''"
| "role_value PROACTIVE = ''proactive''"

text \<open>\<open>MessageRole(value)\<close>.\<close>

definition role_of_value :: "string \<Rightarrow> message_role result" where
  "role_of_value s =
     (if s = ''user'' then Inr USER
      else if s = ''assistant'' then Inr ASSISTANT
      else if s = ''system'' then Inr SYSTEM_ROLE
      else if s = ''tool'' then Inr TOOL
      else if s = ''proactive'' then Inr PROACTIVE
      else Inl (ValueError (s @ '' is not a valid MessageRole'')))"

lemma role_of_value_role_value [simp]: "role_of_value (role_value r) = Inr r"
  by (cases r) (simp_all add: role_of_value_def)


section \<open>Tools\<close>

datatype permission = MEMORY_READ | MEMORY_WRITE | NETWORK | FILESYSTEM | SYSTEM_PERM | USER_DATA

fun permission_value :: "permission \<Rightarrow> string" where
  "permission_value MEMORY_READ = ''memory_read''"
| "permission_value MEMORY_WRITE = ''memory_write''"
| "permission_value NETWORK = ''network''"
| "permission_value FILESYSTEM = ''filesystem''"
| "permission_value SYSTEM_PERM = ''system''"
| "permission_value USER_DATA = ''user_data''"

text \<open>
  A parameter schema, in the JSON Schema subset the dispatcher validates: the keys it reads, each
  with the JSON type it has in the program's schemas.
\<close>

datatype jschema = JSchema
  (js_type: "string option")
  (js_required: "string list")
  (js_properties: "(string \<times> jschema) list")
  (js_additional_false: bool)
  (js_items: "jschema option")

record tool_schema =
  ts_name :: string
  ts_description :: utext
  ts_json_schema :: jschema
  ts_permissions :: "permission list"
  ts_timeout_s :: rat
  ts_side_effect :: bool
  ts_supports_dry_run :: bool
  ts_idempotency_key_template :: "string option"
  ts_llm_name :: "string option"

record tool_call =
  tc_id :: string
  tc_name :: string
  tc_arguments :: "(string \<times> json) list"

record tool_result =
  tr_call_id :: string
  tr_name :: string
  tr_ok :: bool
  tr_content :: json
  tr_error_code :: "string option"
  tr_error_message :: "string option"
  tr_latency_ms :: int
  tr_metadata :: "(string \<times> json) list"

text \<open>\<open>ToolResult(call_id=..., name=..., ok=False, error_code=..., error_message=...)\<close>.\<close>

definition failed_result :: "tool_call \<Rightarrow> string \<Rightarrow> string \<Rightarrow> tool_result" where
  "failed_result c code msg =
     \<lparr>tr_call_id = tc_id c, tr_name = tc_name c, tr_ok = False, tr_content = JNull,
      tr_error_code = Some code, tr_error_message = Some msg, tr_latency_ms = 0, tr_metadata = []\<rparr>"

lemma failed_result_simps [simp]:
  "tr_call_id (failed_result c code msg) = tc_id c"
  "tr_name (failed_result c code msg) = tc_name c"
  "tr_ok (failed_result c code msg) = False"
  "tr_error_code (failed_result c code msg) = Some code"
  by (simp_all add: failed_result_def)

text \<open>\<open>ToolInvocationContext\<close>, without the per-turn tool overlay, which the dispatcher alone reads.\<close>

record tool_ctx =
  tic_turn_context :: turn_context
  tic_input_modality :: input_modality
  tic_turn_id :: string
  tic_conversation_id :: "string option"
  tic_session_id :: "string option"
  tic_user_text :: "utext option"
  tic_companion_id :: "string option"
  tic_memory_realm_id :: "string option"
  tic_dry_run :: bool
  tic_denied_tools :: "string list"


section \<open>Chat messages\<close>

record chat_message =
  cm_id :: string
  cm_role :: message_role
  cm_content :: utext
  cm_created_at :: datetime
  cm_content_type :: string
  cm_tokens :: "int option"
  cm_model :: "string option"
  cm_tool_call_id :: "string option"
  cm_tool_name :: "string option"
  cm_tool_arguments :: "(string \<times> json) list option"
  cm_tool_calls :: "tool_call list"
  cm_metadata :: "(string \<times> json) list"

text \<open>A message with the dataclass defaults.\<close>

definition new_message :: "string \<Rightarrow> message_role \<Rightarrow> utext \<Rightarrow> datetime \<Rightarrow> chat_message" where
  "new_message mid r c t =
     \<lparr>cm_id = mid, cm_role = r, cm_content = c, cm_created_at = t, cm_content_type = ''text/plain'',
      cm_tokens = None, cm_model = None, cm_tool_call_id = None, cm_tool_name = None,
      cm_tool_arguments = None, cm_tool_calls = [], cm_metadata = []\<rparr>"

text \<open>\<open>with_content\<close>.\<close>

definition with_content :: "utext \<Rightarrow> chat_message \<Rightarrow> chat_message" where
  "with_content c m = m\<lparr>cm_content := c\<rparr>"

text \<open>\<open>f"msg_{turn_id}_{seq_in_turn}"\<close>, the id of a turn's message.\<close>

definition turn_message_id :: "string \<Rightarrow> int \<Rightarrow> string" where
  "turn_message_id turn_id s = ''msg_'' @ turn_id @ ''_'' @ int_str s"

lemma underscore_not_in_int_str: "CHR ''_'' \<notin> set (int_str i)"
proof -
  have "digit_char d \<noteq> CHR ''_''" if "d < 10" for d
  proof
    assume "digit_char d = CHR ''_''"
    with that have "digit_val (CHR ''_'') = Some d" by (metis digit_val_digit_char)
    then show False by (simp add: digit_val_def)
  qed
  then have "CHR ''_'' \<notin> set (nat_str n)" for n
    using nat_str_digits [of "CHR ''_''" n] by (metis (full_types))
  then show ?thesis by (simp add: int_str_def)
qed

lemma append_sep_inj:
  "x \<notin> set b \<Longrightarrow> x \<notin> set d \<Longrightarrow> a @ x # b = c @ x # d \<Longrightarrow> a = c \<and> b = d"
proof (induction a arbitrary: c)
  case Nil
  then show ?case by (cases c) auto
next
  case (Cons y a)
  then show ?case by (cases c) auto
qed

text \<open>Distinct (turn, position) pairs never share a message id.\<close>

lemma turn_message_id_inj:
  "turn_message_id t i = turn_message_id u j \<longleftrightarrow> t = u \<and> i = j"
  using append_sep_inj [of "CHR ''_''" "int_str i" "int_str j" t u] underscore_not_in_int_str int_str_inj
  by (auto simp: turn_message_id_def)

text \<open>\<open>speaker_source\<close> of \<open>domain/history/source.py\<close>.\<close>

definition speaker_source :: "speaker_observation option \<Rightarrow> json" where
  "speaker_source obs =
     (case obs of
        None \<Rightarrow> JDict [(''status'', JStr ''unrecorded'')]
      | Some s \<Rightarrow>
          JDict ([(''status'', JStr (so_status s)), (''reason'', so_reason s)]
             @ (if so_status s = ''identified'' \<and> nonempty_opt (so_person_id s)
                then [(''person_id'', jopt_str (so_person_id s))] else [])))"

end
