(* ===== verification/Py_Text.thy ===== *)
theory Py_Text
  imports Py_Prelude
begin

text \<open>
  Operations of Python's \<open>str\<close> on texts of any code points (\<open>utext\<close>), and splitting and joining.
\<close>

definition utext_of :: "string \<Rightarrow> utext" where
  "utext_of s = map of_char s"

lemma utext_of_Nil [simp]: "utext_of [] = []" and utext_of_append [simp]: "utext_of (s @ t) = utext_of s @ utext_of t"
  by (simp_all add: utext_of_def)

text \<open>\<open>str.isspace\<close> of one code point.\<close>

definition uspace :: "int \<Rightarrow> bool" where
  "uspace c \<longleftrightarrow>
     9 \<le> c \<and> c \<le> 13 \<or> 28 \<le> c \<and> c \<le> 32 \<or> c = 133 \<or> c = 160 \<or> c = 5760
     \<or> 8192 \<le> c \<and> c \<le> 8202 \<or> c = 8232 \<or> c = 8233 \<or> c = 8239 \<or> c = 8287 \<or> c = 12288"

definition ustrip :: "utext \<Rightarrow> utext" where
  "ustrip s = rev (dropWhile uspace (rev (dropWhile uspace s)))"

lemma ustrip_Nil [simp]: "ustrip [] = []"
  by (simp add: ustrip_def)

lemma ustrip_idem [simp]: "ustrip (ustrip s) = ustrip s"
proof -
  have "dropWhile uspace (dropWhile uspace s) = dropWhile uspace s" by (rule dropWhile_idem)
  from dropWhile_rev_stable [OF this] show ?thesis by (simp add: ustrip_def)
qed

lemma ustrip_empty: "ustrip s = [] \<longleftrightarrow> (\<forall>c \<in> set s. uspace c)"
proof
  assume "ustrip s = []"
  then have "\<forall>c \<in> set (rev (dropWhile uspace s)). uspace c"
    unfolding ustrip_def rev_is_Nil_conv dropWhile_eq_Nil_conv .
  then have "\<forall>c \<in> set (dropWhile uspace s). uspace c" unfolding set_rev .
  then show "\<forall>c \<in> set s. uspace c"
    by (metis Un_iff set_append set_takeWhileD takeWhile_dropWhile_id)
next
  assume "\<forall>c \<in> set s. uspace c"
  then have "dropWhile uspace s = []" by (simp add: dropWhile_eq_Nil_conv)
  then show "ustrip s = []" by (simp only: ustrip_def rev.simps dropWhile.simps)
qed

text \<open>\<open>s.split(c)\<close> for a one-character separator: one more part than separators.\<close>

fun py_split :: "'a \<Rightarrow> 'a list \<Rightarrow> 'a list list" where
  "py_split c [] = [[]]"
| "py_split c (x # xs) =
     (if x = c then [] # py_split c xs
      else (case py_split c xs of [] \<Rightarrow> [[x]] | p # ps \<Rightarrow> (x # p) # ps))"

text \<open>\<open>c.join(parts)\<close>.\<close>

fun py_join :: "'a list \<Rightarrow> 'a list list \<Rightarrow> 'a list" where
  "py_join c [] = []"
| "py_join c [p] = p"
| "py_join c (p # ps) = p @ c @ py_join c ps"

lemma py_split_not_Nil [simp]: "py_split c xs \<noteq> []"
  by (induction c xs rule: py_split.induct) (auto split: list.splits)

lemma py_join_Cons: "ps \<noteq> [] \<Longrightarrow> py_join c (p # ps) = p @ c @ py_join c ps"
  by (cases ps) simp_all

lemma py_join_split [simp]: "py_join [c] (py_split c xs) = xs"
proof (induction c xs rule: py_split.induct)
  case (2 c x xs)
  obtain p ps where s: "py_split c xs = p # ps" by (cases "py_split c xs") simp_all
  with 2 show ?case
    by (cases "x = c"; cases ps) (simp_all add: py_join_Cons)
qed simp

end
