(* ===== verification/Coord_Types.thy ===== *)
theory Coord_Types
  imports Core_Types Py_Text
begin

text \<open>
  The data of a scene in which several companions speak: members, messages, decisions, permits and
  the state of a \<open>CoordinationSession\<close> of \<open>app/interaction/coordination/__init__.py\<close>.

  The session is single threaded: a coroutine runs from one \<open>await\<close> to the next without
  interruption. Its tasks are therefore values, each at the \<open>await\<close> where it is suspended
  (\<open>round_pc\<close>), and the state holds the tasks that are alive. The decision request and its result
  are types of the SDK; the fields are those the session fills in or reads. Ids of \<open>uuid4\<close>, the
  validation of the SDK's constructor and \<open>validate_proposal\<close> are parameters (\<open>scene_ports\<close>).
\<close>

section \<open>Members, messages and decisions\<close>

record scene_role =
  role_title :: utext
  role_description :: utext

record team_member =
  mb_companion_id :: string
  mb_device_id :: string
  mb_description :: utext
  mb_role :: "scene_role option"
  mb_display_name :: utext

datatype author_kind = User_author | Companion_author | System_author

record public_message =
  pm_id :: string
  pm_kind :: author_kind
  pm_author :: string
  pm_text :: utext

record reply_candidate =
  cd_companion_id :: string
  cd_description :: utext
  cd_display_name :: utext

record decision_request =
  dq_decision_id :: string
  dq_context_ref :: string
  dq_context_version :: nat
  dq_membership_revision :: nat
  dq_cancellation_epoch :: nat
  dq_trigger :: public_message
  dq_user_request :: public_message
  dq_scene_goal :: utext
  dq_recent :: "public_message list"
  dq_candidates :: "reply_candidate list"
  dq_remaining_replies :: int
  dq_timeout_ms :: int

record speech_proposal =
  sp_action :: string
  sp_participants :: "string list"
  sp_instruction :: utext

record decision_result =
  dr_status :: string
  dr_proposal :: "speech_proposal option"
  dr_policy_version :: string
  dr_model_version :: string

text \<open>\<open>PlayedReply\<close>: what the reply adapter reports once the endpoint has played the speech.\<close>

record played_reply =
  pl_text :: utext
  pl_completed :: bool

record reply_task =
  rt_decision_id :: string
  rt_context_ref :: string
  rt_trigger :: public_message
  rt_public :: "public_message list"
  rt_action :: string
  rt_instruction :: utext
  rt_user_request :: "public_message option"
  rt_scene_goal :: utext

text \<open>\<open>Permit\<close>: the turn, the epoch and the companion its closures are bound to.\<close>

record reply_permit =
  pt_turn_id :: string
  pt_epoch :: nat
  pt_companion :: string


section \<open>Exceptions\<close>

datatype scene_exc = Cancelled_error | Raised py_error | Unavailable string | Team_failure string

fun scene_exc_type :: "scene_exc \<Rightarrow> string" where
  "scene_exc_type Cancelled_error = ''CancelledError''"
| "scene_exc_type (Raised e) = exc_type_name e"
| "scene_exc_type (Unavailable c) = ''DecisionUnavailable''"
| "scene_exc_type (Team_failure c) = ''CoordinationFailure''"

fun scene_exc_text :: "scene_exc \<Rightarrow> string" where
  "scene_exc_text Cancelled_error = ''''"
| "scene_exc_text (Raised e) = exc_message e"
| "scene_exc_text (Unavailable c) = c"
| "scene_exc_text (Team_failure c) = c"

fun is_timeout :: "scene_exc \<Rightarrow> bool" where
  "is_timeout (Raised (AsyncTimeoutError m)) = True"
| "is_timeout _ = False"


section \<open>State\<close>

datatype scene_state =
  Scene_waiting | Scene_recording | Scene_transcribing | Scene_deciding | Scene_responding
  | Scene_failed | Scene_closed

datatype scene_outcome =
  Out_waiting | Out_empty_input | Out_abstained | Out_finished | Out_clarification
  | Out_budget_exhausted | Out_error

datatype member_state = M_waiting | M_thinking | M_speaking | M_failed

text \<open>The facts \<open>_event\<close> and \<open>audit_record\<close> are called with; the last four reach the audit only.\<close>

datatype scene_fact =
    Ev_press string
  | Ev_stop_failed string nat string string
  | Ev_stopped string nat
  | Ev_release string
  | Ev_empty_input
  | Ev_decision string string "string list" string string
  | Ev_reply_started string string string string
  | Ev_reply_phase string member_state
  | Ev_reply_played string string string
  | Ev_waiting int
  | Ev_round_error string string
  | Ev_round_failed string
  | Ev_closed
  | Au_decision_requested decision_request
  | Au_decision_returned string decision_result
  | Au_decision_not_applied string string nat
  | Au_decision_validated string string

text \<open>
  Where a round of \<open>_run\<close> is suspended: not started yet, in \<open>transcribe\<close>, waiting for the stop tasks
  it was given, in \<open>decide\<close>, or in \<open>reply\<close>; with the local variables that are still read.
\<close>

datatype round_pc =
    At_begin "nat list"
  | At_transcribe "nat list"
  | At_stops "nat list" utext
  | At_decide public_message public_message int decision_request
  | At_reply public_message public_message int decision_request speech_proposal reply_task reply_permit

text \<open>A stop task holds the members whose stop has not returned yet.\<close>

datatype scene_task =
    Stop_task nat "team_member list"
  | Round_task nat string round_pc

fun task_epoch :: "scene_task \<Rightarrow> nat" where
  "task_epoch (Stop_task e ms) = e"
| "task_epoch (Round_task e c pc) = e"

record scene_config =
  sc_session_id :: string
  sc_input_device :: string
  sc_members :: "team_member list"
  sc_goal :: utext
  sc_reply_budget :: int
  sc_stop_timeout :: rat
  sc_stage_timeout :: rat

record scene_ports =
  so_new_id :: "nat \<Rightarrow> string"
  so_accepts :: "decision_request \<Rightarrow> bool"
  so_validate :: "decision_request \<Rightarrow> decision_result \<Rightarrow> string option"

record scene =
  sn_epoch :: nat
  sn_state :: scene_state
  sn_outcome :: scene_outcome
  sn_error_code :: string
  sn_member_states :: "(string \<times> member_state) list"
  sn_failures :: "(string \<times> string) list"
  sn_history :: "public_message list"
  sn_events :: "(nat \<times> scene_fact) list"
  sn_audit :: "(nat \<times> scene_fact) list"
  sn_captures :: "string list"
  sn_capture :: "string option"
  sn_held :: bool
  sn_closed :: bool
  sn_round :: "nat option"
  sn_tasks :: "nat \<rightharpoonup> scene_task"
  sn_stop_tasks :: "nat list"
  sn_active_turn :: "string option"
  sn_cancelled :: "nat list"
  sn_closing :: "(nat \<times> team_member list) option"
  sn_spawned :: nat
  sn_ids :: nat

text \<open>The checks of the constructor and the state it builds.\<close>

definition initial_scene :: "scene_config \<Rightarrow> scene" where
  "initial_scene cfg =
     \<lparr>sn_epoch = 0, sn_state = Scene_waiting, sn_outcome = Out_waiting, sn_error_code = [],
      sn_member_states = map (\<lambda>m. (mb_companion_id m, M_waiting)) (sc_members cfg),
      sn_failures = [], sn_history = [], sn_events = [], sn_audit = [], sn_captures = [],
      sn_capture = None, sn_held = False, sn_closed = False, sn_round = None, sn_tasks = Map.empty,
      sn_stop_tasks = [], sn_active_turn = None, sn_cancelled = [], sn_closing = None,
      sn_spawned = 0, sn_ids = 0\<rparr>"

definition open_scene :: "scene_config \<Rightarrow> scene result" where
  "open_scene cfg =
     (let members = sc_members cfg; devices = map mb_device_id members in
      if sc_session_id cfg = [] \<or> sc_input_device cfg = [] \<or> members = []
      then Inl (ValueError ''session, input and members required'')
      else if length members > 16 \<or> \<not> distinct (map mb_companion_id members)
      then Inl (ValueError ''unique bounded Companion membership required'')
      else if sc_input_device cfg \<in> set devices \<or> \<not> distinct devices
      then Inl (ValueError ''input and response devices must be distinct'')
      else if \<exists>m \<in> set members. mb_companion_id m = [] \<or> mb_device_id m = []
      then Inl (ValueError ''member identities required'')
      else if \<not> (1 \<le> sc_reply_budget cfg \<and> sc_reply_budget cfg \<le> 32)
              \<or> sc_stop_timeout cfg \<le> 0 \<or> sc_stage_timeout cfg \<le> 0
      then Inl (ValueError ''bounded positive budgets required'')
      else Inr (initial_scene cfg))"

end
