(* ===== verification/Coord_Session.thy ===== *)
theory Coord_Session
  imports Coord_Types
begin

text \<open>
  \<open>CoordinationSession\<close>: the operations of the input, the stop barrier, the rounds and the permits of
  their replies, in the order of \<open>app/interaction/coordination/__init__.py\<close>. A port call is an answer
  that arrives later (\<open>round_answer\<close>, \<open>stop_reply\<close>); the environment may answer with anything, late,
  and after the task was cancelled. \<open>scene_step\<close> is the relation of all of them.
\<close>

section \<open>Records of what happened\<close>

definition audit_record :: "nat \<Rightarrow> scene_fact \<Rightarrow> scene \<Rightarrow> scene" where
  "audit_record ep ev s = s\<lparr>sn_audit := sn_audit s @ [(ep, ev)]\<rparr>"

definition scene_event :: "scene_fact \<Rightarrow> scene \<Rightarrow> scene" where
  "scene_event ev s =
     (let s1 = audit_record (sn_epoch s) ev s in
      s1\<lparr>sn_events := py_tail 512 (sn_events s1 @ [(sn_epoch s1, ev)])\<rparr>)"


section \<open>Stopping the members\<close>

text \<open>\<open>_spawn\<close> and \<open>_dispatch_stop\<close>: a task that calls \<open>stop\<close> of every member with the epoch.\<close>

definition dispatch_stop :: "scene_config \<Rightarrow> scene \<Rightarrow> scene" where
  "dispatch_stop cfg s =
     s\<lparr>sn_tasks := (sn_tasks s)(sn_spawned s \<mapsto> Stop_task (sn_epoch s) (sc_members cfg)),
       sn_stop_tasks := sn_stop_tasks s @ [sn_spawned s],
       sn_spawned := Suc (sn_spawned s)\<rparr>"

text \<open>One member's stop has returned, or has raised: only the current epoch changes its health.\<close>

definition stop_reply :: "nat \<Rightarrow> team_member \<Rightarrow> scene_exc option \<Rightarrow> scene \<Rightarrow> scene" where
  "stop_reply ep m answer s =
     (case answer of
        Some e \<Rightarrow>
          scene_event (Ev_stop_failed (mb_device_id m) ep (scene_exc_type e) (scene_exc_text e))
            (if ep = sn_epoch s
             then s\<lparr>sn_failures := dict_put (mb_companion_id m)
                                  (''stop:'' @ scene_exc_type e @ '':'' @ scene_exc_text e) (sn_failures s),
                    sn_member_states := dict_put (mb_companion_id m) M_failed (sn_member_states s)\<rparr>
             else s)
      | None \<Rightarrow>
          scene_event (Ev_stopped (mb_device_id m) ep)
            (if ep = sn_epoch s
             then s\<lparr>sn_failures := dict_del (mb_companion_id m) (sn_failures s),
                    sn_member_states := dict_put (mb_companion_id m) M_waiting (sn_member_states s)\<rparr>
             else s))"

definition end_task :: "nat \<Rightarrow> scene \<Rightarrow> scene" where
  "end_task t s =
     s\<lparr>sn_tasks := (sn_tasks s)(t := None), sn_stop_tasks := removeAll t (sn_stop_tasks s)\<rparr>"

definition set_task :: "nat \<Rightarrow> scene_task \<Rightarrow> scene \<Rightarrow> scene" where
  "set_task t task s = s\<lparr>sn_tasks := (sn_tasks s)(t \<mapsto> task)\<rparr>"

text \<open>A stop task ends when every member has answered.\<close>

definition stop_answer :: "nat \<Rightarrow> nat \<Rightarrow> team_member list \<Rightarrow> team_member \<Rightarrow> scene_exc option \<Rightarrow> scene \<Rightarrow> scene" where
  "stop_answer t ep pending m answer s =
     (let s1 = stop_reply ep m answer s; rest = removeAll m pending in
      if rest = [] then end_task t s1 else set_task t (Stop_task ep rest) s1)"


section \<open>The input: press and release\<close>

definition cancel_round :: "scene \<Rightarrow> scene" where
  "cancel_round s =
     (case sn_round s of
        Some t \<Rightarrow> s\<lparr>sn_cancelled := List.insert t (sn_cancelled s)\<rparr>
      | None \<Rightarrow> s)"

definition press :: "scene_config \<Rightarrow> string \<Rightarrow> string \<Rightarrow> scene \<Rightarrow> nat result \<times> scene" where
  "press cfg device cap s =
     (if sn_closed s \<or> device \<noteq> sc_input_device cfg
      then (Inl (ValueError ''input is not authorized for this session''), s)
      else if sn_capture s = Some cap \<and> sn_held s then (Inr (sn_epoch s), s)
      else if cap = [] \<or> cap \<in> set (sn_captures s) \<or> length (sn_captures s) \<ge> 256
      then (Inl (ValueError ''invalid/replayed capture or session capture budget exhausted''), s)
      else
        let s1 = s\<lparr>sn_captures := List.insert cap (sn_captures s), sn_capture := Some cap, sn_held := True,
                   sn_epoch := Suc (sn_epoch s), sn_active_turn := None\<rparr>;
            s2 = cancel_round s1;
            s3 = s2\<lparr>sn_state := Scene_recording, sn_outcome := Out_waiting, sn_error_code := [],
                    sn_member_states :=
                      map (\<lambda>m. (mb_companion_id m,
                                if mb_companion_id m \<in> fst ` set (sn_failures s2) then M_failed else M_waiting))
                        (sc_members cfg)\<rparr>;
            s4 = dispatch_stop cfg (scene_event (Ev_press cap) s3)
        in (Inr (sn_epoch s4), s4))"

definition release :: "scene_config \<Rightarrow> string \<Rightarrow> string \<Rightarrow> scene \<Rightarrow> nat option result \<times> scene" where
  "release cfg device cap s =
     (if device \<noteq> sc_input_device cfg \<or> sn_closed s
      then (Inl (ValueError ''input is not authorized for this session''), s)
      else if sn_capture s \<noteq> Some cap \<or> \<not> sn_held s then (Inr None, s)
      else
        let s1 = scene_event (Ev_release cap) (s\<lparr>sn_held := False, sn_state := Scene_transcribing\<rparr>);
            t = sn_spawned s1
        in (Inr (Some t),
            s1\<lparr>sn_tasks := (sn_tasks s1)(t \<mapsto> Round_task (sn_epoch s1) cap (At_begin (sn_stop_tasks s1))),
               sn_spawned := Suc t, sn_round := Some t\<rparr>))"


section \<open>Permits and failures of a round\<close>

definition round_valid :: "nat \<Rightarrow> scene \<Rightarrow> bool" where
  "round_valid ep s \<longleftrightarrow> \<not> sn_closed s \<and> \<not> sn_held s \<and> ep = sn_epoch s"

text \<open>\<open>permit.current()\<close>, \<open>permit.check()\<close> and \<open>permit.phase(value)\<close>.\<close>

definition permit_current :: "reply_permit \<Rightarrow> scene \<Rightarrow> bool" where
  "permit_current p s \<longleftrightarrow>
     round_valid (pt_epoch p) s \<and> sn_active_turn s = Some (pt_turn_id p)
     \<and> pt_companion p \<notin> fst ` set (sn_failures s)"

definition set_member :: "string \<Rightarrow> member_state \<Rightarrow> scene \<Rightarrow> scene" where
  "set_member c v s = s\<lparr>sn_member_states := dict_put c v (sn_member_states s)\<rparr>"

definition permit_phase :: "reply_permit \<Rightarrow> string \<Rightarrow> scene \<Rightarrow> (scene_exc + unit) \<times> scene" where
  "permit_phase p v s =
     (if \<not> permit_current p s then (Inl Cancelled_error, s)
      else if v = ''thinking'' \<or> v = ''speaking''
      then let st = (if v = ''thinking'' then M_thinking else M_speaking) in
           (Inr (), scene_event (Ev_reply_phase (pt_companion p) st) (set_member (pt_companion p) st s))
      else (Inl (Raised (ValueError ''invalid reply phase'')), s))"

text \<open>The members that are thinking or speaking are given another state.\<close>

definition settle_members :: "member_state \<Rightarrow> scene \<Rightarrow> scene" where
  "settle_members v s =
     s\<lparr>sn_member_states :=
         map (\<lambda>(c, st). (c, if st = M_thinking \<or> st = M_speaking then v else st)) (sn_member_states s)\<rparr>"

definition fail_round :: "scene_config \<Rightarrow> string \<Rightarrow> bool \<Rightarrow> scene \<Rightarrow> scene" where
  "fail_round cfg reason stop s =
     (let s1 = scene_event (Ev_round_failed reason)
                 (s\<lparr>sn_state := Scene_failed, sn_outcome := Out_error, sn_error_code := reason\<rparr>);
          s2 = settle_members M_failed (s1\<lparr>sn_epoch := Suc (sn_epoch s1), sn_active_turn := None\<rparr>)
      in if stop then dispatch_stop cfg s2 else s2)"


section \<open>A round\<close>

type_synonym round_result = "(scene_exc + round_pc option) \<times> scene"

text \<open>\<open>uuid4().hex\<close>: the next of the session's ids.\<close>

definition take_id :: "scene_ports \<Rightarrow> scene \<Rightarrow> string \<times> scene" where
  "take_id ports s = (so_new_id ports (sn_ids s), s\<lparr>sn_ids := Suc (sn_ids s)\<rparr>)"

definition display_name :: "team_member \<Rightarrow> utext" where
  "display_name m =
     (if mb_display_name m \<noteq> [] then mb_display_name m
      else case mb_role m of Some r \<Rightarrow> role_title r | None \<Rightarrow> mb_description m)"

definition healthy_candidates :: "scene_config \<Rightarrow> scene \<Rightarrow> reply_candidate list" where
  "healthy_candidates cfg s =
     map (\<lambda>m. \<lparr>cd_companion_id = mb_companion_id m, cd_description = mb_description m,
               cd_display_name = display_name m\<rparr>)
       (filter (\<lambda>m. mb_companion_id m \<notin> fst ` set (sn_failures s)) (sc_members cfg))"

definition decision_timeout_ms :: "scene_config \<Rightarrow> int" where
  "decision_timeout_ms cfg = min 60000 (max 1 \<lfloor>sc_stage_timeout cfg * 1000\<rfloor>)"

definition open_decision ::
  "scene_config \<Rightarrow> scene_ports \<Rightarrow> nat \<Rightarrow> public_message \<Rightarrow> public_message \<Rightarrow> int \<Rightarrow> scene \<Rightarrow> round_result" where
  "open_decision cfg ports ep trigger user remaining s =
     (if \<not> round_valid ep s then (Inl Cancelled_error, s)
      else if healthy_candidates cfg s = [] then (Inl (Raised (RuntimeError ''no healthy response devices'')), s)
      else
        let (did, s1) = take_id ports (s\<lparr>sn_state := Scene_deciding\<rparr>);
            rq = \<lparr>dq_decision_id = did, dq_context_ref = sc_session_id cfg,
                  dq_context_version = length (sn_history s1), dq_membership_revision = 1,
                  dq_cancellation_epoch = ep, dq_trigger = trigger, dq_user_request = user,
                  dq_scene_goal = sc_goal cfg, dq_recent = py_tail 64 (sn_history s1),
                  dq_candidates = healthy_candidates cfg s1, dq_remaining_replies = remaining,
                  dq_timeout_ms = decision_timeout_ms cfg\<rparr>
        in if \<not> so_accepts ports rq then (Inl (Raised (ValidationError [])), s1)
           else (Inr (Some (At_decide trigger user remaining rq)), audit_record ep (Au_decision_requested rq) s1))"

text \<open>After the loop: the scene waits for its user again.\<close>

definition leave_loop :: "nat \<Rightarrow> int \<Rightarrow> scene_outcome \<Rightarrow> scene \<Rightarrow> round_result" where
  "leave_loop ep remaining out s =
     (let s1 = s\<lparr>sn_outcome := out\<rparr> in
      if \<not> round_valid ep s1 then (Inl Cancelled_error, s1)
      else (Inr None, scene_event (Ev_waiting remaining) (s1\<lparr>sn_state := Scene_waiting\<rparr>)))"

definition next_turn ::
  "scene_config \<Rightarrow> scene_ports \<Rightarrow> nat \<Rightarrow> public_message \<Rightarrow> public_message \<Rightarrow> int \<Rightarrow> scene \<Rightarrow> round_result" where
  "next_turn cfg ports ep trigger user remaining s =
     (if remaining = 0 then leave_loop ep remaining Out_budget_exhausted s
      else open_decision cfg ports ep trigger user remaining s)"

text \<open>The silence barrier: an unconfirmed member ends the round before anything is decided.\<close>

definition after_stops ::
  "scene_config \<Rightarrow> scene_ports \<Rightarrow> nat \<Rightarrow> string \<Rightarrow> utext \<Rightarrow> scene \<Rightarrow> round_result" where
  "after_stops cfg ports ep cap txt s =
     (if \<not> round_valid ep s then (Inl Cancelled_error, s)
      else if sn_failures s \<noteq> [] then (Inr None, fail_round cfg ''TEAM_STOP_UNCONFIRMED'' False s)
      else if ustrip txt = []
      then (Inr None, scene_event Ev_empty_input (s\<lparr>sn_state := Scene_waiting, sn_outcome := Out_empty_input\<rparr>))
      else
        let trigger = \<lparr>pm_id = cap, pm_kind = User_author, pm_author = sc_input_device cfg, pm_text = txt\<rparr>
        in next_turn cfg ports ep trigger trigger (sc_reply_budget cfg)
             (s\<lparr>sn_history := sn_history s @ [trigger]\<rparr>))"

definition on_text ::
  "scene_config \<Rightarrow> scene_ports \<Rightarrow> nat \<Rightarrow> string \<Rightarrow> nat list \<Rightarrow> utext \<Rightarrow> scene \<Rightarrow> round_result" where
  "on_text cfg ports ep cap stops txt s =
     (if \<not> round_valid ep s then (Inl Cancelled_error, s)
      else if stops \<noteq> [] then (Inr (Some (At_stops stops txt)), s)
      else after_stops cfg ports ep cap txt s)"

text \<open>The decision has not been applied: it is recorded, and the exception goes on.\<close>

definition decision_dropped :: "nat \<Rightarrow> decision_request \<Rightarrow> scene_exc \<Rightarrow> scene \<Rightarrow> round_result" where
  "decision_dropped ep rq e s =
     (Inl e, audit_record ep (Au_decision_not_applied (dq_decision_id rq) (scene_exc_type e) (sn_epoch s)) s)"

text \<open>A validated proposal to speak: its member is looked up and gets a permit of its own.\<close>

definition start_reply ::
  "scene_config \<Rightarrow> scene_ports \<Rightarrow> nat \<Rightarrow> public_message \<Rightarrow> public_message \<Rightarrow> int \<Rightarrow> decision_request
     \<Rightarrow> speech_proposal \<Rightarrow> scene \<Rightarrow> round_result" where
  "start_reply cfg ports ep trigger user remaining rq prop s =
     (case sp_participants prop of
        [] \<Rightarrow> (Inl (Raised (OtherError ''IndexError'' ''tuple index out of range'')), s)
      | c # _ \<Rightarrow>
          if \<not> round_valid ep s then (Inl Cancelled_error, s)
          else if c \<in> fst ` set (sn_failures s)
          then (Inl (Raised (RuntimeError ''response device is quarantined'')), s)
          else
            (case find (\<lambda>m. mb_companion_id m = c) (sc_members cfg) of
               None \<Rightarrow> (Inl (Raised (OtherError ''StopIteration'' [])), s)
             | Some m \<Rightarrow>
                 let (t, s1) = take_id ports s;
                     s2 = set_member c M_thinking (s1\<lparr>sn_active_turn := Some t, sn_state := Scene_responding\<rparr>);
                     s3 = scene_event (Ev_reply_started (dq_decision_id rq) c (mb_device_id m) t) s2;
                     task = \<lparr>rt_decision_id = dq_decision_id rq, rt_context_ref = sc_session_id cfg,
                             rt_trigger = dq_trigger rq, rt_public = py_tail 64 (sn_history s3),
                             rt_action = sp_action prop, rt_instruction = sp_instruction prop,
                             rt_user_request = Some user, rt_scene_goal = sc_goal cfg\<rparr>
                 in (Inr (Some (At_reply trigger user remaining rq prop task
                        \<lparr>pt_turn_id = t, pt_epoch = ep, pt_companion = c\<rparr>)), s3)))"

definition on_decision ::
  "scene_config \<Rightarrow> scene_ports \<Rightarrow> nat \<Rightarrow> public_message \<Rightarrow> public_message \<Rightarrow> int \<Rightarrow> decision_request
     \<Rightarrow> decision_result \<Rightarrow> scene \<Rightarrow> round_result" where
  "on_decision cfg ports ep trigger user remaining rq res s =
     (let s1 = audit_record ep (Au_decision_returned (dq_decision_id rq) res) s in
      if \<not> round_valid ep s1 then decision_dropped ep rq Cancelled_error s1
      else
        (case so_validate ports rq res of
           Some msg \<Rightarrow> decision_dropped ep rq (Raised (ValueError msg)) s1
         | None \<Rightarrow>
             let s2 = audit_record ep (Au_decision_validated (dq_decision_id rq) (dr_status res)) s1 in
             (case dr_proposal res of
                None \<Rightarrow> leave_loop ep remaining Out_abstained s2
              | Some prop \<Rightarrow>
                  let s3 = scene_event (Ev_decision (dq_decision_id rq) (sp_action prop) (sp_participants prop)
                                          (dr_policy_version res) (dr_model_version res)) s2 in
                  if sp_action prop = ''wait'' \<or> sp_action prop = ''finish''
                  then leave_loop ep remaining
                         (if sp_action prop = ''finish'' then Out_finished else Out_waiting) s3
                  else start_reply cfg ports ep trigger user remaining rq prop s3)))"

text \<open>The reply has returned: only speech that was played to its end enters the history.\<close>

definition on_reply ::
  "scene_config \<Rightarrow> scene_ports \<Rightarrow> nat \<Rightarrow> public_message \<Rightarrow> int \<Rightarrow> decision_request \<Rightarrow> speech_proposal
     \<Rightarrow> reply_permit \<Rightarrow> played_reply \<Rightarrow> scene \<Rightarrow> round_result" where
  "on_reply cfg ports ep user remaining rq prop p played s =
     (if \<not> permit_current p s then (Inl Cancelled_error, s)
      else
        let s1 = s\<lparr>sn_active_turn := None\<rparr> in
        if \<not> pl_completed played then (Inl (Team_failure ''TEAM_PLAYBACK_UNCONFIRMED''), s1)
        else
          let trigger = \<lparr>pm_id = pt_turn_id p, pm_kind = Companion_author, pm_author = pt_companion p,
                         pm_text = pl_text played\<rparr>;
              s2 = set_member (pt_companion p) M_waiting (s1\<lparr>sn_history := sn_history s1 @ [trigger]\<rparr>);
              s3 = scene_event (Ev_reply_played (dq_decision_id rq) (pt_companion p) (pt_turn_id p)) s2
          in if sp_action prop = ''clarify'' then leave_loop ep (remaining - 1) Out_clarification s3
             else next_turn cfg ports ep trigger user (remaining - 1) s3)"

text \<open>The handlers of \<open>_run\<close> and its \<open>finally\<close>.\<close>

fun failure_code :: "scene_exc \<Rightarrow> scene \<Rightarrow> string" where
  "failure_code (Unavailable c) s = c"
| "failure_code (Team_failure c) s = c"
| "failure_code e s =
     (if is_timeout e \<and> sn_state s = Scene_deciding then ''DECISION_TIMEOUT'' else ''TEAM_ROUND_FAILED'')"

definition round_raised :: "scene_config \<Rightarrow> nat \<Rightarrow> scene_exc \<Rightarrow> scene \<Rightarrow> scene" where
  "round_raised cfg ep e s =
     (if \<not> round_valid ep s then s
      else if e = Cancelled_error then fail_round cfg ''cancelled'' True s
      else
        let s1 = scene_event (Ev_round_error (scene_exc_type e) (scene_exc_text e)) s
        in fail_round cfg (failure_code e s1) True s1)"

definition round_finally :: "nat \<Rightarrow> scene \<Rightarrow> scene" where
  "round_finally ep s = (if ep = sn_epoch s then settle_members M_waiting s else s)"

definition settle_round :: "scene_config \<Rightarrow> nat \<Rightarrow> nat \<Rightarrow> string \<Rightarrow> round_result \<Rightarrow> scene" where
  "settle_round cfg t ep cap r =
     (case r of
        (Inl e, s) \<Rightarrow> end_task t (round_finally ep (round_raised cfg ep e s))
      | (Inr None, s) \<Rightarrow> end_task t (round_finally ep s)
      | (Inr (Some pc), s) \<Rightarrow> set_task t (Round_task ep cap pc) s)"

text \<open>What the port a round is waiting for may answer.\<close>

datatype round_answer =
    Got_text utext
  | Got_decision decision_result
  | Got_played played_reply
  | Got_exc scene_exc

fun answer_round ::
  "scene_config \<Rightarrow> scene_ports \<Rightarrow> nat \<Rightarrow> string \<Rightarrow> round_pc \<Rightarrow> round_answer \<Rightarrow> scene \<Rightarrow> round_result option" where
  "answer_round cfg ports ep cap (At_transcribe stops) (Got_text txt) s =
     Some (on_text cfg ports ep cap stops txt s)"
| "answer_round cfg ports ep cap (At_transcribe stops) (Got_exc e) s = Some (Inl e, s)"
| "answer_round cfg ports ep cap (At_decide trigger user remaining rq) (Got_decision res) s =
     Some (on_decision cfg ports ep trigger user remaining rq res s)"
| "answer_round cfg ports ep cap (At_decide trigger user remaining rq) (Got_exc e) s =
     Some (decision_dropped ep rq e s)"
| "answer_round cfg ports ep cap (At_reply trigger user remaining rq prop task p) (Got_played played) s =
     Some (on_reply cfg ports ep user remaining rq prop p played s)"
| "answer_round cfg ports ep cap (At_reply trigger user remaining rq prop task p) (Got_exc e) s = Some (Inl e, s)"
| "answer_round cfg ports ep cap pc answer s = None"


section \<open>Closing\<close>

text \<open>
  \<open>close\<close> revokes first, cancels every task (a task that is done ignores it: all ids spawned so far are
  marked) and stops every member once more; its own \<open>_stop_all\<close> is
  kept in \<open>sn_closing\<close>. Then it waits for the tasks, at most the stop timeout, and says closed.
\<close>

definition close_scene :: "scene_config \<Rightarrow> scene \<Rightarrow> scene" where
  "close_scene cfg s =
     (if sn_closed s then s
      else s\<lparr>sn_closed := True, sn_held := False, sn_epoch := Suc (sn_epoch s), sn_state := Scene_closed,
             sn_active_turn := None, sn_cancelled := [0..<sn_spawned s],
             sn_closing := Some (Suc (sn_epoch s), sc_members cfg)\<rparr>)"

definition close_answer :: "nat \<Rightarrow> team_member list \<Rightarrow> team_member \<Rightarrow> scene_exc option \<Rightarrow> scene \<Rightarrow> scene" where
  "close_answer ep pending m answer s =
     (stop_reply ep m answer s)\<lparr>sn_closing := Some (ep, removeAll m pending)\<rparr>"

definition close_done :: "scene \<Rightarrow> scene" where
  "close_done s = scene_event Ev_closed (s\<lparr>sn_closing := None\<rparr>)"


section \<open>The steps of a scene\<close>

text \<open>
  The steps interleave freely. A reply reports its phases through its permit while it runs, as the
  presentation of \<open>app/transport/coordination.py\<close> does.
\<close>

definition stops_done :: "nat list \<Rightarrow> scene \<Rightarrow> bool" where
  "stops_done stops s \<longleftrightarrow> (\<forall>t \<in> set stops. sn_tasks s t = None)"

inductive scene_step :: "scene_config \<Rightarrow> scene_ports \<Rightarrow> scene \<Rightarrow> scene \<Rightarrow> bool" for cfg ports where
  pressed: "scene_step cfg ports s (snd (press cfg device cap s))"
| released: "scene_step cfg ports s (snd (release cfg device cap s))"
| stop_answered:
    "sn_tasks s t = Some (Stop_task ep pending) \<Longrightarrow> m \<in> set pending
     \<Longrightarrow> scene_step cfg ports s (stop_answer t ep pending m answer s)"
| stop_cancelled:
    "sn_tasks s t = Some (Stop_task ep pending) \<Longrightarrow> t \<in> set (sn_cancelled s)
     \<Longrightarrow> scene_step cfg ports s (end_task t s)"
| round_killed:
    "sn_tasks s t = Some (Round_task ep cap (At_begin stops)) \<Longrightarrow> t \<in> set (sn_cancelled s)
     \<Longrightarrow> scene_step cfg ports s (end_task t s)"
| round_begun:
    "sn_tasks s t = Some (Round_task ep cap (At_begin stops)) \<Longrightarrow> t \<notin> set (sn_cancelled s)
     \<Longrightarrow> scene_step cfg ports s (set_task t (Round_task ep cap (At_transcribe stops)) s)"
| round_answered:
    "sn_tasks s t = Some (Round_task ep cap pc) \<Longrightarrow> answer_round cfg ports ep cap pc answer s = Some r
     \<Longrightarrow> scene_step cfg ports s (settle_round cfg t ep cap r)"
| stops_awaited:
    "sn_tasks s t = Some (Round_task ep cap (At_stops stops txt)) \<Longrightarrow> stops_done stops s
     \<Longrightarrow> t \<notin> set (sn_cancelled s)
     \<Longrightarrow> scene_step cfg ports s (settle_round cfg t ep cap (after_stops cfg ports ep cap txt s))"
| wait_cancelled:
    "sn_tasks s t = Some (Round_task ep cap (At_stops stops txt)) \<Longrightarrow> t \<in> set (sn_cancelled s)
     \<Longrightarrow> scene_step cfg ports s (settle_round cfg t ep cap (Inl Cancelled_error, s))"
| phase_reported:
    "sn_tasks s t = Some (Round_task ep cap (At_reply trigger user remaining rq pr task p))
     \<Longrightarrow> scene_step cfg ports s (snd (permit_phase p v s))"
| closed:
    "scene_step cfg ports s (close_scene cfg s)"
| close_answered:
    "sn_closing s = Some (ep, pending) \<Longrightarrow> m \<in> set pending
     \<Longrightarrow> scene_step cfg ports s (close_answer ep pending m answer s)"
| close_ended:
    "sn_closing s = Some (ep, []) \<Longrightarrow> scene_step cfg ports s (close_done s)"

inductive scene_steps :: "scene_config \<Rightarrow> scene_ports \<Rightarrow> scene \<Rightarrow> scene \<Rightarrow> bool" for cfg ports s where
  stay: "scene_steps cfg ports s s"
| go: "scene_steps cfg ports s s' \<Longrightarrow> scene_step cfg ports s' s'' \<Longrightarrow> scene_steps cfg ports s s''"

text \<open>The scenes a session that was opened can get into.\<close>

definition scene_reachable :: "scene_config \<Rightarrow> scene_ports \<Rightarrow> scene \<Rightarrow> bool" where
  "scene_reachable cfg ports s \<longleftrightarrow> (\<exists>s0. open_scene cfg = Inr s0 \<and> scene_steps cfg ports s0 s)"

end
