(* ===== verification/Coord_Stream.thy ===== *)
theory Coord_Stream
  imports Coord_Session
begin

text \<open>
  \<open>CoordinationStream\<close> of \<open>app/transport/coordination.py\<close>: the adapter between the frames of a client
  and a \<open>CoordinationSession\<close>. Its state holds the receipts it waits for, the transcript of the current
  capture, the queue of outbound frames and the session. A coroutine is split at its awaits: \<open>stop\<close>
  into the request and the receipt, \<open>present\<close> into the start, one event, the end and the receipt. A
  call that has to wait for a reply slot is \<open>None\<close>.
\<close>

section \<open>Frames and state\<close>

datatype outbound_frame =
    F_prepared string
  | F_stop string string nat "string option"
  | F_reply_start string string string string nat
  | F_reply_delta string string nat string utext
  | F_reply_end string string nat string
  | F_capturing string nat
  | F_state string scene_state "(string \<times> member_state) list" nat scene_outcome string

record queued_frame =
  qf_priority :: nat
  qf_sequence :: nat
  qf_permit :: "reply_permit option"
  qf_frame :: outbound_frame
  qf_slot :: bool

datatype receipt_result = Completed_result | Other_result string

datatype inbound_frame =
    In_receipt string string receipt_result string string
  | In_speaking string string
  | In_close
  | In_press string
  | In_release string
  | In_transcript string utext

record pending_receipt =
  pr_device_id :: string
  pr_future :: "bool option"
  pr_permit :: "reply_permit option"
  pr_completion_allowed :: bool
  pr_error_code :: string

datatype transcript_future = Tr_pending | Tr_text utext | Tr_cancelled

record team_stream =
  ts_sequence :: nat
  ts_outbound :: "queued_frame list"
  ts_slots :: nat
  ts_pending :: "(string \<times> pending_receipt) list"
  ts_capture :: "string option"
  ts_capture_epochs :: "(nat \<times> string) list"
  ts_transcript :: "transcript_future option"
  ts_released :: bool
  ts_connected :: bool
  ts_closing :: bool
  ts_closed :: bool
  ts_session :: scene
  ts_sent :: "outbound_frame list"

text \<open>A stream around a session that was prepared; \<open>ts_sent\<close> is what \<open>send\<close> was called with.\<close>

definition new_stream :: "scene \<Rightarrow> team_stream" where
  "new_stream s =
     \<lparr>ts_sequence = 0, ts_outbound = [], ts_slots = 64, ts_pending = [], ts_capture = None, ts_capture_epochs = [],
      ts_transcript = None, ts_released = False, ts_connected = True, ts_closing = False, ts_closed = False,
      ts_session = s, ts_sent = []\<rparr>"

type_synonym 'a streamed = "(scene_exc + 'a) \<times> team_stream"


section \<open>Writing\<close>

text \<open>\<open>emit\<close>: \<open>put_nowait\<close> on a priority queue of at most 128 frames.\<close>

definition emit_frame :: "outbound_frame \<Rightarrow> reply_permit option \<Rightarrow> bool \<Rightarrow> bool \<Rightarrow> team_stream \<Rightarrow> unit streamed" where
  "emit_frame f permit urgent slot ts =
     (if \<not> ts_connected ts then (Inl (Raised (OtherError ''ConnectionError'' ''role-group stream disconnected'')), ts)
      else
        let ts1 = ts\<lparr>ts_sequence := Suc (ts_sequence ts)\<rparr> in
        if length (ts_outbound ts1) \<ge> 128 then (Inl (Raised (OtherError ''QueueFull'' [])), ts1)
        else (Inr (), ts1\<lparr>ts_outbound := ts_outbound ts1
                @ [\<lparr>qf_priority = (if urgent then 0 else 1), qf_sequence = ts_sequence ts1, qf_permit = permit,
                    qf_frame = f, qf_slot = slot\<rparr>]\<rparr>))"

text \<open>\<open>emit_reply\<close>: waits for one of 64 slots, checks the permit, and gives the slot back when it raises.\<close>

definition emit_reply :: "outbound_frame \<Rightarrow> reply_permit \<Rightarrow> team_stream \<Rightarrow> unit streamed option" where
  "emit_reply f permit ts =
     (if ts_slots ts = 0 then None
      else
        let ts1 = ts\<lparr>ts_slots := ts_slots ts - 1\<rparr> in
        if \<not> permit_current permit (ts_session ts1) then Some (Inl Cancelled_error, ts)
        else
          (case emit_frame f (Some permit) False True ts1 of
             (Inl e, ts2) \<Rightarrow> Some (Inl e, ts2\<lparr>ts_slots := Suc (ts_slots ts2)\<rparr>)
           | (Inr u, ts2) \<Rightarrow> Some (Inr u, ts2)))"

text \<open>The frame the queue gives out: the least priority, then the least sequence number.\<close>

definition frame_before :: "queued_frame \<Rightarrow> queued_frame \<Rightarrow> bool" where
  "frame_before a b \<longleftrightarrow>
     qf_priority a < qf_priority b \<or> qf_priority a = qf_priority b \<and> qf_sequence a < qf_sequence b"

fun first_frame :: "queued_frame \<Rightarrow> queued_frame list \<Rightarrow> queued_frame" where
  "first_frame q [] = q"
| "first_frame q (r # rs) = first_frame (if frame_before r q then r else q) rs"

fun frame_request :: "outbound_frame \<Rightarrow> string option" where
  "frame_request (F_reply_end req t e d) = Some req"
| "frame_request _ = None"

definition map_pending :: "string \<Rightarrow> (pending_receipt \<Rightarrow> pending_receipt) \<Rightarrow> team_stream \<Rightarrow> team_stream" where
  "map_pending req f ts =
     (case map_of (ts_pending ts) req of
        None \<Rightarrow> ts
      | Some p \<Rightarrow> ts\<lparr>ts_pending := dict_put req (f p) (ts_pending ts)\<rparr>)"

text \<open>One turn of the loop of \<open>write_to\<close>; \<open>None\<close> while the queue is empty.\<close>

definition take_frame :: "queued_frame \<Rightarrow> team_stream \<Rightarrow> team_stream" where
  "take_frame x ts =
     ts\<lparr>ts_outbound := remove1 x (ts_outbound ts), ts_slots := (if qf_slot x then Suc (ts_slots ts) else ts_slots ts)\<rparr>"

definition mark_written :: "outbound_frame \<Rightarrow> team_stream \<Rightarrow> team_stream" where
  "mark_written f ts =
     (case frame_request f of
        Some req \<Rightarrow> map_pending req (\<lambda>p. p\<lparr>pr_completion_allowed := True\<rparr>) ts
      | None \<Rightarrow> ts)"

definition write_next :: "team_stream \<Rightarrow> team_stream option" where
  "write_next ts =
     (case ts_outbound ts of
        [] \<Rightarrow> None
      | q # qs \<Rightarrow>
          let x = first_frame q qs; ts2 = take_frame x ts
          in if (case qf_permit x of Some p \<Rightarrow> \<not> permit_current p (ts_session ts2) | None \<Rightarrow> False) then Some ts2
             else let ts3 = mark_written (qf_frame x) ts2
                  in Some (ts3\<lparr>ts_sent := ts_sent ts3 @ [qf_frame x]\<rparr>))"


section \<open>The ports the session calls\<close>

definition transcribe_text :: "string \<Rightarrow> team_stream \<Rightarrow> (scene_exc + utext) option" where
  "transcribe_text cap ts =
     (if ts_capture ts \<noteq> Some cap \<or> ts_transcript ts = None
      then Some (Inl (Raised (ValueError ''capture no longer current'')))
      else case ts_transcript ts of
             Some (Tr_text w) \<Rightarrow> Some (Inr w)
           | Some Tr_cancelled \<Rightarrow> Some (Inl Cancelled_error)
           | _ \<Rightarrow> None)"

text \<open>\<open>stop\<close>: the request is registered and sent; a request that could not be sent is dropped again.\<close>

definition stop_request :: "string \<Rightarrow> team_member \<Rightarrow> nat \<Rightarrow> team_stream \<Rightarrow> unit streamed" where
  "stop_request req m ep ts =
     (let pending = \<lparr>pr_device_id = mb_device_id m, pr_future = None, pr_permit = None,
                     pr_completion_allowed = True, pr_error_code = []\<rparr>;
          ts1 = ts\<lparr>ts_pending := dict_put req pending (ts_pending ts)\<rparr>
      in case emit_frame (F_stop req (mb_device_id m) ep (map_of (ts_capture_epochs ts1) ep)) None True False ts1 of
           (Inl e, ts2) \<Rightarrow> (Inl e, ts2\<lparr>ts_pending := dict_del req (ts_pending ts2)\<rparr>)
         | (Inr u, ts2) \<Rightarrow> (Inr u, ts2))"

text \<open>\<open>stop\<close> was cancelled, or timed out, before its receipt arrived.\<close>

definition stop_finally :: "string \<Rightarrow> team_stream \<Rightarrow> team_stream" where
  "stop_finally req ts = ts\<lparr>ts_pending := dict_del req (ts_pending ts)\<rparr>"

definition error_or :: "string \<Rightarrow> string \<Rightarrow> string" where
  "error_or code dflt = (if code = [] then dflt else code)"

text \<open>The receipt of a stop has arrived: how \<open>stop\<close> ends.\<close>

definition stop_result :: "string \<Rightarrow> team_stream \<Rightarrow> unit streamed option" where
  "stop_result req ts =
     (case map_of (ts_pending ts) req of
        None \<Rightarrow> None
      | Some p \<Rightarrow>
          (case pr_future p of
             None \<Rightarrow> None
           | Some ok \<Rightarrow>
               let ts1 = ts\<lparr>ts_pending := dict_del req (ts_pending ts)\<rparr> in
               if ok then Some (Inr (), ts1)
               else Some (Inl (Raised (RuntimeError (error_or (pr_error_code p) ''TEAM_STOP_UNCONFIRMED''))), ts1)))"

text \<open>\<open>present\<close>: the reply's request, one event of the turn, the end, and the receipt of its playback.\<close>

definition present_open :: "team_member \<Rightarrow> reply_permit \<Rightarrow> team_stream \<Rightarrow> team_stream" where
  "present_open m permit ts =
     ts\<lparr>ts_pending := dict_put (pt_turn_id permit)
           \<lparr>pr_device_id = mb_device_id m, pr_future = None, pr_permit = Some permit,
            pr_completion_allowed = False, pr_error_code = []\<rparr> (ts_pending ts)\<rparr>"

definition present_start :: "team_member \<Rightarrow> reply_permit \<Rightarrow> team_stream \<Rightarrow> unit streamed option" where
  "present_start m permit ts =
     emit_reply (F_reply_start (pt_turn_id permit) (mb_companion_id m) (mb_device_id m) (pt_turn_id permit) (pt_epoch permit))
       permit ts"

definition present_event :: "team_member \<Rightarrow> reply_permit \<Rightarrow> utext option \<Rightarrow> team_stream \<Rightarrow> unit streamed option" where
  "present_event m permit answer ts =
     (if \<not> permit_current permit (ts_session ts) then Some (Inl Cancelled_error, ts)
      else
        (case map_of (ts_pending ts) (pt_turn_id permit) of
           None \<Rightarrow> None
         | Some p \<Rightarrow>
             if pr_future p = Some False
             then Some (Inl (Team_failure (error_or (pr_error_code p) ''TEAM_PLAYBACK_UNCONFIRMED'')), ts)
             else (case answer of
                     None \<Rightarrow> Some (Inr (), ts)
                   | Some w \<Rightarrow>
                       emit_reply (F_reply_delta (pt_turn_id permit) (pt_turn_id permit) (pt_epoch permit) (mb_device_id m) w)
                         permit ts)))"

definition present_end :: "team_member \<Rightarrow> reply_permit \<Rightarrow> team_stream \<Rightarrow> unit streamed option" where
  "present_end m permit ts =
     (if \<not> permit_current permit (ts_session ts) then Some (Inl Cancelled_error, ts)
      else emit_reply (F_reply_end (pt_turn_id permit) (pt_turn_id permit) (pt_epoch permit) (mb_device_id m)) permit ts)"

definition present_result :: "reply_permit \<Rightarrow> team_stream \<Rightarrow> bool streamed option" where
  "present_result permit ts =
     (case map_of (ts_pending ts) (pt_turn_id permit) of
        None \<Rightarrow> None
      | Some p \<Rightarrow>
          (case pr_future p of
             None \<Rightarrow> None
           | Some ok \<Rightarrow>
               if ok then Some (Inr True, ts)
               else Some (Inl (Team_failure (error_or (pr_error_code p) ''TEAM_PLAYBACK_UNCONFIRMED'')), ts)))"

definition present_finally :: "reply_permit \<Rightarrow> team_stream \<Rightarrow> team_stream" where
  "present_finally permit ts = ts\<lparr>ts_pending := dict_del (pt_turn_id permit) (ts_pending ts)\<rparr>"


section \<open>Frames of the client\<close>

text \<open>A receipt: late ones are ignored, and none advances a request it does not belong to.\<close>

definition accept_receipt :: "string \<Rightarrow> string \<Rightarrow> receipt_result \<Rightarrow> string \<Rightarrow> string \<Rightarrow> team_stream \<Rightarrow> unit streamed" where
  "accept_receipt req device result basis code ts =
     (case map_of (ts_pending ts) req of
        None \<Rightarrow> (Inr (), ts)
      | Some p \<Rightarrow>
          if pr_permit p = None \<and> basis \<noteq> ''device_ack''
          then (Inl (Raised (ValueError ''stop requires device acknowledgement'')), ts)
          else if pr_device_id p \<noteq> device then (Inl (Raised (ValueError ''receipt endpoint mismatch'')), ts)
          else if result = Completed_result \<and> \<not> pr_completion_allowed p
          then (Inl (Raised (ValueError ''playback completion arrived before reply end'')), ts)
          else if (case pr_permit p of Some pt \<Rightarrow> \<not> permit_current pt (ts_session ts) | None \<Rightarrow> False) then (Inr (), ts)
          else if pr_future p \<noteq> None then (Inr (), ts)
          else (Inr (), map_pending req (\<lambda>p. p\<lparr>pr_error_code := code, pr_future := Some (result = Completed_result)\<rparr>) ts))"

definition accept_speaking :: "string \<Rightarrow> string \<Rightarrow> team_stream \<Rightarrow> unit streamed" where
  "accept_speaking turn device ts =
     (case map_of (ts_pending ts) turn of
        Some p \<Rightarrow>
          (case pr_permit p of
             Some pt \<Rightarrow>
               if pr_device_id p \<noteq> device then (Inl (Raised (ValueError ''speaking endpoint mismatch'')), ts)
               else if permit_current pt (ts_session ts)
               then (case permit_phase pt ''speaking'' (ts_session ts) of (r, s) \<Rightarrow> (r, ts\<lparr>ts_session := s\<rparr>))
               else (Inr (), ts)
           | None \<Rightarrow> (Inr (), ts))
      | None \<Rightarrow> (Inr (), ts))"

definition cancel_transcript :: "team_stream \<Rightarrow> team_stream" where
  "cancel_transcript ts = (if ts_transcript ts = Some Tr_pending then ts\<lparr>ts_transcript := Some Tr_cancelled\<rparr> else ts)"

definition accept_press :: "scene_config \<Rightarrow> string \<Rightarrow> team_stream \<Rightarrow> unit streamed" where
  "accept_press cfg cap ts =
     (if Some cap \<noteq> ts_capture ts
      then
        (case press cfg (sc_input_device cfg) cap (ts_session ts) of
           (Inl e, s) \<Rightarrow> (Inl (Raised e), ts\<lparr>ts_session := s\<rparr>)
         | (Inr n, s) \<Rightarrow>
             let ts1 = cancel_transcript (ts\<lparr>ts_session := s\<rparr>);
                 ts2 = ts1\<lparr>ts_capture_epochs := dict_put (sn_epoch s) cap (ts_capture_epochs ts1),
                           ts_capture := Some cap, ts_released := False\<rparr>
             in case emit_frame (F_capturing cap (sn_epoch s)) None True False ts2 of
                  (Inl e, ts3) \<Rightarrow> (Inl e, ts3)
                | (Inr u, ts3) \<Rightarrow> (Inr u, ts3\<lparr>ts_transcript := Some Tr_pending\<rparr>))
      else if ts_released ts then (Inl (Raised (ValueError ''capture id replayed after release'')), ts)
      else (Inr (), ts))"

definition accept_release :: "scene_config \<Rightarrow> string \<Rightarrow> team_stream \<Rightarrow> unit streamed" where
  "accept_release cfg cap ts =
     (if ts_capture ts = Some cap \<and> \<not> ts_released ts
      then
        (case release cfg (sc_input_device cfg) cap (ts_session ts) of
           (Inl e, s) \<Rightarrow> (Inl (Raised e), ts\<lparr>ts_released := True, ts_session := s\<rparr>)
         | (Inr t, s) \<Rightarrow> (Inr (), ts\<lparr>ts_released := True, ts_session := s\<rparr>))
      else (Inr (), ts))"

definition accept_transcript :: "string \<Rightarrow> utext \<Rightarrow> team_stream \<Rightarrow> unit streamed" where
  "accept_transcript cap w ts =
     (if ts_capture ts \<noteq> Some cap then (Inr (), ts)
      else if \<not> ts_released ts then (Inl (Raised (ValueError ''final transcript preceded release'')), ts)
      else
        (case ts_transcript ts of
           Some Tr_pending \<Rightarrow> (Inr (), ts\<lparr>ts_transcript := Some (Tr_text w)\<rparr>)
         | Some (Tr_text v) \<Rightarrow>
             if v \<noteq> w then (Inl (Raised (ValueError ''capture transcript cannot change'')), ts) else (Inr (), ts)
         | Some Tr_cancelled \<Rightarrow> (Inl (Raised (ValueError ''capture transcript cannot change'')), ts)
         | None \<Rightarrow> (Inl (Raised (OtherError ''AttributeError'' [])), ts)))"

definition accept_frame :: "scene_config \<Rightarrow> inbound_frame \<Rightarrow> team_stream \<Rightarrow> unit streamed" where
  "accept_frame cfg f ts =
     (case f of
        In_receipt req device result basis code \<Rightarrow> accept_receipt req device result basis code ts
      | In_speaking turn device \<Rightarrow> accept_speaking turn device ts
      | In_close \<Rightarrow> (Inr (), ts\<lparr>ts_closing := True\<rparr>)
      | _ \<Rightarrow>
          if ts_closing ts then (Inl (Raised (ValueError ''scene is closing'')), ts)
          else (case f of
                  In_press cap \<Rightarrow> accept_press cfg cap ts
                | In_release cap \<Rightarrow> accept_release cfg cap ts
                | In_transcript cap w \<Rightarrow> accept_transcript cap w ts
                | _ \<Rightarrow> (Inr (), ts)))"

text \<open>\<open>_round_done\<close>: the callback of a round that ended without being cancelled.\<close>

definition round_done :: "string \<Rightarrow> team_stream \<Rightarrow> team_stream" where
  "round_done cap ts =
     (if ts_connected ts \<and> ts_capture ts = Some cap
      then
        let s = ts_session ts in
        (case emit_frame (F_state cap (sn_state s) (sn_member_states s) (sn_epoch s) (sn_outcome s) (sn_error_code s))
                None False False ts of
           (Inl e, ts1) \<Rightarrow> ts1\<lparr>ts_connected := False, ts_closed := True\<rparr>
         | (Inr u, ts1) \<Rightarrow> ts1)
      else ts)"

text \<open>\<open>close\<close>, up to the wait for the session's last stops, and its end; \<open>disconnect\<close> fails what is waited for.\<close>

definition close_begin :: "scene_config \<Rightarrow> team_stream \<Rightarrow> team_stream" where
  "close_begin cfg ts = ts\<lparr>ts_session := close_scene cfg (ts_session ts)\<rparr>"

definition close_end :: "team_stream \<Rightarrow> team_stream" where
  "close_end ts = (cancel_transcript ts)\<lparr>ts_closed := True\<rparr>"

definition disconnect_stream :: "team_stream \<Rightarrow> team_stream" where
  "disconnect_stream ts =
     ts\<lparr>ts_connected := False,
        ts_pending := map (\<lambda>(req, p). (req, if pr_future p = None
             then p\<lparr>pr_error_code := ''TEAM_CONTROL_DISCONNECTED'', pr_future := Some False\<rparr> else p)) (ts_pending ts)\<rparr>"

end
