(* ===== verification/Coord_Facts.thy ===== *)
theory Coord_Facts
  imports Coord_Session
begin

text \<open>
  What holds of every scene a session can get into. The first sections say what each operation leaves
  alone and how it ends; \<open>scene_inv\<close> is the invariant of the steps, and the properties follow from it.
\<close>

section \<open>What the parts of a round leave alone\<close>

fun is_key :: "scene_fact \<Rightarrow> bool" where
  "is_key (Ev_reply_started d c dev t) = True"
| "is_key (Ev_reply_played d c t) = True"
| "is_key (Ev_press c) = True"
| "is_key (Ev_stopped d e) = True"
| "is_key _ = False"

definition keys :: "scene \<Rightarrow> (nat \<times> scene_fact) list" where
  "keys s = filter (is_key \<circ> snd) (sn_audit s)"

definition same_frame :: "scene \<Rightarrow> scene \<Rightarrow> bool" where
  "same_frame s s' \<longleftrightarrow>
     sn_epoch s' = sn_epoch s \<and> sn_held s' = sn_held s \<and> sn_closed s' = sn_closed s
     \<and> sn_tasks s' = sn_tasks s \<and> sn_stop_tasks s' = sn_stop_tasks s \<and> sn_failures s' = sn_failures s
     \<and> sn_captures s' = sn_captures s \<and> sn_closing s' = sn_closing s \<and> sn_spawned s' = sn_spawned s
     \<and> sn_round s' = sn_round s \<and> sn_cancelled s' = sn_cancelled s"

lemmas state_defs = audit_record_def scene_event_def set_member_def settle_members_def end_task_def
  set_task_def dispatch_stop_def take_id_def Let_def

lemma frame_valid: "same_frame s s' \<Longrightarrow> round_valid ep s' = round_valid ep s"
  by (simp add: same_frame_def round_valid_def)

lemma open_decision_spec:
  assumes "open_decision cfg ports ep trigger user remaining s = (res, s')"
  shows "same_frame s s' \<and> keys s' = keys s \<and> sn_history s' = sn_history s \<and> sn_active_turn s' = sn_active_turn s
    \<and> ((\<exists>e. res = Inl e) \<or> (\<exists>rq. res = Inr (Some (At_decide trigger user remaining rq))))"
  using assms unfolding open_decision_def
  by (auto simp: state_defs same_frame_def keys_def split: if_splits)

lemma leave_loop_spec:
  assumes "leave_loop ep remaining out s = (res, s')"
  shows "same_frame s s' \<and> keys s' = keys s \<and> sn_history s' = sn_history s \<and> sn_active_turn s' = sn_active_turn s
    \<and> ((\<exists>e. res = Inl e) \<or> res = Inr None)"
  using assms unfolding leave_loop_def
  by (auto simp: state_defs same_frame_def keys_def split: if_splits)

lemma next_turn_spec:
  assumes "next_turn cfg ports ep trigger user remaining s = (res, s')"
  shows "same_frame s s' \<and> keys s' = keys s \<and> sn_history s' = sn_history s \<and> sn_active_turn s' = sn_active_turn s
    \<and> ((\<exists>e. res = Inl e) \<or> res = Inr None
       \<or> remaining \<noteq> 0 \<and> (\<exists>rq. res = Inr (Some (At_decide trigger user remaining rq))))"
  using assms open_decision_spec leave_loop_spec unfolding next_turn_def
  by (metis (no_types, lifting))

lemma after_stops_spec:
  assumes "after_stops cfg ports ep cap txt s = (res, s')" and "round_valid ep s"
  shows "sn_failures s \<noteq> [] \<and> res = Inr None \<and> s' = fail_round cfg ''TEAM_STOP_UNCONFIRMED'' False s
    \<or> sn_failures s = [] \<and> same_frame s s' \<and> keys s' = keys s \<and> sn_active_turn s' = sn_active_turn s
      \<and> (sn_history s' = sn_history s
         \<or> sn_history s' = sn_history s @ [\<lparr>pm_id = cap, pm_kind = User_author, pm_author = sc_input_device cfg, pm_text = txt\<rparr>])
      \<and> ((\<exists>e. res = Inl e) \<or> res = Inr None
         \<or> sc_reply_budget cfg \<noteq> 0 \<and> (\<exists>trigger rq. res = Inr (Some (At_decide trigger trigger (sc_reply_budget cfg) rq))))"
proof (cases "sn_failures s = [] \<and> ustrip txt \<noteq> []")
  case True
  let ?trigger = "\<lparr>pm_id = cap, pm_kind = User_author, pm_author = sc_input_device cfg, pm_text = txt\<rparr>"
  let ?s = "s\<lparr>sn_history := sn_history s @ [?trigger]\<rparr>"
  have "next_turn cfg ports ep ?trigger ?trigger (sc_reply_budget cfg) ?s = (res, s')"
    using assms True by (simp add: after_stops_def Let_def)
  note spec = next_turn_spec [OF this]
  have "same_frame s s'" "keys s' = keys s" "sn_active_turn s' = sn_active_turn s"
    "sn_history s' = sn_history s @ [?trigger]"
    using spec by (simp_all add: same_frame_def keys_def)
  then show ?thesis using spec True by blast
next
  case False
  then show ?thesis
    using assms unfolding after_stops_def
    by (auto simp: state_defs same_frame_def keys_def split: if_splits)
qed

lemma start_reply_spec:
  assumes "start_reply cfg ports ep trigger user remaining rq prop s = (res, s')"
  shows "same_frame s s' \<and> sn_history s' = sn_history s
    \<and> (keys s' = keys s \<and> sn_active_turn s' = sn_active_turn s \<and> (\<exists>e. res = Inl e)
       \<or> round_valid ep s
         \<and> (\<exists>task m t. m \<in> set (sc_members cfg)
              \<and> res = Inr (Some (At_reply trigger user remaining rq prop task
                                   \<lparr>pt_turn_id = t, pt_epoch = ep, pt_companion = mb_companion_id m\<rparr>))
              \<and> sn_active_turn s' = Some t
              \<and> keys s' = keys s @ [(ep, Ev_reply_started (dq_decision_id rq) (mb_companion_id m) (mb_device_id m) t)]))"
proof (cases "sp_participants prop")
  case Nil
  then show ?thesis using assms by (auto simp: start_reply_def same_frame_def keys_def)
next
  case (Cons c cs)
  show ?thesis
  proof (cases "round_valid ep s \<and> c \<notin> fst ` set (sn_failures s)")
    case False
    then show ?thesis using assms Cons by (auto simp: start_reply_def same_frame_def keys_def split: if_splits)
  next
    case True
    show ?thesis
    proof (cases "find (\<lambda>m. mb_companion_id m = c) (sc_members cfg)")
      case None
      then show ?thesis using assms Cons True by (auto simp: start_reply_def same_frame_def keys_def)
    next
      case (Some m)
      then have "m \<in> set (sc_members cfg)" "mb_companion_id m = c" by (auto dest: find_SomeD)
      moreover have "ep = sn_epoch s" using True by (simp add: round_valid_def)
      ultimately show ?thesis using assms Cons True Some
        by (auto simp: start_reply_def state_defs same_frame_def keys_def)
    qed
  qed
qed

lemma on_decision_spec:
  assumes "on_decision cfg ports ep trigger user remaining rq result s = (res, s')"
  shows "same_frame s s' \<and> sn_history s' = sn_history s
    \<and> (keys s' = keys s \<and> sn_active_turn s' = sn_active_turn s \<and> ((\<exists>e. res = Inl e) \<or> res = Inr None)
       \<or> round_valid ep s
         \<and> (\<exists>prop task m t. m \<in> set (sc_members cfg)
              \<and> res = Inr (Some (At_reply trigger user remaining rq prop task
                                   \<lparr>pt_turn_id = t, pt_epoch = ep, pt_companion = mb_companion_id m\<rparr>))
              \<and> sn_active_turn s' = Some t
              \<and> keys s' = keys s @ [(ep, Ev_reply_started (dq_decision_id rq) (mb_companion_id m) (mb_device_id m) t)]))"
proof -
  let ?s1 = "audit_record ep (Au_decision_returned (dq_decision_id rq) result) s"
  let ?s2 = "audit_record ep (Au_decision_validated (dq_decision_id rq) (dr_status result)) ?s1"
  have s1: "same_frame s ?s1 \<and> keys ?s1 = keys s \<and> sn_history ?s1 = sn_history s \<and> sn_active_turn ?s1 = sn_active_turn s"
    by (simp add: audit_record_def same_frame_def keys_def)
  have s2: "same_frame s ?s2 \<and> keys ?s2 = keys s \<and> sn_history ?s2 = sn_history s \<and> sn_active_turn ?s2 = sn_active_turn s"
    by (simp add: audit_record_def same_frame_def keys_def)
  show ?thesis
  proof (cases "round_valid ep ?s1 \<and> so_validate ports rq result = None")
    case False
    then show ?thesis using assms
      by (auto simp: on_decision_def decision_dropped_def state_defs same_frame_def keys_def
            split: if_splits option.splits)
  next
    case ok: True
    show ?thesis
    proof (cases "dr_proposal result")
      case None
      with assms ok have "leave_loop ep remaining Out_abstained ?s2 = (res, s')"
        by (simp add: on_decision_def Let_def)
      from leave_loop_spec [OF this] s2 show ?thesis by (auto simp: same_frame_def)
    next
      case (Some pr)
      let ?s3 = "scene_event (Ev_decision (dq_decision_id rq) (sp_action pr) (sp_participants pr)
                   (dr_policy_version result) (dr_model_version result)) ?s2"
      have s3: "same_frame s ?s3 \<and> keys ?s3 = keys s \<and> sn_history ?s3 = sn_history s
          \<and> sn_active_turn ?s3 = sn_active_turn s"
        by (simp add: state_defs same_frame_def keys_def)
      show ?thesis
      proof (cases "sp_action pr = ''wait'' \<or> sp_action pr = ''finish''")
        case True
        then obtain out where "leave_loop ep remaining out ?s3 = (res, s')"
          using assms ok Some by (simp add: on_decision_def Let_def)
        from leave_loop_spec [OF this] s3 show ?thesis by (auto simp: same_frame_def)
      next
        case False
        then have "start_reply cfg ports ep trigger user remaining rq pr ?s3 = (res, s')"
          using assms ok Some by (simp add: on_decision_def Let_def)
        from start_reply_spec [OF this] s3 show ?thesis
          by (auto simp: same_frame_def round_valid_def)
      qed
    qed
  qed
qed

lemma on_reply_spec:
  assumes "on_reply cfg ports ep user remaining rq prop p played s = (res, s')"
  shows "same_frame s s'
    \<and> (keys s' = keys s \<and> sn_history s' = sn_history s \<and> (\<exists>e. res = Inl e)
       \<or> permit_current p s \<and> pl_completed played \<and> sn_active_turn s' = None
         \<and> keys s' = keys s @ [(sn_epoch s, Ev_reply_played (dq_decision_id rq) (pt_companion p) (pt_turn_id p))]
         \<and> sn_history s' = sn_history s @ [\<lparr>pm_id = pt_turn_id p, pm_kind = Companion_author,
              pm_author = pt_companion p, pm_text = pl_text played\<rparr>]
         \<and> ((\<exists>e. res = Inl e) \<or> res = Inr None
            \<or> remaining - 1 \<noteq> 0 \<and> (\<exists>trigger rq'. res = Inr (Some (At_decide trigger user (remaining - 1) rq')))))"
proof (cases "permit_current p s \<and> pl_completed played")
  case False
  then show ?thesis using assms by (auto simp: on_reply_def same_frame_def keys_def Let_def split: if_splits)
next
  case True
  let ?m = "\<lparr>pm_id = pt_turn_id p, pm_kind = Companion_author, pm_author = pt_companion p, pm_text = pl_text played\<rparr>"
  let ?s3 = "scene_event (Ev_reply_played (dq_decision_id rq) (pt_companion p) (pt_turn_id p))
    (set_member (pt_companion p) M_waiting (s\<lparr>sn_active_turn := None, sn_history := sn_history s @ [?m]\<rparr>))"
  have s3: "same_frame s ?s3" "sn_active_turn ?s3 = None" "sn_history ?s3 = sn_history s @ [?m]"
    "keys ?s3 = keys s @ [(sn_epoch s, Ev_reply_played (dq_decision_id rq) (pt_companion p) (pt_turn_id p))]"
    by (simp_all add: state_defs same_frame_def keys_def)
  have "leave_loop ep (remaining - 1) Out_clarification ?s3 = (res, s')
      \<or> next_turn cfg ports ep ?m user (remaining - 1) ?s3 = (res, s')"
    using assms True by (auto simp: on_reply_def Let_def split: if_splits)
  then show ?thesis
  proof
    assume "leave_loop ep (remaining - 1) Out_clarification ?s3 = (res, s')"
    from leave_loop_spec [OF this] s3 True show ?thesis by (auto simp: same_frame_def)
  next
    assume "next_turn cfg ports ep ?m user (remaining - 1) ?s3 = (res, s')"
    from next_turn_spec [OF this] s3 True show ?thesis by (auto simp: same_frame_def)
  qed
qed


text \<open>A stop that was answered, and a round that failed.\<close>

lemma stop_reply_fields [simp]:
  "sn_epoch (stop_reply ep m a s) = sn_epoch s" "sn_held (stop_reply ep m a s) = sn_held s"
  "sn_closed (stop_reply ep m a s) = sn_closed s" "sn_tasks (stop_reply ep m a s) = sn_tasks s"
  "sn_stop_tasks (stop_reply ep m a s) = sn_stop_tasks s" "sn_captures (stop_reply ep m a s) = sn_captures s"
  "sn_closing (stop_reply ep m a s) = sn_closing s" "sn_spawned (stop_reply ep m a s) = sn_spawned s"
  "sn_round (stop_reply ep m a s) = sn_round s" "sn_cancelled (stop_reply ep m a s) = sn_cancelled s"
  "sn_history (stop_reply ep m a s) = sn_history s" "sn_active_turn (stop_reply ep m a s) = sn_active_turn s"
  by (simp_all add: stop_reply_def state_defs split: option.splits)

lemma dict_keys_del: "fst ` set (dict_del k d) = fst ` set d - {k}"
  by (auto simp: set_dict_del image_iff)

lemma stop_reply_keys:
  "keys (stop_reply ep m a s)
     = keys s @ (if a = None then [(sn_epoch s, Ev_stopped (mb_device_id m) ep)] else [])"
  by (simp add: stop_reply_def state_defs keys_def split: option.splits)

lemma stop_reply_failures:
  "sn_failures (stop_reply ep m a s) =
     (if ep \<noteq> sn_epoch s then sn_failures s
      else case a of Some e \<Rightarrow> dict_put (mb_companion_id m)
                       (''stop:'' @ scene_exc_type e @ '':'' @ scene_exc_text e) (sn_failures s)
           | None \<Rightarrow> dict_del (mb_companion_id m) (sn_failures s))"
  by (simp add: stop_reply_def state_defs split: option.splits)

lemma fail_round_fields [simp]:
  "sn_epoch (fail_round cfg reason stop s) = Suc (sn_epoch s)" "sn_held (fail_round cfg reason stop s) = sn_held s"
  "sn_closed (fail_round cfg reason stop s) = sn_closed s" "sn_failures (fail_round cfg reason stop s) = sn_failures s"
  "sn_captures (fail_round cfg reason stop s) = sn_captures s" "sn_closing (fail_round cfg reason stop s) = sn_closing s"
  "sn_round (fail_round cfg reason stop s) = sn_round s" "sn_cancelled (fail_round cfg reason stop s) = sn_cancelled s"
  "sn_history (fail_round cfg reason stop s) = sn_history s" "keys (fail_round cfg reason stop s) = keys s"
  "sn_tasks (fail_round cfg reason stop s) =
     (if stop then (sn_tasks s)(sn_spawned s \<mapsto> Stop_task (Suc (sn_epoch s)) (sc_members cfg)) else sn_tasks s)"
  "sn_stop_tasks (fail_round cfg reason stop s) = sn_stop_tasks s @ (if stop then [sn_spawned s] else [])"
  "sn_spawned (fail_round cfg reason stop s) = sn_spawned s + (if stop then 1 else 0)"
  by (simp_all add: fail_round_def state_defs keys_def)

lemma round_raised_valid:
  assumes "round_valid ep s"
  obtains code s1 where "round_raised cfg ep e s = fail_round cfg code True s1" "same_frame s s1" "keys s1 = keys s"
    "sn_history s1 = sn_history s"
proof (cases "e = Cancelled_error")
  case True
  then show ?thesis using that [of _ s] assms by (simp add: round_raised_def same_frame_def)
next
  case False
  let ?s1 = "scene_event (Ev_round_error (scene_exc_type e) (scene_exc_text e)) s"
  have "same_frame s ?s1" "keys ?s1 = keys s" "sn_history ?s1 = sn_history s"
    by (simp_all add: state_defs same_frame_def keys_def)
  then show ?thesis using that [of _ ?s1] assms False by (simp add: round_raised_def Let_def)
qed

lemma round_finally_frame:
  "same_frame s (round_finally ep s)" "keys (round_finally ep s) = keys s"
  "sn_history (round_finally ep s) = sn_history s" "sn_active_turn (round_finally ep s) = sn_active_turn s"
  by (simp_all add: round_finally_def settle_members_def same_frame_def keys_def)


section \<open>The invariant\<close>

text \<open>The stops of the current epoch a round was given, and none of them pending.\<close>

definition covers :: "scene \<Rightarrow> nat list \<Rightarrow> bool" where
  "covers s stops \<longleftrightarrow> (\<forall>t P. sn_tasks s t = Some (Stop_task (sn_epoch s) P) \<longrightarrow> t \<in> set stops)"

definition quiet :: "scene \<Rightarrow> bool" where
  "quiet s \<longleftrightarrow> sn_failures s = [] \<and> (\<forall>t P. sn_tasks s t \<noteq> Some (Stop_task (sn_epoch s) P))"

fun pc_ok :: "scene \<Rightarrow> round_pc \<Rightarrow> bool" where
  "pc_ok s (At_begin stops) = covers s stops"
| "pc_ok s (At_transcribe stops) = covers s stops"
| "pc_ok s (At_stops stops txt) = covers s stops"
| "pc_ok s _ = quiet s"

text \<open>
  A member is accounted for in the current epoch when its stop is still pending, has failed, or was
  confirmed in that epoch.
\<close>

definition accounted :: "scene \<Rightarrow> team_member \<Rightarrow> bool" where
  "accounted s m \<longleftrightarrow>
     (\<exists>t P. sn_tasks s t = Some (Stop_task (sn_epoch s) P) \<and> m \<in> set P)
     \<or> mb_companion_id m \<in> fst ` set (sn_failures s)
     \<or> (\<exists>e. (e, Ev_stopped (mb_device_id m) (sn_epoch s)) \<in> set (keys s))"

definition round_now :: "scene \<Rightarrow> nat \<Rightarrow> bool" where
  "round_now s t \<longleftrightarrow> (\<exists>cap pc. sn_tasks s t = Some (Round_task (sn_epoch s) cap pc))"

definition is_stop_task :: "scene \<Rightarrow> nat \<Rightarrow> bool" where
  "is_stop_task s t \<longleftrightarrow> (\<exists>e P. sn_tasks s t = Some (Stop_task e P))"

fun permit_ok :: "nat \<Rightarrow> round_pc \<Rightarrow> bool" where
  "permit_ok ep (At_reply tr us r rq pr task p) = (pt_epoch p = ep)"
| "permit_ok ep _ = True"

definition inv_ids :: "scene \<Rightarrow> bool" where
  "inv_ids s \<longleftrightarrow> (\<forall>t k. sn_tasks s t = Some k \<longrightarrow> t < sn_spawned s \<and> task_epoch k \<le> sn_epoch s)"

definition inv_stops :: "scene \<Rightarrow> bool" where
  "inv_stops s \<longleftrightarrow> (\<forall>t e P. sn_tasks s t = Some (Stop_task e P) \<longrightarrow> t \<in> set (sn_stop_tasks s))"

definition inv_members :: "scene_config \<Rightarrow> scene \<Rightarrow> bool" where
  "inv_members cfg s \<longleftrightarrow>
     (\<forall>t e P. sn_tasks s t = Some (Stop_task e P) \<longrightarrow> set P \<subseteq> set (sc_members cfg))"

definition inv_permits :: "scene \<Rightarrow> bool" where
  "inv_permits s \<longleftrightarrow> (\<forall>t ep cap pc. sn_tasks s t = Some (Round_task ep cap pc) \<longrightarrow> permit_ok ep pc)"

definition inv_current :: "scene \<Rightarrow> bool" where
  "inv_current s \<longleftrightarrow>
     (\<forall>t cap pc. sn_tasks s t = Some (Round_task (sn_epoch s) cap pc)
        \<longrightarrow> \<not> sn_held s \<and> \<not> sn_closed s \<and> pc_ok s pc)"

definition inv_single :: "scene \<Rightarrow> bool" where
  "inv_single s \<longleftrightarrow> (\<forall>t t'. round_now s t \<longrightarrow> round_now s t' \<longrightarrow> t = t')"

definition inv_accounted :: "scene_config \<Rightarrow> scene \<Rightarrow> bool" where
  "inv_accounted cfg s \<longleftrightarrow>
     (sn_held s \<or> (\<exists>t. round_now s t) \<longrightarrow> (\<forall>m \<in> set (sc_members cfg). accounted s m))"

definition inv_flags :: "scene \<Rightarrow> bool" where
  "inv_flags s \<longleftrightarrow> (sn_closing s \<noteq> None \<longrightarrow> sn_closed s) \<and> (sn_held s \<longrightarrow> \<not> sn_closed s)"

definition inv_cancelled :: "scene \<Rightarrow> bool" where
  "inv_cancelled s \<longleftrightarrow>
     (\<forall>t. sn_round s = Some t \<longrightarrow> t < sn_spawned s \<and> \<not> is_stop_task s t)
     \<and> (\<forall>t \<in> set (sn_cancelled s). t < sn_spawned s \<and> (sn_closed s \<or> \<not> is_stop_task s t))"

definition scene_inv :: "scene_config \<Rightarrow> scene \<Rightarrow> bool" where
  "scene_inv cfg s \<longleftrightarrow>
     inv_ids s \<and> inv_stops s \<and> inv_members cfg s \<and> inv_permits s \<and> inv_current s \<and> inv_single s \<and> inv_accounted cfg s
     \<and> inv_flags s \<and> inv_cancelled s"

lemmas part_defs = inv_ids_def inv_stops_def inv_members_def inv_permits_def inv_current_def inv_single_def
  inv_accounted_def inv_flags_def inv_cancelled_def

lemmas inv_defs = scene_inv_def part_defs covers_def quiet_def accounted_def round_now_def is_stop_task_def

lemma scene_inv_now:
  assumes "scene_inv cfg s" and "sn_tasks s t = Some (Round_task (sn_epoch s) cap pc)"
  shows "pc_ok s pc \<and> \<not> sn_held s \<and> \<not> sn_closed s"
  using assms unfolding scene_inv_def inv_current_def by blast

text \<open>
  A change that adds no task, leaves the stop tasks as they are and moves rounds only to points that
  are right for them keeps the invariant.
\<close>

definition core_same :: "scene \<Rightarrow> scene \<Rightarrow> bool" where
  "core_same s s' \<longleftrightarrow>
     sn_epoch s' = sn_epoch s \<and> sn_held s' = sn_held s \<and> sn_closed s' = sn_closed s
     \<and> sn_failures s' = sn_failures s \<and> sn_closing s' = sn_closing s \<and> sn_spawned s' = sn_spawned s
     \<and> sn_round s' = sn_round s \<and> sn_cancelled s' = sn_cancelled s"

definition round_moves :: "scene \<Rightarrow> scene \<Rightarrow> bool" where
  "round_moves s s' \<longleftrightarrow>
     (\<forall>t ep cap pc'. sn_tasks s' t = Some (Round_task ep cap pc') \<longrightarrow>
        (\<exists>pc. sn_tasks s t = Some (Round_task ep cap pc)
              \<and> (pc' = pc \<or> permit_ok ep pc' \<and> (ep = sn_epoch s \<longrightarrow> pc_ok s pc'))))"

definition stops_same :: "scene \<Rightarrow> scene \<Rightarrow> bool" where
  "stops_same s s' \<longleftrightarrow>
     (\<forall>t e P. (sn_tasks s' t = Some (Stop_task e P)) = (sn_tasks s t = Some (Stop_task e P))
       \<and> (sn_tasks s t = Some (Stop_task e P) \<longrightarrow> t \<in> set (sn_stop_tasks s')))"

lemma scene_inv_transfer:
  assumes inv: "scene_inv cfg s" and core: "core_same s s'" and moves: "round_moves s s'"
    and stops: "stops_same s s'" and keys: "set (keys s) \<subseteq> set (keys s')"
  shows "scene_inv cfg s'"
proof -
  have st: "(sn_tasks s' t = Some (Stop_task e P)) = (sn_tasks s t = Some (Stop_task e P))" for t e P
    using stops by (simp add: stops_same_def)
  have pc: "pc_ok s' pc = pc_ok s pc" for pc
    using core by (cases pc) (simp_all add: core_same_def covers_def quiet_def st)
  have isst: "is_stop_task s' = is_stop_task s"
    by (simp add: is_stop_task_def fun_eq_iff st)
  have now: "round_now s t" if "round_now s' t" for t
    using that moves core unfolding round_now_def round_moves_def core_same_def by metis
  have acc: "accounted s' m" if "accounted s m" for m
    using that core keys unfolding accounted_def core_same_def by (auto simp: st)
  have known: "\<exists>k. sn_tasks s t = Some k \<and> task_epoch k = task_epoch k'" if "sn_tasks s' t = Some k'" for t k'
    using that moves st by (cases k') (fastforce simp: round_moves_def)+
  have "inv_ids s'" using inv core known unfolding scene_inv_def inv_ids_def core_same_def by metis
  moreover have "inv_stops s'" using stops unfolding inv_stops_def stops_same_def by blast
  moreover have "inv_members cfg s'" using inv by (simp add: scene_inv_def inv_members_def st)
  moreover have "inv_permits s'"
    using inv moves unfolding scene_inv_def inv_permits_def round_moves_def by metis
  moreover have "inv_current s'"
    using inv moves core unfolding scene_inv_def inv_current_def round_moves_def core_same_def pc by metis
  moreover have "inv_single s'" using inv now unfolding scene_inv_def inv_single_def by blast
  moreover have "inv_accounted cfg s'"
    using inv now acc core unfolding scene_inv_def inv_accounted_def core_same_def by metis
  moreover have "inv_flags s'" using inv core by (simp add: scene_inv_def inv_flags_def core_same_def)
  moreover have "inv_cancelled s'"
    using inv core by (simp add: scene_inv_def inv_cancelled_def core_same_def isst)
  ultimately show ?thesis by (simp add: scene_inv_def)
qed

lemma scene_inv_frame:
  assumes "scene_inv cfg s" and "same_frame s s'" and "set (keys s) \<subseteq> set (keys s')"
  shows "scene_inv cfg s'"
proof (rule scene_inv_transfer [OF assms(1)])
  show "core_same s s'" using assms(2) by (simp add: core_same_def same_frame_def)
  show "round_moves s s'" using assms(2) by (simp add: round_moves_def same_frame_def)
  show "stops_same s s'" using assms(1,2) by (simp add: stops_same_def same_frame_def scene_inv_def inv_stops_def)
qed (rule assms(3))

lemma scene_inv_end_round:
  assumes "scene_inv cfg s" and "sn_tasks s t = Some (Round_task ep cap pc)"
  shows "scene_inv cfg (end_task t s)"
proof (rule scene_inv_transfer [OF assms(1)])
  show "stops_same s (end_task t s)"
    using assms by (auto simp: stops_same_def end_task_def scene_inv_def inv_stops_def)
qed (auto simp: core_same_def round_moves_def end_task_def keys_def)

lemma scene_inv_move_round:
  assumes "scene_inv cfg s" and "sn_tasks s t = Some (Round_task ep cap pc)"
    and "permit_ok ep pc'" and "ep = sn_epoch s \<Longrightarrow> pc_ok s pc'"
  shows "scene_inv cfg (set_task t (Round_task ep cap pc') s)"
proof (rule scene_inv_transfer [OF assms(1)])
  show "stops_same s (set_task t (Round_task ep cap pc') s)"
    using assms by (auto simp: stops_same_def set_task_def scene_inv_def inv_stops_def)
  show "round_moves s (set_task t (Round_task ep cap pc') s)"
    using assms by (auto simp: round_moves_def set_task_def)
qed (auto simp: core_same_def set_task_def keys_def)


text \<open>The epoch advances: no round belongs to the new one, and every member's stop may be pending.\<close>

definition advances :: "scene_config \<Rightarrow> bool \<Rightarrow> scene \<Rightarrow> scene \<Rightarrow> bool" where
  "advances cfg stop s s' \<longleftrightarrow>
     sn_epoch s' = Suc (sn_epoch s)
     \<and> sn_tasks s' = (if stop then (sn_tasks s)(sn_spawned s \<mapsto> Stop_task (Suc (sn_epoch s)) (sc_members cfg))
                      else sn_tasks s)
     \<and> sn_stop_tasks s' = sn_stop_tasks s @ (if stop then [sn_spawned s] else [])
     \<and> sn_spawned s' = sn_spawned s + (if stop then 1 else 0)
     \<and> sn_round s' = sn_round s"

lemma scene_inv_advance:
  assumes inv: "scene_inv cfg s" and adv: "advances cfg stop s s'"
    and held: "sn_held s' \<Longrightarrow> stop" and flags: "inv_flags s'"
    and can: "\<forall>t \<in> set (sn_cancelled s'). t < sn_spawned s \<and> (sn_closed s' \<or> \<not> is_stop_task s t)"
  shows "scene_inv cfg s'"
proof -
  have ids: "t < sn_spawned s" "task_epoch k \<le> sn_epoch s" if "sn_tasks s t = Some k" for t k
    using inv that by (simp_all add: scene_inv_def inv_ids_def)
  have new: "sn_tasks s' t = Some k \<longleftrightarrow>
      (stop \<and> t = sn_spawned s \<and> k = Stop_task (Suc (sn_epoch s)) (sc_members cfg)) \<or> sn_tasks s t = Some k" for t k
    using adv ids(1) by (auto simp: advances_def)
  have none: "sn_tasks s' t \<noteq> Some (Round_task (sn_epoch s') cap pc)" for t cap pc
    using adv ids(2) [of t "Round_task (sn_epoch s') cap pc"] by (auto simp: new advances_def)
  have now: "\<not> round_now s' t" for t by (simp add: round_now_def none)
  have "inv_ids s'" using adv ids by (fastforce simp: inv_ids_def new advances_def)
  moreover have "inv_stops s'"
    using inv adv by (auto simp: inv_stops_def scene_inv_def new advances_def)
  moreover have "inv_members cfg s'"
    using inv by (auto simp: inv_members_def scene_inv_def new)
  moreover have "inv_permits s'" using inv by (auto simp: inv_permits_def scene_inv_def new)
  moreover have "inv_current s'" "inv_single s'" by (simp_all add: inv_current_def inv_single_def round_now_def none)
  moreover have "inv_accounted cfg s'"
    using adv held unfolding inv_accounted_def accounted_def
    by (auto simp: now new advances_def)
  moreover have "inv_cancelled s'"
  proof -
    have "is_stop_task s' t \<Longrightarrow> is_stop_task s t \<or> t = sn_spawned s" for t by (auto simp: is_stop_task_def new)
    then show ?thesis using inv adv can by (fastforce simp: inv_cancelled_def scene_inv_def advances_def)
  qed
  ultimately show ?thesis using flags by (simp add: scene_inv_def)
qed

lemma scene_inv_fail_round:
  assumes "scene_inv cfg s" and "\<not> sn_held s"
  shows "scene_inv cfg (fail_round cfg reason stop s)"
  using assms
  by (intro scene_inv_advance [OF assms(1), of stop])
     (auto simp: advances_def inv_flags_def scene_inv_def inv_cancelled_def)

text \<open>A round whose answer left the frame alone: it goes on, ends, or fails and is stopped.\<close>

lemma scene_inv_settle:
  assumes inv: "scene_inv cfg s" and task: "sn_tasks s t = Some (Round_task ep cap pc)"
    and frame: "same_frame s s'" and keys: "set (keys s) \<subseteq> set (keys s')"
    and goes: "\<And>pc'. res = Inr (Some pc') \<Longrightarrow> permit_ok ep pc' \<and> (ep = sn_epoch s \<longrightarrow> pc_ok s' pc')"
  shows "scene_inv cfg (settle_round cfg t ep cap (res, s'))"
proof -
  have inv': "scene_inv cfg s'" by (rule scene_inv_frame [OF inv frame keys])
  have task': "sn_tasks s' t = Some (Round_task ep cap pc)" using frame task by (simp add: same_frame_def)
  have fin: "scene_inv cfg (end_task t (round_finally ep s2))"
    if "scene_inv cfg s2" and "sn_tasks s2 t = Some (Round_task ep cap pc)" for s2
  proof (rule scene_inv_end_round)
    show "scene_inv cfg (round_finally ep s2)"
      by (rule scene_inv_frame [OF that(1) round_finally_frame(1)]) (simp add: round_finally_frame)
    show "sn_tasks (round_finally ep s2) t = Some (Round_task ep cap pc)"
      using that(2) round_finally_frame(1) [of s2 ep] by (simp add: same_frame_def)
  qed
  show ?thesis
  proof (cases res)
    case (Inl e)
    have "scene_inv cfg (round_raised cfg ep e s') \<and> sn_tasks (round_raised cfg ep e s') t = Some (Round_task ep cap pc)"
    proof (cases "round_valid ep s'")
      case False
      then show ?thesis using inv' task' by (simp add: round_raised_def)
    next
      case True
      obtain code s1 where r: "round_raised cfg ep e s' = fail_round cfg code True s1" "same_frame s' s1" "keys s1 = keys s'"
        using round_raised_valid [OF True] by metis
      have "t < sn_spawned s1"
        using inv' task' r(2) by (auto simp: scene_inv_def inv_ids_def same_frame_def)
      then have "sn_tasks (fail_round cfg code True s1) t = Some (Round_task ep cap pc)"
        using task' r(2) by (simp add: same_frame_def)
      moreover have "scene_inv cfg (fail_round cfg code True s1)"
      proof (rule scene_inv_fail_round)
        show "scene_inv cfg s1" using scene_inv_frame [OF inv' r(2)] r(3) by simp
        show "\<not> sn_held s1" using True r(2) by (simp add: round_valid_def same_frame_def)
      qed
      ultimately show ?thesis by (simp add: r(1))
    qed
    then show ?thesis using fin Inl by (simp add: settle_round_def)
  next
    case (Inr x)
    then show ?thesis
    proof (cases x)
      case None
      then show ?thesis using fin [OF inv' task'] Inr by (simp add: settle_round_def)
    next
      case (Some pc')
      have "ep = sn_epoch s' \<Longrightarrow> ep = sn_epoch s" using frame by (simp add: same_frame_def)
      then show ?thesis
        using scene_inv_move_round [OF inv' task', of pc'] goes Inr Some by (simp add: settle_round_def)
    qed
  qed
qed


section \<open>Every step keeps the invariant\<close>

lemma scene_inv_stop_answer:
  assumes inv: "scene_inv cfg s" and dist: "distinct (map mb_companion_id (sc_members cfg))"
    and task: "sn_tasks s t = Some (Stop_task ep P)" and m: "m \<in> set P"
  shows "scene_inv cfg (stop_answer t ep P m a s)"
proof -
  let ?s = "stop_answer t ep P m a s"
  let ?r = "stop_reply ep m a s"
  have f: "sn_epoch ?s = sn_epoch s" "sn_held ?s = sn_held s" "sn_closed ?s = sn_closed s"
    "sn_failures ?s = sn_failures ?r" "sn_closing ?s = sn_closing s" "sn_spawned ?s = sn_spawned s"
    "sn_round ?s = sn_round s" "sn_cancelled ?s = sn_cancelled s" "keys ?s = keys ?r"
    "sn_tasks ?s = (sn_tasks s)(t := if removeAll m P = [] then None else Some (Stop_task ep (removeAll m P)))"
    "sn_stop_tasks ?s = (if removeAll m P = [] then removeAll t (sn_stop_tasks s) else sn_stop_tasks s)"
    by (simp_all add: stop_answer_def end_task_def set_task_def keys_def Let_def)
  have rounds: "sn_tasks ?s u = Some (Round_task e cap pc) \<longleftrightarrow> sn_tasks s u = Some (Round_task e cap pc)" for u e cap pc
    using task by (auto simp: f)
  have stops: "\<exists>Q. sn_tasks s u = Some (Stop_task e Q) \<and> set Q' \<subseteq> set Q"
    if "sn_tasks ?s u = Some (Stop_task e Q')" for u e Q'
    using that task by (auto simp: f split: if_splits)
  have P: "set P \<subseteq> set (sc_members cfg)" using inv task by (auto simp: scene_inv_def inv_members_def)
  have same: "sn_failures ?s = sn_failures s" if "ep \<noteq> sn_epoch s"
    using that by (simp add: f stop_reply_failures)
  have pc: "pc_ok ?s pc" if "pc_ok s pc" for pc
  proof (cases "quiet s")
    case True
    then have "ep \<noteq> sn_epoch s" using task by (auto simp: quiet_def)
    with True have "quiet ?s" using stops same by (auto simp: quiet_def f(1), blast+)
    then show ?thesis using that stops by (cases pc) (auto simp: covers_def f(1), blast+)
  next
    case False
    then show ?thesis using that stops by (cases pc) (auto simp: covers_def f(1), blast+)
  qed
  have now: "round_now ?s = round_now s" by (simp add: round_now_def f(1) rounds fun_eq_iff)
  have acc: "accounted ?s m'" if acc': "accounted s m'" and m': "m' \<in> set (sc_members cfg)" for m'
  proof (cases "m' = m \<and> ep = sn_epoch s")
    case True
    show ?thesis
    proof (cases a)
      case None
      then have "(sn_epoch s, Ev_stopped (mb_device_id m') (sn_epoch s)) \<in> set (keys ?s)"
        unfolding f(9) stop_reply_keys using True by simp
      then show ?thesis unfolding accounted_def f(1) by blast
    next
      case (Some e)
      then have "mb_companion_id m' \<in> fst ` set (sn_failures ?s)"
        unfolding f(4) stop_reply_failures using True by (simp add: dom_update)
      then show ?thesis by (simp add: accounted_def)
    qed
  next
    case other: False
    consider (pending) u Q where "sn_tasks s u = Some (Stop_task (sn_epoch s) Q)" "m' \<in> set Q"
      | (failed) "mb_companion_id m' \<in> fst ` set (sn_failures s)"
      | (stopped) e where "(e, Ev_stopped (mb_device_id m') (sn_epoch s)) \<in> set (keys s)"
      using acc' unfolding accounted_def by blast
    then show ?thesis
    proof cases
      case pending
      have "\<exists>Q'. sn_tasks ?s u = Some (Stop_task (sn_epoch s) Q') \<and> m' \<in> set Q'"
      proof (cases "u = t")
        case True
        with pending task other have "m' \<in> set (removeAll m P)" "ep = sn_epoch s" by auto
        moreover from this have "removeAll m P \<noteq> []" by (metis list.set(1) empty_iff)
        ultimately show ?thesis unfolding f(10) using True by auto
      next
        case False
        then show ?thesis using pending by (simp add: f)
      qed
      then show ?thesis unfolding accounted_def f(1) by blast
    next
      case failed
      have "m' = m \<Longrightarrow> ep \<noteq> sn_epoch s" using other by simp
      moreover have "m' \<noteq> m \<Longrightarrow> mb_companion_id m' \<noteq> mb_companion_id m"
        using dist m' m P by (auto dest: inj_onD simp: distinct_map)
      ultimately have "mb_companion_id m' \<in> fst ` set (sn_failures ?s)"
        using failed unfolding f(4) stop_reply_failures
        by (cases a) (auto simp: dom_update dict_keys_del)
      then show ?thesis by (simp add: accounted_def)
    next
      case stopped
      then have "(e, Ev_stopped (mb_device_id m') (sn_epoch s)) \<in> set (keys ?s)"
        by (simp add: f(9) stop_reply_keys)
      then show ?thesis unfolding accounted_def f(1) by blast
    qed
  qed
  have old: "\<exists>k. sn_tasks s u = Some k \<and> task_epoch k = task_epoch k'" if "sn_tasks ?s u = Some k'" for u k'
    using that task by (auto simp: f split: if_splits)
  have "inv_ids ?s" using inv old unfolding scene_inv_def inv_ids_def f(1,6) by metis
  moreover have "inv_stops ?s"
    using inv task by (auto simp: scene_inv_def inv_stops_def f split: if_splits)
  moreover have "inv_members cfg ?s" using inv stops unfolding scene_inv_def inv_members_def by blast
  moreover have "inv_permits ?s" using inv by (auto simp: scene_inv_def inv_permits_def rounds)
  moreover have "inv_current ?s" using inv pc unfolding scene_inv_def inv_current_def f(1-3) rounds by blast
  moreover have "inv_single ?s" using inv by (simp add: scene_inv_def inv_single_def now)
  moreover have "inv_accounted cfg ?s" using inv acc unfolding scene_inv_def inv_accounted_def f(2) now by blast
  moreover have "inv_flags ?s" using inv by (simp add: scene_inv_def inv_flags_def f)
  moreover have "inv_cancelled ?s"
    using inv stops unfolding scene_inv_def inv_cancelled_def is_stop_task_def f(3,6-8) by blast
  ultimately show ?thesis by (simp add: scene_inv_def)
qed


lemma scene_inv_press:
  assumes "scene_inv cfg s"
  shows "scene_inv cfg (snd (press cfg device cap s))"
proof (cases "snd (press cfg device cap s) = s")
  case False
  let ?s = "snd (press cfg device cap s)"
  have c: "\<not> sn_closed s" and adv: "advances cfg True s ?s"
    and f: "sn_held ?s" "sn_closed ?s = sn_closed s" "sn_closing ?s = sn_closing s"
      "set (sn_cancelled ?s) \<subseteq> set (sn_cancelled s) \<union> set_option (sn_round s)"
    using False
    by (auto simp: press_def cancel_round_def advances_def state_defs split: if_splits option.splits)
  show ?thesis
  proof (rule scene_inv_advance [OF assms adv])
    show "inv_flags ?s" using assms c by (simp add: inv_flags_def f scene_inv_def)
    show "\<forall>t \<in> set (sn_cancelled ?s). t < sn_spawned s \<and> (sn_closed ?s \<or> \<not> is_stop_task s t)"
      using assms f by (auto simp: scene_inv_def inv_cancelled_def elim!: set_mp)
  qed simp
qed (use assms in simp)

lemma scene_inv_release:
  assumes inv: "scene_inv cfg s"
  shows "scene_inv cfg (snd (release cfg device cap s))"
proof (cases "snd (release cfg device cap s) = s")
  case False
  let ?s = "snd (release cfg device cap s)"
  have h: "sn_held s" "\<not> sn_closed s"
    and f: "\<not> sn_held ?s" "sn_closed ?s = sn_closed s" "sn_epoch ?s = sn_epoch s" "sn_failures ?s = sn_failures s"
      "sn_closing ?s = sn_closing s" "sn_cancelled ?s = sn_cancelled s" "sn_stop_tasks ?s = sn_stop_tasks s"
      "sn_tasks ?s = (sn_tasks s)(sn_spawned s \<mapsto> Round_task (sn_epoch s) cap (At_begin (sn_stop_tasks s)))"
      "sn_spawned ?s = Suc (sn_spawned s)" "sn_round ?s = Some (sn_spawned s)"
      "set (keys s) \<subseteq> set (keys ?s)"
    using False by (auto simp: release_def state_defs keys_def split: if_splits)
  have fresh: "sn_tasks s (sn_spawned s) = None"
    using inv by (cases "sn_tasks s (sn_spawned s)") (auto simp: scene_inv_def inv_ids_def)
  have st: "(sn_tasks ?s u = Some (Stop_task e P)) = (sn_tasks s u = Some (Stop_task e P))" for u e P
    using fresh by (simp add: f)
  have none: "sn_tasks s u \<noteq> Some (Round_task (sn_epoch s) c pc)" for u c pc
    using inv h by (auto simp: scene_inv_def inv_current_def)
  have now: "round_now ?s u \<longleftrightarrow> u = sn_spawned s" for u
    using none by (auto simp: round_now_def f)
  have acc: "accounted ?s m" if "accounted s m" for m
    using that f(11) unfolding accounted_def f(3,4) by (auto simp: st)
  have "inv_ids ?s" using inv by (fastforce simp: scene_inv_def inv_ids_def f split: if_splits)
  moreover have "inv_stops ?s" using inv by (simp add: scene_inv_def inv_stops_def st f(7))
  moreover have "inv_members cfg ?s" using inv by (simp add: scene_inv_def inv_members_def st)
  moreover have "inv_permits ?s" using inv by (auto simp: scene_inv_def inv_permits_def f)
  moreover have "inv_current ?s"
    using inv h none by (auto simp: scene_inv_def inv_current_def inv_stops_def covers_def f st)
  moreover have "inv_single ?s" by (simp add: inv_single_def now)
  moreover have "inv_accounted cfg ?s" using inv h acc by (auto simp: scene_inv_def inv_accounted_def)
  moreover have "inv_flags ?s" using inv by (simp add: scene_inv_def inv_flags_def f)
  moreover have "inv_cancelled ?s"
    using inv fresh by (fastforce simp: scene_inv_def inv_cancelled_def is_stop_task_def f)
  ultimately show ?thesis by (simp add: scene_inv_def)
qed (use inv in simp)

lemma scene_inv_close:
  assumes "scene_inv cfg s"
  shows "scene_inv cfg (close_scene cfg s)"
proof (cases "sn_closed s")
  case False
  show ?thesis
    by (rule scene_inv_advance [OF assms, of False])
       (use False in \<open>auto simp: close_scene_def advances_def inv_flags_def\<close>)
qed (use assms in \<open>simp add: close_scene_def\<close>)

text \<open>Ending a stop task that was cancelled: the session is closed, so nobody counts on it.\<close>

lemma scene_inv_end_stop:
  assumes inv: "scene_inv cfg s" and task: "sn_tasks s t = Some (Stop_task ep P)" and t: "t \<in> set (sn_cancelled s)"
  shows "scene_inv cfg (end_task t s)"
proof -
  let ?s = "end_task t s"
  have f: "sn_tasks ?s = (sn_tasks s)(t := None)" "sn_stop_tasks ?s = removeAll t (sn_stop_tasks s)"
    "sn_epoch ?s = sn_epoch s" "sn_held ?s = sn_held s" "sn_closed ?s = sn_closed s"
    "sn_failures ?s = sn_failures s" "sn_closing ?s = sn_closing s" "sn_spawned ?s = sn_spawned s"
    "sn_round ?s = sn_round s" "sn_cancelled ?s = sn_cancelled s" "keys ?s = keys s"
    by (simp_all add: end_task_def keys_def)
  have c: "sn_closed s" using inv task t by (auto simp: scene_inv_def inv_cancelled_def is_stop_task_def)
  have sub: "sn_tasks ?s u = Some k \<Longrightarrow> sn_tasks s u = Some k \<and> u \<noteq> t" for u k by (simp add: f split: if_splits)
  have none: "sn_tasks ?s u \<noteq> Some (Round_task (sn_epoch s) cap pc)" for u cap pc
    using inv c sub [of u] unfolding scene_inv_def inv_current_def by blast
  have "inv_ids ?s" using inv sub unfolding scene_inv_def inv_ids_def f by blast
  moreover have "inv_stops ?s" using inv by (auto simp: scene_inv_def inv_stops_def f split: if_splits)
  moreover have "inv_members cfg ?s" using inv sub unfolding scene_inv_def inv_members_def by blast
  moreover have "inv_permits ?s" using inv sub unfolding scene_inv_def inv_permits_def by blast
  moreover have "inv_current ?s" "inv_single ?s" by (simp_all add: inv_current_def inv_single_def round_now_def f(3) none)
  moreover have "inv_accounted cfg ?s"
    using inv c by (simp add: scene_inv_def inv_accounted_def inv_flags_def round_now_def f(3-5) none)
  moreover have "inv_flags ?s" using inv by (simp add: scene_inv_def inv_flags_def f)
  moreover have "inv_cancelled ?s"
    using inv sub unfolding scene_inv_def inv_cancelled_def is_stop_task_def f(5,8-10) by blast
  ultimately show ?thesis by (simp add: scene_inv_def)
qed

lemma scene_inv_after_stops:
  assumes inv: "scene_inv cfg s" and task: "sn_tasks s t = Some (Round_task ep cap pc)"
    and stops: "ep = sn_epoch s \<Longrightarrow> \<forall>u P. sn_tasks s u \<noteq> Some (Stop_task (sn_epoch s) P)"
  shows "scene_inv cfg (settle_round cfg t ep cap (after_stops cfg ports ep cap txt s))"
proof (cases "round_valid ep s")
  case False
  then show ?thesis
    using scene_inv_settle [OF inv task, of s "Inl Cancelled_error"] by (simp add: after_stops_def same_frame_def)
next
  case True
  then have ep: "ep = sn_epoch s" by (simp add: round_valid_def)
  obtain res s' where r: "after_stops cfg ports ep cap txt s = (res, s')" by fastforce
  from after_stops_spec [OF r True] show ?thesis
  proof (elim disjE)
    assume *: "sn_failures s \<noteq> [] \<and> res = Inr None \<and> s' = fail_round cfg ''TEAM_STOP_UNCONFIRMED'' False s"
    have "scene_inv cfg s'" using * scene_inv_fail_round [OF inv] True by (simp add: round_valid_def)
    moreover have "sn_tasks s' t = Some (Round_task ep cap pc)" using * task by simp
    ultimately show ?thesis
      using scene_inv_settle [of cfg s' t ep cap pc s' "Inr None"] * r by (simp add: same_frame_def)
  next
    assume *: "sn_failures s = [] \<and> same_frame s s' \<and> keys s' = keys s \<and> sn_active_turn s' = sn_active_turn s
      \<and> (sn_history s' = sn_history s
         \<or> sn_history s' = sn_history s @ [\<lparr>pm_id = cap, pm_kind = User_author, pm_author = sc_input_device cfg, pm_text = txt\<rparr>])
      \<and> ((\<exists>e. res = Inl e) \<or> res = Inr None
         \<or> sc_reply_budget cfg \<noteq> 0 \<and> (\<exists>trigger rq. res = Inr (Some (At_decide trigger trigger (sc_reply_budget cfg) rq))))"
    have "quiet s'" using * stops ep by (auto simp: quiet_def same_frame_def)
    then show ?thesis unfolding r
      by (intro scene_inv_settle [OF inv task]) (use * in auto)
  qed
qed


text \<open>The answers of a port: what a round does with them, by where it is suspended.\<close>

lemma scene_inv_round_answer:
  assumes inv: "scene_inv cfg s" and task: "sn_tasks s t = Some (Round_task ep cap pc)"
    and ans: "answer_round cfg ports ep cap pc answer s = Some r"
  shows "scene_inv cfg (settle_round cfg t ep cap r)"
proof -
  have now: "pc_ok s pc" if "ep = sn_epoch s" using scene_inv_now [OF inv] task that by blast
  have exc: "scene_inv cfg (settle_round cfg t ep cap (Inl e, s'))" if "same_frame s s'" "keys s' = keys s" for e s'
    by (rule scene_inv_settle [OF inv task that(1)]) (simp_all add: that(2))
  have stay: "same_frame s s" by (simp add: same_frame_def)
  consider
      (heard) stops w where "pc = At_transcribe stops" "r = on_text cfg ports ep cap stops w s"
    | (decision) tr us n rq d where "pc = At_decide tr us n rq" "r = on_decision cfg ports ep tr us n rq d s"
    | (dropped) tr us n rq e where "pc = At_decide tr us n rq" "r = decision_dropped ep rq e s"
    | (played) tr us n rq pr task p pl where "pc = At_reply tr us n rq pr task p"
        "r = on_reply cfg ports ep us n rq pr p pl s"
    | (raised) e where "r = (Inl e, s)"
    using ans by (cases pc; cases answer) auto
  then show ?thesis
  proof cases
    case heard
    show ?thesis
    proof (cases "round_valid ep s")
      case False
      then show ?thesis using exc [OF stay] heard by (simp add: on_text_def)
    next
      case True
      then have ep: "ep = sn_epoch s" by (simp add: round_valid_def)
      show ?thesis
      proof (cases "stops = []")
        case False
        then show ?thesis using heard True now [OF ep]
          by (auto simp: on_text_def intro!: scene_inv_settle [OF inv task stay])
      next
        case Nil: True
        then have "\<forall>u P. sn_tasks s u \<noteq> Some (Stop_task (sn_epoch s) P)"
          using now [OF ep] heard by (auto simp: covers_def)
        then show ?thesis
          using scene_inv_after_stops [OF inv task] heard True Nil by (simp add: on_text_def)
      qed
    qed
  next
    case decision
    obtain res s' where r: "r = (res, s')" by fastforce
    note spec = on_decision_spec [OF decision(2) [symmetric, unfolded r]]
    show ?thesis unfolding r
    proof (rule scene_inv_settle [OF inv task])
      show "same_frame s s'" "set (keys s) \<subseteq> set (keys s')" using spec by auto
      fix pc' assume "res = Inr (Some pc')"
      then show "permit_ok ep pc' \<and> (ep = sn_epoch s \<longrightarrow> pc_ok s' pc')"
        using spec now decision(1) by (auto simp: quiet_def same_frame_def)
    qed
  next
    case dropped
    then show ?thesis using exc
      by (simp add: decision_dropped_def audit_record_def same_frame_def keys_def)
  next
    case played
    obtain res s' where r: "r = (res, s')" by fastforce
    note spec = on_reply_spec [OF played(2) [symmetric, unfolded r]]
    show ?thesis unfolding r
    proof (rule scene_inv_settle [OF inv task])
      show "same_frame s s'" "set (keys s) \<subseteq> set (keys s')" using spec by auto
      fix pc' assume "res = Inr (Some pc')"
      then show "permit_ok ep pc' \<and> (ep = sn_epoch s \<longrightarrow> pc_ok s' pc')"
        using spec now played(1) by (auto simp: quiet_def same_frame_def)
    qed
  next
    case raised
    then show ?thesis using exc [OF stay] by simp
  qed
qed

lemma permit_phase_frame:
  "same_frame s (snd (permit_phase p v s))" "keys (snd (permit_phase p v s)) = keys s"
  "sn_history (snd (permit_phase p v s)) = sn_history s" "sn_active_turn (snd (permit_phase p v s)) = sn_active_turn s"
  by (simp_all add: permit_phase_def state_defs same_frame_def keys_def)

text \<open>Once the session is closed its own last stops change nothing anybody relies on.\<close>

lemma scene_inv_closing:
  assumes inv: "scene_inv cfg s" and c: "sn_closed s"
    and f: "sn_epoch s' = sn_epoch s" "sn_held s' = sn_held s" "sn_closed s' = sn_closed s" "sn_tasks s' = sn_tasks s"
      "sn_stop_tasks s' = sn_stop_tasks s" "sn_spawned s' = sn_spawned s" "sn_round s' = sn_round s"
      "sn_cancelled s' = sn_cancelled s"
  shows "scene_inv cfg s'"
proof -
  have "sn_tasks s u \<noteq> Some (Round_task (sn_epoch s) cap pc)" for u cap pc
    using scene_inv_now [OF inv] c by blast
  then show ?thesis using inv c f
    by (simp add: scene_inv_def part_defs is_stop_task_def round_now_def)
qed

lemma scene_inv_step:
  assumes step: "scene_step cfg ports s s'" and inv: "scene_inv cfg s"
    and dist: "distinct (map mb_companion_id (sc_members cfg))"
  shows "scene_inv cfg s'"
  using step
proof cases
  case (round_begun t ep cap stops)
  have "ep = sn_epoch s \<Longrightarrow> covers s stops"
    using scene_inv_now [OF inv] round_begun(2) by fastforce
  then show ?thesis using scene_inv_move_round [OF inv round_begun(2)] round_begun(1) by simp
next
  case (stops_awaited t ep cap stops w)
  have "\<forall>u P. sn_tasks s u \<noteq> Some (Stop_task (sn_epoch s) P)" if "ep = sn_epoch s"
  proof -
    have "covers s stops" using scene_inv_now [OF inv] stops_awaited(2) that by fastforce
    then show ?thesis using stops_awaited(3) by (fastforce simp: covers_def stops_done_def)
  qed
  then show ?thesis using scene_inv_after_stops [OF inv stops_awaited(2)] stops_awaited(1) by simp
next
  case (wait_cancelled t ep cap stops w)
  then show ?thesis
    using scene_inv_settle [OF inv wait_cancelled(2), of s "Inl Cancelled_error"] by (simp add: same_frame_def)
next
  case (close_answered ep pending m answer)
  have "sn_closed s" using inv close_answered(2) by (simp add: scene_inv_def inv_flags_def)
  then show ?thesis unfolding close_answered(1) close_answer_def
    by (intro scene_inv_closing [OF inv]) simp_all
next
  case (close_ended ep)
  have "sn_closed s" using inv close_ended(2) by (simp add: scene_inv_def inv_flags_def)
  then show ?thesis unfolding close_ended(1) close_done_def
    by (intro scene_inv_closing [OF inv]) (simp_all add: state_defs)
qed (use inv scene_inv_press scene_inv_release scene_inv_stop_answer dist scene_inv_end_stop scene_inv_end_round
      scene_inv_round_answer scene_inv_close scene_inv_frame [OF inv permit_phase_frame(1)] permit_phase_frame(2)
     in auto)

lemma scene_inv_reachable:
  assumes "scene_reachable cfg ports s"
  shows "scene_inv cfg s"
proof -
  obtain s0 where s0: "open_scene cfg = Inr s0" and path: "scene_steps cfg ports s0 s"
    using assms by (auto simp: scene_reachable_def)
  have dist: "distinct (map mb_companion_id (sc_members cfg))"
    using s0 by (auto simp: open_scene_def Let_def split: if_splits)
  have "s0 = initial_scene cfg" using s0 by (auto simp: open_scene_def Let_def split: if_splits)
  then have "scene_inv cfg s0" by (simp add: inv_defs initial_scene_def)
  from path this show ?thesis
    by induction (use scene_inv_step dist in auto)
qed

end
