(* ===== verification/Coord_Moves.thy ===== *)
theory Coord_Moves
  imports Coord_Facts
begin

text \<open>
  The protocol of a scene: what an observer sees of each step. \<open>scene_move\<close> is the abstract step
  relation, on the records that matter, the captures, the public words of the members and the rounds
  that are alive; every step of the session is a move of it (\<open>scene_step_move\<close>).
\<close>

section \<open>The abstract protocol\<close>

definition companion_words :: "scene \<Rightarrow> public_message list" where
  "companion_words s = filter (\<lambda>m. pm_kind m = Companion_author) (sn_history s)"

text \<open>How many replies a round may still start, when it is suspended there.\<close>

fun room :: "scene_config \<Rightarrow> round_pc \<Rightarrow> int" where
  "room cfg (At_decide tr us n rq) = n"
| "room cfg (At_reply tr us n rq pr task p) = n - 1"
| "room cfg _ = sc_reply_budget cfg"

fun room_ok :: "round_pc \<Rightarrow> bool" where
  "room_ok (At_decide tr us n rq) = (1 \<le> n)"
| "room_ok (At_reply tr us n rq pr task p) = (1 \<le> n)"
| "room_ok _ = True"

fun speaks :: "round_pc \<Rightarrow> bool" where
  "speaks (At_reply tr us n rq pr task p) = True"
| "speaks _ = False"

text \<open>The rounds alive afterwards were alive before, but for the one that is given.\<close>

definition rounds_become :: "scene \<Rightarrow> scene \<Rightarrow> nat \<Rightarrow> scene_task option \<Rightarrow> bool" where
  "rounds_become s s' t k \<longleftrightarrow>
     (\<forall>u ep cap pc. sn_tasks s' u = Some (Round_task ep cap pc) \<longrightarrow>
        (if u = t then k = Some (Round_task ep cap pc) else sn_tasks s u = Some (Round_task ep cap pc)))"

definition rounds_kept :: "scene \<Rightarrow> scene \<Rightarrow> bool" where
  "rounds_kept s s' \<longleftrightarrow>
     (\<forall>u ep cap pc. sn_tasks s' u = Some (Round_task ep cap pc) \<longrightarrow> sn_tasks s u = Some (Round_task ep cap pc))"

definition no_hold :: "scene \<Rightarrow> scene \<Rightarrow> bool" where
  "no_hold s s' \<longleftrightarrow> sn_epoch s \<le> sn_epoch s' \<and> (sn_held s' \<longrightarrow> sn_held s \<and> sn_epoch s' = sn_epoch s)"

definition same_words :: "scene \<Rightarrow> scene \<Rightarrow> bool" where
  "same_words s s' \<longleftrightarrow> companion_words s' = companion_words s \<and> sn_captures s' = sn_captures s"

inductive scene_move :: "scene_config \<Rightarrow> scene \<Rightarrow> scene \<Rightarrow> bool" for cfg s s' where
  Idle: "keys s' = keys s \<Longrightarrow> same_words s s' \<Longrightarrow> rounds_kept s s' \<Longrightarrow> no_hold s s' \<Longrightarrow> scene_move cfg s s'"
| Confirmed:
    "keys s' = keys s @ [(e, Ev_stopped dev e')] \<Longrightarrow> same_words s s' \<Longrightarrow> rounds_kept s s' \<Longrightarrow> no_hold s s'
     \<Longrightarrow> scene_move cfg s s'"
| Pressed:
    "keys s' = keys s @ [(Suc (sn_epoch s), Ev_press cap)] \<Longrightarrow> sn_epoch s' = Suc (sn_epoch s)
     \<Longrightarrow> cap \<notin> set (sn_captures s) \<Longrightarrow> length (sn_captures s) < 256 \<Longrightarrow> sn_captures s' = cap # sn_captures s
     \<Longrightarrow> companion_words s' = companion_words s \<Longrightarrow> rounds_kept s s' \<Longrightarrow> scene_move cfg s s'"
| Released:
    "keys s' = keys s \<Longrightarrow> same_words s s' \<Longrightarrow> sn_held s \<Longrightarrow> \<not> sn_held s' \<Longrightarrow> sn_epoch s' = sn_epoch s
     \<Longrightarrow> rounds_become s s' t (Some (Round_task (sn_epoch s) cap (At_begin stops))) \<Longrightarrow> scene_move cfg s s'"
| Moved:
    "sn_tasks s t = Some (Round_task ep cap pc) \<Longrightarrow> keys s' = keys s \<Longrightarrow> same_words s s' \<Longrightarrow> no_hold s s'
     \<Longrightarrow> room cfg pc' \<le> room cfg pc \<Longrightarrow> room_ok pc' \<Longrightarrow> \<not> speaks pc' \<Longrightarrow> sn_epoch s' = sn_epoch s
     \<Longrightarrow> rounds_become s s' t (Some (Round_task ep cap pc')) \<Longrightarrow> scene_move cfg s s'"
| Started:
    "sn_tasks s t = Some (Round_task (sn_epoch s) cap (At_decide tr us n rq)) \<Longrightarrow> m \<in> set (sc_members cfg)
     \<Longrightarrow> keys s' = keys s @ [(sn_epoch s, Ev_reply_started (dq_decision_id rq) (mb_companion_id m) (mb_device_id m) turn)]
     \<Longrightarrow> same_words s s' \<Longrightarrow> no_hold s s' \<Longrightarrow> sn_epoch s' = sn_epoch s
     \<Longrightarrow> rounds_become s s' t (Some (Round_task (sn_epoch s) cap (At_reply tr us n rq pr task p)))
     \<Longrightarrow> pt_companion p = mb_companion_id m \<Longrightarrow> pt_turn_id p = turn \<Longrightarrow> scene_move cfg s s'"
| Played:
    "sn_tasks s t = Some (Round_task (sn_epoch s) cap (At_reply tr us n rq pr task p))
     \<Longrightarrow> keys s' = keys s @ [(sn_epoch s, Ev_reply_played (dq_decision_id rq) (pt_companion p) (pt_turn_id p))]
     \<Longrightarrow> companion_words s' = companion_words s @ [\<lparr>pm_id = pt_turn_id p, pm_kind = Companion_author,
            pm_author = pt_companion p, pm_text = words\<rparr>]
     \<Longrightarrow> sn_captures s' = sn_captures s \<Longrightarrow> no_hold s s'
     \<Longrightarrow> rounds_kept s s'
         \<or> sn_epoch s' = sn_epoch s \<and> n - 1 \<noteq> 0
           \<and> rounds_become s s' t (Some (Round_task (sn_epoch s) cap (At_decide tr' us (n - 1) rq')))
     \<Longrightarrow> scene_move cfg s s'"

lemma same_words_refl [simp]: "same_words s s" by (simp add: same_words_def)
lemma rounds_kept_refl [simp]: "rounds_kept s s" by (simp add: rounds_kept_def)
lemma no_hold_refl [simp]: "no_hold s s" by (simp add: no_hold_def)

lemma frame_kept: "same_frame s s' \<Longrightarrow> rounds_kept s s' \<and> no_hold s s'"
  by (simp add: same_frame_def rounds_kept_def no_hold_def)


section \<open>Every step is a move\<close>

text \<open>What settling a round leaves: the round where it goes on, or none.\<close>

lemma settle_round_over:
  assumes frame: "same_frame s s1" and over: "\<And>pc. res \<noteq> Inr (Some pc)"
  shows "keys (settle_round cfg t ep cap (res, s1)) = keys s1
    \<and> sn_history (settle_round cfg t ep cap (res, s1)) = sn_history s1
    \<and> sn_captures (settle_round cfg t ep cap (res, s1)) = sn_captures s
    \<and> rounds_kept s (settle_round cfg t ep cap (res, s1)) \<and> no_hold s (settle_round cfg t ep cap (res, s1))"
proof -
  have fin: "keys (end_task t (round_finally ep s2)) = keys s2
    \<and> sn_history (end_task t (round_finally ep s2)) = sn_history s2
    \<and> sn_captures (end_task t (round_finally ep s2)) = sn_captures s2
    \<and> (rounds_kept s s2 \<longrightarrow> rounds_kept s (end_task t (round_finally ep s2)))
    \<and> (no_hold s s2 \<longrightarrow> no_hold s (end_task t (round_finally ep s2)))" for s2
    by (simp add: end_task_def round_finally_def settle_members_def keys_def rounds_kept_def no_hold_def)
  show ?thesis
  proof (cases res)
    case (Inl e)
    have "keys (round_raised cfg ep e s1) = keys s1 \<and> sn_history (round_raised cfg ep e s1) = sn_history s1
      \<and> sn_captures (round_raised cfg ep e s1) = sn_captures s \<and> rounds_kept s (round_raised cfg ep e s1)
      \<and> no_hold s (round_raised cfg ep e s1)"
    proof (cases "round_valid ep s1")
      case False
      then show ?thesis using frame frame_kept [OF frame] by (simp add: round_raised_def same_frame_def)
    next
      case True
      then have h: "\<not> sn_held s1" by (simp add: round_valid_def)
      obtain code s2 where "round_raised cfg ep e s1 = fail_round cfg code True s2" "same_frame s1 s2" "keys s2 = keys s1"
        "sn_history s2 = sn_history s1"
        using round_raised_valid [OF True] by metis
      then show ?thesis using frame h
        by (auto simp: same_frame_def rounds_kept_def no_hold_def split: if_splits)
    qed
    then show ?thesis using Inl fin by (simp add: settle_round_def)
  next
    case (Inr x)
    then have "x = None" using over by (cases x) auto
    then show ?thesis using Inr fin frame frame_kept [OF frame] by (simp add: settle_round_def same_frame_def)
  qed
qed

lemma settle_round_on:
  assumes "same_frame s s1"
  shows "keys (settle_round cfg t ep cap (Inr (Some pc), s1)) = keys s1
    \<and> sn_history (settle_round cfg t ep cap (Inr (Some pc), s1)) = sn_history s1
    \<and> sn_captures (settle_round cfg t ep cap (Inr (Some pc), s1)) = sn_captures s
    \<and> sn_epoch (settle_round cfg t ep cap (Inr (Some pc), s1)) = sn_epoch s
    \<and> no_hold s (settle_round cfg t ep cap (Inr (Some pc), s1))
    \<and> rounds_become s (settle_round cfg t ep cap (Inr (Some pc), s1)) t (Some (Round_task ep cap pc))"
  using assms by (simp add: settle_round_def set_task_def keys_def same_frame_def no_hold_def rounds_become_def)

text \<open>A result that says nothing new: the round fails, ends, or goes on with no more room than before.\<close>

lemma settle_move:
  assumes task: "sn_tasks s t = Some (Round_task ep cap pc)" and frame: "same_frame s s1" and k: "keys s1 = keys s"
    and w: "companion_words s1 = companion_words s"
    and goes: "\<And>pc'. res = Inr (Some pc') \<Longrightarrow> room cfg pc' \<le> room cfg pc \<and> room_ok pc' \<and> \<not> speaks pc'"
  shows "scene_move cfg s (settle_round cfg t ep cap (res, s1))"
proof (cases "\<exists>pc'. res = Inr (Some pc')")
  case True
  then obtain pc' where r: "res = Inr (Some pc')" by blast
  from settle_round_on [OF frame, of cfg t ep cap pc'] show ?thesis
    by (intro Moved [OF task, of _ _ pc'])
       (use r goes k w in \<open>auto simp: same_words_def companion_words_def\<close>)
next
  case False
  then show ?thesis using settle_round_over [OF frame, of res cfg t ep cap] k w
    by (intro Idle) (auto simp: same_words_def companion_words_def)
qed


lemma same_frame_refl [simp]: "same_frame s s" by (simp add: same_frame_def)

lemma after_stops_move:
  assumes task: "sn_tasks s t = Some (Round_task ep cap pc)" and room: "room cfg pc = sc_reply_budget cfg"
    and budget: "1 \<le> sc_reply_budget cfg"
  shows "scene_move cfg s (settle_round cfg t ep cap (after_stops cfg ports ep cap txt s))"
proof (cases "round_valid ep s")
  case False
  then show ?thesis using settle_move [OF task, of s "Inl Cancelled_error"] by (simp add: after_stops_def)
next
  case True
  obtain res s' where r: "after_stops cfg ports ep cap txt s = (res, s')" by fastforce
  show ?thesis
  proof (cases "sn_failures s = []")
    case False
    then have "res = Inr None" and s': "s' = fail_round cfg ''TEAM_STOP_UNCONFIRMED'' False s"
      using after_stops_spec [OF r True] by auto
    moreover have "sn_history s' = sn_history s" "keys s' = keys s" "sn_captures s' = sn_captures s"
      "rounds_kept s s'" "no_hold s s'"
      using True by (simp_all add: s' rounds_kept_def no_hold_def round_valid_def)
    ultimately show ?thesis unfolding r
      by (intro Idle) (auto simp: settle_round_def end_task_def round_finally_def settle_members_def keys_def
          same_words_def companion_words_def rounds_kept_def no_hold_def)
  next
    case ok: True
    have "companion_words s' = companion_words s"
      using after_stops_spec [OF r True] ok by (auto simp: companion_words_def)
    then show ?thesis unfolding r
      by (intro settle_move [OF task]) (use after_stops_spec [OF r True] ok room budget in auto)
  qed
qed

lemma decision_move:
  assumes task: "sn_tasks s t = Some (Round_task ep cap (At_decide tr us n rq))"
    and r: "on_decision cfg ports ep tr us n rq d s = (res, s')"
  shows "scene_move cfg s (settle_round cfg t ep cap (res, s'))"
proof (cases "\<exists>pc. res = Inr (Some pc)")
  case False
  then show ?thesis using on_decision_spec [OF r]
    by (intro settle_move [OF task]) (auto simp: companion_words_def)
next
  case True
  then obtain pr tsk m turn where started: "m \<in> set (sc_members cfg)" "round_valid ep s"
      "res = Inr (Some (At_reply tr us n rq pr tsk
                 \<lparr>pt_turn_id = turn, pt_epoch = ep, pt_companion = mb_companion_id m\<rparr>))"
      "keys s' = keys s @ [(ep, Ev_reply_started (dq_decision_id rq) (mb_companion_id m) (mb_device_id m) turn)]"
    and frame: "same_frame s s'" and h: "sn_history s' = sn_history s"
    using on_decision_spec [OF r] by auto
  have ep: "ep = sn_epoch s" using started(2) by (simp add: round_valid_def)
  show ?thesis
    using settle_round_on [OF frame, of cfg t ep cap
        "At_reply tr us n rq pr tsk \<lparr>pt_turn_id = turn, pt_epoch = ep, pt_companion = mb_companion_id m\<rparr>"]
      started h task unfolding ep
    by (intro Started [OF _ started(1)]) (auto simp: same_words_def companion_words_def)
qed

lemma reply_move:
  assumes task: "sn_tasks s t = Some (Round_task ep cap (At_reply tr us n rq pr tsk p))" and p: "pt_epoch p = ep"
    and r: "on_reply cfg ports ep us n rq pr p pl s = (res, s')"
  shows "scene_move cfg s (settle_round cfg t ep cap (res, s'))"
proof (cases "keys s' = keys s \<and> sn_history s' = sn_history s \<and> (\<exists>e. res = Inl e)")
  case True
  then show ?thesis using on_reply_spec [OF r]
    by (intro settle_move [OF task]) (auto simp: companion_words_def)
next
  case False
  let ?m = "\<lparr>pm_id = pt_turn_id p, pm_kind = Companion_author, pm_author = pt_companion p, pm_text = pl_text pl\<rparr>"
  have frame: "same_frame s s'" and cur: "permit_current p s"
    and k: "keys s' = keys s @ [(sn_epoch s, Ev_reply_played (dq_decision_id rq) (pt_companion p) (pt_turn_id p))]"
    and h: "sn_history s' = sn_history s @ [?m]"
    and res: "(\<exists>e. res = Inl e) \<or> res = Inr None
       \<or> n - 1 \<noteq> 0 \<and> (\<exists>tr' rq'. res = Inr (Some (At_decide tr' us (n - 1) rq')))"
    using on_reply_spec [OF r] False by auto
  have ep: "ep = sn_epoch s" using cur p by (simp add: permit_current_def round_valid_def)
  have words: "companion_words s' = companion_words s @ [?m]" by (simp add: companion_words_def h)
  show ?thesis
  proof (cases "\<exists>pc. res = Inr (Some pc)")
    case True
    then obtain tr' rq' where r': "res = Inr (Some (At_decide tr' us (n - 1) rq'))" "n - 1 \<noteq> 0" using res by auto
    show ?thesis
      using settle_round_on [OF frame, of cfg t ep cap "At_decide tr' us (n - 1) rq'"] k words r' task unfolding ep
      by (intro Played [of _ t cap tr us n rq pr tsk p]) (auto simp: companion_words_def)
  next
    case none: False
    show ?thesis
      using settle_round_over [OF frame, of res cfg t ep cap] none k words task unfolding ep
      by (intro Played [of _ t cap tr us n rq pr tsk p]) (auto simp: companion_words_def)
  qed
qed

lemma press_move: "scene_move cfg s (snd (press cfg device cap s))"
proof (cases "snd (press cfg device cap s) = s")
  case False
  have "keys (snd (press cfg device cap s)) = keys s @ [(Suc (sn_epoch s), Ev_press cap)]
    \<and> sn_epoch (snd (press cfg device cap s)) = Suc (sn_epoch s)
    \<and> cap \<notin> set (sn_captures s) \<and> length (sn_captures s) < 256
    \<and> sn_captures (snd (press cfg device cap s)) = cap # sn_captures s
    \<and> sn_history (snd (press cfg device cap s)) = sn_history s
    \<and> rounds_kept s (snd (press cfg device cap s))"
    using False
    by (auto simp: press_def cancel_round_def state_defs keys_def rounds_kept_def split: if_splits option.splits)
  then show ?thesis by (intro Pressed) (auto simp: companion_words_def)
qed (simp add: Idle)

lemma release_move: "scene_move cfg s (snd (release cfg device cap s))"
proof (cases "snd (release cfg device cap s) = s")
  case False
  show ?thesis
    by (rule Released [where t = "sn_spawned s" and cap = cap and stops = "sn_stop_tasks s"])
       (use False in \<open>auto simp: release_def state_defs keys_def same_words_def companion_words_def
         rounds_become_def split: if_splits\<close>)
qed (simp add: Idle)

lemma answer_move:
  assumes inv: "scene_inv cfg s" and budget: "1 \<le> sc_reply_budget cfg"
    and task: "sn_tasks s t = Some (Round_task ep cap pc)"
    and ans: "answer_round cfg ports ep cap pc answer s = Some r"
  shows "scene_move cfg s (settle_round cfg t ep cap r)"
proof -
  consider
      (heard) stops w where "pc = At_transcribe stops" "r = on_text cfg ports ep cap stops w s"
    | (decision) tr us n rq d where "pc = At_decide tr us n rq" "r = on_decision cfg ports ep tr us n rq d s"
    | (dropped) tr us n rq e where "pc = At_decide tr us n rq" "r = decision_dropped ep rq e s"
    | (played) tr us n rq pr tsk p pl where "pc = At_reply tr us n rq pr tsk p"
        "r = on_reply cfg ports ep us n rq pr p pl s"
    | (raised) e where "r = (Inl e, s)"
    using ans by (cases pc; cases answer) auto
  then show ?thesis
  proof cases
    case heard
    then show ?thesis
      using after_stops_move [OF task _ budget] settle_move [OF task same_frame_refl, of "Inl Cancelled_error"]
        settle_move [OF task same_frame_refl, of "Inr (Some (At_stops stops w))"]
      by (auto simp: on_text_def)
  next
    case decision
    obtain res s' where r: "r = (res, s')" by fastforce
    show ?thesis unfolding r
      by (rule decision_move [OF task [unfolded decision(1)] decision(2) [symmetric, unfolded r]])
  next
    case dropped
    then show ?thesis using settle_move [OF task, of "snd r" "fst r"]
      by (simp add: decision_dropped_def audit_record_def same_frame_def keys_def companion_words_def)
  next
    case played
    then have p: "pt_epoch p = ep" using inv task by (fastforce simp: scene_inv_def inv_permits_def)
    obtain res s' where r: "r = (res, s')" by fastforce
    show ?thesis unfolding r
      by (rule reply_move [OF task [unfolded played(1)] p played(2) [symmetric, unfolded r]])
  next
    case raised
    then show ?thesis using settle_move [OF task same_frame_refl, of "Inl e"] by simp
  qed
qed

lemma stop_answer_move:
  assumes "sn_tasks s t = Some (Stop_task ep P)"
  shows "scene_move cfg s (stop_answer t ep P m a s)"
proof -
  have f: "keys (stop_answer t ep P m a s)
      = keys s @ (if a = None then [(sn_epoch s, Ev_stopped (mb_device_id m) ep)] else [])"
    "same_words s (stop_answer t ep P m a s)" "rounds_kept s (stop_answer t ep P m a s)"
    "no_hold s (stop_answer t ep P m a s)"
    using assms stop_reply_keys [of ep m a s]
    by (auto simp: stop_answer_def end_task_def set_task_def Let_def same_words_def companion_words_def
        rounds_kept_def no_hold_def keys_def)
  show ?thesis
    by (cases a) (use f in \<open>auto intro: Idle Confirmed\<close>)
qed

lemma scene_step_move:
  assumes step: "scene_step cfg ports s s'" and inv: "scene_inv cfg s" and budget: "1 \<le> sc_reply_budget cfg"
  shows "scene_move cfg s s'"
  using step
proof cases
  case (stops_awaited t ep cap stops w)
  then show ?thesis using after_stops_move [OF stops_awaited(2) _ budget] by simp
next
  case (wait_cancelled t ep cap stops w)
  then show ?thesis using settle_move [OF wait_cancelled(2) same_frame_refl, of "Inl Cancelled_error"] by simp
next
  case (round_begun t ep cap stops)
  show ?thesis unfolding round_begun(1)
    by (rule Moved [OF round_begun(2)])
       (auto simp: set_task_def keys_def same_words_def companion_words_def no_hold_def rounds_become_def)
next
  case (close_answered ep pending m answer)
  have "same_words s s'" "rounds_kept s s'" "no_hold s s'"
    "keys s' = keys s @ (if answer = None then [(sn_epoch s, Ev_stopped (mb_device_id m) ep)] else [])"
    using stop_reply_keys [of ep m answer s]
    by (simp_all add: close_answered close_answer_def same_words_def companion_words_def rounds_kept_def no_hold_def keys_def)
  then show ?thesis by (cases answer) (auto intro: Idle Confirmed)
next
  case (phase_reported t ep cap tr us n rq pr tsk p v)
  then show ?thesis
    using frame_kept [OF permit_phase_frame(1) [of s p v]] permit_phase_frame(2,3) [of p v s] permit_phase_frame(1) [of s p v]
    by (intro Idle) (auto simp: same_words_def companion_words_def same_frame_def)
next
  case closed
  then show ?thesis
    by (intro Idle) (auto simp: close_scene_def keys_def same_words_def companion_words_def rounds_kept_def no_hold_def)
qed (use press_move release_move stop_answer_move answer_move [OF inv budget]
     in \<open>auto intro!: Idle simp: end_task_def close_done_def state_defs keys_def same_words_def companion_words_def
           rounds_kept_def no_hold_def\<close>)

end
