(* ===== verification/Coord_Safety.thy ===== *)
theory Coord_Safety
  imports Coord_Moves
begin

text \<open>
  The promises of a scene to its user: silence before speech, one voice at a time, revocation, the
  reply budget, captures that are used once, and a public history of what was played.
\<close>

section \<open>Invariants of the protocol\<close>

text \<open>\<open>scene_path\<close> lifts a property of moves to every scene that can be reached.\<close>

lemma opened:
  assumes "open_scene cfg = Inr s0"
  shows "s0 = initial_scene cfg" "distinct (map mb_companion_id (sc_members cfg))"
    "distinct (map mb_device_id (sc_members cfg))" "1 \<le> sc_reply_budget cfg" "sc_reply_budget cfg \<le> 32"
  using assms by (auto simp: open_scene_def Let_def split: if_splits)

lemma initial_fields [simp]:
  "keys (initial_scene cfg) = []" "sn_history (initial_scene cfg) = []" "sn_captures (initial_scene cfg) = []"
  "sn_tasks (initial_scene cfg) = Map.empty" "sn_held (initial_scene cfg) = False"
  by (simp_all add: initial_scene_def keys_def)

lemma reachable_budget: "scene_reachable cfg ports s \<Longrightarrow> 1 \<le> sc_reply_budget cfg \<and> sc_reply_budget cfg \<le> 32"
  using opened by (auto simp: scene_reachable_def)

lemma scene_path:
  assumes "scene_reachable cfg ports s" and "Q (initial_scene cfg)"
    and "\<And>s s'. scene_inv cfg s \<Longrightarrow> scene_step cfg ports s s' \<Longrightarrow> scene_move cfg s s' \<Longrightarrow> Q s \<Longrightarrow> Q s'"
  shows "Q s"
proof -
  obtain s0 where s0: "open_scene cfg = Inr s0" and path: "scene_steps cfg ports s0 s"
    using assms(1) by (auto simp: scene_reachable_def)
  note o = opened [OF s0]
  from path have "scene_inv cfg s \<and> Q s"
  proof induction
    case stay
    show ?case using assms(2) by (simp add: o(1) inv_defs initial_scene_def)
  next
    case (go s' s'')
    then show ?case using assms(3) scene_inv_step [OF _ _ o(2)] scene_step_move [OF _ _ o(4)] by blast
  qed
  then show ?thesis by blast
qed

lemma filter_split:
  assumes "xs = us @ x # vs" and "P x"
  shows "filter P xs = filter P us @ x # filter P vs"
  using assms by simp

text \<open>Replies that were started in an epoch.\<close>

fun is_start :: "scene_fact \<Rightarrow> bool" where
  "is_start (Ev_reply_started d c dev t) = True"
| "is_start _ = False"

definition starts :: "nat \<Rightarrow> (nat \<times> scene_fact) list \<Rightarrow> nat" where
  "starts e xs = length (filter (\<lambda>(e', ev). e' = e \<and> is_start ev) xs)"

lemma starts_append [simp]: "starts e (xs @ ys) = starts e xs + starts e ys"
  by (simp add: starts_def)

lemma starts_one [simp]: "starts e [(e', ev)] = (if e' = e \<and> is_start ev then 1 else 0)"
  by (simp add: starts_def)

definition budget_inv :: "scene_config \<Rightarrow> scene \<Rightarrow> bool" where
  "budget_inv cfg s \<longleftrightarrow>
     (\<forall>e. int (starts e (keys s)) \<le> sc_reply_budget cfg)
     \<and> (\<forall>e. sn_epoch s < e \<longrightarrow> starts e (keys s) = 0)
     \<and> (sn_held s \<longrightarrow> starts (sn_epoch s) (keys s) = 0)
     \<and> (\<forall>t cap pc. sn_tasks s t = Some (Round_task (sn_epoch s) cap pc)
          \<longrightarrow> int (starts (sn_epoch s) (keys s)) + room cfg pc \<le> sc_reply_budget cfg)
     \<and> (\<forall>t ep cap pc. sn_tasks s t = Some (Round_task ep cap pc) \<longrightarrow> room_ok pc)"

lemma old_rounds:
  assumes "scene_inv cfg s" and "rounds_kept s s'" and "sn_tasks s' t = Some (Round_task ep cap pc)"
  shows "ep \<le> sn_epoch s"
  using assms by (fastforce simp: scene_inv_def inv_ids_def rounds_kept_def)

lemma budget_inv_kept:
  assumes b: "budget_inv cfg s" and inv: "scene_inv cfg s" and k: "\<And>e. starts e (keys s') = starts e (keys s)"
    and kept: "rounds_kept s s'" and e: "sn_epoch s \<le> sn_epoch s'"
    and h: "sn_held s' \<Longrightarrow> sn_epoch s' = sn_epoch s \<Longrightarrow> sn_held s"
  shows "budget_inv cfg s'"
proof -
  have "int (starts (sn_epoch s') (keys s')) + room cfg pc \<le> sc_reply_budget cfg"
    if "sn_tasks s' t = Some (Round_task (sn_epoch s') cap pc)" for t cap pc
  proof -
    have e': "sn_epoch s' = sn_epoch s" using old_rounds [OF inv kept that] e by simp
    then have "sn_tasks s t = Some (Round_task (sn_epoch s) cap pc)" using that kept by (simp add: rounds_kept_def)
    then show ?thesis using b e' unfolding budget_inv_def k by metis
  qed
  moreover have "sn_held s' \<Longrightarrow> starts (sn_epoch s') (keys s') = 0"
    using b e h by (cases "sn_epoch s' = sn_epoch s") (auto simp: budget_inv_def k)
  ultimately show ?thesis using b e kept by (simp add: budget_inv_def k rounds_kept_def) blast
qed

text \<open>One round moves; the epoch stays.\<close>

lemma budget_inv_moved:
  assumes b: "budget_inv cfg s" and e: "sn_epoch s' = sn_epoch s"
    and k: "keys s' = keys s @ zs" and zs: "\<And>e. e \<noteq> sn_epoch s \<Longrightarrow> starts e zs = 0"
    and h: "sn_held s' \<Longrightarrow> sn_held s \<and> starts (sn_epoch s) zs = 0"
    and rounds: "rounds_become s s' t (Some (Round_task ep cap pc'))"
    and fits: "ep = sn_epoch s \<Longrightarrow>
      int (starts (sn_epoch s) (keys s)) + int (starts (sn_epoch s) zs) + room cfg pc' \<le> sc_reply_budget cfg"
    and top: "int (starts (sn_epoch s) (keys s)) + int (starts (sn_epoch s) zs) \<le> sc_reply_budget cfg"
    and others: "\<And>u c pc. u \<noteq> t \<Longrightarrow> sn_tasks s u = Some (Round_task (sn_epoch s) c pc) \<Longrightarrow> starts (sn_epoch s) zs = 0"
    and ok: "room_ok pc'"
  shows "budget_inv cfg s'"
proof -
  have r: "sn_tasks s' u = Some (Round_task ep' c pc) \<Longrightarrow>
      (u = t \<and> ep' = ep \<and> pc = pc') \<or> (u \<noteq> t \<and> sn_tasks s u = Some (Round_task ep' c pc))" for u ep' c pc
    using rounds unfolding rounds_become_def by (metis option.inject scene_task.inject(2))
  have "int (starts (sn_epoch s') (keys s')) + room cfg pc \<le> sc_reply_budget cfg"
    if "sn_tasks s' u = Some (Round_task (sn_epoch s') c pc)" for u c pc
    using r [OF that] fits others [of u c pc] b by (auto simp: e k budget_inv_def)
  moreover have "int (starts e' (keys s')) \<le> sc_reply_budget cfg" for e'
    using b zs top by (cases "e' = sn_epoch s") (auto simp: k budget_inv_def)
  moreover have "sn_tasks s' u = Some (Round_task ep' c pc) \<Longrightarrow> room_ok pc" for u ep' c pc
    using r ok b unfolding budget_inv_def by blast
  ultimately show ?thesis using b h zs by (auto simp: budget_inv_def e k)
qed

lemma budget_inv_move:
  assumes move: "scene_move cfg s s'" and inv: "scene_inv cfg s" and b: "budget_inv cfg s"
  shows "budget_inv cfg s'"
  using move
proof cases
  case Idle
  then show ?thesis by (intro budget_inv_kept [OF b inv]) (auto simp: no_hold_def)
next
  case (Confirmed e dev e')
  then show ?thesis by (intro budget_inv_kept [OF b inv]) (auto simp: no_hold_def)
next
  case (Pressed cap)
  then show ?thesis by (intro budget_inv_kept [OF b inv]) auto
next
  case (Released t cap stops)
  then show ?thesis using b
    by (intro budget_inv_moved [OF b, of s' "[]" t "sn_epoch s" cap "At_begin stops"]) (auto simp: budget_inv_def starts_def)
next
  case (Moved t ep cap pc pc')
  have "int (starts (sn_epoch s) (keys s)) + room cfg pc' \<le> sc_reply_budget cfg" if "ep = sn_epoch s"
    using b Moved that unfolding budget_inv_def by fastforce
  then show ?thesis using b Moved
    by (intro budget_inv_moved [OF b, of s' "[]" t ep cap pc']) (auto simp: budget_inv_def starts_def no_hold_def)
next
  case (Started t cap tr us n rq m turn pr tsk p)
  have h: "\<not> sn_held s" using scene_inv_now [OF inv Started(1)] by simp
  have n: "1 \<le> n" "int (starts (sn_epoch s) (keys s)) + n \<le> sc_reply_budget cfg"
    using b Started(1) unfolding budget_inv_def by fastforce+
  have single: "u = t" if "sn_tasks s u = Some (Round_task (sn_epoch s) c pc)" for u c pc
    using inv Started(1) that unfolding scene_inv_def inv_single_def round_now_def by blast
  show ?thesis
    by (rule budget_inv_moved [OF b Started(6) Started(3) _ _ Started(7)])
       (use h n single Started(5) in \<open>auto simp: no_hold_def\<close>)
next
  case (Played t cap tr us n rq pr tsk p w tr' rq')
  have n: "1 \<le> n" "int (starts (sn_epoch s) (keys s)) + (n - 1) \<le> sc_reply_budget cfg"
    using b Played(1) unfolding budget_inv_def by fastforce+
  show ?thesis
  proof (cases "rounds_kept s s'")
    case True
    show ?thesis by (rule budget_inv_kept [OF b inv _ True]) (use Played in \<open>auto simp: no_hold_def\<close>)
  next
    case False
    then have *: "sn_epoch s' = sn_epoch s" "n - 1 \<noteq> 0"
      "rounds_become s s' t (Some (Round_task (sn_epoch s) cap (At_decide tr' us (n - 1) rq')))"
      using Played by auto
    show ?thesis
      by (rule budget_inv_moved [OF b *(1) Played(2) _ _ *(3)]) (use n * Played in \<open>auto simp: no_hold_def\<close>)
  qed
qed

lemma budget_inv_reachable:
  assumes "scene_reachable cfg ports s"
  shows "budget_inv cfg s"
proof (rule scene_path [OF assms, of "budget_inv cfg"])
  show "budget_inv cfg (initial_scene cfg)"
    using reachable_budget [OF assms] by (simp add: budget_inv_def starts_def)
qed (rule budget_inv_move)


section \<open>Silence before speech\<close>

definition started_after_silence :: "scene_config \<Rightarrow> (nat \<times> scene_fact) list \<Rightarrow> bool" where
  "started_after_silence cfg xs \<longleftrightarrow>
     (\<forall>us vs e d c dev t m. xs = us @ (e, Ev_reply_started d c dev t) # vs \<longrightarrow> m \<in> set (sc_members cfg)
        \<longrightarrow> (\<exists>e'. (e', Ev_stopped (mb_device_id m) e) \<in> set us))"

lemma started_after_silence_Nil [simp]: "started_after_silence cfg []"
  by (simp add: started_after_silence_def)

lemma started_after_silence_snoc:
  assumes "started_after_silence cfg xs"
    and "\<And>d c dev t m. ev = Ev_reply_started d c dev t \<Longrightarrow> m \<in> set (sc_members cfg)
           \<Longrightarrow> \<exists>e'. (e', Ev_stopped (mb_device_id m) e) \<in> set xs"
  shows "started_after_silence cfg (xs @ [(e, ev)])"
  unfolding started_after_silence_def
proof (intro allI impI)
  fix us vs e1 d c dev t m
  assume split: "xs @ [(e, ev)] = us @ (e1, Ev_reply_started d c dev t) # vs" and m: "m \<in> set (sc_members cfg)"
  show "\<exists>e'. (e', Ev_stopped (mb_device_id m) e1) \<in> set us"
  proof (cases vs rule: rev_cases)
    case Nil
    then show ?thesis using split assms(2) m by auto
  next
    case (snoc ws w)
    then have "xs = us @ (e1, Ev_reply_started d c dev t) # ws" using split by simp
    then show ?thesis using assms(1) m unfolding started_after_silence_def by blast
  qed
qed

lemma silence_move:
  assumes move: "scene_move cfg s s'" and inv: "scene_inv cfg s" and q: "started_after_silence cfg (keys s)"
  shows "started_after_silence cfg (keys s')"
  using move
proof cases
  case (Started t cap tr us n rq m turn pr tsk p)
  have now: "round_now s t" using Started(1) by (auto simp: round_now_def)
  have quiet: "quiet s" using scene_inv_now [OF inv Started(1)] by simp
  have "\<exists>e'. (e', Ev_stopped (mb_device_id m') (sn_epoch s)) \<in> set (keys s)" if "m' \<in> set (sc_members cfg)" for m'
  proof -
    have "accounted s m'" using inv now that unfolding scene_inv_def inv_accounted_def by blast
    then show ?thesis using quiet by (auto simp: accounted_def quiet_def)
  qed
  then show ?thesis unfolding Started(3) by (intro started_after_silence_snoc [OF q]) auto
qed (use q in \<open>auto intro: started_after_silence_snoc\<close>)

lemma silence_reachable:
  assumes "scene_reachable cfg ports s"
  shows "started_after_silence cfg (keys s)"
  by (rule scene_path [OF assms]) (auto intro: silence_move)


section \<open>Captures and the public history\<close>

fun press_of :: "nat \<times> scene_fact \<Rightarrow> string list" where
  "press_of (e, Ev_press c) = [c]"
| "press_of _ = []"

definition pressed_captures :: "(nat \<times> scene_fact) list \<Rightarrow> string list" where
  "pressed_captures xs = concat (map press_of xs)"

fun play_of :: "nat \<times> scene_fact \<Rightarrow> (string \<times> string) list" where
  "play_of (e, Ev_reply_played d c t) = [(c, t)]"
| "play_of _ = []"

definition played_turns :: "(nat \<times> scene_fact) list \<Rightarrow> (string \<times> string) list" where
  "played_turns xs = concat (map play_of xs)"

lemma pressed_keys: "pressed_captures (filter (is_key \<circ> snd) xs) = pressed_captures xs"
proof (induction xs)
  case (Cons x xs)
  then show ?case by (cases x rule: press_of.cases) (auto simp: pressed_captures_def)
qed (simp add: pressed_captures_def)

lemma played_keys: "played_turns (filter (is_key \<circ> snd) xs) = played_turns xs"
proof (induction xs)
  case (Cons x xs)
  then show ?case by (cases x rule: play_of.cases) (auto simp: played_turns_def)
qed (simp add: played_turns_def)

definition capture_inv :: "scene \<Rightarrow> bool" where
  "capture_inv s \<longleftrightarrow>
     pressed_captures (keys s) = rev (sn_captures s) \<and> distinct (sn_captures s) \<and> length (sn_captures s) \<le> 256"

lemma capture_inv_move: "scene_move cfg s s' \<Longrightarrow> capture_inv s \<Longrightarrow> capture_inv s'"
  by (erule scene_move.cases) (auto simp: capture_inv_def pressed_captures_def same_words_def)

lemma capture_inv_reachable: "scene_reachable cfg ports s \<Longrightarrow> capture_inv s"
  by (erule scene_path) (simp_all add: capture_inv_move, simp add: capture_inv_def pressed_captures_def)

definition words_inv :: "scene \<Rightarrow> bool" where
  "words_inv s \<longleftrightarrow> map (\<lambda>m. (pm_author m, pm_id m)) (companion_words s) = played_turns (keys s)"

lemma words_inv_move: "scene_move cfg s s' \<Longrightarrow> words_inv s \<Longrightarrow> words_inv s'"
  by (erule scene_move.cases) (auto simp: words_inv_def played_turns_def same_words_def)

lemma words_inv_reachable: "scene_reachable cfg ports s \<Longrightarrow> words_inv s"
  by (erule scene_path) (simp_all add: words_inv_move, simp add: words_inv_def played_turns_def companion_words_def)


section \<open>Epochs and permits\<close>

lemma step_epoch:
  assumes "scene_reachable cfg ports s" and "scene_steps cfg ports s s'"
  shows "scene_reachable cfg ports s' \<and> sn_epoch s \<le> sn_epoch s'"
  using assms(2)
proof induction
  case stay
  then show ?case using assms(1) by simp
next
  case (go s' s'')
  have r: "scene_reachable cfg ports s''" using go unfolding scene_reachable_def by (metis scene_steps.go)
  have "scene_move cfg s' s''"
    using scene_step_move [OF go(2) scene_inv_reachable] go(3) reachable_budget by blast
  then have "sn_epoch s' \<le> sn_epoch s''" by cases (auto simp: no_hold_def)
  then show ?case using go(3) r by simp
qed

lemma revoked_for_good:
  assumes "scene_reachable cfg ports s" and "scene_steps cfg ports s s'" and "pt_epoch p < sn_epoch s"
  shows "\<not> permit_current p s'"
  using step_epoch [OF assms(1,2)] assms(3) by (simp add: permit_current_def round_valid_def)

text \<open>A round of another epoch: an answer that comes late ends it and touches nothing but the audit.\<close>

fun audit_only :: "scene_fact \<Rightarrow> bool" where
  "audit_only (Au_decision_returned d r) = True"
| "audit_only (Au_decision_not_applied d e n) = True"
| "audit_only _ = False"

lemma stale_answer:
  assumes "scene_inv cfg s" and task: "sn_tasks s t = Some (Round_task ep cap pc)" and ep: "ep \<noteq> sn_epoch s"
    and ans: "answer_round cfg ports ep cap pc answer s = Some r"
  obtains zs where "settle_round cfg t ep cap r = (end_task t s)\<lparr>sn_audit := sn_audit s @ zs\<rparr>"
    "\<forall>(e, ev) \<in> set zs. audit_only ev"
proof -
  have bad: "\<not> round_valid ep (s\<lparr>sn_audit := a\<rparr>)" "\<not> round_valid ep s" for a
    using ep by (simp_all add: round_valid_def)
  have permit: "permit_ok ep pc" using assms(1) task unfolding scene_inv_def inv_permits_def by blast
  have settle: "settle_round cfg t ep cap (Inl e, s\<lparr>sn_audit := a\<rparr>) = (end_task t s)\<lparr>sn_audit := a\<rparr>" for e a
    using ep by (simp_all add: settle_round_def round_raised_def bad round_finally_def end_task_def)
  have same: "s = s\<lparr>sn_audit := sn_audit s @ []\<rparr>" by simp
  have "\<exists>e zs. r = (Inl e, s\<lparr>sn_audit := sn_audit s @ zs\<rparr>) \<and> (\<forall>(e, ev) \<in> set zs. audit_only ev)"
  proof (cases pc)
    case (At_transcribe stops)
    then obtain e where "r = (Inl e, s)" using ans bad by (cases answer) (auto simp: on_text_def)
    then show ?thesis using same by (metis empty_iff list.set(1))
  next
    case (At_decide tr us n rq)
    show ?thesis
    proof (cases answer)
      case (Got_decision d)
      have "r = (Inl Cancelled_error, s\<lparr>sn_audit := sn_audit s @ [(ep, Au_decision_returned (dq_decision_id rq) d),
              (ep, Au_decision_not_applied (dq_decision_id rq) (scene_exc_type Cancelled_error) (sn_epoch s))]\<rparr>)"
        using ans At_decide Got_decision bad
        by (simp add: on_decision_def decision_dropped_def audit_record_def)
      then show ?thesis by (intro exI conjI) (assumption, simp)
    next
      case (Got_exc e)
      have "r = (Inl e, s\<lparr>sn_audit := sn_audit s
          @ [(ep, Au_decision_not_applied (dq_decision_id rq) (scene_exc_type e) (sn_epoch s))]\<rparr>)"
        using ans At_decide Got_exc by (simp add: decision_dropped_def audit_record_def)
      then show ?thesis by (intro exI conjI) (assumption, simp)
    qed (use ans At_decide in auto)
  next
    case (At_reply tr us n rq pr tsk p)
    then have "\<not> permit_current p s" using permit bad by (simp add: permit_current_def)
    then obtain e where "r = (Inl e, s)" using ans At_reply by (cases answer) (auto simp: on_reply_def)
    then show ?thesis using same by (metis empty_iff list.set(1))
  qed (use ans in auto)
  then show ?thesis using that settle by metis
qed

end
