(* ===== verification/Coord_Status.thy ===== *)
theory Coord_Status
  imports Coord_Safety
begin

text \<open>
  What a client is shown: the state of each member is one of the scene's members, and a member that
  is shown thinking or speaking is running a reply of the current epoch. A round ends after a number
  of answers that its reply budget bounds.
\<close>

section \<open>Member states through the operations\<close>

lemma states_open_decision:
  "sn_member_states (snd (open_decision cfg ports ep trigger user n s)) = sn_member_states s"
  by (simp add: open_decision_def take_id_def audit_record_def Let_def)

lemma states_leave_loop:
  "sn_member_states (snd (leave_loop ep n out s)) = sn_member_states s"
  by (simp add: leave_loop_def state_defs)

lemma states_next_turn:
  "sn_member_states (snd (next_turn cfg ports ep trigger user n s)) = sn_member_states s"
  by (simp add: next_turn_def states_open_decision states_leave_loop)

lemma states_after_stops:
  "round_valid ep s \<Longrightarrow> sn_failures s = [] \<Longrightarrow>
     sn_member_states (snd (after_stops cfg ports ep cap w s)) = sn_member_states s"
  by (simp add: after_stops_def states_next_turn state_defs)

text \<open>The members of the proposals that are started are members of the scene.\<close>

definition is_member :: "scene_config \<Rightarrow> string \<Rightarrow> bool" where
  "is_member cfg c \<longleftrightarrow> c \<in> mb_companion_id ` set (sc_members cfg)"

lemma states_start_reply:
  assumes "start_reply cfg ports ep trigger user n rq pr s = (res, s')"
  shows "(\<exists>e. res = Inl e) \<and> sn_member_states s' = sn_member_states s
    \<or> (\<exists>tsk p. res = Inr (Some (At_reply trigger user n rq pr tsk p)) \<and> is_member cfg (pt_companion p)
         \<and> sn_member_states s' = dict_put (pt_companion p) M_thinking (sn_member_states s))"
  using assms
  by (auto simp: start_reply_def state_defs is_member_def dest: find_SomeD
      split: list.splits if_splits option.splits)

lemma states_on_decision:
  assumes "on_decision cfg ports ep trigger user n rq d s = (res, s')"
  shows "(\<forall>pc. res \<noteq> Inr (Some pc)) \<and> sn_member_states s' = sn_member_states s
    \<or> (\<exists>pr tsk p. res = Inr (Some (At_reply trigger user n rq pr tsk p)) \<and> is_member cfg (pt_companion p)
         \<and> sn_member_states s' = dict_put (pt_companion p) M_thinking (sn_member_states s))"
proof -
  have leave: ?thesis if "leave_loop ep n out s1 = (res, s')" "sn_member_states s1 = sn_member_states s" for out s1
    using leave_loop_spec [OF that(1)] states_leave_loop [of ep n out s1] that by auto
  show ?thesis
    using assms leave
    by (auto simp: on_decision_def decision_dropped_def Let_def audit_record_def scene_event_def
        split: if_splits option.splits dest!: states_start_reply)
qed

lemma states_on_reply:
  assumes "on_reply cfg ports ep us n rq pr p pl s = (res, s')"
  shows "(\<exists>e. res = Inl e) \<and> sn_member_states s' = sn_member_states s
    \<or> permit_current p s \<and> sn_member_states s' = dict_put (pt_companion p) M_waiting (sn_member_states s)"
proof (cases "permit_current p s \<and> pl_completed pl")
  case False
  then show ?thesis using assms by (auto simp: on_reply_def Let_def split: if_splits)
next
  case True
  have "sn_member_states (snd (on_reply cfg ports ep us n rq pr p pl s))
      = dict_put (pt_companion p) M_waiting (sn_member_states s)"
    using True by (simp add: on_reply_def states_leave_loop states_next_turn Let_def)
       (simp add: state_defs)
  then show ?thesis using True assms by simp
qed


section \<open>The states that are shown\<close>

fun busy :: "member_state \<Rightarrow> bool" where
  "busy M_thinking = True"
| "busy M_speaking = True"
| "busy _ = False"

definition talking :: "scene \<Rightarrow> string \<Rightarrow> bool" where
  "talking s c \<longleftrightarrow>
     (\<exists>t cap tr us n rq pr tsk p.
        sn_tasks s t = Some (Round_task (sn_epoch s) cap (At_reply tr us n rq pr tsk p)) \<and> pt_companion p = c)"

definition calm :: "scene \<Rightarrow> bool" where
  "calm s \<longleftrightarrow> (\<forall>c st. map_of (sn_member_states s) c = Some st \<longrightarrow> \<not> busy st)"

definition status_inv :: "scene \<Rightarrow> bool" where
  "status_inv s \<longleftrightarrow>
     sn_closed s \<or> (\<forall>c st. map_of (sn_member_states s) c = Some st \<longrightarrow> busy st \<longrightarrow> talking s c)"

lemma calm_status: "calm s \<Longrightarrow> status_inv s" by (auto simp: calm_def status_inv_def)

lemma map_of_states:
  "map_of (map (\<lambda>(c, st). (c, f st)) xs) c = map_option f (map_of xs c)"
  by (induction xs) auto

lemma calm_settle [simp]:
  assumes "v = M_waiting \<or> v = M_failed"
  shows "calm (settle_members v s)"
proof -
  define f where "f st = (if st = M_thinking \<or> st = M_speaking then v else st)" for st
  have b: "\<not> busy (f st)" for st using assms by (cases st) (auto simp: f_def)
  have m: "sn_member_states (settle_members v s) = map (\<lambda>(c, st). (c, f st)) (sn_member_states s)"
    by (simp add: settle_members_def f_def)
  show ?thesis unfolding calm_def m map_of_states using b by fastforce
qed

lemma calm_same: "sn_member_states s' = sn_member_states s \<Longrightarrow> calm s' = calm s"
  by (simp add: calm_def)

lemma calm_fail_round: "calm (fail_round cfg reason stop s)"
  using calm_settle [of M_failed] by (simp add: fail_round_def Let_def dispatch_stop_def calm_def)

text \<open>A current round that is over leaves nobody busy.\<close>

lemma calm_over:
  assumes "scene_inv cfg s" and "same_frame s s1" and "ep = sn_epoch s"
    and "sn_tasks s t = Some (Round_task ep cap pc)" and "\<And>pc. res \<noteq> Inr (Some pc)"
  shows "calm (settle_round cfg t ep cap (res, s1))"
proof (cases res)
  case (Inl e)
  have v: "round_valid ep s1"
    using scene_inv_now [OF assms(1)] assms(2-4) by (auto simp: round_valid_def same_frame_def)
  obtain code s2 where "round_raised cfg ep e s1 = fail_round cfg code True s2" "same_frame s1 s2"
    using round_raised_valid [OF v] by metis
  then have "calm (round_raised cfg ep e s1)" and "sn_epoch (round_raised cfg ep e s1) \<noteq> ep"
    using calm_fail_round assms(2,3) by (simp_all add: same_frame_def)
  then show ?thesis using Inl by (simp add: settle_round_def round_finally_def end_task_def calm_def)
next
  case (Inr x)
  then have "x = None" using assms(5) by (cases x) auto
  then show ?thesis using Inr assms(2,3) calm_settle [of M_waiting s1]
    by (simp add: settle_round_def round_finally_def end_task_def same_frame_def calm_def)
qed

text \<open>Nobody is talking while the only current round is not in a reply.\<close>

lemma not_talking:
  assumes "scene_inv cfg s" and "sn_tasks s t = Some (Round_task (sn_epoch s) cap pc)"
    and "\<And>tr us n rq pr tsk p. pc \<noteq> At_reply tr us n rq pr tsk p"
  shows "\<not> talking s c"
  using assms unfolding talking_def scene_inv_def inv_single_def round_now_def
  by (metis option.inject scene_task.inject(2))


lemma status_mono:
  assumes "status_inv s" and "sn_member_states s' = sn_member_states s" and "sn_closed s \<Longrightarrow> sn_closed s'"
    and "\<And>c. talking s c \<Longrightarrow> talking s' c"
  shows "status_inv s'"
  using assms unfolding status_inv_def by metis

lemma talking_other:
  assumes "talking s c" and "sn_epoch s' = sn_epoch s" and "\<And>u. u \<noteq> t \<Longrightarrow> sn_tasks s' u = sn_tasks s u"
    and "\<And>cap tr us n rq pr tsk p. sn_tasks s t \<noteq> Some (Round_task (sn_epoch s) cap (At_reply tr us n rq pr tsk p))"
  shows "talking s' c"
proof -
  obtain u cap tr us n rq pr tsk p where "sn_tasks s u = Some (Round_task (sn_epoch s) cap (At_reply tr us n rq pr tsk p))"
    "pt_companion p = c" using assms(1) unfolding talking_def by blast
  moreover have "u \<noteq> t" using calculation(1) assms(4) by blast
  ultimately show ?thesis using assms(2,3) unfolding talking_def by metis
qed

text \<open>A step that changes one task, which is no current reply, and leaves the states.\<close>

lemma status_other:
  assumes "status_inv s" and "sn_member_states s' = sn_member_states s" and "sn_closed s' = sn_closed s"
    and "sn_epoch s' = sn_epoch s" and "\<And>u. u \<noteq> t \<Longrightarrow> sn_tasks s' u = sn_tasks s u"
    and "\<And>cap tr us n rq pr tsk p. sn_tasks s t \<noteq> Some (Round_task (sn_epoch s) cap (At_reply tr us n rq pr tsk p))"
  shows "status_inv s'"
  by (rule status_mono [OF assms(1)]) (use assms talking_other [OF _ assms(4,5,6)] in auto)

lemma status_stop_answer:
  assumes st: "status_inv s" and task: "sn_tasks s t = Some (Stop_task ep P)"
  shows "status_inv (stop_answer t ep P m a s)"
proof -
  let ?s = "stop_answer t ep P m a s"
  have f: "sn_epoch ?s = sn_epoch s" "sn_closed ?s = sn_closed s" "u \<noteq> t \<Longrightarrow> sn_tasks ?s u = sn_tasks s u" for u
    by (simp_all add: stop_answer_def Let_def end_task_def set_task_def)
  have "talking s c \<Longrightarrow> talking ?s c" for c
    by (rule talking_other [of s c ?s t]) (simp_all add: f task)
  moreover have "map_of (sn_member_states ?s) c = Some v \<Longrightarrow> busy v \<Longrightarrow> map_of (sn_member_states s) c = Some v" for c v
    by (auto simp: stop_answer_def stop_reply_def state_defs split: if_splits option.splits)
  ultimately show ?thesis using st f(2) unfolding status_inv_def by metis
qed

lemma status_after_stops:
  assumes inv: "scene_inv cfg s" and task: "sn_tasks s t = Some (Round_task ep cap pc)"
    and v: "ep = sn_epoch s" and calm: "calm s"
  shows "status_inv (settle_round cfg t ep cap (after_stops cfg ports ep cap w s))"
proof -
  have valid: "round_valid ep s" using scene_inv_now [OF inv] task v by (auto simp: round_valid_def)
  obtain res s1 where r: "after_stops cfg ports ep cap w s = (res, s1)" by fastforce
  show ?thesis
  proof (cases "sn_failures s = []")
    case False
    then have "settle_round cfg t ep cap (res, s1)
        = end_task t (fail_round cfg ''TEAM_STOP_UNCONFIRMED'' False s)"
      using after_stops_spec [OF r valid] v by (auto simp: settle_round_def round_finally_def)
    then show ?thesis using calm_fail_round
      by (intro calm_status) (simp add: r end_task_def calm_def)
  next
    case True
    then have frame: "same_frame s s1" using after_stops_spec [OF r valid] by auto
    have "sn_member_states s1 = sn_member_states s"
      using states_after_stops [OF valid True, of cfg ports cap w] by (simp add: r)
    then have "calm s1" using calm by (simp add: calm_def)
    then show ?thesis unfolding r
    proof (cases "\<exists>pc'. res = Inr (Some pc')")
      case False
      then show "status_inv (settle_round cfg t ep cap (res, s1))"
        by (intro calm_status calm_over [OF inv frame v task]) auto
    qed (auto simp: settle_round_def set_task_def calm_def intro!: calm_status)
  qed
qed

lemma status_round_answer:
  assumes inv: "scene_inv cfg s" and st: "status_inv s" and task: "sn_tasks s t = Some (Round_task ep cap pc)"
    and ans: "answer_round cfg ports ep cap pc answer s = Some r"
  shows "status_inv (settle_round cfg t ep cap r)"
proof (cases "ep = sn_epoch s")
  case False
  obtain zs where r: "settle_round cfg t ep cap r = (end_task t s)\<lparr>sn_audit := sn_audit s @ zs\<rparr>"
    using stale_answer [OF inv task False ans] by metis
  show ?thesis
    by (rule status_other [OF st, of _ t]) (use r False task in \<open>simp_all add: end_task_def\<close>)
next
  case True
  have v: "round_valid ep s" using scene_inv_now [OF inv] task True by (auto simp: round_valid_def)
  obtain res s1 where r: "r = (res, s1)" by fastforce
  have idle: "calm s" if "\<And>c. \<not> talking s c"
    using st that v unfolding status_inv_def calm_def round_valid_def by blast
  have only: "pt_companion p = c"
    if "talking s c" and "pc = At_reply tr us n rq pr tsk p" for c tr us n rq pr tsk p
    using that task inv unfolding True talking_def scene_inv_def inv_single_def round_now_def
    by (metis option.inject round_pc.inject(5) scene_task.inject(2))
  have on: "status_inv (settle_round cfg t ep cap (Inr (Some pc'), s1))" if "calm s1" for pc'
    by (rule calm_status) (use that in \<open>simp add: settle_round_def set_task_def calm_def\<close>)
  have over: "status_inv (settle_round cfg t ep cap r)" if "same_frame s s1" "\<And>pc. res \<noteq> Inr (Some pc)"
    unfolding r by (intro calm_status calm_over [OF inv that(1) True task]) (use that in auto)
  consider
      (heard) stops w where "pc = At_transcribe stops" "r = on_text cfg ports ep cap stops w s"
    | (decision) tr us n rq d where "pc = At_decide tr us n rq" "r = on_decision cfg ports ep tr us n rq d s"
    | (dropped) tr us n rq e where "pc = At_decide tr us n rq" "r = decision_dropped ep rq e s"
    | (played) tr us n rq pr tsk p pl where "pc = At_reply tr us n rq pr tsk p"
        "r = on_reply cfg ports ep us n rq pr p pl s"
    | (raised) e where "r = (Inl e, s)"
    using ans by (cases pc; cases answer) auto
  then show ?thesis
  proof cases
    case heard
    have calm: "calm s" by (rule idle, rule not_talking [OF inv task [unfolded True]]) (simp add: heard)
    show ?thesis
    proof (cases "stops = []")
      case False
      then show ?thesis using heard v on calm r by (auto simp: on_text_def)
    next
      case True
      then have "after_stops cfg ports ep cap w s = (res, s1)" using heard v r by (simp add: on_text_def)
      then show ?thesis using status_after_stops [OF inv task \<open>ep = sn_epoch s\<close> calm, of ports w] heard(2) r by simp
    qed
  next
    case decision
    have calm: "calm s" by (rule idle, rule not_talking [OF inv task [unfolded True]]) (simp add: decision)
    have "on_decision cfg ports ep tr us n rq d s = (res, s1)" using decision r by simp
    note spec = on_decision_spec [OF this] and states = states_on_decision [OF this]
    show ?thesis
    proof (cases "\<exists>pc. res = Inr (Some pc)")
      case False
      then show ?thesis by (intro over) (use spec in auto)
    next
      case True
      then obtain pr tsk p where *: "res = Inr (Some (At_reply tr us n rq pr tsk p))"
        "sn_member_states s1 = dict_put (pt_companion p) M_thinking (sn_member_states s)"
        using states by auto
      have "talking (settle_round cfg t ep cap r) (pt_companion p)"
        using spec v by (auto simp: r *(1) settle_round_def set_task_def talking_def same_frame_def round_valid_def)
      then show ?thesis using calm
        by (auto simp: status_inv_def r *(1) settle_round_def set_task_def *(2) calm_def split: if_splits)
    qed
  next
    case dropped
    then show ?thesis using r
      by (intro over) (auto simp: decision_dropped_def audit_record_def same_frame_def)
  next
    case played
    have "on_reply cfg ports ep us n rq pr p pl s = (res, s1)" using played r by simp
    note spec = on_reply_spec [OF this] and states = states_on_reply [OF this]
    show ?thesis
    proof (cases "\<exists>pc. res = Inr (Some pc)")
      case False
      then show ?thesis by (intro over) (use spec in auto)
    next
      case True
      then have "sn_member_states s1 = dict_put (pt_companion p) M_waiting (sn_member_states s)" using states by auto
      then have "calm s1"
        using st only [OF _ played(1)] v by (auto simp: calm_def status_inv_def round_valid_def)
      then show ?thesis using on True r by auto
    qed
  next
    case raised
    then show ?thesis using r by (intro over) auto
  qed
qed


lemma calm_states: "calm s \<Longrightarrow> sn_member_states s' = sn_member_states s \<Longrightarrow> status_inv s'"
  using calm_same calm_status by blast

lemma status_press:
  assumes "status_inv s"
  shows "status_inv (snd (press cfg device cap s))"
proof (cases "snd (press cfg device cap s) = s")
  case False
  have "\<exists>F. sn_member_states (snd (press cfg device cap s))
      = map (\<lambda>m. (mb_companion_id m, if mb_companion_id m \<in> F then M_failed else M_waiting)) (sc_members cfg)"
    using False by (auto simp: press_def Let_def dispatch_stop_def scene_event_def audit_record_def)
  then have "calm (snd (press cfg device cap s))"
    by (auto simp: calm_def dest!: map_of_SomeD split: if_splits)
  then show ?thesis by (rule calm_status)
qed (simp add: assms)

lemma status_step:
  assumes step: "scene_step cfg ports s s'" and inv: "scene_inv cfg s" and st: "status_inv s"
  shows "status_inv s'"
  using step
proof cases
  case (pressed device cap)
  then show ?thesis using status_press st by simp
next
  case (released device cap)
  show ?thesis
  proof (cases "s' = s")
    case False
    then have h: "sn_held s" "\<not> sn_closed s" "sn_member_states s' = sn_member_states s"
      by (auto simp: released release_def state_defs split: if_splits)
    then have "\<not> talking s c" for c using scene_inv_now [OF inv] unfolding talking_def by blast
    then have "calm s" using st h unfolding status_inv_def calm_def by blast
    then show ?thesis using h(3) by (rule calm_states)
  qed (use st in simp)
next
  case (stop_answered t ep pending m answer)
  then show ?thesis using status_stop_answer st by simp
next
  case (stop_cancelled t ep pending)
  then show ?thesis by (intro status_other [OF st, of _ t]) (auto simp: end_task_def)
next
  case (round_killed t ep cap stops)
  then show ?thesis by (intro status_other [OF st, of _ t]) (auto simp: end_task_def)
next
  case (round_begun t ep cap stops)
  then show ?thesis by (intro status_other [OF st, of _ t]) (auto simp: set_task_def)
next
  case (round_answered t ep cap pc answer r)
  then show ?thesis using status_round_answer [OF inv st] by simp
next
  case (stops_awaited t ep cap stops w)
  show ?thesis
  proof (cases "ep = sn_epoch s")
    case True
    have "\<not> talking s c" for c by (rule not_talking [OF inv stops_awaited(2) [unfolded True]]) simp
    moreover have "\<not> sn_closed s" using scene_inv_now [OF inv] stops_awaited(2) True by blast
    ultimately have "calm s" using st unfolding status_inv_def calm_def by blast
    then show ?thesis using status_after_stops [OF inv stops_awaited(2) True] stops_awaited(1) by simp
  next
    case False
    then have "s' = end_task t s" unfolding stops_awaited(1)
      by (simp add: after_stops_def round_valid_def settle_round_def round_raised_def round_finally_def)
    then show ?thesis using stops_awaited(2)
      by (intro status_other [OF st, of _ t]) (auto simp: end_task_def)
  qed
next
  case (wait_cancelled t ep cap stops w)
  show ?thesis
  proof (cases "ep = sn_epoch s")
    case True
    show ?thesis unfolding wait_cancelled(1)
      by (intro calm_status calm_over [OF inv same_frame_refl True wait_cancelled(2)]) simp
  next
    case False
    then have "s' = end_task t s" unfolding wait_cancelled(1)
      by (simp add: round_valid_def settle_round_def round_raised_def round_finally_def)
    then show ?thesis using wait_cancelled(2)
      by (intro status_other [OF st, of _ t]) (auto simp: end_task_def)
  qed
next
  case (phase_reported t ep cap tr us n rq pr tsk p v)
  have p: "pt_epoch p = ep" using inv phase_reported(2) unfolding scene_inv_def inv_permits_def by fastforce
  show ?thesis
  proof (cases "permit_current p s")
    case True
    then have "ep = sn_epoch s" using p by (simp add: permit_current_def round_valid_def)
    then have "talking s (pt_companion p)" using phase_reported(2) unfolding talking_def by blast
    then show ?thesis using st unfolding phase_reported(1)
      by (auto simp: status_inv_def permit_phase_def state_defs talking_def split: if_splits)
  qed (use st in \<open>simp add: phase_reported(1) permit_phase_def\<close>)
next
  case closed
  then show ?thesis using st by (auto simp: close_scene_def status_inv_def)
next
  case (close_answered ep pending m answer)
  then have "sn_closed s'" using inv by (simp add: scene_inv_def inv_flags_def close_answer_def)
  then show ?thesis by (simp add: status_inv_def)
next
  case (close_ended ep)
  then have "sn_closed s'" using inv by (simp add: scene_inv_def inv_flags_def close_done_def state_defs)
  then show ?thesis by (simp add: status_inv_def)
qed

lemma status_reachable: "scene_reachable cfg ports s \<Longrightarrow> status_inv s"
proof (erule scene_path)
  have "calm (initial_scene cfg)" by (auto simp: calm_def initial_scene_def dest!: map_of_SomeD)
  then show "status_inv (initial_scene cfg)" by (rule calm_status)
qed (rule status_step)


section \<open>The shape of the state\<close>

definition shown :: "scene_config \<Rightarrow> scene \<Rightarrow> bool" where
  "shown cfg s \<longleftrightarrow>
     map fst (sn_member_states s) = map mb_companion_id (sc_members cfg)
     \<and> fst ` set (sn_failures s) \<subseteq> mb_companion_id ` set (sc_members cfg)
     \<and> length (sn_events s) \<le> 512
     \<and> (\<forall>ep P. sn_closing s = Some (ep, P) \<longrightarrow> set P \<subseteq> set (sc_members cfg))"

lemma shown_fields [simp]:
  "shown cfg (s\<lparr>sn_epoch := a\<rparr>) = shown cfg s" "shown cfg (s\<lparr>sn_state := b\<rparr>) = shown cfg s"
  "shown cfg (s\<lparr>sn_outcome := c\<rparr>) = shown cfg s" "shown cfg (s\<lparr>sn_error_code := d\<rparr>) = shown cfg s"
  "shown cfg (s\<lparr>sn_history := e\<rparr>) = shown cfg s" "shown cfg (s\<lparr>sn_audit := f\<rparr>) = shown cfg s"
  "shown cfg (s\<lparr>sn_captures := g\<rparr>) = shown cfg s" "shown cfg (s\<lparr>sn_capture := h\<rparr>) = shown cfg s"
  "shown cfg (s\<lparr>sn_held := i\<rparr>) = shown cfg s" "shown cfg (s\<lparr>sn_closed := i\<rparr>) = shown cfg s"
  "shown cfg (s\<lparr>sn_round := k\<rparr>) = shown cfg s" "shown cfg (s\<lparr>sn_tasks := l\<rparr>) = shown cfg s"
  "shown cfg (s\<lparr>sn_stop_tasks := m\<rparr>) = shown cfg s" "shown cfg (s\<lparr>sn_active_turn := h\<rparr>) = shown cfg s"
  "shown cfg (s\<lparr>sn_cancelled := m\<rparr>) = shown cfg s"
  "shown cfg (s\<lparr>sn_spawned := a\<rparr>) = shown cfg s" "shown cfg (s\<lparr>sn_ids := a\<rparr>) = shown cfg s"
  by (simp_all add: shown_def)

lemma shown_ops [simp]:
  "shown cfg s \<Longrightarrow> shown cfg (scene_event ev s)" "shown cfg (audit_record ep ev s) = shown cfg s"
  "shown cfg (end_task t s) = shown cfg s" "shown cfg (set_task t k s) = shown cfg s"
  "shown cfg (dispatch_stop cfg' s) = shown cfg s" "shown cfg (settle_members v s) = shown cfg s"
  "shown cfg s \<Longrightarrow> is_member cfg c \<Longrightarrow> shown cfg (set_member c v s)"
  "shown cfg (snd (take_id ports s)) = shown cfg s"
  by (auto simp: shown_def scene_event_def audit_record_def end_task_def set_task_def dispatch_stop_def
      settle_members_def set_member_def take_id_def is_member_def length_py_tail update_keys comp_def case_prod_beta
      simp flip: set_map)

lemma shown_stop_reply:
  assumes "shown cfg s" and "m \<in> set (sc_members cfg)"
  shows "shown cfg (stop_reply ep m a s)"
proof -
  have m: "mb_companion_id m \<in> set (map fst (sn_member_states s))" using assms by (simp add: shown_def)
  have upd: "shown cfg (s\<lparr>sn_failures := f, sn_member_states := dict_put (mb_companion_id m) v (sn_member_states s)\<rparr>)"
    if "fst ` set f \<subseteq> mb_companion_id ` set (sc_members cfg)" for f v
    using assms m that by (auto simp: shown_def update_keys)
  have put: "fst ` set (dict_put (mb_companion_id m) x (sn_failures s)) \<subseteq> mb_companion_id ` set (sc_members cfg)" for x
    using assms by (auto simp: shown_def dom_update)
  have del: "fst ` set (dict_del (mb_companion_id m) (sn_failures s)) \<subseteq> mb_companion_id ` set (sc_members cfg)"
    using assms by (auto simp: shown_def dict_keys_del)
  show ?thesis
    by (cases a) (simp_all add: stop_reply_def upd [OF put] upd [OF del] assms(1))
qed

lemma shown_fail_round: "shown cfg s \<Longrightarrow> shown cfg (fail_round cfg' reason stop s)"
  by (simp add: fail_round_def Let_def)

lemma shown_round_over: "shown cfg s \<Longrightarrow> shown cfg (settle_round cfg' t ep cap (res, s))"
  by (auto simp: settle_round_def round_finally_def round_raised_def Let_def shown_fail_round split: sum.splits option.splits)

lemma shown_open_decision: "shown cfg s \<Longrightarrow> shown cfg (snd (open_decision cfg' ports ep trigger user n s))"
  by (simp add: open_decision_def take_id_def Let_def)

lemma shown_leave_loop: "shown cfg s \<Longrightarrow> shown cfg (snd (leave_loop ep n out s))"
  by (simp add: leave_loop_def Let_def)

lemma shown_next_turn: "shown cfg s \<Longrightarrow> shown cfg (snd (next_turn cfg' ports ep trigger user n s))"
  by (simp add: next_turn_def shown_open_decision shown_leave_loop)

lemma shown_after_stops: "shown cfg s \<Longrightarrow> shown cfg (snd (after_stops cfg ports ep cap w s))"
  by (simp add: after_stops_def shown_next_turn shown_fail_round Let_def)

lemma shown_start_reply: "shown cfg s \<Longrightarrow> shown cfg (snd (start_reply cfg ports ep trigger user n rq pr s))"
  by (auto simp: start_reply_def take_id_def Let_def is_member_def dest!: find_SomeD
      split: list.splits option.splits)

lemma shown_on_decision: "shown cfg s \<Longrightarrow> shown cfg (snd (on_decision cfg ports ep trigger user n rq d s))"
  by (simp add: on_decision_def decision_dropped_def Let_def shown_leave_loop shown_start_reply split: option.splits)

lemma shown_on_reply:
  "shown cfg s \<Longrightarrow> is_member cfg (pt_companion p) \<Longrightarrow> shown cfg (snd (on_reply cfg ports ep us n rq pr p pl s))"
  by (simp add: on_reply_def Let_def shown_leave_loop shown_next_turn)

definition typed_inv :: "scene_config \<Rightarrow> scene \<Rightarrow> bool" where
  "typed_inv cfg s \<longleftrightarrow>
     shown cfg s
     \<and> (\<forall>t ep cap tr us n rq pr tsk p. sn_tasks s t = Some (Round_task ep cap (At_reply tr us n rq pr tsk p))
          \<longrightarrow> is_member cfg (pt_companion p))"


lemma shown_answer:
  assumes "answer_round cfg ports ep cap pc answer s = Some (res, s1)" and "shown cfg s"
    and "\<And>tr us n rq pr tsk p. pc = At_reply tr us n rq pr tsk p \<Longrightarrow> is_member cfg (pt_companion p)"
  shows "shown cfg s1"
proof -
  have one: "shown cfg s1" if "f = (res, s1)" "shown cfg (snd f)" for f using that by simp
  consider
      (heard) stops w where "pc = At_transcribe stops" "on_text cfg ports ep cap stops w s = (res, s1)"
    | (decision) tr us n rq d where "pc = At_decide tr us n rq" "on_decision cfg ports ep tr us n rq d s = (res, s1)"
    | (dropped) tr us n rq e where "pc = At_decide tr us n rq" "decision_dropped ep rq e s = (res, s1)"
    | (played) tr us n rq pr tsk p pl where "pc = At_reply tr us n rq pr tsk p"
        "on_reply cfg ports ep us n rq pr p pl s = (res, s1)"
    | (raised) "s1 = s"
    using assms(1) by (cases pc; cases answer) auto
  then show ?thesis
  proof cases
    case heard
    show ?thesis
      by (rule one [OF heard(2)]) (simp add: on_text_def assms(2) shown_after_stops [OF assms(2)])
  next
    case decision
    show ?thesis by (rule one [OF decision(2)]) (rule shown_on_decision [OF assms(2)])
  next
    case dropped
    show ?thesis by (rule one [OF dropped(2)]) (simp add: decision_dropped_def assms(2))
  next
    case played
    show ?thesis by (rule one [OF played(2)]) (rule shown_on_reply [OF assms(2) assms(3) [OF played(1)]])
  qed (simp add: assms(2))
qed

lemma typed_step:
  assumes step: "scene_step cfg ports s s'" and move: "scene_move cfg s s'" and inv: "scene_inv cfg s"
    and q: "typed_inv cfg s"
  shows "typed_inv cfg s'"
proof -
  have sh: "shown cfg s" using q by (simp add: typed_inv_def)
  have speaker: "is_member cfg (pt_companion p)"
    if "sn_tasks s t = Some (Round_task ep cap (At_reply tr us n rq pr tsk p))" for t ep cap tr us n rq pr tsk p
    using q that unfolding typed_inv_def by blast
  have pending: "set P \<subseteq> set (sc_members cfg)" if "sn_tasks s t = Some (Stop_task ep P)" for t ep P
    using inv that unfolding scene_inv_def inv_members_def by blast
  have "is_member cfg (pt_companion p)"
    if "sn_tasks s' t = Some (Round_task ep cap (At_reply tr us n rq pr tsk p))" for t ep cap tr us n rq pr tsk p
    using move
  proof cases
    case (Moved t' ep' cap' pc pc')
    then have "t \<noteq> t'" using that unfolding rounds_become_def
      by (metis option.inject scene_task.inject(2) speaks.simps(1))
    then show ?thesis using Moved(9) that speaker unfolding rounds_become_def by metis
  next
    case (Started t' cap' tr' us' n' rq' m turn pr' tsk' p')
    then show ?thesis using that speaker by (cases "t = t'") (fastforce simp: rounds_become_def is_member_def)+
  next
    case (Played t' cap' tr' us' n' rq' pr' tsk' p' w tr'' rq'')
    then show ?thesis using that speaker
      by (cases "t = t'") (fastforce simp: rounds_become_def rounds_kept_def)+
  next
    case (Released t' cap' stops)
    then show ?thesis using that speaker by (cases "t = t'") (fastforce simp: rounds_become_def)+
  next
    case Idle
    then show ?thesis using that speaker unfolding rounds_kept_def by blast
  next
    case (Confirmed e dev e')
    then show ?thesis using that speaker unfolding rounds_kept_def by blast
  next
    case (Pressed cap')
    then show ?thesis using that speaker unfolding rounds_kept_def by blast
  qed
  moreover have "shown cfg s'"
    using step
  proof cases
    case (pressed device cap)
    then show ?thesis using sh
      by (auto simp: press_def cancel_round_def Let_def shown_def dispatch_stop_def scene_event_def audit_record_def
          length_py_tail comp_def split: option.splits)
  next
    case (stop_answered t ep P m a)
    then have "m \<in> set (sc_members cfg)" using pending by blast
    then show ?thesis using shown_stop_reply [OF sh] by (simp add: stop_answered(1) stop_answer_def Let_def)
  next
    case (round_answered t ep cap pc answer r)
    then show ?thesis
      using shown_round_over shown_answer [OF _ sh] speaker by (cases r) metis
  next
    case (stops_awaited t ep cap stops w)
    then show ?thesis
      using shown_round_over shown_after_stops [OF sh] by (metis prod.collapse)
  next
    case (close_answered ep P m a)
    then have P: "set P \<subseteq> set (sc_members cfg)" using sh by (simp add: shown_def)
    then have "shown cfg (stop_reply ep m a s)" using shown_stop_reply [OF sh] close_answered(3) by blast
    then show ?thesis using P by (auto simp: close_answered(1) close_answer_def shown_def)
  next
    case (close_ended ep)
    have "shown cfg (s\<lparr>sn_closing := None\<rparr>)" using sh by (simp add: shown_def)
    then show ?thesis by (simp add: close_ended(1) close_done_def)
  next
    case closed
    then show ?thesis using sh by (auto simp: close_scene_def shown_def)
  next
    case (phase_reported t ep cap tr us n rq pr tsk p v)
    then show ?thesis using sh speaker [OF phase_reported(2)] by (simp add: permit_phase_def Let_def)
  qed (use sh in \<open>simp_all add: release_def Let_def shown_round_over\<close>)
  ultimately show ?thesis by (simp add: typed_inv_def)
qed

lemma typed_reachable: "scene_reachable cfg ports s \<Longrightarrow> typed_inv cfg s"
  by (erule scene_path) (simp_all add: typed_step, simp add: typed_inv_def shown_def initial_scene_def comp_def)


section \<open>A round ends\<close>

text \<open>How many more answers a round can take: two for each reply it may still start.\<close>

fun answers_left :: "scene_config \<Rightarrow> round_pc \<Rightarrow> nat" where
  "answers_left cfg (At_begin stops) = 2 * nat (sc_reply_budget cfg) + 3"
| "answers_left cfg (At_transcribe stops) = 2 * nat (sc_reply_budget cfg) + 2"
| "answers_left cfg (At_stops stops w) = 2 * nat (sc_reply_budget cfg) + 1"
| "answers_left cfg (At_decide tr us n rq) = 2 * nat n"
| "answers_left cfg (At_reply tr us n rq pr tsk p) = 2 * nat n - 1"

lemma settle_task:
  "sn_tasks (settle_round cfg t ep cap (res, s1)) t =
     (case res of Inr (Some pc') \<Rightarrow> Some (Round_task ep cap pc') | _ \<Rightarrow> None)"
  by (simp add: settle_round_def end_task_def set_task_def split: sum.split option.split)

definition progresses :: "scene_config \<Rightarrow> round_pc \<Rightarrow> scene_exc + round_pc option \<Rightarrow> bool" where
  "progresses cfg pc res \<longleftrightarrow> (\<forall>pc'. res = Inr (Some pc') \<longrightarrow> answers_left cfg pc' < answers_left cfg pc)"

lemma after_stops_progress:
  assumes "1 \<le> sc_reply_budget cfg" and "2 * nat (sc_reply_budget cfg) < answers_left cfg pc"
  shows "progresses cfg pc (fst (after_stops cfg ports ep cap w s))"
proof (cases "round_valid ep s")
  case True
  show ?thesis
    using after_stops_spec [OF surjective_pairing True, of cfg ports cap w] assms
    by (auto simp: progresses_def)
qed (simp add: after_stops_def progresses_def)

lemma answer_progress:
  assumes room: "room_ok pc" and budget: "1 \<le> sc_reply_budget cfg"
    and ans: "answer_round cfg ports ep cap pc answer s = Some (res, s1)"
  shows "progresses cfg pc res"
proof -
  consider
      (heard) stops w where "pc = At_transcribe stops" "on_text cfg ports ep cap stops w s = (res, s1)"
    | (decision) tr us n rq d where "pc = At_decide tr us n rq" "on_decision cfg ports ep tr us n rq d s = (res, s1)"
    | (dropped) e where "res = Inl e"
    | (played) tr us n rq pr tsk p pl where "pc = At_reply tr us n rq pr tsk p"
        "on_reply cfg ports ep us n rq pr p pl s = (res, s1)"
    using ans by (cases pc; cases answer) (auto simp: decision_dropped_def)
  then show ?thesis
  proof cases
    case heard
    then show ?thesis
      using after_stops_progress [OF budget, of pc ports ep cap w s]
      by (auto simp: on_text_def progresses_def split: if_splits)
  next
    case decision
    then show ?thesis using on_decision_spec [OF decision(2)] room by (auto simp: progresses_def)
  next
    case played
    then show ?thesis using on_reply_spec [OF played(2)] room by (auto simp: progresses_def)
  qed (simp add: progresses_def)
qed

definition tasks_same :: "scene \<Rightarrow> scene \<Rightarrow> bool" where
  "tasks_same s s' \<longleftrightarrow> sn_tasks s' = sn_tasks s \<and> sn_spawned s' = sn_spawned s"

lemma frame_tasks: "same_frame s s' \<Longrightarrow> tasks_same s s'"
  by (simp add: same_frame_def tasks_same_def)

lemma after_stops_tasks:
  assumes "after_stops cfg ports ep cap w s = (res, s1)"
  shows "tasks_same s s1"
proof (cases "round_valid ep s")
  case True
  then show ?thesis using after_stops_spec [OF assms True] frame_tasks by (auto simp: tasks_same_def)
qed (use assms in \<open>auto simp: after_stops_def tasks_same_def\<close>)

lemma answer_tasks:
  assumes "answer_round cfg ports ep cap pc answer s = Some (res, s1)"
  shows "tasks_same s s1"
proof -
  consider
      (heard) stops w where "on_text cfg ports ep cap stops w s = (res, s1)"
    | (decision) tr us n rq d where "on_decision cfg ports ep tr us n rq d s = (res, s1)"
    | (dropped) rq e where "decision_dropped ep rq e s = (res, s1)"
    | (played) us n rq pr p pl where "on_reply cfg ports ep us n rq pr p pl s = (res, s1)"
    | (raised) "s1 = s"
    using assms by (cases pc; cases answer) auto
  then show ?thesis
  proof cases
    case heard
    then show ?thesis using after_stops_tasks [of cfg ports ep cap w s res s1]
      by (auto simp: on_text_def tasks_same_def split: if_splits)
  next
    case decision
    then show ?thesis using on_decision_spec [OF decision] frame_tasks by blast
  next
    case dropped
    then show ?thesis by (auto simp: decision_dropped_def audit_record_def tasks_same_def)
  next
    case played
    then show ?thesis using on_reply_spec [OF played] frame_tasks by blast
  qed (simp add: tasks_same_def)
qed

text \<open>Every step leaves a round where it is, brings it nearer to its end, or ends it.\<close>

lemma round_progress:
  assumes step: "scene_step cfg ports s s'" and inv: "scene_inv cfg s" and b: "budget_inv cfg s"
    and budget: "1 \<le> sc_reply_budget cfg" and task: "sn_tasks s t = Some (Round_task ep cap pc)"
  shows "sn_tasks s' t = None \<or> sn_tasks s' t = sn_tasks s t
    \<or> (\<exists>pc'. sn_tasks s' t = Some (Round_task ep cap pc') \<and> answers_left cfg pc' < answers_left cfg pc)"
proof -
  have room: "room_ok pc" using b task unfolding budget_inv_def by blast
  have fresh: "t < sn_spawned s" using inv task by (auto simp: scene_inv_def inv_ids_def)
  have settle: ?thesis
    if "s' = settle_round cfg t' ep' cap' (res, s1)" "sn_tasks s t' = Some (Round_task ep' cap' pc')"
      "progresses cfg pc' res" "t' \<noteq> t \<longrightarrow> sn_tasks s' t = sn_tasks s t" for t' ep' cap' pc' res s1
    using that task by (cases "t' = t") (auto simp: settle_task progresses_def split: sum.split option.split)
  have other: "sn_tasks (settle_round cfg t' ep' cap' (res, s1)) t = sn_tasks s t"
    if "t' \<noteq> t" "tasks_same s s1" for t' ep' cap' res s1
  proof -
    have fin: "sn_tasks (end_task t' (round_finally ep' s2)) t = sn_tasks s2 t" for s2
      using that(1) by (simp add: end_task_def round_finally_def settle_members_def)
    have raised: "sn_tasks (round_raised cfg ep' e s1) t = sn_tasks s t" for e
    proof (cases "round_valid ep' s1")
      case True
      obtain code s2 where "round_raised cfg ep' e s1 = fail_round cfg code True s2" "same_frame s1 s2"
        using round_raised_valid [OF True] by metis
      then show ?thesis using that fresh by (simp add: same_frame_def tasks_same_def)
    qed (use that in \<open>simp add: round_raised_def tasks_same_def\<close>)
    show ?thesis using that
      by (simp add: settle_round_def fin raised set_task_def tasks_same_def split: sum.split option.split)
  qed
  show ?thesis
    using step
  proof cases
    case (round_answered t' ep' cap' pc' answer r)
    obtain res s1 where r: "r = (res, s1)" by fastforce
    note ans = round_answered(3) [unfolded r]
    have "room_ok pc'" using b round_answered(2) unfolding budget_inv_def by blast
    then have "progresses cfg pc' res" by (rule answer_progress [OF _ budget ans])
    then show ?thesis
      using round_answered(1,2) r other [OF _ answer_tasks [OF ans]] by (intro settle) auto
  next
    case (stops_awaited t' ep' cap' stops w)
    obtain res s1 where r: "after_stops cfg ports ep' cap' w s = (res, s1)" by fastforce
    have "progresses cfg (At_stops stops w) res"
      using after_stops_progress [OF budget, of "At_stops stops w" ports ep' cap' w s] by (simp add: r)
    then show ?thesis
      using stops_awaited(1,2) r other [OF _ after_stops_tasks [OF r]] by (intro settle) auto
  next
    case (wait_cancelled t' ep' cap' stops w)
    then show ?thesis using other by (intro settle) (auto simp: progresses_def tasks_same_def)
  next
    case (round_begun t' ep' cap' stops)
    then show ?thesis using task by (auto simp: set_task_def)
  next
    case (pressed device cap)
    then show ?thesis using fresh
      by (auto simp: press_def cancel_round_def Let_def dispatch_stop_def scene_event_def audit_record_def split: option.splits)
  next
    case (stop_answered t' ep' P m a)
    then show ?thesis using task by (auto simp: stop_answer_def Let_def end_task_def set_task_def)
  next
    case (phase_reported t' ep' cap' tr us n rq pr tsk p v)
    then show ?thesis using permit_phase_frame(1) [of s p v] by (simp add: same_frame_def)
  next
    case (released device cap)
    then show ?thesis using fresh by (auto simp: release_def state_defs)
  qed (auto simp: end_task_def close_scene_def close_answer_def close_done_def state_defs)
qed

end
