(* ===== verification/Coord_Props.thy ===== *)
theory Coord_Props
  imports Coord_Status
begin

text \<open>
  The properties of a scene and a run of one, from the press of the input to a reply that was played,
  on which they are applied.
\<close>

section \<open>A run\<close>

definition ann :: team_member where
  "ann = \<lparr>mb_companion_id = ''ann'', mb_device_id = ''spk1'', mb_description = utext_of ''calm'', mb_role = None,
          mb_display_name = utext_of ''Ann''\<rparr>"

definition bob :: team_member where
  "bob = \<lparr>mb_companion_id = ''bob'', mb_device_id = ''spk2'', mb_description = utext_of ''dry'', mb_role = None,
          mb_display_name = []\<rparr>"

definition demo_scene :: scene_config where
  "demo_scene = \<lparr>sc_session_id = ''team1'', sc_input_device = ''mic'', sc_members = [ann, bob], sc_goal = [],
                 sc_reply_budget = 2, sc_stop_timeout = 2, sc_stage_timeout = 30\<rparr>"

definition demo_ports :: scene_ports where
  "demo_ports = \<lparr>so_new_id = (\<lambda>n. ''id'' @ nat_str n), so_accepts = (\<lambda>rq. True), so_validate = (\<lambda>rq d. None)\<rparr>"

definition hello :: public_message where
  "hello = \<lparr>pm_id = ''cap1'', pm_kind = User_author, pm_author = ''mic'', pm_text = utext_of ''hello''\<rparr>"

definition speak_ann :: decision_result where
  "speak_ann = \<lparr>dr_status = ''decided'',
     dr_proposal = Some \<lparr>sp_action = ''respond'', sp_participants = [''ann''], sp_instruction = []\<rparr>,
     dr_policy_version = ''p'', dr_model_version = ''m''\<rparr>"

definition run_pressed :: scene where
  "run_pressed = snd (press demo_scene ''mic'' ''cap1'' (initial_scene demo_scene))"

definition run_released :: scene where
  "run_released = snd (release demo_scene ''mic'' ''cap1'' run_pressed)"

definition run_begun :: scene where
  "run_begun = set_task 1 (Round_task 1 ''cap1'' (At_transcribe [0])) run_released"

definition run_heard :: scene where
  "run_heard = settle_round demo_scene 1 1 ''cap1'' (on_text demo_scene demo_ports 1 ''cap1'' [0] (utext_of ''hello'') run_begun)"

definition run_ann_silent :: scene where
  "run_ann_silent = stop_answer 0 1 [ann, bob] ann None run_heard"

definition run_silent :: scene where
  "run_silent = stop_answer 0 1 [bob] bob None run_ann_silent"

definition run_deciding :: scene where
  "run_deciding = settle_round demo_scene 1 1 ''cap1'' (after_stops demo_scene demo_ports 1 ''cap1'' (utext_of ''hello'') run_silent)"

definition first_request :: "scene \<Rightarrow> decision_request" where
  "first_request s = (case sn_tasks s 1 of Some (Round_task e c (At_decide tr us n rq)) \<Rightarrow> rq
     | Some (Round_task e c (At_reply tr us n rq pr tsk p)) \<Rightarrow> rq)"

definition run_talking :: scene where
  "run_talking = settle_round demo_scene 1 1 ''cap1''
     (on_decision demo_scene demo_ports 1 hello hello 2 (first_request run_deciding) speak_ann run_deciding)"

definition first_permit :: reply_permit where
  "first_permit = \<lparr>pt_turn_id = ''id1'', pt_epoch = 1, pt_companion = ''ann''\<rparr>"

definition run_interrupted :: scene where
  "run_interrupted = snd (press demo_scene ''mic'' ''cap2'' run_talking)"

definition run_bob_failed :: scene where
  "run_bob_failed = stop_answer 0 1 [bob] bob (Some (Raised (AsyncTimeoutError []))) run_ann_silent"

definition first_task :: reply_task where
  "first_task = (case sn_tasks run_talking 1 of Some (Round_task e c (At_reply tr us n rq pr tsk p)) \<Rightarrow> tsk)"

definition first_proposal :: speech_proposal where
  "first_proposal = \<lparr>sp_action = ''respond'', sp_participants = [''ann''], sp_instruction = []\<rparr>"

lemma run_tasks:
  "sn_tasks run_released 1 = Some (Round_task 1 ''cap1'' (At_begin [0]))"
  "sn_tasks run_begun 1 = Some (Round_task 1 ''cap1'' (At_transcribe [0]))"
  "sn_tasks run_heard 0 = Some (Stop_task 1 [ann, bob])"
  "sn_tasks run_ann_silent 0 = Some (Stop_task 1 [bob])"
  "sn_tasks run_silent 1 = Some (Round_task 1 ''cap1'' (At_stops [0] (utext_of ''hello'')))"
  "sn_tasks run_bob_failed 1 = Some (Round_task 1 ''cap1'' (At_stops [0] (utext_of ''hello'')))"
  "sn_tasks run_deciding 1 = Some (Round_task 1 ''cap1'' (At_decide hello hello 2 (first_request run_deciding)))"
  "sn_tasks run_talking 1 = Some (Round_task 1 ''cap1'' (At_reply hello hello 2 (first_request run_deciding)
     first_proposal first_task first_permit))"
  "sn_tasks run_interrupted 1 = sn_tasks run_talking 1"
  by code_simp+

lemma run_facts:
  "1 \<notin> set (sn_cancelled run_released)" "1 \<notin> set (sn_cancelled run_silent)" "1 \<notin> set (sn_cancelled run_bob_failed)"
  "stops_done [0] run_silent" "stops_done [0] run_bob_failed" "sn_epoch run_talking = 1" "sn_epoch run_interrupted = 2"
  by code_simp+

lemma run_opens: "open_scene demo_scene = Inr (initial_scene demo_scene)"
  by (simp add: open_scene_def demo_scene_def ann_def bob_def)

lemma run_reachable:
  "scene_reachable demo_scene demo_ports run_ann_silent" "scene_reachable demo_scene demo_ports run_bob_failed"
  "scene_reachable demo_scene demo_ports run_deciding" "scene_reachable demo_scene demo_ports run_talking"
  "scene_reachable demo_scene demo_ports run_interrupted"
  "scene_step demo_scene demo_ports run_deciding run_talking"
proof -
  have r: "scene_reachable demo_scene demo_ports s'"
    if "scene_reachable demo_scene demo_ports s" "scene_step demo_scene demo_ports s s'" for s s'
    using that unfolding scene_reachable_def by (meson scene_steps.go)
  have "scene_reachable demo_scene demo_ports (initial_scene demo_scene)"
    unfolding scene_reachable_def using run_opens scene_steps.stay by blast
  from r [OF this pressed] have "scene_reachable demo_scene demo_ports run_pressed" unfolding run_pressed_def .
  from r [OF this released] have "scene_reachable demo_scene demo_ports run_released" unfolding run_released_def .
  from r [OF this round_begun [OF run_tasks(1) run_facts(1)]]
  have "scene_reachable demo_scene demo_ports run_begun" unfolding run_begun_def .
  from r [OF this round_answered [OF run_tasks(2), where answer = "Got_text (utext_of ''hello'')" and ports = demo_ports]]
  have "scene_reachable demo_scene demo_ports run_heard" unfolding run_heard_def by simp
  from r [OF this stop_answered [OF run_tasks(3), of ann]]
  show ann: "scene_reachable demo_scene demo_ports run_ann_silent" unfolding run_ann_silent_def by simp
  from r [OF ann stop_answered [OF run_tasks(4), of bob]]
  show "scene_reachable demo_scene demo_ports run_bob_failed" unfolding run_bob_failed_def by simp
  from r [OF ann stop_answered [OF run_tasks(4), of bob]]
  have "scene_reachable demo_scene demo_ports run_silent" unfolding run_silent_def by simp
  from r [OF this stops_awaited [OF run_tasks(5) run_facts(4,2)]]
  show deciding: "scene_reachable demo_scene demo_ports run_deciding" unfolding run_deciding_def .
  show step: "scene_step demo_scene demo_ports run_deciding run_talking"
    using round_answered [OF run_tasks(7), where answer = "Got_decision speak_ann" and ports = demo_ports] unfolding run_talking_def by simp
  show talking: "scene_reachable demo_scene demo_ports run_talking" by (rule r [OF deciding step])
  show "scene_reachable demo_scene demo_ports run_interrupted"
    unfolding run_interrupted_def by (rule r [OF talking pressed])
qed


section \<open>Speech\<close>

text \<open>
  Silence before speech: when a reply is started in an epoch, every member of the scene has
  confirmed its stop of that very epoch before; a stop that failed, is pending, or was confirmed for an
  older epoch does not count.
\<close>

theorem silence_before_speech:
  assumes "scene_reachable cfg ports s"
    and "sn_audit s = us @ (e, Ev_reply_started d c dev t) # vs" and "m \<in> set (sc_members cfg)"
  shows "\<exists>e'. (e', Ev_stopped (mb_device_id m) e) \<in> set us"
proof -
  have "keys s = filter (is_key \<circ> snd) us @ (e, Ev_reply_started d c dev t) # filter (is_key \<circ> snd) vs"
    unfolding keys_def by (rule filter_split [OF assms(2)]) simp
  then show ?thesis
    using silence_reachable [OF assms(1)] assms(3) unfolding started_after_silence_def by fastforce
qed

theorem silence_before_speech_witness:
  "\<exists>e'. (e', Ev_stopped ''spk2'' 1) \<in> set (butlast (sn_audit run_talking))"
proof -
  have "sn_audit run_talking = butlast (sn_audit run_talking)
      @ (1, Ev_reply_started (dq_decision_id (first_request run_deciding)) ''ann'' ''spk1'' ''id1'') # []"
    by code_simp
  from silence_before_speech [OF run_reachable(4) this, of bob] show ?thesis
    by (simp add: demo_scene_def bob_def)
qed

text \<open>
  One voice: at most one reply at a time has a current permit, whoever asks for the floor.
\<close>

theorem one_voice:
  assumes "scene_reachable cfg ports s"
    and "sn_tasks s t1 = Some (Round_task e1 c1 (At_reply tr1 us1 n1 rq1 pr1 task1 p1))" and "permit_current p1 s"
    and "sn_tasks s t2 = Some (Round_task e2 c2 (At_reply tr2 us2 n2 rq2 pr2 task2 p2))" and "permit_current p2 s"
  shows "t1 = t2 \<and> p1 = p2"
proof -
  note inv = scene_inv_reachable [OF assms(1)]
  have "pt_epoch p1 = e1" "pt_epoch p2 = e2"
    using inv assms(2,4) unfolding scene_inv_def inv_permits_def by fastforce+
  then have "e1 = sn_epoch s" "e2 = sn_epoch s" using assms(3,5) by (simp_all add: permit_current_def round_valid_def)
  then have "t1 = t2" using inv assms(2,4) unfolding scene_inv_def inv_single_def round_now_def by blast
  then show ?thesis using assms(2,4) by simp
qed

theorem one_voice_witness: "permit_current first_permit run_talking \<and> (1::nat) = 1 \<and> first_permit = first_permit"
proof -
  have "permit_current first_permit run_talking" by code_simp
  then show ?thesis using one_voice [OF run_reachable(4) run_tasks(8) _ run_tasks(8)] by blast
qed

text \<open>
  C11. The input has the floor: a press with a new capture revokes the permit of every reply that was
  started, for good; the scene records, and every member has a stop of the new epoch pending.
\<close>

theorem press_revokes_replies:
  assumes "scene_reachable cfg ports s" and "press cfg device cap s = (Inr e, s1)"
    and "\<not> (sn_capture s = Some cap \<and> sn_held s)"
    and "sn_tasks s t = Some (Round_task ep c (At_reply tr us n rq pr task p))" and "scene_steps cfg ports s1 s2"
  shows "\<not> permit_current p s2 \<and> sn_state s1 = Scene_recording \<and> sn_epoch s1 = e
    \<and> sn_tasks s1 (sn_spawned s) = Some (Stop_task e (sc_members cfg))"
proof -
  note inv = scene_inv_reachable [OF assms(1)]
  have s1: "sn_epoch s1 = Suc (sn_epoch s)" "e = sn_epoch s1" "sn_state s1 = Scene_recording"
    "sn_tasks s1 (sn_spawned s) = Some (Stop_task e (sc_members cfg))"
    using assms(2,3)
    by (auto simp: press_def cancel_round_def state_defs split: if_splits option.splits)
  have "pt_epoch p = ep" "ep \<le> sn_epoch s"
    using inv assms(4) unfolding scene_inv_def inv_permits_def inv_ids_def by fastforce+
  moreover have "scene_reachable cfg ports s1"
    using step_epoch [OF assms(1)] scene_steps.go [OF scene_steps.stay pressed, of cfg ports s device cap] assms(2)
    by simp
  ultimately show ?thesis using revoked_for_good [OF _ assms(5), of p] s1 by simp
qed

theorem press_revokes_replies_witness:
  "\<not> permit_current first_permit run_interrupted \<and> sn_state run_interrupted = Scene_recording"
proof -
  have "fst (press demo_scene ''mic'' ''cap2'' run_talking) = Inr 2" by code_simp
  then have p: "press demo_scene ''mic'' ''cap2'' run_talking = (Inr 2, run_interrupted)"
    by (simp add: run_interrupted_def prod_eq_iff)
  have "\<not> (sn_capture run_talking = Some ''cap2'' \<and> sn_held run_talking)" by code_simp
  from press_revokes_replies [OF run_reachable(4) p this run_tasks(8) scene_steps.stay] show ?thesis by simp
qed

text \<open>
  C13. The reply budget: in every epoch at most \<open>reply_budget\<close> replies are started, and that is at most
  thirty-two.
\<close>

theorem reply_budget_kept:
  assumes "scene_reachable cfg ports s"
  shows "int (length (filter (\<lambda>(e', ev). e' = e \<and> is_start ev) (sn_audit s))) \<le> sc_reply_budget cfg
    \<and> sc_reply_budget cfg \<le> 32"
proof -
  have "(case x of (e', ev) \<Rightarrow> e' = e \<and> is_start ev) \<Longrightarrow> (is_key \<circ> snd) x" for x
    by (cases x) (auto elim: is_start.elims)
  then have "filter (\<lambda>(e', ev). e' = e \<and> is_start ev) (keys s) = filter (\<lambda>(e', ev). e' = e \<and> is_start ev) (sn_audit s)"
    unfolding keys_def filter_filter by (intro filter_cong) auto
  then show ?thesis
    using budget_inv_reachable [OF assms] reachable_budget [OF assms] unfolding budget_inv_def starts_def by metis
qed

theorem reply_budget_kept_witness:
  "int (length (filter (\<lambda>(e', ev). e' = 1 \<and> is_start ev) (sn_audit run_talking))) \<le> 2"
  using reply_budget_kept [OF run_reachable(4), of 1] by (simp add: demo_scene_def)



definition run_played :: scene where
  "run_played = settle_round demo_scene 1 1 ''cap1''
     (on_reply demo_scene demo_ports 1 hello 2 (first_request run_deciding) first_proposal first_permit
        \<lparr>pl_text = utext_of ''hi'', pl_completed = True\<rparr> run_talking)"

lemma run_played_reachable: "scene_reachable demo_scene demo_ports run_played"
  using run_reachable(4) round_answered [OF run_tasks(8), where ports = demo_ports
      and answer = "Got_played \<lparr>pl_text = utext_of ''hi'', pl_completed = True\<rparr>"]
  unfolding scene_reachable_def run_played_def by (meson answer_round.simps scene_steps.go)


text \<open>
  Captures: every capture of the input is opened at most once in the life of a session, and at most
  256 are.
\<close>

theorem captures_used_once:
  assumes "scene_reachable cfg ports s"
  shows "distinct (pressed_captures (sn_audit s)) \<and> length (pressed_captures (sn_audit s)) \<le> 256"
proof -
  have "pressed_captures (sn_audit s) = rev (sn_captures s)"
    using capture_inv_reachable [OF assms] by (simp add: capture_inv_def keys_def pressed_keys)
  then show ?thesis using capture_inv_reachable [OF assms] by (simp add: capture_inv_def)
qed

theorem captures_used_once_witness: "distinct (pressed_captures (sn_audit run_interrupted))"
  using captures_used_once [OF run_reachable(5)] by blast


section \<open>Late answers, failures and the end of a round\<close>

text \<open>
  C32. A late answer: whatever a port answers to a round of another epoch, the round ends and nothing
  changes but the audit, which may only say that the decision came back and was not applied.
\<close>

theorem late_answer_changes_nothing:
  assumes "scene_reachable cfg ports s" and "sn_tasks s t = Some (Round_task ep cap pc)" and "ep \<noteq> sn_epoch s"
    and "answer_round cfg ports ep cap pc answer s = Some r"
  shows "\<exists>zs. settle_round cfg t ep cap r = (end_task t s)\<lparr>sn_audit := sn_audit s @ zs\<rparr>
    \<and> list_all (\<lambda>(e, ev). audit_only ev) zs"
  using stale_answer [OF scene_inv_reachable [OF assms(1)] assms(2-4)] by (metis list_all_iff)

theorem late_answer_changes_nothing_witness:
  "\<exists>zs. settle_round demo_scene 1 1 ''cap1''
      (on_reply demo_scene demo_ports 1 hello 2 (first_request run_deciding) first_proposal first_permit
        \<lparr>pl_text = utext_of ''hi'', pl_completed = True\<rparr> run_interrupted)
    = (end_task 1 run_interrupted)\<lparr>sn_audit := sn_audit run_interrupted @ zs\<rparr>"
proof -
  have t: "sn_tasks run_interrupted 1 = Some (Round_task 1 ''cap1'' (At_reply hello hello 2 (first_request run_deciding)
     first_proposal first_task first_permit))"
    using run_tasks(8,9) by simp
  show ?thesis
    using late_answer_changes_nothing [OF run_reachable(5) t, where answer =
        "Got_played \<lparr>pl_text = utext_of ''hi'', pl_completed = True\<rparr>"] run_facts(7)
    by auto
qed

text \<open>
  C31. An unconfirmed member: when the stops of a round have all come back and one of them failed, the
  round ends with \<open>TEAM_STOP_UNCONFIRMED\<close>, a new epoch begins, and no decision is asked for and no
  reply is started.
\<close>

theorem unconfirmed_stop_ends_round:
  assumes "scene_reachable cfg ports s" and "sn_tasks s t = Some (Round_task (sn_epoch s) cap (At_stops stops txt))"
    and "sn_failures s \<noteq> []"
  shows "let s' = settle_round cfg t (sn_epoch s) cap (after_stops cfg ports (sn_epoch s) cap txt s) in
    sn_error_code s' = ''TEAM_STOP_UNCONFIRMED'' \<and> sn_state s' = Scene_failed \<and> sn_tasks s' t = None
    \<and> sn_epoch s' = Suc (sn_epoch s) \<and> sn_history s' = sn_history s
    \<and> sn_audit s' = sn_audit s @ [(sn_epoch s, Ev_round_failed ''TEAM_STOP_UNCONFIRMED'')]"
proof -
  have "round_valid (sn_epoch s) s"
    using scene_inv_now [OF scene_inv_reachable [OF assms(1)] assms(2)] by (simp add: round_valid_def)
  then show ?thesis
    using assms(3) by (simp add: after_stops_def settle_round_def fail_round_def round_finally_def end_task_def
        settle_members_def scene_event_def audit_record_def Let_def)
qed

theorem unconfirmed_stop_ends_round_witness:
  "sn_error_code (settle_round demo_scene 1 1 ''cap1''
     (after_stops demo_scene demo_ports 1 ''cap1'' (utext_of ''hello'') run_bob_failed)) = ''TEAM_STOP_UNCONFIRMED''"
proof -
  have e: "sn_epoch run_bob_failed = 1" and f: "sn_failures run_bob_failed \<noteq> []" by code_simp+
  show ?thesis
    using unconfirmed_stop_ends_round [OF run_reachable(2) run_tasks(6) [folded e] f]
    by (simp add: e Let_def)
qed

text \<open>
  C15. A round ends: every step of the scene leaves a round where it is, ends it, or brings it to a
  point from which it can take fewer answers; a round that has not begun can take at most 67.
\<close>

theorem round_ends:
  assumes "scene_reachable cfg ports s" and "scene_step cfg ports s s'"
    and "sn_tasks s t = Some (Round_task ep cap pc)"
  shows "(sn_tasks s' t = None \<or> sn_tasks s' t = sn_tasks s t
      \<or> (\<exists>pc'. sn_tasks s' t = Some (Round_task ep cap pc') \<and> answers_left cfg pc' < answers_left cfg pc))
    \<and> answers_left cfg (At_begin stops) \<le> 67"
  using round_progress [OF assms(2) scene_inv_reachable [OF assms(1)] budget_inv_reachable [OF assms(1)] _ assms(3)]
    reachable_budget [OF assms(1)] by (auto simp: nat_le_iff)

theorem round_ends_witness:
  "answers_left demo_scene (At_reply hello hello 2 (first_request run_deciding) first_proposal first_task first_permit)
     < answers_left demo_scene (At_decide hello hello 2 (first_request run_deciding))"
  using round_ends [OF run_reachable(3,6) run_tasks(7), where stops = "[]"] run_tasks(8) by auto


section \<open>What a client is shown\<close>

text \<open>
  The status that is shown: while the session is open, a member shown as thinking or speaking is a
  member of the scene that is running a reply of the current epoch.
\<close>

theorem shown_status_is_true:
  assumes "scene_reachable cfg ports s" and "\<not> sn_closed s" and "map_of (sn_member_states s) c = Some st"
    and "busy st"
  shows "talking s c \<and> is_member cfg c"
proof -
  have "talking s c" using status_reachable [OF assms(1)] assms(2-4) unfolding status_inv_def by blast
  moreover from this have "is_member cfg c"
    using typed_reachable [OF assms(1)] unfolding talking_def typed_inv_def by blast
  ultimately show ?thesis by blast
qed

theorem shown_status_is_true_witness: "talking run_talking ''ann'' \<and> is_member demo_scene ''ann''"
proof -
  have "\<not> sn_closed run_talking" "map_of (sn_member_states run_talking) ''ann'' = Some M_thinking" by code_simp+
  then show ?thesis using shown_status_is_true [OF run_reachable(4)] by simp
qed

text \<open>
  C33. The shape of the state: there is one state per member, in the order of the members; failures are
  recorded for members only, the diagnostic events are at most 512, and a reply is run by a member.
\<close>

theorem scene_state_typed:
  assumes "scene_reachable cfg ports s"
  shows "map fst (sn_member_states s) = map mb_companion_id (sc_members cfg)
    \<and> fst ` set (sn_failures s) \<subseteq> mb_companion_id ` set (sc_members cfg)
    \<and> length (sn_events s) \<le> 512 \<and> distinct (map fst (sn_member_states s))"
  using typed_reachable [OF assms] opened(2) assms
  by (auto simp: typed_inv_def shown_def scene_reachable_def)

theorem scene_state_typed_witness: "map fst (sn_member_states run_bob_failed) = [''ann'', ''bob'']"
  using scene_state_typed [OF run_reachable(2)] by (simp add: demo_scene_def ann_def bob_def)

end
