(* ===== verification/Coord_Team.thy ===== *)
theory Coord_Team
  imports Coord_Stream Coord_Props
begin

text \<open>
  The session and its transport together: the session's \<open>stop\<close> is a request of the stream, and only a
  receipt confirms it. The state keeps the \<open>stop\<close> coroutines that are suspended (with the locals they
  return to), the frames the client sent and the stop requests that were made. An id of \<open>uuid4\<close> is
  new: that is a premise of the steps that take one.
\<close>

section \<open>The composition\<close>

datatype stopper = By_task nat | By_close

record team_run =
  tr_stream :: team_stream
  tr_stops :: "(string \<times> stopper \<times> nat \<times> team_member) list"
  tr_seen :: "inbound_frame list"
  tr_asked :: "outbound_frame list"

definition run_session :: "team_run \<Rightarrow> scene" where
  "run_session r = ts_session (tr_stream r)"

definition put_session :: "scene \<Rightarrow> team_run \<Rightarrow> team_run" where
  "put_session s r = r\<lparr>tr_stream := (tr_stream r)\<lparr>ts_session := s\<rparr>\<rparr>"

text \<open>The session takes the answer of a stop, for the task or the close that asked for it.\<close>

fun waits_for :: "stopper \<Rightarrow> nat \<Rightarrow> team_member \<Rightarrow> scene \<Rightarrow> bool" where
  "waits_for (By_task t) ep m s = (\<exists>P. sn_tasks s t = Some (Stop_task ep P) \<and> m \<in> set P)"
| "waits_for By_close ep m s = (\<exists>P. sn_closing s = Some (ep, P) \<and> m \<in> set P)"

fun take_answer :: "stopper \<Rightarrow> nat \<Rightarrow> team_member \<Rightarrow> scene_exc option \<Rightarrow> scene \<Rightarrow> scene" where
  "take_answer (By_task t) ep m a s =
     (case sn_tasks s t of Some (Stop_task e P) \<Rightarrow> stop_answer t ep P m a s | _ \<Rightarrow> s)"
| "take_answer By_close ep m a s =
     (case sn_closing s of Some (e, P) \<Rightarrow> close_answer ep P m a s | None \<Rightarrow> s)"

definition confirmations :: "scene \<Rightarrow> (nat \<times> scene_fact) list" where
  "confirmations s = filter (\<lambda>(e, ev). case ev of Ev_stopped d e' \<Rightarrow> True | _ \<Rightarrow> False) (sn_audit s)"

text \<open>
  A phase is reported while the reply runs: \<open>present\<close> removes its receipt when it is left, so the
  receipt a \<open>Speaking\<close> frame finds belongs to a reply that is still awaited.
\<close>

definition reply_awaited :: "inbound_frame \<Rightarrow> team_stream \<Rightarrow> bool" where
  "reply_awaited f ts \<longleftrightarrow>
     (\<forall>turn device p pt. f = In_speaking turn device \<longrightarrow> map_of (ts_pending ts) turn = Some p \<longrightarrow> pr_permit p = Some pt
        \<longrightarrow> (\<exists>t ep c tr us n rq pr task. sn_tasks (ts_session ts) t = Some (Round_task ep c (At_reply tr us n rq pr task pt))))"

inductive team_step :: "scene_config \<Rightarrow> scene_ports \<Rightarrow> team_run \<Rightarrow> team_run \<Rightarrow> bool" for cfg ports r where
  Frame:
    "accept_frame cfg f (tr_stream r) = (res, ts) \<Longrightarrow> reply_awaited f (tr_stream r)
     \<Longrightarrow> team_step cfg ports r (r\<lparr>tr_stream := ts, tr_seen := tr_seen r @ [f]\<rparr>)"
| Stop_asked:
    "waits_for who ep m (run_session r) \<Longrightarrow> map_of (ts_pending (tr_stream r)) req = None \<Longrightarrow> req \<notin> fst ` set (tr_stops r)
     \<Longrightarrow> stop_request req m ep (tr_stream r) = (Inr u, ts)
     \<Longrightarrow> team_step cfg ports r
           (r\<lparr>tr_stream := ts, tr_stops := (req, who, ep, m) # tr_stops r,
              tr_asked := tr_asked r @ [F_stop req (mb_device_id m) ep (map_of (ts_capture_epochs (tr_stream r)) ep)]\<rparr>)"
| Stop_unsent:
    "waits_for who ep m (run_session r) \<Longrightarrow> map_of (ts_pending (tr_stream r)) req = None
     \<Longrightarrow> stop_request req m ep (tr_stream r) = (Inl e, ts)
     \<Longrightarrow> team_step cfg ports r (put_session (take_answer who ep m (Some e) (run_session r)) (r\<lparr>tr_stream := ts\<rparr>))"
| Stop_returned:
    "map_of (tr_stops r) req = Some (who, ep, m) \<Longrightarrow> waits_for who ep m (run_session r)
     \<Longrightarrow> stop_result req (tr_stream r) = Some (res, ts)
     \<Longrightarrow> team_step cfg ports r
           (put_session (take_answer who ep m (case res of Inl e \<Rightarrow> Some e | Inr _ \<Rightarrow> None) (run_session r))
              (r\<lparr>tr_stream := ts, tr_stops := dict_del req (tr_stops r)\<rparr>))"
| Stop_timed_out:
    "map_of (tr_stops r) req = Some (who, ep, m) \<Longrightarrow> waits_for who ep m (run_session r)
     \<Longrightarrow> team_step cfg ports r
           (put_session (take_answer who ep m (Some (Raised (AsyncTimeoutError []))) (run_session r))
              (r\<lparr>tr_stream := stop_finally req (tr_stream r), tr_stops := dict_del req (tr_stops r)\<rparr>))"
| Session:
    "scene_step cfg ports (run_session r) s \<Longrightarrow> confirmations s = confirmations (run_session r)
     \<Longrightarrow> team_step cfg ports r (put_session s r)"
| Written:
    "write_next (tr_stream r) = Some ts \<Longrightarrow> team_step cfg ports r (r\<lparr>tr_stream := ts\<rparr>)"
| Opened:
    "map_of (ts_pending (tr_stream r)) (pt_turn_id p) = None \<Longrightarrow> pt_turn_id p \<notin> fst ` set (tr_stops r)
     \<Longrightarrow> team_step cfg ports r (r\<lparr>tr_stream := present_open m p (tr_stream r)\<rparr>)"
| Presented:
    "present_start m p (tr_stream r) = Some (res, ts) \<or> present_event m p w (tr_stream r) = Some (res, ts)
       \<or> present_end m p (tr_stream r) = Some (res, ts)
     \<Longrightarrow> team_step cfg ports r (r\<lparr>tr_stream := ts\<rparr>)"
| Left:
    "pt_turn_id p \<notin> fst ` set (tr_stops r)
     \<Longrightarrow> team_step cfg ports r (r\<lparr>tr_stream := present_finally p (tr_stream r)\<rparr>)"
| Round_done:
    "team_step cfg ports r (r\<lparr>tr_stream := round_done cap (tr_stream r)\<rparr>)"
| Closing:
    "team_step cfg ports r (r\<lparr>tr_stream := close_begin cfg (tr_stream r)\<rparr>)"
| Closed:
    "team_step cfg ports r (r\<lparr>tr_stream := close_end (tr_stream r)\<rparr>)"
| Disconnected:
    "team_step cfg ports r (r\<lparr>tr_stream := disconnect_stream (tr_stream r)\<rparr>)"

definition new_run :: "scene_config \<Rightarrow> team_run" where
  "new_run cfg = \<lparr>tr_stream = new_stream (initial_scene cfg), tr_stops = [], tr_seen = [], tr_asked = []\<rparr>"

inductive team_reachable :: "scene_config \<Rightarrow> scene_ports \<Rightarrow> team_run \<Rightarrow> bool" for cfg ports where
  prepared: "open_scene cfg = Inr s0 \<Longrightarrow> team_reachable cfg ports (new_run cfg)"
| moved: "team_reachable cfg ports r \<Longrightarrow> team_step cfg ports r r' \<Longrightarrow> team_reachable cfg ports r'"


section \<open>What the frames do to the session and to the receipts\<close>

lemma emit_frame_fields:
  assumes "emit_frame f p urgent slot ts = (res, ts')"
  shows "ts_session ts' = ts_session ts \<and> ts_pending ts' = ts_pending ts \<and> ts_capture_epochs ts' = ts_capture_epochs ts
    \<and> ts_sent ts' = ts_sent ts"
  using assms by (auto simp: emit_frame_def Let_def split: if_splits)

lemma emit_reply_fields:
  assumes "emit_reply f p ts = Some (res, ts')"
  shows "ts_session ts' = ts_session ts \<and> ts_pending ts' = ts_pending ts"
  using assms
  by (auto simp: emit_reply_def Let_def split: if_splits prod.splits sum.splits dest!: emit_frame_fields)

lemma mark_written_fields:
  "ts_session (mark_written f ts) = ts_session ts" "ts_sent (mark_written f ts) = ts_sent ts"
  "map_of (ts_pending (mark_written f ts)) req =
     (if frame_request f = Some req then map_option (\<lambda>p. p\<lparr>pr_completion_allowed := True\<rparr>) (map_of (ts_pending ts) req)
      else map_of (ts_pending ts) req)"
  by (auto simp: mark_written_def map_pending_def split: option.split)

lemma take_frame_fields [simp]:
  "ts_session (take_frame x ts) = ts_session ts" "ts_sent (take_frame x ts) = ts_sent ts"
  "ts_pending (take_frame x ts) = ts_pending ts"
  by (simp_all add: take_frame_def)

text \<open>What one turn of the writer does: it drops a frame whose permit is revoked, or sends it.\<close>

lemma write_next_cases:
  assumes "write_next ts = Some ts'"
  obtains (dropped) x where "x \<in> set (ts_outbound ts)" "ts' = take_frame x ts"
  | (sent) x where "x \<in> set (ts_outbound ts)" "\<forall>p. qf_permit x = Some p \<longrightarrow> permit_current p (ts_session ts)"
      "ts' = (mark_written (qf_frame x) (take_frame x ts))\<lparr>ts_sent := ts_sent ts @ [qf_frame x]\<rparr>"
proof -
  obtain q qs where q: "ts_outbound ts = q # qs" using assms by (cases "ts_outbound ts") (simp_all add: write_next_def)
  have "first_frame a bs = a \<or> first_frame a bs \<in> set bs" for a bs
  proof (induction bs arbitrary: a)
    case (Cons b bs)
    show ?case using Cons.IH [of a] Cons.IH [of b] by auto
  qed simp
  then have x: "first_frame q qs \<in> set (ts_outbound ts)" by (simp add: q)
  show ?thesis
  proof (cases "case qf_permit (first_frame q qs) of
      Some p \<Rightarrow> \<not> permit_current p (ts_session (take_frame (first_frame q qs) ts)) | None \<Rightarrow> False")
    case True
    then have "ts' = take_frame (first_frame q qs) ts" using assms q by (simp add: write_next_def Let_def)
    then show ?thesis using dropped x by blast
  next
    case False
    then have "ts' = (mark_written (qf_frame (first_frame q qs)) (take_frame (first_frame q qs) ts))
        \<lparr>ts_sent := ts_sent ts @ [qf_frame (first_frame q qs)]\<rparr>"
      using assms q by (simp add: write_next_def Let_def mark_written_fields)
    moreover have "\<forall>p. qf_permit (first_frame q qs) = Some p \<longrightarrow> permit_current p (ts_session ts)"
      using False by auto
    ultimately show ?thesis using sent x by blast
  qed
qed

lemma write_next_session: "write_next ts = Some ts' \<Longrightarrow> ts_session ts' = ts_session ts"
  by (erule write_next_cases) (simp_all add: mark_written_fields)

lemma take_answer_step:
  assumes "waits_for who ep m s"
  shows "scene_step cfg ports s (take_answer who ep m a s)"
  using assms by (cases who) (auto intro: stop_answered close_answered)

lemma confirmations_take:
  assumes "waits_for who ep m s"
  shows "confirmations (take_answer who ep m a s)
    = confirmations s @ (if a = None then [(sn_epoch s, Ev_stopped (mb_device_id m) ep)] else [])"
proof -
  have "confirmations (stop_reply ep m a s')
      = confirmations s' @ (if a = None then [(sn_epoch s', Ev_stopped (mb_device_id m) ep)] else [])" for s'
    by (simp add: confirmations_def stop_reply_def state_defs split: option.splits)
  then show ?thesis using assms
    by (cases who) (auto simp: stop_answer_def close_answer_def end_task_def set_task_def Let_def confirmations_def)
qed

lemma confirmations_press: "confirmations (snd (press cfg d c s)) = confirmations s"
  by (simp add: press_def cancel_round_def confirmations_def state_defs split: option.splits)

lemma confirmations_release: "confirmations (snd (release cfg d c s)) = confirmations s"
  by (simp add: release_def confirmations_def state_defs)

lemma confirmations_phase: "confirmations (snd (permit_phase p v s)) = confirmations s"
  by (simp add: permit_phase_def confirmations_def state_defs)

text \<open>The parts of the stream each frame leaves alone.\<close>

lemma receipt_session: "ts_session (snd (accept_receipt req d res b c ts)) = ts_session ts"
  by (simp add: accept_receipt_def map_pending_def split: option.split)

lemma speaking_parts:
  "ts_pending (snd (accept_speaking turn d ts)) = ts_pending ts"
  "ts_session (snd (accept_speaking turn d ts)) = ts_session ts
   \<or> (\<exists>p pt. map_of (ts_pending ts) turn = Some p \<and> pr_permit p = Some pt
        \<and> ts_session (snd (accept_speaking turn d ts)) = snd (permit_phase pt ''speaking'' (ts_session ts)))"
  by (simp_all add: accept_speaking_def case_prod_unfold split: option.split)

lemma press_parts:
  "ts_pending (snd (accept_press cfg cap ts)) = ts_pending ts"
  "ts_session (snd (accept_press cfg cap ts)) = ts_session ts
   \<or> ts_session (snd (accept_press cfg cap ts)) = snd (press cfg (sc_input_device cfg) cap (ts_session ts))"
  by (auto simp: accept_press_def cancel_transcript_def Let_def emit_frame_def split: prod.split sum.split)

lemma release_parts:
  "ts_pending (snd (accept_release cfg cap ts)) = ts_pending ts"
  "ts_session (snd (accept_release cfg cap ts)) = ts_session ts
   \<or> ts_session (snd (accept_release cfg cap ts)) = snd (release cfg (sc_input_device cfg) cap (ts_session ts))"
  by (auto simp: accept_release_def split: prod.split sum.split)

lemma transcript_parts:
  "ts_pending (snd (accept_transcript cap w ts)) = ts_pending ts"
  "ts_session (snd (accept_transcript cap w ts)) = ts_session ts"
  by (simp_all add: accept_transcript_def split: option.split transcript_future.split)

text \<open>A frame moves the session by a press, a release or a phase of a running reply, or not at all.\<close>

lemma accept_frame_session:
  assumes "accept_frame cfg f ts = (res, ts')" and "reply_awaited f ts"
  shows "ts_session ts' = ts_session ts
    \<or> scene_step cfg ports (ts_session ts) (ts_session ts') \<and> confirmations (ts_session ts') = confirmations (ts_session ts)"
proof -
  have ts': "ts' = snd (accept_frame cfg f ts)" using assms(1) by simp
  show ?thesis
  proof (cases f)
    case (In_receipt req device result basis code)
    then show ?thesis by (simp add: ts' accept_frame_def receipt_session)
  next
    case (In_speaking turn device)
    then have s: "ts' = snd (accept_speaking turn device ts)" by (simp add: ts' accept_frame_def)
    from speaking_parts(2) [of turn device ts] show ?thesis
    proof
      assume "\<exists>p pt. map_of (ts_pending ts) turn = Some p \<and> pr_permit p = Some pt
        \<and> ts_session (snd (accept_speaking turn device ts)) = snd (permit_phase pt ''speaking'' (ts_session ts))"
      then obtain p pt where p: "map_of (ts_pending ts) turn = Some p" "pr_permit p = Some pt"
        and s': "ts_session ts' = snd (permit_phase pt ''speaking'' (ts_session ts))" unfolding s by blast
      obtain t ep c tr us n rq pr tsk where
          t: "sn_tasks (ts_session ts) t = Some (Round_task ep c (At_reply tr us n rq pr tsk pt))"
        using assms(2) p In_speaking unfolding reply_awaited_def by metis
      have "scene_step cfg ports (ts_session ts) (ts_session ts')" unfolding s' by (rule phase_reported [OF t])
      then show ?thesis by (simp add: s' confirmations_phase)
    qed (simp add: s)
  next
    case (In_press cap)
    then have "ts_session ts' = ts_session ts
        \<or> ts_session ts' = snd (press cfg (sc_input_device cfg) cap (ts_session ts))"
      using press_parts(2) [of cfg cap ts] by (simp add: ts' accept_frame_def)
    then show ?thesis using pressed confirmations_press by metis
  next
    case (In_release cap)
    then have "ts_session ts' = ts_session ts
        \<or> ts_session ts' = snd (release cfg (sc_input_device cfg) cap (ts_session ts))"
      using release_parts(2) [of cfg cap ts] by (simp add: ts' accept_frame_def)
    then show ?thesis using released confirmations_release by metis
  qed (auto simp: ts' accept_frame_def transcript_parts)
qed

text \<open>And it touches a receipt that is waited for only by answering it.\<close>

definition answered_by :: "inbound_frame \<Rightarrow> string \<Rightarrow> pending_receipt \<Rightarrow> pending_receipt \<Rightarrow> bool" where
  "answered_by f req p p' \<longleftrightarrow>
     (\<exists>device result basis code.
        f = In_receipt req device result basis code \<and> pr_device_id p = device
        \<and> (pr_permit p = None \<longrightarrow> basis = ''device_ack'')
        \<and> (result = Completed_result \<longrightarrow> pr_completion_allowed p)
        \<and> p' = p\<lparr>pr_error_code := code, pr_future := Some (result = Completed_result)\<rparr>)"

lemma accept_frame_pending:
  assumes "accept_frame cfg f ts = (res, ts')"
  shows "map_of (ts_pending ts') req = map_of (ts_pending ts) req
    \<or> (\<exists>p p'. map_of (ts_pending ts) req = Some p \<and> map_of (ts_pending ts') req = Some p' \<and> answered_by f req p p')"
proof -
  have ts': "ts' = snd (accept_frame cfg f ts)" using assms(1) by simp
  show ?thesis
  proof (cases f)
    case (In_receipt req' device result basis code)
    then have s: "ts' = snd (accept_receipt req' device result basis code ts)" by (simp add: ts' accept_frame_def)
    show ?thesis
    proof (cases "ts_pending ts' = ts_pending ts")
      case False
      then obtain p where p: "map_of (ts_pending ts) req' = Some p"
          "\<not> (pr_permit p = None \<and> basis \<noteq> ''device_ack'')" "pr_device_id p = device"
          "\<not> (result = Completed_result \<and> \<not> pr_completion_allowed p)"
          "ts_pending ts' = dict_put req' (p\<lparr>pr_error_code := code, pr_future := Some (result = Completed_result)\<rparr>) (ts_pending ts)"
        unfolding s by (simp add: accept_receipt_def map_pending_def split: option.splits if_splits)
      then show ?thesis using In_receipt by (auto simp: answered_by_def)
    qed simp
  qed (auto simp: ts' accept_frame_def speaking_parts press_parts release_parts transcript_parts)
qed

lemma team_step_session:
  assumes "team_step cfg ports r r'"
  shows "run_session r' = run_session r \<or> scene_step cfg ports (run_session r) (run_session r')"
  using assms
proof cases
  case (Frame f res ts)
  then show ?thesis using accept_frame_session [OF Frame(2,3)] by (auto simp: run_session_def)
next
  case (Stop_asked who ep m req u ts)
  then show ?thesis
    by (auto simp: run_session_def stop_request_def Let_def split: sum.splits prod.splits dest!: emit_frame_fields)
next
  case (Written ts)
  then show ?thesis using write_next_session by (simp add: run_session_def)
next
  case (Presented m p res ts w)
  then show ?thesis
    by (auto simp: run_session_def present_start_def present_event_def present_end_def
        split: if_splits option.splits dest!: emit_reply_fields)
next
  case (Round_done cap)
  then show ?thesis
    by (auto simp: run_session_def round_done_def Let_def split: prod.splits sum.splits dest!: emit_frame_fields)
next
  case Closing
  then show ?thesis by (simp add: run_session_def close_begin_def scene_step.closed)
qed (auto simp: put_session_def run_session_def present_open_def present_finally_def close_end_def cancel_transcript_def
      disconnect_stream_def take_answer_step)

lemma team_scene_reachable:
  assumes "team_reachable cfg ports r"
  shows "scene_reachable cfg ports (run_session r)"
  using assms
proof induction
  case (prepared s0)
  have "s0 = initial_scene cfg" using opened(1) [OF prepared] .
  then show ?case using prepared scene_steps.stay unfolding scene_reachable_def
    by (fastforce simp: new_run_def run_session_def new_stream_def)
next
  case (moved r r')
  then show ?case using team_step_session [OF moved(2)] unfolding scene_reachable_def
    by (metis scene_steps.go)
qed


section \<open>A confirmation is an acknowledgement of the device\<close>

definition stop_asked :: "team_run \<Rightarrow> string \<Rightarrow> string \<Rightarrow> nat \<Rightarrow> bool" where
  "stop_asked r req dev ep \<longleftrightarrow> (\<exists>cap. F_stop req dev ep cap \<in> set (tr_asked r))"

definition device_acked :: "team_run \<Rightarrow> string \<Rightarrow> string \<Rightarrow> bool" where
  "device_acked r req dev \<longleftrightarrow> (\<exists>code. In_receipt req dev Completed_result ''device_ack'' code \<in> set (tr_seen r))"

definition stop_ok :: "team_run \<Rightarrow> string \<times> stopper \<times> nat \<times> team_member \<Rightarrow> bool" where
  "stop_ok r x \<longleftrightarrow>
     (case x of (req, who, ep, m) \<Rightarrow>
        stop_asked r req (mb_device_id m) ep
        \<and> (\<forall>p. map_of (ts_pending (tr_stream r)) req = Some p \<longrightarrow>
              pr_permit p = None \<and> pr_device_id p = mb_device_id m
              \<and> (pr_future p = Some True \<longrightarrow> device_acked r req (mb_device_id m))))"

definition confirmed_ok :: "team_run \<Rightarrow> bool" where
  "confirmed_ok r \<longleftrightarrow>
     (\<forall>e' dev e. (e', Ev_stopped dev e) \<in> set (sn_audit (run_session r))
        \<longrightarrow> (\<exists>req. stop_asked r req dev e \<and> device_acked r req dev))"

definition team_inv :: "team_run \<Rightarrow> bool" where
  "team_inv r \<longleftrightarrow> (\<forall>x \<in> set (tr_stops r). stop_ok r x) \<and> confirmed_ok r"

lemma confirmations_set:
  "(e', Ev_stopped dev e) \<in> set (confirmations s) \<longleftrightarrow> (e', Ev_stopped dev e) \<in> set (sn_audit s)"
  by (simp add: confirmations_def)

text \<open>A receipt that is waited for stays, is dropped, or is changed without being completed.\<close>

definition receipt_kept :: "team_run \<Rightarrow> team_run \<Rightarrow> string \<Rightarrow> bool" where
  "receipt_kept r r' req \<longleftrightarrow>
     map_of (ts_pending (tr_stream r')) req = None
     \<or> (\<exists>p p'. map_of (ts_pending (tr_stream r)) req = Some p \<and> map_of (ts_pending (tr_stream r')) req = Some p'
            \<and> pr_permit p' = pr_permit p \<and> pr_device_id p' = pr_device_id p
            \<and> (pr_future p' = Some True \<longrightarrow> pr_future p = Some True))"

lemma receipt_same: "map_of (ts_pending (tr_stream r')) req = map_of (ts_pending (tr_stream r)) req \<Longrightarrow> receipt_kept r r' req"
  by (cases "map_of (ts_pending (tr_stream r)) req") (auto simp: receipt_kept_def)

lemma team_inv_keeps:
  assumes inv: "team_inv r" and logs: "set (tr_asked r) \<subseteq> set (tr_asked r')" "set (tr_seen r) \<subseteq> set (tr_seen r')"
    and stops: "set (tr_stops r') \<subseteq> set (tr_stops r)" and kept: "\<And>req. req \<in> fst ` set (tr_stops r') \<Longrightarrow> receipt_kept r r' req"
    and conf: "confirmations (run_session r') = confirmations (run_session r)"
  shows "team_inv r'"
proof -
  have a: "stop_asked r req dev ep \<Longrightarrow> stop_asked r' req dev ep" for req dev ep
    using logs(1) unfolding stop_asked_def by blast
  have b: "device_acked r req dev \<Longrightarrow> device_acked r' req dev" for req dev
    using logs(2) unfolding device_acked_def by blast
  have "stop_ok r' x" if "x \<in> set (tr_stops r')" for x
  proof -
    obtain req who ep m where x: "x = (req, who, ep, m)" by (cases x) auto
    have old: "stop_ok r x" using inv stops that unfolding team_inv_def by blast
    have k: "receipt_kept r r' req" using kept that x by force
    show ?thesis using old k a b unfolding x stop_ok_def receipt_kept_def by fastforce
  qed
  moreover have "confirmed_ok r'"
    using inv conf a b unfolding team_inv_def confirmed_ok_def
    by (metis confirmations_set)
  ultimately show ?thesis by (simp add: team_inv_def)
qed

lemma stop_request_pending:
  assumes "stop_request req m ep ts = (res, ts')"
  shows "ts_session ts' = ts_session ts
    \<and> (res = Inr u \<longrightarrow> ts_pending ts' = dict_put req \<lparr>pr_device_id = mb_device_id m, pr_future = None, pr_permit = None,
          pr_completion_allowed = True, pr_error_code = []\<rparr> (ts_pending ts))
    \<and> (map_of (ts_pending ts) req = None \<longrightarrow> (\<exists>e. res = Inl e) \<longrightarrow> map_of (ts_pending ts') = map_of (ts_pending ts))"
proof -
  let ?p = "\<lparr>pr_device_id = mb_device_id m, pr_future = None, pr_permit = None, pr_completion_allowed = True, pr_error_code = []\<rparr>"
  let ?f = "F_stop req (mb_device_id m) ep (map_of (ts_capture_epochs (ts\<lparr>ts_pending := dict_put req ?p (ts_pending ts)\<rparr>)) ep)"
  obtain res1 ts1 where e: "emit_frame ?f None True False (ts\<lparr>ts_pending := dict_put req ?p (ts_pending ts)\<rparr>) = (res1, ts1)"
    by fastforce
  note f = emit_frame_fields [OF this]
  have r: "(res, ts') = (case res1 of Inl e \<Rightarrow> (Inl e, ts1\<lparr>ts_pending := dict_del req (ts_pending ts1)\<rparr>) | Inr u \<Rightarrow> (Inr u, ts1))"
    using assms e by (simp add: stop_request_def Let_def)
  have m: "map_of (dict_del req (dict_put req ?p (ts_pending ts))) = map_of (ts_pending ts)"
    if "map_of (ts_pending ts) req = None" using that by (auto simp: fun_eq_iff delete_conv' update_conv')
  show ?thesis using f r m by (cases res1) auto
qed

lemma stop_result_fields:
  assumes "stop_result req ts = Some (res, ts')"
  shows "ts_session ts' = ts_session ts \<and> ts_pending ts' = dict_del req (ts_pending ts)
    \<and> (\<forall>u. res = Inr u \<longrightarrow> (\<exists>p. map_of (ts_pending ts) req = Some p \<and> pr_future p = Some True))"
  using assms by (auto simp: stop_result_def Let_def split: option.splits if_splits)

lemma team_inv_step:
  assumes step: "team_step cfg ports r r'" and inv: "team_inv r"
  shows "team_inv r'"
  using step
proof cases
  case (Frame f res ts)
  have conf: "confirmations (run_session r') = confirmations (run_session r)"
    using accept_frame_session [OF Frame(2,3), where ports = ports] by (auto simp: Frame(1) run_session_def)
  have log: "stop_asked r' = stop_asked r" "device_acked r req dev \<Longrightarrow> device_acked r' req dev" for req dev
    by (auto simp: Frame(1) stop_asked_def device_acked_def fun_eq_iff)
  have "stop_ok r' x" if x: "x \<in> set (tr_stops r')" for x
  proof -
    obtain req who ep m where x': "x = (req, who, ep, m)" by (cases x) auto
    have old: "stop_ok r (req, who, ep, m)" using inv x by (simp add: x' Frame(1) team_inv_def)
    show ?thesis
    proof (cases "map_of (ts_pending ts) req = map_of (ts_pending (tr_stream r)) req")
      case True
      then show ?thesis using old log by (auto simp: x' stop_ok_def Frame(1))
    next
      case False
      then obtain p p' where p: "map_of (ts_pending (tr_stream r)) req = Some p" "map_of (ts_pending ts) req = Some p'"
        "answered_by f req p p'" using accept_frame_pending [OF Frame(2), of req] by blast
      have "pr_permit p = None" "pr_device_id p = mb_device_id m" using old p(1) by (simp_all add: stop_ok_def)
      then have "pr_permit p' = None \<and> pr_device_id p' = mb_device_id m
          \<and> (pr_future p' = Some True \<longrightarrow> device_acked r' req (mb_device_id m))"
        using p(3) by (auto simp: answered_by_def device_acked_def Frame(1))
      then show ?thesis using old log(1) p(2) by (simp add: x' stop_ok_def Frame(1))
    qed
  qed
  moreover have "confirmed_ok r'"
    using inv conf log unfolding team_inv_def confirmed_ok_def by (metis confirmations_set)
  ultimately show ?thesis by (simp add: team_inv_def)
next
  case (Stop_asked who ep m req u ts)
  have s: "ts_session ts = ts_session (tr_stream r)"
    "ts_pending ts = dict_put req \<lparr>pr_device_id = mb_device_id m, pr_future = None, pr_permit = None,
          pr_completion_allowed = True, pr_error_code = []\<rparr> (ts_pending (tr_stream r))"
    using stop_request_pending [OF Stop_asked(5)] by auto
  have "team_inv (r\<lparr>tr_stream := ts, tr_asked := tr_asked r'\<rparr>)"
  proof (rule team_inv_keeps [OF inv])
    show "receipt_kept r (r\<lparr>tr_stream := ts, tr_asked := tr_asked r'\<rparr>) req'"
      if "req' \<in> fst ` set (tr_stops (r\<lparr>tr_stream := ts, tr_asked := tr_asked r'\<rparr>))" for req'
      using that Stop_asked(4) by (intro receipt_same) (auto simp: s(2))
  qed (auto simp: Stop_asked(1) run_session_def s(1))
  moreover have "stop_ok r' (req, who, ep, m)"
    by (auto simp: stop_ok_def Stop_asked(1) stop_asked_def s(2))
  ultimately show ?thesis
    by (auto simp: team_inv_def Stop_asked(1) stop_ok_def confirmed_ok_def stop_asked_def device_acked_def run_session_def)
next
  case (Stop_unsent who ep m req e ts)
  note s = stop_request_pending [OF Stop_unsent(4)]
  show ?thesis unfolding Stop_unsent(1)
    by (rule team_inv_keeps [OF inv])
       (use s Stop_unsent(2,3) confirmations_take in \<open>auto intro!: receipt_same simp: put_session_def run_session_def\<close>)
next
  case (Stop_returned req who ep m res ts)
  note s = stop_result_fields [OF Stop_returned(4)]
  let ?r = "r\<lparr>tr_stream := ts, tr_stops := dict_del req (tr_stops r)\<rparr>"
  have "team_inv ?r"
    by (rule team_inv_keeps [OF inv]) (use s in \<open>auto intro!: receipt_same simp: run_session_def set_dict_del\<close>)
  moreover have "confirmed_ok r'"
  proof (cases res)
    case (Inl e)
    then show ?thesis using inv confirmations_take [OF Stop_returned(3), of "Some e"]
      unfolding team_inv_def confirmed_ok_def confirmations_set [symmetric]
      by (simp add: Stop_returned(1) run_session_def put_session_def stop_asked_def device_acked_def)
  next
    case (Inr u)
    then obtain p where p: "map_of (ts_pending (tr_stream r)) req = Some p" "pr_future p = Some True" using s by blast
    have "stop_ok r (req, who, ep, m)" using inv map_of_SomeD [OF Stop_returned(2)] by (simp add: team_inv_def)
    then have "stop_asked r req (mb_device_id m) ep \<and> device_acked r req (mb_device_id m)"
      using p by (simp add: stop_ok_def)
    then show ?thesis using inv confirmations_take [OF Stop_returned(3), of None] Inr
      unfolding team_inv_def confirmed_ok_def confirmations_set [symmetric]
      by (auto simp: Stop_returned(1) run_session_def put_session_def stop_asked_def device_acked_def)
  qed
  ultimately show ?thesis
    by (auto simp: team_inv_def Stop_returned(1) stop_ok_def put_session_def stop_asked_def device_acked_def)
next
  case (Stop_timed_out req who ep m)
  show ?thesis unfolding Stop_timed_out(1)
    by (rule team_inv_keeps [OF inv])
       (use Stop_timed_out(3) confirmations_take in \<open>auto intro!: receipt_same simp: put_session_def
         run_session_def stop_finally_def set_dict_del\<close>)
next
  case (Session s)
  show ?thesis unfolding Session(1)
    by (rule team_inv_keeps [OF inv]) (use Session in \<open>auto intro!: receipt_same simp: put_session_def run_session_def\<close>)
next
  case (Written ts)
  have "receipt_kept r (r\<lparr>tr_stream := ts\<rparr>) req" for req
    using Written(2)
    by (cases "map_of (ts_pending (tr_stream r)) req"; elim write_next_cases)
       (auto simp: receipt_kept_def mark_written_fields)
  then show ?thesis unfolding Written(1)
    by (intro team_inv_keeps [OF inv]) (auto simp: run_session_def write_next_session [OF Written(2)])
next
  case (Opened p m)
  show ?thesis unfolding Opened(1)
    by (rule team_inv_keeps [OF inv]) (use Opened in \<open>auto intro!: receipt_same simp: present_open_def run_session_def image_iff\<close>)
next
  case (Presented m p res ts w)
  then have "ts_session ts = ts_session (tr_stream r) \<and> ts_pending ts = ts_pending (tr_stream r)"
    by (auto simp: present_start_def present_event_def present_end_def split: if_splits option.splits dest!: emit_reply_fields)
  then show ?thesis unfolding Presented(1)
    by (intro team_inv_keeps [OF inv]) (auto intro!: receipt_same simp: run_session_def)
next
  case (Left p)
  show ?thesis unfolding Left(1)
    by (rule team_inv_keeps [OF inv]) (use Left in \<open>auto intro!: receipt_same simp: present_finally_def run_session_def image_iff\<close>)
next
  case (Round_done cap)
  have "ts_session (round_done cap ts) = ts_session ts \<and> ts_pending (round_done cap ts) = ts_pending ts" for ts
    by (auto simp: round_done_def Let_def split: prod.splits sum.splits dest!: emit_frame_fields)
  then show ?thesis unfolding Round_done
    by (intro team_inv_keeps [OF inv]) (auto intro!: receipt_same simp: run_session_def)
next
  case Closing
  show ?thesis unfolding Closing
    by (rule team_inv_keeps [OF inv])
       (auto intro!: receipt_same simp: run_session_def close_begin_def close_scene_def confirmations_def)
next
  case Closed
  show ?thesis unfolding Closed
    by (rule team_inv_keeps [OF inv])
       (auto intro!: receipt_same simp: run_session_def close_end_def cancel_transcript_def)
next
  case Disconnected
  have "receipt_kept r (r\<lparr>tr_stream := disconnect_stream (tr_stream r)\<rparr>) req" for req
    by (cases "map_of (ts_pending (tr_stream r)) req")
       (auto simp: receipt_kept_def disconnect_stream_def map_of_states)
  then show ?thesis unfolding Disconnected
    by (intro team_inv_keeps [OF inv]) (auto simp: run_session_def disconnect_stream_def)
qed


lemma team_inv_reachable: "team_reachable cfg ports r \<Longrightarrow> team_inv r"
proof (induction rule: team_reachable.induct)
  case (prepared s0)
  show ?case by (simp add: team_inv_def confirmed_ok_def new_run_def new_stream_def run_session_def initial_scene_def)
qed (rule team_inv_step)


section \<open>A reply is complete only after its end was written\<close>

definition end_written :: "string \<Rightarrow> team_stream \<Rightarrow> bool" where
  "end_written req ts \<longleftrightarrow> (\<exists>t e d. F_reply_end req t e d \<in> set (ts_sent ts))"

definition receipts_ok :: "team_stream \<Rightarrow> bool" where
  "receipts_ok ts \<longleftrightarrow>
     (\<forall>req p. map_of (ts_pending ts) req = Some p \<longrightarrow> pr_permit p \<noteq> None
        \<longrightarrow> pr_completion_allowed p \<or> pr_future p = Some True \<longrightarrow> end_written req ts)"

lemma receipts_ok_keeps:
  assumes "receipts_ok ts" and "set (ts_sent ts) \<subseteq> set (ts_sent ts')"
    and "\<And>req p'. map_of (ts_pending ts') req = Some p' \<Longrightarrow> pr_permit p' \<noteq> None
      \<Longrightarrow> pr_completion_allowed p' \<or> pr_future p' = Some True
      \<Longrightarrow> end_written req ts' \<or> (\<exists>p. map_of (ts_pending ts) req = Some p \<and> pr_permit p \<noteq> None
             \<and> (pr_completion_allowed p \<or> pr_future p = Some True))"
  shows "receipts_ok ts'"
  using assms unfolding receipts_ok_def end_written_def by (meson subsetD)

lemma receipts_ok_same: "receipts_ok ts \<Longrightarrow> ts_pending ts' = ts_pending ts \<Longrightarrow> ts_sent ts' = ts_sent ts \<Longrightarrow> receipts_ok ts'"
  by (simp add: receipts_ok_def end_written_def)

lemma accept_frame_sent: "ts_sent (snd (accept_frame cfg f ts)) = ts_sent ts"
  by (cases f)
     (auto simp: accept_frame_def accept_receipt_def map_pending_def accept_speaking_def accept_press_def
        accept_release_def accept_transcript_def cancel_transcript_def emit_frame_def Let_def
        split: option.split prod.split sum.split transcript_future.split)

lemma emit_reply_sent: "emit_reply f p ts = Some (res, ts') \<Longrightarrow> ts_sent ts' = ts_sent ts"
  by (auto simp: emit_reply_def emit_frame_def Let_def split: if_splits)

lemma receipts_ok_written:
  assumes "write_next ts = Some ts'" and "receipts_ok ts"
  shows "receipts_ok ts'"
  using assms(1)
proof (cases rule: write_next_cases)
  case (dropped x)
  then show ?thesis using assms(2) by (simp add: receipts_ok_def end_written_def)
next
  case (sent x)
  show ?thesis
  proof (rule receipts_ok_keeps [OF assms(2)])
    show "set (ts_sent ts) \<subseteq> set (ts_sent ts')" by (auto simp: sent(3))
    fix req p'
    assume p': "map_of (ts_pending ts') req = Some p'" "pr_permit p' \<noteq> None"
      "pr_completion_allowed p' \<or> pr_future p' = Some True"
    show "end_written req ts' \<or> (\<exists>p. map_of (ts_pending ts) req = Some p \<and> pr_permit p \<noteq> None
             \<and> (pr_completion_allowed p \<or> pr_future p = Some True))"
    proof (cases "frame_request (qf_frame x) = Some req")
      case True
      then show ?thesis by (cases "qf_frame x") (auto simp: end_written_def sent(3))
    next
      case False
      then have "map_of (ts_pending ts) req = Some p'"
        using p'(1) by (simp add: sent(3) mark_written_fields)
      then show ?thesis using p' by blast
    qed
  qed
qed

lemma receipts_ok_step:
  assumes step: "team_step cfg ports r r'" and ok: "receipts_ok (tr_stream r)"
  shows "receipts_ok (tr_stream r')"
  using step
proof cases
  case (Frame f res ts)
  have "receipts_ok ts"
  proof (rule receipts_ok_keeps [OF ok])
    show "set (ts_sent (tr_stream r)) \<subseteq> set (ts_sent ts)"
      using accept_frame_sent [of cfg f "tr_stream r"] Frame(2) by simp
    fix req p' assume "map_of (ts_pending ts) req = Some p'" "pr_permit p' \<noteq> None"
      "pr_completion_allowed p' \<or> pr_future p' = Some True"
    then show "end_written req ts \<or> (\<exists>p. map_of (ts_pending (tr_stream r)) req = Some p \<and> pr_permit p \<noteq> None
             \<and> (pr_completion_allowed p \<or> pr_future p = Some True))"
      using accept_frame_pending [OF Frame(2), of req] unfolding answered_by_def
      by (elim disjE exE conjE) (simp, auto)
  qed
  then show ?thesis by (simp add: Frame(1))
next
  case (Written ts)
  then show ?thesis using receipts_ok_written ok by simp
next
  case (Presented m p res ts w)
  have "ts_pending ts = ts_pending (tr_stream r) \<and> ts_sent ts = ts_sent (tr_stream r)"
    using Presented(2) emit_reply_fields emit_reply_sent
    by (auto simp: present_start_def present_event_def present_end_def split: if_splits option.splits)
  then show ?thesis using receipts_ok_same [OF ok] by (simp add: Presented(1))
next
  case (Stop_asked who ep m req u ts)
  have "ts_sent ts = ts_sent (tr_stream r)"
    using Stop_asked(5) by (auto simp: stop_request_def emit_frame_def Let_def split: if_splits)
  then show ?thesis using stop_request_pending [OF Stop_asked(5)] ok
    by (auto simp: Stop_asked(1) receipts_ok_def end_written_def)
next
  case (Stop_unsent who ep m req e ts)
  have "ts_sent ts = ts_sent (tr_stream r)"
    using Stop_unsent(4) by (auto simp: stop_request_def emit_frame_def Let_def split: if_splits)
  then show ?thesis using stop_request_pending [OF Stop_unsent(4)] Stop_unsent(3) ok
    by (simp add: Stop_unsent(1) receipts_ok_def end_written_def put_session_def)
next
  case (Stop_returned req who ep m res ts)
  have "ts_sent ts = ts_sent (tr_stream r)"
    using Stop_returned(4) by (auto simp: stop_result_def Let_def split: option.splits if_splits)
  then show ?thesis using stop_result_fields [OF Stop_returned(4)] ok
    by (auto simp: Stop_returned(1) receipts_ok_def end_written_def put_session_def)
next
  case (Round_done cap)
  have "ts_pending (round_done cap ts) = ts_pending ts \<and> ts_sent (round_done cap ts) = ts_sent ts" for ts
    by (auto simp: round_done_def emit_frame_def Let_def)
  then show ?thesis using receipts_ok_same [OF ok] by (simp add: Round_done)
next
  case (Disconnected)
  then show ?thesis using ok
    by (auto simp: receipts_ok_def end_written_def disconnect_stream_def map_of_states split: if_splits)
qed (use ok in \<open>auto simp: receipts_ok_def end_written_def put_session_def stop_finally_def present_open_def
      present_finally_def close_begin_def close_end_def cancel_transcript_def\<close>)

lemma receipts_ok_reachable: "team_reachable cfg ports r \<Longrightarrow> receipts_ok (tr_stream r)"
proof (induction rule: team_reachable.induct)
  case (prepared s0)
  show ?case by (simp add: receipts_ok_def new_run_def new_stream_def)
qed (rule receipts_ok_step)

end
