(* ===== verification/Coord_Team_Props.thy ===== *)
theory Coord_Team_Props
  imports Coord_Team
begin

text \<open>The properties of the session together with its transport, and a run of both up to the first reply.\<close>

section \<open>A run\<close>

definition by_frame :: "inbound_frame \<Rightarrow> team_run \<Rightarrow> team_run" where
  "by_frame f r = r\<lparr>tr_stream := snd (accept_frame demo_scene f (tr_stream r)), tr_seen := tr_seen r @ [f]\<rparr>"

definition by_stop :: "string \<Rightarrow> team_member \<Rightarrow> team_run \<Rightarrow> team_run" where
  "by_stop req m r =
     r\<lparr>tr_stream := snd (stop_request req m 1 (tr_stream r)), tr_stops := (req, By_task 0, 1, m) # tr_stops r,
       tr_asked := tr_asked r @ [F_stop req (mb_device_id m) 1 (map_of (ts_capture_epochs (tr_stream r)) 1)]\<rparr>"

definition by_return :: "string \<Rightarrow> team_member \<Rightarrow> team_run \<Rightarrow> team_run" where
  "by_return req m r =
     put_session (take_answer (By_task 0) 1 m None (run_session r))
       (r\<lparr>tr_stream := stop_finally req (tr_stream r), tr_stops := dict_del req (tr_stops r)\<rparr>)"

definition team_pressed :: team_run where
  "team_pressed = by_frame (In_press ''cap1'') (new_run demo_scene)"

definition team_asked_ann :: team_run where
  "team_asked_ann = by_stop ''r1'' ann team_pressed"

definition team_asked :: team_run where
  "team_asked = by_stop ''r2'' bob team_asked_ann"

definition team_acked_ann :: team_run where
  "team_acked_ann = by_frame (In_receipt ''r1'' ''spk1'' Completed_result ''device_ack'' []) team_asked"

definition team_acked :: team_run where
  "team_acked = by_frame (In_receipt ''r2'' ''spk2'' Completed_result ''device_ack'' []) team_acked_ann"

definition team_ann_silent :: team_run where
  "team_ann_silent = by_return ''r1'' ann team_acked"

definition team_silent :: team_run where
  "team_silent = by_return ''r2'' bob team_ann_silent"

definition team_released :: team_run where
  "team_released = by_frame (In_release ''cap1'') team_silent"

definition team_begun :: team_run where
  "team_begun = put_session (set_task 1 (Round_task 1 ''cap1'' (At_transcribe [])) (run_session team_released)) team_released"

definition team_deciding :: team_run where
  "team_deciding = put_session (settle_round demo_scene 1 1 ''cap1''
     (on_text demo_scene demo_ports 1 ''cap1'' [] (utext_of ''hello'') (run_session team_begun))) team_begun"

definition team_talking :: team_run where
  "team_talking = put_session (settle_round demo_scene 1 1 ''cap1''
     (on_decision demo_scene demo_ports 1 hello hello 2 (first_request (run_session team_deciding)) speak_ann
        (run_session team_deciding))) team_deciding"

lemma by_frame_step:
  assumes "\<And>turn device. f \<noteq> In_speaking turn device"
  shows "team_step demo_scene demo_ports r (by_frame f r)"
  unfolding by_frame_def by (rule Frame [OF surjective_pairing]) (simp add: reply_awaited_def assms)

lemma by_stop_step:
  assumes "waits_for (By_task 0) 1 m (run_session r)" and "map_of (ts_pending (tr_stream r)) req = None"
    and "req \<notin> set (map fst (tr_stops r))" and "fst (stop_request req m 1 (tr_stream r)) = Inr ()"
  shows "team_step demo_scene demo_ports r (by_stop req m r)"
  unfolding by_stop_def
  by (rule Stop_asked [OF assms(1,2)]) (use assms(3,4) in \<open>auto simp: prod_eq_iff\<close>)

lemma by_return_step:
  assumes "map_of (tr_stops r) req = Some (By_task 0, 1, m)" and "waits_for (By_task 0) 1 m (run_session r)"
    and "map_option pr_future (map_of (ts_pending (tr_stream r)) req) = Some (Some True)"
  shows "team_step demo_scene demo_ports r (by_return req m r)"
proof -
  obtain p where p: "map_of (ts_pending (tr_stream r)) req = Some p" "pr_future p = Some True" using assms(3) by auto
  have "stop_result req (tr_stream r) = Some (Inr (), stop_finally req (tr_stream r))"
    by (simp add: stop_result_def p stop_finally_def Let_def)
  from Stop_returned [OF assms(1,2) this, of demo_scene demo_ports] show ?thesis by (simp add: by_return_def)
qed

lemma waiting:
  assumes "sn_tasks s 0 = Some (Stop_task 1 P)" and "m \<in> set P"
  shows "waits_for (By_task 0) 1 m s"
  using assms by simp

lemma team_tasks:
  "sn_tasks (run_session team_pressed) 0 = Some (Stop_task 1 [ann, bob])"
  "sn_tasks (run_session team_asked_ann) 0 = Some (Stop_task 1 [ann, bob])"
  "sn_tasks (run_session team_acked) 0 = Some (Stop_task 1 [ann, bob])"
  "sn_tasks (run_session team_ann_silent) 0 = Some (Stop_task 1 [bob])"
  "sn_tasks (run_session team_released) 1 = Some (Round_task 1 ''cap1'' (At_begin []))"
  "sn_tasks (run_session team_begun) 1 = Some (Round_task 1 ''cap1'' (At_transcribe []))"
  "sn_tasks (run_session team_deciding) 1
     = Some (Round_task 1 ''cap1'' (At_decide hello hello 2 (first_request (run_session team_deciding))))"
  by code_simp+

lemma team_facts:
  "map_of (ts_pending (tr_stream team_pressed)) ''r1'' = None" "''r1'' \<notin> set (map fst (tr_stops team_pressed))"
  "fst (stop_request ''r1'' ann 1 (tr_stream team_pressed)) = Inr ()"
  "map_of (ts_pending (tr_stream team_asked_ann)) ''r2'' = None" "''r2'' \<notin> set (map fst (tr_stops team_asked_ann))"
  "fst (stop_request ''r2'' bob 1 (tr_stream team_asked_ann)) = Inr ()"
  "map_of (tr_stops team_acked) ''r1'' = Some (By_task 0, 1, ann)"
  "map_option pr_future (map_of (ts_pending (tr_stream team_acked)) ''r1'') = Some (Some True)"
  "map_of (tr_stops team_ann_silent) ''r2'' = Some (By_task 0, 1, bob)"
  "map_option pr_future (map_of (ts_pending (tr_stream team_ann_silent)) ''r2'') = Some (Some True)"
  "1 \<notin> set (sn_cancelled (run_session team_released))"
  "confirmations (run_session team_begun) = confirmations (run_session team_released)"
  "confirmations (run_session team_deciding) = confirmations (run_session team_begun)"
  "confirmations (run_session team_talking) = confirmations (run_session team_deciding)"
  by code_simp+

lemma run_session_put: "run_session (put_session s r) = s"
  by (simp add: run_session_def put_session_def)

lemma team_talking_reachable:
  "team_reachable demo_scene demo_ports team_silent" "team_reachable demo_scene demo_ports team_talking"
proof -
  note go = team_reachable.moved [where cfg = demo_scene and ports = demo_ports]
  have "team_reachable demo_scene demo_ports team_pressed"
    unfolding team_pressed_def by (rule go [OF team_reachable.prepared [OF run_opens] by_frame_step]) simp
  from go [OF this by_stop_step [OF waiting [OF team_tasks(1)] team_facts(1-3)]]
  have "team_reachable demo_scene demo_ports team_asked_ann" unfolding team_asked_ann_def by simp
  from go [OF this by_stop_step [OF waiting [OF team_tasks(2)] team_facts(4-6)]]
  have asked: "team_reachable demo_scene demo_ports team_asked" unfolding team_asked_def by simp
  have "team_reachable demo_scene demo_ports team_acked_ann"
    unfolding team_acked_ann_def by (rule go [OF asked by_frame_step]) simp
  then have "team_reachable demo_scene demo_ports team_acked"
    unfolding team_acked_def by (rule go [OF _ by_frame_step]) simp
  from go [OF this by_return_step [OF team_facts(7) waiting [OF team_tasks(3)] team_facts(8)]]
  have "team_reachable demo_scene demo_ports team_ann_silent" unfolding team_ann_silent_def by simp
  from go [OF this by_return_step [OF team_facts(9) waiting [OF team_tasks(4)] team_facts(10)]]
  show silent: "team_reachable demo_scene demo_ports team_silent" unfolding team_silent_def by simp
  have released: "team_reachable demo_scene demo_ports team_released"
    unfolding team_released_def by (rule go [OF silent by_frame_step]) simp
  have begun: "team_reachable demo_scene demo_ports team_begun" unfolding team_begun_def
    by (rule go [OF released Session [OF round_begun [OF team_tasks(5) team_facts(11)]]])
       (use team_facts(12) in \<open>simp add: team_begun_def run_session_put\<close>)
  have deciding: "team_reachable demo_scene demo_ports team_deciding" unfolding team_deciding_def
    by (rule go [OF begun Session [OF round_answered [OF team_tasks(6), where answer = "Got_text (utext_of ''hello'')"]]])
       (use team_facts(13) in \<open>simp_all add: team_deciding_def run_session_put\<close>)
  show "team_reachable demo_scene demo_ports team_talking" unfolding team_talking_def
    by (rule go [OF deciding Session [OF round_answered [OF team_tasks(7), where answer = "Got_decision speak_ann"]]])
       (use team_facts(14) in \<open>simp_all add: team_talking_def run_session_put\<close>)
qed


section \<open>Properties\<close>

text \<open>
  C10. Speech needs the devices: before a reply is started in an epoch, every member's device was asked
  to stop with that epoch, and the client has delivered that device's own acknowledgement of that
  request. No other receipt, from another device or without an acknowledgement, can stand in for it.
\<close>

theorem speech_needs_device_acks:
  assumes "team_reachable cfg ports r"
    and "sn_audit (run_session r) = us @ (e, Ev_reply_started d c dev t) # vs" and "m \<in> set (sc_members cfg)"
  shows "\<exists>req cap code. F_stop req (mb_device_id m) e cap \<in> set (tr_asked r)
    \<and> In_receipt req (mb_device_id m) Completed_result ''device_ack'' code \<in> set (tr_seen r)"
proof -
  have "started_after_silence cfg (keys (run_session r))"
    by (rule silence_reachable [OF team_scene_reachable [OF assms(1)]])
  moreover have "keys (run_session r) = filter (is_key \<circ> snd) us @ (e, Ev_reply_started d c dev t) # filter (is_key \<circ> snd) vs"
    unfolding keys_def by (rule filter_split [OF assms(2)]) simp
  ultimately obtain e' where "(e', Ev_stopped (mb_device_id m) e) \<in> set (filter (is_key \<circ> snd) us)"
    using assms(3) unfolding started_after_silence_def by blast
  then have "(e', Ev_stopped (mb_device_id m) e) \<in> set (sn_audit (run_session r))" by (simp add: assms(2))
  then show ?thesis
    using team_inv_reachable [OF assms(1)] unfolding team_inv_def confirmed_ok_def stop_asked_def device_acked_def by blast
qed

theorem speech_needs_device_acks_witness:
  "\<exists>req cap code. F_stop req ''spk2'' 1 cap \<in> set (tr_asked team_talking)
    \<and> In_receipt req ''spk2'' Completed_result ''device_ack'' code \<in> set (tr_seen team_talking)"
proof -
  have "sn_audit (run_session team_talking) = butlast (sn_audit (run_session team_talking))
      @ (1, Ev_reply_started ''id0'' ''ann'' ''spk1'' ''id1'') # []"
    by code_simp
  from speech_needs_device_acks [OF team_talking_reachable(2) this, of bob] show ?thesis
    by (simp add: demo_scene_def bob_def)
qed

text \<open>
  C30. The writer: one turn of it takes one frame off the queue, and the frame is sent only while its
  permit is current; a revoked frame is dropped.
\<close>

theorem revoked_frames_are_dropped:
  assumes "write_next ts = Some ts'"
  shows "\<exists>x \<in> set (ts_outbound ts). ts_outbound ts' = remove1 x (ts_outbound ts)
    \<and> (ts_sent ts' = ts_sent ts
       \<or> ts_sent ts' = ts_sent ts @ [qf_frame x] \<and> (\<forall>p. qf_permit x = Some p \<longrightarrow> permit_current p (ts_session ts)))"
proof -
  have "ts_outbound (mark_written f ts0) = ts_outbound ts0" for f ts0
    by (simp add: mark_written_def map_pending_def split: option.split)
  then show ?thesis using assms by (elim write_next_cases) (force simp: take_frame_def)+
qed

definition queue_revoked :: team_stream where
  "queue_revoked = (new_stream run_interrupted)\<lparr>ts_outbound :=
     [\<lparr>qf_priority = 1, qf_sequence = 1, qf_permit = Some first_permit,
       qf_frame = F_reply_delta ''id1'' ''id1'' 1 ''spk1'' [], qf_slot = True\<rparr>]\<rparr>"

theorem revoked_frames_are_dropped_witness:
  "\<exists>ts'. write_next queue_revoked = Some ts' \<and> ts_sent ts' = []"
proof -
  have n: "write_next queue_revoked \<noteq> None" and r: "\<not> permit_current first_permit run_interrupted"
    and o: "map qf_permit (ts_outbound queue_revoked) = [Some first_permit]" and e: "ts_sent queue_revoked = []"
    and s: "ts_session queue_revoked = run_interrupted"
    by (code_simp, code_simp, code_simp, code_simp, simp add: queue_revoked_def new_stream_def)
  obtain ts' where ts': "write_next queue_revoked = Some ts'" using n by blast
  have "\<forall>x \<in> set (ts_outbound queue_revoked). qf_permit x = Some first_permit" using o by auto
  then have "ts_sent ts' = []" using revoked_frames_are_dropped [OF ts'] r e s by auto
  then show ?thesis using ts' by blast
qed

text \<open>
  C14. A reply that was played: when \<open>present\<close> is told that its reply completed, the frame that ends the
  reply was written before; a completion that comes earlier is refused.
\<close>

theorem completion_follows_reply_end:
  assumes "team_reachable cfg ports r" and "map_of (ts_pending (tr_stream r)) (pt_turn_id p) = Some pending"
    and "pr_permit pending \<noteq> None" and "present_result p (tr_stream r) = Some (Inr True, ts)"
  shows "\<exists>t e d. F_reply_end (pt_turn_id p) t e d \<in> set (ts_sent (tr_stream r))"
proof -
  have "pr_future pending = Some True"
    using assms(2,4) by (simp add: present_result_def split: option.splits if_splits)
  then show ?thesis
    using receipts_ok_reachable [OF assms(1)] assms(2,3) unfolding receipts_ok_def end_written_def by blast
qed


definition team_opened :: team_run where
  "team_opened = team_talking\<lparr>tr_stream := present_open ann first_permit (tr_stream team_talking)\<rparr>"

definition by_present :: "(team_stream \<Rightarrow> unit streamed option) \<Rightarrow> team_run \<Rightarrow> team_run" where
  "by_present f r = r\<lparr>tr_stream := (case f (tr_stream r) of Some (res, ts) \<Rightarrow> ts | None \<Rightarrow> tr_stream r)\<rparr>"

definition by_write :: "team_run \<Rightarrow> team_run" where
  "by_write r = r\<lparr>tr_stream := (case write_next (tr_stream r) of Some ts \<Rightarrow> ts | None \<Rightarrow> tr_stream r)\<rparr>"

definition team_ended :: team_run where
  "team_ended = by_present (present_end ann first_permit) (by_present (present_start ann first_permit) team_opened)"

definition team_written :: team_run where
  "team_written = (by_write ^^ 5) team_ended"

definition team_played :: team_run where
  "team_played = by_frame (In_receipt ''id1'' ''spk1'' Completed_result ''playback'' []) team_written"

definition played_receipt :: pending_receipt where
  "played_receipt = \<lparr>pr_device_id = ''spk1'', pr_future = Some True, pr_permit = Some first_permit,
     pr_completion_allowed = True, pr_error_code = []\<rparr>"

lemma by_write_reachable:
  assumes "team_reachable demo_scene demo_ports r"
  shows "team_reachable demo_scene demo_ports (by_write r)"
proof (cases "write_next (tr_stream r)")
  case (Some ts)
  then show ?thesis using team_reachable.moved [OF assms Written] by (simp add: by_write_def)
qed (use assms in \<open>simp add: by_write_def\<close>)

lemma by_present_reachable:
  assumes "team_reachable demo_scene demo_ports r" and "f = present_start m p \<or> f = present_end m p"
  shows "team_reachable demo_scene demo_ports (by_present f r)"
proof (cases "f (tr_stream r)")
  case (Some x)
  obtain res ts where x: "x = (res, ts)" by fastforce
  have "team_step demo_scene demo_ports r (r\<lparr>tr_stream := ts\<rparr>)"
    using assms(2) Some x by (intro Presented [of m p _ res ts "None"]) auto
  then show ?thesis using team_reachable.moved [OF assms(1)] by (simp add: by_present_def Some x)
qed (use assms in \<open>simp add: by_present_def\<close>)

lemma team_played_reachable: "team_reachable demo_scene demo_ports team_played"
proof -
  have "map_of (ts_pending (tr_stream team_talking)) (pt_turn_id first_permit) = None"
    and "pt_turn_id first_permit \<notin> set (map fst (tr_stops team_talking))" by code_simp+
  then have "team_reachable demo_scene demo_ports team_opened"
    unfolding team_opened_def by (intro team_reachable.moved [OF team_talking_reachable(2) Opened]) auto
  then have "team_reachable demo_scene demo_ports team_ended"
    unfolding team_ended_def by (blast intro: by_present_reachable)
  then have "team_reachable demo_scene demo_ports team_written"
    unfolding team_written_def by (simp add: eval_nat_numeral by_write_reachable)
  then show ?thesis unfolding team_played_def by (rule team_reachable.moved [OF _ by_frame_step]) simp
qed

theorem completion_follows_reply_end_witness:
  "\<exists>t e d. F_reply_end ''id1'' t e d \<in> set (ts_sent (tr_stream team_played))"
proof -
  have p: "map_of (ts_pending (tr_stream team_played)) (pt_turn_id first_permit) = Some played_receipt" by code_simp
  have "present_result first_permit (tr_stream team_played) = Some (Inr True, tr_stream team_played)"
    by (simp only: present_result_def p option.case) (simp add: played_receipt_def)
  from completion_follows_reply_end [OF team_played_reachable p _ this] show ?thesis
    by (simp add: played_receipt_def first_permit_def)
qed

text \<open>
  The transcript of a capture: it is taken only after the input was released, and once it is taken
  no frame changes it while the capture is current.
\<close>

theorem transcript_is_final:
  assumes "accept_frame cfg f ts = (res, ts')" and "ts_capture ts' = ts_capture ts"
  shows "(ts_transcript ts = Some (Tr_text w) \<longrightarrow> ts_transcript ts' = Some (Tr_text w))
    \<and> (ts_transcript ts' = Some (Tr_text w) \<longrightarrow> ts_transcript ts = Some (Tr_text w) \<or> ts_released ts)"
proof -
  have ts': "ts' = snd (accept_frame cfg f ts)" using assms(1) by simp
  show ?thesis
  proof (cases f)
    case (In_receipt req d rs b c)
    then show ?thesis
      by (simp add: ts' accept_frame_def accept_receipt_def map_pending_def split: option.split)
  next
    case (In_speaking turn d)
    then show ?thesis
      by (simp add: ts' accept_frame_def accept_speaking_def case_prod_unfold split: option.split)
  next
    case (In_press cap)
    have "ts_transcript ts' = ts_transcript ts"
      using assms(2) unfolding ts' In_press accept_frame_def
      by (auto simp: accept_press_def emit_frame_def cancel_transcript_def Let_def split: prod.splits sum.splits if_splits)
    then show ?thesis by simp
  next
    case (In_release cap)
    then show ?thesis by (simp add: ts' accept_frame_def accept_release_def split: prod.split sum.split)
  next
    case (In_transcript cap v)
    then show ?thesis
      by (simp add: ts' accept_frame_def accept_transcript_def split: option.split transcript_future.split)
  qed (simp add: ts' accept_frame_def)
qed

theorem transcript_is_final_witness:
  "ts_transcript (snd (accept_frame demo_scene (In_transcript ''cap1'' (utext_of ''bye''))
     ((tr_stream team_released)\<lparr>ts_transcript := Some (Tr_text (utext_of ''hi''))\<rparr>))) = Some (Tr_text (utext_of ''hi''))"
proof -
  let ?ts = "(tr_stream team_released)\<lparr>ts_transcript := Some (Tr_text (utext_of ''hi''))\<rparr>"
  let ?f = "In_transcript ''cap1'' (utext_of ''bye'')"
  have "ts_capture (snd (accept_frame demo_scene ?f ?ts)) = ts_capture ?ts"
    by (simp add: accept_frame_def accept_transcript_def)
  from transcript_is_final [OF surjective_pairing this, of "utext_of ''hi''"] show ?thesis by simp
qed

end
