(* ===== verification/Context_Budget.thy ===== *)
theory Context_Budget
  imports Py_Text Core_Types "HOL-Library.Multiset" "HOL-Library.Sublist"
begin

text \<open>
  The budget of the prompt, \<open>domain/context/types.py\<close>: the kinds of segments, the order they are
  assembled in, and \<open>ContextBudget.prune\<close>. The code tells segments apart by object identity; here a
  segment is its position in the list.
\<close>

section \<open>Segments\<close>

datatype segment_kind =
    PERSONA | HARNESS_POLICY | RESPONSE_POLICY | PERSONA_STATE | REALTIME | MEMORY_SEGMENT | COMMITMENT
  | SUMMARY | HISTORY_SEGMENT | COORDINATION | CURRENT_USER

datatype volatility = Stable | Append_only | Volatile | Current

fun segment_volatility :: "segment_kind \<Rightarrow> volatility" where
  "segment_volatility PERSONA = Stable"
| "segment_volatility HARNESS_POLICY = Stable"
| "segment_volatility HISTORY_SEGMENT = Append_only"
| "segment_volatility CURRENT_USER = Current"
| "segment_volatility k = Volatile"

fun volatility_value :: "volatility \<Rightarrow> string" where
  "volatility_value Stable = ''stable''"
| "volatility_value Append_only = ''append_only''"
| "volatility_value Volatile = ''volatile''"
| "volatility_value Current = ''current''"

definition segment_order :: "volatility list" where
  "segment_order = [Stable, Append_only, Volatile, Current]"

fun index_of :: "'a \<Rightarrow> 'a list \<Rightarrow> nat" where
  "index_of x [] = 0"
| "index_of x (y # ys) = (if x = y then 0 else 1 + index_of x ys)"

definition volatility_rank :: "segment_kind \<Rightarrow> nat" where
  "volatility_rank k = index_of (segment_volatility k) segment_order"

record context_segment =
  sg_kind :: segment_kind
  sg_source :: string
  sg_tokens :: int
  sg_priority :: int
  sg_droppable :: bool
  sg_metadata :: "(string \<times> json) list"

record dropped_segment =
  ds_kind :: segment_kind
  ds_source :: string
  ds_tokens :: int
  ds_reason :: string

record context_ledger =
  cl_kept :: "context_segment list"
  cl_dropped :: "dropped_segment list"
  cl_degraded :: "string list"
  cl_overflow :: int

definition total_tokens :: "context_segment list \<Rightarrow> int" where
  "total_tokens segs = sum_list (map sg_tokens segs)"

definition mark_degraded :: "string \<Rightarrow> context_ledger \<Rightarrow> context_ledger" where
  "mark_degraded source l = (if source \<in> set (cl_degraded l) then l else l\<lparr>cl_degraded := cl_degraded l @ [source]\<rparr>)"


section \<open>Pruning\<close>

definition protected :: "context_segment \<Rightarrow> bool" where
  "protected s = (sg_kind s \<in> {PERSONA, HARNESS_POLICY, CURRENT_USER} \<or> \<not> sg_droppable s)"

definition dropped_of :: "context_segment \<Rightarrow> dropped_segment" where
  "dropped_of s =
     \<lparr>ds_kind = sg_kind s, ds_source = sg_source s, ds_tokens = sg_tokens s, ds_reason = ''token_budget_exceeded''\<rparr>"

text \<open>The optional segments in the order of \<open>(-priority, idx)\<close>, admitted while they fit.\<close>

fun admit_optional ::
  "int \<Rightarrow> (nat \<times> context_segment) list \<Rightarrow> int \<Rightarrow> nat list \<Rightarrow> (nat \<times> context_segment) list
     \<Rightarrow> int \<times> nat list \<times> (nat \<times> context_segment) list" where
  "admit_optional max_tokens [] used kept dropped = (used, kept, dropped)"
| "admit_optional max_tokens ((i, s) # rest) used kept dropped =
     (if used + sg_tokens s \<le> max_tokens
      then admit_optional max_tokens rest (used + sg_tokens s) (kept @ [i]) dropped
      else admit_optional max_tokens rest used kept (dropped @ [(i, s)]))"

definition by_priority :: "context_segment list \<Rightarrow> (nat \<times> context_segment) list" where
  "by_priority segs = sort_key (\<lambda>(i, s). - sg_priority s) (filter (\<lambda>(i, s). \<not> protected s) (enumerate 0 segs))"

definition at_positions :: "nat list \<Rightarrow> 'a list \<Rightarrow> 'a list" where
  "at_positions ids xs = map snd (filter (\<lambda>(i, x). i \<in> set ids) (enumerate 0 xs))"

text \<open>The positions kept, with the segments dropped.\<close>

definition prune_positions :: "int \<Rightarrow> context_segment list \<Rightarrow> nat list \<times> (nat \<times> context_segment) list" where
  "prune_positions max_tokens segs =
     (let must = filter (\<lambda>(i, s). protected s) (enumerate 0 segs)
      in snd (admit_optional max_tokens (by_priority segs) (total_tokens (map snd must)) (map fst must) []))"

definition prune :: "int \<Rightarrow> context_segment list \<Rightarrow> context_segment list \<times> context_ledger" where
  "prune max_tokens segs =
     (let (ids, dropped) = prune_positions max_tokens segs;
          kept = at_positions ids segs
      in (kept, \<lparr>cl_kept = kept, cl_dropped = map (dropped_of \<circ> snd) dropped, cl_degraded = [],
                 cl_overflow = max 0 (total_tokens (filter protected segs) - max_tokens)\<rparr>))"


section \<open>What pruning keeps\<close>

lemma admit_optional_spec:
  assumes "admit_optional m todo used kept dropped = (used', kept', dropped')"
    and "\<forall>(i, s) \<in> set todo. 0 \<le> sg_tokens s" "\<forall>(i, s) \<in> set dropped. used + sg_tokens s > m"
  shows "\<exists>taken. kept' = kept @ map fst taken \<and> used' = used + total_tokens (map snd taken) \<and> used \<le> used'
     \<and> (used' \<le> m \<or> used' = used)
     \<and> mset (taken @ dropped') = mset (todo @ dropped) \<and> (\<forall>(i, s) \<in> set dropped'. used' + sg_tokens s > m)"
  using assms
proof (induction m todo used kept dropped rule: admit_optional.induct)
  case (1 m used kept dropped)
  then show ?case by (intro exI [of _ "[]"]) (simp add: total_tokens_def)
next
  case (2 m i s rest used kept dropped)
  show ?case
  proof (cases "used + sg_tokens s \<le> m")
    case True
    have run: "admit_optional m rest (used + sg_tokens s) (kept @ [i]) dropped = (used', kept', dropped')"
      using 2(3) True by simp
    have "\<forall>(i, s') \<in> set dropped. used + sg_tokens s + sg_tokens s' > m" using 2(4,5) by fastforce
    from 2(1) [OF True run _ this] 2(4) obtain taken where
      "kept' = kept @ [i] @ map fst taken" "used' = used + sg_tokens s + total_tokens (map snd taken)" "used + sg_tokens s \<le> used'"
      "used' \<le> m \<or> used' = used + sg_tokens s" "mset (taken @ dropped') = mset (rest @ dropped)"
      "\<forall>(i, s) \<in> set dropped'. used' + sg_tokens s > m" by auto
    with True 2(4) show ?thesis by (intro exI [of _ "(i, s) # taken"]) (auto simp: total_tokens_def)
  next
    case False
    have run: "admit_optional m rest used kept (dropped @ [(i, s)]) = (used', kept', dropped')"
      using 2(3) False by simp
    have "\<forall>(i, s) \<in> set (dropped @ [(i, s)]). used + sg_tokens s > m" using False 2(5) by auto
    from 2(2) [OF False run _ this] 2(4) obtain taken where
      "kept' = kept @ map fst taken" "used' = used + total_tokens (map snd taken)" "used \<le> used'"
      "used' \<le> m \<or> used' = used" "mset (taken @ dropped') = mset (rest @ dropped @ [(i, s)])"
      "\<forall>(i, s) \<in> set dropped'. used' + sg_tokens s > m" by auto
    then show ?thesis by (intro exI [of _ taken]) auto
  qed
qed

lemma mset_by_priority: "mset (by_priority segs) = mset (filter (\<lambda>(i, s). \<not> protected s) (enumerate 0 segs))"
  by (simp add: by_priority_def)

lemma filter_enumerate_snd: "map snd (filter (\<lambda>(i, s). P s) (enumerate n xs)) = filter P xs"
  by (induction xs arbitrary: n) (simp_all add: split_beta)

lemma distinct_positions:
  assumes "mset xs = mset (enumerate 0 segs)"
  shows "distinct (map fst xs)"
proof -
  have "mset (map fst xs) = mset (map fst (enumerate 0 segs))" using assms by (simp only: mset_map)
  moreover have "distinct (map fst (enumerate 0 segs))" by simp
  ultimately show ?thesis using mset_eq_imp_distinct_iff by blast
qed

text \<open>Choosing the positions of a part of the segments chooses that part.\<close>

lemma mset_at_positions:
  assumes "mset (xs @ ys) = mset (enumerate 0 segs)"
  shows "mset (at_positions (map fst xs) segs) = mset (map snd xs)"
proof -
  have dist: "distinct (map fst (xs @ ys))" by (rule distinct_positions [OF assms])
  then have apart: "\<forall>p \<in> set ys. fst p \<notin> set (map fst xs)" by (force simp: disjoint_iff)
  let ?in = "\<lambda>p. fst p \<in> set (map fst xs)"
  have "mset (filter ?in (enumerate 0 segs)) = mset (filter ?in (xs @ ys))"
    using assms by (metis mset_filter)
  also have "filter ?in (xs @ ys) = filter ?in xs @ filter ?in ys" by (rule filter_append)
  also have "filter ?in xs = xs" by (simp add: filter_id_conv)
  also have "filter ?in ys = []" using apart by (simp add: filter_empty_conv)
  finally have "mset (filter ?in (enumerate 0 segs)) = mset xs" by (simp only: append_Nil2)
  then show ?thesis by (simp add: at_positions_def case_prod_unfold)
qed

lemma total_tokens_mset: "mset xs = mset ys \<Longrightarrow> total_tokens xs = total_tokens ys"
  unfolding total_tokens_def by (metis mset_map sum_mset_sum_list)

lemma total_tokens_append [simp]: "total_tokens (xs @ ys) = total_tokens xs + total_tokens ys"
  by (simp add: total_tokens_def)

text \<open>
  Pruning to a budget keeps a sublist of the segments in their order. Every protected segment (persona,
  harness policy, current request and what is marked not droppable) is in it. What is kept fits the
  budget, unless the protected segments alone exceed it, and then nothing else is kept and the ledger
  records by how much. Nothing dropped would still have fitted, and the ledger accounts for every
  segment: kept and dropped together are the segments given.
\<close>

lemma prune_spec:
  assumes "\<forall>s \<in> set segs. 0 \<le> sg_tokens s" and "prune m segs = (kept, ledger)"
  shows "subseq kept segs \<and> filter protected kept = filter protected segs
     \<and> total_tokens kept \<le> max m (total_tokens (filter protected segs))
     \<and> cl_overflow ledger = max 0 (total_tokens (filter protected segs) - m)
     \<and> (\<forall>d \<in> set (cl_dropped ledger). total_tokens kept + ds_tokens d > m)
     \<and> cl_kept ledger = kept
     \<and> mset (map dropped_of kept) + mset (cl_dropped ledger) = mset (map dropped_of segs)"
proof -
  let ?all = "enumerate 0 segs"
  let ?must = "filter (\<lambda>(i, s). protected s) ?all"
  let ?opt = "filter (\<lambda>(i, s). \<not> protected s) ?all"
  obtain used ids dropped where run:
    "admit_optional m (by_priority segs) (total_tokens (map snd ?must)) (map fst ?must) [] = (used, ids, dropped)"
    by (rule prod_cases3)
  have tokens: "\<forall>(i, s) \<in> set (by_priority segs). 0 \<le> sg_tokens s"
  proof -
    have "set (by_priority segs) \<subseteq> set ?all" using mset_by_priority [of segs] by (metis filter_is_subset set_mset_mset)
    with assms(1) show ?thesis by (fastforce simp: in_set_enumerate_eq)
  qed
  obtain taken where taken: "ids = map fst ?must @ map fst taken" "used = total_tokens (map snd ?must) + total_tokens (map snd taken)"
    "used \<le> m \<or> used = total_tokens (map snd ?must)" "mset (taken @ dropped) = mset (by_priority segs @ [])"
    "\<forall>(i, s) \<in> set dropped. used + sg_tokens s > m"
    using admit_optional_spec [OF run tokens] by auto
  have parts: "mset ((?must @ taken) @ dropped) = mset ?all"
  proof -
    have "mset ?must + mset ?opt = mset ?all" by (simp add: split_beta)
    then show ?thesis using taken(4) mset_by_priority [of segs] by (simp add: add.assoc)
  qed
  have kept: "kept = at_positions (map fst (?must @ taken)) segs" and ledger: "cl_dropped ledger = map (dropped_of \<circ> snd) dropped"
    "cl_kept ledger = kept" "cl_overflow ledger = max 0 (total_tokens (filter protected segs) - m)"
    using assms(2) run taken(1) by (auto simp: prune_def prune_positions_def Let_def)
  have mkept: "mset kept = mset (map snd (?must @ taken))"
    unfolding kept by (rule mset_at_positions [OF parts])
  have total: "total_tokens kept = used"
    using total_tokens_mset [OF mkept] taken(2) by simp
  have must: "map snd ?must = filter protected segs" by (rule filter_enumerate_snd)
  have "subseq kept segs"
  proof -
    have "subseq (map snd (filter (\<lambda>(i, s). i \<in> set (map fst (?must @ taken))) ?all)) (map snd ?all)"
      by (intro subseq_map subseq_filter_left)
    then show ?thesis by (simp add: kept at_positions_def)
  qed
  moreover have "filter protected kept = filter protected segs"
  proof -
    have "filter protected kept = map snd (filter (\<lambda>p. protected (snd p) \<and> fst p \<in> set (map fst (?must @ taken))) ?all)"
      by (simp add: kept at_positions_def filter_map split_beta o_def conj_commute)
    also have "filter (\<lambda>p. protected (snd p) \<and> fst p \<in> set (map fst (?must @ taken))) ?all = filter (\<lambda>p. protected (snd p)) ?all"
      by (rule filter_cong) (auto simp: split_beta image_iff)
    finally show ?thesis using must by (simp only: case_prod_unfold)
  qed
  moreover have "total_tokens kept \<le> max m (total_tokens (filter protected segs))"
    using taken(3) must total by auto
  moreover have "\<forall>d \<in> set (cl_dropped ledger). total_tokens kept + ds_tokens d > m"
    using taken(5) by (auto simp: ledger total dropped_of_def)
  moreover have "mset (map dropped_of kept) + mset (cl_dropped ledger) = mset (map dropped_of segs)"
  proof -
    have "mset (map snd ((?must @ taken) @ dropped)) = mset (map snd ?all)" using parts by (simp only: mset_map)
    then have "mset kept + mset (map snd dropped) = mset segs" using mkept by (simp add: add.assoc)
    then have "image_mset dropped_of (mset kept + mset (map snd dropped)) = image_mset dropped_of (mset segs)" by simp
    then show ?thesis by (simp add: ledger multiset.map_comp)
  qed
  ultimately show ?thesis using ledger by blast
qed

end
