(* ===== verification/History_Manager.thy ===== *)
theory History_Manager
  imports Core_Types "HOL-Library.Char_ord" "HOL-Library.List_Lexorder" "HOL-Library.Product_Lexorder"
begin

text \<open>
  The short-term conversation window: \<open>HistoryManager\<close> of \<open>domain/history/manager.py\<close>. The state is
  the dict of bounded windows; a read that asks for more than is cached goes through the hydrator,
  whose answer (or failure, or timeout) is a value, and reads the cache again afterwards, because
  other turns may have run meanwhile. \<open>hm_str\<close> is \<open>str\<close> on a metadata value that is no string.
\<close>

section \<open>Message keys and order\<close>

record history_manager =
  hm_windows :: "(string \<times> chat_message list) list"
  hm_window_size :: nat
  hm_str :: "json \<Rightarrow> string"

definition new_history :: "nat \<Rightarrow> (json \<Rightarrow> string) \<Rightarrow> history_manager" where
  "new_history n str_of = \<lparr>hm_windows = [], hm_window_size = n, hm_str = str_of\<rparr>"

text \<open>\<open>str(metadata.get("turn_id") or "")\<close>.\<close>

definition turn_id_text :: "(json \<Rightarrow> string) \<Rightarrow> chat_message \<Rightarrow> string" where
  "turn_id_text str_of m =
     (case py_or (dict_get (cm_metadata m) ''turn_id'') (JStr []) of JStr s \<Rightarrow> s | v \<Rightarrow> str_of v)"

text \<open>\<open>isinstance(v, int)\<close>, which a bool satisfies.\<close>

fun int_instance :: "json \<Rightarrow> int option" where
  "int_instance (JInt i) = Some i"
| "int_instance (JBool b) = Some (if b then 1 else 0)"
| "int_instance _ = None"

fun int_text :: "json \<Rightarrow> string" where
  "int_text (JInt i) = int_str i"
| "int_text (JBool b) = (if b then ''True'' else ''False'')"
| "int_text _ = []"

text \<open>\<open>_message_order\<close>: the start of the turn (or the message's own time), the turn, the position.\<close>

definition turn_time :: "chat_message \<Rightarrow> datetime option" where
  "turn_time m =
     (case dict_get (cm_metadata m) ''turn_started_at'' of
        JStr s \<Rightarrow> (case fromisoformat s of Inl e \<Rightarrow> None | Inr t \<Rightarrow> Some t)
      | _ \<Rightarrow> None)"

definition message_order :: "(json \<Rightarrow> string) \<Rightarrow> chat_message \<Rightarrow> instant \<times> string \<times> int" where
  "message_order str_of m =
     (dt_instant (case turn_time m of None \<Rightarrow> cm_created_at m | Some t \<Rightarrow> t),
      turn_id_text str_of m,
      case int_instance (dict_get (cm_metadata m) ''seq_in_turn'') of None \<Rightarrow> 0 | Some s \<Rightarrow> s)"

definition stable_message_key :: "(json \<Rightarrow> string) \<Rightarrow> chat_message \<Rightarrow> string" where
  "stable_message_key str_of m =
     (let turn_id = py_strip (turn_id_text str_of m); s = dict_get (cm_metadata m) ''seq_in_turn''
      in if turn_id \<noteq> [] \<and> int_instance s \<noteq> None then ''turn:'' @ turn_id @ '':'' @ int_text s
         else ''message:'' @ cm_id m)"

text \<open>\<open>_merge_tail\<close>: one message per key, the later one's content, in order, the last \<open>window\<close>.\<close>

definition by_key :: "(json \<Rightarrow> string) \<Rightarrow> chat_message list \<Rightarrow> (string \<times> chat_message) list" where
  "by_key str_of ms = fold (\<lambda>m. dict_put (stable_message_key str_of m) m) ms []"

definition merge_tail :: "(json \<Rightarrow> string) \<Rightarrow> chat_message list \<Rightarrow> chat_message list \<Rightarrow> int \<Rightarrow> chat_message list" where
  "merge_tail str_of hydrated cached window =
     py_tail window (sort_key (message_order str_of) (map snd (by_key str_of (hydrated @ cached))))"

definition is_private :: "chat_message \<Rightarrow> bool" where
  "is_private m = (case map_of (cm_metadata m) ''is_private'' of None \<Rightarrow> False | Some v \<Rightarrow> truthy v)"

definition public_messages :: "chat_message list \<Rightarrow> chat_message list" where
  "public_messages ms = filter (\<lambda>m. \<not> is_private m) ms"

definition belongs_to_turn :: "string option \<Rightarrow> chat_message \<Rightarrow> bool" where
  "belongs_to_turn turn_id m =
     (case turn_id of None \<Rightarrow> False | Some t \<Rightarrow> dict_get (cm_metadata m) ''turn_id'' = JStr t)"


section \<open>Operations\<close>

definition window_of :: "history_manager \<Rightarrow> string \<Rightarrow> chat_message list" where
  "window_of h cid = (case map_of (hm_windows h) cid of None \<Rightarrow> [] | Some w \<Rightarrow> w)"

text \<open>\<open>deque(xs, maxlen=n)\<close> keeps the last \<open>n\<close>; \<open>append\<close> on it drops from the left.\<close>

definition bounded :: "nat \<Rightarrow> 'a list \<Rightarrow> 'a list" where
  "bounded n xs = drop (length xs - n) xs"

definition history_append :: "string \<Rightarrow> chat_message \<Rightarrow> history_manager \<Rightarrow> history_manager" where
  "history_append cid m h =
     h\<lparr>hm_windows := dict_put cid (bounded (hm_window_size h) (window_of h cid @ [m])) (hm_windows h)\<rparr>"

definition replace_turn :: "string \<Rightarrow> string \<Rightarrow> chat_message list \<Rightarrow> history_manager \<Rightarrow> history_manager" where
  "replace_turn cid turn_id messages h =
     (let retained = filter (\<lambda>m. dict_get (cm_metadata m) ''turn_id'' \<noteq> JStr turn_id) (window_of h cid);
          merged = merge_tail (hm_str h) retained messages (int (hm_window_size h))
      in h\<lparr>hm_windows := dict_put cid (bounded (hm_window_size h) merged) (hm_windows h)\<rparr>)"

definition drop_session :: "string \<Rightarrow> history_manager \<Rightarrow> history_manager" where
  "drop_session cid h = h\<lparr>hm_windows := dict_del cid (hm_windows h)\<rparr>"

definition cached_window :: "history_manager \<Rightarrow> string \<Rightarrow> int \<Rightarrow> string option \<Rightarrow> chat_message list" where
  "cached_window h cid window excl =
     py_tail window (filter (\<lambda>m. \<not> is_private m \<and> \<not> belongs_to_turn excl m) (window_of h cid))"

text \<open>What the hydrator came back with; an exception and the timeout are the same to the caller.\<close>

datatype hydration = Hydrated "chat_message list" | HydrationFailed

fun bounded_hydrate :: "hydration \<Rightarrow> chat_message list option" where
  "bounded_hydrate (Hydrated ms) = Some (public_messages ms)"
| "bounded_hydrate HydrationFailed = None"

text \<open>
  \<open>recent_window\<close>. \<open>h\<close> is the state when the read starts, \<open>h'\<close> the state when the hydrator has
  answered; \<open>hydrator\<close> is \<open>None\<close> when the manager has none.
\<close>

definition recent_window ::
  "(string \<Rightarrow> int \<Rightarrow> hydration) option \<Rightarrow> history_manager \<Rightarrow> history_manager \<Rightarrow> string \<Rightarrow> int \<Rightarrow> string option
     \<Rightarrow> chat_message list" where
  "recent_window hydrator h h' cid window excl =
     (let cached = cached_window h cid window excl
      in case hydrator of
        None \<Rightarrow> cached
      | Some hy \<Rightarrow>
          (if int (length cached) \<ge> window then cached
           else (let later = cached_window h' cid window excl
                 in case bounded_hydrate (hy cid (window + (if excl \<noteq> None then 2 else 0))) of
                      None \<Rightarrow> later
                    | Some ms \<Rightarrow>
                        merge_tail (hm_str h') (filter (\<lambda>m. \<not> belongs_to_turn excl m) ms) later window)))"


section \<open>Lemmas on merging\<close>

lemma set_fold_dict_put:
  "set (map snd (fold (\<lambda>m. dict_put (k m) m) ms d)) \<subseteq> set (map snd d) \<union> set ms"
proof (induction ms arbitrary: d)
  case (Cons m ms)
  have "set (map snd (dict_put (k m) m d)) \<subseteq> insert m (set (map snd d))"
    by (induction d) auto
  with Cons.IH [of "dict_put (k m) m d"] show ?case by auto
qed simp

lemma by_key_subset: "set (map snd (by_key str_of ms)) \<subseteq> set ms"
  using set_fold_dict_put [of "stable_message_key str_of" ms "[]"] by (simp add: by_key_def)

lemma fold_dict_put_keys:
  "\<forall>(k', m) \<in> set d. k' = k m \<Longrightarrow> distinct (map fst d) \<Longrightarrow>
     (\<forall>(k', m) \<in> set (fold (\<lambda>m. dict_put (k m) m) ms d). k' = k m) \<and> distinct (map fst (fold (\<lambda>m. dict_put (k m) m) ms d))"
proof (induction ms arbitrary: d)
  case (Cons m ms)
  have "\<forall>(k', m') \<in> set (dict_put (k m) m d). k' = k m'"
    using Cons.prems(1) by (induction d) (auto split: if_splits)
  with Cons.IH [of "dict_put (k m) m d"] Cons.prems(2) show ?case
    by (simp add: distinct_dict_put)
qed simp

lemma by_key_distinct: "distinct (map (stable_message_key str_of) (map snd (by_key str_of ms)))"
proof -
  let ?d = "by_key str_of ms"
  have *: "\<forall>(k', m) \<in> set ?d. k' = stable_message_key str_of m" "distinct (map fst ?d)"
    using fold_dict_put_keys [of "[]" "stable_message_key str_of" ms] by (auto simp: by_key_def)
  have "map fst ?d = map (stable_message_key str_of \<circ> snd) ?d"
    using *(1) by (intro map_cong) auto
  with *(2) show ?thesis by simp
qed

lemma by_key_all: "distinct (map (stable_message_key str_of) ms) \<Longrightarrow> map snd (by_key str_of ms) = ms"
proof -
  assume d: "distinct (map (stable_message_key str_of) ms)"
  have "distinct (map fst d0) \<Longrightarrow> distinct (map fst d0 @ map k xs)
      \<Longrightarrow> map snd (fold (\<lambda>m. dict_put (k m) m) xs d0) = map snd d0 @ xs" for d0 :: "(string \<times> chat_message) list" and k xs
  proof (induction xs arbitrary: d0)
    case (Cons x xs)
    then have "map_of d0 (k x) = None" by (auto simp: map_of_eq_None_iff)
    then have "dict_put (k x) x d0 = d0 @ [(k x, x)]" by (rule dict_put_new)
    with Cons show ?case by auto
  qed simp
  from this [of "[]" "stable_message_key str_of" ms] d show ?thesis by (simp add: by_key_def)
qed

lemma merge_tail_subset: "set (merge_tail str_of a b w) \<subseteq> set a \<union> set b"
  unfolding merge_tail_def using set_py_tail by_key_subset [of str_of "a @ b"] by fastforce

lemma py_tail_is_drop: "\<exists>n. py_tail w xs = drop n xs"
  by (auto simp: py_tail_def)

lemma sorted_merge_tail: "sorted (map (message_order str_of) (merge_tail str_of a b w))"
proof -
  let ?s = "sort_key (message_order str_of) (map snd (by_key str_of (a @ b)))"
  obtain n where "merge_tail str_of a b w = drop n ?s" unfolding merge_tail_def using py_tail_is_drop by blast
  moreover have "sorted (map (message_order str_of) ?s)" by simp
  ultimately show ?thesis by (metis drop_map sorted_wrt_drop)
qed

lemma distinct_merge_tail: "distinct (map (stable_message_key str_of) (merge_tail str_of a b w))"
proof -
  let ?k = "stable_message_key str_of" and ?s = "sort_key (message_order str_of) (map snd (by_key str_of (a @ b)))"
  obtain n where n: "merge_tail str_of a b w = drop n ?s" unfolding merge_tail_def using py_tail_is_drop by blast
  have "distinct (map ?k ?s)" using by_key_distinct [of str_of "a @ b"]
    by (simp only: distinct_map distinct_sort set_sort)
  then show ?thesis unfolding n by (metis distinct_drop drop_map)
qed

lemma length_merge_tail: "w > 0 \<Longrightarrow> int (length (merge_tail str_of a b w)) \<le> w"
  by (simp add: merge_tail_def length_py_tail)

text \<open>What the window cuts off is no later than what it keeps.\<close>

lemma merge_tail_newest:
  assumes "x \<in> set (map snd (by_key str_of (a @ b)))" "x \<notin> set (merge_tail str_of a b w)"
    "y \<in> set (merge_tail str_of a b w)"
  shows "message_order str_of x \<le> message_order str_of y"
proof -
  let ?o = "message_order str_of" and ?s = "sort_key (message_order str_of) (map snd (by_key str_of (a @ b)))"
  obtain n where n: "merge_tail str_of a b w = drop n ?s" unfolding merge_tail_def using py_tail_is_drop by blast
  have "x \<in> set ?s" using assms(1) by simp
  then have "x \<in> set (take n ?s)"
    using assms(2) unfolding n by (metis Un_iff append_take_drop_id set_append)
  moreover have "sorted (map ?o (take n ?s @ drop n ?s))" by simp
  ultimately show ?thesis using assms(3) unfolding n map_append sorted_append by simp
qed

lemma bounded_id: "length xs \<le> n \<Longrightarrow> bounded n xs = xs"
  by (simp add: bounded_def)

lemma length_bounded: "length (bounded n xs) \<le> n"
  by (simp add: bounded_def)

lemma window_of_replace:
  "window_of (replace_turn cid t ms h) c =
     (if c = cid then bounded (hm_window_size h)
        (merge_tail (hm_str h) (filter (\<lambda>m. dict_get (cm_metadata m) ''turn_id'' \<noteq> JStr t) (window_of h cid)) ms
          (int (hm_window_size h)))
      else window_of h c)"
  by (simp add: window_of_def replace_turn_def Let_def)

lemma window_of_drop: "window_of (drop_session cid h) c = (if c = cid then [] else window_of h c)"
  by (simp add: window_of_def drop_session_def)

lemma replace_turn_params [simp]:
  "hm_window_size (replace_turn cid t ms h) = hm_window_size h" "hm_str (replace_turn cid t ms h) = hm_str h"
  "hm_window_size (drop_session cid h) = hm_window_size h" "hm_str (drop_session cid h) = hm_str h"
  by (simp_all add: replace_turn_def drop_session_def Let_def)


section \<open>Properties\<close>

text \<open>The two writes of the running system; a turn hands over its messages as a whole.\<close>

datatype history_op = Replace_turn string string "chat_message list" | Drop_session string

fun history_step :: "history_op \<Rightarrow> history_manager \<Rightarrow> history_manager" where
  "history_step (Replace_turn cid t ms) h = replace_turn cid t ms h"
| "history_step (Drop_session cid) h = drop_session cid h"

definition windows_ok :: "history_manager \<Rightarrow> bool" where
  "windows_ok h =
     (\<forall>cid. sorted (map (message_order (hm_str h)) (window_of h cid))
        \<and> distinct (map (stable_message_key (hm_str h)) (window_of h cid)) \<and> length (window_of h cid) \<le> hm_window_size h)"

lemma bounded_is_drop: "\<exists>n. bounded k xs = drop n xs"
  by (auto simp: bounded_def)

lemma window_ok_part:
  assumes "sorted (map f ms)" "distinct (map k ms)"
  shows "sorted (map f (bounded n ms)) \<and> distinct (map k (bounded n ms)) \<and> length (bounded n ms) \<le> n"
proof -
  obtain i where "bounded n ms = drop i ms" using bounded_is_drop by blast
  then show ?thesis using assms length_bounded [of n ms] by (metis drop_map distinct_drop sorted_wrt_drop)
qed

lemma windows_ok_replace:
  assumes "windows_ok h" shows "windows_ok (replace_turn cid t ms h)"
  unfolding windows_ok_def replace_turn_params
proof
  fix c
  show "sorted (map (message_order (hm_str h)) (window_of (replace_turn cid t ms h) c))
    \<and> distinct (map (stable_message_key (hm_str h)) (window_of (replace_turn cid t ms h) c))
    \<and> length (window_of (replace_turn cid t ms h) c) \<le> hm_window_size h"
  proof (cases "c = cid")
    case True
    show ?thesis unfolding window_of_replace True if_P [OF refl]
      by (rule window_ok_part) (rule sorted_merge_tail, rule distinct_merge_tail)
  next
    case False
    show ?thesis using assms unfolding window_of_replace if_not_P [OF False] windows_ok_def by (rule spec)
  qed
qed

lemma windows_ok_drop: "windows_ok h \<Longrightarrow> windows_ok (drop_session cid h)"
  by (auto simp: windows_ok_def window_of_drop)

lemma windows_ok_step: "windows_ok h \<Longrightarrow> windows_ok (history_step x h)"
  by (cases x) (simp_all add: windows_ok_replace windows_ok_drop)

text \<open>
  Whatever turns are written and sessions dropped, in whatever order their writes arrive, each
  conversation's window is in turn order, holds no two versions of one message and stays within its
  bound.
\<close>

theorem history_windows_ordered: "windows_ok (fold history_step ops (new_history n str_of))"
proof -
  have "windows_ok h \<Longrightarrow> windows_ok (fold history_step ops h)" for h
    by (induction ops arbitrary: h) (simp_all add: windows_ok_step)
  moreover have "windows_ok (new_history n str_of)" by (simp add: windows_ok_def new_history_def window_of_def)
  ultimately show ?thesis by blast
qed

lemma replace_turn_only_new:
  assumes "m \<in> set (window_of (replace_turn cid t ms h) cid)" "dict_get (cm_metadata m) ''turn_id'' = JStr t"
  shows "m \<in> set ms"
proof -
  let ?r = "filter (\<lambda>m. dict_get (cm_metadata m) ''turn_id'' \<noteq> JStr t) (window_of h cid)"
  have "m \<in> set (merge_tail (hm_str h) ?r ms (int (hm_window_size h)))"
    using assms(1) unfolding window_of_replace by (auto simp: bounded_def dest: in_set_dropD)
  then have "m \<in> set ?r \<union> set ms" using merge_tail_subset by blast
  with assms(2) show ?thesis by auto
qed

lemma replace_turn_fits:
  fixes h cid t ms
  defines "r \<equiv> filter (\<lambda>m. dict_get (cm_metadata m) ''turn_id'' \<noteq> JStr t) (window_of h cid)"
  assumes "distinct (map (stable_message_key (hm_str h)) (r @ ms))" "length (r @ ms) \<le> hm_window_size h"
  shows "set (window_of (replace_turn cid t ms h) cid) = set r \<union> set ms"
proof (cases "hm_window_size h = 0")
  case True
  with assms(3) show ?thesis
    by (auto simp: window_of_replace r_def [symmetric] bounded_def merge_tail_def by_key_all [OF assms(2)] py_tail_def)
next
  case False
  have "set (merge_tail (hm_str h) r ms (int (hm_window_size h))) = set r \<union> set ms"
    unfolding merge_tail_def by_key_all [OF assms(2)] using False assms(3) by (subst py_tail_all) auto
  moreover have "length (merge_tail (hm_str h) r ms (int (hm_window_size h))) \<le> hm_window_size h"
    using False length_merge_tail by (metis of_nat_0_less_iff of_nat_le_iff bot_nat_0.not_eq_extremum)
  ultimately show ?thesis by (simp add: window_of_replace r_def [symmetric] bounded_id)
qed

text \<open>
  Finalising a turn replaces what the window held of it: no earlier message of the turn
  survives beside the ones handed over; other conversations are untouched; and when the window has
  room the messages handed over and those of the other turns are all there.
\<close>

theorem replace_turn_replaces:
  fixes h cid t ms
  defines "others \<equiv> filter (\<lambda>m. dict_get (cm_metadata m) ''turn_id'' \<noteq> JStr t) (window_of h cid)"
  shows "(\<forall>m \<in> set (window_of (replace_turn cid t ms h) cid).
            dict_get (cm_metadata m) ''turn_id'' = JStr t \<longrightarrow> m \<in> set ms)
     \<and> (\<forall>c. c \<noteq> cid \<longrightarrow> window_of (replace_turn cid t ms h) c = window_of h c)
     \<and> (distinct (map (stable_message_key (hm_str h)) (others @ ms)) \<and> length (others @ ms) \<le> hm_window_size h
         \<longrightarrow> set (window_of (replace_turn cid t ms h) cid) = set others \<union> set ms)"
proof (intro conjI impI)
  show "\<forall>m \<in> set (window_of (replace_turn cid t ms h) cid). dict_get (cm_metadata m) ''turn_id'' = JStr t \<longrightarrow> m \<in> set ms"
    using replace_turn_only_new by blast
  show "\<forall>c. c \<noteq> cid \<longrightarrow> window_of (replace_turn cid t ms h) c = window_of h c"
    by (simp add: window_of_replace)
  assume "distinct (map (stable_message_key (hm_str h)) (others @ ms)) \<and> length (others @ ms) \<le> hm_window_size h"
  then show "set (window_of (replace_turn cid t ms h) cid) = set others \<union> set ms"
    unfolding others_def by (intro replace_turn_fits) blast+
qed

definition demo_message :: "string \<Rightarrow> int \<Rightarrow> utext \<Rightarrow> chat_message" where
  "demo_message t i txt =
     (new_message (turn_message_id t i) (if i = 0 then USER else ASSISTANT) txt
        \<lparr>dt_year = 2026, dt_month = 1, dt_day = 1, dt_hour = 0, dt_minute = 0, dt_second = 0, dt_micro = 0, dt_offset = Some 0\<rparr>)
      \<lparr>cm_metadata := [(''turn_id'', JStr t), (''seq_in_turn'', JInt i)]\<rparr>"

definition demo_history :: history_manager where
  "demo_history = \<lparr>hm_windows = [(''c'', [demo_message ''t1'' 0 [1], demo_message ''t1'' 1 [2], demo_message ''t2'' 0 [3]])],
     hm_window_size = 4, hm_str = \<lambda>j. []\<rparr>"

lemma demo_history_keys:
  "distinct (map (stable_message_key (hm_str demo_history))
     (filter (\<lambda>m. dict_get (cm_metadata m) ''turn_id'' \<noteq> JStr ''t1'') (window_of demo_history ''c'') @ [demo_message ''t1'' 0 [9]]))"
  "window_of demo_history ''c'' = [demo_message ''t1'' 0 [1], demo_message ''t1'' 1 [2], demo_message ''t2'' 0 [3]]"
  by code_simp+

text \<open>A turn cut off before its answer was played: the answer leaves the window, the other turn stays.\<close>

theorem replace_turn_replaces_witness:
  "set (window_of (replace_turn ''c'' ''t1'' [demo_message ''t1'' 0 [9]] demo_history) ''c'')
     = {demo_message ''t2'' 0 [3], demo_message ''t1'' 0 [9]}"
proof -
  let ?others = "filter (\<lambda>m. dict_get (cm_metadata m) ''turn_id'' \<noteq> JStr ''t1'') (window_of demo_history ''c'')"
  have o: "?others = [demo_message ''t2'' 0 [3]]"
    unfolding demo_history_keys(2) by (simp add: demo_message_def dict_get_def)
  have "length (?others @ [demo_message ''t1'' 0 [9]]) \<le> hm_window_size demo_history"
    unfolding o by (simp add: demo_history_def)
  with replace_turn_replaces [where h = demo_history and cid = "''c''" and t = "''t1''" and ms = "[demo_message ''t1'' 0 [9]]"] demo_history_keys(1)
  have "set (window_of (replace_turn ''c'' ''t1'' [demo_message ''t1'' 0 [9]] demo_history) ''c'')
     = set ?others \<union> set [demo_message ''t1'' 0 [9]]" by blast
  then show ?thesis unfolding o by (simp add: insert_commute)
qed

lemma cached_window_facts:
  assumes "m \<in> set (cached_window h cid w excl)"
  shows "\<not> is_private m \<and> \<not> belongs_to_turn excl m \<and> m \<in> set (window_of h cid)"
  using assms set_py_tail unfolding cached_window_def by fastforce

lemma length_cached_window: "w > 0 \<Longrightarrow> int (length (cached_window h cid w excl)) \<le> w"
  by (simp add: cached_window_def length_py_tail)

lemma bounded_hydrate_facts:
  "bounded_hydrate y = Some ms \<Longrightarrow> m \<in> set ms \<Longrightarrow> \<not> is_private m \<and> y \<noteq> HydrationFailed"
  by (cases y) (auto simp: public_messages_def)

lemma recent_window_member:
  assumes "m \<in> set (recent_window hy h h' cid w excl)"
  shows "\<not> is_private m \<and> \<not> belongs_to_turn excl m"
proof -
  have merged: "\<not> is_private m \<and> \<not> belongs_to_turn excl m"
    if "m \<in> set (merge_tail f (filter (\<lambda>m. \<not> belongs_to_turn excl m) ms) (cached_window h' cid w excl) w)"
      "bounded_hydrate y = Some ms" for f ms y
  proof -
    have "m \<in> set (filter (\<lambda>m. \<not> belongs_to_turn excl m) ms) \<union> set (cached_window h' cid w excl)"
      using that(1) merge_tail_subset by blast
    then show ?thesis using that(2) bounded_hydrate_facts cached_window_facts by auto
  qed
  show ?thesis
    using assms merged cached_window_facts unfolding recent_window_def Let_def
    by (auto split: option.splits if_split_asm)
qed

text \<open>The copies listed last win: each of them, when their keys differ, is among the merged messages.\<close>

lemma by_key_last:
  assumes "distinct (map (stable_message_key f) b)" "x \<in> set b"
  shows "x \<in> set (map snd (by_key f (a @ b)))"
proof -
  let ?put = "\<lambda>m. dict_put (stable_message_key f m) m"
  have keep: "map_of (fold ?put ms d) k = map_of d k" if "k \<notin> stable_message_key f ` set ms" for ms d k
    using that by (induction ms arbitrary: d) auto
  obtain b1 b2 where b: "b = b1 @ x # b2" using assms(2) by (meson split_list)
  then have "stable_message_key f x \<notin> stable_message_key f ` set b2" using assms(1) by auto
  from keep [OF this, of "fold ?put (a @ b1 @ [x]) []"]
  have "map_of (by_key f (a @ b)) (stable_message_key f x) = Some x"
    by (simp add: by_key_def b)
  then have "(stable_message_key f x, x) \<in> set (by_key f (a @ b))" by (rule map_of_SomeD)
  then show ?thesis by force
qed

lemma recent_window_hydrated:
  assumes "int (length (cached_window h cid w excl)) < w"
  shows "recent_window (Some f) h h' cid w excl =
     (case f cid (w + (if excl \<noteq> None then 2 else 0)) of
        HydrationFailed \<Rightarrow> cached_window h' cid w excl
      | Hydrated ms \<Rightarrow> merge_tail (hm_str h') (filter (\<lambda>m. \<not> belongs_to_turn excl m) (public_messages ms))
                         (cached_window h' cid w excl) w)"
  using assms by (simp add: recent_window_def Let_def split: hydration.splits)

lemma length_recent_window: "w > 0 \<Longrightarrow> int (length (recent_window hy h h' cid w excl)) \<le> w"
  unfolding recent_window_def Let_def
  by (simp add: length_cached_window length_merge_tail split: option.split)

lemma cached_window_keys:
  assumes "distinct (map k (window_of h cid))"
  shows "distinct (map k (cached_window h cid w excl))"
proof -
  let ?public = "filter (\<lambda>m. \<not> is_private m \<and> \<not> belongs_to_turn excl m) (window_of h cid)"
  obtain n where n: "cached_window h cid w excl = drop n ?public"
    unfolding cached_window_def using py_tail_is_drop by blast
  have "distinct (map k ?public)" using assms by (rule distinct_map_filter)
  then show ?thesis unfolding n drop_map [symmetric] by (rule distinct_drop)
qed

text \<open>
  What the context compiler reads is never a private message and never one of the turn being
  excluded, whatever the hydrator returned and whatever was written while it ran; with a positive
  window there are at most that many messages; a failed or timed-out hydration gives the cache as it
  is then; and a successful one gives its messages in turn order, one per key, with no cached message
  left out for an older one.
\<close>

theorem recent_window_safe:
  assumes "w > 0"
  shows "(\<forall>m \<in> set (recent_window hy h h' cid w excl). \<not> is_private m \<and> \<not> belongs_to_turn excl m)
     \<and> int (length (recent_window hy h h' cid w excl)) \<le> w
     \<and> (\<forall>f. hy = Some f \<and> int (length (cached_window h cid w excl)) < w \<longrightarrow>
          (f cid (w + (if excl \<noteq> None then 2 else 0)) = HydrationFailed \<longrightarrow>
             recent_window hy h h' cid w excl = cached_window h' cid w excl)
        \<and> (\<forall>ms. f cid (w + (if excl \<noteq> None then 2 else 0)) = Hydrated ms \<longrightarrow>
             sorted (map (message_order (hm_str h')) (recent_window hy h h' cid w excl))
           \<and> distinct (map (stable_message_key (hm_str h')) (recent_window hy h h' cid w excl))
           \<and> (windows_ok h' \<longrightarrow> (\<forall>x \<in> set (cached_window h' cid w excl) - set (recent_window hy h h' cid w excl).
                \<forall>y \<in> set (recent_window hy h h' cid w excl). message_order (hm_str h') x \<le> message_order (hm_str h') y))))"
proof (intro conjI allI impI ballI; (elim conjE)?)
  fix m assume "m \<in> set (recent_window hy h h' cid w excl)"
  then show "\<not> is_private m" "\<not> belongs_to_turn excl m" using recent_window_member by blast+
next
  show "int (length (recent_window hy h h' cid w excl)) \<le> w" using assms by (rule length_recent_window)
next
  fix f assume hy: "hy = Some f" and short: "int (length (cached_window h cid w excl)) < w"
  note eq = recent_window_hydrated [OF short, of f h']
  { assume "f cid (w + (if excl \<noteq> None then 2 else 0)) = HydrationFailed"
    then show "recent_window hy h h' cid w excl = cached_window h' cid w excl"
      by (simp only: hy eq hydration.case) }
  fix ms assume "f cid (w + (if excl \<noteq> None then 2 else 0)) = Hydrated ms"
  then have r: "recent_window hy h h' cid w excl =
      merge_tail (hm_str h') (filter (\<lambda>m. \<not> belongs_to_turn excl m) (public_messages ms)) (cached_window h' cid w excl) w"
    by (simp only: hy eq hydration.case)
  show "sorted (map (message_order (hm_str h')) (recent_window hy h h' cid w excl))"
    unfolding r by (rule sorted_merge_tail)
  show "distinct (map (stable_message_key (hm_str h')) (recent_window hy h h' cid w excl))"
    unfolding r by (rule distinct_merge_tail)
  fix x y
  assume ok: "windows_ok h'" and x: "x \<in> set (cached_window h' cid w excl) - set (recent_window hy h h' cid w excl)"
    and y: "y \<in> set (recent_window hy h h' cid w excl)"
  have "distinct (map (stable_message_key (hm_str h')) (cached_window h' cid w excl))"
    using ok by (intro cached_window_keys) (simp add: windows_ok_def)
  then show "message_order (hm_str h') x \<le> message_order (hm_str h') y"
    using x y unfolding r by (intro merge_tail_newest [OF by_key_last]) auto
qed

definition demo_hydrator :: "string \<Rightarrow> int \<Rightarrow> hydration" where
  "demo_hydrator cid w = Hydrated [demo_message ''t0'' 0 [4]]"

theorem recent_window_safe_witness:
  "length (recent_window (Some demo_hydrator) demo_history demo_history ''c'' 3 (Some ''t2'')) \<le> 3
     \<and> filter (belongs_to_turn (Some ''t2''))
         (recent_window (Some demo_hydrator) demo_history demo_history ''c'' 3 (Some ''t2'')) = []"
  using recent_window_safe [of 3 "Some demo_hydrator" demo_history demo_history "''c''" "Some ''t2''"]
  by (auto simp: filter_empty_conv)

end
