(* ===== verification/Tool_Registry.thy ===== *)
theory Tool_Registry
  imports Core_Types "HOL-Library.List_Lexorder" "HOL-Library.Char_ord"
begin

text \<open>
  \<open>domain/tools/registry.py\<close> and \<open>domain/tools/visibility.py\<close>: the process-wide tool table with its
  aliases, and the per-companion filter of what the model sees. A tool is its schema and its
  \<open>invoke\<close>, which maps the call, the context and the state of the world \<open>'w\<close> to an outcome, the
  elapsed milliseconds, and the world it leaves.
\<close>

datatype tool_outcome = Returned tool_result | Raised "string option" string | TimedOut

record 'w tool =
  tl_schema :: tool_schema
  tl_invoke :: "tool_call \<Rightarrow> tool_ctx \<Rightarrow> 'w \<Rightarrow> tool_outcome \<times> int \<times> 'w"

record 'w tool_registry =
  reg_tools :: "(string \<times> 'w tool) list"
  reg_aliases :: "(string \<times> 'w tool) list"

definition empty_registry :: "'w tool_registry" where
  "empty_registry = \<lparr>reg_tools = [], reg_aliases = []\<rparr>"

definition register :: "'w tool \<Rightarrow> 'w tool_registry \<Rightarrow> 'w tool_registry result" where
  "register t r =
     (let name = ts_name (tl_schema t)
      in if map_of (reg_tools r) name \<noteq> None
         then Inl (ValueError (''tool already registered: '' @ name))
         else Inr (r\<lparr>reg_tools := dict_put name t (reg_tools r)\<rparr>))"

definition register_alias :: "string \<Rightarrow> 'w tool \<Rightarrow> 'w tool_registry \<Rightarrow> 'w tool_registry result" where
  "register_alias name t r =
     (if map_of (reg_tools r) name \<noteq> None \<or> map_of (reg_aliases r) name \<noteq> None
      then Inl (ValueError (''tool already registered: '' @ name))
      else Inr (r\<lparr>reg_aliases := dict_put name t (reg_aliases r)\<rparr>))"

definition deregister :: "string \<Rightarrow> 'w tool_registry \<Rightarrow> 'w tool_registry" where
  "deregister name r =
     r\<lparr>reg_tools := dict_del name (reg_tools r), reg_aliases := dict_del name (reg_aliases r)\<rparr>"

definition get_tool :: "string \<Rightarrow> 'w tool_registry \<Rightarrow> 'w tool result" where
  "get_tool name r =
     (case map_of (reg_tools r) name of
        Some t \<Rightarrow> Inr t
      | None \<Rightarrow> (case map_of (reg_aliases r) name of
                   Some t \<Rightarrow> Inr t
                 | None \<Rightarrow> Inl (NotFoundError (''tool not registered: '' @ name))))"

definition list_schemas :: "'w tool_registry \<Rightarrow> tool_schema list" where
  "list_schemas r = map (tl_schema \<circ> snd) (reg_tools r)"

definition tool_names :: "'w tool_registry \<Rightarrow> string list" where
  "tool_names r = sort (map fst (reg_tools r) @ map fst (reg_aliases r))"

text \<open>\<open>ToolVisibilityPolicy.filter\<close>: the loop over the schemas.\<close>

fun visible_schemas :: "string list \<Rightarrow> string list \<Rightarrow> tool_schema list \<Rightarrow> tool_schema list" where
  "visible_schemas allow deny [] = []"
| "visible_schemas allow deny (s # ss) =
     (if ts_name s \<in> set deny then visible_schemas allow deny ss
      else if allow \<noteq> [] \<and> ts_name s \<notin> set allow then visible_schemas allow deny ss
      else s # visible_schemas allow deny ss)"

lemma visible_schemas_filter:
  "visible_schemas allow deny ss =
     filter (\<lambda>s. ts_name s \<notin> set deny \<and> (allow = [] \<or> ts_name s \<in> set allow)) ss"
  by (induction ss) auto

text \<open>
  The registry invariant: a tool is stored under its own name, and no name is both a tool and an
  alias. A tool registered after an alias of the same name breaks the second half: \<open>register\<close> looks
  only at the tools.
\<close>

definition registry_names_ok :: "'w tool_registry \<Rightarrow> bool" where
  "registry_names_ok r =
     (distinct (map fst (reg_tools r)) \<and> distinct (map fst (reg_aliases r))
      \<and> (\<forall>(n, t) \<in> set (reg_tools r). ts_name (tl_schema t) = n))"

lemma registry_names_empty: "registry_names_ok empty_registry"
  by (simp add: registry_names_ok_def empty_registry_def)

lemma registry_names_register:
  "register t r = Inr r' \<Longrightarrow> registry_names_ok r \<Longrightarrow> registry_names_ok r'"
  by (auto simp: register_def registry_names_ok_def Let_def dict_put_new map_of_eq_None_iff
      split: if_splits)

lemma registry_names_alias:
  "register_alias n t r = Inr r' \<Longrightarrow> registry_names_ok r \<Longrightarrow> registry_names_ok r'"
  by (auto simp: register_alias_def registry_names_ok_def dict_put_new map_of_eq_None_iff
      split: if_splits)

lemma registry_names_deregister:
  "registry_names_ok r \<Longrightarrow> registry_names_ok (deregister n r)"
  by (auto simp: deregister_def registry_names_ok_def distinct_delete set_dict_del)

lemma get_tool_register_same:
  "register t r = Inr r' \<Longrightarrow> get_tool (ts_name (tl_schema t)) r' = Inr t"
  by (auto simp: register_def get_tool_def Let_def split: if_splits)

lemma get_tool_register_other:
  "register t r = Inr r' \<Longrightarrow> n \<noteq> ts_name (tl_schema t) \<Longrightarrow> get_tool n r' = get_tool n r"
  by (auto simp: register_def get_tool_def Let_def split: if_splits option.splits)

lemma get_tool_alias:
  "register_alias n t r = Inr r' \<Longrightarrow> get_tool n r' = Inr t \<and> (m \<noteq> n \<longrightarrow> get_tool m r' = get_tool m r)"
  by (auto simp: register_alias_def get_tool_def split: if_splits option.splits)

lemma get_tool_deregister:
  "get_tool n (deregister n r) = Inl (NotFoundError (''tool not registered: '' @ n))"
  by (simp add: get_tool_def deregister_def)

end
