(* ===== verification/Glob.thy ===== *)
theory Glob
  imports Py_Prelude
begin

text \<open>
  Subject matching of \<open>infra/events/adapters/inmem.py\<close>: \<open>_matches\<close>, and the standard
  library's \<open>fnmatch.fnmatchcase\<close> it calls (\<open>*\<close>, \<open>?\<close> and bracket classes).
\<close>

text \<open>
  A bracket class after its \<open>[\<close>: whether it is negated, its text, and the pattern after the
  closing bracket. A \<open>]\<close> right after the opening (or after \<open>!\<close>) belongs to the class; a
  class that is never closed is no class (\<open>None\<close>).
\<close>

fun until_bracket :: "string \<Rightarrow> (string \<times> string) option" where
  "until_bracket [] = None"
| "until_bracket (c # s) =
     (if c = CHR '']'' then Some ([], s)
      else case until_bracket s of None \<Rightarrow> None | Some (a, b) \<Rightarrow> Some (c # a, b))"

definition class_body :: "string \<Rightarrow> (string \<times> string) option" where
  "class_body s =
     (case s of [] \<Rightarrow> None
      | c # t \<Rightarrow> (case until_bracket t of None \<Rightarrow> (if c = CHR '']'' then None else until_bracket s)
                 | Some (a, b) \<Rightarrow> if c = CHR '']'' then Some (c # a, b) else until_bracket s))"

definition split_class :: "string \<Rightarrow> (bool \<times> string \<times> string) option" where
  "split_class s =
     (case s of
        c # t \<Rightarrow> (if c = CHR ''!''
                  then (case class_body t of None \<Rightarrow> None | Some (a, b) \<Rightarrow> Some (True, a, b))
                  else (case class_body s of None \<Rightarrow> None | Some (a, b) \<Rightarrow> Some (False, a, b)))
      | [] \<Rightarrow> None)"

fun in_class :: "string \<Rightarrow> char \<Rightarrow> bool" where
  "in_class (a # d # b # s) c =
     (if d = CHR ''-'' then (of_char a :: nat) \<le> of_char c \<and> (of_char c :: nat) \<le> of_char b \<or> in_class s c
      else a = c \<or> in_class (d # b # s) c)"
| "in_class (a # s) c = (a = c \<or> in_class s c)"
| "in_class [] c = False"

lemma until_bracket_length: "until_bracket s = Some (a, b) \<Longrightarrow> length b < length s"
  by (induction s arbitrary: a) (auto split: if_splits option.splits)

lemma class_body_length: "class_body s = Some (a, b) \<Longrightarrow> length b < length s"
  by (auto simp: class_body_def dest!: until_bracket_length split: list.splits option.splits if_splits)

lemma split_class_length: "split_class s = Some (n, a, b) \<Longrightarrow> length b < length s"
  by (auto simp: split_class_def dest!: class_body_length split: list.splits option.splits if_splits)

function fnmatch :: "string \<Rightarrow> string \<Rightarrow> bool" where
  "fnmatch [] s = (s = [])"
| "fnmatch (c # p) s =
     (if c = CHR ''*'' then fnmatch p s \<or> (case s of [] \<Rightarrow> False | x # t \<Rightarrow> fnmatch (c # p) t)
      else case s of [] \<Rightarrow> False
      | x # t \<Rightarrow>
          (if c = CHR ''?'' then fnmatch p t
           else if c = CHR ''['' then
             (case split_class p of
                None \<Rightarrow> x = c \<and> fnmatch p t
              | Some (neg, cls, q) \<Rightarrow> in_class cls x \<noteq> neg \<and> fnmatch q t)
           else x = c \<and> fnmatch p t))"
  by pat_completeness auto
termination
  by (relation "measure (\<lambda>(p, s). length p + length s)") (auto dest: split_class_length)

declare fnmatch.simps(2) [simp del]

text \<open>The characters that \<open>fnmatch\<close> reads as themselves.\<close>

definition glob_literal :: "char \<Rightarrow> bool" where
  "glob_literal c = (c \<noteq> CHR ''*'' \<and> c \<noteq> CHR ''?'' \<and> c \<noteq> CHR ''['')"

lemma fnmatch_literal:
  "glob_literal c \<Longrightarrow> fnmatch (c # p) s = (\<exists>t. s = c # t \<and> fnmatch p t)"
  by (auto simp: glob_literal_def fnmatch.simps(2) split: list.splits)

lemma fnmatch_star_end: "fnmatch [CHR ''*''] s"
  by (induction s) (auto simp: fnmatch.simps(2))

lemma fnmatch_literal_prefix:
  "list_all glob_literal p \<Longrightarrow> fnmatch (p @ q) s = (\<exists>t. s = p @ t \<and> fnmatch q t)"
  by (induction p arbitrary: s) (auto simp: fnmatch_literal)

lemma fnmatch_literal_all:
  "list_all glob_literal p \<Longrightarrow> fnmatch p s = (s = p)"
  using fnmatch_literal_prefix [of p "[]" s] by simp

text \<open>\<open>_matches(pattern, subject)\<close>.\<close>

definition matches :: "string \<Rightarrow> string \<Rightarrow> bool" where
  "matches pattern subject =
     (if pattern \<noteq> [] \<and> last pattern = CHR ''>'' then starts_with subject (butlast pattern)
      else fnmatch pattern subject)"

lemma starts_with_append: "starts_with s p \<longleftrightarrow> (\<exists>t. s = p @ t)"
  unfolding starts_with_def by (metis append_eq_conv_conj append_take_drop_id)

lemma matches_tail: "matches (p @ ''>'') s \<longleftrightarrow> (\<exists>t. s = p @ t)"
  by (simp add: matches_def starts_with_append)

lemma matches_exact:
  "list_all glob_literal p \<Longrightarrow> (p = [] \<or> last p \<noteq> CHR ''>'') \<Longrightarrow> matches p s = (s = p)"
  by (auto simp: matches_def fnmatch_literal_all)

lemma matches_star: "list_all glob_literal p \<Longrightarrow> matches (p @ ''*'') s \<longleftrightarrow> (\<exists>t. s = p @ t)"
  by (simp add: matches_def fnmatch_literal_prefix fnmatch_star_end)

end
