(* ===== verification/Kv_Store.thy ===== *)
theory Kv_Store
  imports Glob Py_Time
begin

text \<open>
  \<open>InMemoryKVStore\<close> of \<open>infra/events/adapters/inmem.py\<close>: a revisioned key-value bucket with an
  optional time to live, compare-and-swap and watchers. Every operation of the class runs under one
  lock, so a concurrent run is a sequence of operations (\<open>kv_run\<close>). The clock (\<open>time.time()\<close>) is
  an argument; a value is any type \<open>'v\<close> (the code stores bytes). A watcher is the queue
  \<open>watch\<close> registers under its pattern: the notifications put on it and not yet read.

  The locale \<open>kv_port\<close> is what a client of the \<open>KVStore\<close> port relies on; the store is its
  interpretation \<open>inmem\<close>.
\<close>

section \<open>State and operations\<close>

record 'v kv_entry =
  kve_value :: 'v
  kve_revision :: int
  kve_expires_at :: "instant option"

type_synonym 'v kv_note = "string \<times> 'v option \<times> int"

record 'v kv_store =
  kv_entries :: "(string \<times> 'v kv_entry) list"
  kv_watchers :: "(string \<times> 'v kv_note list list) list"

definition kv_empty :: "'v kv_store" where
  "kv_empty = \<lparr>kv_entries = [], kv_watchers = []\<rparr>"

definition kv_expired :: "'v kv_entry \<Rightarrow> instant \<Rightarrow> bool" where
  "kv_expired e now = (case kve_expires_at e of None \<Rightarrow> False | Some t \<Rightarrow> now \<ge> t)"

definition kv_notify :: "string \<Rightarrow> 'v option \<Rightarrow> int \<Rightarrow> 'v kv_store \<Rightarrow> 'v kv_store" where
  "kv_notify key v rv s =
     s\<lparr>kv_watchers :=
        map (\<lambda>(p, qs). (p, if matches p key then map (\<lambda>q. q @ [(key, v, rv)]) qs else qs))
            (kv_watchers s)\<rparr>"

definition kv_get :: "string \<Rightarrow> instant \<Rightarrow> 'v kv_store \<Rightarrow> 'v option \<times> 'v kv_store" where
  "kv_get key now s =
     (case map_of (kv_entries s) key of
        None \<Rightarrow> (None, s\<lparr>kv_entries := dict_del key (kv_entries s)\<rparr>)
      | Some e \<Rightarrow>
          if kv_expired e now then (None, s\<lparr>kv_entries := dict_del key (kv_entries s)\<rparr>)
          else (Some (kve_value e), s))"

fun kv_notify_all :: "string list \<Rightarrow> 'v kv_store \<Rightarrow> 'v kv_store" where
  "kv_notify_all [] s = s"
| "kv_notify_all (k # ks) s = kv_notify_all ks (kv_notify k None (- 1) s)"

definition kv_clear :: "'v kv_store \<Rightarrow> 'v kv_store" where
  "kv_clear s = kv_notify_all (map fst (kv_entries s)) (s\<lparr>kv_entries := []\<rparr>)"

definition kv_put :: "string \<Rightarrow> 'v \<Rightarrow> int option \<Rightarrow> instant \<Rightarrow> 'v kv_store \<Rightarrow> int \<times> 'v kv_store" where
  "kv_put key v ttl_s now s =
     (let rv = (case map_of (kv_entries s) key of Some e \<Rightarrow> kve_revision e + 1 | None \<Rightarrow> 1);
          expires = (case ttl_s of None \<Rightarrow> None
                     | Some t \<Rightarrow> if t \<noteq> 0 then Some (now + seconds t) else None);
          e = \<lparr>kve_value = v, kve_revision = rv, kve_expires_at = expires\<rparr>
      in (rv, kv_notify key (Some v) rv (s\<lparr>kv_entries := dict_put key e (kv_entries s)\<rparr>)))"

definition kv_delete :: "string \<Rightarrow> 'v kv_store \<Rightarrow> 'v kv_store" where
  "kv_delete key s = kv_notify key None (- 1) (s\<lparr>kv_entries := dict_del key (kv_entries s)\<rparr>)"

definition kv_revision :: "string \<Rightarrow> 'v kv_store \<Rightarrow> int" where
  "kv_revision key s = (case map_of (kv_entries s) key of Some e \<Rightarrow> kve_revision e | None \<Rightarrow> 0)"

definition kv_cas :: "string \<Rightarrow> 'v \<Rightarrow> int \<Rightarrow> 'v kv_store \<Rightarrow> (int \<times> 'v kv_store) result" where
  "kv_cas key v expected s =
     (let current = (case map_of (kv_entries s) key of Some e \<Rightarrow> kve_revision e | None \<Rightarrow> 0)
      in if current \<noteq> expected
         then Inl (ConflictError (''cas mismatch on '' @ key @ '': expected rev '' @ int_str expected
                                  @ '', found '' @ int_str current))
         else let rv = current + 1;
                  e = \<lparr>kve_value = v, kve_revision = rv, kve_expires_at = None\<rparr>
              in Inr (rv, kv_notify key (Some v) rv
                             (s\<lparr>kv_entries := dict_put key e (kv_entries s)\<rparr>)))"

definition kv_keys :: "string \<Rightarrow> instant \<Rightarrow> 'v kv_store \<Rightarrow> string list" where
  "kv_keys prefix now s =
     map fst (filter (\<lambda>(k, e). starts_with k prefix \<and> \<not> kv_expired e now) (kv_entries s))"

text \<open>\<open>watch\<close>: registering the queue, reading one notification, and the \<open>finally\<close> block.\<close>

definition kv_watch_open :: "string \<Rightarrow> 'v kv_store \<Rightarrow> 'v kv_store" where
  "kv_watch_open pattern s =
     (let qs = (case map_of (kv_watchers s) pattern of None \<Rightarrow> [] | Some qs \<Rightarrow> qs)
      in s\<lparr>kv_watchers := dict_put pattern (qs @ [[]]) (kv_watchers s)\<rparr>)"

definition kv_watch_close :: "string \<Rightarrow> nat \<Rightarrow> 'v kv_store \<Rightarrow> 'v kv_store" where
  "kv_watch_close pattern i s =
     (let qs = (case map_of (kv_watchers s) pattern of None \<Rightarrow> [] | Some qs \<Rightarrow> qs);
          rest = take i qs @ drop (Suc i) qs
      in s\<lparr>kv_watchers := (if rest = [] then dict_del pattern (kv_watchers s)
                           else dict_put pattern rest (kv_watchers s))\<rparr>)"

section \<open>Basic laws\<close>

lemma kv_notify_entries [simp]: "kv_entries (kv_notify k v r s) = kv_entries s"
  by (simp add: kv_notify_def)

lemma kv_notify_all_entries [simp]: "kv_entries (kv_notify_all ks s) = kv_entries s"
  by (induction ks arbitrary: s) auto

lemma kv_put_lookup:
  "map_of (kv_entries (snd (kv_put k v ttl now s))) x =
     (if x = k
      then Some \<lparr>kve_value = v, kve_revision = kv_revision k s + 1,
                 kve_expires_at = (case ttl of None \<Rightarrow> None
                     | Some t \<Rightarrow> if t \<noteq> 0 then Some (now + seconds t) else None)\<rparr>
      else map_of (kv_entries s) x)"
  by (simp add: kv_put_def kv_revision_def Let_def split: option.splits)

lemma kv_delete_lookup:
  "map_of (kv_entries (kv_delete k s)) x = (if x = k then None else map_of (kv_entries s) x)"
  by (simp add: kv_delete_def)

lemma kv_get_lookup:
  "map_of (kv_entries (snd (kv_get k now s))) x =
     (if x = k \<and> (\<exists>e. map_of (kv_entries s) k = Some e \<and> kv_expired e now) then None
      else map_of (kv_entries s) x)"
  by (auto simp: kv_get_def split: option.splits)

lemma kv_get_value:
  "fst (kv_get k now s) =
     (case map_of (kv_entries s) k of None \<Rightarrow> None
      | Some e \<Rightarrow> if kv_expired e now then None else Some (kve_value e))"
  by (simp add: kv_get_def split: option.splits)

lemma kv_cas_ok_iff: "is_ok (kv_cas k v expected s) \<longleftrightarrow> kv_revision k s = expected"
  by (simp add: kv_cas_def kv_revision_def Let_def split: option.splits)

lemma kv_cas_lookup:
  "kv_cas k v expected s = Inr (r, s') \<Longrightarrow>
     r = expected + 1 \<and>
     map_of (kv_entries s') x =
       (if x = k then Some \<lparr>kve_value = v, kve_revision = r, kve_expires_at = None\<rparr>
        else map_of (kv_entries s) x)"
  by (auto simp: kv_cas_def Let_def split: option.splits if_splits)

lemma kv_clear_entries [simp]: "kv_entries (kv_clear s) = []"
  by (simp add: kv_clear_def)


section \<open>The port\<close>

text \<open>
  What the modelled clients use of the \<open>KVStore\<close> port: a read returns what the last write of that
  key stored, and a read or write of one key does not change another.
\<close>

locale kv_port =
  fixes pget :: "string \<Rightarrow> 's \<Rightarrow> 'v option \<times> 's"
    and pput :: "string \<Rightarrow> 'v \<Rightarrow> 's \<Rightarrow> 's"
  assumes get_put: "fst (pget k (pput k v s)) = Some v"
    and get_put_other: "k \<noteq> k' \<Longrightarrow> fst (pget k (pput k' v s)) = fst (pget k s)"
    and get_get: "fst (pget k (snd (pget k' s))) = fst (pget k s)"
begin

text \<open>Any interleaving of reads and of writes to other keys keeps a stored value.\<close>

fun port_run :: "(string \<times> 'v option) list \<Rightarrow> 's \<Rightarrow> 's" where
  "port_run [] s = s"
| "port_run ((k, None) # ops) s = port_run ops (snd (pget k s))"
| "port_run ((k, Some v) # ops) s = port_run ops (pput k v s)"

lemma get_port_run:
  "(\<And>v. (k, Some v) \<notin> set ops) \<Longrightarrow> fst (pget k (port_run ops s)) = fst (pget k s)"
proof (induction ops s rule: port_run.induct)
  case (3 k' v ops s)
  then have "k \<noteq> k'" by auto
  with 3 show ?case by (auto simp: get_put_other)
qed (auto simp: get_get)

lemma get_put_run:
  "(\<And>v. (k, Some v) \<notin> set ops) \<Longrightarrow> fst (pget k (port_run ops (pput k v s))) = Some v"
  by (simp add: get_port_run get_put)

end

text \<open>The store without a time to live, at any fixed clock reading.\<close>

definition kv_port_get :: "instant \<Rightarrow> string \<Rightarrow> 'v kv_store \<Rightarrow> 'v option \<times> 'v kv_store" where
  "kv_port_get now key s = kv_get key now s"

definition kv_port_put :: "instant \<Rightarrow> string \<Rightarrow> 'v \<Rightarrow> 'v kv_store \<Rightarrow> 'v kv_store" where
  "kv_port_put now key v s = snd (kv_put key v None now s)"

interpretation inmem: kv_port "kv_port_get now" "kv_port_put now" for now
  by unfold_locales
    (auto simp: kv_port_get_def kv_port_put_def kv_get_value kv_put_lookup kv_get_lookup kv_expired_def
        split: option.splits)


section \<open>Interleaved operations\<close>

datatype 'v kv_op =
    OpGet string instant
  | OpPut string 'v "int option" instant
  | OpDelete string
  | OpCas string 'v int
  | OpClear

fun kv_step :: "'v kv_op \<Rightarrow> 'v kv_store \<Rightarrow> 'v kv_store" where
  "kv_step (OpGet k now) s = snd (kv_get k now s)"
| "kv_step (OpPut k v ttl now) s = snd (kv_put k v ttl now s)"
| "kv_step (OpDelete k) s = kv_delete k s"
| "kv_step (OpCas k v r) s = (case kv_cas k v r s of Inl e \<Rightarrow> s | Inr (r', s') \<Rightarrow> s')"
| "kv_step OpClear s = kv_clear s"

fun kv_run :: "'v kv_op list \<Rightarrow> 'v kv_store \<Rightarrow> 'v kv_store" where
  "kv_run [] s = s"
| "kv_run (x # xs) s = kv_run xs (kv_step x s)"

text \<open>The operations that can remove a key's entry: a delete, a clear, or a write that expires.\<close>

fun op_keeps :: "string \<Rightarrow> 'v kv_op \<Rightarrow> bool" where
  "op_keeps k (OpDelete k') = (k' \<noteq> k)"
| "op_keeps k OpClear = False"
| "op_keeps k (OpPut k' v ttl now) = (k' \<noteq> k \<or> ttl = None \<or> ttl = Some 0)"
| "op_keeps k _ = True"

definition revision_at_least :: "string \<Rightarrow> int \<Rightarrow> 'v kv_store \<Rightarrow> bool" where
  "revision_at_least k r s =
     (case map_of (kv_entries s) k of None \<Rightarrow> False
      | Some e \<Rightarrow> r \<le> kve_revision e \<and> kve_expires_at e = None)"

lemma revision_at_least_step:
  assumes "op_keeps k x" and inv: "revision_at_least k r s"
  shows "revision_at_least k r (kv_step x s)"
proof (cases x)
  case (OpGet k' now)
  with inv show ?thesis
    by (auto simp: revision_at_least_def kv_get_lookup kv_expired_def split: option.splits)
next
  case (OpPut k' v ttl now)
  with assms show ?thesis
    by (auto simp: revision_at_least_def kv_put_lookup kv_revision_def split: option.splits)
next
  case (OpDelete k')
  with assms show ?thesis
    by (auto simp: revision_at_least_def kv_delete_lookup split: option.splits)
next
  case (OpCas k' v r')
  show ?thesis
  proof (cases "kv_cas k' v r' s")
    case (Inl e)
    with OpCas inv show ?thesis by simp
  next
    case (Inr p)
    then obtain r2 s2 where p: "kv_cas k' v r' s = Inr (r2, s2)" by (cases p) auto
    then have "kv_revision k' s = r'" using kv_cas_ok_iff [of k' v r' s] by simp
    with kv_cas_lookup [OF p, of k] inv show ?thesis
      by (auto simp: OpCas p revision_at_least_def kv_revision_def split: option.splits)
  qed
next
  case OpClear
  with assms show ?thesis by simp
qed

lemma revision_at_least_run:
  "list_all (op_keeps k) xs \<Longrightarrow> revision_at_least k r s \<Longrightarrow> revision_at_least k r (kv_run xs s)"
  by (induction xs arbitrary: s) (auto simp: revision_at_least_step)

text \<open>
  Compare-and-swap is exclusive: once a swap from revision \<open>r\<close> succeeded, no later swap from
  \<open>r\<close> can succeed, whatever operations ran in between, as long as none of them removed the key.
\<close>

theorem kv_cas_exclusive:
  assumes "kv_cas k v r s = Inr (r', s')" and "list_all (op_keeps k) ops"
  shows "\<exists>e. kv_cas k w r (kv_run ops s') = Inl (ConflictError e)"
proof -
  have "revision_at_least k (r + 1) s'"
    using kv_cas_lookup [OF assms(1), of k] by (simp add: revision_at_least_def)
  with assms(2) have "revision_at_least k (r + 1) (kv_run ops s')"
    by (rule revision_at_least_run)
  then have "kv_revision k (kv_run ops s') \<noteq> r"
    by (auto simp: revision_at_least_def kv_revision_def split: option.splits)
  then show ?thesis
    by (auto simp: kv_cas_def kv_revision_def Let_def split: option.splits)
qed

theorem kv_cas_exclusive_witness:
  "\<exists>e. kv_cas ''k'' (2::int) 0
        (kv_run [OpPut ''k'' 5 None 7, OpGet ''k'' 9, OpDelete ''j''] (snd (projr (kv_cas ''k'' 1 0 kv_empty))))
      = Inl (ConflictError e)"
proof -
  have c: "kv_cas ''k'' (1::int) 0 kv_empty = Inr (1, snd (projr (kv_cas ''k'' 1 0 kv_empty)))"
    by (simp add: kv_cas_def kv_empty_def)
  show ?thesis
    by (rule kv_cas_exclusive [OF c]) simp
qed

text \<open>
  The keys a listing returns are exactly the keys, with that prefix, that a read at the same
  moment finds.
\<close>

theorem kv_keys_live:
  "distinct (map fst (kv_entries s)) \<Longrightarrow>
     k \<in> set (kv_keys prefix now s) \<longleftrightarrow> starts_with k prefix \<and> fst (kv_get k now s) \<noteq> None"
  by (auto simp: kv_keys_def kv_get_value image_iff split: option.splits if_splits
      dest: map_of_SomeD eq_key_imp_eq_value)

theorem kv_keys_live_witness:
  "''ab'' \<in> set (kv_keys ''a'' 3 (snd (kv_put ''ab'' (1::int) (Some 2) 0 kv_empty)))
     \<longleftrightarrow> starts_with ''ab'' ''a''
         \<and> fst (kv_get ''ab'' 3 (snd (kv_put ''ab'' (1::int) (Some 2) 0 kv_empty))) \<noteq> None"
  by (rule kv_keys_live) (simp add: kv_put_def kv_empty_def Let_def)

end
