(* ===== verification/Tool_Dispatcher.thy ===== *)
theory Tool_Dispatcher
  imports Tool_Registry Kv_Store "HOL-Library.Multiset"
begin

text \<open>
  \<open>domain/tools/dispatcher.py\<close>: name resolution with the per-companion deny list, permissions, the
  JSON Schema subset validator, the idempotency key and cache, one invocation, and the batch that
  runs readonly calls concurrently and side-effecting calls one at a time.

  The world \<open>'w\<close> is whatever the tools act on, the idempotency bucket included. The order in which
  \<open>asyncio.gather\<close> lets a readonly batch act is the argument \<open>sched\<close>, any permutation; a readonly
  call acts as one step. \<open>hashlib.sha256\<close> is the argument \<open>d_sha256\<close> of the dispatcher, and
  Python's text of a float and of a non-string argument value are \<open>d_float_repr\<close> and \<open>d_str\<close>.
\<close>

section \<open>The schema validator\<close>

text \<open>\<open>', '.join(xs)\<close>.\<close>

fun join_comma :: "string list \<Rightarrow> string" where
  "join_comma [] = []"
| "join_comma [x] = x"
| "join_comma (x # xs) = x @ '', '' @ join_comma xs"

definition type_matches :: "string \<Rightarrow> json \<Rightarrow> bool" where
  "type_matches t v =
     (if t = ''object'' then (case v of JDict _ \<Rightarrow> True | _ \<Rightarrow> False)
      else if t = ''string'' then (case v of JStr _ \<Rightarrow> True | _ \<Rightarrow> False)
      else if t = ''integer'' then (case v of JInt _ \<Rightarrow> True | _ \<Rightarrow> False)
      else if t = ''number'' then (case v of JInt _ \<Rightarrow> True | JFloat _ \<Rightarrow> True | _ \<Rightarrow> False)
      else if t = ''boolean'' then (case v of JBool _ \<Rightarrow> True | _ \<Rightarrow> False)
      else if t = ''array'' then (case v of JList _ \<Rightarrow> True | _ \<Rightarrow> False)
      else True)"

definition missing_required :: "string list \<Rightarrow> (string \<times> json) list \<Rightarrow> string list" where
  "missing_required req d = sort (remdups (filter (\<lambda>k. map_of d k = None) req))"

definition unexpected_keys :: "(string \<times> jschema) list \<Rightarrow> (string \<times> json) list \<Rightarrow> string list" where
  "unexpected_keys props d = sort (filter (\<lambda>k. map_of props k = None) (map fst d))"

text \<open>\<open>_validate_json_schema\<close>: \<open>None\<close> when the value conforms, else the first error.\<close>

function validate_schema :: "jschema \<Rightarrow> json \<Rightarrow> string \<Rightarrow> string option"
  and validate_props :: "(string \<times> jschema) list \<Rightarrow> (string \<times> json) list \<Rightarrow> string \<Rightarrow> string option"
  and validate_items :: "jschema \<Rightarrow> json list \<Rightarrow> nat \<Rightarrow> string \<Rightarrow> string option" where
  "validate_schema (JSchema ty req props addf items) v path =
     (case ty of
        None \<Rightarrow> None
      | Some t \<Rightarrow>
          if \<not> type_matches t v then Some (path @ '' expected '' @ t)
          else if t = ''object'' then
            (let d = as_dict v; missing = missing_required req d; extra = unexpected_keys props d
             in if missing \<noteq> [] then Some (path @ '' missing required: '' @ join_comma missing)
                else if addf \<and> extra \<noteq> []
                then Some (path @ '' unexpected properties: '' @ join_comma extra)
                else validate_props props d path)
          else if t = ''array'' then
            (case (items, v) of (Some s, JList xs) \<Rightarrow> validate_items s xs 0 path | _ \<Rightarrow> None)
          else None)"
| "validate_props [] d path = None"
| "validate_props ((k, s) # ps) d path =
     (case map_of d k of
        None \<Rightarrow> validate_props ps d path
      | Some v \<Rightarrow> (case validate_schema s v (path @ ''.'' @ k) of
                     None \<Rightarrow> validate_props ps d path
                   | Some err \<Rightarrow> Some err))"
| "validate_items s [] i path = None"
| "validate_items s (x # xs) i path =
     (case validate_schema s x (path @ ''['' @ nat_str i @ '']'') of
        None \<Rightarrow> validate_items s xs (Suc i) path
      | Some err \<Rightarrow> Some err)"
  by pat_completeness auto
termination
  by (relation "measures
       [\<lambda>x. case x of Inl (s, v, p) \<Rightarrow> size s
            | Inr (Inl (ps, d, p)) \<Rightarrow> size_list (size_prod (\<lambda>_. 0) size) ps
            | Inr (Inr (s, xs, i, p)) \<Rightarrow> size s,
        \<lambda>x. case x of Inl _ \<Rightarrow> 0 | Inr (Inl _) \<Rightarrow> 0 | Inr (Inr (s, xs, i, p)) \<Rightarrow> Suc (length xs)]")
    auto


section \<open>The idempotency key\<close>

definition hex_digit :: "nat \<Rightarrow> char" where
  "hex_digit n = char_of (if n < 10 then 48 + n else 87 + n)"

text \<open>\<open>json.dumps(s, ensure_ascii=False)\<close> of a string.\<close>

definition json_escape :: "char \<Rightarrow> string" where
  "json_escape c =
     (let n = (of_char c :: nat)
      in if n = 34 then [char_of (92::nat), c]
         else if n = 92 then [c, c]
         else if n = 8 then [char_of (92::nat), CHR ''b'']
         else if n = 9 then [char_of (92::nat), CHR ''t'']
         else if n = 10 then [char_of (92::nat), CHR ''n'']
         else if n = 12 then [char_of (92::nat), CHR ''f'']
         else if n = 13 then [char_of (92::nat), CHR ''r'']
         else if n < 32 then char_of (92::nat) # ''u00'' @ [hex_digit (n div 16), hex_digit (n mod 16)]
         else [c])"

definition json_string :: "string \<Rightarrow> string" where
  "json_string s = char_of (34::nat) # concat (map json_escape s) @ [char_of (34::nat)]"

fun join_sep :: "string list \<Rightarrow> string" where
  "join_sep [] = []"
| "join_sep [x] = x"
| "join_sep (x # xs) = x @ '','' @ join_sep xs"

text \<open>\<open>json.dumps(v, ensure_ascii=False, sort_keys=True, separators=(",", ":"))\<close>.\<close>

fun json_dumps :: "(rat \<Rightarrow> string) \<Rightarrow> json \<Rightarrow> string"
  and json_dumps_entries :: "(rat \<Rightarrow> string) \<Rightarrow> (string \<times> json) list \<Rightarrow> (string \<times> string) list" where
  "json_dumps fr JNull = ''null''"
| "json_dumps fr (JBool b) = (if b then ''true'' else ''false'')"
| "json_dumps fr (JInt i) = int_str i"
| "json_dumps fr (JFloat q) = fr q"
| "json_dumps fr (JStr s) = json_string s"
| "json_dumps fr (JList xs) = ''['' @ join_sep (map (json_dumps fr) xs) @ '']''"
| "json_dumps fr (JDict d) =
     ''{'' @ join_sep (map snd (sort_key fst (json_dumps_entries fr d))) @ ''}''"
| "json_dumps_entries fr [] = []"
| "json_dumps_entries fr ((k, v) # d) =
     (k, json_string k @ '':'' @ json_dumps fr v) # json_dumps_entries fr d"

definition id_start :: "char \<Rightarrow> bool" where
  "id_start c = (let n = (of_char c :: nat) in n = 95 \<or> 65 \<le> n \<and> n \<le> 90 \<or> 97 \<le> n \<and> n \<le> 122)"

definition id_part :: "char \<Rightarrow> bool" where
  "id_part c = (id_start c \<or> (let n = (of_char c :: nat) in 48 \<le> n \<and> n \<le> 57))"

text \<open>
  \<open>Template(s).safe_substitute(values)\<close>: \<open>$$\<close>, \<open>$name\<close> and \<open>${name}\<close>; an unknown name and a lone
  \<open>$\<close> stay as they are.
\<close>

function substitute :: "string \<Rightarrow> (string \<times> string) list \<Rightarrow> string" where
  "substitute [] vals = []"
| "substitute (c # s) vals =
     (if c \<noteq> CHR ''$'' then c # substitute s vals
      else case s of
        [] \<Rightarrow> [c]
      | d # t \<Rightarrow>
          if d = CHR ''$'' then CHR ''$'' # substitute t vals
          else if id_start d then
            (let name = takeWhile id_part s; rest = dropWhile id_part s
             in (case map_of vals name of None \<Rightarrow> c # name | Some v \<Rightarrow> v) @ substitute rest vals)
          else if d = CHR ''{'' \<and> t \<noteq> [] \<and> id_start (hd t) \<and> dropWhile id_part t \<noteq> []
                  \<and> hd (dropWhile id_part t) = CHR ''}'' then
            (let name = takeWhile id_part t; rest = tl (dropWhile id_part t)
             in (case map_of vals name of None \<Rightarrow> c # d # name @ ''}'' | Some v \<Rightarrow> v)
                @ substitute rest vals)
          else c # substitute s vals)"
  by pat_completeness auto
termination
proof (relation "measure (\<lambda>(s, vals). length s)", goal_cases)
  case 1
  then show ?case by simp
next
  case 2
  then show ?case by simp
next
  case (3 c s vals d t)
  then show ?case by simp
next
  case (4 c s vals d t x xa)
  then show ?case using length_dropWhile_le [of id_part s] by auto
next
  case (5 c s vals d t x xa)
  then show ?case using length_dropWhile_le [of id_part t] by auto
next
  case (6 c s vals d t)
  then show ?case by simp
qed

declare substitute.simps(2) [simp del]

record 'w dispatcher =
  d_registry :: "'w tool_registry"
  d_idemp :: "((string \<Rightarrow> 'w \<Rightarrow> json option result \<times> 'w) \<times> (string \<Rightarrow> json \<Rightarrow> 'w \<Rightarrow> unit result \<times> 'w)) option"
  d_allowed :: "permission list option"
  d_schema_strict :: bool
  d_require_idempotency :: bool
  d_sha256 :: "string \<Rightarrow> string"
  d_str :: "json \<Rightarrow> string"
  d_float_repr :: "rat \<Rightarrow> string"

definition py_str_opt :: "string option \<Rightarrow> string" where
  "py_str_opt s = (case s of None \<Rightarrow> ''None'' | Some t \<Rightarrow> t)"

text \<open>\<open>{**call.arguments, "owner_id": ..., ...}\<close>: the context's values override the arguments.\<close>

definition idemp_values :: "'w dispatcher \<Rightarrow> tool_call \<Rightarrow> tool_ctx \<Rightarrow> (string \<times> string) list" where
  "idemp_values d call ctx =
     (let tx = tic_turn_context ctx;
          args = map (\<lambda>(k, v). (k, case v of JStr s \<Rightarrow> s | _ \<Rightarrow> d_str d v)) (tc_arguments call)
      in dict_merge args
           [(''owner_id'', tx_owner_id tx),
            (''companion_id'', tx_companion_id tx),
            (''memory_realm_id'', tx_memory_realm_id tx),
            (''turn_id'', tic_turn_id ctx),
            (''trace_id'', if tx_trace_id tx \<noteq> [] then tx_trace_id tx else tic_turn_id ctx),
            (''request_id'', tx_request_id tx),
            (''tool_name'', tc_name call),
            (''arguments_json'', json_dumps (d_float_repr d) (JDict (tc_arguments call)))])"

definition maybe_idemp_key :: "'w dispatcher \<Rightarrow> tool_schema \<Rightarrow> tool_call \<Rightarrow> tool_ctx \<Rightarrow> string option" where
  "maybe_idemp_key d schema call ctx =
     (case ts_idempotency_key_template schema of
        None \<Rightarrow> None
      | Some tmpl \<Rightarrow>
          if tmpl = [] then None
          else Some (''idemp_'' @ d_sha256 d (substitute tmpl (idemp_values d call ctx))))"


section \<open>One call\<close>

text \<open>\<open>_resolve_tool\<close>: the deny list first, then the per-turn overlay, then the registry.\<close>

definition resolve_tool ::
  "'w dispatcher \<Rightarrow> (string \<times> 'w tool) list option \<Rightarrow> string \<Rightarrow> tool_ctx \<Rightarrow> 'w tool result" where
  "resolve_tool d extra name ctx =
     (if name \<in> set (tic_denied_tools ctx)
      then Inl (KeyError (''tool denied for companion: '' @ name))
      else case (case extra of None \<Rightarrow> None | Some ov \<Rightarrow> map_of ov name) of
             Some t \<Rightarrow> Inr t
           | None \<Rightarrow> get_tool name (d_registry d))"

text \<open>\<open>repr\<close> of a list of permission values.\<close>

fun join_quoted :: "string list \<Rightarrow> string" where
  "join_quoted [] = []"
| "join_quoted [x] = CHR 0x27 # x @ [CHR 0x27]"
| "join_quoted (x # xs) = CHR 0x27 # x @ CHR 0x27 # '', '' @ join_quoted xs"

text \<open>\<open>_check_permissions\<close>: the message of the \<open>ToolPermissionError\<close>, if it raises.\<close>

definition check_permissions :: "'w dispatcher \<Rightarrow> tool_schema \<Rightarrow> string option" where
  "check_permissions d schema =
     (case d_allowed d of
        None \<Rightarrow> None
      | Some allowed \<Rightarrow>
          let missing = filter (\<lambda>p. p \<notin> set allowed) (remdups (ts_permissions schema))
          in if missing = [] then None
             else Some (''tool '' @ ts_name schema @ '' needs [''
                        @ join_quoted (sort (map permission_value missing))
                        @ ''] but instance lacks them''))"

text \<open>The result the cache entry stands for.\<close>

definition cached_result :: "tool_call \<Rightarrow> (string \<times> json) list \<Rightarrow> tool_result" where
  "cached_result call p =
     \<lparr>tr_call_id = tc_id call, tr_name = tc_name call,
      tr_ok = (case map_of p ''ok'' of None \<Rightarrow> True | Some v \<Rightarrow> truthy v),
      tr_content = dict_get p ''content'',
      tr_error_code = (case dict_get p ''error_code'' of JStr s \<Rightarrow> Some s | _ \<Rightarrow> None),
      tr_error_message = (case dict_get p ''error_message'' of JStr s \<Rightarrow> Some s | _ \<Rightarrow> None),
      tr_latency_ms = 0, tr_metadata = [(''idempotent_cache'', JBool True)]\<rparr>"

text \<open>An exception that leaves \<open>_invoke_one\<close>: its \<open>code\<close> attribute, if any, and its text.\<close>

type_synonym raised = "string option \<times> string"

definition store_result ::
  "'w dispatcher \<Rightarrow> string option \<Rightarrow> tool_result \<Rightarrow> 'w \<Rightarrow> (raised + tool_result) \<times> 'w" where
  "store_result d key r w =
     (case (key, d_idemp d) of
        (Some k, Some (pget, pput)) \<Rightarrow>
          if tr_ok r
          then (case pput k (JDict [(''ok'', JBool True), (''content'', tr_content r)]) w of
                  (Inl e, w') \<Rightarrow> (Inl (None, exc_message e), w')
                | (Inr u, w') \<Rightarrow> (Inr r, w'))
          else (Inr r, w)
      | _ \<Rightarrow> (Inr r, w))"

definition run_tool ::
  "'w dispatcher \<Rightarrow> 'w tool \<Rightarrow> tool_call \<Rightarrow> tool_ctx \<Rightarrow> string option \<Rightarrow> 'w
     \<Rightarrow> (raised + tool_result) \<times> 'w" where
  "run_tool d tool call ctx key w =
     (case tl_invoke tool call ctx w of
        (TimedOut, ms, w') \<Rightarrow>
          (Inr ((failed_result call ''eidolon.tool_timeout''
                  (''tool '' @ tc_name call @ '' exceeded ''
                   @ d_float_repr d (ts_timeout_s (tl_schema tool)) @ ''s''))\<lparr>tr_latency_ms := ms\<rparr>), w')
      | (Raised code msg, ms, w') \<Rightarrow> (Inl (code, msg), w')
      | (Returned r, ms, w') \<Rightarrow>
          store_result d key (if tr_latency_ms r = 0 then r\<lparr>tr_latency_ms := ms\<rparr> else r) w')"

definition invoke_one ::
  "'w dispatcher \<Rightarrow> 'w tool \<Rightarrow> tool_call \<Rightarrow> tool_ctx \<Rightarrow> 'w \<Rightarrow> (raised + tool_result) \<times> 'w" where
  "invoke_one d tool call ctx w =
     (let schema = tl_schema tool
      in if d_require_idempotency d \<and> ts_side_effect schema
            \<and> (case ts_idempotency_key_template schema of None \<Rightarrow> True | Some t \<Rightarrow> t = [])
         then (Inr (failed_result call ''tool_requires_idempotency''
                      (''side-effect tool '' @ tc_name call @ '' requires idempotency'')), w)
         else
           let key = maybe_idemp_key d schema call ctx
           in (case (key, d_idemp d) of
                 (Some k, Some (pget, pput)) \<Rightarrow>
                   (case pget k w of
                      (Inl e, w') \<Rightarrow> (Inl (None, exc_message e), w')
                    | (Inr (Some (JDict p)), w') \<Rightarrow> (Inr (cached_result call p), w')
                    | (Inr (Some _), w') \<Rightarrow> (Inl (None, ''object has no attribute get''), w')
                    | (Inr None, w') \<Rightarrow> run_tool d tool call ctx key w')
               | _ \<Rightarrow> run_tool d tool call ctx key w))"

definition dispatch_one ::
  "'w dispatcher \<Rightarrow> (string \<times> 'w tool) list option \<Rightarrow> tool_ctx \<Rightarrow> tool_call \<Rightarrow> 'w
     \<Rightarrow> tool_result \<times> 'w" where
  "dispatch_one d extra ctx call w =
     (case resolve_tool d extra (tc_name call) ctx of
        Inl e \<Rightarrow> (failed_result call ''tool_not_found'' (exc_message e), w)
      | Inr tool \<Rightarrow>
          (case check_permissions d (tl_schema tool) of
             Some msg \<Rightarrow> (failed_result call ''eidolon.tool_permission_denied'' msg, w)
           | None \<Rightarrow>
               (case validate_schema (ts_json_schema (tl_schema tool)) (JDict (tc_arguments call)) ''$'' of
                  Some err \<Rightarrow>
                    if d_schema_strict d then (failed_result call ''invalid_tool_arguments'' err, w)
                    else (case invoke_one d tool call ctx w of
                            (Inr r, w') \<Rightarrow> (r, w')
                          | (Inl (code, msg), w') \<Rightarrow>
                              (failed_result call (case code of None \<Rightarrow> ''eidolon.tool'' | Some c \<Rightarrow> c) msg, w'))
                | None \<Rightarrow>
                    (case invoke_one d tool call ctx w of
                       (Inr r, w') \<Rightarrow> (r, w')
                     | (Inl (code, msg), w') \<Rightarrow>
                         (failed_result call (case code of None \<Rightarrow> ''eidolon.tool'' | Some c \<Rightarrow> c) msg, w')))))"

end
