(* ===== verification/Runtime_Session.thy ===== *)
theory Runtime_Session
  imports Core_Types
begin

text \<open>
  The authority boundary of a session: \<open>RuntimeSessionAuthorizer\<close> of \<open>domain/runtime_session.py\<close>, the
  runtime configuration of \<open>core/types/companion_runtime.py\<close>, the privacy policy of
  \<open>domain/runtime_policy.py\<close> and the persistence boundary of \<open>domain/agent/committed_turn.py\<close>. The
  claims of a credential are untyped values, so the epoch and the revision are \<open>json\<close>; the data
  authority is a parameter.
\<close>

section \<open>Runtime configuration\<close>

record runtime_config =
  rc_model :: "string option"
  rc_temperature :: rat
  rc_tool_allow :: "string list"
  rc_tool_deny :: "string list"
  rc_allow_body_control :: bool
  rc_max_tool_iters :: "int option"
  rc_max_output_tokens :: "int option"

definition default_temperature :: rat where
  "default_temperature = 7 / 10"

text \<open>\<open>_identifier_set\<close>: the identifiers, each once.\<close>

fun add_identifiers :: "string \<Rightarrow> json list \<Rightarrow> string list \<Rightarrow> string list result" where
  "add_identifiers field [] acc = Inr acc"
| "add_identifiers field (JStr s # items) acc =
     (if py_strip s = [] then Inl (ValueError (''runtime_config.'' @ field @ '' entries must be non-empty strings''))
      else add_identifiers field items (List.insert (py_strip s) acc))"
| "add_identifiers field (item # items) acc =
     Inl (ValueError (''runtime_config.'' @ field @ '' entries must be non-empty strings''))"

fun identifier_set :: "string \<Rightarrow> json \<Rightarrow> string list result" where
  "identifier_set field JNull = Inr []"
| "identifier_set field (JList items) = add_identifiers field items []"
| "identifier_set field _ = Inl (ValueError (''runtime_config.'' @ field @ '' must be an array''))"

text \<open>The two optional limits: absent, or an integer that is at least one (a bool is no integer).\<close>

fun positive_limit :: "string \<Rightarrow> json \<Rightarrow> int option result" where
  "positive_limit field JNull = Inr None"
| "positive_limit field (JInt i) =
     (if i \<le> 0 then Inl (ValueError (''runtime_config.'' @ field @ '' must be a positive integer'')) else Inr (Some i))"
| "positive_limit field _ = Inl (ValueError (''runtime_config.'' @ field @ '' must be a positive integer''))"

fun numeric_value :: "json \<Rightarrow> rat option" where
  "numeric_value (JInt i) = Some (of_int i)"
| "numeric_value (JFloat q) = Some q"
| "numeric_value _ = None"

definition dict_lookup_or :: "(string \<times> json) list \<Rightarrow> string \<Rightarrow> json \<Rightarrow> json" where
  "dict_lookup_or d k dflt = (case map_of d k of None \<Rightarrow> dflt | Some v \<Rightarrow> v)"

fun model_value :: "json \<Rightarrow> string option result" where
  "model_value JNull = Inr None"
| "model_value (JStr s) = Inr (if py_strip s = [] then None else Some (py_strip s))"
| "model_value _ = Inl (ValueError ''runtime_config.model must be a string'')"

text \<open>The tools section: allow and deny lists and the body-control switch.\<close>

definition tools_section :: "json \<Rightarrow> (string list \<times> string list \<times> bool) result" where
  "tools_section v =
     (case v of
        JDict tools \<Rightarrow>
          (case identifier_set ''tools.allow'' (dict_get tools ''allow'') of
             Inl e \<Rightarrow> Inl e
           | Inr allow \<Rightarrow>
          (case identifier_set ''tools.deny'' (dict_get tools ''deny'') of
             Inl e \<Rightarrow> Inl e
           | Inr deny \<Rightarrow>
          (case dict_lookup_or tools ''allow_body_control'' (JBool True) of
             JBool b \<Rightarrow> Inr (allow, deny, b)
           | _ \<Rightarrow> Inl (ValueError ''runtime_config.tools.allow_body_control must be boolean''))))
      | _ \<Rightarrow> Inl (ValueError ''runtime_config.tools must be an object''))"

text \<open>\<open>CompanionRuntimeConfig.from_authority\<close>.\<close>

definition config_from_authority :: "json \<Rightarrow> runtime_config result" where
  "config_from_authority doc =
     (case doc of
        JDict d \<Rightarrow>
          (case model_value (dict_get d ''model'') of
             Inl e \<Rightarrow> Inl e
           | Inr model \<Rightarrow>
          (case numeric_value (dict_lookup_or d ''temperature'' (JFloat default_temperature)) of
             None \<Rightarrow> Inl (ValueError ''runtime_config.temperature must be numeric'')
           | Some temperature \<Rightarrow>
          (case tools_section (dict_lookup_or d ''tools'' (JDict [])) of
             Inl e \<Rightarrow> Inl e
           | Inr (allow, deny, body) \<Rightarrow>
          (case positive_limit ''max_tool_iters'' (dict_get d ''max_tool_iters'') of
             Inl e \<Rightarrow> Inl e
           | Inr iters \<Rightarrow>
          (case positive_limit ''max_output_tokens'' (dict_get d ''max_output_tokens'') of
             Inl e \<Rightarrow> Inl e
           | Inr tokens \<Rightarrow>
               Inr \<lparr>rc_model = model, rc_temperature = temperature, rc_tool_allow = allow, rc_tool_deny = deny,
                    rc_allow_body_control = body, rc_max_tool_iters = iters, rc_max_output_tokens = tokens\<rparr>)))))
      | _ \<Rightarrow> Inl (ValueError ''runtime_config must be an object''))"


section \<open>Authorization\<close>

record runtime_facts =
  rf_owner_id :: string
  rf_companion_id :: string
  rf_memory_realm_id :: string
  rf_genome_id :: string
  rf_genome_version :: int
  rf_schema_version :: string
  rf_genome_hash :: string
  rf_realizer_version :: string
  rf_runtime_config :: json

text \<open>The fields of the provisional-memory snapshot the authorizer reads.\<close>

record provisional_binding =
  pb_owner_id :: string
  pb_person_id :: string
  pb_person_revision :: int
  pb_session_id :: string
  pb_realm_id :: string
  pb_save_allowed :: bool
  pb_session_recall_allowed :: bool

record runtime_authority =
  ra_resolve :: "string \<Rightarrow> string \<Rightarrow> runtime_facts result"
  ra_person_memory :: "string \<Rightarrow> string \<Rightarrow> int \<Rightarrow> string result"
  ra_provisional_memory :: "string \<Rightarrow> string \<Rightarrow> int \<Rightarrow> string \<Rightarrow> provisional_binding result"

record session_claims =
  sc_owner_id :: string
  sc_companion_id :: string
  sc_device_id :: "string option"
  sc_session_id :: "string option"
  sc_person_id :: "string option"
  sc_identity_epoch :: json
  sc_person_revision :: json
  sc_source_session_id :: "string option"
  sc_memory_mode :: string

record authorized_session =
  as_runtime :: runtime_facts
  as_device_id :: "string option"
  as_session_id :: string
  as_config :: runtime_config
  as_person_id :: "string option"
  as_source_session_id :: "string option"
  as_person_revision :: "int option"
  as_identity_epoch :: "int option"
  as_memory_mode :: string
  as_provisional_memory_save :: bool
  as_provisional_memory_recall :: bool

text \<open>\<open>type(x) is int\<close> and its value.\<close>

fun exact_int :: "json \<Rightarrow> int option" where
  "exact_int (JInt i) = Some i"
| "exact_int _ = None"

definition strip_opt :: "string option \<Rightarrow> string" where
  "strip_opt s = (case s of None \<Rightarrow> [] | Some t \<Rightarrow> py_strip t)"

text \<open>The checks on the claims alone, before any authority is asked.\<close>

definition check_claims :: "session_claims \<Rightarrow> unit result" where
  "check_claims c =
     (let person = sc_person_id c; epoch = sc_identity_epoch c; rev = sc_person_revision c;
          session = strip_opt (sc_session_id c); mode = sc_memory_mode c
      in if (person = None) \<noteq> (epoch = JNull)
         then Inl (PermissionDeniedError ''incomplete personal runtime binding'')
         else if person \<noteq> None
              \<and> (py_strip (the person) = [] \<or> (case exact_int epoch of None \<Rightarrow> True | Some e \<Rightarrow> e < 0))
         then Inl (PermissionDeniedError ''invalid personal runtime binding'')
         else if person \<noteq> None \<and> (case exact_int rev of None \<Rightarrow> True | Some r \<Rightarrow> r < 1)
         then Inl (PermissionDeniedError ''personal runtime requires person revision'')
         else if person = None \<and> rev \<noteq> JNull
         then Inl (PermissionDeniedError ''person revision requires personal binding'')
         else if session = [] then Inl (PermissionDeniedError ''runtime token is not bound to a session'')
         else if mode \<noteq> ''personal'' \<and> mode \<noteq> ''provisional''
         then Inl (PermissionDeniedError ''unsupported runtime memory mode'')
         else if mode = ''provisional'' \<and> (person = None \<or> sc_source_session_id c \<noteq> Some session)
         then Inl (PermissionDeniedError ''provisional runtime requires the current source session'')
         else Inr ())"

text \<open>The realm the session's memory lives in, and what a provisional session may do with it.\<close>

definition resolve_memory ::
  "runtime_authority \<Rightarrow> session_claims \<Rightarrow> runtime_facts \<Rightarrow> (runtime_facts \<times> bool \<times> bool) result" where
  "resolve_memory auth c facts =
     (let session = strip_opt (sc_session_id c); person = the (sc_person_id c); rev = the (exact_int (sc_person_revision c))
      in if sc_memory_mode c = ''provisional''
         then (case ra_provisional_memory auth (sc_owner_id c) person rev session of
                 Inl e \<Rightarrow> Inl e
               | Inr b \<Rightarrow>
                   (if \<not> (pb_owner_id b = sc_owner_id c \<and> pb_person_id b = person
                        \<and> pb_person_revision b = rev \<and> pb_session_id b = session)
                    then Inl (PermissionDeniedError ''provisional authority outside token scope'')
                    else if \<not> (pb_save_allowed b \<or> pb_session_recall_allowed b)
                    then Inl (PermissionDeniedError ''provisional save is not permitted'')
                    else Inr (facts\<lparr>rf_memory_realm_id := pb_realm_id b\<rparr>, pb_save_allowed b, pb_session_recall_allowed b)))
         else if sc_person_id c \<noteq> None
         then (case ra_person_memory auth (sc_owner_id c) person rev of
                 Inl e \<Rightarrow> Inl e
               | Inr realm \<Rightarrow>
                   (if realm = [] then Inl (PermissionDeniedError ''personal runtime has no memory realm'')
                    else Inr (facts\<lparr>rf_memory_realm_id := realm\<rparr>, False, False)))
         else Inr (facts, False, False))"

definition delegate_tool :: string where
  "delegate_tool = ''delegate_to_coworker''"

definition emit_event_tool :: string where
  "emit_event_tool = ''emit_event''"

definition authorize :: "runtime_authority \<Rightarrow> session_claims \<Rightarrow> authorized_session result" where
  "authorize auth c =
     (case check_claims c of
        Inl e \<Rightarrow> Inl e
      | Inr u \<Rightarrow>
     (case ra_resolve auth (sc_owner_id c) (sc_companion_id c) of
        Inl e \<Rightarrow> Inl e
      | Inr facts \<Rightarrow>
          (if rf_owner_id facts \<noteq> sc_owner_id c \<or> rf_companion_id facts \<noteq> sc_companion_id c
           then Inl (PermissionDeniedError ''runtime authority returned facts outside token scope'')
           else case resolve_memory auth c facts of
             Inl e \<Rightarrow> Inl e
           | Inr (runtime, save, recall) \<Rightarrow>
          (case config_from_authority (rf_runtime_config runtime) of
             Inl e \<Rightarrow> Inl (ValidationError (''invalid Companion runtime config: '' @ exc_message e))
           | Inr config \<Rightarrow>
               (let device = strip_opt (sc_device_id c)
                in Inr \<lparr>as_runtime = runtime, as_device_id = (if device = [] then None else Some device),
                     as_session_id = strip_opt (sc_session_id c),
                     as_config = config\<lparr>rc_tool_deny := List.insert emit_event_tool (List.insert delegate_tool (rc_tool_deny config))\<rparr>,
                     as_person_id = sc_person_id c, as_source_session_id = sc_source_session_id c,
                     as_person_revision = exact_int (sc_person_revision c),
                     as_identity_epoch = exact_int (sc_identity_epoch c), as_memory_mode = sc_memory_mode c,
                     as_provisional_memory_save = save, as_provisional_memory_recall = recall\<rparr>)))))"


section \<open>Privacy policy of a turn\<close>

record privacy_trace =
  pt_mode :: string
  pt_memory_recall_allowed :: bool
  pt_memory_write_allowed :: bool
  pt_history_visible_to_context :: bool

definition policy_from_metadata :: "(string \<times> json) list \<Rightarrow> privacy_trace" where
  "policy_from_metadata md =
     (if truthy (dict_get md ''temporary'') \<or> truthy (dict_get md ''temporary_mode'')
      then \<lparr>pt_mode = ''temporary'', pt_memory_recall_allowed = False, pt_memory_write_allowed = False,
            pt_history_visible_to_context = False\<rparr>
      else if truthy (dict_get md ''is_private'') \<or> truthy (dict_get md ''private'')
      then \<lparr>pt_mode = ''private'', pt_memory_recall_allowed = True, pt_memory_write_allowed = False,
            pt_history_visible_to_context = False\<rparr>
      else \<lparr>pt_mode = ''normal'', pt_memory_recall_allowed = True, pt_memory_write_allowed = True,
            pt_history_visible_to_context = True\<rparr>)"

definition mark_messages_private :: "privacy_trace \<Rightarrow> bool" where
  "mark_messages_private p = (pt_mode p \<noteq> ''normal'')"


section \<open>The persistence boundary of an input\<close>

record committed_validation =
  va_valid :: bool
  va_persistence_allowed :: bool
  va_reason :: string

text \<open>
  \<open>validate_committed_turn\<close>; reading the channel's decision from metadata (\<open>None\<close> when it is
  missing or malformed) and matching it with the text are the SDK's, hence parameters.
\<close>

definition validate_committed_turn ::
  "(json \<Rightarrow> 'd option) \<Rightarrow> ('d \<Rightarrow> utext option \<Rightarrow> bool) \<Rightarrow> json \<Rightarrow> utext option
     \<Rightarrow> string \<Rightarrow> committed_validation" where
  "validate_committed_turn read_decision matches_text md txt modality =
     (if modality \<noteq> ''voice''
      then \<lparr>va_valid = False, va_persistence_allowed = True, va_reason = ''synchronous_text_boundary''\<rparr>
      else case read_decision md of
        None \<Rightarrow> \<lparr>va_valid = False, va_persistence_allowed = False, va_reason = ''missing_or_invalid_turn_decision''\<rparr>
      | Some d \<Rightarrow>
          (if \<not> matches_text d txt
           then \<lparr>va_valid = False, va_persistence_allowed = False, va_reason = ''committed_turn_transcript_mismatch''\<rparr>
           else \<lparr>va_valid = True, va_persistence_allowed = True, va_reason = ''committed_turn_valid''\<rparr>))"


section \<open>Properties\<close>

lemma check_claims_ok:
  assumes "check_claims c = Inr ()"
  shows "strip_opt (sc_session_id c) \<noteq> []"
    and "sc_memory_mode c \<in> {''personal'', ''provisional''}"
    and "case sc_person_id c of
        None \<Rightarrow> sc_identity_epoch c = JNull \<and> sc_person_revision c = JNull
      | Some p \<Rightarrow> py_strip p \<noteq> [] \<and> (\<exists>e. exact_int (sc_identity_epoch c) = Some e \<and> 0 \<le> e)
          \<and> (\<exists>r. exact_int (sc_person_revision c) = Some r \<and> 1 \<le> r)"
    and "sc_memory_mode c = ''provisional'' \<Longrightarrow> sc_person_id c \<noteq> None
        \<and> sc_source_session_id c = Some (strip_opt (sc_session_id c))"
proof -
  let ?e = "exact_int (sc_identity_epoch c)" and ?r = "exact_int (sc_person_revision c)"
  have *: "strip_opt (sc_session_id c) \<noteq> [] \<and> (sc_person_id c = None) = (sc_identity_epoch c = JNull)
     \<and> (sc_memory_mode c = ''personal'' \<or> sc_memory_mode c = ''provisional'')
     \<and> (sc_person_id c \<noteq> None \<longrightarrow> py_strip (the (sc_person_id c)) \<noteq> [] \<and> \<not> (case ?e of None \<Rightarrow> True | Some e \<Rightarrow> e < 0)
          \<and> \<not> (case ?r of None \<Rightarrow> True | Some r \<Rightarrow> r < 1))
     \<and> (sc_person_id c = None \<longrightarrow> sc_person_revision c = JNull)
     \<and> (sc_memory_mode c = ''provisional'' \<longrightarrow> sc_person_id c \<noteq> None
          \<and> sc_source_session_id c = Some (strip_opt (sc_session_id c)))"
    using assms unfolding check_claims_def Let_def by (auto split: if_split_asm)
  then show "strip_opt (sc_session_id c) \<noteq> []" "sc_memory_mode c \<in> {''personal'', ''provisional''}"
    "sc_memory_mode c = ''provisional'' \<Longrightarrow> sc_person_id c \<noteq> None
        \<and> sc_source_session_id c = Some (strip_opt (sc_session_id c))" by auto
  show "case sc_person_id c of
        None \<Rightarrow> sc_identity_epoch c = JNull \<and> sc_person_revision c = JNull
      | Some p \<Rightarrow> py_strip p \<noteq> [] \<and> (\<exists>e. ?e = Some e \<and> 0 \<le> e) \<and> (\<exists>r. ?r = Some r \<and> 1 \<le> r)"
    using * by (cases ?e; cases ?r) (auto split: option.splits)
qed

lemma resolve_memory_ok:
  assumes "resolve_memory auth c facts = Inr (runtime, save, recall)"
  shows "rf_owner_id runtime = rf_owner_id facts \<and> rf_companion_id runtime = rf_companion_id facts
       \<and> rf_runtime_config runtime = rf_runtime_config facts"
    and "sc_memory_mode c = ''provisional'' \<Longrightarrow> \<exists>b. ra_provisional_memory auth (sc_owner_id c) (the (sc_person_id c))
           (the (exact_int (sc_person_revision c))) (strip_opt (sc_session_id c)) = Inr b
        \<and> pb_owner_id b = sc_owner_id c \<and> pb_person_id b = the (sc_person_id c)
        \<and> pb_session_id b = strip_opt (sc_session_id c) \<and> rf_memory_realm_id runtime = pb_realm_id b
        \<and> save = pb_save_allowed b \<and> recall = pb_session_recall_allowed b \<and> (save \<or> recall)"
    and "sc_memory_mode c \<noteq> ''provisional'' \<Longrightarrow> \<not> save \<and> \<not> recall"
    and "sc_memory_mode c \<noteq> ''provisional'' \<Longrightarrow> sc_person_id c \<noteq> None \<Longrightarrow>
        ra_person_memory auth (sc_owner_id c) (the (sc_person_id c)) (the (exact_int (sc_person_revision c)))
          = Inr (rf_memory_realm_id runtime) \<and> rf_memory_realm_id runtime \<noteq> []"
  using assms unfolding resolve_memory_def Let_def
  by (auto split: if_split_asm sum.splits)

lemma authorize_cases:
  assumes "authorize auth c = Inr s"
  obtains facts runtime save recall config where
    "check_claims c = Inr ()" "ra_resolve auth (sc_owner_id c) (sc_companion_id c) = Inr facts"
    "rf_owner_id facts = sc_owner_id c" "rf_companion_id facts = sc_companion_id c"
    "resolve_memory auth c facts = Inr (runtime, save, recall)"
    "config_from_authority (rf_runtime_config runtime) = Inr config"
    "as_runtime s = runtime" "as_session_id s = strip_opt (sc_session_id c)" "as_person_id s = sc_person_id c"
    "as_config s = config\<lparr>rc_tool_deny := List.insert emit_event_tool (List.insert delegate_tool (rc_tool_deny config))\<rparr>"
    "as_provisional_memory_save s = save" "as_provisional_memory_recall s = recall"
    "as_source_session_id s = sc_source_session_id c" "as_person_revision s = exact_int (sc_person_revision c)"
    "as_identity_epoch s = exact_int (sc_identity_epoch c)" "as_memory_mode s = sc_memory_mode c"
  using assms unfolding authorize_def Let_def
  by (auto split: if_split_asm sum.splits prod.splits)

text \<open>
  C17. The authority boundary fails closed: an authorized session names exactly the owner and the
  companion of the token, in the authority's facts as well; its session id is not blank; the two
  tools that leave the scope are denied whatever the configuration allows; a personal binding is
  complete and its realm is the one the authority gave for that person; provisional memory flags
  are set only in a provisional session, which is bound to its own source session and to the
  authority's binding for the same owner, person and session.
\<close>

theorem authorize_fail_closed:
  assumes "authorize auth c = Inr s"
  shows "rf_owner_id (as_runtime s) = sc_owner_id c \<and> rf_companion_id (as_runtime s) = sc_companion_id c
      \<and> as_session_id s \<noteq> [] \<and> {delegate_tool, emit_event_tool} \<subseteq> set (rc_tool_deny (as_config s))
      \<and> (as_person_id s = None) = (as_identity_epoch s = None) \<and> (as_person_id s = None) = (as_person_revision s = None)
      \<and> (as_memory_mode s \<noteq> ''provisional'' \<longrightarrow> \<not> as_provisional_memory_save s \<and> \<not> as_provisional_memory_recall s
           \<and> (\<forall>p r. as_person_id s = Some p \<and> as_person_revision s = Some r \<longrightarrow>
                ra_person_memory auth (sc_owner_id c) p r = Inr (rf_memory_realm_id (as_runtime s))))
      \<and> (as_memory_mode s = ''provisional'' \<longrightarrow> as_source_session_id s = Some (as_session_id s)
           \<and> (as_provisional_memory_save s \<or> as_provisional_memory_recall s)
           \<and> (\<exists>p r b. as_person_id s = Some p \<and> as_person_revision s = Some r
                \<and> ra_provisional_memory auth (sc_owner_id c) p r (as_session_id s) = Inr b
                \<and> rf_memory_realm_id (as_runtime s) = pb_realm_id b
                \<and> pb_owner_id b = sc_owner_id c \<and> pb_person_id b = p \<and> pb_session_id b = as_session_id s))"
proof -
  obtain facts runtime save recall config where a:
    "check_claims c = Inr ()" "ra_resolve auth (sc_owner_id c) (sc_companion_id c) = Inr facts"
    "rf_owner_id facts = sc_owner_id c" "rf_companion_id facts = sc_companion_id c"
    and r: "resolve_memory auth c facts = Inr (runtime, save, recall)"
    and s: "as_runtime s = runtime" "as_session_id s = strip_opt (sc_session_id c)" "as_person_id s = sc_person_id c"
    "as_config s = config\<lparr>rc_tool_deny := List.insert emit_event_tool (List.insert delegate_tool (rc_tool_deny config))\<rparr>"
    "as_provisional_memory_save s = save" "as_provisional_memory_recall s = recall"
    "as_source_session_id s = sc_source_session_id c" "as_person_revision s = exact_int (sc_person_revision c)"
    "as_identity_epoch s = exact_int (sc_identity_epoch c)" "as_memory_mode s = sc_memory_mode c"
    using assms by (rule authorize_cases)
  note ok = check_claims_ok[OF a(1)] and mem = resolve_memory_ok[OF r]
  have bound: "(sc_person_id c = None) = (exact_int (sc_identity_epoch c) = None)"
    "(sc_person_id c = None) = (exact_int (sc_person_revision c) = None)"
    using ok(3) by (auto split: option.splits)
  show ?thesis
    using a(3,4) s ok(1) ok(4) mem bound by auto
qed

definition demo_facts :: runtime_facts where
  "demo_facts = \<lparr>rf_owner_id = ''o'', rf_companion_id = ''c'', rf_memory_realm_id = ''m'', rf_genome_id = ''g'',
     rf_genome_version = 1, rf_schema_version = ''1'', rf_genome_hash = ''h'', rf_realizer_version = ''r'',
     rf_runtime_config = JDict []\<rparr>"

definition demo_authority :: runtime_authority where
  "demo_authority = \<lparr>ra_resolve = (\<lambda>o1 c1. Inr demo_facts), ra_person_memory = (\<lambda>o1 p r. Inr ''pm''),
     ra_provisional_memory = (\<lambda>o1 p r s. Inr \<lparr>pb_owner_id = o1, pb_person_id = p, pb_person_revision = r,
       pb_session_id = s, pb_realm_id = ''prov'', pb_save_allowed = True, pb_session_recall_allowed = False\<rparr>)\<rparr>"

definition demo_claims :: session_claims where
  "demo_claims = \<lparr>sc_owner_id = ''o'', sc_companion_id = ''c'', sc_device_id = None, sc_session_id = Some ''s'',
     sc_person_id = Some ''p'', sc_identity_epoch = JInt 0, sc_person_revision = JInt 3,
     sc_source_session_id = Some ''s'', sc_memory_mode = ''provisional''\<rparr>"

lemma demo_authorized: "is_ok (authorize demo_authority demo_claims)"
  by code_simp

theorem authorize_fail_closed_witness:
  "\<exists>s. authorize demo_authority demo_claims = Inr s \<and> as_source_session_id s = Some (as_session_id s)
     \<and> as_memory_mode s = ''provisional'' \<and> rf_owner_id (as_runtime s) = ''o''"
proof -
  obtain s where s: "authorize demo_authority demo_claims = Inr s"
    using demo_authorized by (cases "authorize demo_authority demo_claims") auto
  have m: "as_memory_mode s = sc_memory_mode demo_claims" using s by (rule authorize_cases)
  show ?thesis using s m authorize_fail_closed[OF s] by (auto simp: demo_claims_def)
qed

end
