(* ===== verification/Runtime_Tables.thy ===== *)
theory Runtime_Tables
  imports Core_Types
begin

text \<open>
  The Agent's SQLite authority of \<open>infra/persistence/runtime_store.py\<close>: one record per table row and
  the database as the lists of rows in insertion order, with what the table definitions declare:
  primary keys, the unique constraints, \<open>ON DELETE CASCADE\<close> and \<open>ON DELETE SET NULL\<close>. A method
  that opens one session and commits once is one function on the database; a raised exception is a
  rollback, so the function returns no database then.
\<close>

section \<open>Rows\<close>

type_synonym json_dict = "(string \<times> json) list"

record session_row =
  rs_session_id :: string
  rs_owner_id :: string
  rs_companion_id :: string
  rs_source_device_id :: "string option"
  rs_transport :: string
  rs_status :: string
  rs_metadata :: json_dict
  rs_started_at :: datetime
  rs_last_seen_at :: datetime
  rs_updated_at :: datetime

record conversation_row =
  cv_id :: string
  cv_owner_id :: string
  cv_companion_id :: string
  cv_runtime_session_id :: "string option"
  cv_source_device_id :: "string option"
  cv_title :: "utext option"
  cv_status :: string
  cv_started_at :: datetime
  cv_updated_at :: datetime
  cv_metadata :: json_dict

record turn_row =
  tn_id :: string
  tn_conversation_id :: string
  tn_seq :: int
  tn_runtime_session_id :: "string option"
  tn_source_device_id :: "string option"
  tn_trigger :: string
  tn_status :: string
  tn_started_at :: datetime
  tn_finished_at :: "datetime option"
  tn_trace_id :: "string option"
  tn_trace :: json_dict
  tn_metrics :: json_dict
  tn_metadata :: json_dict

record message_row =
  mg_id :: string
  mg_turn_id :: string
  mg_seq :: int
  mg_role :: string
  mg_content :: utext
  mg_content_type :: string
  mg_visibility :: string
  mg_created_at :: datetime
  mg_metadata :: json_dict

record job_row =
  jb_id :: string
  jb_owner_id :: string
  jb_companion_id :: "string option"
  jb_conversation_id :: "string option"
  jb_turn_id :: "string option"
  jb_provider :: string
  jb_kind :: string
  jb_status :: string
  jb_input :: json_dict
  jb_provider_ref :: json_dict
  jb_progress :: json_dict
  jb_result :: json_dict
  jb_error :: json_dict
  jb_created_at :: datetime
  jb_updated_at :: datetime
  jb_completed_at :: "datetime option"

record audit_row =
  au_outbox_id :: int
  au_event_id :: string
  au_producer :: string
  au_category :: string
  au_owner_id :: "string option"
  au_subject_type :: string
  au_subject_id :: string
  au_action :: string
  au_outcome :: string
  au_severity :: string
  au_reason :: "string option"
  au_trace_id :: "string option"
  au_data_classification :: string
  au_schema_version :: int
  au_payload :: json_dict
  au_occurred_at :: instant
  au_attempt_count :: int
  au_next_attempt_at :: instant
  au_last_error :: string
  au_published_at :: "instant option"

record memory_row =
  mo_outbox_id :: int
  mo_turn_id :: string
  mo_owner_id :: string
  mo_companion_id :: string
  mo_subject :: string
  mo_payload :: json_dict
  mo_trace_id :: "string option"
  mo_attempt_count :: int
  mo_next_attempt_at :: instant
  mo_last_error :: string
  mo_published_at :: "instant option"

record runtime_db =
  db_sessions :: "session_row list"
  db_conversations :: "conversation_row list"
  db_turns :: "turn_row list"
  db_messages :: "message_row list"
  db_jobs :: "job_row list"
  db_audit :: "audit_row list"
  db_memory :: "memory_row list"

definition empty_db :: runtime_db where
  "empty_db = \<lparr>db_sessions = [], db_conversations = [], db_turns = [], db_messages = [],
     db_jobs = [], db_audit = [], db_memory = []\<rparr>"

text \<open>SQLite's next \<open>INTEGER PRIMARY KEY\<close>: one more than the largest in the table.\<close>

fun next_rowid :: "int list \<Rightarrow> int" where
  "next_rowid [] = 1"
| "next_rowid (i # is) = max (i + 1) (next_rowid is)"

lemma next_rowid_greater: "i \<in> set is \<Longrightarrow> i < next_rowid is"
  by (induction "is") auto

lemma next_rowid_fresh: "next_rowid is \<notin> set is"
  using next_rowid_greater by blast


section \<open>Integrity\<close>

definition fk_sessions :: "runtime_db \<Rightarrow> bool" where
  "fk_sessions db \<longleftrightarrow>
     (\<forall>c \<in> set (db_conversations db). \<forall>s. cv_runtime_session_id c = Some s \<longrightarrow>
        s \<in> rs_session_id ` set (db_sessions db))
   \<and> (\<forall>t \<in> set (db_turns db). \<forall>s. tn_runtime_session_id t = Some s \<longrightarrow>
        s \<in> rs_session_id ` set (db_sessions db))"

definition fk_turns :: "runtime_db \<Rightarrow> bool" where
  "fk_turns db \<longleftrightarrow> (\<forall>t \<in> set (db_turns db). tn_conversation_id t \<in> cv_id ` set (db_conversations db))"

definition fk_messages :: "runtime_db \<Rightarrow> bool" where
  "fk_messages db \<longleftrightarrow> (\<forall>m \<in> set (db_messages db). mg_turn_id m \<in> tn_id ` set (db_turns db))"

definition primary_keys :: "runtime_db \<Rightarrow> bool" where
  "primary_keys db \<longleftrightarrow>
     distinct (map rs_session_id (db_sessions db))
   \<and> distinct (map cv_id (db_conversations db))
   \<and> distinct (map tn_id (db_turns db))
   \<and> distinct (map mg_id (db_messages db))
   \<and> distinct (map jb_id (db_jobs db))"

definition conv_turns :: "string \<Rightarrow> runtime_db \<Rightarrow> turn_row list" where
  "conv_turns cid db = filter (\<lambda>t. tn_conversation_id t = cid) (db_turns db)"

text \<open>The turns of a conversation, in the order they were admitted, are numbered \<open>0, 1, 2, \<dots>\<close>.\<close>

definition turn_numbering :: "runtime_db \<Rightarrow> bool" where
  "turn_numbering db \<longleftrightarrow>
     (\<forall>cid. map tn_seq (conv_turns cid db) = map int [0 ..< length (conv_turns cid db)])"

definition message_slots :: "runtime_db \<Rightarrow> bool" where
  "message_slots db \<longleftrightarrow> distinct (map (\<lambda>m. (mg_turn_id m, mg_seq m)) (db_messages db))"

definition db_ok :: "runtime_db \<Rightarrow> bool" where
  "db_ok db \<longleftrightarrow> primary_keys db \<and> fk_sessions db \<and> fk_turns db \<and> fk_messages db
     \<and> turn_numbering db \<and> message_slots db"

lemmas db_ok_defs = db_ok_def primary_keys_def fk_sessions_def fk_turns_def fk_messages_def
  turn_numbering_def message_slots_def

lemma db_ok_empty: "db_ok empty_db"
  by (simp add: db_ok_defs empty_db_def conv_turns_def)

text \<open>The declared constraint \<open>UNIQUE(conversation_id, seq)\<close> follows from the numbering.\<close>

lemma turn_numbering_unique:
  assumes "turn_numbering db" "t \<in> set (db_turns db)" "u \<in> set (db_turns db)"
    and "primary_keys db" "tn_conversation_id t = tn_conversation_id u" "tn_seq t = tn_seq u"
  shows "t = u"
proof -
  let ?ts = "conv_turns (tn_conversation_id t) db"
  have "map tn_seq ?ts = map int [0 ..< length ?ts]"
    using assms(1) by (simp add: turn_numbering_def)
  moreover have "distinct (map int [0 ..< length ?ts])" by (simp add: distinct_map)
  ultimately have "distinct (map tn_seq ?ts)" by metis
  moreover have "t \<in> set ?ts" "u \<in> set ?ts" using assms by (auto simp: conv_turns_def)
  ultimately show ?thesis using assms(6) by (auto simp: distinct_map inj_on_def)
qed


section \<open>Deletion\<close>

text \<open>\<open>DELETE FROM conversations WHERE p\<close>, with the cascades to turns and messages.\<close>

definition delete_conversations :: "(conversation_row \<Rightarrow> bool) \<Rightarrow> runtime_db \<Rightarrow> runtime_db" where
  "delete_conversations p db =
     (let gone = cv_id ` {c \<in> set (db_conversations db). p c};
          gone_turns = tn_id ` {t \<in> set (db_turns db). tn_conversation_id t \<in> gone}
      in db\<lparr>db_conversations := filter (\<lambda>c. \<not> p c) (db_conversations db),
            db_turns := filter (\<lambda>t. tn_conversation_id t \<notin> gone) (db_turns db),
            db_messages := filter (\<lambda>m. mg_turn_id m \<notin> gone_turns) (db_messages db)\<rparr>)"

text \<open>\<open>DELETE FROM runtime_sessions WHERE p\<close>, with \<open>SET NULL\<close> on the references.\<close>

definition null_ref :: "string set \<Rightarrow> string option \<Rightarrow> string option" where
  "null_ref gone r = (case r of None \<Rightarrow> None | Some s \<Rightarrow> if s \<in> gone then None else Some s)"

definition delete_sessions :: "(session_row \<Rightarrow> bool) \<Rightarrow> runtime_db \<Rightarrow> runtime_db" where
  "delete_sessions p db =
     (let gone = rs_session_id ` {s \<in> set (db_sessions db). p s}
      in db\<lparr>db_sessions := filter (\<lambda>s. \<not> p s) (db_sessions db),
            db_conversations :=
              map (\<lambda>c. c\<lparr>cv_runtime_session_id := null_ref gone (cv_runtime_session_id c)\<rparr>)
                (db_conversations db),
            db_turns :=
              map (\<lambda>t. t\<lparr>tn_runtime_session_id := null_ref gone (tn_runtime_session_id t)\<rparr>)
                (db_turns db)\<rparr>)"

text \<open>The two joins that count what a scope of conversations holds.\<close>

definition count_turns :: "(conversation_row \<Rightarrow> bool) \<Rightarrow> runtime_db \<Rightarrow> nat" where
  "count_turns p db =
     length [(t, c). t \<leftarrow> db_turns db, c \<leftarrow> db_conversations db, tn_conversation_id t = cv_id c \<and> p c]"

definition count_messages :: "(conversation_row \<Rightarrow> bool) \<Rightarrow> runtime_db \<Rightarrow> nat" where
  "count_messages p db =
     length [(m, t, c). m \<leftarrow> db_messages db, t \<leftarrow> db_turns db, c \<leftarrow> db_conversations db,
                        mg_turn_id m = tn_id t \<and> tn_conversation_id t = cv_id c \<and> p c]"

definition delete_owner_runtime :: "string \<Rightarrow> runtime_db \<Rightarrow> (string \<times> nat) list \<times> runtime_db" where
  "delete_owner_runtime owner db =
     (let messages = count_messages (\<lambda>c. cv_owner_id c = owner) db;
          turns = count_turns (\<lambda>c. cv_owner_id c = owner) db;
          outbox = length (filter (\<lambda>r. mo_owner_id r = owner) (db_memory db));
          db1 = db\<lparr>db_memory := filter (\<lambda>r. mo_owner_id r \<noteq> owner) (db_memory db)\<rparr>;
          jobs = length (filter (\<lambda>j. jb_owner_id j = owner) (db_jobs db1));
          db2 = db1\<lparr>db_jobs := filter (\<lambda>j. jb_owner_id j \<noteq> owner) (db_jobs db1)\<rparr>;
          conversations = length (filter (\<lambda>c. cv_owner_id c = owner) (db_conversations db2));
          db3 = delete_conversations (\<lambda>c. cv_owner_id c = owner) db2;
          sessions = length (filter (\<lambda>s. rs_owner_id s = owner) (db_sessions db3));
          db4 = delete_sessions (\<lambda>s. rs_owner_id s = owner) db3
      in ([(''messages'', messages), (''turns'', turns), (''memory_turn_outbox'', outbox),
           (''jobs'', jobs), (''conversations'', conversations), (''runtime_sessions'', sessions)], db4))"

definition delete_companion_runtime ::
  "string \<Rightarrow> string \<Rightarrow> runtime_db \<Rightarrow> (string \<times> nat) list \<times> runtime_db" where
  "delete_companion_runtime owner companion db =
     (let scope = (\<lambda>c. cv_owner_id c = owner \<and> cv_companion_id c = companion);
          messages = count_messages scope db;
          turns = count_turns scope db;
          in_outbox = (\<lambda>r. mo_owner_id r = owner \<and> mo_companion_id r = companion);
          outbox = length (filter in_outbox (db_memory db));
          db1 = db\<lparr>db_memory := filter (\<lambda>r. \<not> in_outbox r) (db_memory db)\<rparr>;
          in_jobs = (\<lambda>j. jb_owner_id j = owner \<and> jb_companion_id j = Some companion);
          jobs = length (filter in_jobs (db_jobs db1));
          db2 = db1\<lparr>db_jobs := filter (\<lambda>j. \<not> in_jobs j) (db_jobs db1)\<rparr>;
          conversations = length (filter scope (db_conversations db2));
          db3 = delete_conversations scope db2;
          in_sessions = (\<lambda>s. rs_owner_id s = owner \<and> rs_companion_id s = companion);
          sessions = length (filter in_sessions (db_sessions db3));
          db4 = delete_sessions in_sessions db3
      in ([(''messages'', messages), (''turns'', turns), (''memory_turn_outbox'', outbox),
           (''jobs'', jobs), (''conversations'', conversations), (''runtime_sessions'', sessions)], db4))"

lemma distinct_map_filter: "distinct (map f xs) \<Longrightarrow> distinct (map f (filter P xs))"
  by (induction xs) auto

definition deleted_ids :: "(conversation_row \<Rightarrow> bool) \<Rightarrow> runtime_db \<Rightarrow> string set" where
  "deleted_ids p db = cv_id ` {c \<in> set (db_conversations db). p c}"

lemma conv_turns_delete_conversations:
  "conv_turns cid (delete_conversations p db) = (if cid \<in> deleted_ids p db then [] else conv_turns cid db)"
proof (cases "cid \<in> deleted_ids p db")
  case True
  then show ?thesis
    by (auto simp: conv_turns_def delete_conversations_def Let_def deleted_ids_def filter_empty_conv)
next
  case False
  have "filter (\<lambda>x. tn_conversation_id x \<notin> deleted_ids p db \<and> tn_conversation_id x = cid) (db_turns db)
      = filter (\<lambda>x. tn_conversation_id x = cid) (db_turns db)"
    using False by (intro filter_cong) auto
  with False show ?thesis
    by (simp add: conv_turns_def delete_conversations_def Let_def deleted_ids_def)
qed

lemma delete_conversations_ok:
  assumes "db_ok db"
  shows "db_ok (delete_conversations p db)"
proof -
  let ?db = "delete_conversations p db"
  have tn: "turn_numbering ?db"
    using assms by (simp add: db_ok_def turn_numbering_def conv_turns_delete_conversations)
  have "fk_turns ?db"
    using assms by (fastforce simp: db_ok_def fk_turns_def delete_conversations_def Let_def)
  moreover have "fk_messages ?db"
    using assms by (fastforce simp: db_ok_def fk_messages_def delete_conversations_def Let_def)
  moreover have "fk_sessions ?db" "primary_keys ?db" "message_slots ?db"
    using assms by (auto simp: db_ok_defs delete_conversations_def Let_def distinct_map_filter)
  ultimately show ?thesis using tn by (simp add: db_ok_def)
qed

lemma delete_sessions_ok:
  assumes "db_ok db"
  shows "db_ok (delete_sessions p db)"
proof -
  let ?db = "delete_sessions p db"
  have "conv_turns cid ?db
      = map (\<lambda>t. t\<lparr>tn_runtime_session_id :=
               null_ref (rs_session_id ` {s \<in> set (db_sessions db). p s}) (tn_runtime_session_id t)\<rparr>)
          (conv_turns cid db)" for cid
    by (simp add: conv_turns_def delete_sessions_def Let_def filter_map comp_def)
  then have "turn_numbering ?db"
    using assms by (simp add: db_ok_def turn_numbering_def comp_def)
  moreover have "fk_turns ?db" "fk_messages ?db" "primary_keys ?db" "message_slots ?db"
    using assms by (auto simp: db_ok_defs delete_sessions_def Let_def distinct_map_filter comp_def
        image_image)
  moreover have "fk_sessions ?db"
    using assms by (fastforce simp: db_ok_def fk_sessions_def delete_sessions_def Let_def null_ref_def
        split: option.splits if_splits)
  ultimately show ?thesis by (simp add: db_ok_def)
qed

lemma db_ok_other_tables [simp]:
  "db_ok (db\<lparr>db_memory := x\<rparr>) = db_ok db"
  "db_ok (db\<lparr>db_audit := y\<rparr>) = db_ok db"
  by (simp_all add: db_ok_defs conv_turns_def)

lemma db_ok_filter_jobs: "db_ok db \<Longrightarrow> db_ok (db\<lparr>db_jobs := filter P (db_jobs db)\<rparr>)"
  by (simp add: db_ok_defs conv_turns_def distinct_map_filter)

text \<open>With unique keys, the joins count exactly the rows that the cascade removes.\<close>

lemma sum_join_unique:
  assumes "distinct (map k ys)"
  shows "(\<Sum>y\<leftarrow>ys. length (if j = k y \<and> p y then [f y] else []))
     = (if \<exists>y \<in> set ys. k y = j \<and> p y then 1 else 0)"
  using assms by (induction ys) (auto simp: image_iff)

lemma sum_list_indicator: "sum_list (map (\<lambda>x. if P x then 1 else 0) xs) = length (filter P xs)"
  by (induction xs) auto

lemma count_turns_deleted:
  assumes "db_ok db"
  shows "count_turns p db = length (db_turns db) - length (db_turns (delete_conversations p db))"
proof -
  let ?gone = "cv_id ` {c \<in> set (db_conversations db). p c}"
  have pk: "distinct (map cv_id (db_conversations db))"
    using assms by (simp add: db_ok_def primary_keys_def)
  have "count_turns p db
      = sum_list (map (\<lambda>t. if \<exists>c \<in> set (db_conversations db). cv_id c = tn_conversation_id t \<and> p c then 1 else 0)
          (db_turns db))"
    by (simp add: count_turns_def length_concat comp_def sum_join_unique [OF pk] cong: map_cong)
  also have "\<dots> = length (filter (\<lambda>t. tn_conversation_id t \<in> ?gone) (db_turns db))"
    unfolding sum_list_indicator by (rule arg_cong [where f = length], rule filter_cong) (force simp: image_iff)+
  also have "\<dots> = length (db_turns db) - length (db_turns (delete_conversations p db))"
    using sum_length_filter_compl [of "\<lambda>t. tn_conversation_id t \<in> ?gone" "db_turns db"]
    by (simp add: delete_conversations_def Let_def)
  finally show ?thesis .
qed


lemma count_messages_deleted:
  assumes "db_ok db"
  shows "count_messages p db = length (db_messages db) - length (db_messages (delete_conversations p db))"
proof -
  let ?gone = "deleted_ids p db"
  let ?turns = "tn_id ` {t \<in> set (db_turns db). tn_conversation_id t \<in> ?gone}"
  have pk: "distinct (map cv_id (db_conversations db))" "distinct (map tn_id (db_turns db))"
    using assms by (simp_all add: db_ok_def primary_keys_def)
  have "count_messages p db
      = (\<Sum>m\<leftarrow>db_messages db. \<Sum>t\<leftarrow>db_turns db. \<Sum>c\<leftarrow>db_conversations db.
           length (if tn_conversation_id t = cv_id c \<and> (mg_turn_id m = tn_id t \<and> p c) then [(m, t, c)] else []))"
    by (simp add: count_messages_def length_concat comp_def conj_ac cong: if_cong)
  also have "\<dots> = (\<Sum>m\<leftarrow>db_messages db. \<Sum>t\<leftarrow>db_turns db.
           length (if mg_turn_id m = tn_id t \<and> tn_conversation_id t \<in> ?gone then [(m, t)] else []))"
    by (subst sum_join_unique [OF pk(1)])
      (intro arg_cong [where f = sum_list] map_cong refl, force simp: deleted_ids_def image_iff)
  also have "\<dots> = (\<Sum>m\<leftarrow>db_messages db. if mg_turn_id m \<in> ?turns then 1 else 0)"
    by (subst sum_join_unique [OF pk(2)])
      (intro arg_cong [where f = sum_list] map_cong refl, force simp: image_iff)
  also have "\<dots> = length (filter (\<lambda>m. mg_turn_id m \<in> ?turns) (db_messages db))"
    by (rule sum_list_indicator)
  also have "\<dots> = length (db_messages db) - length (db_messages (delete_conversations p db))"
    using sum_length_filter_compl [of "\<lambda>m. mg_turn_id m \<in> ?turns" "db_messages db"]
    by (simp add: delete_conversations_def Let_def deleted_ids_def)
  finally show ?thesis .
qed

lemma delete_owner_runtime_ok: "db_ok db \<Longrightarrow> db_ok (snd (delete_owner_runtime owner db))"
  by (simp add: delete_owner_runtime_def Let_def delete_sessions_ok delete_conversations_ok
      db_ok_filter_jobs [of "db\<lparr>db_memory := x\<rparr>" for x, simplified])

lemma delete_companion_runtime_ok: "db_ok db \<Longrightarrow> db_ok (snd (delete_companion_runtime owner c db))"
  by (simp add: delete_companion_runtime_def Let_def delete_sessions_ok delete_conversations_ok
      db_ok_filter_jobs [of "db\<lparr>db_memory := x\<rparr>" for x, simplified])


section \<open>Properties\<close>

definition turn_messages :: "string \<Rightarrow> runtime_db \<Rightarrow> message_row list" where
  "turn_messages tid db = filter (\<lambda>m. mg_turn_id m = tid) (db_messages db)"

lemma delete_sessions_messages [simp]: "db_messages (delete_sessions p db) = db_messages db"
  by (simp add: delete_sessions_def Let_def)

lemma delete_sessions_turns [simp]: "length (db_turns (delete_sessions p db)) = length (db_turns db)"
  by (simp add: delete_sessions_def Let_def)

lemma delete_conversations_simps [simp]:
  "db_jobs (delete_conversations p db) = db_jobs db"
  "db_memory (delete_conversations p db) = db_memory db"
  "db_audit (delete_conversations p db) = db_audit db"
  "db_sessions (delete_conversations p db) = db_sessions db"
  "db_conversations (delete_conversations p db) = filter (\<lambda>c. \<not> p c) (db_conversations db)"
  by (simp_all add: delete_conversations_def Let_def)

lemma delete_sessions_simps [simp]:
  "db_jobs (delete_sessions p db) = db_jobs db"
  "db_memory (delete_sessions p db) = db_memory db"
  "db_audit (delete_sessions p db) = db_audit db"
  "db_sessions (delete_sessions p db) = filter (\<lambda>s. \<not> p s) (db_sessions db)"
  "map cv_owner_id (db_conversations (delete_sessions p db)) = map cv_owner_id (db_conversations db)"
  by (simp_all add: delete_sessions_def Let_def comp_def)

lemma delete_conversations_irrelevant [simp]:
  "db_turns (delete_conversations p (db\<lparr>db_memory := x, db_jobs := y\<rparr>)) = db_turns (delete_conversations p db)"
  "db_messages (delete_conversations p (db\<lparr>db_memory := x, db_jobs := y\<rparr>)) = db_messages (delete_conversations p db)"
  by (simp_all add: delete_conversations_def Let_def)

lemma length_filter_diff: "length (filter P xs) = length xs - length (filter (\<lambda>x. \<not> P x) xs)"
  using sum_length_filter_compl [of P xs] by simp

text \<open>
  Deleting an Owner's runtime is complete and consistent: no session, conversation, job or
  pending memory turn of the Owner is left, every remaining turn belongs to a remaining conversation
  and every remaining message to a remaining turn, and the audit outbox is not touched.
\<close>

theorem owner_deletion_complete:
  assumes "db_ok db"
  shows "let db' = snd (delete_owner_runtime owner db) in
       db_ok db'
     \<and> (\<forall>s \<in> set (db_sessions db'). rs_owner_id s \<noteq> owner)
     \<and> owner \<notin> set (map cv_owner_id (db_conversations db'))
     \<and> (\<forall>j \<in> set (db_jobs db'). jb_owner_id j \<noteq> owner)
     \<and> (\<forall>r \<in> set (db_memory db'). mo_owner_id r \<noteq> owner)
     \<and> db_audit db' = db_audit db"
proof -
  have ok: "db_ok (snd (delete_owner_runtime owner db))"
    by (rule delete_owner_runtime_ok [OF assms])
  show ?thesis
    unfolding Let_def
    by (intro conjI ok) (simp_all add: delete_owner_runtime_def Let_def del: set_map, auto)
qed

text \<open>
  The counts it returns are the numbers of rows it removed from each table, the cascaded turns
  and messages included.
\<close>

theorem owner_deletion_counts:
  assumes "db_ok db"
  shows "let (counts, db') = delete_owner_runtime owner db in
       map_of counts ''messages'' = Some (length (db_messages db) - length (db_messages db'))
     \<and> map_of counts ''turns'' = Some (length (db_turns db) - length (db_turns db'))
     \<and> map_of counts ''memory_turn_outbox'' = Some (length (db_memory db) - length (db_memory db'))
     \<and> map_of counts ''jobs'' = Some (length (db_jobs db) - length (db_jobs db'))
     \<and> map_of counts ''runtime_sessions'' = Some (length (db_sessions db) - length (db_sessions db'))"
  by (simp add: delete_owner_runtime_def Let_def count_messages_deleted [OF assms]
      count_turns_deleted [OF assms] length_filter_diff [of "\<lambda>r. mo_owner_id r = owner"]
      length_filter_diff [of "\<lambda>j. jb_owner_id j = owner"] length_filter_diff [of "\<lambda>s. rs_owner_id s = owner"])

text \<open>
  Deleting one Owner's runtime leaves the history of every other Owner as it was: each
  conversation of another Owner keeps its turns (in number and ids) and every message of them.
\<close>

theorem owner_deletion_isolated:
  assumes "db_ok db" "c \<in> set (db_conversations db)" "cv_owner_id c \<noteq> owner"
    and "t \<in> set (conv_turns (cv_id c) db)"
  shows "let db' = snd (delete_owner_runtime owner db) in
       map tn_id (conv_turns (cv_id c) db') = map tn_id (conv_turns (cv_id c) db)
     \<and> turn_messages (tn_id t) db' = turn_messages (tn_id t) db"
proof -
  let ?p = "\<lambda>c. cv_owner_id c = owner"
  let ?db2 = "db\<lparr>db_memory := filter (\<lambda>r. mo_owner_id r \<noteq> owner) (db_memory db),
      db_jobs := filter (\<lambda>j. jb_owner_id j \<noteq> owner) (db_jobs db)\<rparr>"
  have pk: "distinct (map cv_id (db_conversations db))" "distinct (map tn_id (db_turns db))"
    using assms(1) by (simp_all add: db_ok_def primary_keys_def)
  have kept: "cv_id c \<notin> deleted_ids ?p db"
  proof
    assume "cv_id c \<in> deleted_ids ?p db"
    then obtain e where "e \<in> set (db_conversations db)" "cv_owner_id e = owner" "cv_id c = cv_id e"
      by (auto simp: deleted_ids_def)
    with assms(2,3) pk(1) show False by (auto simp: distinct_map inj_on_def)
  qed
  have same: "deleted_ids ?p ?db2 = deleted_ids ?p db" "conv_turns (cv_id c) ?db2 = conv_turns (cv_id c) db"
    by (simp_all add: deleted_ids_def conv_turns_def)
  have final: "snd (delete_owner_runtime owner db)
      = delete_sessions (\<lambda>s. rs_owner_id s = owner) (delete_conversations ?p ?db2)"
    by (simp add: delete_owner_runtime_def Let_def)
  have ids: "map tn_id (conv_turns i (delete_sessions q d)) = map tn_id (conv_turns i d)" for i q d
    by (simp add: conv_turns_def delete_sessions_def Let_def filter_map comp_def)
  have turns: "map tn_id (conv_turns (cv_id c) (snd (delete_owner_runtime owner db)))
      = map tn_id (conv_turns (cv_id c) db)"
    by (simp add: final ids conv_turns_delete_conversations same kept)
  have t: "t \<in> set (db_turns db)" "tn_conversation_id t = cv_id c"
    using assms(4) by (auto simp: conv_turns_def)
  have live: "tn_id t \<notin> tn_id ` {u \<in> set (db_turns db). tn_conversation_id u \<in> deleted_ids ?p db}"
  proof
    assume "tn_id t \<in> tn_id ` {u \<in> set (db_turns db). tn_conversation_id u \<in> deleted_ids ?p db}"
    then obtain u where "u \<in> set (db_turns db)" "tn_id u = tn_id t"
      "tn_conversation_id u \<in> deleted_ids ?p db" by auto
    with t pk(2) kept show False by (metis distinct_map inj_on_def)
  qed
  have "turn_messages (tn_id t) (snd (delete_owner_runtime owner db)) = turn_messages (tn_id t) db"
  proof -
    have "db_messages (snd (delete_owner_runtime owner db))
        = filter (\<lambda>m. mg_turn_id m \<notin> tn_id ` {u \<in> set (db_turns db). tn_conversation_id u \<in> deleted_ids ?p db})
            (db_messages db)"
      unfolding final by (simp add: delete_sessions_def delete_conversations_def Let_def deleted_ids_def)
    moreover have "filter (\<lambda>m. mg_turn_id m = i) (filter (\<lambda>m. mg_turn_id m \<notin> A) ms)
        = filter (\<lambda>m. mg_turn_id m = i) ms" if "i \<notin> A" for i A ms
      using that by (induction ms) auto
    ultimately show ?thesis unfolding turn_messages_def using live by simp
  qed
  with turns show ?thesis by (simp add: Let_def)
qed

text \<open>A small database for the witnesses: two Owners, one turn and one message each.\<close>

definition demo_time :: datetime where
  "demo_time = \<lparr>dt_year = 2026, dt_month = 10, dt_day = 8, dt_hour = 12, dt_minute = 0, dt_second = 0,
     dt_micro = 0, dt_offset = None\<rparr>"

definition demo_conv :: "string \<Rightarrow> string \<Rightarrow> conversation_row" where
  "demo_conv i owner = \<lparr>cv_id = i, cv_owner_id = owner, cv_companion_id = ''c'', cv_runtime_session_id = None,
     cv_source_device_id = None, cv_title = None, cv_status = ''active'', cv_started_at = demo_time,
     cv_updated_at = demo_time, cv_metadata = []\<rparr>"

definition demo_turn :: "string \<Rightarrow> string \<Rightarrow> turn_row" where
  "demo_turn i conv = \<lparr>tn_id = i, tn_conversation_id = conv, tn_seq = 0, tn_runtime_session_id = None,
     tn_source_device_id = None, tn_trigger = ''user_utterance'', tn_status = ''ok'', tn_started_at = demo_time,
     tn_finished_at = None, tn_trace_id = None, tn_trace = [], tn_metrics = [], tn_metadata = []\<rparr>"

definition demo_msg :: "string \<Rightarrow> string \<Rightarrow> message_row" where
  "demo_msg i turn = \<lparr>mg_id = i, mg_turn_id = turn, mg_seq = 0, mg_role = ''user'', mg_content = [104, 105],
     mg_content_type = ''text/plain'', mg_visibility = ''normal'', mg_created_at = demo_time, mg_metadata = []\<rparr>"

definition demo_db :: runtime_db where
  "demo_db = empty_db\<lparr>db_conversations := [demo_conv ''k1'' ''o1'', demo_conv ''k2'' ''o2''],
     db_turns := [demo_turn ''t1'' ''k1'', demo_turn ''t2'' ''k2''],
     db_messages := [demo_msg ''m1'' ''t1'', demo_msg ''m2'' ''t2'']\<rparr>"

lemma demo_db_ok: "db_ok demo_db"
  by (auto simp: db_ok_defs demo_db_def empty_db_def demo_conv_def demo_turn_def demo_msg_def conv_turns_def)

theorem owner_deletion_complete_witness:
  "''o1'' \<notin> set (map cv_owner_id (db_conversations (snd (delete_owner_runtime ''o1'' demo_db))))"
  using owner_deletion_complete [OF demo_db_ok, of "''o1''"] by (simp add: Let_def del: set_map)

theorem owner_deletion_counts_witness:
  "map_of (fst (delete_owner_runtime ''o1'' demo_db)) ''messages''
     = Some (length (db_messages demo_db) - length (db_messages (snd (delete_owner_runtime ''o1'' demo_db))))"
  using owner_deletion_counts [OF demo_db_ok, of "''o1''"] by (simp add: case_prod_beta)

theorem owner_deletion_isolated_witness:
  "turn_messages (tn_id (demo_turn ''t2'' ''k2'')) (snd (delete_owner_runtime ''o1'' demo_db))
     = turn_messages (tn_id (demo_turn ''t2'' ''k2'')) demo_db"
proof -
  have c: "demo_conv ''k2'' ''o2'' \<in> set (db_conversations demo_db)" "cv_owner_id (demo_conv ''k2'' ''o2'') \<noteq> ''o1''"
    by (simp_all add: demo_db_def demo_conv_def)
  have t: "demo_turn ''t2'' ''k2'' \<in> set (conv_turns (cv_id (demo_conv ''k2'' ''o2'')) demo_db)"
    by (simp add: conv_turns_def demo_db_def demo_conv_def demo_turn_def)
  from owner_deletion_isolated [OF demo_db_ok c t] show ?thesis by (simp add: Let_def)
qed

end
