(* ===== verification/Conversation_Store.thy ===== *)
theory Conversation_Store
  imports Runtime_Tables "HOL-Library.Char_ord" "HOL-Library.List_Lexorder" "HOL-Library.Product_Lexorder"
begin

text \<open>
  Conversations, turns and messages in the Agent authority, \<open>infra/persistence/agent_runtime.py\<close>:
  the conversation guard, the turn persister, the history hydrator and the message queries. One
  transaction is one function from the database to a result; \<open>now\<close> is the UTC time it reads. A
  datetime is stored by its fields, without the offset.
\<close>

section \<open>Turn input\<close>

record turn_input =
  ti_turn_id :: string
  ti_conversation_id :: string
  ti_session_id :: string
  ti_context :: turn_context
  ti_input_modality :: input_modality
  ti_trigger :: turn_trigger
  ti_text :: "utext option"
  ti_metadata :: json_dict

text \<open>\<open>validate_conversation_id\<close> of \<open>core/types/conversation.py\<close>.\<close>

definition conversation_id_max_length :: nat where
  "conversation_id_max_length = 512"

definition validate_conversation_id :: "string \<Rightarrow> string result" where
  "validate_conversation_id v =
     (if v = [] \<or> py_strip v = [] then Inl (ValueError ''conversation_id must not be empty'')
      else if length v > conversation_id_max_length
      then Inl (ValueError (''conversation_id exceeds '' @ int_str (int conversation_id_max_length) @ '' characters''))
      else Inr v)"

definition runtime_session_id :: "turn_input \<Rightarrow> string result" where
  "runtime_session_id ti =
     (if ti_session_id ti \<noteq> [] then Inr (ti_session_id ti)
      else Inl (RuntimeError ''runtime_session_id was not built at transport boundary''))"


section \<open>Scope\<close>

definition room_keys :: "string list" where
  "room_keys = [''memory_realm_id'', ''memory_enabled'', ''provisional_memory_save'',
     ''provisional_memory_recall'', ''person_id'', ''identity_epoch'', ''person_revision'']"

text \<open>A turn of a shared room: its source session is its session.\<close>

definition shared_room :: "turn_input \<Rightarrow> bool" where
  "shared_room ti = (tx_source_session_id (ti_context ti) = Some (ti_session_id ti))"

definition conversation_metadata :: "turn_input \<Rightarrow> json_dict result" where
  "conversation_metadata ti =
     (case runtime_session_id ti of
        Inl e \<Rightarrow> Inl e
      | Inr sid \<Rightarrow>
     (let c = ti_context ti;
          md = [(''owner_id'', JStr (tx_owner_id c)), (''companion_id'', JStr (tx_companion_id c)),
                (''runtime_session_id'', JStr sid), (''memory_realm_id'', JStr (tx_memory_realm_id c)),
                (''memory_enabled'', JBool (tx_memory_enabled c)),
                (''provisional_memory_save'', JBool (tx_provisional_memory_save c)),
                (''provisional_memory_recall'', JBool (tx_provisional_memory_recall c)),
                (''person_id'', jopt_str (tx_person_id c)), (''identity_epoch'', jopt_int (tx_identity_epoch c)),
                (''person_revision'', jopt_int (tx_person_revision c)), (''genome_id'', JStr (tx_genome_id c)),
                (''genome_hash'', JStr (tx_genome_hash c)), (''schema_version'', JStr (tx_schema_version c)),
                (''realizer_version'', JStr (tx_realizer_version c)), (''session_id'', JStr (ti_session_id ti)),
                (''source_session_id'', jopt_str (tx_source_session_id c))]
      in Inr (if shared_room ti then filter (\<lambda>p. fst p \<notin> set room_keys) md else md)))"

text \<open>\<open>d.get(k, default)\<close>.\<close>

definition dict_get_or :: "json_dict \<Rightarrow> string \<Rightarrow> json \<Rightarrow> json" where
  "dict_get_or d k dflt = (case map_of d k of None \<Rightarrow> dflt | Some v \<Rightarrow> v)"

definition verify_conversation_scope :: "conversation_row \<Rightarrow> turn_input \<Rightarrow> unit result" where
  "verify_conversation_scope row ti =
     (let md = cv_metadata row; c = ti_context ti; shared = shared_room ti
      in if shared \<or> (py_eq (dict_get md ''source_session_id'') (dict_get md ''session_id'')
                     \<and> dict_get md ''source_session_id'' \<noteq> JNull)
         then (if \<not> shared
                \<or> \<not> (cv_owner_id row = tx_owner_id c \<and> cv_companion_id row = tx_companion_id c
                     \<and> cv_source_device_id row = tx_device_id c
                     \<and> py_eq (dict_get md ''source_session_id'') (jopt_str (tx_source_session_id c))
                     \<and> py_eq (dict_get md ''session_id'') (JStr (ti_session_id ti)))
               then Inl (PermissionDeniedError ''conversation belongs to another room session'')
               else Inr ())
         else if \<not> (cv_owner_id row = tx_owner_id c \<and> cv_companion_id row = tx_companion_id c
                   \<and> py_eq (dict_get md ''memory_realm_id'') (JStr (tx_memory_realm_id c)))
         then Inl (PermissionDeniedError ''conversation belongs to another runtime scope'')
         else if \<not> py_eq (dict_get_or md ''provisional_memory_save'' (JBool False)) (JBool (tx_provisional_memory_save c))
              \<or> \<not> py_eq (dict_get_or md ''provisional_memory_recall'' (JBool False)) (JBool (tx_provisional_memory_recall c))
         then Inl (PermissionDeniedError ''conversation provisional policy changed'')
         else if \<not> py_eq (dict_get_or md ''memory_enabled'' (JBool True)) (JBool (tx_memory_enabled c))
         then Inl (PermissionDeniedError ''conversation memory policy changed'')
         else if \<not> py_eq (dict_get md ''person_id'') (jopt_str (tx_person_id c))
         then Inl (PermissionDeniedError ''conversation belongs to another person'')
         else if (tx_person_id c \<noteq> None \<or> \<not> tx_memory_enabled c)
               \<and> \<not> (py_eq (dict_get md ''identity_epoch'') (jopt_int (tx_identity_epoch c))
                    \<and> py_eq (dict_get md ''person_revision'') (jopt_int (tx_person_revision c))
                    \<and> py_eq (dict_get md ''session_id'') (JStr (ti_session_id ti))
                    \<and> cv_source_device_id row = tx_device_id c)
         then Inl (PermissionDeniedError ''personal identity change requires a new conversation'')
         else Inr ())"

definition verify_existing_turn_scope :: "turn_row \<Rightarrow> turn_input \<Rightarrow> unit result" where
  "verify_existing_turn_scope row ti =
     (let md = tn_metadata row; c = ti_context ti
      in if tn_conversation_id row \<noteq> ti_conversation_id ti
         then Inl (PermissionDeniedError ''turn belongs to another conversation'')
         else if \<not> py_eq (dict_get_or md ''provisional_memory_save'' (JBool False)) (JBool (tx_provisional_memory_save c))
              \<or> \<not> py_eq (dict_get_or md ''provisional_memory_recall'' (JBool False)) (JBool (tx_provisional_memory_recall c))
         then Inl (PermissionDeniedError ''turn provisional policy changed'')
         else if \<not> (py_eq (dict_get md ''person_id'') (jopt_str (tx_person_id c))
                   \<and> py_eq (dict_get md ''person_revision'') (jopt_int (tx_person_revision c))
                   \<and> py_eq (dict_get md ''identity_epoch'') (jopt_int (tx_identity_epoch c))
                   \<and> py_eq (dict_get md ''memory_realm_id'') (JStr (tx_memory_realm_id c)))
         then Inl (PermissionDeniedError ''turn belongs to another memory scope'')
         else Inr ())"


section \<open>Conversation rows\<close>

definition find_conversation :: "string \<Rightarrow> runtime_db \<Rightarrow> conversation_row option" where
  "find_conversation i db = List.find (\<lambda>c. cv_id c = i) (db_conversations db)"

definition find_turn :: "string \<Rightarrow> runtime_db \<Rightarrow> turn_row option" where
  "find_turn i db = List.find (\<lambda>t. tn_id t = i) (db_turns db)"

text \<open>\<open>_insert_ignore\<close> for a conversation: nothing when the id is taken.\<close>

definition insert_conversation :: "conversation_row \<Rightarrow> runtime_db \<Rightarrow> runtime_db" where
  "insert_conversation row db =
     (if cv_id row \<in> set (map cv_id (db_conversations db)) then db
      else db\<lparr>db_conversations := db_conversations db @ [row]\<rparr>)"

definition new_conversation ::
  "turn_input \<Rightarrow> json_dict \<Rightarrow> string option \<Rightarrow> datetime \<Rightarrow> datetime \<Rightarrow> conversation_row" where
  "new_conversation ti md sid started updated =
     \<lparr>cv_id = ti_conversation_id ti, cv_owner_id = tx_owner_id (ti_context ti),
      cv_companion_id = tx_companion_id (ti_context ti), cv_runtime_session_id = sid,
      cv_source_device_id = tx_device_id (ti_context ti), cv_title = None, cv_status = ''active'',
      cv_started_at = sql_datetime started, cv_updated_at = sql_datetime updated, cv_metadata = md\<rparr>"

text \<open>The checks the guard and the persister make on the claimed conversation and an existing turn.\<close>

definition check_scope :: "turn_input \<Rightarrow> runtime_db \<Rightarrow> conversation_row result" where
  "check_scope ti db =
     (case find_conversation (ti_conversation_id ti) db of
        None \<Rightarrow> Inl (RuntimeError ''conversation claim failed'')
      | Some row \<Rightarrow> (case verify_conversation_scope row ti of Inl e \<Rightarrow> Inl e | Inr u \<Rightarrow> Inr row))"

definition check_turn_scope :: "turn_input \<Rightarrow> runtime_db \<Rightarrow> turn_row option result" where
  "check_turn_scope ti db =
     (case find_turn (ti_turn_id ti) db of
        None \<Rightarrow> Inr None
      | Some t \<Rightarrow> (case verify_existing_turn_scope t ti of Inl e \<Rightarrow> Inl e | Inr u \<Rightarrow> Inr (Some t)))"

text \<open>\<open>build_agent_conversation_guard\<close>.\<close>

definition conversation_guard :: "datetime \<Rightarrow> turn_input \<Rightarrow> runtime_db \<Rightarrow> runtime_db result" where
  "conversation_guard now ti db =
     (case conversation_metadata ti of
        Inl e \<Rightarrow> Inl e
      | Inr md \<Rightarrow>
          (let db1 = insert_conversation (new_conversation ti md None now now) db
           in case check_scope ti db1 of
                Inl e \<Rightarrow> Inl e
              | Inr row \<Rightarrow> (case check_turn_scope ti db1 of Inl e \<Rightarrow> Inl e | Inr t \<Rightarrow> Inr db1)))"


section \<open>Session rows\<close>

definition session_metadata :: "turn_input \<Rightarrow> json_dict" where
  "session_metadata ti =
     [(''input_modality'', JStr (modality_value (ti_input_modality ti))),
      (''conversation_id'', JStr (ti_conversation_id ti)), (''trace_id'', JStr (tx_trace_id (ti_context ti))),
      (''request_id'', JStr (tx_request_id (ti_context ti)))]"

definition touch_session :: "datetime \<Rightarrow> turn_input \<Rightarrow> session_row \<Rightarrow> session_row" where
  "touch_session now ti s =
     s\<lparr>rs_owner_id := tx_owner_id (ti_context ti), rs_companion_id := tx_companion_id (ti_context ti),
       rs_source_device_id := tx_device_id (ti_context ti), rs_transport := ''grpc_chat'', rs_status := ''active'',
       rs_metadata := session_metadata ti, rs_last_seen_at := sql_datetime now, rs_updated_at := sql_datetime now\<rparr>"

text \<open>\<open>_upsert_runtime_session\<close>.\<close>

definition upsert_session :: "datetime \<Rightarrow> turn_input \<Rightarrow> string \<Rightarrow> runtime_db \<Rightarrow> runtime_db" where
  "upsert_session now ti sid db =
     (if sid \<in> set (map rs_session_id (db_sessions db))
      then db\<lparr>db_sessions := map (\<lambda>s. if rs_session_id s = sid then touch_session now ti s else s) (db_sessions db)\<rparr>
      else db\<lparr>db_sessions := db_sessions db @
        [touch_session now ti \<lparr>rs_session_id = sid, rs_owner_id = tx_owner_id (ti_context ti),
           rs_companion_id = tx_companion_id (ti_context ti), rs_source_device_id = tx_device_id (ti_context ti),
           rs_transport = [], rs_status = ''active'', rs_metadata = [], rs_started_at = sql_datetime now,
           rs_last_seen_at = sql_datetime now, rs_updated_at = sql_datetime now\<rparr>]\<rparr>)"


section \<open>Turn rows\<close>

text \<open>The bounded projection of the speaker observation that a turn stores.\<close>

definition observation_json :: "speaker_observation option \<Rightarrow> json" where
  "observation_json obs =
     (case obs of
        None \<Rightarrow> JNull
      | Some s \<Rightarrow> JDict [(''status'', JStr (so_status s)), (''reason'', so_reason s),
          (''person_id'', jopt_str (so_person_id s)), (''person_revision'', so_person_revision s),
          (''confidence'', so_confidence s), (''turn_id'', so_turn_id s),
          (''decision_version'', so_decision_version s), (''audio_quality'', so_audio_quality s)])"

definition turn_metadata_json :: "turn_input \<Rightarrow> string \<Rightarrow> triage_kind \<Rightarrow> json_dict \<Rightarrow> json_dict" where
  "turn_metadata_json ti sid triage timings =
     (let c = ti_context ti
      in dict_merge (dict_merge [(''speaker_observation'', observation_json (tx_speaker_observation c))] timings)
       [(''owner_id'', JStr (tx_owner_id c)), (''companion_id'', JStr (tx_companion_id c)),
        (''runtime_session_id'', JStr sid), (''memory_realm_id'', JStr (tx_memory_realm_id c)),
        (''memory_enabled'', JBool (tx_memory_enabled c)),
        (''provisional_memory_save'', JBool (tx_provisional_memory_save c)),
        (''provisional_memory_recall'', JBool (tx_provisional_memory_recall c)),
        (''person_id'', jopt_str (tx_person_id c)), (''identity_epoch'', jopt_int (tx_identity_epoch c)),
        (''person_revision'', jopt_int (tx_person_revision c)), (''genome_id'', JStr (tx_genome_id c)),
        (''genome_hash'', JStr (tx_genome_hash c)), (''schema_version'', JStr (tx_schema_version c)),
        (''realizer_version'', JStr (tx_realizer_version c)), (''session_id'', JStr (ti_session_id ti)),
        (''source_session_id'', jopt_str (tx_source_session_id c)),
        (''input_modality'', JStr (modality_value (ti_input_modality ti))), (''device_id'', jopt_str (tx_device_id c)),
        (''triage_kind'', JStr (triage_value triage)), (''trace_id'', JStr (tx_trace_id c)),
        (''request_id'', JStr (tx_request_id c))])"

definition trace_json :: "json_dict \<Rightarrow> json_dict" where
  "trace_json timings = as_dict (dict_get timings ''turn_trace'')"

text \<open>What the persister is told about a finished turn.\<close>

record turn_outcome =
  to_status :: turn_status
  to_triage :: triage_kind
  to_started_at :: datetime
  to_finished_at :: datetime
  to_first_delta_ms :: "int option"
  to_total_ms :: int
  to_usage_in :: int
  to_usage_out :: int
  to_error_code :: "string option"
  to_timings :: json_dict
  to_user_text :: utext
  to_assistant_text :: utext
  to_is_private :: bool
  to_model_id :: "string option"

definition outcome_metrics :: "turn_outcome \<Rightarrow> json_dict" where
  "outcome_metrics o1 =
     [(''latency_first_delta_ms'', jopt_int (to_first_delta_ms o1)), (''total_latency_ms'', JInt (to_total_ms o1)),
      (''tokens_in'', JInt (to_usage_in o1)), (''tokens_out'', JInt (to_usage_out o1))]"

definition turn_metrics_json :: "turn_input \<Rightarrow> turn_outcome \<Rightarrow> json_dict" where
  "turn_metrics_json ti o1 =
     outcome_metrics o1
     @ [(''cost_usd_micro'', JInt 0), (''model'', jopt_str (to_model_id o1)),
        (''error_code'', jopt_str (to_error_code o1)), (''device_id'', jopt_str (tx_device_id (ti_context ti))),
        (''input_modality'', JStr (modality_value (ti_input_modality ti))),
        (''triage_kind'', JStr (triage_value (to_triage o1)))]"

definition opt_trace_id :: "turn_input \<Rightarrow> string option" where
  "opt_trace_id ti = (if tx_trace_id (ti_context ti) = [] then None else Some (tx_trace_id (ti_context ti)))"

definition new_turn_row :: "turn_input \<Rightarrow> string \<Rightarrow> int \<Rightarrow> turn_outcome \<Rightarrow> turn_row" where
  "new_turn_row ti sid seq o1 =
     \<lparr>tn_id = ti_turn_id ti, tn_conversation_id = ti_conversation_id ti, tn_seq = seq,
      tn_runtime_session_id = Some sid, tn_source_device_id = tx_device_id (ti_context ti),
      tn_trigger = trigger_value (ti_trigger ti), tn_status = turn_status_value (to_status o1),
      tn_started_at = sql_datetime (to_started_at o1), tn_finished_at = Some (sql_datetime (to_finished_at o1)),
      tn_trace_id = opt_trace_id ti, tn_trace = trace_json (to_timings o1), tn_metrics = turn_metrics_json ti o1,
      tn_metadata = turn_metadata_json ti sid (to_triage o1) (to_timings o1)\<rparr>"

definition update_turn_row :: "turn_input \<Rightarrow> string \<Rightarrow> turn_outcome \<Rightarrow> turn_row \<Rightarrow> turn_row" where
  "update_turn_row ti sid o1 t =
     t\<lparr>tn_trigger := trigger_value (ti_trigger ti), tn_status := turn_status_value (to_status o1),
       tn_started_at := sql_datetime (to_started_at o1), tn_finished_at := Some (sql_datetime (to_finished_at o1)),
       tn_runtime_session_id := Some sid, tn_source_device_id := tx_device_id (ti_context ti),
       tn_trace_id := opt_trace_id ti, tn_trace := trace_json (to_timings o1),
       tn_metrics := dict_merge (tn_metrics t)
         (outcome_metrics o1 @ [(''model'', jopt_str (to_model_id o1)), (''error_code'', jopt_str (to_error_code o1))]),
       tn_metadata := turn_metadata_json ti sid (to_triage o1) (to_timings o1)\<rparr>"

text \<open>\<open>_next_turn_seq\<close>: the number of turns the conversation has.\<close>

definition next_turn_seq :: "string \<Rightarrow> runtime_db \<Rightarrow> int" where
  "next_turn_seq cid db = int (length (conv_turns cid db))"

definition upsert_turn :: "turn_input \<Rightarrow> string \<Rightarrow> turn_outcome \<Rightarrow> turn_row option \<Rightarrow> runtime_db \<Rightarrow> runtime_db" where
  "upsert_turn ti sid o1 existing db =
     (case existing of
        None \<Rightarrow> db\<lparr>db_turns := db_turns db @ [new_turn_row ti sid (next_turn_seq (ti_conversation_id ti) db) o1]\<rparr>
      | Some t \<Rightarrow> db\<lparr>db_turns := map (\<lambda>u. if tn_id u = ti_turn_id ti then update_turn_row ti sid o1 u else u)
                               (db_turns db)\<rparr>)"


section \<open>Message rows\<close>

definition message_metadata :: "string \<Rightarrow> int \<Rightarrow> bool \<Rightarrow> speaker_observation option \<Rightarrow> json_dict" where
  "message_metadata turn_id seq is_private obs =
     [(''turn_id'', JStr turn_id), (''seq_in_turn'', JInt seq)]
     @ (if seq = 0 then [(''speaker_source'', speaker_source obs)] else [])
     @ (if is_private then [(''is_private'', JBool True)] else [])"

definition default_seq :: "string \<Rightarrow> int" where
  "default_seq role =
     (if role = ''user'' then 0 else if role = ''assistant'' then 1 else if role = ''proactive'' then 1
      else if role = ''tool'' then 2 else if role = ''system'' then - 1 else 99)"

text \<open>\<open>_seq_from_message_metadata\<close>; a Python bool is an int.\<close>

definition seq_from_metadata :: "json_dict \<Rightarrow> string \<Rightarrow> int" where
  "seq_from_metadata md role =
     (case dict_get md ''seq_in_turn'' of JInt i \<Rightarrow> i | JBool b \<Rightarrow> (if b then 1 else 0) | _ \<Rightarrow> default_seq role)"

definition put_if_some :: "string \<Rightarrow> json option \<Rightarrow> json_dict \<Rightarrow> json_dict" where
  "put_if_some k v d = (case v of None \<Rightarrow> d | Some j \<Rightarrow> dict_put k j d)"

definition row_metadata :: "string \<Rightarrow> chat_message \<Rightarrow> json_dict" where
  "row_metadata turn_id m =
     put_if_some ''tool_arguments'' (map_option JDict (cm_tool_arguments m))
       (put_if_some ''tool_name'' (map_option JStr (cm_tool_name m))
         (put_if_some ''tool_call_id'' (map_option JStr (cm_tool_call_id m))
           (put_if_some ''model'' (map_option JStr (cm_model m))
             (put_if_some ''tokens'' (map_option JInt (cm_tokens m))
               (dict_setdefault ''turn_id'' (JStr turn_id) (cm_metadata m))))))"

definition message_to_row :: "string \<Rightarrow> chat_message \<Rightarrow> int option \<Rightarrow> message_row" where
  "message_to_row turn_id m seq =
     (let md = row_metadata turn_id m
      in \<lparr>mg_id = cm_id m, mg_turn_id = turn_id,
          mg_seq = (case seq of Some s \<Rightarrow> s | None \<Rightarrow> seq_from_metadata md (role_value (cm_role m))),
          mg_role = role_value (cm_role m), mg_content = cm_content m, mg_content_type = cm_content_type m,
          mg_visibility = (if truthy (dict_get md ''is_private'') then ''private'' else ''normal''),
          mg_created_at = sql_datetime (cm_created_at m), mg_metadata = md\<rparr>)"

text \<open>\<open>_upsert_message_row\<close>: the row in the slot is overwritten, its id kept.\<close>

definition upsert_message :: "string \<Rightarrow> int \<Rightarrow> chat_message \<Rightarrow> runtime_db \<Rightarrow> runtime_db" where
  "upsert_message turn_id seq m db =
     (let row = message_to_row turn_id m (Some seq);
          slot = (\<lambda>r. mg_turn_id r = turn_id \<and> mg_seq r = seq)
      in if \<exists>r \<in> set (db_messages db). slot r
         then db\<lparr>db_messages := map (\<lambda>r. if slot r then row\<lparr>mg_id := mg_id r\<rparr> else r) (db_messages db)\<rparr>
         else db\<lparr>db_messages := db_messages db @ [row]\<rparr>)"

definition user_message :: "turn_input \<Rightarrow> turn_outcome \<Rightarrow> chat_message" where
  "user_message ti o1 =
     (new_message (turn_message_id (ti_turn_id ti) 0) USER (to_user_text o1) (to_started_at o1))
       \<lparr>cm_metadata := message_metadata (ti_turn_id ti) 0 (to_is_private o1)
          (tx_speaker_observation (ti_context ti))\<rparr>"

definition assistant_message :: "turn_input \<Rightarrow> turn_outcome \<Rightarrow> chat_message" where
  "assistant_message ti o1 =
     (new_message (turn_message_id (ti_turn_id ti) 1) ASSISTANT (to_assistant_text o1) (to_finished_at o1))
       \<lparr>cm_tokens := (if to_usage_out o1 = 0 then None else Some (to_usage_out o1)), cm_model := to_model_id o1,
        cm_metadata := dict_merge (message_metadata (ti_turn_id ti) 1 (to_is_private o1) None)
          (if truthy (dict_get (ti_metadata ti) ''capability_references'')
           then [(''capability_references'', dict_get (ti_metadata ti) ''capability_references''),
                 (''reference_session_id'', JStr (ti_session_id ti))]
           else [])\<rparr>"


section \<open>The persister\<close>

text \<open>The conversation's columns the persister brings up to date.\<close>

definition touch_conversation :: "turn_input \<Rightarrow> string \<Rightarrow> turn_outcome \<Rightarrow> conversation_row \<Rightarrow> conversation_row" where
  "touch_conversation ti sid o1 c =
     c\<lparr>cv_updated_at := sql_datetime (to_finished_at o1), cv_runtime_session_id := Some sid,
       cv_source_device_id := tx_device_id (ti_context ti)\<rparr>"

definition set_conversation :: "string \<Rightarrow> (conversation_row \<Rightarrow> conversation_row) \<Rightarrow> runtime_db \<Rightarrow> runtime_db" where
  "set_conversation i f db =
     db\<lparr>db_conversations := map (\<lambda>c. if cv_id c = i then f c else c) (db_conversations db)\<rparr>"

definition write_messages :: "turn_input \<Rightarrow> turn_outcome \<Rightarrow> runtime_db \<Rightarrow> runtime_db" where
  "write_messages ti o1 db =
     (let db1 = (if to_user_text o1 = [] then db else upsert_message (ti_turn_id ti) 0 (user_message ti o1) db)
      in if to_assistant_text o1 = [] then db1 else upsert_message (ti_turn_id ti) 1 (assistant_message ti o1) db1)"

text \<open>\<open>_persist_once\<close>: one transaction, rolled back by any exception.\<close>

definition persist_once :: "datetime \<Rightarrow> turn_input \<Rightarrow> turn_outcome \<Rightarrow> runtime_db \<Rightarrow> runtime_db result" where
  "persist_once now ti o1 db =
     (case runtime_session_id ti of
        Inl e \<Rightarrow> Inl e
      | Inr sid \<Rightarrow>
     (case conversation_metadata ti of
        Inl e \<Rightarrow> Inl e
      | Inr md \<Rightarrow>
          (let db1 = upsert_session now ti sid db;
               db2 = insert_conversation (new_conversation ti md (Some sid) (to_started_at o1) (to_finished_at o1)) db1
           in case check_scope ti db2 of
                Inl e \<Rightarrow> Inl e
              | Inr row \<Rightarrow>
                  (let db3 = set_conversation (ti_conversation_id ti) (touch_conversation ti sid o1) db2
                   in case check_turn_scope ti db3 of
                        Inl e \<Rightarrow> Inl e
                      | Inr existing \<Rightarrow> Inr (write_messages ti o1 (upsert_turn ti sid o1 existing db3))))))"

text \<open>
  \<open>_persist\<close>: up to five attempts while the database reports a constraint violation. The list holds
  what an attempt finds: the violation it meets (a writer of another process won a race), or the
  database it runs on. The last attempt's violation is raised.
\<close>

fun persist_retry ::
  "nat \<Rightarrow> datetime \<Rightarrow> turn_input \<Rightarrow> turn_outcome \<Rightarrow> (string + runtime_db) list \<Rightarrow> runtime_db result option" where
  "persist_retry attempt now ti o1 [] = None"
| "persist_retry attempt now ti o1 (Inr db # seen) = Some (persist_once now ti o1 db)"
| "persist_retry attempt now ti o1 (Inl violation # seen) =
     (if attempt \<ge> 4 then Some (Inl (IntegrityError violation))
      else persist_retry (attempt + 1) now ti o1 seen)"


section \<open>Reading back\<close>

definition opt_str_of :: "json \<Rightarrow> string option" where
  "opt_str_of j = (case j of JStr s \<Rightarrow> Some s | _ \<Rightarrow> None)"

definition opt_int_of :: "json \<Rightarrow> int option" where
  "opt_int_of j = (case j of JInt i \<Rightarrow> Some i | _ \<Rightarrow> None)"

definition opt_dict_of :: "json \<Rightarrow> json_dict option" where
  "opt_dict_of j = (case j of JDict d \<Rightarrow> Some d | _ \<Rightarrow> None)"

text \<open>\<open>_row_to_message\<close>.\<close>

definition row_to_message :: "string option \<Rightarrow> datetime option \<Rightarrow> message_row \<Rightarrow> chat_message result" where
  "row_to_message turn_status started r =
     (let md1 = put_if_some ''turn_status'' (map_option JStr turn_status) (mg_metadata r);
          md2 = put_if_some ''turn_started_at'' (map_option (\<lambda>t. JStr (isoformat t)) started) md1;
          md = (if mg_visibility r = ''private'' then dict_put ''is_private'' (JBool True) md2 else md2)
      in case role_of_value (mg_role r) of
           Inl e \<Rightarrow> Inl e
         | Inr role \<Rightarrow> Inr \<lparr>cm_id = mg_id r, cm_role = role, cm_content = mg_content r,
             cm_created_at = mg_created_at r, cm_content_type = mg_content_type r,
             cm_tokens = opt_int_of (dict_get md ''tokens''), cm_model = opt_str_of (dict_get md ''model''),
             cm_tool_call_id = opt_str_of (dict_get md ''tool_call_id''),
             cm_tool_name = opt_str_of (dict_get md ''tool_name''),
             cm_tool_arguments = opt_dict_of (dict_get md ''tool_arguments''),
             cm_tool_calls = [], cm_metadata = md\<rparr>)"

fun collect :: "'a result list \<Rightarrow> 'a list result" where
  "collect [] = Inr []"
| "collect (Inl e # rs) = Inl e"
| "collect (Inr x # rs) = (case collect rs of Inl e \<Rightarrow> Inl e | Inr xs \<Rightarrow> Inr (x # xs))"

text \<open>The rows of a conversation joined with their turns, in conversation order.\<close>

definition history_key :: "message_row \<times> turn_row \<Rightarrow> instant \<times> string \<times> int" where
  "history_key p = (dt_instant (tn_started_at (snd p)), tn_id (snd p), mg_seq (fst p))"

definition conversation_rows :: "string \<Rightarrow> runtime_db \<Rightarrow> (message_row \<times> turn_row) list" where
  "conversation_rows cid db =
     sort_key history_key [(m, t). m \<leftarrow> db_messages db, t \<leftarrow> db_turns db, mg_turn_id m = tn_id t \<and> tn_conversation_id t = cid]"

text \<open>
  \<open>build_agent_history_hydrator\<close>: the last \<open>window\<close> rows. The code orders downwards, limits and
  reverses; the order is total on the rows, so that is the end of the upward order.
\<close>

definition hydrate :: "string \<Rightarrow> nat \<Rightarrow> runtime_db \<Rightarrow> chat_message list result" where
  "hydrate cid window db =
     (let rows = conversation_rows cid db
      in collect (map (\<lambda>(m, t). row_to_message (Some (tn_status t)) (Some (tn_started_at t)) m)
           (drop (length rows - window) rows)))"

definition list_for_turn :: "string \<Rightarrow> runtime_db \<Rightarrow> chat_message list result" where
  "list_for_turn turn_id db =
     collect (map (row_to_message None None) (sort_key mg_seq (turn_messages turn_id db)))"

text \<open>\<open>list_for_turns\<close>: the messages grouped by turn, every asked turn present.\<close>

fun group_messages :: "(string \<times> chat_message) list \<Rightarrow> (string \<times> chat_message list) list \<Rightarrow> (string \<times> chat_message list) list" where
  "group_messages [] d = d"
| "group_messages ((t, m) # ms) d =
     group_messages ms (dict_put t ((case map_of d t of None \<Rightarrow> [] | Some l \<Rightarrow> l) @ [m]) d)"

definition list_for_turns :: "string list \<Rightarrow> runtime_db \<Rightarrow> (string \<times> chat_message list) list result" where
  "list_for_turns turn_ids db =
     (if turn_ids = [] then Inr []
      else let rows = sort_key (\<lambda>r. (mg_turn_id r, mg_seq r))
                        (filter (\<lambda>r. mg_turn_id r \<in> set turn_ids) (db_messages db))
           in case collect (map (row_to_message None None) rows) of
                Inl e \<Rightarrow> Inl e
              | Inr ms \<Rightarrow> Inr (group_messages (zip (map mg_turn_id rows) ms)
                            (map (\<lambda>t. (t, [])) (rev (remdups (rev turn_ids))))))"

end
