(* ===== verification/Context_Recall.thy ===== *)
theory Context_Recall
  imports Context_Texts
begin

text \<open>
  The reads of the context compiler that may be slow or fail: long-term memory, commitments, the summary and
  the history (\<open>_memory_recall\<close>, \<open>_memory_recall_queries\<close>, \<open>_active_commitments\<close>, \<open>_summary_context\<close> of
  \<open>domain/context/compiler.py\<close>). Time is explicit: an awaited call answers after a duration, and the
  deadline of all reads cuts the await it falls into. A cut is a cancellation, which \<open>except Exception\<close>
  does not catch. Durations and the float sums of the diagnostics are exact here.
\<close>

section \<open>Awaiting\<close>

text \<open>An exception with its \<open>details\<close> attribute, and what an await can end with.\<close>

datatype read_exc = Read_exc (exc_details: json) (exc_error: py_error)

datatype stop = Cut | Raised read_exc

type_synonym 'a answer = "rat \<times> (read_exc + 'a)"

definition timeout_exc :: read_exc where
  "timeout_exc = Read_exc JNull (AsyncTimeoutError [])"

text \<open>Awaiting an answer from the time \<open>now\<close> on, with the cut at \<open>horizon\<close>: the time after it and the result.\<close>

definition await :: "rat \<Rightarrow> rat \<Rightarrow> 'a answer \<Rightarrow> rat \<times> (stop + 'a)" where
  "await horizon now a =
     (if now + fst a < horizon
      then (now + fst a, case snd a of Inl e \<Rightarrow> Inl (Raised e) | Inr x \<Rightarrow> Inr x)
      else (horizon, Inl Cut))"

text \<open>The same under \<open>asyncio.timeout(limit)\<close>.\<close>

definition await_within :: "rat \<Rightarrow> rat \<Rightarrow> rat \<Rightarrow> 'a answer \<Rightarrow> rat \<times> (stop + 'a)" where
  "await_within limit horizon now a =
     (if now + limit < horizon \<and> now + limit \<le> now + fst a
      then (now + limit, Inl (Raised timeout_exc))
      else await horizon now a)"

text \<open>\<open>_exception_degraded_reason\<close>.\<close>

definition degraded_reason_of :: "read_exc \<Rightarrow> string" where
  "degraded_reason_of e =
     (case exc_details e of
        JDict d \<Rightarrow> (case dict_get d ''reason'' of JStr r \<Rightarrow> if r \<noteq> [] then r else ''error'' | _ \<Rightarrow> ''error'')
      | _ \<Rightarrow> ''error'')"


section \<open>The memory service\<close>

record memory_hit =
  mh_id :: string
  mh_content :: utext
  mh_kind :: string
  mh_similarity :: rat
  mh_metadata :: json_dict

record recall_result =
  rr_context :: utext
  rr_hits :: "memory_hit list"
  rr_degraded :: bool
  rr_degraded_reason :: "string option"
  rr_kg_triples :: "json list"
  rr_diagnostics :: "(string \<times> rat) list"

record active_commitment =
  ac_commitment_id :: string
  ac_promisor :: utext
  ac_action :: utext
  ac_status :: string
  ac_beneficiaries :: "utext list"
  ac_participants :: "utext list"
  ac_condition :: "utext option"
  ac_due_at :: "string option"

record commitment_read =
  cr_commitments :: "active_commitment list"
  cr_total :: int
  cr_truncated :: bool
  cr_degraded :: bool
  cr_degraded_reason :: "string option"

record query_plan =
  qp_episodic_query :: utext
  qp_episodic_k :: int
  qp_semantic_query :: utext
  qp_semantic_k :: int
  qp_voice :: bool
  qp_kg_subjects :: "string list"

text \<open>
  What a request to the service names. \<open>rq_person\<close> is present when the turn has a Person: its id and
  identity epoch.
\<close>

record memory_scope =
  rq_owner_id :: string
  rq_person :: "(string \<times> int option) option"
  rq_companion_id :: string
  rq_memory_realm_id :: string
  rq_device_id :: "string option"
  rq_session_id :: string

record recall_request =
  rq_scope :: memory_scope
  rq_query :: utext
  rq_plan :: query_plan
  rq_timeout :: rat

text \<open>
  The port: each operation answers to its request and the time it is made. \<open>mp_actor\<close> is the constructor
  of the contract's \<open>MemoryActorContext\<close>, which may refuse its arguments; \<open>mp_commitments\<close> is absent when
  the port cannot read commitments.
\<close>

record memory_port =
  mp_actor :: "memory_scope \<Rightarrow> read_exc option"
  mp_provisional :: "memory_scope \<Rightarrow> rat \<Rightarrow> rat \<Rightarrow> recall_result answer"
  mp_recall :: "recall_request \<Rightarrow> rat \<Rightarrow> recall_result answer"
  mp_commitments :: "(memory_scope \<Rightarrow> int \<Rightarrow> rat \<Rightarrow> rat \<Rightarrow> commitment_read answer) option"

definition memory_scope_of :: "turn_input \<Rightarrow> memory_scope" where
  "memory_scope_of ti =
     (let c = ti_context ti
      in \<lparr>rq_owner_id = tx_owner_id c, rq_person = map_option (\<lambda>p. (p, tx_identity_epoch c)) (tx_person_id c),
          rq_companion_id = tx_companion_id c, rq_memory_realm_id = tx_memory_realm_id c,
          rq_device_id = tx_device_id c, rq_session_id = ti_session_id ti\<rparr>)"

text \<open>
  The history as the reads see it: the manager, its state when a read of a window came back, the hydrator
  and how long a read takes.
\<close>

record history_reads =
  hr_manager :: history_manager
  hr_later :: "int \<Rightarrow> history_manager"
  hr_hydrator :: "(string \<Rightarrow> int \<Rightarrow> hydration) option"
  hr_delay :: "int \<Rightarrow> rat"

definition read_history :: "history_reads \<Rightarrow> turn_input \<Rightarrow> int \<Rightarrow> chat_message list answer" where
  "read_history hr ti window =
     (hr_delay hr window,
      Inr (recent_window (hr_hydrator hr) (hr_manager hr) (hr_later hr window) (ti_conversation_id ti) window
             (Some (ti_turn_id ti))))"

text \<open>The compiler's own settings.\<close>

record compiler_config =
  cc_history_window :: int
  cc_degraded_history_window :: int
  cc_memory_timeout :: rat
  cc_memory_top_k :: int
  cc_read_timeout :: rat
  cc_commitment_limit :: int
  cc_commitment_timeout :: rat
  cc_budget_tokens :: "int option"
  cc_budget_mode :: string
  cc_summary_timeout :: rat
  cc_message_budget_tokens :: int
  cc_output_reserve_tokens :: int

definition normalize_budget_mode :: "string \<Rightarrow> string" where
  "normalize_budget_mode mode = (if mode \<in> {''enabled'', ''shadow'', ''disabled''} then mode else ''enabled'')"

text \<open>\<open>ContextCompiler.__init__\<close> on the settings given (\<open>cc_read_timeout\<close> apart, which may be absent).\<close>

definition new_compiler :: "compiler_config \<Rightarrow> rat option \<Rightarrow> compiler_config result" where
  "new_compiler cc read_timeout =
     (let t = (case read_timeout of
                 None \<Rightarrow> max (cc_memory_timeout cc) (max (cc_commitment_timeout cc) (cc_summary_timeout cc))
               | Some r \<Rightarrow> r)
      in if \<not> 0 < t then Inl (ValueError ''context_read_timeout_s must be finite and positive'')
         else Inr (cc\<lparr>cc_degraded_history_window := max (cc_degraded_history_window cc) (cc_history_window cc),
                      cc_read_timeout := t,
                      cc_commitment_limit := max 1 (min (cc_commitment_limit cc) 10),
                      cc_commitment_timeout := max (1 / 1000) (cc_commitment_timeout cc),
                      cc_budget_mode := normalize_budget_mode (cc_budget_mode cc)\<rparr>))"


section \<open>The query\<close>

definition user_text :: "turn_input \<Rightarrow> utext" where
  "user_text ti = (case ti_text ti of None \<Rightarrow> [] | Some t \<Rightarrow> t)"

definition truncate_for_query :: "utext \<Rightarrow> utext" where
  "truncate_for_query t =
     (let s = ustrip t in if length s \<le> 120 then s else take 120 s @ [8230])"

definition query_snippet :: "chat_message \<Rightarrow> utext list" where
  "query_snippet m =
     (let content = ustrip (cm_content m)
      in if content = [] then []
         else [(if cm_role m = USER then [29992, 25143] else [20320]) @ utext_of '': '' @ truncate_for_query content])"

definition query_of_snippets :: "utext \<Rightarrow> utext list \<Rightarrow> utext \<times> string" where
  "query_of_snippets txt snippets =
     (if snippets = [] then (txt, ''current_only'')
      else (py_join [10] (snippets @ [[24403, 21069, 29992, 25143, 58, 32] @ txt]), ''current_plus_recent_history''))"

definition peek_timeout :: rat where
  "peek_timeout = 25 / 1000"

text \<open>\<open>_memory_recall_query\<close>, which peeks at the history for 25 ms, and \<open>_memory_recall_queries\<close>.\<close>

definition memory_recall_query ::
  "compiler_config \<Rightarrow> history_reads \<Rightarrow> turn_input \<Rightarrow> rat \<Rightarrow> rat \<Rightarrow> rat \<times> (stop + utext \<times> string)" where
  "memory_recall_query cc hr ti horizon now =
     (let txt = ustrip (user_text ti)
      in if \<not> pt_history_visible_to_context (policy_from_metadata (ti_metadata ti)) then (now, Inr (txt, ''current_only''))
         else case await_within peek_timeout horizon now (read_history hr ti (min 4 (cc_history_window cc))) of
           (t, Inl Cut) \<Rightarrow> (t, Inl Cut)
         | (t, Inl (Raised e)) \<Rightarrow> (t, Inr (txt, ''current_only_history_peek_failed''))
         | (t, Inr recent) \<Rightarrow>
             (t, Inr (if recent = [] then (txt, ''current_only'')
                      else query_of_snippets txt (concat (map query_snippet (py_tail 4 recent))))))"

definition memory_recall_queries ::
  "compiler_config \<Rightarrow> history_reads \<Rightarrow> turn_input \<Rightarrow> rat \<Rightarrow> rat \<Rightarrow> rat \<times> (stop + utext list \<times> string)" where
  "memory_recall_queries cc hr ti horizon now =
     (let txt = ustrip (user_text ti)
      in case memory_recall_query cc hr ti horizon now of
        (t, Inl s) \<Rightarrow> (t, Inl s)
      | (t, Inr (contextual, source)) \<Rightarrow>
          (t, Inr (if contextual = txt then ([txt], source) else ([txt, contextual], ''current_then_history_fallback''))))"


section \<open>Recall\<close>

definition has_recall_evidence :: "recall_result \<Rightarrow> bool" where
  "has_recall_evidence r = (rr_context r \<noteq> [] \<and> (rr_hits r \<noteq> [] \<or> rr_kg_triples r \<noteq> []))"

text \<open>\<open>backend_trace[key] = backend_trace.get(key, 0.0) + value\<close> for each diagnostic.\<close>

definition add_diagnostics :: "(string \<times> rat) list \<Rightarrow> (string \<times> rat) list \<Rightarrow> (string \<times> rat) list" where
  "add_diagnostics trace d =
     fold (\<lambda>(k, v) tr. dict_put k ((case map_of tr k of None \<Rightarrow> 0 | Some x \<Rightarrow> x) + v) tr) d trace"

definition or_reason :: "string option \<Rightarrow> string option \<Rightarrow> string option" where
  "or_reason a b = (if nonempty_opt a then a else b)"

text \<open>
  The state of a recall: the time, whether the service was asked, the requests made (a history variable),
  the trace of the query, and what the loop has gathered.
\<close>

record query_trace =
  qt_source :: string
  qt_queries :: "utext list"
  qt_attempted :: "utext list"

definition query_preview :: "query_trace \<Rightarrow> utext" where
  "query_preview q = take 160 (py_join (utext_of '' | '') (qt_queries q))"

record recall_state =
  rs_now :: rat
  rs_attempted :: bool
  rs_asked :: "recall_request list"
  rs_query :: "query_trace option"
  rs_recalls :: "recall_result list"
  rs_trace :: "(string \<times> rat) list"
  rs_reason :: "string option"
  rs_tried :: "utext list"

definition start_recall :: "rat \<Rightarrow> recall_state" where
  "start_recall now =
     \<lparr>rs_now = now, rs_attempted = False, rs_asked = [], rs_query = None, rs_recalls = [], rs_trace = [],
      rs_reason = None, rs_tried = []\<rparr>"

definition note_recall :: "recall_result \<Rightarrow> recall_state \<Rightarrow> recall_state" where
  "note_recall r st =
     st\<lparr>rs_recalls := rs_recalls st @ [r], rs_trace := add_diagnostics (rs_trace st) (rr_diagnostics r),
        rs_reason := (if rr_degraded r
                      then or_reason (rs_reason st) (or_reason (rr_degraded_reason r) (Some ''memory_unavailable''))
                      else rs_reason st)\<rparr>"

definition request_of :: "compiler_config \<Rightarrow> turn_input \<Rightarrow> utext \<Rightarrow> rat \<Rightarrow> recall_request" where
  "request_of cc ti query timeout =
     \<lparr>rq_scope = memory_scope_of ti, rq_query = query,
      rq_plan = \<lparr>qp_episodic_query = user_text ti, qp_episodic_k = 3, qp_semantic_query = user_text ti,
                 qp_semantic_k = cc_memory_top_k cc, qp_voice = (ti_input_modality ti = Voice), qp_kg_subjects = [''self'']\<rparr>,
      rq_timeout = timeout\<rparr>"

text \<open>The loop over the queries: it stops at the first evidence and when the time is used up.\<close>

fun recall_loop ::
  "compiler_config \<Rightarrow> memory_port \<Rightarrow> turn_input \<Rightarrow> rat \<Rightarrow> rat \<Rightarrow> utext list \<Rightarrow> recall_state \<Rightarrow> (stop + unit) \<times> recall_state" where
  "recall_loop cc port ti deadline horizon [] st = (Inr (), st)"
| "recall_loop cc port ti deadline horizon (q # qs) st =
     (let remaining = deadline - rs_now st
      in if remaining \<le> 0 then (Inr (), st\<lparr>rs_reason := or_reason (rs_reason st) (Some ''timeout'')\<rparr>)
         else (let rq = request_of cc ti q remaining;
                   st1 = st\<lparr>rs_tried := rs_tried st @ [q], rs_attempted := True, rs_asked := rs_asked st @ [rq]\<rparr>
               in case await horizon (rs_now st) (mp_recall port rq (rs_now st)) of
                    (t, Inl s) \<Rightarrow> (Inl s, st1\<lparr>rs_now := t\<rparr>)
                  | (t, Inr r) \<Rightarrow>
                      (let st2 = note_recall r (st1\<lparr>rs_now := t\<rparr>)
                       in if has_recall_evidence r then (Inr (), st2)
                          else recall_loop cc port ti deadline horizon qs st2)))"

text \<open>\<open>_merge_memory_contexts\<close>.\<close>

fun merge_blocks :: "utext list \<Rightarrow> utext list \<Rightarrow> utext list" where
  "merge_blocks [] blocks = blocks"
| "merge_blocks (c # cs) blocks =
     (let s = ustrip c in merge_blocks cs (if s = [] \<or> s \<in> set blocks then blocks else blocks @ [s]))"

definition merge_memory_contexts :: "utext list \<Rightarrow> utext" where
  "merge_memory_contexts cs = py_join [10, 10] (merge_blocks cs [])"

text \<open>The hits and the triples of the selected recalls, each id once.\<close>

definition merge_hits :: "recall_result list \<Rightarrow> memory_hit list" where
  "merge_hits rs =
     fold (\<lambda>h hits. if mh_id h \<noteq> [] \<and> mh_id h \<notin> set (map mh_id hits) then hits @ [h] else hits) (concat (map rr_hits rs)) []"

definition triple_id :: "text_env \<Rightarrow> json_dict \<Rightarrow> string" where
  "triple_id px t = py_str px (py_or (dict_get t ''id'') (JStr []))"

definition merge_triples :: "text_env \<Rightarrow> recall_result list \<Rightarrow> string list" where
  "merge_triples px rs =
     fold (\<lambda>j ids. case j of
             JDict t \<Rightarrow> (let i = triple_id px t in if i \<noteq> [] \<and> i \<notin> set ids then ids @ [i] else ids)
           | _ \<Rightarrow> ids)
       (concat (map rr_kg_triples rs)) []"

record recall_payload =
  py_text :: "utext option"
  py_degraded :: bool
  py_hit_ids :: "string list"
  py_reason :: "string option"
  py_triple_ids :: "string list"
  py_hits :: "memory_hit list"
  py_trace :: "(string \<times> rat) list"

definition failed_recall :: "utext option \<Rightarrow> string \<Rightarrow> recall_payload" where
  "failed_recall txt reason =
     \<lparr>py_text = txt, py_degraded = True, py_hit_ids = [], py_reason = Some reason, py_triple_ids = [], py_hits = [],
      py_trace = []\<rparr>"

definition nonempty_text :: "utext \<Rightarrow> utext option" where
  "nonempty_text t = (if t = [] then None else Some t)"

text \<open>Evidence before theme blocks: a recall without hits only counts where none has any.\<close>

definition selected_recalls :: "recall_result list \<Rightarrow> recall_result list" where
  "selected_recalls rs =
     (let evident = filter has_recall_evidence rs
      in if evident \<noteq> [] then evident else filter (\<lambda>r. rr_context r \<noteq> []) rs)"

definition recall_payload_of :: "text_env \<Rightarrow> recall_state \<Rightarrow> recall_payload" where
  "recall_payload_of px st =
     (let selected = selected_recalls (rs_recalls st);
          contexts = filter (\<lambda>c. c \<noteq> []) (map rr_context selected);
          hits = merge_hits selected;
          degraded = (nonempty_opt (rs_reason st) \<and> contexts = [])
      in \<lparr>py_text = nonempty_text (merge_memory_contexts contexts), py_degraded = degraded, py_hit_ids = map mh_id hits,
          py_reason = (if degraded then rs_reason st else None), py_triple_ids = merge_triples px selected,
          py_hits = hits, py_trace = rs_trace st\<rparr>)"

text \<open>\<open>_memory_skip_reason\<close>.\<close>

definition memory_skip_reason :: "memory_port option \<Rightarrow> turn_input \<Rightarrow> string option" where
  "memory_skip_reason port ti =
     (let c = ti_context ti
      in if user_text ti = [] then Some ''no_input''
         else if \<not> pt_memory_recall_allowed (policy_from_metadata (ti_metadata ti)) then Some ''privacy_policy''
         else if tx_provisional_memory_recall c \<and> tx_source_session_id c \<noteq> Some (ti_session_id ti)
         then Some ''provisional_session_mismatch''
         else if \<not> tx_provisional_memory_recall c \<and> \<not> tx_memory_enabled c then Some ''personal_memory_disabled''
         else if port = None then Some ''provider_absent''
         else None)"

text \<open>The provisional path: only the sources of this session, and any failure degrades.\<close>

definition provisional_recall :: "compiler_config \<Rightarrow> memory_port \<Rightarrow> turn_input \<Rightarrow> rat \<Rightarrow> recall_state \<Rightarrow> (stop + recall_payload) \<times> recall_state" where
  "provisional_recall cc port ti horizon st =
     (let scope = memory_scope_of ti; limit = cc_memory_timeout cc
      in case mp_actor port scope of
           Some e \<Rightarrow> (Inl (Raised e), st)
         | None \<Rightarrow>
             (case await_within limit horizon (rs_now st) (mp_provisional port scope limit (rs_now st)) of
                (t, Inl Cut) \<Rightarrow> (Inl Cut, st\<lparr>rs_now := t, rs_attempted := True\<rparr>)
              | (t, Inl (Raised e)) \<Rightarrow>
                  (Inr (failed_recall None ''provisional_sources_unavailable''), st\<lparr>rs_now := t, rs_attempted := True\<rparr>)
              | (t, Inr r) \<Rightarrow>
                  (Inr \<lparr>py_text = nonempty_text (rr_context r), py_degraded = rr_degraded r, py_hit_ids = [],
                        py_reason = rr_degraded_reason r, py_triple_ids = [], py_hits = [], py_trace = []\<rparr>,
                   st\<lparr>rs_now := t, rs_attempted := True\<rparr>)))"

definition canonical_recall ::
  "text_env \<Rightarrow> compiler_config \<Rightarrow> memory_port \<Rightarrow> history_reads \<Rightarrow> turn_input \<Rightarrow> rat \<Rightarrow> recall_state
     \<Rightarrow> (stop + recall_payload) \<times> recall_state" where
  "canonical_recall px cc port hr ti horizon st =
     (case memory_recall_queries cc hr ti horizon (rs_now st) of
        (t, Inl Cut) \<Rightarrow> (Inl Cut, st\<lparr>rs_now := t\<rparr>)
      | (t, Inl (Raised e)) \<Rightarrow> (Inr (failed_recall (Some memory_degraded_notice) (degraded_reason_of e)), st\<lparr>rs_now := t\<rparr>)
      | (t, Inr (queries, source)) \<Rightarrow>
          (let q = \<lparr>qt_source = source, qt_queries = queries, qt_attempted = []\<rparr>;
               deadline = rs_now st + cc_memory_timeout cc
           in case recall_loop cc port ti deadline horizon queries (st\<lparr>rs_now := t, rs_query := Some q\<rparr>) of
                (Inl Cut, st') \<Rightarrow> (Inl Cut, st')
              | (Inl (Raised e), st') \<Rightarrow> (Inr (failed_recall (Some memory_degraded_notice) (degraded_reason_of e)), st')
              | (Inr (), st') \<Rightarrow>
                  (Inr (recall_payload_of px st'), st'\<lparr>rs_query := Some (q\<lparr>qt_attempted := rs_tried st'\<rparr>)\<rparr>)))"

definition memory_recall ::
  "text_env \<Rightarrow> compiler_config \<Rightarrow> memory_port option \<Rightarrow> history_reads \<Rightarrow> turn_input \<Rightarrow> rat \<Rightarrow> rat
     \<Rightarrow> (stop + recall_payload option) \<times> recall_state" where
  "memory_recall px cc port hr ti horizon now =
     (case (memory_skip_reason port ti, port) of
        (None, Some p) \<Rightarrow>
          (case (if tx_provisional_memory_recall (ti_context ti) then provisional_recall cc p ti horizon (start_recall now)
                 else canonical_recall px cc p hr ti horizon (start_recall now)) of
             (Inl s, st) \<Rightarrow> (Inl s, st)
           | (Inr payload, st) \<Rightarrow> (Inr (Some payload), st))
      | _ \<Rightarrow> (Inr None, start_recall now))"


section \<open>Commitments and summary\<close>

definition active_commitments ::
  "compiler_config \<Rightarrow> memory_port option \<Rightarrow> turn_input \<Rightarrow> rat \<Rightarrow> rat \<Rightarrow> rat \<times> (stop + commitment_read option)" where
  "active_commitments cc port ti horizon now =
     (case port of
        None \<Rightarrow> (now, Inr None)
      | Some p \<Rightarrow>
          (if \<not> tx_memory_enabled (ti_context ti) \<or> user_text ti = []
              \<or> \<not> pt_memory_recall_allowed (policy_from_metadata (ti_metadata ti))
           then (now, Inr None)
           else case mp_commitments p of
             None \<Rightarrow> (now, Inr None)
           | Some reader \<Rightarrow>
               (case await horizon now (reader (memory_scope_of ti) (cc_commitment_limit cc) (cc_commitment_timeout cc) now) of
                  (t, Inl Cut) \<Rightarrow> (t, Inl Cut)
                | (t, Inl (Raised e)) \<Rightarrow>
                    (t, Inr (Some \<lparr>cr_commitments = [], cr_total = 0, cr_truncated = False, cr_degraded = True,
                                   cr_degraded_reason = Some (degraded_reason_of e)\<rparr>))
                | (t, Inr r) \<Rightarrow> (t, Inr (Some r)))))"

text \<open>
  \<open>_summary_context\<close> with \<open>_call_summary_provider\<close>: the provider answers to the conversation id; an empty
  answer is none, and a timeout is raised again.
\<close>

definition summary_context ::
  "compiler_config \<Rightarrow> (string \<Rightarrow> utext option answer) option \<Rightarrow> turn_input \<Rightarrow> rat \<Rightarrow> rat \<Rightarrow> rat \<times> (stop + utext option)" where
  "summary_context cc provider ti horizon now =
     (case provider of
        None \<Rightarrow> (now, Inr None)
      | Some p \<Rightarrow>
          (if \<not> pt_history_visible_to_context (policy_from_metadata (ti_metadata ti)) then (now, Inr None)
           else case await_within (cc_summary_timeout cc) horizon now (p (ti_conversation_id ti)) of
             (t, Inl s) \<Rightarrow> (t, Inl s)
           | (t, Inr txt) \<Rightarrow>
               (t, Inr (case txt of None \<Rightarrow> None | Some s \<Rightarrow> if s = [] then None else Some (ustrip s)))))"

end
