(* ===== verification/Persona_Realizer.thy ===== *)
theory Persona_Realizer
  imports Context_Recall
begin

text \<open>
  Persona prompts: \<open>domain/personas/realizer.py\<close>, \<open>memory_adapter.py\<close> and the reads of \<open>service.py\<close>
  that the context compiler makes. The SDK's genome is a record of the fields this code reads; the store of
  genomes is a parameter. The float literals are their exact values.
\<close>

section \<open>Genome and state\<close>

text \<open>A value of a relation policy: a text, or something else that is true or false.\<close>

datatype policy_text = Text utext | Not_text bool

record relation_policy =
  rp_reaction_style :: policy_text
  rp_guidance :: policy_text

record persona_genome =
  pg_name :: utext
  pg_archetype :: utext
  pg_self_concept :: utext
  pg_values :: "utext list"
  pg_boundaries :: "utext list"
  pg_portrait :: utext
  pg_tensions :: "utext list"
  pg_growth_edges :: "utext list"
  pg_stage :: utext
  pg_narrative :: utext
  pg_safety_boundaries :: "utext list"
  pg_voice_portrait :: utext
  pg_behavior_guidance :: "utext list"
  pg_modality_notes :: "(string \<times> utext) list"
  pg_dialogue_examples :: "utext list"
  pg_signature_phrases :: json_dict
  pg_use_memory_as_evidence :: json
  pg_relation_policies :: "(string \<times> relation_policy option) list"

record stored_genome =
  gs_owner_id :: string
  gs_companion_id :: string
  gs_genome_id :: string
  gs_genome_hash :: string
  gs_version :: int
  gs_genome :: persona_genome
  gs_preferences :: conversation_preferences
  gs_preference_revision :: int

datatype attention_target = Attend_user | Attend_task | Attend_drift | Attend_idle

record persona_state =
  pn_joy :: rat
  pn_sad :: rat
  pn_anger :: rat
  pn_fear :: rat
  pn_surprise :: rat
  pn_energy :: rat
  pn_attention :: attention_target

record evidence_ref =
  er_ref_id :: string
  er_summary :: utext
  er_confidence :: rat

record adapted_memory =
  am_content :: utext
  am_instructions :: "utext list"
  am_evidence_refs :: "evidence_ref list"
  am_degraded :: bool

record realized_persona =
  rz_stored :: stored_genome
  rz_system_prompt :: utext
  rz_stable_prompt :: utext
  rz_volatile_prompt :: utext
  rz_spoken_phrases :: json_dict
  rz_evidence_refs :: "evidence_ref list"


section \<open>Blocks\<close>

definition joined :: "utext list \<Rightarrow> utext" where
  "joined xs = py_join [65307] xs"

definition listed :: "utext list \<Rightarrow> utext list" where
  "listed xs = map (\<lambda>x. utext_of ''- '' @ x) xs"

definition line_if :: "utext \<Rightarrow> utext \<Rightarrow> utext list" where
  "line_if label v = (if v = [] then [] else [label @ v])"

definition list_line :: "utext \<Rightarrow> utext \<Rightarrow> utext list \<Rightarrow> utext list" where
  "list_line label sep xs = (if xs = [] then [] else [label @ py_join sep xs])"

definition identity_block :: "persona_genome \<Rightarrow> utext" where
  "identity_block g =
     py_join [10]
       ([[20320, 26159, 12300] @ pg_name g @ [12301, 65288] @ pg_archetype g @ [65289, 12290]]
        @ line_if [20320, 22914, 20309, 29702, 35299, 33258, 24049, 65306] (pg_self_concept g)
        @ line_if [20320, 30340, 20154, 26684, 30011, 20687, 65306] (pg_portrait g)
        @ list_line [20320, 37325, 35270, 65306] [65307] (pg_values g)
        @ list_line [19981, 21487, 31361, 30772, 30340, 36793, 30028, 65306] [65307] (pg_boundaries g)
        @ list_line [20320, 20869, 22312, 25345, 32493, 38754, 23545, 30340, 24352, 21147, 65306] [65307] (pg_tensions g)
        @ list_line [20320, 27491, 22312, 23398, 20064, 21644, 25104, 38271, 30340, 26041, 21521, 65306] [65307] (pg_growth_edges g))"

definition relationship_block :: "persona_genome \<Rightarrow> utext" where
  "relationship_block g =
     py_join [10]
       ([([20320, 19982]
      @ utext_of '' owner ''
      @ [30340, 20851, 31995, 38454, 27573, 65306]) @ pg_stage g]
        @ line_if [20320, 20204, 30340, 20851, 31995, 65306] (pg_narrative g)
        @ (if pg_safety_boundaries g = [] then []
           else [36825, 27573, 20851, 31995, 30340, 23433, 20840, 36793, 30028, 65306] # listed (pg_safety_boundaries g)))"

definition expression_block :: "persona_genome \<Rightarrow> input_modality \<Rightarrow> utext" where
  "expression_block g modality =
     (let ls = line_if [] (pg_voice_portrait g) @ listed (pg_behavior_guidance g)
        @ (case map_of (pg_modality_notes g) (modality_value modality) of
             None \<Rightarrow> []
           | Some remark \<Rightarrow>
               line_if ([24403, 21069, 23186, 20171, 65288] @ utext_of (modality_value modality) @ [65289, 65306]) remark)
        @ (if pg_dialogue_examples g = [] then []
           else [20856, 22411, 34920, 36798, 31034, 20363, 65288, 23398, 20064, 27668, 36136, 65292, 19981,
         29031, 25220, 20869, 23481, 65289, 65306] # listed (pg_dialogue_examples g))
      in if ls = [] then [] else py_join [10] ([34920, 36798, 26041, 24335, 65306] # ls))"

definition memory_block :: "adapted_memory \<Rightarrow> utext" where
  "memory_block m =
     py_join [10]
       ((if am_degraded m then [[35760, 24518, 29366, 24577, 65306, 24403, 21069, 19981, 21487, 29992, 25110, 37096, 20998,
         38477, 32423, 65292, 19981, 35201, 20551, 35013, 35760, 24471, 26410, 25552, 20379, 30340,
         20449, 24687, 12290]] else [])
        @ (if am_content m = [] then []
           else [[21484, 22238, 35760, 24518, 65288, 21482, 25226, 26377, 35777, 25454, 30340, 20869, 23481,
         24403, 20316, 20107, 23454, 65289, 65306], am_content m])
        @ (if am_instructions m = [] then [] else [35760, 24518, 28040, 36153, 36793, 30028, 65306] # listed (am_instructions m)))"

text \<open>\<open>MoodVector.dominant\<close>: the first of the largest; \<open>PersonaRuntimeState.to_prompt_hint\<close>.\<close>

fun largest :: "('a \<times> rat) \<Rightarrow> ('a \<times> rat) list \<Rightarrow> 'a \<times> rat" where
  "largest best [] = best"
| "largest best (x # xs) = largest (if snd best < snd x then x else best) xs"

definition dominant_mood :: "persona_state \<Rightarrow> utext \<times> rat" where
  "dominant_mood s =
     largest ([24515, 24773, 19981, 38169], pn_joy s)
       [([30053, 20302, 33853], pn_sad s), ([26377, 28857, 28902, 36481], pn_anger s),
        ([26377, 20123, 19981, 23433], pn_fear s), ([24494, 24494, 24778, 35766], pn_surprise s)]"

definition prompt_hint :: "persona_state \<Rightarrow> utext" where
  "prompt_hint s =
     joined
       ((if snd (dominant_mood s) > 3602879701896397 / 9007199254740992 then [fst (dominant_mood s)] else [])
        @ (if pn_energy s < 5404319552844595 / 18014398509481984 then [[31934, 21147, 26377, 28857, 20302]]
           else if pn_energy s > 7656119366529843 / 9007199254740992 then [[29366, 24577, 39281, 28385]] else [])
        @ (case pn_attention s of
             Attend_user \<Rightarrow> [([27880, 24847, 21147, 22312]
      @ utext_of '' owner ''
      @ [36523, 19978])]
           | Attend_drift \<Rightarrow> [[24605, 32490, 26377, 28857, 36339]]
           | _ \<Rightarrow> []))"

definition runtime_state_block :: "persona_state option \<Rightarrow> utext" where
  "runtime_state_block s =
     (case s of
        None \<Rightarrow> []
      | Some st \<Rightarrow> if prompt_hint st = [] then [] else [24403, 21069, 29366, 24577, 65306] @ prompt_hint st)"

definition realtime_block :: "json_dict option \<Rightarrow> utext" where
  "realtime_block realtime =
     (case realtime of
        None \<Rightarrow> []
      | Some d \<Rightarrow>
          (let parts = (if truthy (dict_get d ''interrupted'')
                        then [(utext_of ''owner ''
      @ [21018, 21018, 25171, 26029, 19978, 19968, 36718, 65292, 20248, 20808, 22238, 24212, 24403,
         21069, 24847, 22270, 24182, 20445, 25345, 31616, 27905])] else [])
                     @ (if truthy (dict_get d ''temporary'')
                        then [[24403, 21069, 26159, 20020, 26102, 20250, 35805, 65292, 19981, 25226, 26412, 36718, 20869,
         23481, 35270, 20026, 38271, 26399, 20851, 31995, 20107, 23454]] else [])
           in if parts = [] then [] else [24403, 21069, 20132, 20114, 29366, 24577, 65306] @ joined parts))"


section \<open>Realisation\<close>

definition blocks :: "utext list \<Rightarrow> utext" where
  "blocks xs = py_join [10, 10] (filter (\<lambda>b. b \<noteq> []) xs)"

definition realize ::
  "stored_genome \<Rightarrow> adapted_memory \<Rightarrow> persona_state option \<Rightarrow> json_dict option \<Rightarrow> input_modality \<Rightarrow> realized_persona" where
  "realize stored memory state realtime modality =
     (let g = gs_genome stored;
          stable = blocks [identity_block g, relationship_block g, expression_block g modality];
          volatile = blocks [runtime_state_block state, memory_block memory, realtime_block realtime]
      in \<lparr>rz_stored = stored, rz_system_prompt = blocks [stable, volatile], rz_stable_prompt = stable,
          rz_volatile_prompt = volatile, rz_spoken_phrases = pg_signature_phrases g,
          rz_evidence_refs = am_evidence_refs memory\<rparr>)"

text \<open>\<open>realize_commitment_context\<close>.\<close>

definition commitment_line :: "active_commitment \<Rightarrow> utext" where
  "commitment_line c =
     utext_of ''- '' @ joined
       ([utext_of (''id='' @ ac_commitment_id c), utext_of (''status='' @ ac_status c),
         [25215, 35834, 26041, 61] @ ac_promisor c, [20869, 23481, 61] @ ac_action c]
        @ list_line [21463, 30410, 20154, 61] [12289] (ac_beneficiaries c)
        @ list_line [21442, 19982, 32773, 61] [12289] (ac_participants c)
        @ line_if [26465, 20214, 61] (case ac_condition c of None \<Rightarrow> [] | Some t \<Rightarrow> t)
        @ line_if [21040, 26399, 26102, 38388, 61] (case ac_due_at c of None \<Rightarrow> [] | Some t \<Rightarrow> utext_of t))"

definition realize_commitment_context :: "active_commitment list \<Rightarrow> utext" where
  "realize_commitment_context cs =
     py_join [10] (map commitment_line (filter (\<lambda>c. ac_status c \<in> {''proposed'', ''confirmed''}) cs))"


section \<open>Recalled evidence\<close>

definition relation_type :: "text_env \<Rightarrow> memory_hit \<Rightarrow> string" where
  "relation_type px h =
     (let md = mh_metadata h
      in if truthy (dict_get md ''relation_type'') then py_str px (dict_get md ''relation_type'')
         else if truthy (dict_get (as_dict (dict_get md ''relation'')) ''type'')
         then py_str px (dict_get (as_dict (dict_get md ''relation'')) ''type'')
         else if truthy (dict_get md ''predicate'') then py_str px (dict_get md ''predicate'')
         else [])"

definition reaction_text :: "relation_policy \<Rightarrow> utext list" where
  "reaction_text p =
     (let reaction = (case rp_reaction_style p of
                        Text t \<Rightarrow> if t = [] then rp_guidance p else Text t
                      | Not_text b \<Rightarrow> if b then Not_text b else rp_guidance p)
      in case reaction of Text t \<Rightarrow> if ustrip t = [] then [] else [ustrip t] | Not_text b \<Rightarrow> [])"

definition hit_instruction :: "text_env \<Rightarrow> persona_genome \<Rightarrow> memory_hit \<Rightarrow> utext list" where
  "hit_instruction px g h =
     (case map_of (pg_relation_policies g) (relation_type px h) of
        Some (Some p) \<Rightarrow> reaction_text p
      | _ \<Rightarrow> [])"

text \<open>\<open>dict.fromkeys(xs)\<close>: each once, at its first place.\<close>

definition first_once :: "'a list \<Rightarrow> 'a list" where
  "first_once xs = rev (remdups (rev xs))"

definition evidence_of :: "memory_hit \<Rightarrow> evidence_ref" where
  "evidence_of h =
     \<lparr>er_ref_id = mh_id h, er_summary = take 300 (mh_content h), er_confidence = max 0 (min 1 (mh_similarity h))\<rparr>"

definition adapt_memory :: "text_env \<Rightarrow> persona_genome \<Rightarrow> utext \<Rightarrow> memory_hit list \<Rightarrow> bool \<Rightarrow> adapted_memory" where
  "adapt_memory px g formatted hits degraded =
     (if pg_use_memory_as_evidence g = JBool False
      then \<lparr>am_content = [], am_instructions = [], am_evidence_refs = [], am_degraded = degraded\<rparr>
      else \<lparr>am_content = formatted, am_instructions = first_once (concat (map (hit_instruction px g) hits)),
            am_evidence_refs = map evidence_of hits, am_degraded = degraded\<rparr>)"


section \<open>The service\<close>

text \<open>
  The store's two loads, and the runtime state of the Companion at the first and the second read of a turn.
\<close>

record persona_service =
  sv_load_pinned :: "string \<Rightarrow> string \<Rightarrow> string \<Rightarrow> string \<Rightarrow> read_exc + stored_genome"
  sv_load_current :: "string \<Rightarrow> string \<Rightarrow> read_exc + stored_genome"
  sv_state :: persona_state
  sv_later_state :: persona_state

definition load_genome :: "persona_service \<Rightarrow> string \<Rightarrow> string \<Rightarrow> string option \<Rightarrow> string \<Rightarrow> read_exc + stored_genome" where
  "load_genome sv owner companion genome_id genome_hash =
     (case genome_id of
        Some g \<Rightarrow> (if g \<noteq> [] \<and> genome_hash \<noteq> [] then sv_load_pinned sv owner companion g genome_hash
                   else sv_load_current sv owner companion)
      | None \<Rightarrow> sv_load_current sv owner companion)"

definition realize_context ::
  "text_env \<Rightarrow> persona_service \<Rightarrow> string \<Rightarrow> string \<Rightarrow> string option \<Rightarrow> string \<Rightarrow> json_dict option \<Rightarrow> input_modality
     \<Rightarrow> read_exc + realized_persona" where
  "realize_context px sv owner companion genome_id genome_hash realtime modality =
     (case load_genome sv owner companion genome_id genome_hash of
        Inl e \<Rightarrow> Inl e
      | Inr stored \<Rightarrow>
          Inr (realize stored (adapt_memory px (gs_genome stored) [] [] False) (Some (sv_state sv)) realtime modality))"

definition apply_memory_evidence ::
  "text_env \<Rightarrow> persona_service \<Rightarrow> realized_persona \<Rightarrow> memory_hit list \<Rightarrow> json_dict option \<Rightarrow> input_modality \<Rightarrow> realized_persona" where
  "apply_memory_evidence px sv p hits realtime modality =
     realize (rz_stored p) (adapt_memory px (gs_genome (rz_stored p)) [] hits False) (Some (sv_later_state sv)) realtime modality"

text \<open>The part of the prompt a genome and a modality decide alone: it is what a cache can reuse.\<close>

lemma stable_prompt_of_genome:
  "rz_stable_prompt (realize stored m s r modality) = rz_stable_prompt (realize stored m' s' r' modality)"
  by (simp add: realize_def Let_def)

lemma evidence_keeps_stable_prompt:
  assumes "realize_context px sv owner companion genome_id genome_hash realtime modality = Inr p"
  shows "rz_stable_prompt (apply_memory_evidence px sv p hits realtime' modality) = rz_stable_prompt p"
  using assms by (auto simp: realize_context_def apply_memory_evidence_def realize_def Let_def split: sum.splits)

end
