(* ===== verification/Context_Compile.thy ===== *)
theory Context_Compile
  imports Context_Compiler
begin

text \<open>
  The body of \<open>ContextCompiler.compile\<close>: the segments of a turn in the order the code appends them, the
  messages, and the entries of the metadata. Two entries hold texts and are fields of the result: the trace
  of the recall query and the persona's evidence. What a compile that raises has written by then is left out.
\<close>

section \<open>The segments of a turn\<close>

text \<open>What the reads came to: the persona, the memory and its execution, and the rest.\<close>

record compile_view =
  vw_persona :: realized_persona
  vw_memory :: memory_view
  vw_execution :: memory_execution
  vw_commitments :: commitment_view
  vw_summary :: "utext option read"
  vw_history :: "chat_message list"

definition memory_read_status :: "memory_view \<Rightarrow> memory_execution \<Rightarrow> string" where
  "memory_read_status v x =
     (if nonempty_opt (mx_skipped x) then ''skipped''
      else if mv_degraded v then ''failed''
      else if mx_attempted x then ''completed''
      else ''not_started'')"

definition stable_text :: "realized_persona \<Rightarrow> utext" where
  "stable_text p = (if rz_stable_prompt p \<noteq> [] then rz_stable_prompt p else rz_system_prompt p)"

definition speaker_text :: "compile_env \<Rightarrow> compile_input \<Rightarrow> utext" where
  "speaker_text env ci =
     (let ti = ci_input ci
      in speaker_context (ce_text env) (tx_speaker_observation (ti_context ti)) (ci_speaker ci)
           (ti_input_modality ti = Voice) (tx_memory_enabled (ti_context ti)))"

definition build_entries :: "compile_env \<Rightarrow> compile_input \<Rightarrow> compile_view \<Rightarrow> entry list" where
  "build_entries env ci vw =
     (let ti = ci_input ci; p = vw_persona vw; px = ce_text env
      in [persona_entry (stable_text p)]
         @ speaker_entries (speaker_text env ci)
         @ [harness_entry, policy_entry (response_policy_prompt (gs_preferences (rz_stored p)) (ti_input_modality ti))]
         @ summary_entries (summary_text (vw_summary vw))
         @ memory_entries (vw_memory vw)
         @ commitment_entries (vw_commitments vw)
         @ realtime_entries (ci_realtime ci)
         @ history_entries px (ti_session_id ti) (vw_history vw)
         @ persona_state_entries (rz_volatile_prompt p)
         @ coordination_entries (ci_coordination ci)
         @ request_entries px (user_text ti) (memory_read_status (vw_memory vw) (vw_execution vw)) (vw_execution vw))"


section \<open>The messages\<close>

text \<open>Whether the memory's text reached the prompt, as the receipt says it.\<close>

definition memory_evidence_status :: "memory_view \<Rightarrow> bool \<Rightarrow> string" where
  "memory_evidence_status v kept =
     (if mv_degraded v then ''unavailable''
      else if mv_empty v then ''no_match''
      else if memory_text v \<noteq> [] \<and> kept then ''provided''
      else if memory_text v \<noteq> [] then ''omitted_by_context_budget''
      else ''not_provided'')"

definition receipt_text :: "compile_env \<Rightarrow> compile_view \<Rightarrow> entry list \<Rightarrow> utext" where
  "receipt_text env vw kept =
     memory_read_status_block (ce_text env) (memory_read_status (vw_memory vw) (vw_execution vw)) (vw_execution vw)
       (memory_evidence_status (vw_memory vw) (kept_kind ''memory'' kept))"

definition prompt_parts :: "compile_env \<Rightarrow> compile_input \<Rightarrow> compile_view \<Rightarrow> entry list \<Rightarrow> utext list" where
  "prompt_parts env ci vw kept =
     system_parts (history_binding (past_messages kept) (tx_speaker_observation (ti_context (ci_input ci))))
       (receipt_text env vw kept) (background_context_block (ce_text env) (ti_session_id (ci_input ci))) kept"

definition compiled_messages :: "compile_env \<Rightarrow> compile_input \<Rightarrow> compile_view \<Rightarrow> entry list \<Rightarrow> chat_message list" where
  "compiled_messages env ci vw kept =
     new_message (ce_system_id env) SYSTEM_ROLE (py_join [10, 10] (prompt_parts env ci vw kept)) (ce_now env)
     # (if kept_kind ''turn_input.text'' kept
        then [new_message (ce_user_id env) USER (user_text (ci_input ci)) (ce_now env)] else [])"


section \<open>The metadata\<close>

definition to_metadata :: "context_ledger \<Rightarrow> json" where
  "to_metadata l =
     JDict [(''budget_overflow_tokens'', JInt (cl_overflow l)),
       (''segments'', JList (map (\<lambda>s. JDict [(''kind'', JStr (kind_value (sg_kind s))), (''source'', JStr (sg_source s)),
          (''token_estimate'', JInt (sg_tokens s)), (''volatility'', JStr (volatility_value (segment_volatility (sg_kind s)))),
          (''metadata'', JDict (sg_metadata s))]) (cl_kept l))),
       (''dropped_segments'', JList (map (\<lambda>d. JDict [(''kind'', JStr (kind_value (ds_kind d))), (''source'', JStr (ds_source d)),
          (''token_estimate'', JInt (ds_tokens d)), (''reason'', JStr (ds_reason d))]) (cl_dropped l))),
       (''degraded_sources'', JList (map JStr (cl_degraded l))),
       (''total_token_estimate'', JInt (total_tokens (cl_kept l)))]"

definition jstrs :: "string list \<Rightarrow> json" where
  "jstrs xs = JList (map JStr xs)"

definition jcount :: "'a list \<Rightarrow> json" where
  "jcount xs = JInt (int (length xs))"

definition response_policy_trace :: "compile_input \<Rightarrow> compile_view \<Rightarrow> json" where
  "response_policy_trace ci vw =
     (let s = rz_stored (vw_persona vw)
      in JDict [(''version'', JStr ''response_policy.v2''), (''modality'', JStr (modality_value (ti_input_modality (ci_input ci)))),
                (''preference_revision'', JInt (gs_preference_revision s)), (''preferences'', pf_dump (gs_preferences s)),
                (''genome_id'', JStr (gs_genome_id s)), (''realizer_revision'', JStr ''persona_realizer.v2'')])"

definition summary_trace :: "compile_env \<Rightarrow> compile_input \<Rightarrow> compile_view \<Rightarrow> bool \<Rightarrow> json" where
  "summary_trace env ci vw kept =
     JDict [(''attempted'', JBool (ce_summary env \<noteq> None \<and> history_allowed (ci_input ci))),
            (''degraded'', JBool (summary_degraded (vw_summary vw))), (''elapsed_ms'', jopt_int (summary_ms (vw_summary vw))),
            (''timeout_ms'', JInt (milliseconds (cc_summary_timeout (ce_config env)))), (''context_injected'', JBool kept)]"

definition memory_trace :: "compile_env \<Rightarrow> compile_view \<Rightarrow> bool \<Rightarrow> json" where
  "memory_trace env vw kept =
     (let v = vw_memory vw; x = vw_execution vw
      in JDict [(''attempted'', JBool (mx_attempted x)), (''skipped_reason'', jopt_str (mx_skipped x)),
                (''read_status'', JStr (memory_read_status v x)), (''evidence_status'', JStr (memory_evidence_status v kept)),
                (''degraded'', JBool (mv_degraded v)), (''degraded_reason'', jopt_str (mv_reason v)),
                (''empty'', JBool (mv_empty v)), (''elapsed_ms'', jopt_int (mv_ms v)),
                (''timeout_ms'', JInt (milliseconds (cc_memory_timeout (ce_config env)))),
                (''hit_ids'', jstrs (mv_hit_ids v)), (''hit_count'', jcount (mv_hit_ids v)),
                (''kg_triple_ids'', jstrs (mv_triple_ids v)), (''kg_triple_count'', jcount (mv_triple_ids v)),
                (''backend_trace'', JDict (map (\<lambda>(k, q). (k, JFloat q)) (mv_trace v))),
                (''context_injected'', JBool kept)])"

definition commitment_trace :: "compile_env \<Rightarrow> compile_input \<Rightarrow> compile_view \<Rightarrow> bool \<Rightarrow> json" where
  "commitment_trace env ci vw kept =
     (let v = vw_commitments vw; ti = ci_input ci; cc = ce_config env;
          allowed = pt_memory_recall_allowed (policy_from_metadata (ti_metadata ti));
          reads = (case ce_memory env of None \<Rightarrow> False | Some p \<Rightarrow> mp_commitments p \<noteq> None)
      in JDict [(''attempted'', JBool (reads \<and> user_text ti \<noteq> [] \<and> allowed)),
                (''skipped_reason'', if ce_memory env \<noteq> None \<and> user_text ti \<noteq> [] \<and> \<not> allowed
                                     then JStr ''privacy_policy'' else JNull),
                (''degraded'', JBool (cv_degraded v)), (''degraded_reason'', jopt_str (cv_reason v)),
                (''elapsed_ms'', jopt_int (cv_ms v)), (''timeout_ms'', JInt (milliseconds (cc_commitment_timeout cc))),
                (''limit'', JInt (cc_commitment_limit cc)), (''commitment_ids'', jstrs (map ac_commitment_id (cv_commitments v))),
                (''count'', jcount (cv_commitments v)), (''total'', JInt (cv_total v)),
                (''truncated'', JBool (cv_truncated v)), (''context_injected'', JBool kept)])"

text \<open>\<open>out[-1].role is MessageRole.USER and out[-1].content == (ti.text or "")\<close>.\<close>

definition current_user_last :: "utext \<Rightarrow> chat_message list \<Rightarrow> bool" where
  "current_user_last t out = (out \<noteq> [] \<and> cm_role (last out) = USER \<and> cm_content (last out) = t)"

definition context_focus :: "compile_input \<Rightarrow> chat_message list \<Rightarrow> entry list \<Rightarrow> json" where
  "context_focus ci out kept =
     (let t = user_text (ci_input ci)
      in JDict [(''current_user_last'', JBool (current_user_last t out)),
                (''current_user_token_estimate'', JInt (estimate_tokens t)),
                (''summary_injected'', JBool (kept_kind ''conversation_summary'' kept)),
                (''raw_history_message_count'', JInt 0),
                (''background_history_message_count'', jcount (past_messages kept)),
                (''history_presentation'', JStr ''background_context'')])"

definition interrupted_dropped :: "compile_env \<Rightarrow> compile_view \<Rightarrow> entry list \<Rightarrow> int" where
  "interrupted_dropped env vw kept =
     interrupted_history_count (ce_text env) (vw_history vw) - interrupted_history_count (ce_text env) (past_messages kept)"

text \<open>\<open>RealtimeAgentHarness.snapshot(...).to_metadata()\<close>; no tools and handoffs are given.\<close>

definition harness_snapshot :: "compile_env \<Rightarrow> compile_input \<Rightarrow> compile_view \<Rightarrow> entry list \<Rightarrow> json_dict \<Rightarrow> json" where
  "harness_snapshot env ci vw kept guard =
     (let v = vw_memory vw
      in JDict [(''kind'', JStr ''realtime_agent_harness''),
           (''segment_kinds'', jstrs (map (kind_value \<circ> sg_kind \<circ> fst) kept)),
           (''budget'', JDict guard),
           (''memory'', JDict [(''attempted'', JBool (mx_attempted (vw_execution vw))), (''degraded'', JBool (mv_degraded v)),
              (''degraded_reason'', jopt_str (mv_reason v)), (''context_injected'', JBool (kept_kind ''memory'' kept)),
              (''hit_count'', jcount (mv_hit_ids v)), (''kg_triple_count'', jcount (mv_triple_ids v))]),
           (''history'', JDict [(''allowed'', JBool (history_allowed (ci_input ci))), (''message_count'', jcount (past_messages kept)),
              (''summary_injected'', JBool (kept_kind ''conversation_summary'' kept)),
              (''summary_degraded'', JBool (summary_degraded (vw_summary vw))),
              (''presentation'', JStr ''background_context''),
              (''interrupted_context_dropped_count'', JInt (interrupted_dropped env vw kept))]),
           (''tools'', JDict [(''visible_names'', JList [])]), (''handoffs'', JList [])])"

definition history_window_trace :: "compile_env \<Rightarrow> compile_view \<Rightarrow> json" where
  "history_window_trace env vw =
     JDict [(''effective'', JInt (effective_window (ce_config env) (mv_degraded (vw_memory vw)))),
            (''expanded_for_degraded_memory'', JBool (mv_degraded (vw_memory vw)))]"

text \<open>\<open>setdefault("development_guards", {})["context_budget"] = guard\<close>.\<close>

definition note_guard :: "json_dict \<Rightarrow> json_dict \<Rightarrow> json_dict" where
  "note_guard guard md =
     dict_put ''development_guards''
       (JDict (dict_put ''context_budget'' (JDict guard) (as_dict (dict_get md ''development_guards'')))) md"

definition put_all :: "(string \<times> json) list \<Rightarrow> json_dict \<Rightarrow> json_dict" where
  "put_all kvs md = fold (\<lambda>(k, v). dict_put k v) kvs md"

definition compiled_metadata ::
  "compile_env \<Rightarrow> compile_input \<Rightarrow> compile_view \<Rightarrow> entry list \<Rightarrow> context_ledger \<Rightarrow> json_dict \<Rightarrow> chat_message list \<Rightarrow> json_dict" where
  "compiled_metadata env ci vw kept ledger guard out =
     (let ti = ci_input ci; spoken = rz_spoken_phrases (vw_persona vw);
          before = (if spoken = [] then [] else [(''persona_spoken_phrases'', JDict spoken)])
            @ [(''response_policy'', response_policy_trace ci vw)]
            @ (if vw_history vw \<noteq> [] \<and> \<not> topic_switch ti then [(''history_window_applied'', history_window_trace env vw)] else [])
            @ [(''summary_trace'', summary_trace env ci vw (kept_kind ''conversation_summary'' kept)),
               (''memory_trace'', memory_trace env vw (kept_kind ''memory'' kept)),
               (''commitment_context_trace'', commitment_trace env ci vw (kept_kind ''memory.commitments'' kept)),
               (''context_focus'', context_focus ci out kept),
               (''context_structure_version'', JStr ''context_structure.v2''),
               (''history_presentation'', JStr ''background_context''),
               (''context_tags'', JList (context_tags (ce_text env) (map fst kept))),
               (''interrupted_context_dropped_count'', JInt (interrupted_dropped env vw kept)),
               (''context_ledger'', to_metadata ledger)]
      in put_all [(''harness_snapshot'', harness_snapshot env ci vw kept guard)]
           (note_guard guard (put_all before (ti_metadata ti))))"


section \<open>Compiling\<close>

record compiled =
  cd_messages :: "chat_message list"
  cd_kept :: "entry list"
  cd_ledger :: context_ledger
  cd_metadata :: json_dict
  cd_query :: "query_trace option"
  cd_evidence_refs :: "evidence_ref list option"

definition degraded_sources :: "compile_view \<Rightarrow> string list" where
  "degraded_sources vw =
     (if summary_degraded (vw_summary vw) then [''summary''] else [])
     @ (if mv_degraded (vw_memory vw) then [''memory''] else [])"

definition assemble :: "compile_env \<Rightarrow> compile_input \<Rightarrow> compile_view \<Rightarrow> query_trace option \<Rightarrow> read_exc + compiled" where
  "assemble env ci vw query =
     (let es = build_entries env ci vw
      in case apply_budget (ce_config env) (map fst es) of
        Inl e \<Rightarrow> Inl e
      | Inr (ids, ledger0, guard) \<Rightarrow>
          (let kept = at_positions ids es;
               ledger = fold mark_degraded (degraded_sources vw) ledger0;
               out = compiled_messages env ci vw kept
           in Inr \<lparr>cd_messages = out, cd_kept = kept, cd_ledger = ledger,
                   cd_metadata = compiled_metadata env ci vw kept ledger guard out, cd_query = query,
                   cd_evidence_refs = (if mv_hits (vw_memory vw) = [] then None
                                       else Some (rz_evidence_refs (vw_persona vw)))\<rparr>))"

definition compile_view_of :: "compile_env \<Rightarrow> compile_input \<Rightarrow> realized_persona \<Rightarrow> compile_view" where
  "compile_view_of env ci p =
     (let ti = ci_input ci; (r, st) = memory_read env ti; v = memory_view_of r
      in \<lparr>vw_persona = (if mv_hits v = [] then p
                        else apply_memory_evidence (ce_text env) (ce_personas env) p (mv_hits v)
                               (map_option realtime_dict (ci_realtime ci)) (ti_input_modality ti)),
          vw_memory = v,
          vw_execution = \<lparr>mx_attempted = rs_attempted st, mx_skipped = memory_skip_reason (ce_memory env) ti\<rparr>,
          vw_commitments = commitment_view_of (commitment_read_of env ti),
          vw_summary = summary_read env ci,
          vw_history = history_view (ce_config env) ti (mv_degraded v) (history_read env ci)\<rparr>)"

definition realize_persona :: "compile_env \<Rightarrow> compile_input \<Rightarrow> read_exc + realized_persona" where
  "realize_persona env ci =
     (let ti = ci_input ci; c = ti_context ti
      in case ce_locator env (tx_owner_id c) (tx_companion_id c) (ti_conversation_id ti) of
        Inl e \<Rightarrow> Inl e
      | Inr (companion, genome) \<Rightarrow>
          realize_context (ce_text env) (ce_personas env) (tx_owner_id c) companion genome (tx_genome_hash c)
            (map_option realtime_dict (ci_realtime ci)) (ti_input_modality ti))"

definition compile :: "compile_env \<Rightarrow> compile_input \<Rightarrow> read_exc + compiled" where
  "compile env ci =
     (case realize_persona env ci of
        Inl e \<Rightarrow> Inl e
      | Inr p \<Rightarrow> assemble env ci (compile_view_of env ci p) (rs_query (snd (memory_read env (ci_input ci)))))"

end
