(* ===== verification/Context_Facts.thy ===== *)
theory Context_Facts
  imports Context_Compile
begin

text \<open>
  What the context compiler keeps and in which order: no read but the persona's can fail it, what is protected
  survives the budget, the parts come in the order of their volatility.
\<close>

section \<open>What the budget keeps\<close>

lemma set_at_positions: "set (at_positions ids xs) = {xs ! i |i. i \<in> set ids \<and> i < length xs}"
  by (auto simp: at_positions_def in_set_enumerate_eq image_iff Bex_def split_beta)

lemma map_at_positions: "map f (at_positions ids xs) = at_positions ids (map f xs)"
proof -
  have "map snd (filter (\<lambda>(i, x). i \<in> S) (enumerate n (map f xs))) = map f (map snd (filter (\<lambda>(i, x). i \<in> S) (enumerate n xs)))"
    for S n by (induction xs arbitrary: n) simp_all
  then show ?thesis by (simp add: at_positions_def)
qed

lemma subseq_at_positions: "subseq (at_positions ids xs) xs"
proof -
  have "subseq (map snd (filter (\<lambda>(i, x). i \<in> set ids) (enumerate 0 xs))) (map snd (enumerate 0 xs))"
    by (intro subseq_map subseq_filter_left)
  then show ?thesis by (simp add: at_positions_def)
qed

lemma at_every_position [simp]: "at_positions [0..<length xs] xs = xs"
proof -
  have "filter (\<lambda>(i, x). i \<in> set [0..<length xs]) (enumerate 0 xs) = enumerate 0 xs"
    by (rule filter_True) (auto simp: in_set_enumerate_eq)
  then show ?thesis by (simp only: at_positions_def map_snd_enumerate)
qed

lemma admit_optional_ids: "set kept \<subseteq> set (fst (snd (admit_optional m todo used kept dropped)))"
  by (induction m todo used kept dropped rule: admit_optional.induct) auto

lemma prune_positions_protected:
  assumes "i < length segs" "protected (segs ! i)"
  shows "i \<in> set (fst (prune_positions n segs))"
proof -
  have "(i, segs ! i) \<in> set (filter (\<lambda>(i, s). protected s) (enumerate 0 segs))"
    using assms by (simp add: in_set_enumerate_eq)
  then have "fst (i, segs ! i) \<in> set (map fst (filter (\<lambda>(i, s). protected s) (enumerate 0 segs)))"
    unfolding set_map by (rule imageI)
  then show ?thesis
    unfolding prune_positions_def Let_def fst_conv by (rule subsetD [OF admit_optional_ids])
qed

lemma apply_budget_protected:
  assumes "apply_budget cc segs = Inr (ids, ledger, guard)" "i < length segs" "protected (segs ! i)"
  shows "i \<in> set ids"
  using assms prune_positions_protected [of i segs]
  by (auto simp: apply_budget_def Let_def split: option.splits if_splits)

lemma protected_entry_kept:
  assumes "apply_budget cc (map fst es) = Inr (ids, ledger, guard)" "e \<in> set es" "protected (fst e)"
  shows "e \<in> set (at_positions ids es)"
proof -
  obtain i where i: "i < length es" "e = es ! i" using assms(2) by (auto simp: in_set_conv_nth)
  with apply_budget_protected [OF assms(1), of i] assms(3) show ?thesis
    by (auto simp: set_at_positions)
qed

lemma kept_is_built: "e \<in> set (at_positions ids es) \<Longrightarrow> e \<in> set es"
  by (auto simp: set_at_positions)

lemma assembleE:
  assumes "assemble env ci vw q = Inr r"
  obtains ids ledger guard where
    "apply_budget (ce_config env) (map fst (build_entries env ci vw)) = Inr (ids, ledger, guard)"
    "cd_kept r = at_positions ids (build_entries env ci vw)"
    "cd_messages r = compiled_messages env ci vw (cd_kept r)"
    "cd_ledger r = fold mark_degraded (degraded_sources vw) ledger"
  using assms by (auto simp: assemble_def Let_def split: sum.splits prod.splits)


lemma apply_budget_total:
  assumes "\<forall>n. cc_budget_tokens cc = Some n \<longrightarrow> 1 \<le> n"
  obtains ids ledger guard where "apply_budget cc segs = Inr (ids, ledger, guard)"
proof (cases "cc_budget_tokens cc")
  case None
  then show ?thesis using that by (simp add: apply_budget_def Let_def)
next
  case (Some n)
  then have "\<not> n < 1" using assms by force
  with Some show ?thesis using that by (simp add: apply_budget_def Let_def split del: if_split)
qed

lemma filter_protected_kept:
  assumes "apply_budget cc (map fst es) = Inr (ids, ledger, guard)"
    and "\<And>e. e \<in> set es \<Longrightarrow> P e \<Longrightarrow> protected (fst e)"
  shows "filter P (at_positions ids es) = filter P es"
proof -
  have in_ids: "i \<in> set ids" if "(i, e) \<in> set (enumerate 0 es)" "P e" for i e
    using that assms(2) [of e] apply_budget_protected [OF assms(1), of i]
    by (auto simp: in_set_enumerate_eq)
  have "filter P (at_positions ids es) = map snd (filter (\<lambda>p. P (snd p) \<and> fst p \<in> set ids) (enumerate 0 es))"
    by (simp add: at_positions_def filter_map case_prod_unfold o_def conj_commute)
  also have "filter (\<lambda>p. P (snd p) \<and> fst p \<in> set ids) (enumerate 0 es) = filter (P \<circ> snd) (enumerate 0 es)"
    by (rule filter_cong) (auto dest: in_ids)
  also have "map snd (filter (P \<circ> snd) (enumerate 0 es)) = filter P es"
    using filter_enumerate_snd [of P 0 es] by (simp add: case_prod_unfold o_def)
  finally show ?thesis .
qed


section \<open>The entries of a turn\<close>

text \<open>Each group of entries has its own kinds and sources.\<close>

lemma segment_fields [simp]:
  "sg_source (segment k src n p d m) = src" "sg_kind (segment k src n p d m) = k" "sg_droppable (segment k src n p d m) = d"
  "sg_tokens (segment k src n p d m) = n" "sg_priority (segment k src n p d m) = p" "sg_metadata (segment k src n p d m) = m"
  by (simp_all add: segment_def)

lemma fixed_entries [simp]:
  "sg_kind (fst (persona_entry t)) = PERSONA" "sg_source (fst (persona_entry t)) = ''personas_service''"
  "sg_kind (fst harness_entry) = HARNESS_POLICY" "sg_source (fst harness_entry) = ''realtime_agent_harness''"
  "sg_kind (fst (policy_entry t)) = RESPONSE_POLICY" "sg_source (fst (policy_entry t)) = ''response_policy.v2''"
  by (simp_all add: persona_entry_def harness_entry_def policy_entry_def)

lemma history_entry_fields [simp]:
  "sg_kind (fst (history_entry px sid p)) = HISTORY_SEGMENT" "sg_source (fst (history_entry px sid p)) = ''history_manager''"
  "sg_droppable (fst (history_entry px sid p)) = True" "snd (history_entry px sid p) = Past (snd p)"
  by (simp_all add: history_entry_def case_prod_unfold)

definition of_kind :: "segment_kind \<Rightarrow> string \<Rightarrow> entry \<Rightarrow> bool" where
  "of_kind k source e = (sg_kind (fst e) = k \<and> sg_source (fst e) = source \<and> (\<forall>m. snd e \<noteq> Past m))"

lemma groups:
  "list_all (of_kind PERSONA_STATE ''channel_speaker_observation'') (speaker_entries t)"
  "list_all (of_kind SUMMARY ''conversation_summary'') (summary_entries t)"
  "list_all (of_kind MEMORY_SEGMENT ''memory'') (memory_entries v)"
  "list_all (of_kind COMMITMENT ''memory.commitments'') (commitment_entries c)"
  "list_all (of_kind REALTIME ''turn_input.realtime'') (realtime_entries d)"
  "list_all (of_kind PERSONA_STATE ''personas_service.state'') (persona_state_entries t)"
  "list_all (of_kind COORDINATION ''turn_input.coordination'') (coordination_entries co)"
  by (auto simp: of_kind_def speaker_entries_def summary_entries_def memory_entries_def commitment_entries_def
    realtime_entries_def persona_state_entries_def coordination_entries_def split: option.splits)

text \<open>The rank of a kind, and what of a turn's entries has a rank.\<close>

lemma volatility_rank_simps [simp]:
  "volatility_rank PERSONA = 0" "volatility_rank HARNESS_POLICY = 0" "volatility_rank HISTORY_SEGMENT = 1"
  "volatility_rank CURRENT_USER = 3" "volatility_rank RESPONSE_POLICY = 2" "volatility_rank PERSONA_STATE = 2"
  "volatility_rank REALTIME = 2" "volatility_rank MEMORY_SEGMENT = 2" "volatility_rank COMMITMENT = 2"
  "volatility_rank SUMMARY = 2" "volatility_rank COORDINATION = 2"
  by (simp_all add: volatility_rank_def segment_order_def)

lemma volatility_rank_less: "volatility_rank k < 4"
  by (cases k) simp_all

definition ranked :: "nat \<Rightarrow> entry \<Rightarrow> bool" where
  "ranked r e = (volatility_rank (sg_kind (fst e)) = r)"

lemma ranked_group:
  assumes "list_all (of_kind k source) es"
  shows "filter (ranked r) es = (if volatility_rank k = r then es else [])"
proof -
  have "\<forall>e \<in> set es. ranked r e = (volatility_rank k = r)"
    using assms by (auto simp: list_all_iff of_kind_def ranked_def)
  then show ?thesis by (auto intro: filter_True filter_False)
qed

lemma ranked_history:
  "r \<noteq> 1 \<Longrightarrow> r \<noteq> 2 \<Longrightarrow> filter (ranked r) (history_entries px sid ms) = []"
  by (auto simp: history_entries_def ranked_def filter_empty_conv)

lemma ranked_request:
  "filter (ranked r) (request_entries px t status x) =
     (if t = [] then [] else if r = 3 then [hd (request_entries px t status x)]
      else if r = 2 then tl (request_entries px t status x) else [])"
  by (auto simp: request_entries_def ranked_def)

lemma ranked_fixed:
  "ranked r (persona_entry t) = (r = 0)" "ranked r harness_entry = (r = 0)" "ranked r (policy_entry t) = (r = 2)"
  by (auto simp: ranked_def)

lemmas ranked_rules = ranked_fixed ranked_request ranked_history groups [THEN ranked_group]

lemma stable_entries:
  "filter (ranked 0) (build_entries env ci vw) = [persona_entry (stable_text (vw_persona vw)), harness_entry]"
  by (simp add: build_entries_def Let_def ranked_rules)

lemma current_entries:
  "filter (ranked 3) (build_entries env ci vw) =
     (if user_text (ci_input ci) = [] then []
      else [hd (request_entries (ce_text env) (user_text (ci_input ci))
                  (memory_read_status (vw_memory vw) (vw_execution vw)) (vw_execution vw))])"
  by (simp add: build_entries_def Let_def ranked_rules)

lemma slot_parts_fixed:
  "slot_parts b rc (persona_entry t) = [(0, instruction_header @ t)]"
  "slot_parts b rc harness_entry = [(0, instruction_header @ harness_policy_prompt)]"
  by (simp_all add: persona_entry_def harness_entry_def slot_parts_def)

lemma slot_parts_request:
  "t \<noteq> [] \<Longrightarrow> slot_parts b rc (hd (request_entries px t status x)) = [(3, request_header @ t)]"
  by (simp add: request_entries_def slot_parts_def)

lemma ranked_1_history: "filter (ranked 1) (history_entries px sid ms) = map (history_entry px sid) (enumerate 0 ms)"
proof -
  have "filter (ranked 1) (map (history_entry px sid) xs) = map (history_entry px sid) xs" for xs
    by (rule filter_True) (auto simp: ranked_def)
  then show ?thesis by (simp add: history_entries_def) (simp add: ranked_def)
qed

text \<open>History entries are exactly the messages, and they are the only entries of their rank.\<close>

lemma append_only_entries:
  "filter (ranked 1) (build_entries env ci vw)
     = map (history_entry (ce_text env) (ti_session_id (ci_input ci))) (enumerate 0 (vw_history vw))"
  by (simp add: build_entries_def Let_def ranked_rules ranked_1_history [unfolded One_nat_def])


text \<open>The same by source: the segments the code remembers by a variable.\<close>

definition sourced :: "string \<Rightarrow> entry \<Rightarrow> bool" where
  "sourced source e = (sg_source (fst e) = source)"

lemma sourced_group:
  assumes "list_all (of_kind k source) es"
  shows "filter (sourced s) es = (if source = s then es else [])"
proof -
  have "\<forall>e \<in> set es. sourced s e = (source = s)"
    using assms by (auto simp: list_all_iff of_kind_def sourced_def)
  then show ?thesis by (auto intro: filter_True filter_False)
qed

lemma sourced_fixed:
  "sourced s (persona_entry t) = (s = ''personas_service'')" "sourced s harness_entry = (s = ''realtime_agent_harness'')"
  "sourced s (policy_entry t) = (s = ''response_policy.v2'')"
  by (auto simp: sourced_def)

lemma sourced_history:
  "s \<noteq> ''history_manager'' \<Longrightarrow> s \<noteq> ''history.source_binding'' \<Longrightarrow> filter (sourced s) (history_entries px sid ms) = []"
  by (auto simp: history_entries_def sourced_def filter_empty_conv)

lemma sourced_request:
  "filter (sourced s) (request_entries px t status x) =
     (if t = [] then [] else if s = ''turn_input.text'' then [hd (request_entries px t status x)]
      else if s = ''memory.read_status'' then tl (request_entries px t status x) else [])"
  by (auto simp: request_entries_def sourced_def)

lemmas sourced_rules = sourced_fixed sourced_request sourced_history groups [THEN sourced_group]

lemma text_entries:
  "filter (sourced ''turn_input.text'') (build_entries env ci vw) = filter (ranked 3) (build_entries env ci vw)"
  unfolding current_entries by (simp add: build_entries_def Let_def sourced_rules)

lemma memory_entries_of:
  "filter (sourced ''memory'') (build_entries env ci vw) = memory_entries (vw_memory vw)"
  by (simp add: build_entries_def Let_def sourced_rules)

lemma summary_entries_of:
  "filter (sourced ''conversation_summary'') (build_entries env ci vw) = summary_entries (summary_text (vw_summary vw))"
  by (simp add: build_entries_def Let_def sourced_rules)

lemma kept_kind_iff: "kept_kind s es \<longleftrightarrow> filter (sourced s) es \<noteq> []"
  by (auto simp: kept_kind_def sourced_def filter_empty_conv)


section \<open>Assembly by rank\<close>

lemma slot_parts_ranked:
  "filter (\<lambda>p. fst p = r) (concat (map (slot_parts b rc) es)) = concat (map (slot_parts b rc) (filter (ranked r) es))"
proof (induction es)
  case (Cons e es)
  have "filter (\<lambda>p. fst p = r) (slot_parts b rc e) = (if ranked r e then slot_parts b rc e else [])"
    by (auto simp: slot_parts_def ranked_def split: prod.splits slot.splits)
  with Cons show ?case by simp
qed simp

lemma slot_parts_small: "p \<in> set (slot_parts b rc e) \<Longrightarrow> fst p < 4"
  by (cases e; cases "snd e") (auto simp: slot_parts_def volatility_rank_less)

lemma slot_parts_past: "\<forall>e \<in> set es. \<exists>m. snd e = Past m \<Longrightarrow> concat (map (slot_parts b rc) es) = []"
  by (auto simp: slot_parts_def split: prod.splits)

text \<open>A stable sort by a small number lists the elements number by number.\<close>

lemma insort_key_front: "\<forall>y \<in> set ys. f x \<le> f y \<Longrightarrow> insort_key f x ys = x # ys"
  by (cases ys) auto

lemma insort_key_append: "\<forall>y \<in> set xs. f y < f x \<Longrightarrow> insort_key f x (xs @ ys) = xs @ insort_key f x ys"
  by (induction xs) auto

lemma sort_key_by_value:
  fixes f :: "'a \<Rightarrow> nat"
  shows "\<forall>x \<in> set xs. f x < n \<Longrightarrow> sort_key f xs = concat (map (\<lambda>k. filter (\<lambda>x. f x = k) xs) [0..<n])"
proof (induction xs)
  case Nil
  then show ?case by (induction n) simp_all
next
  case (Cons x xs)
  have split: "[0..<n] = [0..<f x] @ f x # [Suc (f x)..<n]"
    using Cons.prems by (metis (no_types, lifting) le0 le_add_diff_inverse less_imp_le list.set_intros(1) upt_add_eq_append upt_conv_Cons)
  let ?low = "concat (map (\<lambda>k. filter (\<lambda>x. f x = k) xs) [0..<f x])"
  let ?high = "concat (map (\<lambda>k. filter (\<lambda>x. f x = k) xs) (f x # [Suc (f x)..<n]))"
  have "sort_key f (x # xs) = insort_key f x (?low @ ?high)" using Cons by (simp add: split)
  also have "\<dots> = ?low @ insort_key f x ?high" by (rule insort_key_append) auto
  also have "insort_key f x ?high = x # ?high" by (rule insort_key_front) auto
  also have "?low @ x # ?high = concat (map (\<lambda>k. filter (\<lambda>y. f y = k) (x # xs)) [0..<n])"
  proof -
    have low: "map (\<lambda>k. filter (\<lambda>y. f y = k) (x # xs)) [0..<f x] = map (\<lambda>k. filter (\<lambda>y. f y = k) xs) [0..<f x]"
      by (rule map_cong) auto
    have high: "map (\<lambda>k. filter (\<lambda>y. f y = k) (x # xs)) [Suc (f x)..<n] = map (\<lambda>k. filter (\<lambda>y. f y = k) xs) [Suc (f x)..<n]"
      by (rule map_cong) auto
    show ?thesis unfolding split by (simp only: map_append list.map concat_append concat.simps low high) simp
  qed
  finally show ?case .
qed

lemma upt_4: "[0..<4] = [0, 1, 2, 3::nat]"
  by (simp add: upt_rec)

text \<open>The parts of the prompt: stable, history, volatile, current.\<close>

lemma system_parts_by_rank:
  assumes "\<forall>e \<in> set (filter (ranked 1) es). \<exists>m. snd e = Past m"
  shows "system_parts b rc bg es =
     map snd (concat (map (slot_parts b rc) (filter (ranked 0) es)))
     @ (if past_messages es = [] then [] else [bg (past_messages es)])
     @ map snd (concat (map (slot_parts b rc) (filter (ranked 2) es)))
     @ map snd (concat (map (slot_parts b rc) (filter (ranked 3) es)))"
proof -
  let ?slots = "concat (map (slot_parts b rc) es)"
  let ?block = "if past_messages es = [] then [] else [(1, bg (past_messages es))]"
  have parts: "ranked_parts b rc bg es = ?slots @ ?block" by (simp add: ranked_parts_def)
  have small: "\<forall>p \<in> set (?slots @ ?block). fst p < 4"
    by (auto dest: slot_parts_small split: if_splits)
  have by_rank: "filter (\<lambda>p. fst p = k) (?slots @ ?block)
      = concat (map (slot_parts b rc) (filter (ranked k) es)) @ (if k = 1 then ?block else [])" for k
    by (simp add: slot_parts_ranked)
  have "sort_key fst (ranked_parts b rc bg es) = concat (map (\<lambda>k. filter (\<lambda>p. fst p = k) (?slots @ ?block)) [0, 1, 2, 3])"
    unfolding parts using sort_key_by_value [OF small] by (simp only: upt_4)
  also have "\<dots> = concat (map (slot_parts b rc) (filter (ranked 0) es)) @ ?block
      @ concat (map (slot_parts b rc) (filter (ranked 2) es)) @ concat (map (slot_parts b rc) (filter (ranked 3) es))"
    using slot_parts_past [OF assms] by (simp only: list.map concat.simps by_rank) simp
  finally show ?thesis by (simp add: system_parts_def)
qed


section \<open>The messages\<close>

lemma py_join_nonempty: "x \<noteq> [] \<Longrightarrow> py_join c (x # xs) \<noteq> []"
  by (cases xs) simp_all

lemma stable_prompt_nonempty: "rz_stable_prompt (realize stored m s rt modality) \<noteq> []"
proof -
  have "identity_block g \<noteq> []" for g unfolding identity_block_def append_Cons by (rule py_join_nonempty) simp
  then show ?thesis by (simp add: realize_def Let_def blocks_def py_join_nonempty)
qed

lemma compileE:
  assumes "compile env ci = Inr r"
  obtains p where "realize_persona env ci = Inr p"
    "assemble env ci (compile_view_of env ci p) (rs_query (snd (memory_read env (ci_input ci)))) = Inr r"
  using assms by (auto simp: compile_def split: sum.splits)

lemma persona_of_view: "vw_persona (compile_view_of env ci p)
    = (let v = vw_memory (compile_view_of env ci p)
       in if mv_hits v = [] then p
          else apply_memory_evidence (ce_text env) (ce_personas env) p (mv_hits v)
                 (map_option realtime_dict (ci_realtime ci)) (ti_input_modality (ci_input ci)))"
  by (simp add: compile_view_of_def Let_def split: prod.splits)

text \<open>Whatever was recalled, the stable text is the one the genome realised.\<close>

lemma stable_text_of_view:
  assumes "realize_persona env ci = Inr p"
  shows "stable_text (vw_persona (compile_view_of env ci p)) = rz_stable_prompt p"
proof -
  obtain owner companion genome_id genome_hash where
    real: "realize_context (ce_text env) (ce_personas env) owner companion genome_id genome_hash
      (map_option realtime_dict (ci_realtime ci)) (ti_input_modality (ci_input ci)) = Inr p"
    using assms by (auto simp: realize_persona_def Let_def split: sum.splits prod.splits)
  then have "rz_stable_prompt p \<noteq> []"
    using stable_prompt_nonempty by (auto simp: realize_context_def split: sum.splits)
  moreover have "rz_stable_prompt (vw_persona (compile_view_of env ci p)) = rz_stable_prompt p"
    using evidence_keeps_stable_prompt [OF real] by (simp add: persona_of_view Let_def)
  ultimately show ?thesis by (simp add: stable_text_def)
qed

lemma rank_protected:
  "e \<in> set (build_entries env ci vw) \<Longrightarrow> ranked 0 e \<Longrightarrow> protected (fst e)"
  "e \<in> set (build_entries env ci vw) \<Longrightarrow> ranked 3 e \<Longrightarrow> protected (fst e)"
  by (cases "sg_kind (fst e)"; simp add: ranked_def protected_def)+

lemma kept_past:
  "\<forall>e \<in> set (filter (ranked 1) (at_positions ids (build_entries env ci vw))). \<exists>m. snd e = Past m"
proof
  fix e assume "e \<in> set (filter (ranked 1) (at_positions ids (build_entries env ci vw)))"
  then have "e \<in> set (filter (ranked 1) (build_entries env ci vw))" by (auto dest: kept_is_built)
  then show "\<exists>m. snd e = Past m" unfolding append_only_entries by auto
qed

lemma kept_by_rank:
  assumes "apply_budget cc (map fst (build_entries env ci vw)) = Inr (ids, ledger, guard)" "r = 0 \<or> r = 3"
  shows "filter (ranked r) (at_positions ids (build_entries env ci vw)) = filter (ranked r) (build_entries env ci vw)"
  using assms rank_protected by (intro filter_protected_kept) auto

lemma text_kept_iff:
  assumes "apply_budget cc (map fst (build_entries env ci vw)) = Inr (ids, ledger, guard)"
  shows "kept_kind ''turn_input.text'' (at_positions ids (build_entries env ci vw)) \<longleftrightarrow> user_text (ci_input ci) \<noteq> []"
proof -
  let ?es = "build_entries env ci vw"
  have "filter (sourced ''turn_input.text'') (at_positions ids ?es) = filter (sourced ''turn_input.text'') ?es"
  proof (rule filter_protected_kept [OF assms])
    fix e assume "e \<in> set ?es" "sourced ''turn_input.text'' e"
    then have "e \<in> set (filter (ranked 3) ?es)" unfolding text_entries [symmetric] by simp
    then show "protected (fst e)" by (intro rank_protected(2)) auto
  qed
  then show ?thesis by (simp add: kept_kind_iff text_entries current_entries)
qed

lemma prompt_parts_kept:
  assumes "apply_budget cc (map fst (build_entries env ci vw)) = Inr (ids, ledger, guard)"
    and "kept = at_positions ids (build_entries env ci vw)"
  shows "\<exists>vol. prompt_parts env ci vw kept =
     [instruction_header @ stable_text (vw_persona vw), instruction_header @ harness_policy_prompt]
     @ (if past_messages kept = [] then []
        else [background_context_block (ce_text env) (ti_session_id (ci_input ci)) (past_messages kept)])
     @ vol
     @ (if user_text (ci_input ci) = [] then [] else [request_header @ user_text (ci_input ci)])"
  unfolding prompt_parts_def assms(2) system_parts_by_rank [OF kept_past] kept_by_rank [OF assms(1), of 0, simplified]
    kept_by_rank [OF assms(1), of 3, simplified] stable_entries current_entries
  by (rule exI [of _ "map snd (concat (map (slot_parts _ _) (filter (ranked 2) _)))"])
    (simp add: slot_parts_fixed slot_parts_request)



section \<open>Properties\<close>

text \<open>
  C22. The system message of every compiled turn begins with the stable prompt of the genome and the harness
  policy, then has the history block, then what changes from turn to turn, and ends with the current request:
  the part a cache can reuse comes first, whatever was recalled or dropped, and nothing stands behind the
  question.
\<close>

theorem prompt_layout:
  assumes "compile env ci = Inr r"
  shows "\<exists>p vol. realize_persona env ci = Inr p
     \<and> cm_content (hd (cd_messages r)) = py_join [10, 10]
         ([instruction_header @ rz_stable_prompt p, instruction_header @ harness_policy_prompt]
          @ (if past_messages (cd_kept r) = [] then []
             else [background_context_block (ce_text env) (ti_session_id (ci_input ci)) (past_messages (cd_kept r))])
          @ vol
          @ (if user_text (ci_input ci) = [] then [] else [request_header @ user_text (ci_input ci)]))"
proof -
  from assms obtain p where p: "realize_persona env ci = Inr p"
    "assemble env ci (compile_view_of env ci p) (rs_query (snd (memory_read env (ci_input ci)))) = Inr r"
    by (rule compileE)
  from p(2) obtain ids ledger guard where a:
    "apply_budget (ce_config env) (map fst (build_entries env ci (compile_view_of env ci p))) = Inr (ids, ledger, guard)"
    "cd_kept r = at_positions ids (build_entries env ci (compile_view_of env ci p))"
    "cd_messages r = compiled_messages env ci (compile_view_of env ci p) (cd_kept r)"
    by (rule assembleE)
  have "cm_content (hd (cd_messages r)) = py_join [10, 10] (prompt_parts env ci (compile_view_of env ci p) (cd_kept r))"
    by (simp add: a(3) compiled_messages_def new_message_def)
  with prompt_parts_kept [OF a(1,2)] p(1) stable_text_of_view [OF p(1)] show ?thesis by auto
qed

lemma compile_returns:
  assumes "realize_persona env ci = Inr p" "\<forall>n. cc_budget_tokens (ce_config env) = Some n \<longrightarrow> 1 \<le> n"
  shows "\<exists>r. compile env ci = Inr r
     \<and> map cm_role (cd_messages r) = SYSTEM_ROLE # (if user_text (ci_input ci) = [] then [] else [USER])
     \<and> (user_text (ci_input ci) \<noteq> [] \<longrightarrow> cm_content (last (cd_messages r)) = user_text (ci_input ci))"
proof -
  let ?vw = "compile_view_of env ci p"
  let ?es = "build_entries env ci ?vw"
  obtain ids ledger guard where budget: "apply_budget (ce_config env) (map fst ?es) = Inr (ids, ledger, guard)"
    by (rule apply_budget_total [OF assms(2)])
  then have "compile env ci \<noteq> Inl e" for e
    using assms(1) by (simp add: compile_def assemble_def Let_def)
  then obtain r where r: "compile env ci = Inr r" by (cases "compile env ci") auto
  then have "assemble env ci ?vw (rs_query (snd (memory_read env (ci_input ci)))) = Inr r"
    using assms(1) by (simp add: compile_def)
  with budget have "cd_messages r = compiled_messages env ci ?vw (at_positions ids ?es)"
    by (auto simp: assemble_def Let_def)
  with r text_kept_iff [OF budget] show ?thesis by (auto simp: compiled_messages_def new_message_def)
qed


text \<open>What is hidden by the policy is not read: the reads do not depend on it.\<close>

lemma hidden_reads:
  assumes "\<not> history_allowed ti"
  shows "memory_recall_query cc hr ti h now = (now, Inr (ustrip (user_text ti), ''current_only''))"
    and "summary_context cc sm ti h now = (now, Inr None)"
  using assms by (auto simp: memory_recall_query_def summary_context_def history_allowed_def Let_def split: option.splits)

lemma hidden_memory_read:
  assumes "\<not> history_allowed ti"
  shows "memory_read (env\<lparr>ce_history := hr, ce_summary := sm\<rparr>) ti = memory_read env ti"
  using assms
  by (simp add: memory_read_def memory_recall_def canonical_recall_def memory_recall_queries_def hidden_reads Let_def
    split: option.splits)

lemma compile_without_history:
  assumes "\<not> history_allowed (ci_input ci)"
  shows "compile (env\<lparr>ce_history := hr, ce_summary := sm\<rparr>) ci = compile env ci"
proof -
  let ?env = "env\<lparr>ce_history := hr, ce_summary := sm\<rparr>"
  have reads: "history_read ?env ci = history_read env ci" "summary_read ?env ci = summary_read env ci"
    using assms by (auto simp: history_read_def summary_read_def hidden_reads)
  have view: "compile_view_of ?env ci p = compile_view_of env ci p" for p
    by (simp add: compile_view_of_def reads hidden_memory_read [OF assms] commitment_read_of_def Let_def case_prod_unfold
      cong: if_cong)
  have entries: "build_entries ?env ci vw = build_entries env ci vw" for vw
    by (simp add: build_entries_def speaker_text_def)
  have out: "compiled_messages ?env ci vw kept = compiled_messages env ci vw kept" for vw kept
    by (simp add: compiled_messages_def prompt_parts_def receipt_text_def)
  have traces: "summary_trace ?env ci vw k = summary_trace env ci vw k" "memory_trace ?env vw k = memory_trace env vw k"
    "commitment_trace ?env ci vw k = commitment_trace env ci vw k" "interrupted_dropped ?env vw kept = interrupted_dropped env vw kept"
    "harness_snapshot ?env ci vw kept guard = harness_snapshot env ci vw kept guard"
    "history_window_trace ?env vw = history_window_trace env vw" for vw k kept guard
    using assms by (simp_all add: summary_trace_def memory_trace_def commitment_trace_def interrupted_dropped_def
      harness_snapshot_def history_window_trace_def)
  have md: "compiled_metadata ?env ci vw kept ledger guard o1 = compiled_metadata env ci vw kept ledger guard o1"
    for vw kept ledger guard o1
    by (simp add: compiled_metadata_def traces Let_def cong: if_cong)
  have "realize_persona ?env ci = realize_persona env ci"
    by (simp add: realize_persona_def Let_def split: sum.split)
  moreover have "assemble ?env ci vw q = assemble env ci vw q" for vw q
    by (simp add: assemble_def entries out md Let_def split: sum.split prod.split)
  ultimately show ?thesis
    by (simp add: compile_def view hidden_memory_read [OF assms] split: sum.split)
qed

text \<open>
  C23. In a private or temporary turn the compile is independent of the history and of the summary: with any
  other history or summary provider it gives the same messages, ledger and metadata.
\<close>

theorem hidden_history_unread:
  assumes "\<not> history_allowed (ci_input ci)"
  shows "compile (env\<lparr>ce_history := hr, ce_summary := sm\<rparr>) ci = compile env ci"
  by (rule compile_without_history [OF assms])

text \<open>Without recall the memory service is not asked, and what is sent to the model does not depend on it.\<close>

lemma no_recall:
  assumes "\<not> pt_memory_recall_allowed (policy_from_metadata (ti_metadata ti))"
  shows "memory_skip_reason m ti = (if user_text ti = [] then Some ''no_input'' else Some ''privacy_policy'')"
    and "memory_recall px cc m hr ti h now = (Inr None, start_recall now)"
    and "active_commitments cc m ti h now = (now, Inr None)"
    and "\<not> history_allowed ti"
proof -
  show skip: "memory_skip_reason m ti = (if user_text ti = [] then Some ''no_input'' else Some ''privacy_policy'')"
    using assms by (simp add: memory_skip_reason_def Let_def)
  show "memory_recall px cc m hr ti h now = (Inr None, start_recall now)"
    by (simp add: memory_recall_def skip)
  show "active_commitments cc m ti h now = (now, Inr None)"
    using assms by (simp add: active_commitments_def split: option.split)
  show "\<not> history_allowed ti"
    using assms by (auto simp: history_allowed_def policy_from_metadata_def split: if_splits)
qed

lemma messages_without_memory:
  assumes "\<not> pt_memory_recall_allowed (policy_from_metadata (ti_metadata (ci_input ci)))"
  shows "map_sum id cd_messages (compile (env\<lparr>ce_memory := m\<rparr>) ci) = map_sum id cd_messages (compile env ci)"
proof -
  let ?env = "env\<lparr>ce_memory := m\<rparr>"
  have reads: "memory_read ?env (ci_input ci) = memory_read env (ci_input ci)" "history_read ?env ci = history_read env ci"
    "summary_read ?env ci = summary_read env ci"
    by (simp_all add: memory_read_def no_recall [OF assms] history_read_def summary_read_def)
  have view: "compile_view_of ?env ci p = compile_view_of env ci p" for p
    by (simp add: compile_view_of_def reads no_recall [OF assms] commitment_read_of_def Let_def case_prod_unfold cong: if_cong)
  have entries: "build_entries ?env ci vw = build_entries env ci vw" for vw
    by (simp add: build_entries_def speaker_text_def)
  have out: "compiled_messages ?env ci vw kept = compiled_messages env ci vw kept" for vw kept
    by (simp add: compiled_messages_def prompt_parts_def receipt_text_def)
  have "realize_persona ?env ci = realize_persona env ci"
    by (simp add: realize_persona_def Let_def split: sum.split)
  moreover have "map_sum id cd_messages (assemble ?env ci vw q) = map_sum id cd_messages (assemble env ci vw q)" for vw q
    by (simp add: assemble_def entries out Let_def split: sum.split prod.split)
  ultimately show ?thesis
    by (simp add: compile_def view reads split: sum.split)
qed

text \<open>
  C24. In a temporary turn what is sent to the model is independent of everything kept about the person: with
  any other memory service, history and summary the messages are the same.
\<close>

theorem temporary_turn_forgets:
  assumes "\<not> pt_memory_recall_allowed (policy_from_metadata (ti_metadata (ci_input ci)))"
  shows "map_sum id cd_messages (compile (env\<lparr>ce_memory := m, ce_history := hr, ce_summary := sm\<rparr>) ci)
       = map_sum id cd_messages (compile env ci)"
  using messages_without_memory [OF assms, where env = env and m = m] compile_without_history [OF no_recall(4) [OF assms], where env = "env\<lparr>ce_memory := m\<rparr>" and hr = hr and sm = sm]
  by simp


section \<open>Budget and window of a compiled turn\<close>

lemma estimate_nonneg: "0 \<le> estimate_tokens t"
  by (simp add: estimate_tokens_def max_def)

lemma entry_tokens_nonneg:
  assumes "e \<in> set (build_entries env ci vw)"
  shows "0 \<le> sg_tokens (fst e)"
proof -
  have "list_all (\<lambda>e. 0 \<le> sg_tokens (fst e)) (history_entries px sid ms)" for px sid ms
    by (simp add: history_entries_def history_entry_def list_all_iff case_prod_unfold history_segment_tokens_def estimate_nonneg)
  then have "list_all (\<lambda>e. 0 \<le> sg_tokens (fst e)) (build_entries env ci vw)"
    unfolding build_entries_def Let_def
    by (simp add: persona_entry_def harness_entry_def policy_entry_def speaker_entries_def summary_entries_def memory_entries_def
      commitment_entries_def realtime_entries_def persona_state_entries_def coordination_entries_def request_entries_def
      estimate_nonneg split: option.split)
  with assms show ?thesis by (simp add: list_all_iff)
qed

lemma marked_ledger [simp]:
  "cl_dropped (fold mark_degraded ss l) = cl_dropped l" "cl_overflow (fold mark_degraded ss l) = cl_overflow l"
  "cl_kept (fold mark_degraded ss l) = cl_kept l"
proof (induction ss arbitrary: l)
  case (Cons s ss) case 1 then show ?case using Cons(1) by (simp add: mark_degraded_def)
next
  case (Cons s ss) case 2 then show ?case using Cons(2) by (simp add: mark_degraded_def)
next
  case (Cons s ss) case 3 then show ?case using Cons(3) by (simp add: mark_degraded_def)
qed simp_all

lemma prune_of_budget:
  assumes "apply_budget cc segs = Inr (ids, ledger, guard)" "cc_budget_tokens cc = Some n" "cc_budget_mode cc = ''enabled''"
  shows "prune n segs = (at_positions ids segs, ledger)"
  using assms by (auto simp: apply_budget_def prune_def Let_def case_prod_unfold split: if_splits)

lemma kept_segments: "map fst (at_positions ids es) = at_positions ids (map fst es)"
  by (rule map_at_positions)

lemma past_messages_append [simp]: "past_messages (xs @ ys) = past_messages xs @ past_messages ys"
  by (simp add: past_messages_def)

lemma past_group: "list_all (of_kind k source) es \<Longrightarrow> past_messages es = []"
  by (induction es) (auto simp: past_messages_def of_kind_def split: prod.splits slot.splits)

lemma past_subseq: "subseq xs ys \<Longrightarrow> subseq (past_messages xs) (past_messages ys)"
proof (induction rule: list_emb.induct)
  case (list_emb_Cons xs ys y)
  then show ?case by (auto simp: past_messages_def split: prod.splits slot.splits)
next
  case (list_emb_Cons2 x y xs ys)
  then show ?case by (auto simp: past_messages_def split: prod.splits slot.splits)
qed (simp add: past_messages_def)

lemma past_of_history: "past_messages (map (history_entry px sid) (enumerate n ms)) = ms"
  by (induction ms arbitrary: n) (simp_all add: past_messages_def history_entry_def)

lemma past_of_entries: "past_messages (build_entries env ci vw) = vw_history vw"
proof -
  have one: "past_messages [persona_entry t] = []" "past_messages [harness_entry, policy_entry u] = []" for t u
    by (simp_all add: past_messages_def persona_entry_def harness_entry_def policy_entry_def)
  have "past_messages (history_entries px sid ms) = ms" for px sid ms
    using past_of_history [of px sid 0 ms] by (simp add: history_entries_def past_messages_def)
  moreover have "past_messages (request_entries px t status x) = []" for px t status x
    by (simp add: request_entries_def past_messages_def)
  ultimately show ?thesis
    unfolding build_entries_def Let_def past_messages_append one by (simp add: groups [THEN past_group])
qed


text \<open>
  C27. With an enabled budget the kept entries are a sublist of the turn's entries in their order, every
  protected entry is among them, their estimate exceeds the budget only by what the protected entries alone
  need, nothing dropped would still have fitted, and the ledger accounts for every entry.
\<close>

theorem prompt_within_budget:
  assumes "compile env ci = Inr r" "cc_budget_tokens (ce_config env) = Some n" "cc_budget_mode (ce_config env) = ''enabled''"
  shows "\<exists>p. realize_persona env ci = Inr p
     \<and> (let es = build_entries env ci (compile_view_of env ci p); need = total_tokens (filter protected (map fst es));
            used = total_tokens (map fst (cd_kept r))
        in subseq (cd_kept r) es
           \<and> filter (protected \<circ> fst) (cd_kept r) = filter (protected \<circ> fst) es
           \<and> used \<le> max n need \<and> cl_overflow (cd_ledger r) = max 0 (need - n)
           \<and> list_all (\<lambda>d. used + ds_tokens d > n) (cl_dropped (cd_ledger r))
           \<and> mset (map (dropped_of \<circ> fst) (cd_kept r)) + mset (cl_dropped (cd_ledger r)) = mset (map (dropped_of \<circ> fst) es))"
proof -
  from assms(1) obtain p where p: "realize_persona env ci = Inr p"
    "assemble env ci (compile_view_of env ci p) (rs_query (snd (memory_read env (ci_input ci)))) = Inr r"
    by (rule compileE)
  define es where "es = build_entries env ci (compile_view_of env ci p)"
  from p(2) obtain ids ledger guard where a: "apply_budget (ce_config env) (map fst es) = Inr (ids, ledger, guard)"
    "cd_kept r = at_positions ids es" "cd_ledger r = fold mark_degraded (degraded_sources (compile_view_of env ci p)) ledger"
    unfolding es_def by (rule assembleE)
  have "\<forall>s \<in> set (map fst es). 0 \<le> sg_tokens s" using entry_tokens_nonneg by (auto simp: es_def)
  from prune_spec [OF this prune_of_budget [OF a(1) assms(2,3)]]
  have spec: "total_tokens (map fst (cd_kept r)) \<le> max n (total_tokens (filter protected (map fst es)))"
    "cl_overflow ledger = max 0 (total_tokens (filter protected (map fst es)) - n)"
    "\<forall>d \<in> set (cl_dropped ledger). total_tokens (map fst (cd_kept r)) + ds_tokens d > n"
    "mset (map dropped_of (map fst (cd_kept r))) + mset (cl_dropped ledger) = mset (map dropped_of (map fst es))"
    unfolding a(2) kept_segments by simp_all
  moreover have "filter (protected \<circ> fst) (cd_kept r) = filter (protected \<circ> fst) es"
    unfolding a(2) by (rule filter_protected_kept [OF a(1)]) simp
  moreover have "subseq (cd_kept r) es" unfolding a(2) by (rule subseq_at_positions)
  ultimately have "subseq (cd_kept r) es \<and> filter (protected \<circ> fst) (cd_kept r) = filter (protected \<circ> fst) es
      \<and> total_tokens (map fst (cd_kept r)) \<le> max n (total_tokens (filter protected (map fst es)))
      \<and> cl_overflow (cd_ledger r) = max 0 (total_tokens (filter protected (map fst es)) - n)
      \<and> list_all (\<lambda>d. total_tokens (map fst (cd_kept r)) + ds_tokens d > n) (cl_dropped (cd_ledger r))
      \<and> mset (map (dropped_of \<circ> fst) (cd_kept r)) + mset (cl_dropped (cd_ledger r)) = mset (map (dropped_of \<circ> fst) es)"
    by (simp add: a(3) list_all_iff)
  with p(1) show ?thesis unfolding es_def Let_def by blast
qed

text \<open>The history of the view: public messages of other turns, at most as many as the window that applies.\<close>

lemma history_view_facts:
  assumes "0 < cc_history_window cc" "cc_history_window cc \<le> cc_degraded_history_window cc" "cc = ce_config env"
    and "ms = history_view cc (ci_input ci) degraded (history_read env ci)"
  shows "int (length ms) \<le> (if topic_switch (ci_input ci) then 1 else effective_window cc degraded)"
    and "m \<in> set ms \<Longrightarrow> \<not> is_private m \<and> \<not> belongs_to_turn (Some (ti_turn_id (ci_input ci))) m"
    and "\<not> history_allowed (ci_input ci) \<or> ci_coordination ci \<noteq> None \<Longrightarrow> ms = []"
proof -
  define read where "read = read_messages (history_read env ci)"
  have from_window: "read = [] \<or> (\<exists>hy h h' cid. read = recent_window hy h h' cid
      (if topic_switch (ci_input ci) then 1 else cc_degraded_history_window cc) (Some (ti_turn_id (ci_input ci))))"
    by (auto simp: read_def history_read_def read_messages_def finish_read_def await_def read_history_def assms(3)
      split: sum.splits stop.splits)
  have w: "0 < effective_window cc degraded" using assms(1,2) by (auto simp: effective_window_def)
  have trimmed: "ms = (if \<not> topic_switch (ci_input ci) \<and> int (length read) > effective_window cc degraded
      then py_tail (effective_window cc degraded) read else read)"
    by (simp add: assms(4) history_view_def read_def Let_def)
  show "int (length ms) \<le> (if topic_switch (ci_input ci) then 1 else effective_window cc degraded)"
  proof (cases "topic_switch (ci_input ci)")
    case True
    then have "int (length read) \<le> 1"
      using from_window length_recent_window [of 1] by (metis (full_types) list.size(3) of_nat_0 zero_le_one zero_less_one)
    with True show ?thesis by (simp add: trimmed)
  next
    case False
    with w show ?thesis by (auto simp: trimmed length_py_tail)
  qed
  show "\<not> is_private m \<and> \<not> belongs_to_turn (Some (ti_turn_id (ci_input ci))) m" if "m \<in> set ms"
  proof -
    have "m \<in> set read" using that set_py_tail [THEN subsetD] by (auto simp: trimmed split: if_splits)
    then show ?thesis using from_window recent_window_member by auto
  qed
  show "ms = []" if "\<not> history_allowed (ci_input ci) \<or> ci_coordination ci \<noteq> None"
  proof -
    have "read = []" using that by (simp add: read_def history_read_def read_messages_def)
    then show ?thesis by (simp add: trimmed py_tail_def)
  qed
qed

text \<open>
  The history in a prompt holds no private message and none of the turn itself, only the message before
  it after a topic switch, and otherwise at most the window: the wide one when memory is degraded, the narrow
  one when it is not. A hidden history and a coordinated reply show none.
\<close>

theorem prompt_history_bounded:
  assumes "compile env ci = Inr r"
    and "0 < cc_history_window (ce_config env)" "cc_history_window (ce_config env) \<le> cc_degraded_history_window (ce_config env)"
  shows "int (length (past_messages (cd_kept r)))
       \<le> (if topic_switch (ci_input ci) then 1
          else effective_window (ce_config env) (mv_degraded (memory_view_of (fst (memory_read env (ci_input ci))))))
     \<and> list_all (\<lambda>m. \<not> is_private m \<and> \<not> belongs_to_turn (Some (ti_turn_id (ci_input ci))) m) (past_messages (cd_kept r))
     \<and> (\<not> history_allowed (ci_input ci) \<or> ci_coordination ci \<noteq> None \<longrightarrow> past_messages (cd_kept r) = [])"
proof -
  from assms(1) obtain p where "assemble env ci (compile_view_of env ci p) (rs_query (snd (memory_read env (ci_input ci)))) = Inr r"
    by (rule compileE)
  then obtain ids where kept: "cd_kept r = at_positions ids (build_entries env ci (compile_view_of env ci p))" by (rule assembleE)
  define ms where "ms = history_view (ce_config env) (ci_input ci)
    (mv_degraded (memory_view_of (fst (memory_read env (ci_input ci))))) (history_read env ci)"
  have "vw_history (compile_view_of env ci p) = ms"
    by (simp add: compile_view_of_def ms_def Let_def split: prod.split)
  then have sub: "subseq (past_messages (cd_kept r)) ms"
    using past_subseq [OF subseq_at_positions] unfolding kept by (metis past_of_entries)
  note facts = history_view_facts [OF assms(2,3) refl ms_def]
  have "length (past_messages (cd_kept r)) \<le> length ms" using sub by (rule list_emb_length)
  moreover have "list_all (\<lambda>m. \<not> is_private m \<and> \<not> belongs_to_turn (Some (ti_turn_id (ci_input ci))) m) (past_messages (cd_kept r))"
    unfolding list_all_iff using facts(2) list_emb_set [OF sub] by blast
  moreover have "\<not> history_allowed (ci_input ci) \<or> ci_coordination ci \<noteq> None \<longrightarrow> past_messages (cd_kept r) = []"
    using facts(3) sub by auto
  ultimately show ?thesis using facts(1) by linarith
qed

end
