(* ===== verification/Context_Reads.thy ===== *)
theory Context_Reads
  imports Context_Facts
begin

text \<open>
  What the recall asks the memory service, and that the receipt in the prompt tells the truth about it.
\<close>

section \<open>Time\<close>

lemma await_time:
  assumes "0 \<le> fst a" "now < h"
  shows "now \<le> fst (await h now a)" "fst (await h now a) \<le> h"
    and "snd (await h now a) \<noteq> Inl Cut \<Longrightarrow> fst (await h now a) < h"
  using assms by (auto simp: await_def split: sum.splits if_splits)

lemma await_within_time:
  assumes "0 \<le> fst a" "0 \<le> limit" "now < h"
  shows "now \<le> fst (await_within limit h now a)" "fst (await_within limit h now a) \<le> h"
    and "snd (await_within limit h now a) \<noteq> Inl Cut \<Longrightarrow> fst (await_within limit h now a) < h"
  using assms(2,3) await_time [OF assms(1,3)] by (auto simp: await_within_def split: if_splits)


section \<open>The loop over the queries\<close>

text \<open>A request is the turn's own when it names its scope and a time that is left of the timeout.\<close>

definition own_request :: "turn_input \<Rightarrow> rat \<Rightarrow> recall_request \<Rightarrow> bool" where
  "own_request ti limit rq = (rq_scope rq = memory_scope_of ti \<and> 0 < rq_timeout rq \<and> rq_timeout rq \<le> limit)"

lemma recall_loop_asks:
  assumes "recall_loop cc p ti dl h qs st = (res, st')" "\<And>rq t. 0 \<le> fst (mp_recall p rq t)" "rs_now st < h"
  shows "\<exists>asked. rs_asked st' = rs_asked st @ asked \<and> map rq_query asked = take (length asked) qs
     \<and> list_all (own_request ti (dl - rs_now st)) asked \<and> rs_attempted st' = (rs_attempted st \<or> asked \<noteq> [])
     \<and> rs_now st' \<le> h \<and> rs_query st' = rs_query st
     \<and> (res = Inr () \<and> asked = [] \<and> qs \<noteq> [] \<longrightarrow> nonempty_opt (rs_reason st') \<and> rs_recalls st' = rs_recalls st)"
  using assms(1,3)
proof (induction qs arbitrary: st res)
  case Nil
  then show ?case by (intro exI [of _ "[]"]) auto
next
  case (Cons q qs)
  let ?left = "dl - rs_now st"
  show ?case
  proof (cases "?left \<le> 0")
    case True
    with Cons.prems show ?thesis
      by (intro exI [of _ "[]"]) (auto simp: or_reason_def nonempty_opt_def)
  next
    case False
    define rq where "rq = request_of cc ti q ?left"
    define st1 where "st1 = st\<lparr>rs_tried := rs_tried st @ [q], rs_attempted := True, rs_asked := rs_asked st @ [rq]\<rparr>"
    have own: "own_request ti ?left rq" "rq_query rq = q" using False by (simp_all add: rq_def request_of_def own_request_def)
    obtain t o1 where a: "await h (rs_now st) (mp_recall p rq (rs_now st)) = (t, o1)" by (rule prod.exhaust)
    note time = await_time [OF assms(2) Cons.prems(2), of rq "rs_now st", unfolded a, simplified]
    show ?thesis
    proof (cases o1)
      case (Inl s)
      then have "st' = st1\<lparr>rs_now := t\<rparr> \<and> res = Inl s"
        using Cons.prems(1) False a by (simp add: Let_def rq_def [symmetric] st1_def [symmetric])
      with own time show ?thesis by (intro exI [of _ "[rq]"]) (simp add: st1_def)
    next
      case (Inr r)
      define st2 where "st2 = note_recall r (st1\<lparr>rs_now := t\<rparr>)"
      have fields: "rs_asked st2 = rs_asked st @ [rq]" "rs_attempted st2" "rs_now st2 = t" "rs_query st2 = rs_query st"
        by (simp_all add: st2_def st1_def note_recall_def)
      show ?thesis
      proof (cases "has_recall_evidence r")
        case True
        then have "st' = st2 \<and> res = Inr ()"
          using Cons.prems(1) False a Inr by (simp add: Let_def rq_def [symmetric] st1_def [symmetric] st2_def [symmetric])
        with own time fields show ?thesis by (intro exI [of _ "[rq]"]) simp
      next
        case False2: False
        then have "recall_loop cc p ti dl h qs st2 = (res, st')"
          using Cons.prems(1) False a Inr by (simp add: Let_def rq_def [symmetric] st1_def [symmetric] st2_def [symmetric])
        moreover have "rs_now st2 < h" using time Inr fields by simp
        ultimately obtain asked where ih: "rs_asked st' = rs_asked st2 @ asked" "map rq_query asked = take (length asked) qs"
          "list_all (own_request ti (dl - rs_now st2)) asked" "rs_attempted st' = (rs_attempted st2 \<or> asked \<noteq> [])"
          "rs_now st' \<le> h" "rs_query st' = rs_query st2"
          using Cons.IH by blast
        have "list_all (own_request ti ?left) asked"
          using ih(3) time(1) fields(3) by (auto simp: list_all_iff own_request_def)
        with ih own fields show ?thesis by (intro exI [of _ "rq # asked"]) simp
      qed
    qed
  qed
qed



section \<open>The recall\<close>

lemma recall_queries_facts:
  assumes "memory_recall_queries cc hr ti h now = (t, o1)" "\<And>w. 0 \<le> hr_delay hr w" "now < h"
  shows "now \<le> t" "t \<le> h"
    and "o1 = Inr (qs, source) \<Longrightarrow> t < h \<and> qs \<noteq> [] \<and> length qs \<le> 2 \<and> hd qs = ustrip (user_text ti)"
proof -
  let ?w = "min 4 (cc_history_window cc)"
  have d: "0 \<le> fst (read_history hr ti ?w)" by (simp add: read_history_def assms(2))
  have "0 \<le> peek_timeout" by (simp add: peek_timeout_def)
  note time = await_within_time [OF d this assms(3)]
  obtain t1 o2 where w: "await_within peek_timeout h now (read_history hr ti ?w) = (t1, o2)" by (rule prod.exhaust)
  have "now \<le> t1" "t1 \<le> h" "o2 \<noteq> Inl Cut \<Longrightarrow> t1 < h" using time by (simp_all add: w)
  then show "now \<le> t" "t \<le> h" "o1 = Inr (qs, source) \<Longrightarrow> t < h \<and> qs \<noteq> [] \<and> length qs \<le> 2 \<and> hd qs = ustrip (user_text ti)"
    using assms(1,3)
    by (auto simp: memory_recall_queries_def memory_recall_query_def Let_def w
      split: if_splits sum.splits stop.splits prod.splits)
qed

text \<open>What a recall has done when it is over, however it ended.\<close>

definition recall_done ::
  "compiler_config \<Rightarrow> turn_input \<Rightarrow> rat \<Rightarrow> recall_state \<Rightarrow> bool" where
  "recall_done cc ti h st \<longleftrightarrow>
     length (rs_asked st) \<le> 2 \<and> list_all (own_request ti (cc_memory_timeout cc)) (rs_asked st)
     \<and> (rs_asked st \<noteq> [] \<longrightarrow> rq_query (hd (rs_asked st)) = ustrip (user_text ti)) \<and> rs_now st \<le> h"

lemma start_recall_now [simp]: "rs_now (start_recall now) = now" "rs_asked (start_recall now) = []" "\<not> rs_attempted (start_recall now)"
  by (simp_all add: start_recall_def)

lemma canonical_recall_done:
  assumes "canonical_recall px cc p hr ti h (start_recall now) = (res, st)"
    and "\<And>rq t. 0 \<le> fst (mp_recall p rq t)" "\<And>w. 0 \<le> hr_delay hr w" "now < h"
  shows "recall_done cc ti h st" and "rs_attempted st = (rs_asked st \<noteq> [])"
    and "res = Inr payload \<Longrightarrow> \<not> py_degraded payload \<Longrightarrow> rs_attempted st"
proof -
  obtain t o1 where q: "memory_recall_queries cc hr ti h now = (t, o1)" by (rule prod.exhaust)
  note qf = recall_queries_facts [OF q assms(3,4)]
  have "recall_done cc ti h st \<and> rs_attempted st = (rs_asked st \<noteq> [])
    \<and> (\<forall>payload. res = Inr payload \<and> \<not> py_degraded payload \<longrightarrow> rs_attempted st)"
  proof (cases o1)
    case (Inl s)
    then show ?thesis using assms(1) qf(2)
      by (cases s) (auto simp: canonical_recall_def q start_recall_def recall_done_def failed_recall_def)
  next
    case (Inr r)
    obtain qs source where r: "r = (qs, source)" by (rule prod.exhaust)
    define q0 where "q0 = \<lparr>qt_source = source, qt_queries = qs, qt_attempted = []\<rparr>"
    define st0 where "st0 = (start_recall now)\<lparr>rs_now := t, rs_query := Some q0\<rparr>"
    obtain o2 st' where loop: "recall_loop cc p ti (now + cc_memory_timeout cc) h qs st0 = (o2, st')" by (rule prod.exhaust)
    have qs: "t < h" "qs \<noteq> []" "length qs \<le> 2" "hd qs = ustrip (user_text ti)" using qf(3) Inr r by auto
    have st0: "rs_now st0 = t" "rs_asked st0 = []" "\<not> rs_attempted st0" "rs_recalls st0 = []" by (simp_all add: st0_def start_recall_def)
    obtain asked where l: "rs_asked st' = asked" "map rq_query asked = take (length asked) qs"
      "list_all (own_request ti (now + cc_memory_timeout cc - t)) asked" "rs_attempted st' = (asked \<noteq> [])" "rs_now st' \<le> h"
      "o2 = Inr () \<and> asked = [] \<and> qs \<noteq> [] \<longrightarrow> nonempty_opt (rs_reason st') \<and> rs_recalls st' = []"
      using recall_loop_asks [OF loop assms(2)] st0 qs(1) by auto
    have "length asked \<le> length qs" using arg_cong [OF l(2), of length] by simp
    moreover have "list_all (own_request ti (cc_memory_timeout cc)) asked"
      using l(3) qf(1) by (auto simp: list_all_iff own_request_def)
    moreover have "rq_query (hd asked) = hd qs" if "asked \<noteq> []"
      using l(2) that by (cases asked; cases qs) auto
    ultimately have done1: "recall_done cc ti h st'" using qs l(1,5) by (auto simp: recall_done_def)
    have "canonical_recall px cc p hr ti h (start_recall now) =
        (case (o2, st') of
           (Inl Cut, st') \<Rightarrow> (Inl Cut, st')
         | (Inl (Raised e), st') \<Rightarrow> (Inr (failed_recall (Some memory_degraded_notice) (degraded_reason_of e)), st')
         | (Inr (), st') \<Rightarrow> (Inr (recall_payload_of px st'), st'\<lparr>rs_query := Some (q0\<lparr>qt_attempted := rs_tried st'\<rparr>)\<rparr>))"
      unfolding loop [symmetric] st0_def q0_def by (simp add: canonical_recall_def q Inr r Let_def)
    then have outcome: "(case o2 of
           Inl Cut \<Rightarrow> (Inl Cut, st')
         | Inl (Raised e) \<Rightarrow> (Inr (failed_recall (Some memory_degraded_notice) (degraded_reason_of e)), st')
         | Inr () \<Rightarrow> (Inr (recall_payload_of px st'), st'\<lparr>rs_query := Some (q0\<lparr>qt_attempted := rs_tried st'\<rparr>)\<rparr>)) = (res, st)"
      by (simp add: assms(1))
    consider (cut) "o2 = Inl Cut" "st = st'" "res = Inl Cut"
      | (raised) e where "o2 = Inl (Raised e)" "st = st'" "res = Inr (failed_recall (Some memory_degraded_notice) (degraded_reason_of e))"
      | (over) "o2 = Inr ()" "st = st'\<lparr>rs_query := Some (q0\<lparr>qt_attempted := rs_tried st'\<rparr>)\<rparr>" "res = Inr (recall_payload_of px st')"
    proof (cases o2)
      case (Inl s)
      with outcome that(1,2) show ?thesis by (cases s) simp_all
    next
      case (Inr u)
      then have "o2 = Inr ()" by simp
      moreover from this outcome have "(Inr (recall_payload_of px st'), st'\<lparr>rs_query := Some (q0\<lparr>qt_attempted := rs_tried st'\<rparr>)\<rparr>) = (res, st)"
        by (simp only: sum.case unit.case)
      ultimately show ?thesis using that(3) by blast
    qed
    then have "recall_done cc ti h st \<and> rs_attempted st = (rs_asked st \<noteq> [])
      \<and> (\<forall>payload. res = Inr payload \<and> \<not> py_degraded payload \<longrightarrow> rs_attempted st)"
    proof cases
      case over
      have "py_degraded (recall_payload_of px st')" if "asked = []"
        using l(6) over(1) qs(2) that by (simp add: recall_payload_of_def selected_recalls_def Let_def)
      with over done1 l(1,4) show ?thesis by (auto simp: recall_done_def)
    qed (use done1 l(1,4) in \<open>auto simp: recall_done_def failed_recall_def\<close>)
    then show ?thesis .
  qed
  then show "recall_done cc ti h st" "rs_attempted st = (rs_asked st \<noteq> [])"
    "res = Inr payload \<Longrightarrow> \<not> py_degraded payload \<Longrightarrow> rs_attempted st" by blast+
qed


lemma provisional_recall_done:
  assumes "provisional_recall cc p ti h (start_recall now) = (res, st)"
    and "\<And>sc l t. 0 \<le> fst (mp_provisional p sc l t)" "0 \<le> cc_memory_timeout cc" "now < h"
  shows "rs_asked st = []" "rs_now st \<le> h" "res = Inr payload \<Longrightarrow> rs_attempted st"
proof -
  let ?a = "mp_provisional p (memory_scope_of ti) (cc_memory_timeout cc) now"
  obtain t o1 where w: "await_within (cc_memory_timeout cc) h now ?a = (t, o1)" by (rule prod.exhaust)
  have "t \<le> h" using await_within_time(2) [OF assms(2,3,4)] w by (metis fst_conv)
  then show "rs_asked st = []" "rs_now st \<le> h" "res = Inr payload \<Longrightarrow> rs_attempted st"
    using assms(1,4) by (auto simp: provisional_recall_def Let_def w split: option.splits sum.splits stop.splits)
qed

text \<open>Time goes on: no answer of the service comes before the request, no read of the history ends before it began.\<close>

definition timely :: "memory_port option \<Rightarrow> history_reads \<Rightarrow> compiler_config \<Rightarrow> bool" where
  "timely port hr cc \<longleftrightarrow>
     (\<forall>p. port = Some p \<longrightarrow> (\<forall>rq t. 0 \<le> fst (mp_recall p rq t)) \<and> (\<forall>sc l t. 0 \<le> fst (mp_provisional p sc l t)))
     \<and> (\<forall>w. 0 \<le> hr_delay hr w) \<and> 0 \<le> cc_memory_timeout cc"

lemma memory_recall_done:
  assumes "memory_recall px cc port hr ti h now = (res, st)" "timely port hr cc" "now < h"
  shows "recall_done cc ti h st"
    and "memory_skip_reason port ti \<noteq> None \<or> tx_provisional_memory_recall (ti_context ti) \<Longrightarrow> rs_asked st = []"
    and "\<not> tx_provisional_memory_recall (ti_context ti) \<Longrightarrow> rs_attempted st = (rs_asked st \<noteq> [])"
    and "res = Inr (Some payload) \<Longrightarrow> \<not> py_degraded payload \<Longrightarrow> rs_attempted st"
    and "memory_skip_reason port ti = None \<or> res = Inr None"
proof -
  consider (skip) "memory_skip_reason port ti \<noteq> None" | (asks) p where "memory_skip_reason port ti = None" "port = Some p"
    by (cases port) (auto simp: memory_skip_reason_def Let_def split: if_splits)
  then have "recall_done cc ti h st \<and> (memory_skip_reason port ti \<noteq> None \<or> tx_provisional_memory_recall (ti_context ti) \<longrightarrow> rs_asked st = [])
    \<and> (\<not> tx_provisional_memory_recall (ti_context ti) \<longrightarrow> rs_attempted st = (rs_asked st \<noteq> []))
    \<and> (\<forall>payload. res = Inr (Some payload) \<and> \<not> py_degraded payload \<longrightarrow> rs_attempted st)
    \<and> (memory_skip_reason port ti = None \<or> res = Inr None)"
  proof cases
    case skip
    then have "res = Inr None \<and> st = start_recall now" using assms(1) by (auto simp: memory_recall_def)
    with skip assms(3) show ?thesis by (auto simp: recall_done_def)
  next
    case asks
    have port: "\<And>rq t. 0 \<le> fst (mp_recall p rq t)" "\<And>sc l t. 0 \<le> fst (mp_provisional p sc l t)" "\<And>w. 0 \<le> hr_delay hr w"
      "0 \<le> cc_memory_timeout cc" using assms(2) asks(2) by (auto simp: timely_def)
    show ?thesis
    proof (cases "tx_provisional_memory_recall (ti_context ti)")
      case True
      obtain r where r: "provisional_recall cc p ti h (start_recall now) = (r, st)" "res = map_sum id Some r"
        using assms(1) asks True by (auto simp: memory_recall_def split: prod.splits sum.splits)
      show ?thesis
        using provisional_recall_done [OF r(1) port(2,4) assms(3)] True asks r(2)
        by (cases r) (auto simp: recall_done_def)
    next
      case False
      obtain r where r: "canonical_recall px cc p hr ti h (start_recall now) = (r, st)" "res = map_sum id Some r"
        using assms(1) asks False by (auto simp: memory_recall_def split: prod.splits sum.splits)
      show ?thesis
        using canonical_recall_done [OF r(1) port(1,3) assms(3)] False asks r(2) by (cases r) auto
    qed
  qed
  then show "recall_done cc ti h st"
    "memory_skip_reason port ti \<noteq> None \<or> tx_provisional_memory_recall (ti_context ti) \<Longrightarrow> rs_asked st = []"
    "\<not> tx_provisional_memory_recall (ti_context ti) \<Longrightarrow> rs_attempted st = (rs_asked st \<noteq> [])"
    "res = Inr (Some payload) \<Longrightarrow> \<not> py_degraded payload \<Longrightarrow> rs_attempted st"
    "memory_skip_reason port ti = None \<or> res = Inr None" by blast+
qed

text \<open>
  C28. A turn asks the memory service at most twice, first with the person's own words, always for the turn's
  own Owner, Person, Companion, realm and session and with a positive time left of the recall's timeout; it is
  over by the deadline of the reads. Nothing is asked when the recall is skipped or provisional.
\<close>

theorem recall_requests_bounded:
  assumes "timely port hr cc" "now < h"
  shows "let st = snd (memory_recall px cc port hr ti h now); asked = rs_asked st
     in length asked \<le> 2
        \<and> list_all (\<lambda>rq. rq_scope rq = memory_scope_of ti \<and> 0 < rq_timeout rq \<and> rq_timeout rq \<le> cc_memory_timeout cc) asked
        \<and> (asked \<noteq> [] \<longrightarrow> rq_query (hd asked) = ustrip (user_text ti))
        \<and> (memory_skip_reason port ti \<noteq> None \<or> tx_provisional_memory_recall (ti_context ti) \<longrightarrow> asked = [])
        \<and> rs_now st \<le> h"
proof -
  obtain res st where r: "memory_recall px cc port hr ti h now = (res, st)" by (rule prod.exhaust)
  have "own_request ti (cc_memory_timeout cc) =
      (\<lambda>rq. rq_scope rq = memory_scope_of ti \<and> 0 < rq_timeout rq \<and> rq_timeout rq \<le> cc_memory_timeout cc)"
    by (simp add: fun_eq_iff own_request_def)
  with memory_recall_done(1,2) [OF r assms] show ?thesis by (simp add: r Let_def recall_done_def)
qed



section \<open>The receipt\<close>

lemma evidence_was_asked:
  assumes "memory_read env ti = (r, st)" "timely (ce_memory env) (ce_history env) (ce_config env)"
    and "0 < cc_read_timeout (ce_config env)"
    and "\<not> mv_degraded (memory_view_of r)" "mv_empty (memory_view_of r) \<or> memory_text (memory_view_of r) \<noteq> []"
  shows "rs_attempted st"
proof -
  obtain res where recall: "memory_recall (ce_text env) (ce_config env) (ce_memory env) (ce_history env) ti
      (cc_read_timeout (ce_config env)) 0 = (res, st)" and r: "r = finish_read (rs_now st, res)"
    using assms(1) by (auto simp: memory_read_def split: prod.splits)
  from assms(4,5) obtain payload where "res = Inr (Some payload)" "\<not> py_degraded payload"
  proof (cases res)
    case (Inl s)
    then show ?thesis using assms(4)
      by (cases s) (auto simp: r finish_read_def memory_view_of_def view_of_payload_def failed_recall_def)
  next
    case (Inr o1)
    then show ?thesis using assms(4,5) that
      by (cases o1) (auto simp: r finish_read_def memory_view_of_def view_of_payload_def memory_text_def)
  qed
  then show ?thesis using memory_recall_done(4) [OF recall assms(2)] assms(3) by blast
qed

lemma part_in_prompt:
  assumes "e \<in> set es" "slot_parts b rc e = [(k, t)]"
  shows "t \<in> set (system_parts b rc bg es)"
proof -
  have "(k, t) \<in> set (ranked_parts b rc bg es)"
    using assms by (force simp: ranked_parts_def)
  then show ?thesis by (force simp: system_parts_def)
qed

lemma receipt_in_prompt:
  assumes "apply_budget cc (map fst (build_entries env ci vw)) = Inr (ids, ledger, guard)" "user_text (ci_input ci) \<noteq> []"
    and "kept = at_positions ids (build_entries env ci vw)"
  shows "receipt_text env vw kept \<in> set (prompt_parts env ci vw kept)"
proof -
  define status where "status = memory_read_status (vw_memory vw) (vw_execution vw)"
  define e :: entry where "e = (segment MEMORY_SEGMENT ''memory.read_status''
    (estimate_tokens (memory_read_status_block (ce_text env) status (vw_execution vw) ''omitted_by_context_budget'')) 100 False
    (tags ''evidence'' status ''this_turn_only'' ''may_answer_from''), Receipt_slot)"
  have "e \<in> set (request_entries (ce_text env) (user_text (ci_input ci)) status (vw_execution vw))"
    using assms(2) by (simp add: e_def request_entries_def)
  then have "e \<in> set (build_entries env ci vw)" by (simp add: build_entries_def Let_def status_def)
  then have "e \<in> set kept" unfolding assms(3) by (rule protected_entry_kept [OF assms(1)]) (simp add: e_def protected_def)
  then show ?thesis unfolding prompt_parts_def by (rule part_in_prompt) (simp add: e_def slot_parts_def)
qed

lemma memory_in_prompt:
  assumes "kept = at_positions ids (build_entries env ci vw)" "kept_kind ''memory'' kept"
  shows "memory_header (memory_status (vw_memory vw)) @ memory_text (vw_memory vw) \<in> set (prompt_parts env ci vw kept)"
proof -
  obtain e where e: "e \<in> set kept" "sourced ''memory'' e"
    using assms(2) by (auto simp: kept_kind_def sourced_def)
  then have "e \<in> set (filter (sourced ''memory'') (build_entries env ci vw))"
    unfolding assms(1) by (auto dest: kept_is_built)
  then have "e \<in> set (memory_entries (vw_memory vw))" by (simp only: memory_entries_of)
  then have "slot_parts b rc e = [(2, memory_header (memory_status (vw_memory vw)) @ memory_text (vw_memory vw))]" for b rc
    by (auto simp: memory_entries_def slot_parts_def split: if_splits)
  with e(1) show ?thesis unfolding prompt_parts_def by (rule part_in_prompt)
qed

lemma skip_reason_nonempty: "memory_skip_reason m ti \<noteq> Some []"
  by (simp add: memory_skip_reason_def Let_def)

text \<open>
  C25. Every prompt of a turn with a text holds a receipt of the memory read, and the receipt is true: it says
  skipped exactly when the recall was skipped, it says that evidence was found, left out or not found only when
  the service was asked, and it says provided only when the evidence stands in the same prompt.
\<close>

theorem memory_receipt_truthful:
  assumes "compile env ci = Inr r" "user_text (ci_input ci) \<noteq> []"
    and "timely (ce_memory env) (ce_history env) (ce_config env)" "0 < cc_read_timeout (ce_config env)"
  shows "\<exists>p parts status evidence. realize_persona env ci = Inr p
     \<and> cm_content (hd (cd_messages r)) = py_join [10, 10] parts
     \<and> (let vw = compile_view_of env ci p; x = vw_execution vw; v = vw_memory vw
        in memory_read_status_block (ce_text env) status x evidence \<in> set parts
           \<and> (status = ''skipped'') = (memory_skip_reason (ce_memory env) (ci_input ci) \<noteq> None)
           \<and> (evidence \<in> {''provided'', ''no_match'', ''omitted_by_context_budget''} \<longrightarrow> mx_attempted x)
           \<and> (evidence = ''provided'' \<longrightarrow> memory_header (memory_status v) @ memory_text v \<in> set parts))"
proof -
  from assms(1) obtain p where p: "realize_persona env ci = Inr p"
    "assemble env ci (compile_view_of env ci p) (rs_query (snd (memory_read env (ci_input ci)))) = Inr r"
    by (rule compileE)
  define vw where "vw = compile_view_of env ci p"
  from p(2) obtain ids ledger guard where a: "apply_budget (ce_config env) (map fst (build_entries env ci vw)) = Inr (ids, ledger, guard)"
    "cd_kept r = at_positions ids (build_entries env ci vw)" "cd_messages r = compiled_messages env ci vw (cd_kept r)"
    unfolding vw_def by (rule assembleE)
  define parts where "parts = prompt_parts env ci vw (cd_kept r)"
  define status where "status = memory_read_status (vw_memory vw) (vw_execution vw)"
  define evidence where "evidence = memory_evidence_status (vw_memory vw) (kept_kind ''memory'' (cd_kept r))"
  obtain rd st where rd: "memory_read env (ci_input ci) = (rd, st)" by (rule prod.exhaust)
  have view: "vw_memory vw = memory_view_of rd" "vw_execution vw =
      \<lparr>mx_attempted = rs_attempted st, mx_skipped = memory_skip_reason (ce_memory env) (ci_input ci)\<rparr>"
    by (simp_all add: vw_def compile_view_of_def rd Let_def)
  have "memory_read_status_block (ce_text env) status (vw_execution vw) evidence \<in> set parts"
    using receipt_in_prompt [OF a(1) assms(2) a(2)] by (simp only: receipt_text_def status_def evidence_def parts_def)
  moreover have "(status = ''skipped'') = (memory_skip_reason (ce_memory env) (ci_input ci) \<noteq> None)"
    using skip_reason_nonempty by (auto simp: status_def memory_read_status_def view nonempty_opt_def split: option.split)
  moreover have "mx_attempted (vw_execution vw)" if "evidence \<in> {''provided'', ''no_match'', ''omitted_by_context_budget''}"
    using that evidence_was_asked [OF rd assms(3,4)]
    by (auto simp: evidence_def memory_evidence_status_def view split: if_splits)
  moreover have "memory_header (memory_status (vw_memory vw)) @ memory_text (vw_memory vw) \<in> set parts" if "evidence = ''provided''"
    unfolding parts_def
  proof (rule memory_in_prompt [OF a(2)])
    show "kept_kind ''memory'' (cd_kept r)" using that by (auto simp: evidence_def memory_evidence_status_def split: if_splits)
  qed
  moreover have "cm_content (hd (cd_messages r)) = py_join [10, 10] parts"
    by (simp add: a(3) compiled_messages_def new_message_def parts_def)
  ultimately show ?thesis using p(1) by (auto simp: Let_def vw_def [symmetric])
qed

end
