(* ===== verification/Context_Witnesses.thy ===== *)
theory Context_Witnesses
  imports Context_Reads
begin

text \<open>
  A concrete turn for the context compiler: a genome, a memory service that finds one fact after 50 ms, a
  history of one message, and a budget.
\<close>

definition sample_text :: text_env where
  "sample_text = \<lparr>px_str = (\<lambda>v. ''None''), px_float = (\<lambda>q. ''0.5'')\<rparr>"

definition sample_config :: compiler_config where
  "sample_config =
     \<lparr>cc_history_window = 6, cc_degraded_history_window = 20, cc_memory_timeout = 1 / 5, cc_memory_top_k = 5,
      cc_read_timeout = 1 / 4, cc_commitment_limit = 5, cc_commitment_timeout = 1 / 5, cc_budget_tokens = Some 4000,
      cc_budget_mode = ''enabled'', cc_summary_timeout = 1 / 10, cc_message_budget_tokens = 1800,
      cc_output_reserve_tokens = 500\<rparr>"

definition sample_genome :: persona_genome where
  "sample_genome =
     \<lparr>pg_name = utext_of ''Mira'', pg_archetype = utext_of ''friend'', pg_self_concept = [], pg_values = [], pg_boundaries = [],
      pg_portrait = [], pg_tensions = [], pg_growth_edges = [], pg_stage = utext_of ''new'', pg_narrative = [],
      pg_safety_boundaries = [], pg_voice_portrait = [], pg_behavior_guidance = [], pg_modality_notes = [],
      pg_dialogue_examples = [], pg_signature_phrases = [], pg_use_memory_as_evidence = JNull, pg_relation_policies = []\<rparr>"

definition sample_stored :: stored_genome where
  "sample_stored =
     \<lparr>gs_owner_id = ''o1'', gs_companion_id = ''c1'', gs_genome_id = ''g1'', gs_genome_hash = ''h1'', gs_version = 1,
      gs_genome = sample_genome,
      gs_preferences = \<lparr>pf_response_length = Brief, pf_advice_when_asked = True, pf_follow_up_when_needed = True, pf_dump = JNull\<rparr>,
      gs_preference_revision = 1\<rparr>"

definition sample_state :: persona_state where
  "sample_state =
     \<lparr>pn_joy = 0, pn_sad = 0, pn_anger = 0, pn_fear = 0, pn_surprise = 0, pn_energy = 1 / 2, pn_attention = Attend_idle\<rparr>"

definition sample_personas :: persona_service where
  "sample_personas =
     \<lparr>sv_load_pinned = (\<lambda>ow co g h. Inr sample_stored), sv_load_current = (\<lambda>ow co. Inr sample_stored),
      sv_state = sample_state, sv_later_state = sample_state\<rparr>"

definition sample_recall :: recall_result where
  "sample_recall =
     \<lparr>rr_context = utext_of ''likes tea'',
      rr_hits = [\<lparr>mh_id = ''m1'', mh_content = utext_of ''likes tea'', mh_kind = ''preference'', mh_similarity = 1 / 2, mh_metadata = []\<rparr>],
      rr_degraded = False, rr_degraded_reason = None, rr_kg_triples = [], rr_diagnostics = []\<rparr>"

definition sample_port :: memory_port where
  "sample_port =
     \<lparr>mp_actor = (\<lambda>sc. None), mp_provisional = (\<lambda>sc l t. (0, Inr sample_recall)),
      mp_recall = (\<lambda>rq t. (1 / 20, Inr sample_recall)), mp_commitments = None\<rparr>"

definition sample_reads :: history_reads where
  "sample_reads = \<lparr>hr_manager = demo_history, hr_later = (\<lambda>w. demo_history), hr_hydrator = None, hr_delay = (\<lambda>w. 1 / 100)\<rparr>"

definition sample_env :: compile_env where
  "sample_env =
     \<lparr>ce_text = sample_text, ce_config = sample_config, ce_locator = (\<lambda>ow co cv. Inr (co, Some ''g1'')),
      ce_personas = sample_personas, ce_memory = Some sample_port, ce_history = sample_reads,
      ce_summary = Some (\<lambda>cid. (1 / 100, Inr (Some (utext_of ''they met'')))),
      ce_now = \<lparr>dt_year = 2026, dt_month = 1, dt_day = 1, dt_hour = 0, dt_minute = 0, dt_second = 0, dt_micro = 0, dt_offset = Some 0\<rparr>,
      ce_system_id = ''s0'', ce_user_id = ''u0''\<rparr>"

definition sample_context :: turn_context where
  "sample_context =
     \<lparr>tx_owner_id = ''o1'', tx_companion_id = ''c1'', tx_device_id = None, tx_memory_realm_id = ''realm'', tx_genome_id = ''g1'',
      tx_trace_id = [], tx_request_id = [], tx_person_id = Some ''p1'', tx_identity_epoch = Some 0, tx_person_revision = Some 1,
      tx_schema_version = [], tx_genome_hash = ''h1'', tx_realizer_version = [], tx_locale = [], tx_memory_enabled = True,
      tx_speaker_observation = None, tx_source_session_id = None, tx_provisional_memory_save = False,
      tx_provisional_memory_recall = False\<rparr>"

definition sample_input :: "json_dict \<Rightarrow> compile_input" where
  "sample_input md =
     \<lparr>ci_input = \<lparr>ti_turn_id = ''t9'', ti_conversation_id = ''c'', ti_session_id = ''s1'', ti_context = sample_context,
        ti_input_modality = TextInput, ti_trigger = USER_UTTERANCE, ti_text = Some (utext_of ''what do I like''), ti_metadata = md\<rparr>,
      ci_realtime = None, ci_speaker = \<lparr>sf_display_name = None, sf_profile = None\<rparr>, ci_coordination = None\<rparr>"

lemma sample_fields [simp]:
  "ce_config sample_env = sample_config" "ce_memory sample_env = Some sample_port" "ce_history sample_env = sample_reads"
  "cc_budget_tokens sample_config = Some 4000" "cc_budget_mode sample_config = ''enabled''" "cc_history_window sample_config = 6"
  "cc_degraded_history_window sample_config = 20" "cc_read_timeout sample_config = 1 / 4" "cc_memory_timeout sample_config = 1 / 5"
  "ci_input (sample_input md) = \<lparr>ti_turn_id = ''t9'', ti_conversation_id = ''c'', ti_session_id = ''s1'', ti_context = sample_context,
        ti_input_modality = TextInput, ti_trigger = USER_UTTERANCE, ti_text = Some (utext_of ''what do I like''), ti_metadata = md\<rparr>"
  by (simp_all add: sample_env_def sample_config_def sample_input_def)

lemma sample_persona: "\<exists>p. realize_persona sample_env (sample_input md) = Inr p"
  by (simp add: realize_persona_def realize_context_def load_genome_def sample_env_def sample_personas_def sample_context_def Let_def)

lemma sample_words: "user_text (ci_input (sample_input md)) \<noteq> []"
  by (simp add: user_text_def utext_of_def)

lemma sample_timely: "timely (ce_memory sample_env) (ce_history sample_env) (ce_config sample_env)"
  by (simp add: timely_def sample_port_def sample_reads_def)

lemma sample_compiles: "\<exists>r. compile sample_env (sample_input md) = Inr r"
  using sample_persona [of md] compile_returns [of sample_env "sample_input md"] by auto

theorem prompt_layout_witness:
  "\<exists>r p vol. compile sample_env (sample_input []) = Inr r \<and> realize_persona sample_env (sample_input []) = Inr p
     \<and> cm_content (hd (cd_messages r)) = py_join [10, 10]
         ([instruction_header @ rz_stable_prompt p, instruction_header @ harness_policy_prompt]
          @ (if past_messages (cd_kept r) = [] then []
             else [background_context_block sample_text ''s1'' (past_messages (cd_kept r))])
          @ vol @ [request_header @ utext_of ''what do I like''])"
proof -
  obtain r where r: "compile sample_env (sample_input []) = Inr r" using sample_compiles by blast
  with prompt_layout [OF r] sample_words [of "[]"] show ?thesis
    by (auto simp: sample_env_def user_text_def)
qed


theorem hidden_history_unread_witness:
  "compile (sample_env\<lparr>ce_history := sample_reads\<lparr>hr_manager := new_history 3 (\<lambda>j. [])\<rparr>, ce_summary := None\<rparr>)
     (sample_input [(''is_private'', JBool True)])
   = compile sample_env (sample_input [(''is_private'', JBool True)])"
  by (rule hidden_history_unread) (simp add: history_allowed_def policy_from_metadata_def dict_get_def)

theorem temporary_turn_forgets_witness:
  "map_sum id cd_messages (compile (sample_env\<lparr>ce_memory := None, ce_history := sample_reads\<lparr>hr_manager := new_history 3 (\<lambda>j. [])\<rparr>,
       ce_summary := None\<rparr>) (sample_input [(''temporary'', JBool True)]))
   = map_sum id cd_messages (compile sample_env (sample_input [(''temporary'', JBool True)]))"
  by (rule temporary_turn_forgets) (simp add: policy_from_metadata_def dict_get_def)

theorem prompt_within_budget_witness:
  "\<exists>r p. compile sample_env (sample_input []) = Inr r
     \<and> total_tokens (map fst (cd_kept r))
         \<le> max 4000 (total_tokens (filter protected (map fst (build_entries sample_env (sample_input [])
              (compile_view_of sample_env (sample_input []) p)))))"
proof -
  obtain r where r: "compile sample_env (sample_input []) = Inr r" using sample_compiles by blast
  have b: "cc_budget_tokens (ce_config sample_env) = Some 4000" "cc_budget_mode (ce_config sample_env) = ''enabled''" by simp_all
  show ?thesis using r prompt_within_budget [OF r b] by (auto simp: Let_def)
qed

theorem prompt_history_bounded_witness:
  "\<exists>r. compile sample_env (sample_input [(''topic_switch'', JBool True)]) = Inr r
     \<and> length (past_messages (cd_kept r)) \<le> 1"
proof -
  obtain r where r: "compile sample_env (sample_input [(''topic_switch'', JBool True)]) = Inr r" using sample_compiles by blast
  have w: "0 < cc_history_window (ce_config sample_env)"
    "cc_history_window (ce_config sample_env) \<le> cc_degraded_history_window (ce_config sample_env)" by simp_all
  show ?thesis using r prompt_history_bounded [OF r w] by (auto simp: topic_switch_def dict_get_def)
qed

theorem recall_requests_bounded_witness:
  "length (rs_asked (snd (memory_recall sample_text sample_config (Some sample_port) sample_reads
     (ci_input (sample_input [])) (1 / 4) 0))) \<le> 2"
  using recall_requests_bounded [of "Some sample_port" sample_reads sample_config 0 "1 / 4" sample_text "ci_input (sample_input [])"]
    sample_timely by (simp add: Let_def)

theorem memory_receipt_truthful_witness:
  "\<exists>r parts status x evidence. compile sample_env (sample_input []) = Inr r
     \<and> cm_content (hd (cd_messages r)) = py_join [10, 10] parts
     \<and> memory_read_status_block sample_text status x evidence \<in> set parts"
proof -
  obtain r where r: "compile sample_env (sample_input []) = Inr r" using sample_compiles by blast
  have h: "0 < cc_read_timeout (ce_config sample_env)" by simp
  have "ce_text sample_env = sample_text" by (simp add: sample_env_def)
  with r memory_receipt_truthful [OF r sample_words sample_timely h] show ?thesis by (auto simp: Let_def)
qed

end
