(* ===== verification/Tool_Batch.thy ===== *)
theory Tool_Batch
  imports Tool_Dispatcher
begin

text \<open>
  \<open>ToolDispatcher.dispatch_batch\<close>: contiguous readonly calls are gathered, a side-effecting call (or
  one whose name does not resolve) first flushes what is pending and then runs alone. Then the
  properties of the dispatcher: the deny list, the order of results and of effects, validation, and
  idempotency.
\<close>

section \<open>The batch\<close>

type_synonym slots = "tool_result option list"

fun run_calls ::
  "'w dispatcher \<Rightarrow> (string \<times> 'w tool) list option \<Rightarrow> tool_ctx \<Rightarrow> (nat \<times> tool_call) list
     \<Rightarrow> slots \<times> 'w \<Rightarrow> slots \<times> 'w" where
  "run_calls d extra ctx [] sw = sw"
| "run_calls d extra ctx ((i, c) # cs) (slots, w) =
     (let (r, w') = dispatch_one d extra ctx c w
      in run_calls d extra ctx cs (slots[i := Some r], w'))"

definition flush_readonly ::
  "'w dispatcher \<Rightarrow> (string \<times> 'w tool) list option \<Rightarrow> tool_ctx
     \<Rightarrow> ((nat \<times> tool_call) list \<Rightarrow> (nat \<times> tool_call) list)
     \<Rightarrow> (nat \<times> tool_call) list \<Rightarrow> slots \<times> 'w \<Rightarrow> slots \<times> 'w" where
  "flush_readonly d extra ctx sched ro sw =
     (if ro = [] then sw else run_calls d extra ctx (sched ro) sw)"

text \<open>A call that must run alone: its name does not resolve, or its tool has a side effect.\<close>

definition runs_alone ::
  "'w dispatcher \<Rightarrow> (string \<times> 'w tool) list option \<Rightarrow> tool_ctx \<Rightarrow> tool_call \<Rightarrow> bool" where
  "runs_alone d extra ctx c =
     (case resolve_tool d extra (tc_name c) ctx of
        Inl e \<Rightarrow> True
      | Inr tool \<Rightarrow> ts_side_effect (tl_schema tool))"

fun batch_loop ::
  "'w dispatcher \<Rightarrow> (string \<times> 'w tool) list option \<Rightarrow> tool_ctx
     \<Rightarrow> ((nat \<times> tool_call) list \<Rightarrow> (nat \<times> tool_call) list)
     \<Rightarrow> (nat \<times> tool_call) list \<Rightarrow> (nat \<times> tool_call) list \<Rightarrow> slots \<times> 'w \<Rightarrow> slots \<times> 'w" where
  "batch_loop d extra ctx sched [] ro sw = flush_readonly d extra ctx sched ro sw"
| "batch_loop d extra ctx sched ((i, c) # cs) ro sw =
     (if runs_alone d extra ctx c
      then batch_loop d extra ctx sched cs []
             (run_calls d extra ctx [(i, c)] (flush_readonly d extra ctx sched ro sw))
      else batch_loop d extra ctx sched cs (ro @ [(i, c)]) sw)"

definition dispatch_batch_inner ::
  "'w dispatcher \<Rightarrow> (string \<times> 'w tool) list option \<Rightarrow> tool_ctx
     \<Rightarrow> ((nat \<times> tool_call) list \<Rightarrow> (nat \<times> tool_call) list)
     \<Rightarrow> tool_call list \<Rightarrow> 'w \<Rightarrow> tool_result list \<times> 'w" where
  "dispatch_batch_inner d extra ctx sched calls w =
     (let (slots, w') = batch_loop d extra ctx sched (enumerate 0 calls) []
                          (replicate (length calls) None, w)
      in (map the (filter (\<lambda>r. r \<noteq> None) slots), w'))"

text \<open>
  \<open>dispatch_batch\<close> with the optional batch deadline. \<open>late\<close> is the world at the moment the
  deadline passed, if it passed before the batch was done.
\<close>

definition dispatch_batch ::
  "'w dispatcher \<Rightarrow> string option \<Rightarrow> 'w option \<Rightarrow> (string \<times> 'w tool) list option \<Rightarrow> tool_ctx
     \<Rightarrow> ((nat \<times> tool_call) list \<Rightarrow> (nat \<times> tool_call) list)
     \<Rightarrow> tool_call list \<Rightarrow> 'w \<Rightarrow> tool_result list \<times> 'w" where
  "dispatch_batch d batch_timeout_s late extra ctx sched calls w =
     (case batch_timeout_s of
        None \<Rightarrow> dispatch_batch_inner d extra ctx sched calls w
      | Some t \<Rightarrow>
          (case late of
             None \<Rightarrow> dispatch_batch_inner d extra ctx sched calls w
           | Some w' \<Rightarrow>
               (map (\<lambda>c. failed_result c ''eidolon.tool_timeout''
                           (''tool batch exceeded '' @ t @ ''s'')) calls, w')))"


section \<open>The order of execution\<close>

text \<open>The sequence of calls a batch runs, under a schedule.\<close>

fun exec_order ::
  "(tool_call \<Rightarrow> bool) \<Rightarrow> ((nat \<times> tool_call) list \<Rightarrow> (nat \<times> tool_call) list)
     \<Rightarrow> (nat \<times> tool_call) list \<Rightarrow> (nat \<times> tool_call) list \<Rightarrow> (nat \<times> tool_call) list" where
  "exec_order alone sched [] ro = (if ro = [] then [] else sched ro)"
| "exec_order alone sched ((i, c) # cs) ro =
     (if alone c then (if ro = [] then [] else sched ro) @ (i, c) # exec_order alone sched cs []
      else exec_order alone sched cs (ro @ [(i, c)]))"

definition is_schedule :: "((nat \<times> tool_call) list \<Rightarrow> (nat \<times> tool_call) list) \<Rightarrow> bool" where
  "is_schedule sched \<longleftrightarrow> (\<forall>xs. mset (sched xs) = mset xs)"

lemma run_calls_append:
  "run_calls d extra ctx (xs @ ys) sw = run_calls d extra ctx ys (run_calls d extra ctx xs sw)"
  by (induction d extra ctx xs sw rule: run_calls.induct) (auto simp: Let_def split: prod.splits)

lemma batch_loop_exec_order:
  "batch_loop d extra ctx sched cs ro sw
     = run_calls d extra ctx (exec_order (runs_alone d extra ctx) sched cs ro) sw"
proof (induction d extra ctx sched cs ro sw rule: batch_loop.induct)
  case (1 d extra ctx sched ro sw)
  then show ?case by (simp add: flush_readonly_def)
next
  case (2 d extra ctx sched i c cs ro sw)
  then show ?case
    by (cases sw) (auto simp: flush_readonly_def run_calls_append [symmetric] simp del: run_calls.simps)
qed

lemma exec_order_mset:
  "is_schedule sched \<Longrightarrow> mset (exec_order alone sched cs ro) = mset ro + mset cs"
  by (induction alone sched cs ro rule: exec_order.induct) (auto simp: is_schedule_def)

lemma exec_order_length:
  "is_schedule sched \<Longrightarrow> length (exec_order alone sched cs ro) = length ro + length cs"
  by (metis exec_order_mset size_mset size_union)

text \<open>A call that runs alone keeps its place: exactly the calls before it have run by then.\<close>

lemma exec_order_barrier:
  assumes "is_schedule sched" "j < length cs" "alone (snd (cs ! j))"
  shows "exec_order alone sched cs ro ! (length ro + j) = cs ! j
     \<and> mset (take (length ro + j) (exec_order alone sched cs ro)) = mset ro + mset (take j cs)"
  using assms
proof (induction alone sched cs ro arbitrary: j rule: exec_order.induct)
  case (1 alone sched ro)
  then show ?case by simp
next
  case (2 alone sched i c cs ro)
  let ?front = "if ro = [] then [] else sched ro"
  from "2.prems"(1) have front: "mset ?front = mset ro" "length ?front = length ro"
    using mset_eq_length by (auto simp: is_schedule_def)
  show ?case
  proof (cases "alone c")
    case True
    show ?thesis
    proof (cases j)
      case 0
      with True front show ?thesis by (auto simp: nth_append)
    next
      case (Suc j')
      with "2.prems" have "j' < length cs" "alone (snd (cs ! j'))" by auto
      with "2.IH"(1) [OF True "2.prems"(1)] True front show ?thesis
        by (auto simp: Suc nth_append)
    qed
  next
    case False
    with "2.prems" obtain j' where j: "j = Suc j'" by (cases j) auto
    with "2.prems" have "j' < length cs" "alone (snd (cs ! j'))" by auto
    with "2.IH"(2) [OF False "2.prems"(1)] False show ?thesis by (simp add: j)
  qed
qed

lemma enumerate_nth: "j < length xs \<Longrightarrow> enumerate 0 xs ! j = (j, xs ! j)"
  by (simp add: nth_enumerate_eq)

text \<open>Every slot is filled exactly once, by the call of its index.\<close>

definition slot_from :: "'w dispatcher \<Rightarrow> (string \<times> 'w tool) list option \<Rightarrow> tool_ctx \<Rightarrow> tool_call
    \<Rightarrow> tool_result \<Rightarrow> bool" where
  "slot_from d extra ctx c r = (\<exists>w. r = fst (dispatch_one d extra ctx c w))"

lemma run_calls_slots:
  assumes "distinct (map fst cs)" "\<forall>(i, c) \<in> set cs. i < length slots"
  shows "length (fst (run_calls d extra ctx cs (slots, w))) = length slots \<and>
     (\<forall>j < length slots. (case map_of cs j of
        None \<Rightarrow> fst (run_calls d extra ctx cs (slots, w)) ! j = slots ! j
      | Some c \<Rightarrow> \<exists>r. fst (run_calls d extra ctx cs (slots, w)) ! j = Some r \<and> slot_from d extra ctx c r))"
  using assms
proof (induction cs arbitrary: slots w)
  case Nil
  then show ?case by simp
next
  case (Cons p cs)
  obtain i c where p: "p = (i, c)" by (cases p)
  obtain r w' where r: "dispatch_one d extra ctx c w = (r, w')" by fastforce
  let ?s = "slots[i := Some r]"
  from Cons.prems have "distinct (map fst cs)" "\<forall>(i, c) \<in> set cs. i < length ?s" "map_of cs i = None"
    by (auto simp: p map_of_eq_None_iff)
  with Cons.IH [of ?s w'] have IH:
    "length (fst (run_calls d extra ctx cs (?s, w'))) = length slots"
    "\<And>j. j < length slots \<Longrightarrow> (case map_of cs j of
        None \<Rightarrow> fst (run_calls d extra ctx cs (?s, w')) ! j = ?s ! j
      | Some c \<Rightarrow> \<exists>r. fst (run_calls d extra ctx cs (?s, w')) ! j = Some r \<and> slot_from d extra ctx c r)"
    and i: "map_of cs i = None"
    by auto
  have sf: "slot_from d extra ctx c r" unfolding slot_from_def by (metis fst_conv r)
  have "case map_of (p # cs) j of
        None \<Rightarrow> fst (run_calls d extra ctx (p # cs) (slots, w)) ! j = slots ! j
      | Some c \<Rightarrow> \<exists>r. fst (run_calls d extra ctx (p # cs) (slots, w)) ! j = Some r
                      \<and> slot_from d extra ctx c r" if j: "j < length slots" for j
  proof (cases "j = i")
    case True
    with IH(2) [OF j] i sf j show ?thesis by (simp add: p r)
  next
    case False
    with IH(2) [OF j] show ?thesis by (simp add: p r split: option.splits)
  qed
  with IH(1) show ?case by (simp add: p r)
qed


text \<open>Concrete inputs for the witnesses: a readonly and a side-effecting tool over a counter.\<close>

definition demo_schema :: "string \<Rightarrow> bool \<Rightarrow> string option \<Rightarrow> tool_schema" where
  "demo_schema name effect tmpl =
     \<lparr>ts_name = name, ts_description = [],
      ts_json_schema = JSchema (Some ''object'') [] [(''n'', JSchema (Some ''integer'') [] [] False None)] True None,
      ts_permissions = [NETWORK], ts_timeout_s = 5, ts_side_effect = effect, ts_supports_dry_run = False,
      ts_idempotency_key_template = tmpl, ts_llm_name = None\<rparr>"

definition demo_result :: "tool_call \<Rightarrow> json \<Rightarrow> tool_result" where
  "demo_result c v =
     \<lparr>tr_call_id = tc_id c, tr_name = tc_name c, tr_ok = True, tr_content = v, tr_error_code = None,
      tr_error_message = None, tr_latency_ms = 0, tr_metadata = []\<rparr>"

definition demo_bump :: "(int \<times> json kv_store) tool" where
  "demo_bump =
     \<lparr>tl_schema = demo_schema ''bump'' True (Some ''${owner_id}:${arguments_json}''),
      tl_invoke = (\<lambda>c x (n, s). (Returned (demo_result c (JInt (n + 1))), 3, (n + 1, s)))\<rparr>"

definition demo_peek :: "(int \<times> json kv_store) tool" where
  "demo_peek =
     \<lparr>tl_schema = demo_schema ''peek'' False None,
      tl_invoke = (\<lambda>c x (n, s). (Returned (demo_result c (JInt n)), 1, (n, s)))\<rparr>"

definition lift_get :: "(string \<Rightarrow> 's \<Rightarrow> json option \<times> 's) \<Rightarrow> string \<Rightarrow> 'a \<times> 's
    \<Rightarrow> json option result \<times> ('a \<times> 's)" where
  "lift_get pget k w = (case pget k (snd w) of (v, s) \<Rightarrow> (Inr v, (fst w, s)))"

definition lift_put :: "(string \<Rightarrow> json \<Rightarrow> 's \<Rightarrow> 's) \<Rightarrow> string \<Rightarrow> json \<Rightarrow> 'a \<times> 's
    \<Rightarrow> unit result \<times> ('a \<times> 's)" where
  "lift_put pput k v w = (Inr (), (fst w, pput k v (snd w)))"

definition demo_dispatcher :: "(int \<times> json kv_store) dispatcher" where
  "demo_dispatcher =
     \<lparr>d_registry = \<lparr>reg_tools = [(''bump'', demo_bump), (''peek'', demo_peek)], reg_aliases = []\<rparr>,
      d_idemp = Some (lift_get (kv_port_get 0), lift_put (kv_port_put 0)),
      d_allowed = Some [NETWORK], d_schema_strict = True, d_require_idempotency = True,
      d_sha256 = (\<lambda>s. s), d_str = (\<lambda>v. ''?''), d_float_repr = (\<lambda>q. ''0.0'')\<rparr>"

definition demo_context :: turn_context where
  "demo_context =
     \<lparr>tx_owner_id = ''o1'', tx_companion_id = ''c1'', tx_device_id = None, tx_memory_realm_id = ''r1'',
      tx_genome_id = ''g1'', tx_trace_id = ''t1'', tx_request_id = ''q1'', tx_person_id = None,
      tx_identity_epoch = None, tx_person_revision = None, tx_schema_version = [], tx_genome_hash = [],
      tx_realizer_version = [], tx_locale = ''zh-CN'', tx_memory_enabled = True,
      tx_speaker_observation = None, tx_source_session_id = None,
      tx_provisional_memory_save = False, tx_provisional_memory_recall = False\<rparr>"

definition demo_tool_ctx :: "string list \<Rightarrow> tool_ctx" where
  "demo_tool_ctx denied =
     \<lparr>tic_turn_context = demo_context, tic_input_modality = TextInput, tic_turn_id = ''turn1'',
      tic_conversation_id = None, tic_session_id = None, tic_user_text = None, tic_companion_id = None,
      tic_memory_realm_id = None, tic_dry_run = False, tic_denied_tools = denied\<rparr>"

definition demo_call :: "string \<Rightarrow> string \<Rightarrow> tool_call" where
  "demo_call i name = \<lparr>tc_id = i, tc_name = name, tc_arguments = [(''n'', JInt 1)]\<rparr>"


section \<open>Properties\<close>

text \<open>
  Whatever order the readonly calls run in, a batch returns one result per call, in the order
  of the calls, and the result at position \<open>j\<close> is the result of dispatching call \<open>j\<close>.
\<close>

theorem batch_results_in_call_order:
  assumes "is_schedule sched"
  shows "length (fst (dispatch_batch_inner d extra ctx sched calls w)) = length calls
     \<and> (\<forall>j < length calls. \<exists>w'. fst (dispatch_batch_inner d extra ctx sched calls w) ! j
                                   = fst (dispatch_one d extra ctx (calls ! j) w'))"
proof -
  let ?order = "exec_order (runs_alone d extra ctx) sched (enumerate 0 calls) []"
  let ?slots = "fst (run_calls d extra ctx ?order (replicate (length calls) None, w))"
  have m: "mset ?order = mset (enumerate 0 calls)"
    by (simp add: exec_order_mset [OF assms])
  then have set_eq: "set ?order = set (enumerate 0 calls)" by (rule mset_eq_setD)
  from m have "mset (map fst ?order) = mset (map fst (enumerate 0 calls))"
    by (simp only: mset_map)
  then have dist: "distinct (map fst ?order)"
    using mset_eq_imp_distinct_iff by fastforce
  have bound: "\<forall>(i, c) \<in> set ?order. i < length (replicate (length calls) (None :: tool_result option))"
    by (auto simp: set_eq in_set_enumerate_eq)
  have lookup: "map_of ?order j = Some (calls ! j)" if "j < length calls" for j
    using that dist by (auto simp: set_eq in_set_enumerate_eq)
  note R = run_calls_slots [OF dist bound, of d extra ctx w]
  have len: "length ?slots = length calls" using R by simp
  have slot: "\<exists>r. ?slots ! j = Some r \<and> slot_from d extra ctx (calls ! j) r" if "j < length calls" for j
    using R that lookup [OF that] by auto
  have full: "filter (\<lambda>r. r \<noteq> None) ?slots = ?slots"
    using slot len by (fastforce simp: filter_id_conv in_set_conv_nth)
  have eq: "fst (dispatch_batch_inner d extra ctx sched calls w) = map the ?slots"
    by (simp only: dispatch_batch_inner_def batch_loop_exec_order case_prod_beta Let_def fst_conv full)
  have "\<exists>w'. map the ?slots ! j = fst (dispatch_one d extra ctx (calls ! j) w')"
    if j: "j < length calls" for j
    using slot [OF j] j by (auto simp: len slot_from_def)
  then show ?thesis by (simp add: eq len)
qed

theorem batch_results_in_call_order_witness:
  "length (fst (dispatch_batch_inner demo_dispatcher None (demo_tool_ctx []) rev
             [demo_call ''1'' ''peek'', demo_call ''2'' ''bump''] (10, kv_empty))) = 2"
proof -
  have "is_schedule rev" by (simp add: is_schedule_def)
  from batch_results_in_call_order [OF this, of demo_dispatcher None "demo_tool_ctx []"
      "[demo_call ''1'' ''peek'', demo_call ''2'' ''bump'']" "(10, kv_empty)"]
  show ?thesis by simp
qed





text \<open>
  In strict mode a tool runs only with arguments that conform to its schema and with all the
  permissions it declares: a call that changes the world resolved, was permitted and was valid.
\<close>

theorem dispatch_effect_needs_valid_call:
  assumes "snd (dispatch_one d extra ctx call w) \<noteq> w" and "d_schema_strict d"
  shows "\<exists>tool. resolve_tool d extra (tc_name call) ctx = Inr tool
     \<and> (\<forall>allowed. d_allowed d = Some allowed \<longrightarrow> set (ts_permissions (tl_schema tool)) \<subseteq> set allowed)
     \<and> validate_schema (ts_json_schema (tl_schema tool)) (JDict (tc_arguments call)) ''$'' = None"
proof (cases "resolve_tool d extra (tc_name call) ctx")
  case (Inl e)
  with assms show ?thesis by (simp add: dispatch_one_def)
next
  case (Inr tool)
  with assms have "check_permissions d (tl_schema tool) = None"
    and v: "validate_schema (ts_json_schema (tl_schema tool)) (JDict (tc_arguments call)) ''$'' = None"
    by (auto simp: dispatch_one_def split: option.splits if_splits)
  then have "\<forall>allowed. d_allowed d = Some allowed \<longrightarrow> set (ts_permissions (tl_schema tool)) \<subseteq> set allowed"
    by (auto simp: check_permissions_def Let_def filter_empty_conv split: option.splits if_splits)
  with Inr v show ?thesis by blast
qed

theorem dispatch_effect_needs_valid_call_witness:
  "\<exists>tool. resolve_tool demo_dispatcher None (tc_name (demo_call ''1'' ''bump'')) (demo_tool_ctx []) = Inr tool
     \<and> validate_schema (ts_json_schema (tl_schema tool))
           (JDict (tc_arguments (demo_call ''1'' ''bump''))) ''$'' = None"
proof -
  have "fst (snd (dispatch_one demo_dispatcher None (demo_tool_ctx []) (demo_call ''1'' ''bump'') (10, kv_empty)))
      \<noteq> (10 :: int)"
    by code_simp
  then have ran: "snd (dispatch_one demo_dispatcher None (demo_tool_ctx []) (demo_call ''1'' ''bump'') (10, kv_empty))
      \<noteq> (10, kv_empty)"
    by auto
  have strict: "d_schema_strict demo_dispatcher" by (simp add: demo_dispatcher_def)
  show ?thesis using dispatch_effect_needs_valid_call [OF ran strict] by blast
qed

text \<open>
  An argument chosen by the model cannot stand in for a value of the turn: in the values of the
  idempotency key the owner, companion, memory realm, turn and request ids, the tool name and the
  canonical arguments are the dispatcher's own, whatever the arguments are called.
\<close>

theorem idemp_values_not_spoofed:
  "map_of (idemp_values d call ctx) ''owner_id'' = Some (tx_owner_id (tic_turn_context ctx))
   \<and> map_of (idemp_values d call ctx) ''companion_id'' = Some (tx_companion_id (tic_turn_context ctx))
   \<and> map_of (idemp_values d call ctx) ''memory_realm_id'' = Some (tx_memory_realm_id (tic_turn_context ctx))
   \<and> map_of (idemp_values d call ctx) ''turn_id'' = Some (tic_turn_id ctx)
   \<and> map_of (idemp_values d call ctx) ''request_id'' = Some (tx_request_id (tic_turn_context ctx))
   \<and> map_of (idemp_values d call ctx) ''tool_name'' = Some (tc_name call)
   \<and> map_of (idemp_values d call ctx) ''arguments_json''
        = Some (json_dumps (d_float_repr d) (JDict (tc_arguments call)))"
  by (simp add: idemp_values_def Let_def)


section \<open>Idempotency over the key-value port\<close>

text \<open>The idempotency bucket is a \<open>kv_port\<close> that stores JSON documents.\<close>

locale idemp_bucket = kv_port pget pput
  for pget :: "string \<Rightarrow> 's \<Rightarrow> json option \<times> 's" and pput :: "string \<Rightarrow> json \<Rightarrow> 's \<Rightarrow> 's"
begin

lemma store_result_ok:
  assumes "d_idemp d = Some (lift_get pget, lift_put pput)" "tr_ok r"
  shows "store_result d (Some k) r (a, s)
     = (Inr r, (a, pput k (JDict [(''ok'', JBool True), (''content'', tr_content r)]) s))"
  using assms by (simp add: store_result_def lift_put_def)

text \<open>What a successful keyed invocation leaves in the bucket answers the next one with that key.\<close>

lemma keyed_success_stored:
  assumes d: "d_idemp d = Some (lift_get pget, lift_put pput)"
    and key: "maybe_idemp_key d (tl_schema tool) call ctx = Some k"
    and run: "invoke_one d tool call ctx w = (Inr r, (a, s))" and ok: "tr_ok r"
  shows "\<exists>p. fst (pget k s) = Some (JDict p)
     \<and> truthy (case map_of p ''ok'' of None \<Rightarrow> JBool True | Some v \<Rightarrow> v) \<and> dict_get p ''content'' = tr_content r"
proof -
  obtain a0 s0 where w: "w = (a0, s0)" by (cases w)
  obtain v s1 where get: "pget k s0 = (v, s1)" by fastforce
  have templ: "\<not> (case ts_idempotency_key_template (tl_schema tool) of None \<Rightarrow> True | Some t \<Rightarrow> t = [])"
    using key by (auto simp: maybe_idemp_key_def split: option.splits)
  have inv: "invoke_one d tool call ctx w =
     (case v of Some (JDict p) \<Rightarrow> (Inr (cached_result call p), (a0, s1))
      | Some _ \<Rightarrow> (Inl (None, ''object has no attribute get''), (a0, s1))
      | None \<Rightarrow> run_tool d tool call ctx (Some k) (a0, s1))"
    using templ by (simp add: invoke_one_def Let_def d key w get lift_get_def
        split: option.splits json.splits)
  show ?thesis
  proof (cases v)
    case None
    with inv run have rt: "run_tool d tool call ctx (Some k) (a0, s1) = (Inr r, (a, s))" by simp
    obtain out ms w' where o: "tl_invoke tool call ctx (a0, s1) = (out, ms, w')"
      by (metis prod_cases3)
    have "\<exists>x s'. r = x \<and> s = pput k (JDict [(''ok'', JBool True), (''content'', tr_content r)]) s'"
    proof (cases out)
      case (Returned x)
      with rt o ok show ?thesis
        by (cases w') (auto simp: run_tool_def store_result_def d lift_put_def split: if_splits)
    next
      case (Raised code msg)
      with rt o show ?thesis by (simp add: run_tool_def)
    next
      case TimedOut
      with rt o ok show ?thesis by (auto simp: run_tool_def)
    qed
    then obtain s' where "s = pput k (JDict [(''ok'', JBool True), (''content'', tr_content r)]) s'"
      by blast
    then show ?thesis by (simp add: get_put dict_get_def)
  next
    case (Some j)
    with inv run obtain p where p: "j = JDict p" "r = cached_result call p" "s = s1"
      by (auto split: json.splits)
    have "fst (pget k s1) = Some (JDict p)"
      using get_get [of k k s0] by (simp add: get Some p)
    with p ok show ?thesis
      by (auto simp: cached_result_def split: option.splits)
  qed
qed

lemma keyed_replay:
  assumes d: "d_idemp d = Some (lift_get pget, lift_put pput)"
    and key: "maybe_idemp_key d (tl_schema tool) call ctx = Some k"
    and stored: "fst (pget k s) = Some (JDict p)"
  shows "invoke_one d tool call ctx (a, s) = (Inr (cached_result call p), (a, snd (pget k s)))"
proof -
  have "\<not> (case ts_idempotency_key_template (tl_schema tool) of None \<Rightarrow> True | Some t \<Rightarrow> t = [])"
    using key by (auto simp: maybe_idemp_key_def split: option.splits)
  then show ?thesis
    using stored by (cases "pget k s") (simp add: invoke_one_def d key lift_get_def)
qed

end

interpretation inmem_bucket: idemp_bucket "kv_port_get now" "kv_port_put now" for now
  by unfold_locales

text \<open>
  C16. A keyed tool runs at most once per key: after it succeeded, a later invocation with the same
  key, by whatever call and whatever has happened to the rest of the world, returns the stored
  content as a success without running the tool; only the bucket is read.
\<close>

theorem idempotent_tool_runs_once:
  assumes "d_idemp d = Some (lift_get (kv_port_get now), lift_put (kv_port_put now))"
    and "maybe_idemp_key d (tl_schema tool) call ctx = Some k"
    and "invoke_one d tool call ctx w = (Inr r, (a, s))" and "tr_ok r"
    and "maybe_idemp_key d (tl_schema tool) call' ctx' = Some k"
  shows "\<exists>r'. invoke_one d tool call' ctx' (a', s) = (Inr r', (a', snd (kv_port_get now k s)))
     \<and> tr_ok r' \<and> tr_content r' = tr_content r \<and> tr_call_id r' = tc_id call'"
proof -
  obtain p where p: "fst (kv_port_get now k s) = Some (JDict p)"
    "truthy (case map_of p ''ok'' of None \<Rightarrow> JBool True | Some v \<Rightarrow> v)" "dict_get p ''content'' = tr_content r"
    using inmem_bucket.keyed_success_stored [OF assms(1-4)] by blast
  from inmem_bucket.keyed_replay [OF assms(1,5) p(1), of a'] p(2,3) show ?thesis
    by (auto simp: cached_result_def split: option.splits)
qed

theorem idempotent_tool_runs_once_witness:
  "\<exists>r'. invoke_one demo_dispatcher demo_bump (demo_call ''9'' ''bump'') (demo_tool_ctx [])
          (77, snd (snd (invoke_one demo_dispatcher demo_bump (demo_call ''1'' ''bump'') (demo_tool_ctx [])
                          (10, kv_empty))))
        = (Inr r', (77, snd (kv_port_get 0 (the (maybe_idemp_key demo_dispatcher (tl_schema demo_bump)
                                                  (demo_call ''1'' ''bump'') (demo_tool_ctx [])))
             (snd (snd (invoke_one demo_dispatcher demo_bump (demo_call ''1'' ''bump'') (demo_tool_ctx [])
                          (10, kv_empty)))))))
     \<and> tr_ok r' \<and> tr_content r' = JInt 11 \<and> tr_call_id r' = ''9''"
proof -
  let ?w = "invoke_one demo_dispatcher demo_bump (demo_call ''1'' ''bump'') (demo_tool_ctx []) (10, kv_empty)"
  let ?r = "projr (fst ?w)"
  have ok: "tr_ok ?r" and ct: "tr_content ?r = JInt 11"
    by code_simp+
  have run: "?w = (Inr ?r, (fst (snd ?w), snd (snd ?w)))" by code_simp
  have key: "maybe_idemp_key demo_dispatcher (tl_schema demo_bump) (demo_call i ''bump'') (demo_tool_ctx [])
      = Some (the (maybe_idemp_key demo_dispatcher (tl_schema demo_bump)
                     (demo_call ''1'' ''bump'') (demo_tool_ctx [])))" for i
    by (simp add: maybe_idemp_key_def demo_bump_def demo_schema_def demo_call_def idemp_values_def)
  have idemp: "d_idemp demo_dispatcher = Some (lift_get (kv_port_get 0), lift_put (kv_port_put 0))"
    and tid: "tc_id (demo_call ''9'' ''bump'') = ''9''"
    by (simp_all add: demo_dispatcher_def demo_call_def)
  from idempotent_tool_runs_once [where a' = 77, OF idemp key [of "''1''"] run ok key [of "''9''"]]
  show ?thesis by (simp only: ct tid)
qed

end
