(* ===== verification/Event_Bus.thy ===== *)
theory Event_Bus
  imports Glob
begin

text \<open>
  The in-process event bus of \<open>infra/events/adapters/inmem.py\<close>: subscriptions in the order they
  were made, and \<open>publish\<close>, which schedules one delivery per selected subscription. A handler is an
  identity of type \<open>'h\<close> (the code compares handlers with \<open>==\<close>); what a delivery task does with
  its handler's outcome is \<open>safe_invoke\<close>. The lock makes each operation one step.
\<close>

section \<open>Events and subjects\<close>

record bus_event =
  ev_subject :: string
  ev_payload :: "(string \<times> json) list"
  ev_trace_id :: "string option"
  ev_source :: "string option"
  ev_metadata :: "(string \<times> json) list"

text \<open>The subject builders of \<open>core/types/topics.py\<close>; the subject token of a memory space comes
  from the memory contracts package and is a parameter.\<close>

definition topic_turn_completed :: "string \<Rightarrow> string" where
  "topic_turn_completed conv_id = ''agent.turn.completed.'' @ conv_id"

definition topic_fsm_changed :: "string \<Rightarrow> string" where
  "topic_fsm_changed session_id = ''agent.fsm.changed.'' @ session_id"

definition topic_signal :: "string \<Rightarrow> string \<Rightarrow> string" where
  "topic_signal modality session_id = ''agent.signal.'' @ modality @ ''.'' @ session_id"

definition topic_emotion_turn :: "string \<Rightarrow> string" where
  "topic_emotion_turn owner_id = ''agent.emotion.turn.'' @ owner_id"

definition topic_memory_conversation_turn :: "(string \<Rightarrow> string) \<Rightarrow> string \<Rightarrow> string" where
  "topic_memory_conversation_turn space_token space = ''eidolon.memory.turn.'' @ space_token space"

definition topic_memory_command :: "(string \<Rightarrow> string) \<Rightarrow> string \<Rightarrow> string" where
  "topic_memory_command space_token space = ''eidolon.memory.cmd.'' @ space_token space"

definition persistent_prefixes :: "string list" where
  "persistent_prefixes = [''eidolon.memory.'', ''agent.emotion.'']"

definition is_persistent :: "string \<Rightarrow> bool" where
  "is_persistent subject = (\<exists>p \<in> set persistent_prefixes. starts_with subject p)"


section \<open>Subscriptions\<close>

record 'h subscription =
  sub_pattern :: string
  sub_handler :: 'h
  sub_group :: "string option"

record 'h event_bus =
  bus_subs :: "'h subscription list"
  bus_responders :: "(string \<times> 'h) list"
  bus_tasks :: "('h \<times> bus_event) list"

definition new_bus :: "'h event_bus" where
  "new_bus = \<lparr>bus_subs = [], bus_responders = [], bus_tasks = []\<rparr>"

definition bus_subscribe ::
  "string \<Rightarrow> 'h \<Rightarrow> string option \<Rightarrow> 'h event_bus \<Rightarrow> 'h subscription \<times> 'h event_bus" where
  "bus_subscribe pattern h g b =
     (let s = \<lparr>sub_pattern = pattern, sub_handler = h, sub_group = g\<rparr>
      in (s, b\<lparr>bus_subs := bus_subs b @ [s]\<rparr>))"

text \<open>The unsubscribe handle: it removes the first subscription equal to its own, if any is left.\<close>

definition bus_unsubscribe :: "'h subscription \<Rightarrow> 'h event_bus \<Rightarrow> 'h event_bus" where
  "bus_unsubscribe s b = (if s \<in> set (bus_subs b) then b\<lparr>bus_subs := remove1 s (bus_subs b)\<rparr> else b)"

text \<open>The selection loop of \<open>publish\<close>; \<open>seen\<close> is \<open>seen_groups\<close>.\<close>

fun select_targets :: "string \<Rightarrow> string list \<Rightarrow> 'h subscription list \<Rightarrow> 'h subscription list" where
  "select_targets subject seen [] = []"
| "select_targets subject seen (s # ss) =
     (if \<not> matches (sub_pattern s) subject then select_targets subject seen ss
      else case sub_group s of
        None \<Rightarrow> s # select_targets subject seen ss
      | Some g \<Rightarrow> (if g \<in> set seen then select_targets subject seen ss
                  else s # select_targets subject (g # seen) ss))"

definition bus_publish :: "bus_event \<Rightarrow> 'h event_bus \<Rightarrow> 'h event_bus" where
  "bus_publish e b =
     b\<lparr>bus_tasks := bus_tasks b @
         map (\<lambda>s. (sub_handler s, e)) (select_targets (ev_subject e) [] (bus_subs b))\<rparr>"

definition bus_register_responder :: "string \<Rightarrow> 'h \<Rightarrow> 'h event_bus \<Rightarrow> 'h event_bus" where
  "bus_register_responder subject h b = b\<lparr>bus_responders := dict_put subject h (bus_responders b)\<rparr>"

text \<open>\<open>request\<close>: the reply of a responder, \<open>None\<close> where it does not reply within the timeout.\<close>

definition bus_request ::
  "('h \<Rightarrow> (string \<times> json) list \<Rightarrow> (string \<times> json) list result option) \<Rightarrow> string
     \<Rightarrow> (string \<times> json) list \<Rightarrow> 'h event_bus \<Rightarrow> (string \<times> json) list result" where
  "bus_request respond subject payload b =
     (case map_of (bus_responders b) subject of
        None \<Rightarrow> Inl (AsyncTimeoutError (''no responder for '' @ subject))
      | Some h \<Rightarrow> (case respond h payload of
          None \<Rightarrow> Inl (AsyncTimeoutError [])
        | Some r \<Rightarrow> r))"

text \<open>\<open>_safe_invoke\<close>: a handler's exception ends in a warning; only a cancellation gets out.\<close>

datatype handler_outcome = Handled | HandlerRaised py_error | HandlerCancelled

datatype task_outcome = TaskDone | TaskWarned string string | TaskCancelled

fun safe_invoke :: "string \<Rightarrow> bus_event \<Rightarrow> handler_outcome \<Rightarrow> task_outcome" where
  "safe_invoke handler_name e Handled = TaskDone"
| "safe_invoke handler_name e (HandlerRaised x) = TaskWarned handler_name (ev_subject e)"
| "safe_invoke handler_name e HandlerCancelled = TaskCancelled"


section \<open>Properties\<close>

lemma select_targets_ungrouped:
  "filter (\<lambda>s. sub_group s = None) (select_targets subject seen ss)
     = filter (\<lambda>s. sub_group s = None \<and> matches (sub_pattern s) subject) ss"
  by (induction ss arbitrary: seen) (auto split: option.splits)

lemma select_targets_group:
  "filter (\<lambda>s. sub_group s = Some g) (select_targets subject seen ss)
     = (if g \<in> set seen then []
        else take 1 (filter (\<lambda>s. sub_group s = Some g \<and> matches (sub_pattern s) subject) ss))"
  by (induction ss arbitrary: seen) (auto split: option.splits)

text \<open>
  A published event is scheduled once for every matching subscription outside a queue group, in
  subscription order, and for exactly one member of each queue group that has a matching one: the
  earliest.
\<close>

theorem publish_selects_targets:
  "\<exists>targets. bus_tasks (bus_publish e b) = bus_tasks b @ map (\<lambda>s. (sub_handler s, e)) targets
     \<and> filter (\<lambda>s. sub_group s = None) targets
         = filter (\<lambda>s. sub_group s = None \<and> matches (sub_pattern s) (ev_subject e)) (bus_subs b)
     \<and> (\<forall>g. filter (\<lambda>s. sub_group s = Some g) targets
         = take 1 (filter (\<lambda>s. sub_group s = Some g \<and> matches (sub_pattern s) (ev_subject e)) (bus_subs b)))"
  by (rule exI [of _ "select_targets (ev_subject e) [] (bus_subs b)"])
    (simp add: bus_publish_def select_targets_ungrouped select_targets_group)

text \<open>
  A subscription pattern ending in \<open>*\<close> matches exactly the subjects the same pattern ending
  in \<open>>\<close> matches: the star crosses token boundaries, where its documentation says it stands for a
  single token.
\<close>

theorem star_is_tail_wildcard:
  "list_all glob_literal p \<Longrightarrow> matches (p @ ''*'') s = matches (p @ ''>'') s"
  by (simp add: matches_star matches_tail)

theorem star_is_tail_wildcard_witness:
  "matches ''eidolon.memory.event.*'' ''eidolon.memory.event.realm.created''
     = matches ''eidolon.memory.event.>'' ''eidolon.memory.event.realm.created''"
  using star_is_tail_wildcard [of "''eidolon.memory.event.''" "''eidolon.memory.event.realm.created''"]
  by (simp add: glob_literal_def)

lemma star_crosses_tokens: "matches ''eidolon.memory.event.*'' ''eidolon.memory.event.realm.created''"
  using matches_star [of "''eidolon.memory.event.''" "''eidolon.memory.event.realm.created''"]
  by (simp add: glob_literal_def)

end
