(* ===== verification/Memory_Outbox.thy ===== *)
theory Memory_Outbox
  imports Runtime_Tables Event_Bus "HOL-Library.Sublist"
begin

text \<open>
  The durable outbox of memory turns: \<open>AgentMemoryTurnOutbox\<close> of \<open>infra/persistence/runtime_store.py\<close>
  and its drain, \<open>MemoryTurnDispatcher\<close> of \<open>infra/persistence/memory_turn_dispatch.py\<close>. Each method
  is one transaction on the table's rows; \<open>now\<close> is the value \<open>utc_now()\<close> returns in it. The bus is
  a parameter: what \<open>publish\<close> did for an event, with a state of its own.
\<close>

section \<open>The table's operations\<close>

record memory_turn_request =
  mq_turn_id :: string
  mq_owner_id :: string
  mq_companion_id :: string
  mq_subject :: string
  mq_payload :: json_dict
  mq_trace_id :: "string option"

definition memory_insert :: "instant \<Rightarrow> memory_turn_request \<Rightarrow> memory_row list \<Rightarrow> memory_row list" where
  "memory_insert now q rows =
     (if mq_turn_id q \<in> set (map mo_turn_id rows) then rows
      else rows @ [\<lparr>mo_outbox_id = next_rowid (map mo_outbox_id rows), mo_turn_id = mq_turn_id q,
        mo_owner_id = mq_owner_id q, mo_companion_id = mq_companion_id q, mo_subject = mq_subject q,
        mo_payload = mq_payload q, mo_trace_id = mq_trace_id q, mo_attempt_count = 0,
        mo_next_attempt_at = now, mo_last_error = [], mo_published_at = None\<rparr>])"

definition find_memory :: "string \<Rightarrow> memory_row list \<Rightarrow> memory_row option" where
  "find_memory turn_id rows = List.find (\<lambda>r. mo_turn_id r = turn_id) rows"

text \<open>
  \<open>enqueue\<close> commits the insert and then reads the row back in a second transaction, which checks
  that the stored identity is the one asked for.
\<close>

definition memory_confirm :: "memory_turn_request \<Rightarrow> memory_row list \<Rightarrow> unit result" where
  "memory_confirm q rows =
     (case find_memory (mq_turn_id q) rows of
        None \<Rightarrow> Inl (RuntimeError (''memory turn enqueue lost after commit: '' @ mq_turn_id q))
      | Some r \<Rightarrow>
          (if mo_owner_id r = mq_owner_id q \<and> mo_companion_id r = mq_companion_id q
              \<and> mo_subject r = mq_subject q \<and> py_eq (JDict (mo_payload r)) (JDict (mq_payload q))
              \<and> mo_trace_id r = mq_trace_id q
           then Inr ()
           else Inl (RuntimeError (''memory turn identity collision: '' @ mq_turn_id q))))"

definition memory_enqueue ::
  "instant \<Rightarrow> memory_turn_request \<Rightarrow> memory_row list \<Rightarrow> unit result \<times> memory_row list" where
  "memory_enqueue now q rows =
     (let rows' = memory_insert now q rows in (memory_confirm q rows', rows'))"

record pending_memory_turn =
  pm_turn_id :: string
  pm_subject :: string
  pm_payload :: json_dict
  pm_trace_id :: "string option"
  pm_attempt_count :: int

definition pending_of_row :: "memory_row \<Rightarrow> pending_memory_turn" where
  "pending_of_row r =
     \<lparr>pm_turn_id = mo_turn_id r, pm_subject = mo_subject r, pm_payload = mo_payload r,
      pm_trace_id = mo_trace_id r, pm_attempt_count = mo_attempt_count r\<rparr>"

text \<open>The subjects with an unpublished row that is not due yet.\<close>

definition blocked_subjects :: "instant \<Rightarrow> memory_row list \<Rightarrow> string list" where
  "blocked_subjects now rows =
     map mo_subject (filter (\<lambda>r. mo_published_at r = None \<and> mo_next_attempt_at r > now) rows)"

definition memory_due_rows :: "instant \<Rightarrow> memory_row list \<Rightarrow> memory_row list" where
  "memory_due_rows now rows =
     filter (\<lambda>r. mo_published_at r = None \<and> mo_next_attempt_at r \<le> now
               \<and> mo_subject r \<notin> set (blocked_subjects now rows)) rows"

definition memory_pending_batch :: "instant \<Rightarrow> nat \<Rightarrow> memory_row list \<Rightarrow> pending_memory_turn list" where
  "memory_pending_batch now limit rows =
     map pending_of_row (take limit (sort_key mo_outbox_id (memory_due_rows now rows)))"

definition memory_mark_published :: "string \<Rightarrow> memory_row list \<Rightarrow> memory_row list" where
  "memory_mark_published turn_id rows = filter (\<lambda>r. mo_turn_id r \<noteq> turn_id) rows"

text \<open>The delay before attempt \<open>n + 1\<close>: \<open>min(2 ** min(n, 6), 60)\<close> seconds.\<close>

definition memory_backoff :: "int \<Rightarrow> int" where
  "memory_backoff n = seconds (min (2 ^ nat (min n 6)) 60)"

definition memory_mark_failed :: "instant \<Rightarrow> string \<Rightarrow> string \<Rightarrow> memory_row list \<Rightarrow> memory_row list" where
  "memory_mark_failed now turn_id err rows =
     (case find_memory turn_id rows of
        None \<Rightarrow> rows
      | Some r0 \<Rightarrow>
          (if mo_published_at r0 \<noteq> None then rows
           else map (\<lambda>r. if mo_turn_id r = turn_id
                         then r\<lparr>mo_attempt_count := mo_attempt_count r + 1, mo_last_error := take 2000 err,
                                mo_next_attempt_at := now + memory_backoff (mo_attempt_count r + 1)\<rparr>
                         else r) rows))"

definition memory_pending_count :: "memory_row list \<Rightarrow> nat" where
  "memory_pending_count rows = length (filter (\<lambda>r. mo_published_at r = None) rows)"


section \<open>The dispatcher\<close>

definition memory_event :: "pending_memory_turn \<Rightarrow> bus_event" where
  "memory_event p =
     \<lparr>ev_subject = pm_subject p, ev_payload = pm_payload p, ev_trace_id = pm_trace_id p,
      ev_source = Some ''agent.memory_turn_outbox'', ev_metadata = [(''msg_id'', JStr (pm_turn_id p))]\<rparr>"

text \<open>
  What awaiting \<open>publish\<close> may do: return, raise an exception (the message may have been stored even
  so), or be cancelled, which is no \<open>Exception\<close> and leaves \<open>dispatch_once\<close>.
\<close>

datatype publish_outcome = Published | PublishFailed py_error | PublishCancelled

type_synonym 'w bus = "bus_event \<Rightarrow> 'w \<Rightarrow> publish_outcome \<times> 'w"

text \<open>\<open>by_subject\<close>: the batch grouped by subject, groups in order of first appearance.\<close>

fun group_by_subject ::
  "pending_memory_turn list \<Rightarrow> (string \<times> pending_memory_turn list) list
     \<Rightarrow> (string \<times> pending_memory_turn list) list" where
  "group_by_subject [] d = d"
| "group_by_subject (p # ps) d =
     group_by_subject ps
       (dict_put (pm_subject p) ((case map_of d (pm_subject p) of None \<Rightarrow> [] | Some g \<Rightarrow> g) @ [p]) d)"

text \<open>
  The loop over one group. The first component says whether the dispatch goes on (\<open>False\<close>: it was
  cancelled), the second holds the turns acknowledged and removed.
\<close>

fun dispatch_group ::
  "instant \<Rightarrow> 'w bus \<Rightarrow> pending_memory_turn list \<Rightarrow> memory_row list \<Rightarrow> 'w
     \<Rightarrow> bool \<times> pending_memory_turn list \<times> memory_row list \<times> 'w" where
  "dispatch_group now bus [] rows w = (True, [], rows, w)"
| "dispatch_group now bus (p # ps) rows w =
     (case bus (memory_event p) w of
        (Published, w') \<Rightarrow>
          (case dispatch_group now bus ps (memory_mark_published (pm_turn_id p) rows) w' of
             (go, acked, rows', w'') \<Rightarrow> (go, p # acked, rows', w''))
      | (PublishFailed e, w') \<Rightarrow>
          (True, [], memory_mark_failed now (pm_turn_id p) (exc_type_name e @ '': '' @ exc_message e) rows, w')
      | (PublishCancelled, w') \<Rightarrow> (False, [], rows, w'))"

fun dispatch_groups ::
  "instant \<Rightarrow> 'w bus \<Rightarrow> pending_memory_turn list list \<Rightarrow> memory_row list \<Rightarrow> 'w
     \<Rightarrow> bool \<times> pending_memory_turn list \<times> memory_row list \<times> 'w" where
  "dispatch_groups now bus [] rows w = (True, [], rows, w)"
| "dispatch_groups now bus (g # gs) rows w =
     (case dispatch_group now bus g rows w of
        (go, acked, rows', w') \<Rightarrow>
          (if go
           then (case dispatch_groups now bus gs rows' w' of
                   (go', acked', rows'', w'') \<Rightarrow> (go', acked @ acked', rows'', w''))
           else (False, acked, rows', w')))"

definition memory_dispatch_once ::
  "instant \<Rightarrow> nat \<Rightarrow> 'w bus \<Rightarrow> memory_row list \<Rightarrow> 'w
     \<Rightarrow> bool \<times> pending_memory_turn list \<times> memory_row list \<times> 'w" where
  "memory_dispatch_once now batch_size bus rows w =
     dispatch_groups now bus (map snd (group_by_subject (memory_pending_batch now batch_size rows) [])) rows w"


section \<open>The drain as a step relation\<close>

text \<open>
  The dispatcher awaits between any two of its actions, so other operations of the table come in
  between. \<open>feed_step\<close> has one step per transaction or publish: \<open>fd_batch\<close> are the groups the
  running \<open>dispatch_once\<close> still has to do, \<open>fd_sent\<close> the turn it has published but not yet
  removed. A stop is a cancellation or a crash at any point: the batch is forgotten, the table is
  not. \<open>fd_accepted\<close>, \<open>fd_delivered\<close> and \<open>fd_acked\<close> record history: the turns the
  table took, the publishes, and the turns removed as published.
\<close>

record feed =
  fd_rows :: "memory_row list"
  fd_batch :: "pending_memory_turn list list"
  fd_sent :: "pending_memory_turn option"
  fd_accepted :: "(string \<times> string) list"
  fd_delivered :: "pending_memory_turn list"
  fd_acked :: "pending_memory_turn list"

definition feed_init :: feed where
  "feed_init = \<lparr>fd_rows = [], fd_batch = [], fd_sent = None, fd_accepted = [], fd_delivered = [],
     fd_acked = []\<rparr>"

definition fetched_groups :: "instant \<Rightarrow> nat \<Rightarrow> memory_row list \<Rightarrow> pending_memory_turn list list" where
  "fetched_groups now limit rows = map snd (group_by_subject (memory_pending_batch now limit rows) [])"

inductive feed_step :: "feed \<Rightarrow> feed \<Rightarrow> bool" where
  fs_enqueue:
    "feed_step st (st\<lparr>fd_rows := memory_insert now q (fd_rows st),
       fd_accepted := fd_accepted st @
         (if mq_turn_id q \<in> set (map mo_turn_id (fd_rows st)) then []
          else [(mq_subject q, mq_turn_id q)])\<rparr>)"
| fs_fetch:
    "fd_batch st = [] \<Longrightarrow> fd_sent st = None
       \<Longrightarrow> feed_step st (st\<lparr>fd_batch := fetched_groups now limit (fd_rows st)\<rparr>)"
| fs_publish:
    "fd_batch st = (p # ps) # gs \<Longrightarrow> fd_sent st = None
       \<Longrightarrow> feed_step st (st\<lparr>fd_batch := ps # gs, fd_sent := Some p, fd_delivered := fd_delivered st @ [p]\<rparr>)"
| fs_publish_failed:
    "fd_batch st = (p # ps) # gs \<Longrightarrow> fd_sent st = None \<Longrightarrow> ds = [] \<or> ds = [p]
       \<Longrightarrow> feed_step st (st\<lparr>fd_batch := gs, fd_delivered := fd_delivered st @ ds,
             fd_rows := memory_mark_failed now (pm_turn_id p) err (fd_rows st)\<rparr>)"
| fs_mark_published:
    "fd_sent st = Some p
       \<Longrightarrow> feed_step st (st\<lparr>fd_sent := None, fd_acked := fd_acked st @ [p],
             fd_rows := memory_mark_published (pm_turn_id p) (fd_rows st)\<rparr>)"
| fs_group_done:
    "fd_batch st = [] # gs \<Longrightarrow> fd_sent st = None \<Longrightarrow> feed_step st (st\<lparr>fd_batch := gs\<rparr>)"
| fs_stop:
    "feed_step st (st\<lparr>fd_batch := [], fd_sent := None\<rparr>)"

inductive feed_reachable :: "feed \<Rightarrow> bool" where
  feed_start: "feed_reachable feed_init"
| feed_next: "feed_reachable st \<Longrightarrow> feed_step st st' \<Longrightarrow> feed_reachable st'"

text \<open>What the table still has to publish for a subject, and the history of a subject.\<close>

definition pend :: "string \<Rightarrow> memory_row list \<Rightarrow> string list" where
  "pend s rows = map mo_turn_id (filter (\<lambda>r. mo_subject r = s) rows)"

definition acked_on :: "string \<Rightarrow> feed \<Rightarrow> string list" where
  "acked_on s st = map pm_turn_id (filter (\<lambda>p. pm_subject p = s) (fd_acked st))"

definition accepted_on :: "string \<Rightarrow> feed \<Rightarrow> string list" where
  "accepted_on s st = map snd (filter (\<lambda>(u, t). u = s) (fd_accepted st))"

definition memory_rows_ok :: "memory_row list \<Rightarrow> bool" where
  "memory_rows_ok rows \<longleftrightarrow> distinct (map mo_turn_id rows) \<and> sorted (map mo_outbox_id rows)
     \<and> distinct (map mo_outbox_id rows) \<and> (\<forall>r \<in> set rows. mo_published_at r = None)"

text \<open>The groups still to do, the published turn put back in front of its group.\<close>

definition open_groups :: "feed \<Rightarrow> pending_memory_turn list list" where
  "open_groups st =
     (case fd_sent st of None \<Rightarrow> fd_batch st
      | Some p \<Rightarrow> (case fd_batch st of [] \<Rightarrow> [[p]] | g # gs \<Rightarrow> (p # g) # gs))"

definition group_ok :: "memory_row list \<Rightarrow> pending_memory_turn list \<Rightarrow> bool" where
  "group_ok rows g \<longleftrightarrow>
     g = [] \<or> (\<forall>p \<in> set g. pm_subject p = pm_subject (hd g)) \<and> prefix (map pm_turn_id g) (pend (pm_subject (hd g)) rows)"

fun groups_apart :: "pending_memory_turn list list \<Rightarrow> bool" where
  "groups_apart [] = True"
| "groups_apart (g # gs) \<longleftrightarrow>
     (\<forall>h \<in> set gs. \<forall>p \<in> set g. \<forall>q \<in> set h. pm_subject p \<noteq> pm_subject q) \<and> groups_apart gs"

definition feed_ok :: "feed \<Rightarrow> bool" where
  "feed_ok st \<longleftrightarrow> memory_rows_ok (fd_rows st)
     \<and> (\<forall>s. acked_on s st @ pend s (fd_rows st) = accepted_on s st)
     \<and> list_all (group_ok (fd_rows st)) (open_groups st) \<and> groups_apart (open_groups st)"

lemma pend_mark_failed [simp]: "pend s (memory_mark_failed now t err rows) = pend s rows"
  by (auto simp: pend_def memory_mark_failed_def filter_map comp_def split: option.splits
      intro!: arg_cong [where f = "map mo_turn_id"] map_idI filter_cong)

lemma pend_insert:
  "pend s (memory_insert now q rows)
     = pend s rows @ (if mq_turn_id q \<in> set (map mo_turn_id rows) \<or> mq_subject q \<noteq> s then [] else [mq_turn_id q])"
  by (auto simp: pend_def memory_insert_def)

lemma pend_mark_published [simp]:
  "pend s (memory_mark_published t rows) = filter (\<lambda>u. u \<noteq> t) (pend s rows)"
  by (simp add: pend_def memory_mark_published_def filter_map comp_def conj_commute)

lemma distinct_pend: "memory_rows_ok rows \<Longrightarrow> distinct (pend s rows)"
  by (simp add: memory_rows_ok_def pend_def distinct_map_filter)

lemma pend_subject_unique:
  assumes "memory_rows_ok rows" "t \<in> set (pend s rows)" "t \<in> set (pend u rows)"
  shows "s = u"
  using assms by (auto simp: memory_rows_ok_def pend_def distinct_map inj_on_def)

lemma sorted_snoc_next: "sorted is \<Longrightarrow> sorted (is @ [next_rowid is])"
  by (auto simp: sorted_append dest: next_rowid_greater)

lemma memory_rows_ok_insert: "memory_rows_ok rows \<Longrightarrow> memory_rows_ok (memory_insert now q rows)"
  using sorted_snoc_next [of "map mo_outbox_id rows"] next_rowid_fresh [of "map mo_outbox_id rows"]
  by (auto simp: memory_rows_ok_def memory_insert_def)

lemma memory_rows_ok_mark_published:
  "memory_rows_ok rows \<Longrightarrow> memory_rows_ok (memory_mark_published t rows)"
  by (auto simp: memory_rows_ok_def memory_mark_published_def distinct_map_filter sorted_filter)

lemma memory_rows_ok_mark_failed:
  "memory_rows_ok rows \<Longrightarrow> memory_rows_ok (memory_mark_failed now t err rows)"
proof -
  assume ok: "memory_rows_ok rows"
  have "map f (memory_mark_failed now t err rows) = map f rows"
    if "\<And>r a b c. f (r\<lparr>mo_attempt_count := a, mo_last_error := b, mo_next_attempt_at := c\<rparr>) = f r"
    for f :: "memory_row \<Rightarrow> 'b"
    using that by (auto simp: memory_mark_failed_def split: option.splits)
  note this [of mo_turn_id] this [of mo_outbox_id]
  moreover have "\<forall>r \<in> set (memory_mark_failed now t err rows). mo_published_at r = None"
    using ok by (auto simp: memory_mark_failed_def memory_rows_ok_def split: option.splits)
  ultimately show ?thesis using ok by (simp add: memory_rows_ok_def)
qed

lemmas memory_rows_ok_intros = memory_rows_ok_insert memory_rows_ok_mark_published memory_rows_ok_mark_failed

lemma group_ok_mono:
  "group_ok rows g \<Longrightarrow> (\<And>p. p \<in> set g \<Longrightarrow> prefix (pend (pm_subject p) rows) (pend (pm_subject p) rows'))
     \<Longrightarrow> group_ok rows' g"
  unfolding group_ok_def by (metis list.set_sel(1) prefix_order.trans)

lemma groups_ok_mono:
  "list_all (group_ok rows) gs
     \<Longrightarrow> (\<And>s. prefix (pend s rows) (pend s rows')) \<Longrightarrow> list_all (group_ok rows') gs"
  by (auto simp: list_all_iff intro: group_ok_mono)

text \<open>What a fetch finds: for each subject nothing, or the oldest turns of the subject in order.\<close>

lemma group_by_subject_keys:
  "distinct (map fst d) \<Longrightarrow> distinct (map fst (group_by_subject ps d))"
  by (induction ps d rule: group_by_subject.induct) (auto simp: distinct_update)

lemma map_of_group_by_subject:
  "map_of (group_by_subject ps d) s =
     (let new = filter (\<lambda>p. pm_subject p = s) ps
      in case map_of d s of None \<Rightarrow> (if new = [] then None else Some new) | Some g \<Rightarrow> Some (g @ new))"
  by (induction ps d rule: group_by_subject.induct) (auto simp: Let_def split: option.splits)

lemma fetched_group:
  assumes "g \<in> set (fetched_groups now limit rows)"
  shows "\<exists>s. g = filter (\<lambda>p. pm_subject p = s) (memory_pending_batch now limit rows) \<and> g \<noteq> []"
proof -
  let ?d = "group_by_subject (memory_pending_batch now limit rows) []"
  from assms obtain s where "(s, g) \<in> set ?d" by (auto simp: fetched_groups_def)
  then have "map_of ?d s = Some g" by (simp add: group_by_subject_keys)
  then show ?thesis by (auto simp: map_of_group_by_subject Let_def split: if_splits)
qed

lemma prefix_filter_take: "prefix (filter P (take n xs)) (filter P xs)"
  by (metis append_take_drop_id filter_append prefixI)

lemma batch_prefix:
  assumes "memory_rows_ok rows"
  shows "prefix (map pm_turn_id (filter (\<lambda>p. pm_subject p = s) (memory_pending_batch now limit rows))) (pend s rows)"
proof -
  let ?due = "memory_due_rows now rows"
  have "sorted (map mo_outbox_id ?due)"
    using assms by (simp add: memory_rows_ok_def memory_due_rows_def sorted_filter)
  then have sorted_id: "sort_key mo_outbox_id ?due = ?due" by (simp add: sorted_sort_id sort_key_id_if_sorted)
  have all_or_none: "filter (\<lambda>r. mo_subject r = s) ?due
      = (if s \<in> set (blocked_subjects now rows) then [] else filter (\<lambda>r. mo_subject r = s) rows)"
  proof (cases "s \<in> set (blocked_subjects now rows)")
    case True
    then show ?thesis by (auto simp: memory_due_rows_def filter_empty_conv)
  next
    case False
    then have "\<forall>r \<in> set rows. mo_subject r = s \<longrightarrow> mo_published_at r = None \<and> mo_next_attempt_at r \<le> now"
      using assms by (force simp: blocked_subjects_def memory_rows_ok_def not_less)
    with False show ?thesis by (auto simp: memory_due_rows_def intro!: filter_cong)
  qed
  have "prefix (filter (\<lambda>r. mo_subject r = s) (take limit ?due)) (filter (\<lambda>r. mo_subject r = s) rows)"
    using prefix_filter_take [of "\<lambda>r. mo_subject r = s" limit ?due] by (simp add: all_or_none split: if_splits)
  then have "prefix (map mo_turn_id (filter (\<lambda>r. mo_subject r = s) (take limit ?due))) (pend s rows)"
    unfolding pend_def by (rule map_mono_prefix)
  then show ?thesis
    by (simp add: memory_pending_batch_def sorted_id filter_map comp_def pending_of_row_def)
qed

lemma fetched_groups_ok:
  assumes "memory_rows_ok rows"
  shows "list_all (group_ok rows) (fetched_groups now limit rows)"
  unfolding list_all_iff
proof
  fix g assume "g \<in> set (fetched_groups now limit rows)"
  then obtain s where g: "g = filter (\<lambda>p. pm_subject p = s) (memory_pending_batch now limit rows)" "g \<noteq> []"
    using fetched_group by blast
  then have "\<forall>p \<in> set g. pm_subject p = s" by simp
  moreover from this have "pm_subject (hd g) = s" using g(2) by simp
  moreover have "prefix (map pm_turn_id g) (pend s rows)" unfolding g(1) by (rule batch_prefix [OF assms])
  ultimately show "group_ok rows g" by (simp add: group_ok_def)
qed

lemma groups_apart_map_snd:
  assumes "distinct (map fst d)" "\<And>s g. (s, g) \<in> set d \<Longrightarrow> \<forall>p \<in> set g. pm_subject p = s"
  shows "groups_apart (map snd d)"
  using assms
proof (induction d)
  case (Cons a d)
  obtain s g where a: "a = (s, g)" by (cases a)
  have "pm_subject p \<noteq> pm_subject q" if "h \<in> set (map snd d)" "p \<in> set g" "q \<in> set h" for h p q
  proof -
    from that(1) obtain t where t: "(t, h) \<in> set d" by auto
    with Cons.prems(2) that(3) have "pm_subject q = t" by fastforce
    moreover have "pm_subject p = s" using Cons.prems(2) a that(2) by fastforce
    moreover have "s \<noteq> t" using Cons.prems(1) a t by force
    ultimately show ?thesis by simp
  qed
  moreover have "groups_apart (map snd d)"
    by (rule Cons.IH) (use Cons.prems in \<open>auto simp: a\<close>)
  ultimately show ?case by (simp add: a)
qed simp

lemma fetched_groups_apart: "groups_apart (fetched_groups now limit rows)"
  unfolding fetched_groups_def
proof (rule groups_apart_map_snd)
  let ?d = "group_by_subject (memory_pending_batch now limit rows) []"
  show k: "distinct (map fst ?d)" by (simp add: group_by_subject_keys)
  fix s g assume "(s, g) \<in> set ?d"
  with k have "map_of ?d s = Some g" by simp
  then show "\<forall>p \<in> set g. pm_subject p = s"
    by (auto simp: map_of_group_by_subject Let_def split: if_splits)
qed

text \<open>The invariant, step by step.\<close>

lemma filter_not_head: "distinct (x # xs) \<Longrightarrow> filter (\<lambda>u. u \<noteq> x) (x # xs) = xs"
  by (simp, rule filter_True, auto)

lemma filter_not_member: "x \<notin> set xs \<Longrightarrow> filter (\<lambda>u. u \<noteq> x) xs = xs"
  by (rule filter_True) auto

lemma group_ok_head_gone:
  assumes "memory_rows_ok rows" "group_ok rows (p # g)"
  shows "group_ok (memory_mark_published (pm_turn_id p) rows) g"
proof -
  let ?s = "pm_subject p"
  from assms(2) have subj: "\<forall>q \<in> set g. pm_subject q = ?s"
    and "prefix (pm_turn_id p # map pm_turn_id g) (pend ?s rows)"
    by (auto simp: group_ok_def)
  then obtain rest where rest: "pend ?s rows = pm_turn_id p # map pm_turn_id g @ rest"
    by (auto simp: prefix_def)
  with distinct_pend [OF assms(1), of ?s]
  have "filter (\<lambda>u. u \<noteq> pm_turn_id p) (pend ?s rows) = map pm_turn_id g @ rest"
    by (metis filter_not_head)
  with subj show ?thesis by (cases g) (auto simp: group_ok_def)
qed

lemma group_ok_other_gone:
  assumes "memory_rows_ok rows" "group_ok rows h" "pm_turn_id p \<in> set (pend (pm_subject p) rows)"
    and "\<forall>q \<in> set h. pm_subject p \<noteq> pm_subject q"
  shows "group_ok (memory_mark_published (pm_turn_id p) rows) h"
proof (rule group_ok_mono [OF assms(2)])
  fix q assume "q \<in> set h"
  with assms(4) have "pm_subject p \<noteq> pm_subject q" by simp
  with pend_subject_unique [OF assms(1,3)] have "pm_turn_id p \<notin> set (pend (pm_subject q) rows)" by blast
  then have "filter (\<lambda>u. u \<noteq> pm_turn_id p) (pend (pm_subject q) rows) = pend (pm_subject q) rows"
    by (rule filter_not_member)
  then show "prefix (pend (pm_subject q) rows) (pend (pm_subject q) (memory_mark_published (pm_turn_id p) rows))"
    by simp
qed

text \<open>The turn at the head of an open group is the oldest pending one of its subject.\<close>

lemma open_group_head:
  assumes "feed_ok st" "open_groups st = (p # g) # gs"
  shows "\<exists>rest. pend (pm_subject p) (fd_rows st) = pm_turn_id p # rest"
  using assms by (auto simp: feed_ok_def group_ok_def prefix_def)

lemma feed_ok_init: "feed_ok feed_init"
  by (simp add: feed_ok_def feed_init_def memory_rows_ok_def acked_on_def accepted_on_def pend_def open_groups_def)

lemma feed_ok_mark_published:
  assumes ok: "feed_ok st" and sent: "fd_sent st = Some p"
  shows "feed_ok (st\<lparr>fd_sent := None, fd_acked := fd_acked st @ [p],
           fd_rows := memory_mark_published (pm_turn_id p) (fd_rows st)\<rparr>)" (is "feed_ok ?st")
proof -
  let ?rows = "fd_rows st" and ?s = "pm_subject p"
  have "\<exists>g gs. open_groups st = (p # g) # gs \<and> (open_groups ?st = g # gs \<or> open_groups ?st = [])"
    using sent by (cases "fd_batch st") (simp_all add: open_groups_def)
  then obtain g gs where og: "open_groups st = (p # g) # gs" and oq: "open_groups ?st = g # gs \<or> open_groups ?st = []"
    by blast
  from open_group_head [OF ok og] obtain rest where rest: "pend ?s ?rows = pm_turn_id p # rest" by blast
  have rows: "memory_rows_ok ?rows" using ok unfolding feed_ok_def by blast
  have hist: "acked_on s st @ pend s ?rows = accepted_on s st" for s using ok unfolding feed_ok_def by blast
  have "list_all (group_ok ?rows) ((p # g) # gs)" using ok unfolding feed_ok_def og by blast
  then have groups: "group_ok ?rows (p # g)" "list_all (group_ok ?rows) gs" by simp_all
  have apart: "groups_apart ((p # g) # gs)" using ok unfolding feed_ok_def og by blast
  have gone: "filter (\<lambda>u. u \<noteq> pm_turn_id p) (pend s ?rows) = (if s = ?s then rest else pend s ?rows)" for s
  proof (cases "s = ?s")
    case True
    with distinct_pend [OF rows, of ?s] show ?thesis by (metis filter_not_head rest)
  next
    case False
    with pend_subject_unique [OF rows, of "pm_turn_id p" ?s s]
    have "pm_turn_id p \<notin> set (pend s ?rows)" by (auto simp: rest)
    with False show ?thesis by (simp add: filter_not_member)
  qed
  have acked: "acked_on s ?st = acked_on s st @ (if s = ?s then [pm_turn_id p] else [])" for s
    by (simp add: acked_on_def)
  have acc: "accepted_on s ?st = accepted_on s st" for s by (simp add: accepted_on_def)
  have pnd: "pend s (fd_rows ?st) = (if s = ?s then rest else pend s ?rows)" for s
    using gone [of s] by simp
  have "acked_on s ?st @ pend s (fd_rows ?st) = accepted_on s ?st" for s
    unfolding acked acc pnd using hist [of s] rest by (cases "s = ?s") simp_all
  moreover have "list_all (group_ok (fd_rows ?st)) (g # gs)"
    using group_ok_head_gone [OF rows groups(1)] groups(2) apart rest
    by (auto simp: list_all_iff intro!: group_ok_other_gone [OF rows])
  moreover have "groups_apart (g # gs)" using apart by auto
  ultimately show ?thesis
    using oq memory_rows_ok_mark_published [OF rows] by (auto simp: feed_ok_def)
qed

lemma feed_ok_step:
  assumes "feed_step st st'" "feed_ok st"
  shows "feed_ok st'"
  using assms
proof cases
  case (fs_enqueue now q)
  have "list_all (group_ok (fd_rows st')) (open_groups st')"
    using assms(2) unfolding fs_enqueue
    by (auto simp: feed_ok_def open_groups_def pend_insert split: option.splits list.splits
        intro: groups_ok_mono group_ok_mono elim!: list.pred_mono_strong)
  then show ?thesis
    using assms(2) unfolding fs_enqueue
    by (auto simp: feed_ok_def open_groups_def memory_rows_ok_insert acked_on_def accepted_on_def pend_insert
        split: option.splits list.splits)
next
  case (fs_fetch now limit)
  with assms(2) fetched_groups_ok fetched_groups_apart show ?thesis
    by (simp add: feed_ok_def open_groups_def acked_on_def accepted_on_def)
next
  case (fs_publish p ps gs)
  with assms(2) show ?thesis by (simp add: feed_ok_def open_groups_def acked_on_def accepted_on_def)
next
  case (fs_publish_failed p ps gs ds now err)
  with assms(2) show ?thesis
    by (auto simp: feed_ok_def open_groups_def acked_on_def accepted_on_def memory_rows_ok_mark_failed
        elim!: list.pred_mono_strong intro: group_ok_mono)
next
  case (fs_mark_published p)
  with feed_ok_mark_published [OF assms(2)] show ?thesis by simp
next
  case (fs_group_done gs)
  with assms(2) show ?thesis by (simp add: feed_ok_def open_groups_def acked_on_def accepted_on_def)
next
  case fs_stop
  with assms(2) show ?thesis by (simp add: feed_ok_def open_groups_def acked_on_def accepted_on_def)
qed

lemma feed_reachable_ok: "feed_reachable st \<Longrightarrow> feed_ok st"
  by (induction rule: feed_reachable.induct) (auto intro: feed_ok_init feed_ok_step)


section \<open>Properties\<close>

text \<open>
  C1. First in, first out, per subject: whatever the interleaving of enqueues, fetches, failed and
  repeated publishes, cancellations and crashes, the turns removed as published followed by those
  still in the table are exactly the turns accepted for the subject, in the order they were accepted.
  No turn is lost, and none is marked published ahead of an older one.
\<close>

theorem memory_feed_fifo:
  "feed_reachable st \<Longrightarrow> acked_on s st @ pend s (fd_rows st) = accepted_on s st"
  using feed_reachable_ok unfolding feed_ok_def by blast

text \<open>
  Corrections never overtake: whenever the dispatcher is about to publish a turn, every turn
  accepted before it for the same subject has already been acknowledged.
\<close>

theorem memory_turn_never_overtakes:
  assumes "feed_reachable st" "fd_batch st = (p # ps) # gs" "fd_sent st = None"
  shows "\<exists>later. accepted_on (pm_subject p) st = acked_on (pm_subject p) st @ pm_turn_id p # later"
proof -
  have ok: "feed_ok st" by (rule feed_reachable_ok [OF assms(1)])
  moreover have "open_groups st = (p # ps) # gs" using assms(2,3) by (simp add: open_groups_def)
  ultimately obtain rest where "pend (pm_subject p) (fd_rows st) = pm_turn_id p # rest"
    using open_group_head by blast
  moreover have "acked_on (pm_subject p) st @ pend (pm_subject p) (fd_rows st) = accepted_on (pm_subject p) st"
    using ok unfolding feed_ok_def by blast
  ultimately show ?thesis by metis
qed

text \<open>\<open>dispatch_once\<close>, taken alone, is a run of such steps.\<close>

lemma dispatch_group_steps:
  assumes "dispatch_group now bus g rows w = (go, acked, rows', w')"
    and "fd_rows st = rows" "fd_batch st = g # gs" "fd_sent st = None"
  shows "\<exists>st'. feed_step\<^sup>*\<^sup>* st st' \<and> fd_rows st' = rows' \<and> fd_acked st' = fd_acked st @ acked
       \<and> fd_accepted st' = fd_accepted st \<and> fd_sent st' = None \<and> fd_batch st' = (if go then gs else [])"
  using assms
proof (induction now bus g rows w arbitrary: st go acked rows' w' rule: dispatch_group.induct)
  case (1 now bus rows w)
  have "feed_step st (st\<lparr>fd_batch := gs\<rparr>)" using 1 by (intro fs_group_done) simp_all
  with 1 show ?case by (intro exI [of _ "st\<lparr>fd_batch := gs\<rparr>"]) auto
next
  case (2 now bus p ps rows w)
  obtain o1 w1 where b: "bus (memory_event p) w = (o1, w1)" by fastforce
  show ?case
  proof (cases o1)
    case Published
    obtain go2 acked2 rows2 w2 where r:
      "dispatch_group now bus ps (memory_mark_published (pm_turn_id p) rows) w1 = (go2, acked2, rows2, w2)"
      by (metis prod_cases4)
    let ?st1 = "st\<lparr>fd_batch := ps # gs, fd_sent := Some p, fd_delivered := fd_delivered st @ [p]\<rparr>"
    let ?st2 = "?st1\<lparr>fd_sent := None, fd_acked := fd_acked ?st1 @ [p],
        fd_rows := memory_mark_published (pm_turn_id p) (fd_rows ?st1)\<rparr>"
    have "feed_step st ?st1" using 2 by (intro fs_publish) simp_all
    moreover have "feed_step ?st1 ?st2" by (rule fs_mark_published) simp
    ultimately have steps: "feed_step\<^sup>*\<^sup>* st ?st2" by simp
    obtain st' where "feed_step\<^sup>*\<^sup>* ?st2 st'" "fd_rows st' = rows2" "fd_acked st' = fd_acked ?st2 @ acked2"
      "fd_accepted st' = fd_accepted ?st2" "fd_sent st' = None" "fd_batch st' = (if go2 then gs else [])"
      using "2.IH" [OF b [symmetric] Published r, of ?st2] "2.prems" by auto
    with steps "2.prems" b r Published show ?thesis by (intro exI [of _ st']) auto
  next
    case (PublishFailed e)
    let ?st1 = "st\<lparr>fd_batch := gs, fd_delivered := fd_delivered st @ [],
        fd_rows := memory_mark_failed now (pm_turn_id p) (exc_type_name e @ '': '' @ exc_message e) (fd_rows st)\<rparr>"
    have "feed_step st ?st1" using 2 by (intro fs_publish_failed) simp_all
    with "2.prems" b PublishFailed show ?thesis by (intro exI [of _ ?st1]) auto
  next
    case PublishCancelled
    have "feed_step st (st\<lparr>fd_batch := [], fd_sent := None\<rparr>)" by (rule fs_stop)
    with "2.prems" b PublishCancelled show ?thesis
      by (intro exI [of _ "st\<lparr>fd_batch := [], fd_sent := None\<rparr>"]) auto
  qed
qed

lemma dispatch_groups_steps:
  assumes "dispatch_groups now bus gs rows w = (go, acked, rows', w')"
    and "fd_rows st = rows" "fd_batch st = gs" "fd_sent st = None"
  shows "\<exists>st'. feed_step\<^sup>*\<^sup>* st st' \<and> fd_rows st' = rows' \<and> fd_acked st' = fd_acked st @ acked
       \<and> fd_accepted st' = fd_accepted st \<and> fd_sent st' = None \<and> fd_batch st' = []"
  using assms
proof (induction now bus gs rows w arbitrary: st go acked rows' w' rule: dispatch_groups.induct)
  case (1 now bus rows w)
  then show ?case by (intro exI [of _ st]) auto
next
  case (2 now bus g gs rows w)
  obtain go1 acked1 rows1 w1 where d: "dispatch_group now bus g rows w = (go1, acked1, rows1, w1)"
    by (metis prod_cases4)
  from dispatch_group_steps [OF d "2.prems"(2-4)] obtain st1 where st1: "feed_step\<^sup>*\<^sup>* st st1"
    "fd_rows st1 = rows1" "fd_acked st1 = fd_acked st @ acked1" "fd_accepted st1 = fd_accepted st"
    "fd_sent st1 = None" "fd_batch st1 = (if go1 then gs else [])" by blast
  show ?case
  proof (cases go1)
    case False
    with d "2.prems"(1) st1 show ?thesis by (intro exI [of _ st1]) auto
  next
    case True
    obtain go2 acked2 rows2 w2 where r: "dispatch_groups now bus gs rows1 w1 = (go2, acked2, rows2, w2)"
      by (metis prod_cases4)
    from "2.IH" [OF d [symmetric] refl refl True r, of st1] st1 True
    obtain st' where "feed_step\<^sup>*\<^sup>* st1 st'" "fd_rows st' = rows2" "fd_acked st' = fd_acked st1 @ acked2"
      "fd_accepted st' = fd_accepted st1" "fd_sent st' = None" "fd_batch st' = []" by auto
    with st1 True d r "2.prems"(1) show ?thesis
      by (intro exI [of _ st'] conjI) (auto intro: rtranclp_trans)
  qed
qed

text \<open>
  C13. Refinement: one \<open>dispatch_once\<close> from an idle dispatcher, against any bus, is a sequence of the
  steps above that ends idle, with the same table and with the turns it acknowledged appended to the
  history.
\<close>

theorem memory_dispatch_once_refines:
  assumes "fd_batch st = []" "fd_sent st = None"
    and "memory_dispatch_once now n bus (fd_rows st) w = (go, acked, rows', w')"
  shows "\<exists>st'. feed_step\<^sup>*\<^sup>* st st' \<and> fd_rows st' = rows' \<and> fd_acked st' = fd_acked st @ acked
       \<and> fd_accepted st' = fd_accepted st \<and> fd_sent st' = None \<and> fd_batch st' = []"
proof -
  let ?st1 = "st\<lparr>fd_batch := fetched_groups now n (fd_rows st)\<rparr>"
  have step: "feed_step st ?st1" by (rule fs_fetch [OF assms(1,2)])
  have "dispatch_groups now bus (fetched_groups now n (fd_rows st)) (fd_rows st) w = (go, acked, rows', w')"
    using assms(3) by (simp add: memory_dispatch_once_def fetched_groups_def)
  from dispatch_groups_steps [OF this, of ?st1] assms(2) obtain st' where "feed_step\<^sup>*\<^sup>* ?st1 st'"
    "fd_rows st' = rows'" "fd_acked st' = fd_acked ?st1 @ acked" "fd_accepted st' = fd_accepted ?st1"
    "fd_sent st' = None" "fd_batch st' = []" by auto
  with step show ?thesis by (intro exI [of _ st'] conjI) (auto intro: converse_rtranclp_into_rtranclp)
qed

text \<open>The rest of the outbox's contract: idempotent enqueue, and the delay of a failed turn.\<close>

lemma find_memory_Some: "find_memory t rows = Some r \<Longrightarrow> mo_turn_id r = t \<and> r \<in> set rows"
  by (auto simp: find_memory_def dest: find_SomeD)

lemma find_memory_unique:
  "memory_rows_ok rows \<Longrightarrow> r \<in> set rows \<Longrightarrow> find_memory (mo_turn_id r) rows = Some r"
  unfolding find_memory_def memory_rows_ok_def by (induction rows) (auto simp: image_iff)

lemma find_memory_None: "find_memory t rows = None \<longleftrightarrow> t \<notin> set (map mo_turn_id rows)"
  unfolding find_memory_def by (induction rows) auto

lemma find_memory_snoc:
  "find_memory t (rows @ [r]) = (case find_memory t rows of None \<Rightarrow> if mo_turn_id r = t then Some r else None | x \<Rightarrow> x)"
  unfolding find_memory_def by (induction rows) auto

lemma find_memory_insert:
  assumes "mq_turn_id q \<notin> set (map mo_turn_id rows)"
  shows "\<exists>i. find_memory (mq_turn_id q) (memory_insert now q rows)
    = Some \<lparr>mo_outbox_id = i, mo_turn_id = mq_turn_id q, mo_owner_id = mq_owner_id q,
        mo_companion_id = mq_companion_id q, mo_subject = mq_subject q, mo_payload = mq_payload q,
        mo_trace_id = mq_trace_id q, mo_attempt_count = 0, mo_next_attempt_at = now, mo_last_error = [],
        mo_published_at = None\<rparr>"
proof -
  from assms have "find_memory (mq_turn_id q) rows = None" by (simp add: find_memory_None)
  then show ?thesis using assms by (simp add: memory_insert_def find_memory_snoc)
qed

text \<open>
  Enqueue is idempotent and refuses impostors: asking again for a turn that is waiting changes
  nothing, and succeeds exactly when owner, companion, subject, payload and trace are those of the
  waiting turn; the first request of a turn always succeeds.
\<close>

theorem memory_enqueue_idempotent:
  assumes "memory_rows_ok rows" "dict_ok (JDict (mq_payload q))"
  shows "case find_memory (mq_turn_id q) rows of
      None \<Rightarrow> fst (memory_enqueue now q rows) = Inr ()
    | Some r \<Rightarrow> snd (memory_enqueue now q rows) = rows
        \<and> is_ok (fst (memory_enqueue now q rows)) =
            (mo_owner_id r = mq_owner_id q \<and> mo_companion_id r = mq_companion_id q \<and> mo_subject r = mq_subject q
             \<and> py_eq (JDict (mo_payload r)) (JDict (mq_payload q)) \<and> mo_trace_id r = mq_trace_id q)"
proof (cases "find_memory (mq_turn_id q) rows")
  case None
  then have "mq_turn_id q \<notin> set (map mo_turn_id rows)" by (rule find_memory_None [THEN iffD1])
  from find_memory_insert [OF this, of now] py_eq_refl [OF assms(2)] None show ?thesis
    by (auto simp: memory_enqueue_def memory_confirm_def Let_def simp del: py_eq.simps)
next
  case (Some r)
  then have "mq_turn_id q \<in> set (map mo_turn_id rows)"
    using find_memory_None [of "mq_turn_id q" rows] by (metis option.distinct(1))
  with Some show ?thesis
    by (simp add: memory_enqueue_def memory_confirm_def memory_insert_def Let_def del: py_eq.simps)
qed

lemma memory_backoff_bounds: "n \<ge> 1 \<Longrightarrow> seconds 2 \<le> memory_backoff n \<and> memory_backoff n \<le> seconds 60"
proof -
  assume "n \<ge> 1"
  then have "(2::int) ^ 1 \<le> 2 ^ nat (min n 6)" by (intro power_increasing) auto
  then show ?thesis by (simp add: memory_backoff_def seconds_def)
qed

text \<open>
  A turn whose publish failed holds back its whole subject: for at least two seconds no batch,
  of whatever size, contains a turn of that subject; the turn itself is due again after sixty seconds
  at most.
\<close>

theorem memory_failed_turn_blocks_subject:
  assumes "memory_rows_ok rows" "find_memory t rows = Some r" "mo_attempt_count r \<ge> 0"
    and "later < now + seconds 2"
  shows "(\<forall>p \<in> set (memory_pending_batch later limit (memory_mark_failed now t err rows)).
            pm_subject p \<noteq> mo_subject r)
       \<and> (\<exists>r' \<in> set (memory_mark_failed now t err rows). mo_turn_id r' = t
            \<and> mo_attempt_count r' = mo_attempt_count r + 1 \<and> mo_next_attempt_at r' \<le> now + seconds 60)"
proof -
  let ?rows = "memory_mark_failed now t err rows"
  let ?r = "r\<lparr>mo_attempt_count := mo_attempt_count r + 1, mo_last_error := take 2000 err,
       mo_next_attempt_at := now + memory_backoff (mo_attempt_count r + 1)\<rparr>"
  have r: "mo_turn_id r = t" "r \<in> set rows" using find_memory_Some [OF assms(2)] by auto
  with assms(1) have pub: "mo_published_at r = None" by (simp add: memory_rows_ok_def)
  from r pub assms(2) have mem: "?r \<in> set ?rows"
    by (auto simp: memory_mark_failed_def image_iff intro!: bexI [of _ r])
  have b: "seconds 2 \<le> memory_backoff (mo_attempt_count r + 1)" "memory_backoff (mo_attempt_count r + 1) \<le> seconds 60"
    using memory_backoff_bounds [of "mo_attempt_count r + 1"] assms(3) by auto
  from mem pub b assms(4) have "mo_subject r \<in> set (blocked_subjects later ?rows)"
    by (auto simp: blocked_subjects_def image_iff intro!: bexI [of _ ?r])
  then have "\<forall>x \<in> set (memory_due_rows later ?rows). mo_subject x \<noteq> mo_subject r"
    by (auto simp: memory_due_rows_def)
  then have "\<forall>p \<in> set (memory_pending_batch later limit ?rows). pm_subject p \<noteq> mo_subject r"
    by (auto simp: memory_pending_batch_def pending_of_row_def dest!: in_set_takeD)
  moreover have "\<exists>r' \<in> set ?rows. mo_turn_id r' = t
            \<and> mo_attempt_count r' = mo_attempt_count r + 1 \<and> mo_next_attempt_at r' \<le> now + seconds 60"
    using mem b r by (intro bexI [of _ ?r]) simp_all
  ultimately show ?thesis by blast
qed

lemma dispatch_group_all:
  assumes "\<And>e v. fst (bus e v) = Published"
  shows "\<exists>w'. dispatch_group now bus g rows w =
      (True, g, filter (\<lambda>r. mo_turn_id r \<notin> pm_turn_id ` set g) rows, w')"
proof (induction g arbitrary: rows w)
  case (Cons p g)
  obtain w1 where "bus (memory_event p) w = (Published, w1)" using assms by (metis prod.collapse)
  with Cons [of "memory_mark_published (pm_turn_id p) rows" w1] show ?case
    by (auto simp: memory_mark_published_def conj_commute)
qed simp

lemma dispatch_groups_all:
  assumes "\<And>e v. fst (bus e v) = Published"
  shows "\<exists>w'. dispatch_groups now bus gs rows w =
      (True, concat gs, filter (\<lambda>r. mo_turn_id r \<notin> pm_turn_id ` set (concat gs)) rows, w')"
proof (induction gs arbitrary: rows w)
  case (Cons g gs)
  from dispatch_group_all [where bus = bus and g = g and now = now and rows = rows and w = w, OF assms] obtain w1 where
    d: "dispatch_group now bus g rows w = (True, g, filter (\<lambda>r. mo_turn_id r \<notin> pm_turn_id ` set g) rows, w1)"
    by blast
  from Cons [of "filter (\<lambda>r. mo_turn_id r \<notin> pm_turn_id ` set g) rows" w1] show ?case
    by (auto simp: d image_Un conj_commute)
qed simp

lemma set_fetched_groups:
  "set (concat (fetched_groups now limit rows)) = set (memory_pending_batch now limit rows)"
proof
  show "set (concat (fetched_groups now limit rows)) \<subseteq> set (memory_pending_batch now limit rows)"
    using fetched_group [of _ now limit rows] by fastforce
next
  show "set (memory_pending_batch now limit rows) \<subseteq> set (concat (fetched_groups now limit rows))"
  proof
    fix p assume p: "p \<in> set (memory_pending_batch now limit rows)"
    let ?g = "filter (\<lambda>q. pm_subject q = pm_subject p) (memory_pending_batch now limit rows)"
    have "p \<in> set ?g" using p by simp
    moreover from this have "map_of (group_by_subject (memory_pending_batch now limit rows) []) (pm_subject p) = Some ?g"
      using p by (auto simp: map_of_group_by_subject Let_def filter_empty_conv)
    ultimately show "p \<in> set (concat (fetched_groups now limit rows))"
      by (force simp: fetched_groups_def dest: map_of_SomeD)
  qed
qed

text \<open>
  C40. With a bus that takes every message, one dispatch empties the outbox: when every waiting turn
  is due and the batch is large enough, all of them are acknowledged and no row is left.
\<close>

theorem memory_dispatch_drains:
  assumes "\<And>e v. fst (bus e v) = Published"
    and "\<forall>r \<in> set rows. mo_published_at r = None \<and> mo_next_attempt_at r \<le> now" "length rows \<le> limit"
  shows "\<exists>acked w'. memory_dispatch_once now limit bus rows w = (True, acked, [], w')
       \<and> set (map pm_turn_id acked) = set (map mo_turn_id rows)"
proof -
  have due: "memory_due_rows now rows = rows"
    using assms(2) by (auto simp: memory_due_rows_def blocked_subjects_def intro!: filter_True)
  have batch: "set (memory_pending_batch now limit rows) = pending_of_row ` set rows"
    using assms(3) by (simp add: memory_pending_batch_def due)
  have ids: "pm_turn_id ` set (concat (fetched_groups now limit rows)) = mo_turn_id ` set rows"
    unfolding set_fetched_groups batch by (simp add: image_image pending_of_row_def)
  from dispatch_groups_all [where bus = bus and gs = "fetched_groups now limit rows" and now = now and rows = rows and w = w, OF assms(1)] obtain w' where
    "dispatch_groups now bus (fetched_groups now limit rows) rows w =
      (True, concat (fetched_groups now limit rows), [], w')"
    unfolding ids by auto
  then show ?thesis using ids by (simp add: memory_dispatch_once_def fetched_groups_def)
qed


section \<open>A concrete feed\<close>

text \<open>Two turns of one realm, accepted, fetched together, the first one published.\<close>

definition demo_request :: "string \<Rightarrow> memory_turn_request" where
  "demo_request t = \<lparr>mq_turn_id = t, mq_owner_id = ''o'', mq_companion_id = ''c'', mq_subject = ''realm'',
     mq_payload = [(''text'', JStr t)], mq_trace_id = None\<rparr>"

definition demo_rows :: "memory_row list" where
  "demo_rows = memory_insert 0 (demo_request ''t2'') (memory_insert 0 (demo_request ''t1'') [])"

definition demo_fetched :: feed where
  "demo_fetched = \<lparr>fd_rows = demo_rows, fd_batch = fetched_groups 1 100 demo_rows, fd_sent = None,
     fd_accepted = [(''realm'', ''t1''), (''realm'', ''t2'')], fd_delivered = [], fd_acked = []\<rparr>"

lemma demo_rows_ok: "memory_rows_ok demo_rows"
  by (simp add: demo_rows_def memory_insert_def memory_rows_ok_def demo_request_def)

lemma demo_fetched_reachable: "feed_reachable demo_fetched"
proof -
  let ?s1 = "feed_init\<lparr>fd_rows := memory_insert 0 (demo_request ''t1'') (fd_rows feed_init),
     fd_accepted := fd_accepted feed_init @
       (if mq_turn_id (demo_request ''t1'') \<in> set (map mo_turn_id (fd_rows feed_init)) then []
        else [(mq_subject (demo_request ''t1''), mq_turn_id (demo_request ''t1''))])\<rparr>"
  let ?s2 = "?s1\<lparr>fd_rows := memory_insert 0 (demo_request ''t2'') (fd_rows ?s1),
     fd_accepted := fd_accepted ?s1 @
       (if mq_turn_id (demo_request ''t2'') \<in> set (map mo_turn_id (fd_rows ?s1)) then []
        else [(mq_subject (demo_request ''t2''), mq_turn_id (demo_request ''t2''))])\<rparr>"
  have "feed_reachable ?s2" by (intro feed_next [OF feed_next [OF feed_start fs_enqueue] fs_enqueue])
  then have "feed_reachable (?s2\<lparr>fd_batch := fetched_groups 1 100 (fd_rows ?s2)\<rparr>)"
    by (rule feed_next [OF _ fs_fetch]) (simp_all add: feed_init_def)
  moreover have "?s2\<lparr>fd_batch := fetched_groups 1 100 (fd_rows ?s2)\<rparr> = demo_fetched"
    by (simp add: demo_fetched_def demo_rows_def feed_init_def memory_insert_def demo_request_def)
  ultimately show ?thesis by simp
qed

lemma demo_batch:
  "fd_batch demo_fetched = [map pending_of_row demo_rows]" "fd_sent demo_fetched = None"
proof -
  show "fd_batch demo_fetched = [map pending_of_row demo_rows]" by code_simp
qed (simp add: demo_fetched_def)

theorem memory_feed_fifo_witness:
  "acked_on ''realm'' demo_fetched @ pend ''realm'' (fd_rows demo_fetched) = accepted_on ''realm'' demo_fetched"
  by (rule memory_feed_fifo [OF demo_fetched_reachable])

theorem memory_turn_never_overtakes_witness:
  "\<exists>later. accepted_on ''realm'' demo_fetched = acked_on ''realm'' demo_fetched @ ''t1'' # later"
proof -
  obtain p ps where d: "map pending_of_row demo_rows = p # ps" "pm_subject p = ''realm''" "pm_turn_id p = ''t1''"
    by (simp add: demo_rows_def memory_insert_def demo_request_def pending_of_row_def)
  then have "fd_batch demo_fetched = (p # ps) # []" by (simp add: demo_batch)
  from memory_turn_never_overtakes [OF demo_fetched_reachable this demo_batch(2)] d show ?thesis by simp
qed

text \<open>A bus that stores every message it is given, and one that refuses them all.\<close>

definition storing_bus :: "bus_event list bus" where
  "storing_bus e w = (Published, w @ [e])"

definition failing_bus :: "bus_event list bus" where
  "failing_bus e w = (PublishFailed (RuntimeError ''down''), w)"

theorem memory_dispatch_once_refines_witness:
  "\<exists>st'. feed_step\<^sup>*\<^sup>* (feed_init\<lparr>fd_rows := demo_rows\<rparr>) st'
     \<and> fd_rows st' = fst (snd (snd (memory_dispatch_once 1 100 failing_bus demo_rows [])))"
  using memory_dispatch_once_refines [of "feed_init\<lparr>fd_rows := demo_rows\<rparr>" 1 100 failing_bus "[]"]
  by (cases "memory_dispatch_once 1 100 failing_bus demo_rows []") (auto simp: feed_init_def)

theorem memory_enqueue_idempotent_witness:
  "snd (memory_enqueue 5 (demo_request ''t1'') demo_rows) = demo_rows"
proof -
  have f: "find_memory (mq_turn_id (demo_request ''t1'')) demo_rows = Some (hd demo_rows)" by code_simp
  have d: "dict_ok (JDict (mq_payload (demo_request ''t1'')))" by (simp add: demo_request_def)
  from memory_enqueue_idempotent [OF demo_rows_ok d, of 5] show ?thesis by (simp only: f option.case)
qed

theorem memory_failed_turn_blocks_subject_witness:
  "filter (\<lambda>p. pm_subject p = ''realm'')
     (memory_pending_batch 1000001 100 (memory_mark_failed 5 ''t1'' ''down'' demo_rows)) = []"
proof -
  have f: "find_memory ''t1'' demo_rows = Some (hd demo_rows)" by code_simp
  have a: "mo_attempt_count (hd demo_rows) \<ge> 0" "mo_subject (hd demo_rows) = ''realm''" by code_simp+
  have "(1000001::int) < 5 + seconds 2" by (simp add: seconds_def)
  from memory_failed_turn_blocks_subject [OF demo_rows_ok f a(1) this, of 100] a(2) show ?thesis
    by (simp add: filter_empty_conv)
qed

theorem memory_dispatch_drains_witness:
  "\<exists>acked w'. memory_dispatch_once 1 100 storing_bus demo_rows [] = (True, acked, [], w')"
proof -
  have b: "\<And>e v. fst (storing_bus e v) = Published" by (simp add: storing_bus_def)
  have d: "\<forall>r \<in> set demo_rows. mo_published_at r = None \<and> mo_next_attempt_at r \<le> 1" by code_simp
  have l: "length demo_rows \<le> 100" by code_simp
  from memory_dispatch_drains [where bus = storing_bus and w = "[]", OF b d l] show ?thesis by blast
qed

end
