(* ===== verification/Audit_Outbox.thy ===== *)
theory Audit_Outbox
  imports Runtime_Tables
begin

text \<open>
  The audit outbox: \<open>AgentAuditOutbox\<close> of \<open>infra/persistence/runtime_store.py\<close> and its publisher,
  \<open>AgentAuditDispatcher\<close> and \<open>run_agent_audit_dispatcher\<close> of
  \<open>infra/persistence/audit_dispatch.py\<close>. \<open>now\<close> is the clock of the transaction. The transport is
  a parameter: the event ids it acknowledged, or the exception it raised.
\<close>

section \<open>Rows and envelopes\<close>

record audit_draft =
  ad_event_id :: string
  ad_category :: string
  ad_owner_id :: "string option"
  ad_subject_type :: string
  ad_subject_id :: string
  ad_action :: string
  ad_outcome :: string
  ad_severity :: string
  ad_reason :: "string option"
  ad_trace_id :: "string option"
  ad_payload :: json_dict
  ad_occurred_at :: instant

text \<open>\<open>build_row\<close>; \<open>fresh\<close> is the hex of a new UUID.\<close>

definition build_audit_row ::
  "string \<Rightarrow> instant \<Rightarrow> string \<Rightarrow> string \<Rightarrow> string \<Rightarrow> string \<Rightarrow> string option \<Rightarrow> string \<Rightarrow> string
     \<Rightarrow> string option \<Rightarrow> string option \<Rightarrow> json_dict option \<Rightarrow> instant option \<Rightarrow> string option \<Rightarrow> audit_draft" where
  "build_audit_row fresh now category subject_type subject_id action owner_id outcome severity
       reason trace_id payload occurred_at event_id =
     \<lparr>ad_event_id = (if nonempty_opt event_id then the event_id else ''audit-'' @ fresh),
      ad_category = category, ad_owner_id = owner_id, ad_subject_type = subject_type,
      ad_subject_id = subject_id, ad_action = action, ad_outcome = outcome, ad_severity = severity,
      ad_reason = reason, ad_trace_id = trace_id,
      ad_payload = (case payload of None \<Rightarrow> [] | Some p \<Rightarrow> p),
      ad_occurred_at = (case occurred_at of None \<Rightarrow> now | Some t \<Rightarrow> t)\<rparr>"

text \<open>The insert of such a row: the column defaults, and the unique event id.\<close>

definition audit_insert :: "instant \<Rightarrow> audit_draft \<Rightarrow> audit_row list \<Rightarrow> audit_row list result" where
  "audit_insert now d rows =
     (if ad_event_id d \<in> set (map au_event_id rows)
      then Inl (IntegrityError ''UNIQUE constraint failed: audit_outbox.event_id'')
      else Inr (rows @ [\<lparr>au_outbox_id = next_rowid (map au_outbox_id rows), au_event_id = ad_event_id d,
        au_producer = ''eidolon-agent'', au_category = ad_category d, au_owner_id = ad_owner_id d,
        au_subject_type = ad_subject_type d, au_subject_id = ad_subject_id d, au_action = ad_action d,
        au_outcome = ad_outcome d, au_severity = ad_severity d, au_reason = ad_reason d,
        au_trace_id = ad_trace_id d, au_data_classification = ''safe'', au_schema_version = 1,
        au_payload = ad_payload d, au_occurred_at = ad_occurred_at d, au_attempt_count = 0,
        au_next_attempt_at = now, au_last_error = [], au_published_at = None\<rparr>]))"

record audit_envelope =
  ae_event_id :: string
  ae_producer :: string
  ae_producer_seq :: int
  ae_category :: string
  ae_owner_id :: "string option"
  ae_subject_type :: string
  ae_subject_id :: string
  ae_action :: string
  ae_outcome :: string
  ae_severity :: string
  ae_reason :: "string option"
  ae_trace_id :: "string option"
  ae_data_classification :: string
  ae_schema_version :: int
  ae_payload :: json_dict
  ae_occurred_at :: instant

definition envelope_of_row :: "audit_row \<Rightarrow> audit_envelope" where
  "envelope_of_row r =
     \<lparr>ae_event_id = au_event_id r, ae_producer = au_producer r, ae_producer_seq = au_outbox_id r,
      ae_category = au_category r, ae_owner_id = au_owner_id r, ae_subject_type = au_subject_type r,
      ae_subject_id = au_subject_id r, ae_action = au_action r, ae_outcome = au_outcome r,
      ae_severity = au_severity r, ae_reason = au_reason r, ae_trace_id = au_trace_id r,
      ae_data_classification = au_data_classification r, ae_schema_version = au_schema_version r,
      ae_payload = au_payload r, ae_occurred_at = au_occurred_at r\<rparr>"


section \<open>The table's operations\<close>

definition audit_due_rows :: "instant \<Rightarrow> nat \<Rightarrow> audit_row list \<Rightarrow> audit_row list" where
  "audit_due_rows now limit rows =
     take limit (sort_key au_outbox_id
       (filter (\<lambda>r. au_published_at r = None \<and> au_next_attempt_at r \<le> now) rows))"

text \<open>\<open>pending_batch\<close>: the envelopes and the largest attempt count among them.\<close>

definition audit_pending_batch :: "instant \<Rightarrow> nat \<Rightarrow> audit_row list \<Rightarrow> audit_envelope list \<times> int" where
  "audit_pending_batch now limit rows =
     (let due = audit_due_rows now limit rows
      in (map envelope_of_row due, if due = [] then 0 else Max (set (map au_attempt_count due))))"

definition audit_mark_published :: "instant \<Rightarrow> string list \<Rightarrow> audit_row list \<Rightarrow> nat \<times> audit_row list" where
  "audit_mark_published now ids rows =
     (if ids = [] then (0, rows)
      else (length (filter (\<lambda>r. au_event_id r \<in> set ids \<and> au_published_at r = None) rows),
            map (\<lambda>r. if au_event_id r \<in> set ids \<and> au_published_at r = None
                      then r\<lparr>au_published_at := Some now, au_last_error := []\<rparr> else r) rows))"

definition audit_mark_failed ::
  "instant \<Rightarrow> string list \<Rightarrow> string \<Rightarrow> int \<Rightarrow> audit_row list \<Rightarrow> nat \<times> audit_row list" where
  "audit_mark_failed now ids err retry_after rows =
     (if ids = [] then (0, rows)
      else (length (filter (\<lambda>r. au_event_id r \<in> set ids \<and> au_published_at r = None) rows),
            map (\<lambda>r. if au_event_id r \<in> set ids \<and> au_published_at r = None
                      then r\<lparr>au_attempt_count := au_attempt_count r + 1, au_last_error := take 2000 err,
                             au_next_attempt_at := now + retry_after\<rparr> else r) rows))"

definition audit_purge_published :: "instant \<Rightarrow> audit_row list \<Rightarrow> nat \<times> audit_row list" where
  "audit_purge_published before rows =
     (let gone = (\<lambda>r. case au_published_at r of None \<Rightarrow> False | Some t \<Rightarrow> t < before)
      in (length (filter gone rows), filter (\<lambda>r. \<not> gone r) rows))"


section \<open>The dispatcher\<close>

datatype transport_outcome = Acknowledged "string list" | TransportFailed py_error

definition audit_retry_after :: "int \<Rightarrow> int" where
  "audit_retry_after max_attempts = seconds (min (2 ^ nat (min (max max_attempts 0) 16)) 60)"

definition audit_dispatch_once ::
  "instant \<Rightarrow> nat \<Rightarrow> (audit_envelope list \<Rightarrow> transport_outcome) \<Rightarrow> audit_row list \<Rightarrow> nat \<times> audit_row list" where
  "audit_dispatch_once now batch_size publish_many rows =
     (let (events, attempts) = audit_pending_batch now batch_size rows
      in if events = [] then (0, rows)
         else (let event_ids = map ae_event_id events;
                   retry_after = audit_retry_after attempts
               in case publish_many events of
                    TransportFailed e \<Rightarrow>
                      (0, snd (audit_mark_failed now event_ids (exc_type_name e @ '': '' @ exc_message e)
                                 retry_after rows))
                  | Acknowledged a \<Rightarrow>
                      (let acked = filter (\<lambda>i. i \<in> set a) event_ids;
                           rows1 = snd (audit_mark_published now acked rows);
                           missing = filter (\<lambda>i. i \<notin> set a) event_ids;
                           rows2 = (if missing \<noteq> []
                                    then snd (audit_mark_failed now missing
                                       ''transport did not acknowledge event'' retry_after rows1)
                                    else rows1)
                       in (length (remdups acked), rows2))))"

text \<open>
  One pass of the publisher's loop: dispatch, and an hourly purge of what was published more than a
  day ago. \<open>ticks\<close> is the monotonic clock. The result holds the count, the next purge and the table.
\<close>

definition audit_loop_pass ::
  "instant \<Rightarrow> int \<Rightarrow> (audit_envelope list \<Rightarrow> transport_outcome) \<Rightarrow> int \<Rightarrow> audit_row list
     \<Rightarrow> nat \<times> int \<times> audit_row list" where
  "audit_loop_pass now ticks publish_many next_purge rows =
     (let (published, rows1) = audit_dispatch_once now 200 publish_many rows
      in if ticks \<ge> next_purge
         then (published, ticks + seconds 3600, snd (audit_purge_published (now - seconds (24 * 3600)) rows1))
         else (published, next_purge, rows1))"


section \<open>Lemmas\<close>

lemma set_audit_due_rows:
  "r \<in> set (audit_due_rows now limit rows)
     \<Longrightarrow> r \<in> set rows \<and> au_published_at r = None \<and> au_next_attempt_at r \<le> now"
  by (auto simp: audit_due_rows_def dest: in_set_takeD)

lemma audit_retry_bounds: "seconds 1 \<le> audit_retry_after n \<and> audit_retry_after n \<le> seconds 60"
proof -
  have "(1::int) \<le> 2 ^ nat (min (max n 0) 16)" by simp
  then show ?thesis by (simp add: audit_retry_after_def seconds_def)
qed

text \<open>What a dispatch does to one row of the table.\<close>

definition audit_row_after ::
  "instant \<Rightarrow> nat \<Rightarrow> (audit_envelope list \<Rightarrow> transport_outcome) \<Rightarrow> audit_row list \<Rightarrow> audit_row \<Rightarrow> audit_row" where
  "audit_row_after now n publish_many rows r =
     (let due = audit_due_rows now n rows;
          retry = audit_retry_after (snd (audit_pending_batch now n rows))
      in if au_event_id r \<notin> set (map au_event_id due) \<or> au_published_at r \<noteq> None then r
         else case publish_many (map envelope_of_row due) of
             TransportFailed e \<Rightarrow>
               r\<lparr>au_attempt_count := au_attempt_count r + 1,
                 au_last_error := take 2000 (exc_type_name e @ '': '' @ exc_message e),
                 au_next_attempt_at := now + retry\<rparr>
           | Acknowledged a \<Rightarrow>
               (if au_event_id r \<in> set a then r\<lparr>au_published_at := Some now, au_last_error := []\<rparr>
                else r\<lparr>au_attempt_count := au_attempt_count r + 1,
                       au_last_error := take 2000 ''transport did not acknowledge event'',
                       au_next_attempt_at := now + retry\<rparr>))"

definition pub_row :: "instant \<Rightarrow> audit_row \<Rightarrow> audit_row" where
  "pub_row now r = r\<lparr>au_published_at := Some now, au_last_error := []\<rparr>"

definition fail_row :: "instant \<Rightarrow> string \<Rightarrow> audit_row \<Rightarrow> audit_row" where
  "fail_row next err r = r\<lparr>au_attempt_count := au_attempt_count r + 1, au_last_error := take 2000 err,
     au_next_attempt_at := next\<rparr>"

lemma mark_published_rows:
  "snd (audit_mark_published now ids rows)
     = map (\<lambda>r. if au_event_id r \<in> set ids \<and> au_published_at r = None then pub_row now r else r) rows"
  by (simp add: audit_mark_published_def pub_row_def)

lemma mark_failed_rows:
  "snd (audit_mark_failed now ids err retry rows)
     = map (\<lambda>r. if au_event_id r \<in> set ids \<and> au_published_at r = None then fail_row (now + retry) err r else r) rows"
  by (simp add: audit_mark_failed_def fail_row_def)

lemma mark_simps [simp]:
  "au_event_id (pub_row now r) = au_event_id r" "au_event_id (fail_row t e r) = au_event_id r"
  "au_published_at (pub_row now r) = Some now" "au_published_at (fail_row t e r) = au_published_at r"
  by (simp_all add: pub_row_def fail_row_def)

text \<open>The two marks of an acknowledged batch, in one pass.\<close>

lemma marks_combined:
  "snd (audit_mark_failed now (filter (\<lambda>i. i \<notin> A) ids) err retry
        (snd (audit_mark_published now (filter (\<lambda>i. i \<in> A) ids) rows)))
     = map (\<lambda>r. if au_event_id r \<notin> set ids \<or> au_published_at r \<noteq> None then r
               else if au_event_id r \<in> A then pub_row now r else fail_row (now + retry) err r) rows"
proof -
  have one: "(if au_event_id s \<in> set (filter (\<lambda>i. i \<notin> A) ids) \<and> au_published_at s = None
        then fail_row (now + retry) err s else s)
      = (if au_event_id r \<notin> set ids \<or> au_published_at r \<noteq> None then r
         else if au_event_id r \<in> A then pub_row now r else fail_row (now + retry) err r)"
    if s: "s = (if au_event_id r \<in> set (filter (\<lambda>i. i \<in> A) ids) \<and> au_published_at r = None
          then pub_row now r else r)" for r s
    by (cases "au_event_id r \<in> A"; cases "au_published_at r") (simp_all add: s)
  show ?thesis
    unfolding mark_failed_rows mark_published_rows map_map by (rule map_cong) (simp_all only: comp_def one)
qed

lemma mark_failed_none: "snd (audit_mark_failed now [] err retry rows) = rows"
  by (simp add: audit_mark_failed_def)

lemma audit_dispatch_rows:
  "snd (audit_dispatch_once now n publish_many rows) = map (audit_row_after now n publish_many rows) rows"
proof -
  let ?due = "audit_due_rows now n rows"
  let ?ids = "map au_event_id ?due" and ?retry = "audit_retry_after (snd (audit_pending_batch now n rows))"
  have ids: "map ae_event_id (map envelope_of_row ?due) = ?ids" by (simp add: envelope_of_row_def)
  have batch: "audit_pending_batch now n rows = (map envelope_of_row ?due, snd (audit_pending_batch now n rows))"
    by (simp add: audit_pending_batch_def Let_def)
  show ?thesis
  proof (cases "?due = []")
    case True
    then show ?thesis
      by (simp add: audit_dispatch_once_def audit_pending_batch_def audit_row_after_def map_idI)
  next
    case False
    show ?thesis
    proof (cases "publish_many (map envelope_of_row ?due)")
      case (TransportFailed e)
      have "snd (audit_dispatch_once now n publish_many rows)
          = snd (audit_mark_failed now ?ids (exc_type_name e @ '': '' @ exc_message e) ?retry rows)"
        unfolding audit_dispatch_once_def by (subst batch) (simp add: False ids TransportFailed Let_def del: map_map)
      then show ?thesis
        unfolding mark_failed_rows by (simp add: audit_row_after_def TransportFailed fail_row_def Let_def)
    next
      case (Acknowledged a)
      let ?gone = "filter (\<lambda>i. i \<in> set a) ?ids" and ?missing = "filter (\<lambda>i. i \<notin> set a) ?ids"
      let ?rows1 = "snd (audit_mark_published now ?gone rows)"
      have "snd (audit_dispatch_once now n publish_many rows)
          = (if ?missing \<noteq> [] then snd (audit_mark_failed now ?missing
               ''transport did not acknowledge event'' ?retry ?rows1) else ?rows1)"
        unfolding audit_dispatch_once_def
        by (subst batch) (simp only: False ids Acknowledged Let_def prod.case transport_outcome.case snd_conv
            map_is_Nil_conv if_False)
      also have "\<dots> = snd (audit_mark_failed now ?missing ''transport did not acknowledge event'' ?retry ?rows1)"
        using mark_failed_none by metis
      also have "\<dots> = map (audit_row_after now n publish_many rows) rows"
        unfolding marks_combined
        by (rule map_cong) (simp_all add: audit_row_after_def Acknowledged pub_row_def fail_row_def Let_def)
      finally show ?thesis .
    qed
  qed
qed


section \<open>The outbox over time\<close>

text \<open>
  The history of the table under inserts and loop passes. \<open>at_inserted\<close> and \<open>at_acked\<close> record
  the event ids taken and the ids the transport acknowledged.
\<close>

record audit_trail =
  at_rows :: "audit_row list"
  at_next_purge :: int
  at_inserted :: "string list"
  at_acked :: "string list"

definition audit_trail_init :: audit_trail where
  "audit_trail_init = \<lparr>at_rows = [], at_next_purge = 0, at_inserted = [], at_acked = []\<rparr>"

definition acknowledged_in :: "transport_outcome \<Rightarrow> string list" where
  "acknowledged_in t = (case t of Acknowledged a \<Rightarrow> a | TransportFailed e \<Rightarrow> [])"

inductive audit_reachable :: "audit_trail \<Rightarrow> bool" where
  ar_start: "audit_reachable audit_trail_init"
| ar_insert:
    "audit_reachable st \<Longrightarrow> audit_insert now d (at_rows st) = Inr rows'
       \<Longrightarrow> audit_reachable (st\<lparr>at_rows := rows', at_inserted := ad_event_id d # at_inserted st\<rparr>)"
| ar_pass:
    "audit_reachable st \<Longrightarrow> audit_loop_pass now ticks publish_many (at_next_purge st) (at_rows st) = (n, np, rows')
       \<Longrightarrow> audit_reachable (st\<lparr>at_rows := rows', at_next_purge := np,
             at_acked := acknowledged_in (publish_many (map envelope_of_row (audit_due_rows now 200 (at_rows st))))
                           @ at_acked st\<rparr>)"

definition audit_safe :: "audit_row list \<Rightarrow> string list \<Rightarrow> string list \<Rightarrow> bool" where
  "audit_safe rows inserted acked \<longleftrightarrow>
     (\<forall>i \<in> set inserted. i \<in> set acked \<or> (\<exists>r \<in> set rows. au_event_id r = i \<and> au_published_at r = None))
   \<and> (\<forall>r \<in> set rows. au_published_at r \<noteq> None \<longrightarrow> au_event_id r \<in> set acked)"

lemma audit_safe_insert:
  "audit_safe rows ins acked \<Longrightarrow> audit_insert now d rows = Inr rows' \<Longrightarrow> audit_safe rows' (ad_event_id d # ins) acked"
  by (fastforce simp: audit_safe_def audit_insert_def split: if_splits)

lemma audit_row_after_cases:
  fixes publish_many :: "audit_envelope list \<Rightarrow> transport_outcome"
  defines "acks \<equiv> \<lambda>now n rows. acknowledged_in (publish_many (map envelope_of_row (audit_due_rows now n rows)))"
  shows "au_event_id (audit_row_after now n publish_many rows r) = au_event_id r"
    and "au_published_at (audit_row_after now n publish_many rows r) \<noteq> None
      \<Longrightarrow> au_published_at r \<noteq> None \<or> au_event_id r \<in> set (acks now n rows)"
  unfolding acks_def audit_row_after_def acknowledged_in_def Let_def
  by (simp_all split: transport_outcome.splits if_splits)

lemma audit_safe_dispatch:
  assumes "audit_safe rows ins acked"
  shows "audit_safe (snd (audit_dispatch_once now n publish_many rows)) ins
      (acknowledged_in (publish_many (map envelope_of_row (audit_due_rows now n rows))) @ acked)"
  using assms audit_row_after_cases [of now n publish_many rows]
  unfolding audit_safe_def audit_dispatch_rows by fastforce

lemma audit_safe_purge:
  "audit_safe rows ins acked \<Longrightarrow> audit_safe (snd (audit_purge_published before rows)) ins acked"
  by (fastforce simp: audit_safe_def audit_purge_published_def Let_def split: option.splits)

lemma audit_reachable_safe: "audit_reachable st \<Longrightarrow> audit_safe (at_rows st) (at_inserted st) (at_acked st)"
proof (induction rule: audit_reachable.induct)
  case ar_start
  show ?case by (simp add: audit_safe_def audit_trail_init_def)
next
  case (ar_insert st now d rows')
  then show ?case by (simp add: audit_safe_insert)
next
  case (ar_pass st now ticks publish_many n np rows')
  then show ?case
    by (auto simp: audit_loop_pass_def case_prod_beta Let_def intro: audit_safe_dispatch audit_safe_purge
        split: if_splits)
qed

text \<open>
  C34. No audit event is lost: in every history of inserts, dispatches and purges, an event that
  entered the outbox is still there and unpublished, or the transport has acknowledged it.
\<close>

theorem audit_event_never_lost:
  "audit_reachable st \<Longrightarrow> i \<in> set (at_inserted st)
     \<Longrightarrow> i \<in> set (at_acked st) \<or> (\<exists>r \<in> set (at_rows st). au_event_id r = i \<and> au_published_at r = None)"
  using audit_reachable_safe unfolding audit_safe_def by blast

text \<open>
  One dispatch settles every row on its own: a row outside the batch is untouched; a row of the
  batch is marked published exactly when the transport acknowledged it, and otherwise counts one more
  attempt and is due again between one and sixty seconds later.
\<close>

theorem audit_dispatch_settles_batch:
  fixes publish_many :: "audit_envelope list \<Rightarrow> transport_outcome" and now :: instant and n :: nat
  assumes "distinct (map au_event_id rows)" "i < length rows"
  defines "rows' \<equiv> snd (audit_dispatch_once now n publish_many rows)"
    and "due \<equiv> audit_due_rows now n rows"
  shows "length rows' = length rows
     \<and> (rows ! i \<notin> set due \<longrightarrow> rows' ! i = rows ! i)
     \<and> (rows ! i \<in> set due \<longrightarrow>
          (if au_event_id (rows ! i) \<in> set (acknowledged_in (publish_many (map envelope_of_row due)))
           then au_published_at (rows' ! i) = Some now
           else au_published_at (rows' ! i) = None
              \<and> au_attempt_count (rows' ! i) = au_attempt_count (rows ! i) + 1
              \<and> now + seconds 1 \<le> au_next_attempt_at (rows' ! i)
              \<and> au_next_attempt_at (rows' ! i) \<le> now + seconds 60))"
proof -
  have r': "rows' ! i = audit_row_after now n publish_many rows (rows ! i)"
    using assms(2) by (simp add: rows'_def audit_dispatch_rows)
  have mem: "rows ! i \<in> set due \<longleftrightarrow> au_event_id (rows ! i) \<in> set (map au_event_id due)"
  proof
    assume "au_event_id (rows ! i) \<in> set (map au_event_id due)"
    then obtain x where x: "x \<in> set due" "au_event_id x = au_event_id (rows ! i)" by auto
    then have "x \<in> set rows" unfolding due_def by (simp add: set_audit_due_rows)
    with x assms(1,2) have "x = rows ! i" by (auto simp: distinct_map inj_on_def)
    with x show "rows ! i \<in> set due" by simp
  qed auto
  have unpub: "rows ! i \<in> set due \<Longrightarrow> au_published_at (rows ! i) = None"
    unfolding due_def by (simp add: set_audit_due_rows)
  show ?thesis
    using unpub mem audit_retry_bounds [of "snd (audit_pending_batch now n rows)"]
    unfolding r' by (auto simp: rows'_def audit_dispatch_rows audit_row_after_def due_def [symmetric]
        acknowledged_in_def Let_def split: transport_outcome.splits)
qed


section \<open>Sequence numbers\<close>

text \<open>
  The envelope's \<open>producer_seq\<close> is the row's id, and SQLite gives a new row one more than the
  largest id in the table. Once every row has been published and purged the sequence starts again:
  two different events of this producer then carry the same number.
\<close>

definition demo_draft :: "string \<Rightarrow> audit_draft" where
  "demo_draft i = build_audit_row [] 0 ''runtime'' ''job'' ''j'' ''agent.job.done'' None ''success'' ''info''
     None None None None (Some i)"

definition demo_audit :: "audit_row list" where
  "demo_audit = (case audit_insert 0 (demo_draft ''e1'') [] of Inr rows \<Rightarrow> rows | Inl e \<Rightarrow> [])"

definition ack_all :: "audit_envelope list \<Rightarrow> transport_outcome" where
  "ack_all events = Acknowledged (map ae_event_id events)"

definition demo_after_a_day :: "audit_row list" where
  "demo_after_a_day = snd (snd (audit_loop_pass (seconds 90000) (seconds 90000) ack_all 0
     (snd (snd (audit_loop_pass 1 0 ack_all (seconds 3600) demo_audit)))))"

lemma producer_seq_reused:
  "demo_after_a_day = []
   \<and> map ae_producer_seq (fst (audit_pending_batch 1 200 demo_audit)) = [1]
   \<and> (case audit_insert (seconds 90001) (demo_draft ''e2'') demo_after_a_day of
        Inr rows \<Rightarrow> map ae_producer_seq (fst (audit_pending_batch (seconds 90001) 200 rows)) = [1]
      | Inl e \<Rightarrow> False)"
  by code_simp

theorem audit_event_never_lost_witness:
  "\<exists>st. audit_reachable st \<and> (''e1'' \<in> set (at_acked st)
      \<or> (\<exists>r \<in> set (at_rows st). au_event_id r = ''e1'' \<and> au_published_at r = None))"
proof -
  have ins: "audit_insert 0 (demo_draft ''e1'') (at_rows audit_trail_init) = Inr demo_audit" by code_simp
  let ?st = "audit_trail_init\<lparr>at_rows := demo_audit,
      at_inserted := ad_event_id (demo_draft ''e1'') # at_inserted audit_trail_init\<rparr>"
  have r: "audit_reachable ?st" by (rule ar_insert [OF ar_start ins])
  have "''e1'' \<in> set (at_inserted ?st)" by (simp add: demo_draft_def build_audit_row_def nonempty_opt_def)
  from audit_event_never_lost [OF r this] r show ?thesis by blast
qed

theorem audit_dispatch_settles_batch_witness:
  "au_published_at (snd (audit_dispatch_once 1 200 ack_all demo_audit) ! 0) = Some 1"
proof -
  have d: "distinct (map au_event_id demo_audit)" and l: "0 < length demo_audit"
    and b: "demo_audit ! 0 \<in> set (audit_due_rows 1 200 demo_audit)"
    and a: "au_event_id (demo_audit ! 0)
      \<in> set (acknowledged_in (ack_all (map envelope_of_row (audit_due_rows 1 200 demo_audit))))"
    by code_simp+
  from audit_dispatch_settles_batch [OF d l, of 1 200 ack_all] b a show ?thesis by simp
qed

end
