(* ===== verification/Long_Task_Types.thy ===== *)
theory Long_Task_Types
  imports Runtime_Tables
begin

text \<open>
  The long-task record of \<open>core/types/long_task.py\<close> and its JSON form in the \<open>jobs\<close> table, as
  \<open>_record_to_json\<close> and \<open>_record_from_json\<close> of \<open>infra/persistence/agent_runtime.py\<close> write
  and read it. Texts are carried as they are and never inspected. A stored object whose value for a
  field has another JSON type than the field is declared with is outside the model: the code would
  build an ill-typed record, and reading it is an \<open>OtherError\<close> here.
\<close>

section \<open>Statuses\<close>

datatype long_task_status = ACCEPTED | CREATED | QUEUED | SUBMITTED | RUNNING | SUCCEEDED | FAILED
  | CANCELLED | TIMED_OUT

fun long_task_status_value :: "long_task_status \<Rightarrow> string" where
  "long_task_status_value ACCEPTED = ''accepted''"
| "long_task_status_value CREATED = ''created''"
| "long_task_status_value QUEUED = ''queued''"
| "long_task_status_value SUBMITTED = ''submitted''"
| "long_task_status_value RUNNING = ''running''"
| "long_task_status_value SUCCEEDED = ''succeeded''"
| "long_task_status_value FAILED = ''failed''"
| "long_task_status_value CANCELLED = ''cancelled''"
| "long_task_status_value TIMED_OUT = ''timed_out''"

definition all_long_task_statuses :: "long_task_status list" where
  "all_long_task_statuses =
     [ACCEPTED, CREATED, QUEUED, SUBMITTED, RUNNING, SUCCEEDED, FAILED, CANCELLED, TIMED_OUT]"

text \<open>\<open>LongTaskStatus(value)\<close>.\<close>

definition long_task_status_of :: "string \<Rightarrow> long_task_status result" where
  "long_task_status_of s =
     (case List.find (\<lambda>x. long_task_status_value x = s) all_long_task_statuses of
        Some x \<Rightarrow> Inr x
      | None \<Rightarrow> Inl (ValueError (s @ '' is not a valid LongTaskStatus'')))"

lemma long_task_status_of_value [simp]: "long_task_status_of (long_task_status_value s) = Inr s"
  by (cases s) (simp_all add: long_task_status_of_def all_long_task_statuses_def)

lemma long_task_status_value_nonempty [simp]: "long_task_status_value s \<noteq> []"
  by (cases s) simp_all

lemma long_task_status_value_inj: "long_task_status_value s = long_task_status_value t \<longleftrightarrow> s = t"
  by (metis long_task_status_of_value sum.inject(2))

definition terminal_statuses :: "long_task_status list" where
  "terminal_statuses = [SUCCEEDED, FAILED, CANCELLED, TIMED_OUT]"

definition retryable_statuses :: "long_task_status list" where
  "retryable_statuses = [FAILED, CANCELLED, TIMED_OUT]"

datatype callback_status = CB_PENDING | CB_DELIVERED | CB_FAILED

fun callback_status_value :: "callback_status \<Rightarrow> string" where
  "callback_status_value CB_PENDING = ''pending''"
| "callback_status_value CB_DELIVERED = ''delivered''"
| "callback_status_value CB_FAILED = ''failed''"

definition callback_status_of :: "string \<Rightarrow> callback_status result" where
  "callback_status_of s =
     (case List.find (\<lambda>x. callback_status_value x = s) [CB_PENDING, CB_DELIVERED, CB_FAILED] of
        Some x \<Rightarrow> Inr x
      | None \<Rightarrow> Inl (ValueError (s @ '' is not a valid CallbackStatus'')))"

lemma callback_status_of_value [simp]: "callback_status_of (callback_status_value s) = Inr s"
  by (cases s) (simp_all add: callback_status_of_def)

lemma callback_status_value_nonempty [simp]: "callback_status_value s \<noteq> []"
  by (cases s) simp_all


section \<open>The record\<close>

record long_task =
  lt_id :: string
  lt_provider :: string
  lt_status :: long_task_status
  lt_owner_id :: string
  lt_companion_id :: string
  lt_conversation_id :: "string option"
  lt_turn_id :: string
  lt_session_id :: "string option"
  lt_trace_id :: "string option"
  lt_session_key :: string
  lt_task_date :: string
  lt_task_key :: string
  lt_task :: string
  lt_user_text :: string
  lt_memory_realm_id :: "string option"
  lt_genome_id :: "string option"
  lt_device_id :: "string option"
  lt_tool_call_id :: "string option"
  lt_task_type :: string
  lt_urgency :: string
  lt_expected_output :: string
  lt_context_summary :: string
  lt_tool_budget :: int
  lt_expected_duration_hint :: string
  lt_attachments :: "json list"
  lt_request_payload :: json_dict
  lt_mementos_session_id :: "string option"
  lt_mementos_conversation_id :: "string option"
  lt_mementos_run_id :: "string option"
  lt_mementos_latest_seq :: "int option"
  lt_mementos_workspace_dir :: "string option"
  lt_progress_summary :: "string option"
  lt_progress_events :: "json list"
  lt_result_text :: "string option"
  lt_result_tts_summary :: "string option"
  lt_result_payload :: "json_dict option"
  lt_artifact_paths :: "string list"
  lt_error_code :: "string option"
  lt_error_message :: "string option"
  lt_error_payload :: "json_dict option"
  lt_callback_subject :: "string option"
  lt_callback_status :: callback_status
  lt_callback_attempts :: int
  lt_callback_last_error :: "string option"
  lt_callback_delivered_at :: "datetime option"
  lt_worker_id :: "string option"
  lt_lease_until :: "datetime option"
  lt_attempt_count :: int
  lt_next_retry_at :: "datetime option"
  lt_external_status :: "string option"
  lt_created_at :: "datetime option"
  lt_updated_at :: "datetime option"
  lt_started_at :: "datetime option"
  lt_submitted_at :: "datetime option"
  lt_last_progress_at :: "datetime option"
  lt_last_polled_at :: "datetime option"
  lt_completed_at :: "datetime option"


section \<open>To JSON\<close>

definition record_to_json :: "long_task \<Rightarrow> json_dict" where
  "record_to_json r =
     [(''id'', JStr (lt_id r)), (''provider'', JStr (lt_provider r)),
      (''status'', JStr (long_task_status_value (lt_status r))),
      (''owner_id'', JStr (lt_owner_id r)), (''companion_id'', JStr (lt_companion_id r)),
      (''conversation_id'', jopt_str (lt_conversation_id r)), (''turn_id'', JStr (lt_turn_id r)),
      (''session_id'', jopt_str (lt_session_id r)), (''trace_id'', jopt_str (lt_trace_id r)),
      (''session_key'', JStr (lt_session_key r)), (''task_date'', JStr (lt_task_date r)),
      (''task_key'', JStr (lt_task_key r)), (''task'', JStr (lt_task r)),
      (''user_text'', JStr (lt_user_text r)),
      (''memory_realm_id'', jopt_str (lt_memory_realm_id r)),
      (''genome_id'', jopt_str (lt_genome_id r)), (''device_id'', jopt_str (lt_device_id r)),
      (''tool_call_id'', jopt_str (lt_tool_call_id r)), (''task_type'', JStr (lt_task_type r)),
      (''urgency'', JStr (lt_urgency r)), (''expected_output'', JStr (lt_expected_output r)),
      (''context_summary'', JStr (lt_context_summary r)),
      (''tool_budget'', JInt (lt_tool_budget r)),
      (''expected_duration_hint'', JStr (lt_expected_duration_hint r)),
      (''attachments'', JList (lt_attachments r)),
      (''request_payload'', JDict (lt_request_payload r)),
      (''mementos_session_id'', jopt_str (lt_mementos_session_id r)),
      (''mementos_conversation_id'', jopt_str (lt_mementos_conversation_id r)),
      (''mementos_run_id'', jopt_str (lt_mementos_run_id r)),
      (''mementos_latest_seq'', jopt_int (lt_mementos_latest_seq r)),
      (''mementos_workspace_dir'', jopt_str (lt_mementos_workspace_dir r)),
      (''progress_summary'', jopt_str (lt_progress_summary r)),
      (''progress_events'', JList (lt_progress_events r)),
      (''result_text'', jopt_str (lt_result_text r)),
      (''result_tts_summary'', jopt_str (lt_result_tts_summary r)),
      (''result_payload'', jopt_dict (lt_result_payload r)),
      (''artifact_paths'', JList (map JStr (lt_artifact_paths r))),
      (''error_code'', jopt_str (lt_error_code r)),
      (''error_message'', jopt_str (lt_error_message r)),
      (''error_payload'', jopt_dict (lt_error_payload r)),
      (''callback_subject'', jopt_str (lt_callback_subject r)),
      (''callback_status'', JStr (callback_status_value (lt_callback_status r))),
      (''callback_attempts'', JInt (lt_callback_attempts r)),
      (''callback_last_error'', jopt_str (lt_callback_last_error r)),
      (''callback_delivered_at'', jopt_dt (lt_callback_delivered_at r)),
      (''worker_id'', jopt_str (lt_worker_id r)), (''lease_until'', jopt_dt (lt_lease_until r)),
      (''attempt_count'', JInt (lt_attempt_count r)),
      (''next_retry_at'', jopt_dt (lt_next_retry_at r)),
      (''external_status'', jopt_str (lt_external_status r)),
      (''created_at'', jopt_dt (lt_created_at r)), (''updated_at'', jopt_dt (lt_updated_at r)),
      (''started_at'', jopt_dt (lt_started_at r)), (''submitted_at'', jopt_dt (lt_submitted_at r)),
      (''last_progress_at'', jopt_dt (lt_last_progress_at r)),
      (''last_polled_at'', jopt_dt (lt_last_polled_at r)),
      (''completed_at'', jopt_dt (lt_completed_at r))]"


section \<open>From JSON\<close>

definition dt_of_json :: "json \<Rightarrow> datetime option result" where
  "dt_of_json j =
     (case j of
        JNull \<Rightarrow> Inr None
      | JStr s \<Rightarrow> (case fromisoformat s of Inl e \<Rightarrow> Inl e | Inr d \<Rightarrow> Inr (Some d))
      | _ \<Rightarrow> Inl (TypeError ''fromisoformat: argument must be str''))"

definition datetime_keys :: "string list" where
  "datetime_keys = [''created_at'', ''updated_at'', ''started_at'', ''submitted_at'', ''last_progress_at'',
     ''last_polled_at'', ''completed_at'', ''callback_delivered_at'', ''lease_until'',
     ''next_retry_at'']"

text \<open>Reading a field: its value where it has the declared type, and the default where it is missing.\<close>

definition get_str :: "json_dict \<Rightarrow> string \<Rightarrow> string \<Rightarrow> string" where
  "get_str v k dflt = (case map_of v k of Some (JStr s) \<Rightarrow> s | _ \<Rightarrow> dflt)"

definition get_str_opt :: "json_dict \<Rightarrow> string \<Rightarrow> string option" where
  "get_str_opt v k = (case map_of v k of Some (JStr s) \<Rightarrow> Some s | _ \<Rightarrow> None)"

definition get_int :: "json_dict \<Rightarrow> string \<Rightarrow> int \<Rightarrow> int" where
  "get_int v k dflt = (case map_of v k of Some (JInt i) \<Rightarrow> i | _ \<Rightarrow> dflt)"

definition get_int_opt :: "json_dict \<Rightarrow> string \<Rightarrow> int option" where
  "get_int_opt v k = (case map_of v k of Some (JInt i) \<Rightarrow> Some i | _ \<Rightarrow> None)"

definition get_list :: "json_dict \<Rightarrow> string \<Rightarrow> json list" where
  "get_list v k = (case map_of v k of Some (JList l) \<Rightarrow> l | _ \<Rightarrow> [])"

definition get_dict :: "json_dict \<Rightarrow> string \<Rightarrow> json_dict" where
  "get_dict v k = (case map_of v k of Some (JDict d) \<Rightarrow> d | _ \<Rightarrow> [])"

definition get_dict_opt :: "json_dict \<Rightarrow> string \<Rightarrow> json_dict option" where
  "get_dict_opt v k = (case map_of v k of Some (JDict d) \<Rightarrow> Some d | _ \<Rightarrow> None)"

definition json_text :: "json \<Rightarrow> string" where
  "json_text j = (case j of JStr s \<Rightarrow> s | _ \<Rightarrow> [])"

definition get_strs :: "json_dict \<Rightarrow> string \<Rightarrow> string list" where
  "get_strs v k = map json_text (get_list v k)"

definition get_dt :: "json_dict \<Rightarrow> string \<Rightarrow> datetime option" where
  "get_dt v k = (case dt_of_json (dict_get v k) of Inr d \<Rightarrow> d | Inl e \<Rightarrow> None)"

text \<open>The declared types of the fields.\<close>

datatype field_kind = KStr | KStrOpt | KInt | KIntOpt | KList | KDict | KDictOpt | KStrs | KDt

fun is_jstr :: "json \<Rightarrow> bool" where
  "is_jstr (JStr s) = True"
| "is_jstr _ = False"

fun kind_ok :: "field_kind \<Rightarrow> json \<Rightarrow> bool" where
  "kind_ok KStr j = is_jstr j"
| "kind_ok KStrOpt j = (j = JNull \<or> is_jstr j)"
| "kind_ok KInt (JInt i) = True"
| "kind_ok KIntOpt JNull = True"
| "kind_ok KIntOpt (JInt i) = True"
| "kind_ok KList (JList l) = True"
| "kind_ok KDict (JDict d) = True"
| "kind_ok KDictOpt JNull = True"
| "kind_ok KDictOpt (JDict d) = True"
| "kind_ok KStrs (JList l) = list_all is_jstr l"
| "kind_ok KDt j = (j = JNull \<or> is_jstr j)"
| "kind_ok _ _ = False"

definition field_kinds :: "(string \<times> field_kind) list" where
  "field_kinds =
     [(''id'', KStr), (''provider'', KStr), (''status'', KStr), (''owner_id'', KStr),
      (''companion_id'', KStr), (''conversation_id'', KStrOpt), (''turn_id'', KStr),
      (''session_id'', KStrOpt), (''trace_id'', KStrOpt), (''session_key'', KStr),
      (''task_date'', KStr), (''task_key'', KStr), (''task'', KStr), (''user_text'', KStr),
      (''memory_realm_id'', KStrOpt), (''genome_id'', KStrOpt), (''device_id'', KStrOpt),
      (''tool_call_id'', KStrOpt), (''task_type'', KStr), (''urgency'', KStr),
      (''expected_output'', KStr), (''context_summary'', KStr), (''tool_budget'', KInt),
      (''expected_duration_hint'', KStr), (''attachments'', KList), (''request_payload'', KDict),
      (''mementos_session_id'', KStrOpt), (''mementos_conversation_id'', KStrOpt),
      (''mementos_run_id'', KStrOpt), (''mementos_latest_seq'', KIntOpt),
      (''mementos_workspace_dir'', KStrOpt), (''progress_summary'', KStrOpt),
      (''progress_events'', KList), (''result_text'', KStrOpt), (''result_tts_summary'', KStrOpt),
      (''result_payload'', KDictOpt), (''artifact_paths'', KStrs), (''error_code'', KStrOpt),
      (''error_message'', KStrOpt), (''error_payload'', KDictOpt), (''callback_subject'', KStrOpt),
      (''callback_status'', KStr), (''callback_attempts'', KInt),
      (''callback_last_error'', KStrOpt), (''callback_delivered_at'', KDt),
      (''worker_id'', KStrOpt), (''lease_until'', KDt), (''attempt_count'', KInt),
      (''next_retry_at'', KDt), (''external_status'', KStrOpt), (''created_at'', KDt),
      (''updated_at'', KDt), (''started_at'', KDt), (''submitted_at'', KDt),
      (''last_progress_at'', KDt), (''last_polled_at'', KDt), (''completed_at'', KDt)]"

definition required_fields :: "string list" where
  "required_fields = [''id'', ''provider'', ''status'', ''owner_id'', ''companion_id'', ''conversation_id'',
     ''turn_id'', ''session_id'', ''trace_id'', ''session_key'', ''task_date'', ''task_key'',
     ''task'']"

text \<open>\<open>values.get(k) or default\<close>, as the two enumerations are read.\<close>

definition enum_text :: "json_dict \<Rightarrow> string \<Rightarrow> string \<Rightarrow> string" where
  "enum_text v k dflt = json_text (py_or (dict_get v k) (JStr dflt))"

text \<open>The four keys that \<open>setdefault\<close> fills with the empty string.\<close>

definition with_defaults :: "json_dict \<Rightarrow> json_dict" where
  "with_defaults v =
     dict_setdefault ''task'' (JStr []) (dict_setdefault ''task_key'' (JStr [])
       (dict_setdefault ''task_date'' (JStr []) (dict_setdefault ''session_key'' (JStr []) v)))"

text \<open>\<open>LongTaskRecord(**values)\<close>, given the parsed statuses.\<close>

definition build_record :: "long_task_status \<Rightarrow> callback_status \<Rightarrow> json_dict \<Rightarrow> long_task" where
  "build_record st cb v =
     \<lparr>lt_id = get_str v ''id'' [], lt_provider = get_str v ''provider'' [], lt_status = st,
      lt_owner_id = get_str v ''owner_id'' [], lt_companion_id = get_str v ''companion_id'' [],
      lt_conversation_id = get_str_opt v ''conversation_id'',
      lt_turn_id = get_str v ''turn_id'' [], lt_session_id = get_str_opt v ''session_id'',
      lt_trace_id = get_str_opt v ''trace_id'', lt_session_key = get_str v ''session_key'' [],
      lt_task_date = get_str v ''task_date'' [], lt_task_key = get_str v ''task_key'' [],
      lt_task = get_str v ''task'' [], lt_user_text = get_str v ''user_text'' [],
      lt_memory_realm_id = get_str_opt v ''memory_realm_id'',
      lt_genome_id = get_str_opt v ''genome_id'', lt_device_id = get_str_opt v ''device_id'',
      lt_tool_call_id = get_str_opt v ''tool_call_id'',
      lt_task_type = get_str v ''task_type'' ''other'',
      lt_urgency = get_str v ''urgency'' ''normal'',
      lt_expected_output = get_str v ''expected_output'' [],
      lt_context_summary = get_str v ''context_summary'' [],
      lt_tool_budget = get_int v ''tool_budget'' 0,
      lt_expected_duration_hint = get_str v ''expected_duration_hint'' [],
      lt_attachments = get_list v ''attachments'',
      lt_request_payload = get_dict v ''request_payload'',
      lt_mementos_session_id = get_str_opt v ''mementos_session_id'',
      lt_mementos_conversation_id = get_str_opt v ''mementos_conversation_id'',
      lt_mementos_run_id = get_str_opt v ''mementos_run_id'',
      lt_mementos_latest_seq = get_int_opt v ''mementos_latest_seq'',
      lt_mementos_workspace_dir = get_str_opt v ''mementos_workspace_dir'',
      lt_progress_summary = get_str_opt v ''progress_summary'',
      lt_progress_events = get_list v ''progress_events'',
      lt_result_text = get_str_opt v ''result_text'',
      lt_result_tts_summary = get_str_opt v ''result_tts_summary'',
      lt_result_payload = get_dict_opt v ''result_payload'',
      lt_artifact_paths = get_strs v ''artifact_paths'',
      lt_error_code = get_str_opt v ''error_code'',
      lt_error_message = get_str_opt v ''error_message'',
      lt_error_payload = get_dict_opt v ''error_payload'',
      lt_callback_subject = get_str_opt v ''callback_subject'', lt_callback_status = cb,
      lt_callback_attempts = get_int v ''callback_attempts'' 0,
      lt_callback_last_error = get_str_opt v ''callback_last_error'',
      lt_callback_delivered_at = get_dt v ''callback_delivered_at'',
      lt_worker_id = get_str_opt v ''worker_id'', lt_lease_until = get_dt v ''lease_until'',
      lt_attempt_count = get_int v ''attempt_count'' 0,
      lt_next_retry_at = get_dt v ''next_retry_at'',
      lt_external_status = get_str_opt v ''external_status'',
      lt_created_at = get_dt v ''created_at'', lt_updated_at = get_dt v ''updated_at'',
      lt_started_at = get_dt v ''started_at'', lt_submitted_at = get_dt v ''submitted_at'',
      lt_last_progress_at = get_dt v ''last_progress_at'',
      lt_last_polled_at = get_dt v ''last_polled_at'', lt_completed_at = get_dt v ''completed_at''\<rparr>"

definition record_from_json :: "json_dict \<Rightarrow> long_task result" where
  "record_from_json data =
     (case long_task_status_of (enum_text data ''status'' ''accepted'') of
        Inl e \<Rightarrow> Inl e
      | Inr st \<Rightarrow>
     (case callback_status_of (enum_text data ''callback_status'' ''pending'') of
        Inl e \<Rightarrow> Inl e
      | Inr cb \<Rightarrow>
     (case List.find (\<lambda>r. \<not> is_ok r) (map (\<lambda>k. dt_of_json (dict_get data k)) datetime_keys) of
        Some (Inl e) \<Rightarrow> Inl e
      | _ \<Rightarrow>
        (let v = with_defaults (dict_put ''status'' (JStr (long_task_status_value st))
                    (dict_put ''callback_status'' (JStr (callback_status_value cb)) data))
         in if \<exists>p \<in> set v. map_of field_kinds (fst p) = None
            then Inl (TypeError ''LongTaskRecord.__init__() got an unexpected keyword argument'')
            else if \<exists>k \<in> set required_fields. map_of v k = None
            then Inl (TypeError ''LongTaskRecord.__init__() missing a required argument'')
            else if \<exists>p \<in> set v. \<not> kind_ok (the (map_of field_kinds (fst p))) (snd p)
            then Inl (OtherError ''IllTyped'' ''a stored field has another type than declared'')
            else Inr (build_record st cb v)))))"


section \<open>Round trip\<close>

text \<open>Every datetime of the record is one that Python can build.\<close>

definition dt_opt_valid :: "datetime option \<Rightarrow> bool" where
  "dt_opt_valid d = (case d of None \<Rightarrow> True | Some t \<Rightarrow> dt_valid t)"

definition long_task_dates :: "long_task \<Rightarrow> datetime option list" where
  "long_task_dates r =
     [lt_created_at r, lt_updated_at r, lt_started_at r, lt_submitted_at r, lt_last_progress_at r,
      lt_last_polled_at r, lt_completed_at r, lt_callback_delivered_at r, lt_lease_until r,
      lt_next_retry_at r]"

definition record_valid :: "long_task \<Rightarrow> bool" where
  "record_valid r = list_all dt_opt_valid (long_task_dates r)"

lemma dict_setdefault_present: "map_of d k = Some v \<Longrightarrow> dict_setdefault k w d = d"
  by (simp add: dict_setdefault_def)

lemma dt_of_json_jopt_dt: "dt_opt_valid d \<Longrightarrow> dt_of_json (jopt_dt d) = Inr d"
  by (cases d) (simp_all add: dt_of_json_def dt_opt_valid_def fromisoformat_isoformat)

lemma json_text_JStr [simp]: "json_text (JStr s) = s"
  by (simp add: json_text_def)

lemma json_text_comp_JStr [simp]: "json_text \<circ> JStr = id"
  by (simp add: fun_eq_iff)

text \<open>What a record's JSON holds under each key.\<close>

lemma record_json_lookup:
  "map_of (record_to_json r) ''id'' = Some (JStr (lt_id r))"
  "map_of (record_to_json r) ''provider'' = Some (JStr (lt_provider r))"
  "map_of (record_to_json r) ''status'' = Some (JStr (long_task_status_value (lt_status r)))"
  "map_of (record_to_json r) ''owner_id'' = Some (JStr (lt_owner_id r))"
  "map_of (record_to_json r) ''companion_id'' = Some (JStr (lt_companion_id r))"
  "map_of (record_to_json r) ''conversation_id'' = Some (jopt_str (lt_conversation_id r))"
  "map_of (record_to_json r) ''turn_id'' = Some (JStr (lt_turn_id r))"
  "map_of (record_to_json r) ''session_id'' = Some (jopt_str (lt_session_id r))"
  "map_of (record_to_json r) ''trace_id'' = Some (jopt_str (lt_trace_id r))"
  "map_of (record_to_json r) ''session_key'' = Some (JStr (lt_session_key r))"
  "map_of (record_to_json r) ''task_date'' = Some (JStr (lt_task_date r))"
  "map_of (record_to_json r) ''task_key'' = Some (JStr (lt_task_key r))"
  "map_of (record_to_json r) ''task'' = Some (JStr (lt_task r))"
  "map_of (record_to_json r) ''user_text'' = Some (JStr (lt_user_text r))"
  "map_of (record_to_json r) ''memory_realm_id'' = Some (jopt_str (lt_memory_realm_id r))"
  "map_of (record_to_json r) ''genome_id'' = Some (jopt_str (lt_genome_id r))"
  "map_of (record_to_json r) ''device_id'' = Some (jopt_str (lt_device_id r))"
  "map_of (record_to_json r) ''tool_call_id'' = Some (jopt_str (lt_tool_call_id r))"
  "map_of (record_to_json r) ''task_type'' = Some (JStr (lt_task_type r))"
  "map_of (record_to_json r) ''urgency'' = Some (JStr (lt_urgency r))"
  "map_of (record_to_json r) ''expected_output'' = Some (JStr (lt_expected_output r))"
  "map_of (record_to_json r) ''context_summary'' = Some (JStr (lt_context_summary r))"
  "map_of (record_to_json r) ''tool_budget'' = Some (JInt (lt_tool_budget r))"
  "map_of (record_to_json r) ''expected_duration_hint'' = Some (JStr (lt_expected_duration_hint r))"
  "map_of (record_to_json r) ''attachments'' = Some (JList (lt_attachments r))"
  "map_of (record_to_json r) ''request_payload'' = Some (JDict (lt_request_payload r))"
  "map_of (record_to_json r) ''mementos_session_id'' = Some (jopt_str (lt_mementos_session_id r))"
  "map_of (record_to_json r) ''mementos_conversation_id'' = Some (jopt_str (lt_mementos_conversation_id r))"
  "map_of (record_to_json r) ''mementos_run_id'' = Some (jopt_str (lt_mementos_run_id r))"
  "map_of (record_to_json r) ''mementos_latest_seq'' = Some (jopt_int (lt_mementos_latest_seq r))"
  "map_of (record_to_json r) ''mementos_workspace_dir'' = Some (jopt_str (lt_mementos_workspace_dir r))"
  "map_of (record_to_json r) ''progress_summary'' = Some (jopt_str (lt_progress_summary r))"
  "map_of (record_to_json r) ''progress_events'' = Some (JList (lt_progress_events r))"
  "map_of (record_to_json r) ''result_text'' = Some (jopt_str (lt_result_text r))"
  "map_of (record_to_json r) ''result_tts_summary'' = Some (jopt_str (lt_result_tts_summary r))"
  "map_of (record_to_json r) ''result_payload'' = Some (jopt_dict (lt_result_payload r))"
  "map_of (record_to_json r) ''artifact_paths'' = Some (JList (map JStr (lt_artifact_paths r)))"
  "map_of (record_to_json r) ''error_code'' = Some (jopt_str (lt_error_code r))"
  "map_of (record_to_json r) ''error_message'' = Some (jopt_str (lt_error_message r))"
  "map_of (record_to_json r) ''error_payload'' = Some (jopt_dict (lt_error_payload r))"
  "map_of (record_to_json r) ''callback_subject'' = Some (jopt_str (lt_callback_subject r))"
  "map_of (record_to_json r) ''callback_status'' = Some (JStr (callback_status_value (lt_callback_status r)))"
  "map_of (record_to_json r) ''callback_attempts'' = Some (JInt (lt_callback_attempts r))"
  "map_of (record_to_json r) ''callback_last_error'' = Some (jopt_str (lt_callback_last_error r))"
  "map_of (record_to_json r) ''callback_delivered_at'' = Some (jopt_dt (lt_callback_delivered_at r))"
  "map_of (record_to_json r) ''worker_id'' = Some (jopt_str (lt_worker_id r))"
  "map_of (record_to_json r) ''lease_until'' = Some (jopt_dt (lt_lease_until r))"
  "map_of (record_to_json r) ''attempt_count'' = Some (JInt (lt_attempt_count r))"
  "map_of (record_to_json r) ''next_retry_at'' = Some (jopt_dt (lt_next_retry_at r))"
  "map_of (record_to_json r) ''external_status'' = Some (jopt_str (lt_external_status r))"
  "map_of (record_to_json r) ''created_at'' = Some (jopt_dt (lt_created_at r))"
  "map_of (record_to_json r) ''updated_at'' = Some (jopt_dt (lt_updated_at r))"
  "map_of (record_to_json r) ''started_at'' = Some (jopt_dt (lt_started_at r))"
  "map_of (record_to_json r) ''submitted_at'' = Some (jopt_dt (lt_submitted_at r))"
  "map_of (record_to_json r) ''last_progress_at'' = Some (jopt_dt (lt_last_progress_at r))"
  "map_of (record_to_json r) ''last_polled_at'' = Some (jopt_dt (lt_last_polled_at r))"
  "map_of (record_to_json r) ''completed_at'' = Some (jopt_dt (lt_completed_at r))"
  by (simp_all add: record_to_json_def)

lemma record_json_keys: "map fst (record_to_json r) = map fst field_kinds"
  by (simp add: record_to_json_def field_kinds_def)

lemma jopt_cases [simp]:
  "(case jopt_str so of JStr x \<Rightarrow> Some x | _ \<Rightarrow> None) = so"
  "(case jopt_int io of JInt x \<Rightarrow> Some x | _ \<Rightarrow> None) = io"
  "(case jopt_dict eo of JDict x \<Rightarrow> Some x | _ \<Rightarrow> None) = eo"
proof -
  show "(case jopt_str so of JStr x \<Rightarrow> Some x | _ \<Rightarrow> None) = so" by (cases so) simp_all
  show "(case jopt_int io of JInt x \<Rightarrow> Some x | _ \<Rightarrow> None) = io" by (cases io) simp_all
  show "(case jopt_dict eo of JDict x \<Rightarrow> Some x | _ \<Rightarrow> None) = eo" by (cases eo) simp_all
qed

lemmas get_json_defs = get_str_def get_str_opt_def get_int_def get_int_opt_def get_list_def get_dict_def
  get_dict_opt_def get_strs_def get_dt_def dict_get_def

lemma kind_ok_encodings [simp]:
  "kind_ok KStrOpt (jopt_str so)" "kind_ok KIntOpt (jopt_int io)" "kind_ok KDictOpt (jopt_dict eo)"
  "kind_ok KDt (jopt_dt t)" "list_all is_jstr (map JStr ss)"
proof -
  show "kind_ok KStrOpt (jopt_str so)" by (cases so) simp_all
  show "kind_ok KIntOpt (jopt_int io)" by (cases io) simp_all
  show "kind_ok KDictOpt (jopt_dict eo)" by (cases eo) simp_all
  show "kind_ok KDt (jopt_dt t)" by (cases t) simp_all
  show "list_all is_jstr (map JStr ss)" by (simp add: list_all_iff)
qed

lemma record_json_kinds_list:
  "list_all2 (\<lambda>(n, k) (m, j). n = m \<and> kind_ok k j) field_kinds (record_to_json r)"
  unfolding record_to_json_def field_kinds_def list_all2_Cons list_all2_Nil prod.case
  by (intro conjI refl kind_ok_encodings) simp_all

lemma distinct_field_kinds: "distinct (map fst field_kinds)"
  by code_simp

lemma list_all2_kinds:
  "list_all2 (\<lambda>(n, k) (m, j). n = m \<and> ok k j) fk v \<Longrightarrow> distinct (map fst fk)
     \<Longrightarrow> \<forall>p \<in> set v. \<exists>k. map_of fk (fst p) = Some k \<and> ok k (snd p)"
proof (induction fk v rule: list_all2_induct)
  case (Cons a fk b v)
  then show ?case by (cases a, cases b) (fastforce simp: image_iff dest: map_of_SomeD)
qed simp

lemma record_json_kinds:
  "\<forall>p \<in> set (record_to_json r). \<exists>k. map_of field_kinds (fst p) = Some k \<and> kind_ok k (snd p)"
  by (rule list_all2_kinds [OF record_json_kinds_list distinct_field_kinds])

lemma build_record_json:
  assumes "record_valid r"
  shows "build_record (lt_status r) (lt_callback_status r) (record_to_json r) = r"
proof -
  have "\<forall>d \<in> set (long_task_dates r). dt_of_json (jopt_dt d) = Inr d"
    using assms by (auto simp: record_valid_def list_all_iff intro: dt_of_json_jopt_dt)
  then show ?thesis
    unfolding build_record_def get_json_defs record_json_lookup
    by (simp add: long_task_dates_def long_task.surjective [symmetric])
qed

lemma record_dates_ok:
  assumes "record_valid r"
  shows "List.find (\<lambda>x. \<not> is_ok x) (map (\<lambda>k. dt_of_json (dict_get (record_to_json r) k)) datetime_keys) = None"
proof -
  have "map (\<lambda>k. dict_get (record_to_json r) k) datetime_keys = map jopt_dt (long_task_dates r)"
    by (simp add: datetime_keys_def dict_get_def record_json_lookup long_task_dates_def)
  then have "map (\<lambda>k. dt_of_json (dict_get (record_to_json r) k)) datetime_keys
      = map (\<lambda>d. dt_of_json (jopt_dt d)) (long_task_dates r)"
    by (metis (no_types, lifting) list.map_comp map_map comp_def map_eq_conv)
  also have "\<dots> = map Inr (long_task_dates r)"
    using assms by (auto simp: record_valid_def list_all_iff dt_of_json_jopt_dt)
  finally show ?thesis by (auto simp: find_None_iff)
qed

lemma record_from_json_to_json:
  assumes "record_valid r"
  shows "record_from_json (record_to_json r) = Inr r"
proof -
  let ?v = "record_to_json r"
  have st: "enum_text ?v ''status'' ''accepted'' = long_task_status_value (lt_status r)"
    and cb: "enum_text ?v ''callback_status'' ''pending'' = callback_status_value (lt_callback_status r)"
    by (simp_all add: enum_text_def dict_get_def record_json_lookup py_or_def)
  have same: "with_defaults (dict_put ''status'' (JStr (long_task_status_value (lt_status r)))
      (dict_put ''callback_status'' (JStr (callback_status_value (lt_callback_status r))) ?v)) = ?v"
    by (simp add: with_defaults_def dict_put_same dict_setdefault_present record_json_lookup)
  have req: "\<forall>k \<in> set required_fields. map_of ?v k \<noteq> None"
    by (simp add: required_fields_def record_json_lookup)
  have kinds: "\<not> (\<exists>p \<in> set ?v. map_of field_kinds (fst p) = None)"
    "\<not> (\<exists>p \<in> set ?v. \<not> kind_ok (the (map_of field_kinds (fst p))) (snd p))"
    using record_json_kinds [of r] by fastforce+
  show ?thesis
    unfolding record_from_json_def st cb long_task_status_of_value callback_status_of_value sum.case
      record_dates_ok [OF assms] option.case Let_def same
    using req kinds build_record_json [OF assms] by simp
qed

end
