(* ===== verification/Long_Task_Store.thy ===== *)
theory Long_Task_Store
  imports Long_Task_Types Audit_Outbox
begin

text \<open>
  \<open>AgentLongTaskStore\<close> of \<open>infra/persistence/agent_runtime.py\<close>: long tasks as rows of the \<open>jobs\<close>
  table, and the terminal receipts it writes into the audit outbox in the same transaction. Each
  method is one transaction; \<open>now\<close> is the UTC time it reads, \<open>fresh\<close> the UUID a receipt gets.
  Rows of equal \<open>created_at\<close> keep their table order in a listing, where SQL leaves it open.
\<close>

section \<open>Rows\<close>

definition payload_key :: string where
  "payload_key = ''eidolon_agent_long_task''"

definition provider_ref_json :: "long_task \<Rightarrow> json_dict" where
  "provider_ref_json r =
     [(''mementos_session_id'', jopt_str (lt_mementos_session_id r)),
      (''mementos_conversation_id'', jopt_str (lt_mementos_conversation_id r)),
      (''mementos_run_id'', jopt_str (lt_mementos_run_id r)),
      (''mementos_latest_seq'', jopt_int (lt_mementos_latest_seq r)),
      (''mementos_workspace_dir'', jopt_str (lt_mementos_workspace_dir r)),
      (''worker_id'', jopt_str (lt_worker_id r)), (''lease_until'', jopt_dt (lt_lease_until r)),
      (''attempt_count'', JInt (lt_attempt_count r)), (''next_retry_at'', jopt_dt (lt_next_retry_at r)),
      (''external_status'', jopt_str (lt_external_status r))]"

definition progress_json :: "long_task \<Rightarrow> json_dict" where
  "progress_json r =
     [(''progress_summary'', jopt_str (lt_progress_summary r)), (''progress_events'', JList (lt_progress_events r)),
      (''last_progress_at'', jopt_dt (lt_last_progress_at r)), (''last_polled_at'', jopt_dt (lt_last_polled_at r))]"

definition result_json :: "long_task \<Rightarrow> json_dict" where
  "result_json r =
     [(''result_text'', jopt_str (lt_result_text r)), (''result_tts_summary'', jopt_str (lt_result_tts_summary r)),
      (''result_payload'', jopt_dict (lt_result_payload r)),
      (''artifact_paths'', JList (map JStr (lt_artifact_paths r))),
      (''callback_subject'', jopt_str (lt_callback_subject r)),
      (''callback_status'', JStr (callback_status_value (lt_callback_status r))),
      (''callback_attempts'', JInt (lt_callback_attempts r)),
      (''callback_last_error'', jopt_str (lt_callback_last_error r)),
      (''callback_delivered_at'', jopt_dt (lt_callback_delivered_at r))]"

definition error_json :: "long_task \<Rightarrow> json_dict" where
  "error_json r =
     [(''error_code'', jopt_str (lt_error_code r)), (''error_message'', jopt_str (lt_error_message r)),
      (''error_payload'', jopt_dict (lt_error_payload r))]"

definition dt_or :: "datetime option \<Rightarrow> datetime \<Rightarrow> datetime" where
  "dt_or d now = (case d of None \<Rightarrow> now | Some t \<Rightarrow> t)"

text \<open>\<open>_record_to_job_row\<close>, as the row is stored.\<close>

definition record_to_job_row :: "datetime \<Rightarrow> long_task \<Rightarrow> job_row" where
  "record_to_job_row now r =
     \<lparr>jb_id = lt_id r, jb_owner_id = lt_owner_id r, jb_companion_id = Some (lt_companion_id r),
      jb_conversation_id = lt_conversation_id r, jb_turn_id = Some (lt_turn_id r), jb_provider = lt_provider r,
      jb_kind = lt_task_type r, jb_status = long_task_status_value (lt_status r),
      jb_input = [(payload_key, JDict (record_to_json r))], jb_provider_ref = provider_ref_json r,
      jb_progress = progress_json r, jb_result = result_json r, jb_error = error_json r,
      jb_created_at = sql_datetime (dt_or (lt_created_at r) now),
      jb_updated_at = sql_datetime (dt_or (lt_updated_at r) now),
      jb_completed_at = map_option sql_datetime (lt_completed_at r)\<rparr>"

text \<open>\<open>_apply_record_to_job_row\<close>: everything but the id and the creation time.\<close>

definition apply_record_to_job_row :: "datetime \<Rightarrow> long_task \<Rightarrow> job_row \<Rightarrow> job_row" where
  "apply_record_to_job_row now r row =
     (record_to_job_row now r)\<lparr>jb_id := jb_id row, jb_created_at := jb_created_at row\<rparr>"

text \<open>\<open>_job_row_to_record\<close>: the stored payload, with the row's columns written over it.\<close>

definition job_payload :: "job_row \<Rightarrow> json_dict" where
  "job_payload row =
     (let p0 = as_dict (dict_get (jb_input row) payload_key);
          p1 = dict_put ''id'' (JStr (jb_id row)) p0;
          p2 = dict_put ''provider'' (JStr (jb_provider row)) p1;
          p3 = dict_put ''status'' (JStr (jb_status row)) p2;
          p4 = dict_put ''owner_id'' (JStr (jb_owner_id row)) p3;
          p5 = dict_put ''companion_id'' (jopt_str (jb_companion_id row)) p4;
          p6 = dict_put ''conversation_id'' (jopt_str (jb_conversation_id row)) p5;
          p7 = dict_put ''turn_id'' (jopt_str (jb_turn_id row)) p6;
          p8 = dict_put ''task_type'' (JStr (jb_kind row)) p7;
          p9 = dict_put ''created_at''
                 (py_or (dict_get p8 ''created_at'') (JStr (isoformat (jb_created_at row)))) p8;
          p10 = dict_put ''updated_at''
                 (py_or (dict_get p9 ''updated_at'') (JStr (isoformat (jb_updated_at row)))) p9
      in dict_put ''completed_at''
           (py_or (dict_get p10 ''completed_at'') (jopt_dt (jb_completed_at row))) p10)"

definition job_row_to_record :: "job_row \<Rightarrow> long_task result" where
  "job_row_to_record row = record_from_json (job_payload row)"


section \<open>Receipts\<close>

fun job_status_event :: "long_task_status \<Rightarrow> string option" where
  "job_status_event SUCCEEDED = Some ''job.succeeded''"
| "job_status_event FAILED = Some ''job.failed''"
| "job_status_event CANCELLED = Some ''job.cancelled''"
| "job_status_event TIMED_OUT = Some ''job.timed_out''"
| "job_status_event _ = None"

definition receipt_draft :: "string \<Rightarrow> instant \<Rightarrow> string \<Rightarrow> long_task \<Rightarrow> audit_draft" where
  "receipt_draft fresh now event_type r =
     build_audit_row fresh now ''receipt'' ''job'' (lt_id r) event_type (Some (lt_owner_id r))
       (if lt_status r \<in> set retryable_statuses then ''failure'' else ''success'') ''info''
       (lt_error_code r) (lt_trace_id r)
       (Some ([(''provider'', JStr (lt_provider r)), (''kind'', JStr (lt_task_type r)),
               (''status'', JStr (long_task_status_value (lt_status r)))]
              @ (if nonempty_opt (lt_error_code r) then [(''error_code'', jopt_str (lt_error_code r))] else [])))
       None None"

text \<open>\<open>_emit_job_transition\<close>, with the insert its row causes at the commit.\<close>

definition emit_job_transition ::
  "string \<Rightarrow> instant \<Rightarrow> long_task_status \<Rightarrow> long_task \<Rightarrow> audit_row list \<Rightarrow> audit_row list result" where
  "emit_job_transition fresh now before after rows =
     (case job_status_event (lt_status after) of
        None \<Rightarrow> Inr rows
      | Some event_type \<Rightarrow>
          (if lt_status after = before then Inr rows
           else audit_insert now (receipt_draft fresh now event_type after) rows))"


section \<open>The store's methods\<close>

definition find_job :: "string \<Rightarrow> runtime_db \<Rightarrow> job_row option" where
  "find_job task_id db = List.find (\<lambda>j. jb_id j = task_id) (db_jobs db)"

definition set_job :: "string \<Rightarrow> job_row \<Rightarrow> runtime_db \<Rightarrow> runtime_db" where
  "set_job task_id row db = db\<lparr>db_jobs := map (\<lambda>j. if jb_id j = task_id then row else j) (db_jobs db)\<rparr>"

definition store_accept :: "datetime \<Rightarrow> long_task \<Rightarrow> runtime_db \<Rightarrow> runtime_db" where
  "store_accept now r db =
     (let r' = r\<lparr>lt_created_at := Some (dt_or (lt_created_at r) now),
                 lt_updated_at := Some (dt_or (lt_updated_at r) now)\<rparr>
      in case find_job (lt_id r') db of
           None \<Rightarrow> db\<lparr>db_jobs := db_jobs db @ [record_to_job_row now r']\<rparr>
         | Some row \<Rightarrow> set_job (lt_id r') (apply_record_to_job_row now r' row) db)"

definition store_get :: "string \<Rightarrow> runtime_db \<Rightarrow> long_task option result" where
  "store_get task_id db =
     (case find_job task_id db of
        None \<Rightarrow> Inr None
      | Some row \<Rightarrow> (case job_row_to_record row of Inl e \<Rightarrow> Inl e | Inr r \<Rightarrow> Inr (Some r)))"

text \<open>\<open>_update\<close>: read, mutate, write back, and the receipt, in one transaction.\<close>

definition store_update ::
  "datetime \<Rightarrow> string \<Rightarrow> string \<Rightarrow> (long_task \<Rightarrow> datetime \<Rightarrow> long_task) \<Rightarrow> runtime_db
     \<Rightarrow> (long_task option \<times> runtime_db) result" where
  "store_update now fresh task_id mutator db =
     (case find_job task_id db of
        None \<Rightarrow> Inr (None, db)
      | Some row \<Rightarrow>
     (case job_row_to_record row of
        Inl e \<Rightarrow> Inl e
      | Inr r \<Rightarrow>
          (let r' = mutator r now;
               db1 = set_job task_id (apply_record_to_job_row now r' row) db
           in case emit_job_transition fresh (dt_instant now) (lt_status r) r' (db_audit db1) of
                Inl e \<Rightarrow> Inl e
              | Inr audit \<Rightarrow> Inr (Some r', db1\<lparr>db_audit := audit\<rparr>))))"

definition mut_mark_queued :: "string \<Rightarrow> datetime option \<Rightarrow> long_task \<Rightarrow> datetime \<Rightarrow> long_task" where
  "mut_mark_queued worker lease r now =
     r\<lparr>lt_status := QUEUED, lt_worker_id := Some worker, lt_lease_until := lease,
       lt_attempt_count := lt_attempt_count r + 1, lt_submitted_at := Some (dt_or (lt_submitted_at r) now),
       lt_updated_at := Some now\<rparr>"

definition mut_mark_submitted :: "long_task \<Rightarrow> datetime \<Rightarrow> long_task" where
  "mut_mark_submitted r now =
     r\<lparr>lt_status := SUBMITTED, lt_submitted_at := Some (dt_or (lt_submitted_at r) now), lt_updated_at := Some now\<rparr>"

text \<open>\<open>new or old\<close> for optional strings.\<close>

definition str_or :: "string option \<Rightarrow> string option \<Rightarrow> string option" where
  "str_or new old = (if nonempty_opt new then new else old)"

definition opt_or :: "'a option \<Rightarrow> 'a option \<Rightarrow> 'a option" where
  "opt_or new old = (case new of None \<Rightarrow> old | Some x \<Rightarrow> Some x)"

definition mut_attach_mementos_run ::
  "string option \<Rightarrow> string option \<Rightarrow> string option \<Rightarrow> int option \<Rightarrow> string option \<Rightarrow> string option
     \<Rightarrow> long_task \<Rightarrow> datetime \<Rightarrow> long_task" where
  "mut_attach_mementos_run session conversation run latest_seq workspace external r now =
     r\<lparr>lt_status := RUNNING, lt_started_at := Some (dt_or (lt_started_at r) now), lt_last_progress_at := Some now,
       lt_updated_at := Some now, lt_mementos_session_id := str_or session (lt_mementos_session_id r),
       lt_mementos_conversation_id := str_or conversation (lt_mementos_conversation_id r),
       lt_mementos_run_id := str_or run (lt_mementos_run_id r),
       lt_mementos_latest_seq := opt_or latest_seq (lt_mementos_latest_seq r),
       lt_mementos_workspace_dir := str_or workspace (lt_mementos_workspace_dir r),
       lt_external_status := str_or external (lt_external_status r)\<rparr>"

definition mut_append_progress ::
  "json \<Rightarrow> string option \<Rightarrow> int option \<Rightarrow> long_task \<Rightarrow> datetime \<Rightarrow> long_task" where
  "mut_append_progress event summary latest_seq r now =
     r\<lparr>lt_status := RUNNING, lt_started_at := Some (dt_or (lt_started_at r) now), lt_last_progress_at := Some now,
       lt_last_polled_at := Some now, lt_updated_at := Some now,
       lt_progress_events := lt_progress_events r @ [event],
       lt_progress_summary := opt_or summary (lt_progress_summary r),
       lt_mementos_latest_seq := opt_or latest_seq (lt_mementos_latest_seq r)\<rparr>"

definition mut_touch_poll :: "int option \<Rightarrow> string option \<Rightarrow> long_task \<Rightarrow> datetime \<Rightarrow> long_task" where
  "mut_touch_poll latest_seq external r now =
     r\<lparr>lt_last_polled_at := Some now, lt_updated_at := Some now,
       lt_mementos_latest_seq := opt_or latest_seq (lt_mementos_latest_seq r),
       lt_external_status := str_or external (lt_external_status r)\<rparr>"

definition mut_complete ::
  "string option \<Rightarrow> json_dict option \<Rightarrow> string list option \<Rightarrow> long_task \<Rightarrow> datetime \<Rightarrow> long_task" where
  "mut_complete text payload paths r now =
     r\<lparr>lt_status := SUCCEEDED, lt_external_status := Some (long_task_status_value SUCCEEDED),
       lt_result_text := text, lt_result_payload := payload,
       lt_artifact_paths := (case paths of None \<Rightarrow> [] | Some ps \<Rightarrow> ps),
       lt_completed_at := Some now, lt_last_polled_at := Some now, lt_updated_at := Some now\<rparr>"

definition mut_set_tts :: "string \<Rightarrow> long_task \<Rightarrow> datetime \<Rightarrow> long_task" where
  "mut_set_tts summary r now = r\<lparr>lt_result_tts_summary := Some summary, lt_updated_at := Some now\<rparr>"

definition mut_mark_failed ::
  "string \<Rightarrow> string \<Rightarrow> json_dict option \<Rightarrow> long_task_status \<Rightarrow> long_task \<Rightarrow> datetime \<Rightarrow> long_task" where
  "mut_mark_failed code msg payload status r now =
     r\<lparr>lt_status := status, lt_error_code := Some code, lt_error_message := Some msg, lt_error_payload := payload,
       lt_completed_at := opt_or (lt_completed_at r)
         (if status \<in> {FAILED, CANCELLED, TIMED_OUT} then Some now else None),
       lt_updated_at := Some now\<rparr>"

definition mut_retry :: "long_task \<Rightarrow> datetime \<Rightarrow> long_task" where
  "mut_retry r now =
     r\<lparr>lt_status := ACCEPTED, lt_external_status := None, lt_progress_summary := None, lt_progress_events := [],
       lt_result_text := None, lt_result_tts_summary := None, lt_result_payload := None,
       lt_artifact_paths := [], lt_error_code := None, lt_error_message := None, lt_error_payload := None,
       lt_worker_id := None, lt_lease_until := None, lt_next_retry_at := None, lt_completed_at := None,
       lt_updated_at := Some now\<rparr>"

text \<open>\<open>claim_callback_delivery\<close>.\<close>

definition claim_callback_delivery ::
  "datetime \<Rightarrow> string \<Rightarrow> string \<Rightarrow> runtime_db \<Rightarrow> (bool \<times> runtime_db) result" where
  "claim_callback_delivery now task_id subject db =
     (case find_job task_id db of
        None \<Rightarrow> Inr (False, db)
      | Some row \<Rightarrow>
     (case job_row_to_record row of
        Inl e \<Rightarrow> Inl e
      | Inr r \<Rightarrow>
          (if lt_callback_status r \<noteq> CB_PENDING then Inr (False, db)
           else (let r' = r\<lparr>lt_callback_status := CB_DELIVERED, lt_callback_subject := Some subject,
                            lt_callback_attempts := lt_callback_attempts r + 1,
                            lt_callback_delivered_at := Some now, lt_updated_at := Some now\<rparr>
                 in Inr (True, set_job task_id (apply_record_to_job_row now r' row) db)))))"

text \<open>\<open>[_job_row_to_record(row) for row in rows]\<close>: the first row that cannot be read raises.\<close>

fun collect_records :: "job_row list \<Rightarrow> long_task list result" where
  "collect_records [] = Inr []"
| "collect_records (row # rows) =
     (case job_row_to_record row of
        Inl e \<Rightarrow> Inl e
      | Inr r \<Rightarrow> (case collect_records rows of Inl e \<Rightarrow> Inl e | Inr rs \<Rightarrow> Inr (r # rs)))"

record job_query =
  jq_owner_id :: "string option"
  jq_companion_id :: "string option"
  jq_status :: "string option"
  jq_provider :: "string option"
  jq_task_type :: "string option"
  jq_limit :: nat
  jq_before :: "datetime option"

definition job_matches :: "job_query \<Rightarrow> job_row \<Rightarrow> bool" where
  "job_matches q j \<longleftrightarrow>
     (nonempty_opt (jq_owner_id q) \<longrightarrow> Some (jb_owner_id j) = jq_owner_id q)
   \<and> (nonempty_opt (jq_companion_id q) \<longrightarrow> jb_companion_id j = jq_companion_id q)
   \<and> (nonempty_opt (jq_status q) \<longrightarrow> Some (jb_status j) = jq_status q)
   \<and> (nonempty_opt (jq_provider q) \<longrightarrow> Some (jb_provider j) = jq_provider q)
   \<and> (nonempty_opt (jq_task_type q) \<longrightarrow> Some (jb_kind j) = jq_task_type q)
   \<and> (case jq_before q of None \<Rightarrow> True | Some t \<Rightarrow> dt_instant (jb_created_at j) < dt_instant (sql_datetime t))"

definition jobs_newest_first :: "job_row list \<Rightarrow> job_row list" where
  "jobs_newest_first js = sort_key (\<lambda>j. - dt_instant (jb_created_at j)) js"

definition list_for_admin :: "job_query \<Rightarrow> runtime_db \<Rightarrow> long_task list result" where
  "list_for_admin q db =
     collect_records (take (jq_limit q) (jobs_newest_first (filter (job_matches q) (db_jobs db))))"

text \<open>\<open>find_mementos_session_id\<close>: the loop stops at the first row with a match.\<close>

fun first_session :: "string \<Rightarrow> job_row list \<Rightarrow> string option result" where
  "first_session key [] = Inr None"
| "first_session key (row # rows) =
     (case job_row_to_record row of
        Inl e \<Rightarrow> Inl e
      | Inr r \<Rightarrow> (if lt_session_key r = key \<and> nonempty_opt (lt_mementos_session_id r)
                  then Inr (lt_mementos_session_id r) else first_session key rows))"

definition find_mementos_session_id :: "string \<Rightarrow> runtime_db \<Rightarrow> string option result" where
  "find_mementos_session_id key db =
     first_session key (jobs_newest_first (filter (\<lambda>j. jb_provider j = ''mementos'') (db_jobs db)))"


section \<open>Rows hold their records\<close>

definition wf_task :: "long_task \<Rightarrow> bool" where
  "wf_task r \<longleftrightarrow> record_valid r \<and> lt_created_at r \<noteq> None \<and> lt_updated_at r \<noteq> None"

lemma py_or_iso: "py_or (JStr (isoformat d)) j = JStr (isoformat d)"
  by (simp add: py_or_def isoformat_nonempty)

lemma py_or_jopt_dt: "py_or (jopt_dt d) (jopt_dt (map_option f d)) = jopt_dt d"
  by (cases d) (simp_all add: py_or_iso, simp add: py_or_def)

lemma job_payload_of_record:
  assumes "wf_task r" "jb_id row = lt_id r"
  shows "job_payload (apply_record_to_job_row now r row) = record_to_json r"
proof -
  obtain c u where c: "lt_created_at r = Some c" and u: "lt_updated_at r = Some u"
    using assms(1) by (auto simp: wf_task_def)
  have look: "dict_get (record_to_json r) ''created_at'' = JStr (isoformat c)"
    "dict_get (record_to_json r) ''updated_at'' = JStr (isoformat u)"
    "dict_get (record_to_json r) ''completed_at'' = jopt_dt (lt_completed_at r)"
    by (simp_all add: dict_get_def record_json_lookup c u)
  have put: "dict_put ''id'' (JStr (lt_id r)) (record_to_json r) = record_to_json r"
    "dict_put ''provider'' (JStr (lt_provider r)) (record_to_json r) = record_to_json r"
    "dict_put ''status'' (JStr (long_task_status_value (lt_status r))) (record_to_json r) = record_to_json r"
    "dict_put ''owner_id'' (JStr (lt_owner_id r)) (record_to_json r) = record_to_json r"
    "dict_put ''companion_id'' (JStr (lt_companion_id r)) (record_to_json r) = record_to_json r"
    "dict_put ''conversation_id'' (jopt_str (lt_conversation_id r)) (record_to_json r) = record_to_json r"
    "dict_put ''turn_id'' (JStr (lt_turn_id r)) (record_to_json r) = record_to_json r"
    "dict_put ''task_type'' (JStr (lt_task_type r)) (record_to_json r) = record_to_json r"
    "dict_put ''created_at'' (JStr (isoformat c)) (record_to_json r) = record_to_json r"
    "dict_put ''updated_at'' (JStr (isoformat u)) (record_to_json r) = record_to_json r"
    "dict_put ''completed_at'' (jopt_dt (lt_completed_at r)) (record_to_json r) = record_to_json r"
    by (intro dict_put_same; simp add: record_json_lookup c u)+
  have fields: "jb_id (apply_record_to_job_row now r row) = lt_id r"
    "jb_provider (apply_record_to_job_row now r row) = lt_provider r"
    "jb_status (apply_record_to_job_row now r row) = long_task_status_value (lt_status r)"
    "jb_owner_id (apply_record_to_job_row now r row) = lt_owner_id r"
    "jb_companion_id (apply_record_to_job_row now r row) = Some (lt_companion_id r)"
    "jb_conversation_id (apply_record_to_job_row now r row) = lt_conversation_id r"
    "jb_turn_id (apply_record_to_job_row now r row) = Some (lt_turn_id r)"
    "jb_kind (apply_record_to_job_row now r row) = lt_task_type r"
    "jb_completed_at (apply_record_to_job_row now r row) = map_option sql_datetime (lt_completed_at r)"
    "as_dict (dict_get (jb_input (apply_record_to_job_row now r row)) payload_key) = record_to_json r"
    by (simp_all add: apply_record_to_job_row_def record_to_job_row_def assms(2) dict_get_def)
  show ?thesis
    unfolding job_payload_def Let_def fields put look py_or_iso py_or_jopt_dt jopt_str.simps ..
qed

lemma apply_row_reads_back:
  "wf_task r \<Longrightarrow> jb_id row = lt_id r \<Longrightarrow> job_row_to_record (apply_record_to_job_row now r row) = Inr r"
  by (simp add: job_row_to_record_def job_payload_of_record record_from_json_to_json wf_task_def)

lemma new_row_reads_back: "wf_task r \<Longrightarrow> job_row_to_record (record_to_job_row now r) = Inr r"
  using apply_row_reads_back [of r "record_to_job_row now r" now]
  by (simp add: apply_record_to_job_row_def record_to_job_row_def)

definition job_row_ok :: "job_row \<Rightarrow> bool" where
  "job_row_ok row =
     (case job_row_to_record row of Inl e \<Rightarrow> False | Inr r \<Rightarrow> wf_task r \<and> lt_id r = jb_id row)"

definition jobs_ok :: "runtime_db \<Rightarrow> bool" where
  "jobs_ok db \<longleftrightarrow> distinct (map jb_id (db_jobs db)) \<and> list_all job_row_ok (db_jobs db)"

lemma find_job_Some: "find_job i db = Some row \<Longrightarrow> row \<in> set (db_jobs db) \<and> jb_id row = i"
  by (auto simp: find_job_def dest: find_SomeD)

lemma find_job_set_job:
  assumes "find_job i db = Some row0" "jb_id row = i"
  shows "find_job j (set_job i row db) = (if j = i then Some row else find_job j db)"
proof -
  have "List.find (\<lambda>x. jb_id x = j) (map (\<lambda>x. if jb_id x = i then row else x) js)
      = (if j = i then map_option (\<lambda>x. row) (List.find (\<lambda>x. jb_id x = i) js)
         else List.find (\<lambda>x. jb_id x = j) js)" for js
    using assms(2) by (induction js) auto
  then show ?thesis using assms(1) by (simp add: find_job_def set_job_def)
qed

lemma jobs_ok_set_job:
  assumes "jobs_ok db" "job_row_ok row" "jb_id row = i"
  shows "jobs_ok (set_job i row db)"
proof -
  have "map jb_id (db_jobs (set_job i row db)) = map jb_id (db_jobs db)"
    using assms(3) by (simp add: set_job_def)
  moreover have "list_all job_row_ok (db_jobs (set_job i row db))"
    using assms(1,2) by (auto simp: jobs_ok_def set_job_def list_all_iff)
  ultimately show ?thesis using assms(1) unfolding jobs_ok_def by metis
qed

text \<open>A stored task, as the store returns it.\<close>

definition job_get :: "string \<Rightarrow> runtime_db \<Rightarrow> long_task option" where
  "job_get i db = (case store_get i db of Inl e \<Rightarrow> None | Inr r \<Rightarrow> r)"

definition job_write :: "datetime \<Rightarrow> string \<Rightarrow> (long_task \<Rightarrow> long_task) \<Rightarrow> runtime_db \<Rightarrow> runtime_db" where
  "job_write now i f db =
     (case find_job i db of
        None \<Rightarrow> db
      | Some row \<Rightarrow> (case job_row_to_record row of
            Inl e \<Rightarrow> db
          | Inr r \<Rightarrow> set_job i (apply_record_to_job_row now (f r) row) db))"

lemma job_get_found:
  assumes "jobs_ok db"
  shows "job_get i db = (case find_job i db of None \<Rightarrow> None | Some row \<Rightarrow> Some (projr (job_row_to_record row)))"
    and "find_job i db = Some row \<Longrightarrow> \<exists>r. job_row_to_record row = Inr r \<and> wf_task r \<and> lt_id r = i"
proof -
  show ex: "\<exists>r. job_row_to_record row = Inr r \<and> wf_task r \<and> lt_id r = i" if "find_job i db = Some row" for row
    using find_job_Some [OF that] assms
    by (cases "job_row_to_record row") (auto simp: jobs_ok_def list_all_iff job_row_ok_def split: sum.splits)
  show "job_get i db = (case find_job i db of None \<Rightarrow> None | Some row \<Rightarrow> Some (projr (job_row_to_record row)))"
    using ex by (fastforce simp: job_get_def store_get_def split: option.splits sum.splits)
qed


section \<open>The store as a keyed collection\<close>

text \<open>
  What the clients of the store rely on: an update of one record is read back, and touches no other.
  \<open>rkey\<close> is a record's id, \<open>wf\<close> the records that can be stored.
\<close>

locale record_store =
  fixes ok :: "'db \<Rightarrow> bool"
    and wf :: "'r \<Rightarrow> bool"
    and rkey :: "'r \<Rightarrow> string"
    and get :: "string \<Rightarrow> 'db \<Rightarrow> 'r option"
    and upd :: "string \<Rightarrow> ('r \<Rightarrow> 'r) \<Rightarrow> 'db \<Rightarrow> 'db"
  assumes get_wf: "ok db \<Longrightarrow> get i db = Some r \<Longrightarrow> wf r \<and> rkey r = i"
    and upd_ok: "ok db \<Longrightarrow> get i db = Some r \<Longrightarrow> wf (f r) \<Longrightarrow> rkey (f r) = i \<Longrightarrow> ok (upd i f db)"
    and get_upd: "ok db \<Longrightarrow> get i db = Some r \<Longrightarrow> wf (f r) \<Longrightarrow> rkey (f r) = i
        \<Longrightarrow> get j (upd i f db) = (if j = i then Some (f r) else get j db)"
    and upd_missing: "get i db = None \<Longrightarrow> upd i f db = db"
begin

definition mutator_ok :: "('r \<Rightarrow> 'r) \<Rightarrow> bool" where
  "mutator_ok f \<longleftrightarrow> (\<forall>r. wf r \<longrightarrow> wf (f r) \<and> rkey (f r) = rkey r)"

lemma upd_keeps_ok: "ok db \<Longrightarrow> mutator_ok f \<Longrightarrow> ok (upd i f db)"
  using get_wf [of db i] upd_ok [of db i _ f] upd_missing [of i db f]
  by (cases "get i db") (auto simp: mutator_ok_def)

lemma get_after_upd:
  "ok db \<Longrightarrow> mutator_ok f
     \<Longrightarrow> get j (upd i f db) = (if j = i then map_option f (get i db) else get j db)"
  using get_wf [of db i] get_upd [of db i _ f j] upd_missing [of i db f]
  by (cases "get i db") (auto simp: mutator_ok_def)

fun writes :: "(string \<times> ('r \<Rightarrow> 'r)) list \<Rightarrow> 'db \<Rightarrow> 'db" where
  "writes [] db = db"
| "writes ((i, f) # ws) db = writes ws (upd i f db)"

text \<open>A field no mutator touches keeps its value through any sequence of updates.\<close>

lemma writes_keep_field:
  assumes "ok db" "\<forall>w \<in> set ws. mutator_ok (snd w) \<and> (\<forall>r. fld (snd w r) = fld r)"
  shows "ok (writes ws db) \<and> map_option fld (get j (writes ws db)) = map_option fld (get j db)"
  using assms
proof (induction ws db rule: writes.induct)
  case (2 i f ws db)
  then have f: "mutator_ok f" "\<And>r. fld (f r) = fld r" by auto
  have "ok (upd i f db)" by (rule upd_keeps_ok [OF "2.prems"(1) f(1)])
  with 2 have "ok (writes ws (upd i f db))
      \<and> map_option fld (get j (writes ws (upd i f db))) = map_option fld (get j (upd i f db))" by simp
  moreover have "map_option fld (get j (upd i f db)) = map_option fld (get j db)"
    using get_after_upd [OF "2.prems"(1) f(1), of j i] f(2) by (simp add: option.map_comp comp_def)
  ultimately show ?case by simp
qed simp

end

lemma job_get_write:
  assumes "jobs_ok db" "job_get i db = Some r" "wf_task (f r)" "lt_id (f r) = i"
  shows "jobs_ok (job_write now i f db)"
    and "job_get j (job_write now i f db) = (if j = i then Some (f r) else job_get j db)"
proof -
  from assms(2) obtain row where row: "find_job i db = Some row"
    by (cases "find_job i db") (simp_all add: job_get_def store_get_def)
  from job_get_found(2) [OF assms(1) row] job_get_found(1) [OF assms(1), of i] assms(2) row
  have rec: "job_row_to_record row = Inr r" by auto
  let ?row = "apply_record_to_job_row now (f r) row"
  have id: "jb_id row = i" using find_job_Some [OF row] by simp
  have readback: "job_row_to_record ?row = Inr (f r)"
    by (rule apply_row_reads_back [OF assms(3)]) (simp add: id assms(4))
  have idr: "jb_id ?row = i" by (simp add: apply_record_to_job_row_def id)
  have w: "job_write now i f db = set_job i ?row db" by (simp add: job_write_def row rec)
  show ok': "jobs_ok (job_write now i f db)"
    unfolding w by (rule jobs_ok_set_job [OF assms(1) _ idr]) (simp add: job_row_ok_def readback assms(3,4) idr)
  show "job_get j (job_write now i f db) = (if j = i then Some (f r) else job_get j db)"
    unfolding w job_get_found(1) [OF ok' [unfolded w]] job_get_found(1) [OF assms(1)]
      find_job_set_job [OF row idr] by (simp add: readback)
qed

interpretation jobs: record_store jobs_ok wf_task lt_id job_get "job_write now" for now
proof
  show "wf_task r \<and> lt_id r = i" if "jobs_ok db" "job_get i db = Some r" for db i r
    using job_get_found [OF that(1)] that(2) by (fastforce split: option.splits)
  show "job_write now i f db = db" if "job_get i db = None" for i db f
    using that by (auto simp: job_get_def store_get_def job_write_def split: option.splits sum.splits)
qed (auto intro: job_get_write(1) simp: job_get_write(2))

end
