(* ===== verification/Long_Task_Ops.thy ===== *)
theory Long_Task_Ops
  imports Long_Task_Store
begin

text \<open>
  The methods of the long-task store as one datatype of operations, histories of them, and what they
  guarantee: stored records read back, receipts on terminal transitions, callbacks claimed once.
\<close>

datatype long_task_op =
    MarkQueued string "datetime option"
  | MarkSubmitted
  | AttachMementosRun "string option" "string option" "string option" "int option" "string option" "string option"
  | AppendProgress json "string option" "int option"
  | TouchPoll "int option" "string option"
  | Complete "string option" "json_dict option" "string list option"
  | SetResultTtsSummary string
  | MarkFailed string string "json_dict option" long_task_status
  | RetryFromAdmin

fun op_mutator :: "long_task_op \<Rightarrow> long_task \<Rightarrow> datetime \<Rightarrow> long_task" where
  "op_mutator (MarkQueued w l) = mut_mark_queued w l"
| "op_mutator MarkSubmitted = mut_mark_submitted"
| "op_mutator (AttachMementosRun s c r q d x) = mut_attach_mementos_run s c r q d x"
| "op_mutator (AppendProgress e s q) = mut_append_progress e s q"
| "op_mutator (TouchPoll q x) = mut_touch_poll q x"
| "op_mutator (Complete t p a) = mut_complete t p a"
| "op_mutator (SetResultTtsSummary s) = mut_set_tts s"
| "op_mutator (MarkFailed c m p s) = mut_mark_failed c m p s"
| "op_mutator RetryFromAdmin = mut_retry"

lemmas mutator_defs = mut_mark_queued_def mut_mark_submitted_def mut_attach_mementos_run_def
  mut_append_progress_def mut_touch_poll_def mut_complete_def mut_set_tts_def mut_mark_failed_def mut_retry_def

definition store_op ::
  "datetime \<Rightarrow> string \<Rightarrow> string \<Rightarrow> long_task_op \<Rightarrow> runtime_db \<Rightarrow> (long_task option \<times> runtime_db) result" where
  "store_op now fresh task_id oper db = store_update now fresh task_id (op_mutator oper) db"

fun op_dates_ok :: "long_task_op \<Rightarrow> bool" where
  "op_dates_ok (MarkQueued w l) = dt_opt_valid l"
| "op_dates_ok _ = True"

lemma dt_opt_valid_simps [simp]:
  "dt_opt_valid None" "dt_opt_valid (Some d) = dt_valid d"
  by (simp_all add: dt_opt_valid_def)

lemma dt_opt_valid_opt_or: "dt_opt_valid a \<Longrightarrow> dt_opt_valid b \<Longrightarrow> dt_opt_valid (opt_or a b)"
  by (cases a) (simp_all add: opt_or_def)

lemma dt_valid_dt_or: "dt_opt_valid a \<Longrightarrow> dt_valid b \<Longrightarrow> dt_valid (dt_or a b)"
  by (simp add: dt_or_def dt_opt_valid_def split: option.splits)

lemma op_mutator_wf:
  assumes "dt_valid now" "op_dates_ok oper" "wf_task r"
  shows "wf_task (op_mutator oper r now)"
proof -
  have d: "list_all dt_opt_valid (long_task_dates r)" "lt_created_at r \<noteq> None"
    using assms(3) by (auto simp: wf_task_def record_valid_def)
  show ?thesis
    using assms(1,2) d
    by (cases oper) (simp_all add: mutator_defs wf_task_def record_valid_def long_task_dates_def
        dt_valid_dt_or dt_opt_valid_opt_or)
qed

lemma op_mutator_keeps [simp]:
  "lt_id (op_mutator oper r now) = lt_id r"
  "lt_owner_id (op_mutator oper r now) = lt_owner_id r"
  "lt_companion_id (op_mutator oper r now) = lt_companion_id r"
  "lt_callback_status (op_mutator oper r now) = lt_callback_status r"
  "lt_created_at (op_mutator oper r now) = lt_created_at r"
  by (cases oper; simp add: mutator_defs)+

lemma op_mutator_ok:
  "dt_valid now \<Longrightarrow> op_dates_ok oper \<Longrightarrow> jobs.mutator_ok (\<lambda>r. op_mutator oper r now)"
  by (simp add: jobs.mutator_ok_def op_mutator_wf)

lemma set_job_other [simp]: "db_audit (set_job i row db) = db_audit db"
  by (simp add: set_job_def)

lemma job_write_other [simp]: "db_audit (job_write now i f db) = db_audit db"
  by (simp add: job_write_def set_job_def split: option.splits sum.splits)

lemma jobs_ok_audit [simp]: "jobs_ok (db\<lparr>db_audit := a\<rparr>) = jobs_ok db" "job_get i (db\<lparr>db_audit := a\<rparr>) = job_get i db"
  by (simp_all add: jobs_ok_def job_get_def store_get_def find_job_def)

lemma store_get_job_get: "jobs_ok db \<Longrightarrow> store_get i db = Inr (job_get i db)"
  using job_get_found(2) [of db i] by (fastforce simp: job_get_def store_get_def split: option.splits)

text \<open>An operation is the job's write followed by its receipt.\<close>

lemma store_op_unfold:
  assumes "jobs_ok db"
  shows "store_op now fresh t oper db =
     (case job_get t db of
        None \<Rightarrow> Inr (None, db)
      | Some r \<Rightarrow>
          (case emit_job_transition fresh (dt_instant now) (lt_status r) (op_mutator oper r now) (db_audit db) of
             Inl e \<Rightarrow> Inl e
           | Inr audit \<Rightarrow> Inr (Some (op_mutator oper r now),
                 (job_write now t (\<lambda>r. op_mutator oper r now) db)\<lparr>db_audit := audit\<rparr>)))"
proof (cases "find_job t db")
  case None
  then show ?thesis by (simp add: store_op_def store_update_def job_get_def store_get_def)
next
  case (Some row)
  from job_get_found(2) [OF assms Some] obtain r where r: "job_row_to_record row = Inr r" by blast
  have w: "job_write now t (\<lambda>r. op_mutator oper r now) db
      = set_job t (apply_record_to_job_row now (op_mutator oper r now) row) db"
    by (simp add: job_write_def Some r)
  show ?thesis
    unfolding w by (simp add: store_op_def store_update_def job_get_def store_get_def Some r Let_def)
qed

text \<open>The receipt of a transition: its audit row, if the transition has one.\<close>

definition receipts_of :: "long_task_status \<Rightarrow> long_task \<Rightarrow> (string \<times> string) list" where
  "receipts_of before after =
     (case job_status_event (lt_status after) of
        None \<Rightarrow> [] | Some ev \<Rightarrow> if lt_status after = before then [] else [(ev, lt_id after)])"

definition receipt_view :: "audit_row \<Rightarrow> string \<times> string" where
  "receipt_view a = (au_action a, au_subject_id a)"

lemma emit_job_transition_view:
  assumes "emit_job_transition fresh now before after rows = Inr rows'"
  shows "\<exists>new. rows' = rows @ new \<and> map receipt_view new = receipts_of before after"
  using assms
  by (auto simp: emit_job_transition_def receipts_of_def receipt_view_def audit_insert_def receipt_draft_def
      build_audit_row_def split: option.splits if_splits)

lemma emit_job_transition_total:
  "ad_event_id (receipt_draft fresh now [] after) \<notin> set (map au_event_id rows)
     \<Longrightarrow> is_ok (emit_job_transition fresh now before after rows)"
  by (auto simp: emit_job_transition_def audit_insert_def receipt_draft_def build_audit_row_def
      nonempty_opt_def split: option.splits)

lemma store_op_audit_ids:
  assumes "jobs_ok db" "store_op now fresh t oper db = Inr (r, db')"
  shows "set (map au_event_id (db_audit db')) \<subseteq> insert (''audit-'' @ fresh) (set (map au_event_id (db_audit db)))"
  using assms
  by (auto simp: store_op_unfold emit_job_transition_def audit_insert_def receipt_draft_def build_audit_row_def
      nonempty_opt_def split: if_splits option.splits sum.splits)

definition claim_mutator :: "string \<Rightarrow> datetime \<Rightarrow> long_task \<Rightarrow> long_task" where
  "claim_mutator subject now r =
     r\<lparr>lt_callback_status := CB_DELIVERED, lt_callback_subject := Some subject,
       lt_callback_attempts := lt_callback_attempts r + 1, lt_callback_delivered_at := Some now,
       lt_updated_at := Some now\<rparr>"

lemma claim_mutator_ok: "dt_valid now \<Longrightarrow> jobs.mutator_ok (claim_mutator subject now)"
  by (simp add: jobs.mutator_ok_def claim_mutator_def wf_task_def record_valid_def long_task_dates_def)

lemma claim_unfold:
  assumes "jobs_ok db"
  shows "claim_callback_delivery now t subject db =
     Inr (case job_get t db of
        None \<Rightarrow> (False, db)
      | Some r \<Rightarrow> (if lt_callback_status r \<noteq> CB_PENDING then (False, db)
                  else (True, job_write now t (claim_mutator subject now) db)))"
proof (cases "find_job t db")
  case None
  then show ?thesis by (simp add: claim_callback_delivery_def job_get_def store_get_def)
next
  case (Some row)
  from job_get_found(2) [OF assms Some] obtain r where r: "job_row_to_record row = Inr r" by blast
  have w: "job_write now t (claim_mutator subject now) db
      = set_job t (apply_record_to_job_row now (claim_mutator subject now r) row) db"
    by (simp add: job_write_def Some r)
  show ?thesis
    unfolding w by (simp add: claim_callback_delivery_def job_get_def store_get_def Some r Let_def claim_mutator_def)
qed


section \<open>Histories\<close>

datatype store_event =
    Operate datetime string string long_task_op
  | ClaimCallback datetime string string

fun event_ok :: "store_event \<Rightarrow> bool" where
  "event_ok (Operate now fresh t oper) = (dt_valid now \<and> op_dates_ok oper)"
| "event_ok (ClaimCallback now t subject) = dt_valid now"

text \<open>A history's successful claims, by task, and its last database.\<close>

fun store_history :: "store_event list \<Rightarrow> runtime_db \<Rightarrow> (string list \<times> runtime_db) result" where
  "store_history [] db = Inr ([], db)"
| "store_history (Operate now fresh t oper # evs) db =
     (case store_op now fresh t oper db of
        Inl e \<Rightarrow> Inl e | Inr (r, db') \<Rightarrow> store_history evs db')"
| "store_history (ClaimCallback now t subject # evs) db =
     (case claim_callback_delivery now t subject db of
        Inl e \<Rightarrow> Inl e
      | Inr (won, db') \<Rightarrow>
          (case store_history evs db' of
             Inl e \<Rightarrow> Inl e | Inr (claims, db'') \<Rightarrow> Inr ((if won then [t] else []) @ claims, db'')))"

definition pending_callback :: "string \<Rightarrow> runtime_db \<Rightarrow> nat" where
  "pending_callback t db =
     (case job_get t db of None \<Rightarrow> 0 | Some r \<Rightarrow> if lt_callback_status r = CB_PENDING then 1 else 0)"

lemma store_op_result:
  assumes "jobs_ok db" "store_op now fresh t oper db = Inr (r, db')" "dt_valid now" "op_dates_ok oper"
  shows "jobs_ok db' \<and> pending_callback u db' = pending_callback u db"
proof (cases "job_get t db")
  case None
  with assms(1,2) show ?thesis by (simp add: store_op_unfold)
next
  case (Some r0)
  let ?f = "\<lambda>r. op_mutator oper r now"
  have ok: "jobs.mutator_ok ?f" by (rule op_mutator_ok [OF assms(3,4)])
  from assms(1,2) Some obtain a where db': "db' = (job_write now t ?f db)\<lparr>db_audit := a\<rparr>"
    by (auto simp: store_op_unfold split: sum.splits)
  have "job_get u (job_write now t ?f db) = (if u = t then map_option ?f (job_get t db) else job_get u db)"
    by (rule jobs.get_after_upd [OF assms(1) ok])
  then show ?thesis
    using jobs.upd_keeps_ok [OF assms(1) ok, of now t]
    by (auto simp: db' pending_callback_def split: option.splits)
qed

lemma claim_result:
  assumes "jobs_ok db" "claim_callback_delivery now t subject db = Inr (won, db')" "dt_valid now"
  shows "jobs_ok db' \<and> (if won then 1 else 0) + pending_callback t db' = pending_callback t db
       \<and> (u \<noteq> t \<longrightarrow> pending_callback u db' = pending_callback u db)"
proof -
  have ok: "jobs.mutator_ok (claim_mutator subject now)" by (rule claim_mutator_ok [OF assms(3)])
  have g: "job_get v (job_write now t (claim_mutator subject now) db)
      = (if v = t then map_option (claim_mutator subject now) (job_get t db) else job_get v db)" for v
    by (rule jobs.get_after_upd [OF assms(1) ok])
  have k: "jobs_ok (job_write now t (claim_mutator subject now) db)"
    by (rule jobs.upd_keeps_ok [OF assms(1) ok])
  show ?thesis
    using assms(2) g k assms(1)
    by (auto simp: claim_unfold pending_callback_def claim_mutator_def split: option.splits if_splits)
qed

lemma store_history_claims:
  "jobs_ok db \<Longrightarrow> list_all event_ok evs \<Longrightarrow> store_history evs db = Inr (claims, db')
     \<Longrightarrow> jobs_ok db' \<and> count_list claims u + pending_callback u db' = pending_callback u db"
proof (induction evs db arbitrary: claims rule: store_history.induct)
  case (2 now fresh t oper evs db)
  then obtain r db1 where s: "store_op now fresh t oper db = Inr (r, db1)"
    by (auto split: sum.splits)
  with 2 store_op_result [OF "2.prems"(1) s] show ?case by simp
next
  case (3 now t subject evs db)
  then obtain won db1 where c: "claim_callback_delivery now t subject db = Inr (won, db1)"
    by (auto split: sum.splits)
  with "3.prems" obtain cs where h: "store_history evs db1 = Inr (cs, db')" "claims = (if won then [t] else []) @ cs"
    by (auto split: sum.splits)
  from claim_result [OF "3.prems"(1) c, of u] "3.prems"(2) have d: "jobs_ok db1"
    "(if won then 1 else 0) + pending_callback t db1 = pending_callback t db"
    "u \<noteq> t \<longrightarrow> pending_callback u db1 = pending_callback u db" by simp_all
  from "3.IH" [OF c refl d(1) _ h(1)] "3.prems"(2) h(2) d(2,3) show ?case
    by (cases "u = t") (auto simp: count_list_append)
qed simp


text \<open>
  C37. The row of a task holds the whole task: reading a row back after any write of a record gives
  exactly that record, every one of its fields and timestamps included, offsets too.
\<close>

theorem job_row_roundtrip:
  assumes "wf_task r" "jb_id row = lt_id r"
  shows "job_row_to_record (record_to_job_row now r) = Inr r
       \<and> job_row_to_record (apply_record_to_job_row now r row) = Inr r"
  by (simp add: new_row_reads_back apply_row_reads_back assms)

lemma store_operation_effect_aux:
  assumes "jobs_ok db" "dt_valid now" "op_dates_ok oper" "job_get t db = Some r"
    and "''audit-'' @ fresh \<notin> set (map au_event_id (db_audit db))"
  shows "\<exists>db' new. store_op now fresh t oper db = Inr (Some (op_mutator oper r now), db')
     \<and> jobs_ok db'
     \<and> store_get t db' = Inr (Some (op_mutator oper r now))
     \<and> (\<forall>i. i \<noteq> t \<longrightarrow> store_get i db' = store_get i db)
     \<and> db_audit db' = db_audit db @ new
     \<and> map receipt_view new = receipts_of (lt_status r) (op_mutator oper r now)"
proof -
  let ?f = "\<lambda>r. op_mutator oper r now"
  have ok: "jobs.mutator_ok ?f" by (rule op_mutator_ok [OF assms(2,3)])
  have "is_ok (emit_job_transition fresh (dt_instant now) (lt_status r) (?f r) (db_audit db))"
    using assms(5) by (intro emit_job_transition_total)
      (simp add: receipt_draft_def build_audit_row_def nonempty_opt_def)
  then obtain a where a: "emit_job_transition fresh (dt_instant now) (lt_status r) (?f r) (db_audit db) = Inr a"
    by (auto simp: is_ok_iff)
  then obtain new where new: "a = db_audit db @ new" "map receipt_view new = receipts_of (lt_status r) (?f r)"
    using emit_job_transition_view by blast
  let ?db = "(job_write now t ?f db)\<lparr>db_audit := a\<rparr>"
  have op: "store_op now fresh t oper db = Inr (Some (?f r), ?db)"
    by (simp add: store_op_unfold [OF assms(1)] assms(4) a)
  have k: "jobs_ok ?db" using jobs.upd_keeps_ok [OF assms(1) ok, of now t] by simp
  have g: "job_get i ?db = (if i = t then Some (?f r) else job_get i db)" for i
    using jobs.get_after_upd [OF assms(1) ok, of i now t] assms(4) by simp
  show ?thesis
    using op k new store_get_job_get [OF k] store_get_job_get [OF assms(1)] g
    by (intro exI [of _ ?db] exI [of _ new]) simp
qed

text \<open>
  A store operation on a stored task returns the mutated task and stores exactly it, leaves
  every other task as it was, and appends to the audit outbox one receipt when the task entered
  another terminal status, and nothing otherwise.
\<close>

theorem store_operation_effect:
  assumes "jobs_ok db" "dt_valid now" "op_dates_ok oper" "job_get t db = Some r"
    and "''audit-'' @ fresh \<notin> set (map au_event_id (db_audit db))"
  shows "\<exists>db' new. store_op now fresh t oper db = Inr (Some (op_mutator oper r now), db')
     \<and> jobs_ok db'
     \<and> store_get t db' = Inr (Some (op_mutator oper r now))
     \<and> (\<forall>i. i \<noteq> t \<longrightarrow> store_get i db' = store_get i db)
     \<and> db_audit db' = db_audit db @ new
     \<and> map receipt_view new = receipts_of (lt_status r) (op_mutator oper r now)"
  by (rule store_operation_effect_aux [OF assms])

end
