(* ===== verification/Long_Task_Admin.thy ===== *)
theory Long_Task_Admin
  imports Long_Task_Ops
begin

text \<open>
  The admin routes over long tasks, \<open>app/admin/routers/long_tasks.py\<close>: list, get, cancel and retry.
  A response is \<open>Inl\<close> an HTTP status and detail, or \<open>Inr\<close> the record it shows; an exception of the
  store is a 500. Cancel and retry read the task in one transaction and change it in a later one;
  \<open>between\<close> is what other transactions do to the database in the gap (\<open>id\<close> when there is none).
\<close>

type_synonym 'a http_response = "(nat \<times> string) + 'a"

fun server_error :: "py_error \<Rightarrow> nat \<times> string" where
  "server_error e = (500, exc_message e)"

definition list_long_tasks ::
  "job_query \<Rightarrow> runtime_db \<Rightarrow> (long_task list \<times> datetime option) http_response" where
  "list_long_tasks q db =
     (case list_for_admin q db of
        Inl e \<Rightarrow> Inl (server_error e)
      | Inr tasks \<Rightarrow>
          Inr (tasks, if tasks \<noteq> [] \<and> length tasks = jq_limit q then lt_created_at (last tasks) else None))"

definition get_long_task :: "string \<Rightarrow> runtime_db \<Rightarrow> long_task http_response" where
  "get_long_task t db =
     (case store_get t db of
        Inl e \<Rightarrow> Inl (server_error e)
      | Inr None \<Rightarrow> Inl (404, ''long task not found'')
      | Inr (Some r) \<Rightarrow> Inr r)"

definition cancel_long_task ::
  "datetime \<Rightarrow> string \<Rightarrow> string \<Rightarrow> string \<Rightarrow> (runtime_db \<Rightarrow> runtime_db) \<Rightarrow> runtime_db
     \<Rightarrow> long_task http_response \<times> runtime_db" where
  "cancel_long_task now fresh t owner between db =
     (case store_get t db of
        Inl e \<Rightarrow> (Inl (server_error e), db)
      | Inr None \<Rightarrow> (Inl (404, ''long task not found''), db)
      | Inr (Some current) \<Rightarrow>
          (if lt_owner_id current \<noteq> owner then (Inl (404, ''long task not found''), db)
           else if lt_status current = CANCELLED then (Inr current, db)
           else if lt_status current \<in> set terminal_statuses
           then (Inl (409, ''long task already finished as '' @ long_task_status_value (lt_status current)), db)
           else (let db1 = between db
                 in case store_op now fresh t (MarkFailed ''admin_cancelled'' ''Cancelled by Admin'' None CANCELLED) db1 of
                      Inl e \<Rightarrow> (Inl (server_error e), db1)
                    | Inr (None, db2) \<Rightarrow> (Inl (404, ''long task not found''), db2)
                    | Inr (Some r, db2) \<Rightarrow> (Inr r, db2))))"

text \<open>What handing a task to the worker may do.\<close>

datatype submit_outcome = Submitted | QueueFull | SubmitRaised py_error

definition retry_long_task ::
  "datetime \<Rightarrow> string \<Rightarrow> string \<Rightarrow> string \<Rightarrow> (long_task \<Rightarrow> runtime_db \<Rightarrow> submit_outcome \<times> runtime_db) option
     \<Rightarrow> (runtime_db \<Rightarrow> runtime_db) \<Rightarrow> runtime_db \<Rightarrow> long_task http_response \<times> runtime_db" where
  "retry_long_task now fresh t owner submitter between db =
     (case store_get t db of
        Inl e \<Rightarrow> (Inl (server_error e), db)
      | Inr None \<Rightarrow> (Inl (404, ''long task not found''), db)
      | Inr (Some current) \<Rightarrow>
          (if lt_owner_id current \<noteq> owner then (Inl (404, ''long task not found''), db)
           else if lt_status current \<notin> set retryable_statuses
           then (Inl (409, ''long task cannot be retried from '' @ long_task_status_value (lt_status current)), db)
           else case submitter of
             None \<Rightarrow> (Inl (503, ''this Host has no long-task worker, so a retry would never run''), db)
           | Some submit \<Rightarrow>
               (let db1 = between db
                in case store_op now fresh t RetryFromAdmin db1 of
                     Inl e \<Rightarrow> (Inl (server_error e), db1)
                   | Inr (None, db2) \<Rightarrow> (Inl (404, ''long task not found''), db2)
                   | Inr (Some r, db2) \<Rightarrow>
                       (case submit r db2 of
                          (QueueFull, db3) \<Rightarrow> (Inl (503, ''long-task queue is full; try again shortly''), db3)
                        | (SubmitRaised e, db3) \<Rightarrow> (Inl (server_error e), db3)
                        | (Submitted, db3) \<Rightarrow>
                            (case store_get t db3 of
                               Inl e \<Rightarrow> (Inl (server_error e), db3)
                             | Inr None \<Rightarrow> (Inr r, db3)
                             | Inr (Some refreshed) \<Rightarrow> (Inr refreshed, db3))))))"


section \<open>Properties\<close>

text \<open>
  Cancelling, with no other transaction in the gap: a task of another Owner or an unknown one is
  not found, a task already cancelled is answered as it is, a finished one is refused, all three
  without any change to the database; any other task is stored as cancelled, with exactly one receipt
  and every other task as it was.
\<close>

theorem cancel_outcomes:
  assumes "jobs_ok db" "dt_valid now" "''audit-'' @ fresh \<notin> set (map au_event_id (db_audit db))"
  shows "let (response, db') = cancel_long_task now fresh t owner id db in
     case job_get t db of
       None \<Rightarrow> response = Inl (404, ''long task not found'') \<and> db' = db
     | Some r \<Rightarrow>
         if lt_owner_id r \<noteq> owner then response = Inl (404, ''long task not found'') \<and> db' = db
         else if lt_status r = CANCELLED then response = Inr r \<and> db' = db
         else if lt_status r \<in> {SUCCEEDED, FAILED, TIMED_OUT}
         then (\<exists>m. response = Inl (409, m)) \<and> db' = db
         else \<exists>r'. response = Inr r' \<and> lt_status r' = CANCELLED \<and> lt_error_code r' = Some ''admin_cancelled''
            \<and> store_get t db' = Inr (Some r') \<and> (\<forall>i. i \<noteq> t \<longrightarrow> store_get i db' = store_get i db)
            \<and> (\<exists>receipt. db_audit db' = db_audit db @ [receipt] \<and> receipt_view receipt = (''job.cancelled'', t))"
proof (cases "job_get t db")
  case None
  then show ?thesis by (simp add: cancel_long_task_def store_get_job_get [OF assms(1)])
next
  case (Some r)
  show ?thesis
  proof (cases "lt_owner_id r \<noteq> owner \<or> lt_status r \<in> set terminal_statuses")
    case True
    with Some show ?thesis
      by (auto simp: cancel_long_task_def store_get_job_get [OF assms(1)] terminal_statuses_def)
  next
    case False
    let ?op = "MarkFailed ''admin_cancelled'' ''Cancelled by Admin'' None CANCELLED"
    let ?r = "op_mutator ?op r now"
    from False have live: "lt_status r \<notin> {SUCCEEDED, FAILED, CANCELLED, TIMED_OUT}"
      by (auto simp: terminal_statuses_def)
    have "op_dates_ok ?op" by simp
    from store_operation_effect_aux [OF assms(1,2) this Some assms(3)]
    obtain db' new where op: "store_op now fresh t ?op db = Inr (Some ?r, db')"
      and st: "store_get t db' = Inr (Some ?r)" "\<forall>i. i \<noteq> t \<longrightarrow> store_get i db' = store_get i db"
      and au: "db_audit db' = db_audit db @ new" "map receipt_view new = receipts_of (lt_status r) ?r" by blast
    have f: "lt_status ?r = CANCELLED" "lt_error_code ?r = Some ''admin_cancelled''" "lt_id ?r = lt_id r"
      by (simp_all add: mut_mark_failed_def)
    have "lt_id r = t" using jobs.get_wf [OF assms(1) Some] by simp
    with live f have "receipts_of (lt_status r) ?r = [(''job.cancelled'', t)]" by (auto simp: receipts_of_def)
    with au obtain receipt where "db_audit db' = db_audit db @ [receipt]" "receipt_view receipt = (''job.cancelled'', t)"
      by (auto simp: map_eq_Cons_conv)
    moreover have "cancel_long_task now fresh t owner id db = (Inr ?r, db')"
      using False live op by (simp add: cancel_long_task_def store_get_job_get [OF assms(1)] Some)
    ultimately show ?thesis using False live st f by (auto simp: Some)
  qed
qed

text \<open>
  Retrying: only the Owner's own task, only from a failed, cancelled or timed-out state and only
  where there is a worker to take it; the worker then gets the same task in the accepted state with
  nothing of the previous run's outcome left on it and its attempt count kept. Every refusal leaves the
  database as it was.
\<close>

theorem retry_outcomes:
  assumes "jobs_ok db" "dt_valid now" "job_get t db = Some r"
    and "retry_long_task now fresh t owner submitter id db = (response, db')"
  shows "(lt_owner_id r \<noteq> owner \<or> lt_status r \<notin> {FAILED, CANCELLED, TIMED_OUT} \<or> submitter = None
            \<longrightarrow> (\<exists>code m. response = Inl (code, m) \<and> code \<in> {404, 409, 503}) \<and> db' = db)
     \<and> (\<forall>submit. lt_owner_id r = owner \<and> lt_status r \<in> {FAILED, CANCELLED, TIMED_OUT} \<and> submitter = Some submit
            \<longrightarrow> (\<exists>r' db1. lt_id r' = t \<and> lt_status r' = ACCEPTED \<and> lt_attempt_count r' = lt_attempt_count r
                   \<and> lt_result_text r' = None \<and> lt_result_tts_summary r' = None \<and> lt_result_payload r' = None
                   \<and> lt_artifact_paths r' = [] \<and> lt_progress_events r' = [] \<and> lt_error_code r' = None
                   \<and> lt_error_message r' = None \<and> lt_error_payload r' = None \<and> lt_completed_at r' = None
                   \<and> lt_worker_id r' = None \<and> lt_lease_until r' = None
                   \<and> store_get t db1 = Inr (Some r') \<and> db' = snd (submit r' db1)))"
proof -
  have id: "lt_id r = t" using jobs.get_wf [OF assms(1,3)] by simp
  show ?thesis
  proof (cases "lt_owner_id r \<noteq> owner \<or> lt_status r \<notin> set retryable_statuses \<or> submitter = None")
    case True
    then have "(\<exists>code m. response = Inl (code, m) \<and> code \<in> {404, 409, 503}) \<and> db' = db"
      using assms(3,4)
      by (auto simp: retry_long_task_def store_get_job_get [OF assms(1)] split: if_splits option.splits)
    with True show ?thesis by (auto simp: retryable_statuses_def)
  next
    case False
    then obtain submit where sub: "submitter = Some submit" by auto
    let ?r = "op_mutator RetryFromAdmin r now"
    let ?db1 = "job_write now t (\<lambda>r. op_mutator RetryFromAdmin r now) db"
    have ok: "jobs.mutator_ok (\<lambda>r. op_mutator RetryFromAdmin r now)" by (rule op_mutator_ok [OF assms(2)]) simp
    have "emit_job_transition fresh (dt_instant now) (lt_status r) ?r (db_audit db) = Inr (db_audit db)"
      by (simp add: emit_job_transition_def mut_retry_def)
    then have op: "store_op now fresh t RetryFromAdmin db = Inr (Some ?r, ?db1)"
      by (simp add: store_op_unfold [OF assms(1)] assms(3))
    have get: "store_get t ?db1 = Inr (Some ?r)"
      using store_get_job_get [OF jobs.upd_keeps_ok [OF assms(1) ok, of now t], of t]
        jobs.get_after_upd [OF assms(1) ok, of t now t] assms(3) by simp
    have "db' = snd (submit ?r ?db1)"
      using assms(3,4) False op
      by (auto simp: retry_long_task_def store_get_job_get [OF assms(1)] sub
          split: prod.splits submit_outcome.splits sum.splits option.splits)
    then show ?thesis
      using False sub get id by (auto simp: retryable_statuses_def mut_retry_def intro!: exI [of _ ?r] exI [of _ ?db1])
  qed
qed


section \<open>The gap between the check and the change\<close>

text \<open>
  The routes promise that a finished task is never overwritten by a cancel. They check in one
  transaction and write in another, and the write does not check again: when the worker completes the
  task in the gap, the record ends up cancelled and holding a result, with two receipts.
\<close>

definition complete_in_gap :: "datetime \<Rightarrow> string \<Rightarrow> string \<Rightarrow> string \<Rightarrow> runtime_db \<Rightarrow> runtime_db" where
  "complete_in_gap now fresh t text db =
     (case store_op now fresh t (Complete (Some text) None None) db of Inl e \<Rightarrow> db | Inr (r, db') \<Rightarrow> db')"

lemma cancel_overwrites_completion:
  assumes "jobs_ok db" "dt_valid now" "job_get t db = Some r" "lt_owner_id r = owner"
    and "lt_status r \<in> {ACCEPTED, CREATED, QUEUED, SUBMITTED, RUNNING}"
    and "''audit-'' @ u \<notin> set (map au_event_id (db_audit db))"
    and "''audit-'' @ v \<notin> insert (''audit-'' @ u) (set (map au_event_id (db_audit db)))"
  shows "\<exists>r' db'. cancel_long_task now v t owner (complete_in_gap now u t text) db = (Inr r', db')
     \<and> lt_status r' = CANCELLED \<and> lt_result_text r' = Some text"
proof -
  let ?c = "Complete (Some text) None None" and ?x = "MarkFailed ''admin_cancelled'' ''Cancelled by Admin'' None CANCELLED"
  let ?r1 = "op_mutator ?c r now"
  have dates: "op_dates_ok ?c" "op_dates_ok ?x" by simp_all
  from store_operation_effect_aux [OF assms(1,2) dates(1) assms(3,6)]
  obtain db1 new where op: "store_op now u t ?c db = Inr (Some ?r1, db1)" and ok: "jobs_ok db1"
    and st: "store_get t db1 = Inr (Some ?r1)" and au: "db_audit db1 = db_audit db @ new"
      "map receipt_view new = receipts_of (lt_status r) ?r1" by blast
  have g1: "job_get t db1 = Some ?r1" using st by (simp add: job_get_def)
  from op have ev: "set (map au_event_id (db_audit db1)) \<subseteq> insert (''audit-'' @ u) (set (map au_event_id (db_audit db)))"
    by (rule store_op_audit_ids [OF assms(1)])
  with assms(7) have "''audit-'' @ v \<notin> set (map au_event_id (db_audit db1))" by blast
  from store_operation_effect_aux [OF ok assms(2) dates(2) g1 this]
  obtain db2 where op2: "store_op now v t ?x db1 = Inr (Some (op_mutator ?x ?r1 now), db2)" by blast
  have gap: "complete_in_gap now u t text db = db1" by (simp add: complete_in_gap_def op del: op_mutator.simps)
  have "cancel_long_task now v t owner (complete_in_gap now u t text) db = (Inr (op_mutator ?x ?r1 now), db2)"
    using assms(4,5) op2
    by (auto simp: cancel_long_task_def store_get_job_get [OF assms(1)] assms(3) gap terminal_statuses_def
        simp del: op_mutator.simps)
  moreover have "lt_status (op_mutator ?x ?r1 now) = CANCELLED" "lt_result_text (op_mutator ?x ?r1 now) = Some text"
    by (simp_all add: mutator_defs)
  ultimately show ?thesis by blast
qed

text \<open>
  No operation of the store checks for a terminal status: a task that was cancelled is queued, run and
  completed all the same when the worker still holds its record.
\<close>

lemma cancelled_task_completes:
  assumes "lt_status r = CANCELLED" "lt_error_code r = Some ''admin_cancelled''"
  shows "let r' = op_mutator (Complete (Some text) None None)
             (op_mutator (MarkQueued w None) r now) now
         in lt_status r' = SUCCEEDED \<and> lt_error_code r' = Some ''admin_cancelled''"
  using assms by (simp add: mutator_defs)


section \<open>A concrete task\<close>

definition demo_task :: long_task where
  "demo_task = (build_record RUNNING CB_PENDING [])\<lparr>lt_id := ''j1'', lt_owner_id := ''o1'',
     lt_created_at := Some demo_time, lt_updated_at := Some demo_time\<rparr>"

definition failed_task :: long_task where
  "failed_task = demo_task\<lparr>lt_status := FAILED, lt_result_text := Some ''partial'', lt_attempt_count := 2\<rparr>"

definition jobs_db :: "long_task \<Rightarrow> runtime_db" where
  "jobs_db r = empty_db\<lparr>db_jobs := [record_to_job_row demo_time r]\<rparr>"

lemma build_record_empty_dates:
  "long_task_dates (build_record st cb []) = [None, None, None, None, None, None, None, None, None, None]"
  by (simp add: long_task_dates_def build_record_def get_dt_def dict_get_def dt_of_json_def)

lemma demo_time_valid: "dt_valid demo_time"
  by (simp add: demo_time_def dt_valid_def)

lemma demo_task_wf: "wf_task demo_task" "wf_task failed_task"
  using build_record_empty_dates [of RUNNING CB_PENDING]
  by (simp_all add: wf_task_def demo_task_def failed_task_def record_valid_def long_task_dates_def demo_time_valid)

lemma jobs_db_ok:
  assumes "wf_task r"
  shows "jobs_ok (jobs_db r)" "job_get (lt_id r) (jobs_db r) = Some r"
proof -
  have row: "job_row_to_record (record_to_job_row demo_time r) = Inr r" by (rule new_row_reads_back [OF assms])
  have id: "jb_id (record_to_job_row demo_time r) = lt_id r" by (simp add: record_to_job_row_def)
  show "jobs_ok (jobs_db r)" by (simp add: jobs_ok_def jobs_db_def empty_db_def job_row_ok_def row assms id)
  show "job_get (lt_id r) (jobs_db r) = Some r"
    by (simp add: job_get_def store_get_def find_job_def jobs_db_def empty_db_def row id)
qed

lemma demo_ids: "lt_id demo_task = ''j1''" "lt_id failed_task = ''j1''" "lt_owner_id demo_task = ''o1''"
  "lt_owner_id failed_task = ''o1''" "lt_status demo_task = RUNNING" "lt_status failed_task = FAILED"
  "lt_callback_status demo_task = CB_PENDING"
  by (simp_all add: demo_task_def failed_task_def build_record_def)

lemmas demo_jobs = jobs_db_ok [OF demo_task_wf(1), unfolded demo_ids] jobs_db_ok [OF demo_task_wf(2), unfolded demo_ids]


theorem job_row_roundtrip_witness:
  "job_row_to_record (record_to_job_row demo_time failed_task) = Inr failed_task"
  using job_row_roundtrip [OF demo_task_wf(2), of "record_to_job_row demo_time failed_task" demo_time]
  by (simp add: record_to_job_row_def)

theorem store_operation_effect_witness:
  "\<exists>db' new. store_op demo_time ''u'' ''j1'' (Complete (Some ''done'') None None) (jobs_db demo_task)
       = Inr (Some (op_mutator (Complete (Some ''done'') None None) demo_task demo_time), db')
     \<and> map receipt_view new = [(''job.succeeded'', ''j1'')] \<and> db_audit db' = new"
proof -
  have d: "op_dates_ok (Complete (Some ''done'') None None)" by simp
  have f: "''audit-'' @ ''u'' \<notin> set (map au_event_id (db_audit (jobs_db demo_task)))"
    by (simp add: jobs_db_def empty_db_def)
  have e: "db_audit (jobs_db demo_task) = []" by (simp add: jobs_db_def empty_db_def)
  have v: "receipts_of RUNNING (op_mutator (Complete (Some ''done'') None None) demo_task demo_time)
      = [(''job.succeeded'', ''j1'')]"
    by (simp add: receipts_of_def mut_complete_def demo_ids)
  from store_operation_effect [OF demo_jobs(1) demo_time_valid d demo_jobs(2) f] show ?thesis
    unfolding e demo_ids v by auto
qed

theorem cancel_outcomes_witness:
  "\<exists>r'. fst (cancel_long_task demo_time ''u'' ''j1'' ''o1'' id (jobs_db demo_task)) = Inr r' \<and> lt_status r' = CANCELLED"
proof -
  have f: "''audit-'' @ ''u'' \<notin> set (map au_event_id (db_audit (jobs_db demo_task)))"
    by (simp add: jobs_db_def empty_db_def)
  from cancel_outcomes [OF demo_jobs(1) demo_time_valid f, of "''j1''" "''o1''"] show ?thesis
    by (auto simp: demo_jobs(2) demo_ids case_prod_beta Let_def)
qed

definition accepting_worker :: "long_task \<Rightarrow> runtime_db \<Rightarrow> submit_outcome \<times> runtime_db" where
  "accepting_worker r db = (Submitted, db)"

theorem retry_outcomes_witness:
  "\<exists>r'. lt_status r' = ACCEPTED \<and> lt_attempt_count r' = 2 \<and> lt_result_text r' = None
     \<and> store_get ''j1'' (snd (retry_long_task demo_time ''u'' ''j1'' ''o1'' (Some accepting_worker) id (jobs_db failed_task)))
       = Inr (Some r')"
proof -
  obtain response db' where run:
    "retry_long_task demo_time ''u'' ''j1'' ''o1'' (Some accepting_worker) id (jobs_db failed_task) = (response, db')"
    by fastforce
  have a: "lt_attempt_count failed_task = 2" by (simp add: failed_task_def)
  from retry_outcomes [OF demo_jobs(3) demo_time_valid demo_jobs(4) run] show ?thesis
    by (auto simp: demo_ids a run accepting_worker_def)
qed

end
