(* ===== verification/Mementos_Worker.thy ===== *)
theory Mementos_Worker
  imports Long_Task_Admin Py_Text
begin

text \<open>
  The in-process long-task worker of \<open>infra/long_tasks/mementos.py\<close>. Its world is the database, the
  state of the Mementos service behind the HTTP client, the queue, what it has published, and a count
  of the clock readings taken so far. The HTTP client, the clock, the UUIDs, the summarizer and the
  persona voice are parameters, collected in \<open>worker_env\<close>; an exception is an \<open>Inl\<close>.
\<close>

section \<open>Helpers\<close>

definition terminal_success :: "string list" where
  "terminal_success = [''RUN_END'', ''RUN_FINISHED'']"

definition terminal_failure :: "string list" where
  "terminal_failure = [''RUN_FAILED'', ''RUN_CANCELLED'', ''ERROR'']"

text \<open>\<open>_device_id_from_conversation_id\<close>.\<close>

definition device_id_from_conversation_id :: "string option \<Rightarrow> string option" where
  "device_id_from_conversation_id conversation_id =
     (case conversation_id of
        None \<Rightarrow> None
      | Some c \<Rightarrow>
          (if c = [] then None
           else (let parts = py_split (CHR '':'') c
                 in if length parts < 3 then None
                    else (let d = py_strip (py_join '':'' (butlast (tl parts)))
                          in if d = [] then None else Some d))))"

text \<open>\<open>_prompt_for_record\<close>, with its two captions.\<close>

definition expected_caption :: utext where
  "expected_caption = [10, 26399, 26395, 36755, 20986, 65306]"

definition context_caption :: utext where
  "context_caption = [10, 19978, 19979, 25991, 25688, 35201, 65306]"

definition prompt_for_record :: "long_task \<Rightarrow> utext" where
  "prompt_for_record r =
     utext_of (lt_task r)
     @ (if lt_expected_output r = [] then [] else expected_caption @ utext_of (lt_expected_output r))
     @ (if lt_context_summary r = [] then [] else context_caption @ utext_of (lt_context_summary r))"

text \<open>\<open>_int_or_none\<close>: \<open>int(value)\<close> on a JSON value, where it succeeds.\<close>

fun digits_value :: "nat \<Rightarrow> bool \<Rightarrow> string \<Rightarrow> nat option" where
  "digits_value acc after_digit [] = (if after_digit then Some acc else None)"
| "digits_value acc after_digit (c # cs) =
     (if c = CHR ''_'' then (if after_digit then digits_value acc False cs else None)
      else (case digit_val c of None \<Rightarrow> None | Some d \<Rightarrow> digits_value (acc * 10 + d) True cs))"

definition int_of_text :: "string \<Rightarrow> int option" where
  "int_of_text s =
     (let t = py_strip s
      in case t of
           [] \<Rightarrow> None
         | c # cs \<Rightarrow>
             (if c = CHR ''-'' then map_option (\<lambda>n. - int n) (digits_value 0 False cs)
              else if c = CHR ''+'' then map_option int (digits_value 0 False cs)
              else map_option int (digits_value 0 False t)))"

fun int_or_none :: "json \<Rightarrow> int option" where
  "int_or_none (JInt i) = Some i"
| "int_or_none (JBool b) = Some (if b then 1 else 0)"
| "int_or_none (JFloat q) = Some (if q < 0 then - \<lfloor>- q\<rfloor> else \<lfloor>q\<rfloor>)"
| "int_or_none (JStr s) = int_of_text s"
| "int_or_none _ = None"

definition latest_seq :: "json_dict list \<Rightarrow> int option" where
  "latest_seq events =
     (let present = List.map_filter (\<lambda>x. x)
            (map (\<lambda>e. int_or_none (dict_get e ''_sse_id'')) events @ map (\<lambda>e. int_or_none (dict_get e ''seq'')) events)
      in if present = [] then None else Some (Max (set present)))"

text \<open>\<open>str(value)\<close>; what it gives for a list or a dict is the parameter \<open>py_repr\<close>.\<close>

definition json_str :: "(json \<Rightarrow> string) \<Rightarrow> json \<Rightarrow> string" where
  "json_str py_repr j = (case j of JStr s \<Rightarrow> s | JInt i \<Rightarrow> int_str i | _ \<Rightarrow> py_repr j)"

definition event_type_of :: "(json \<Rightarrow> string) \<Rightarrow> json_dict \<Rightarrow> string" where
  "event_type_of py_repr e =
     json_str py_repr (py_or (py_or (dict_get e ''event_type'') (dict_get e ''type'')) (JStr []))"

definition is_terminal_event :: "(json \<Rightarrow> string) \<Rightarrow> json_dict \<Rightarrow> bool" where
  "is_terminal_event py_repr e =
     (event_type_of py_repr e \<in> set terminal_success \<or> event_type_of py_repr e \<in> set terminal_failure)"

definition terminal_event :: "(json \<Rightarrow> string) \<Rightarrow> json_dict list \<Rightarrow> json_dict option" where
  "terminal_event py_repr events = List.find (is_terminal_event py_repr) (rev events)"


section \<open>The world\<close>

record 'w worker_env =
  we_clock :: "nat \<Rightarrow> datetime"
  we_uuid :: "nat \<Rightarrow> string"
  we_repr :: "json \<Rightarrow> string"
  we_worker_id :: string
  we_queue_size :: nat
  we_lease :: "datetime \<Rightarrow> datetime"
  we_task_timeout :: int
  we_create_session :: "string \<Rightarrow> 'w \<Rightarrow> json_dict result \<times> 'w"
  we_post_message :: "string \<Rightarrow> utext \<Rightarrow> 'w \<Rightarrow> json_dict result \<times> 'w"
  we_get_messages :: "string \<Rightarrow> 'w \<Rightarrow> json_dict result \<times> 'w"
  we_summarize :: "(long_task \<Rightarrow> string \<Rightarrow> string option result) option"
  we_persona :: "(long_task \<Rightarrow> utext \<Rightarrow> (utext \<times> string \<times> string) result) option"
  we_bus :: bool

record proactive_report =
  pr_subject :: string
  pr_instance_id :: string
  pr_device_id :: "string option"
  pr_intent :: string
  pr_text :: utext
  pr_style_hint :: string
  pr_trace_id :: "string option"
  pr_source :: string

record 'w world =
  wd_db :: runtime_db
  wd_client :: 'w
  wd_queue :: "long_task list"
  wd_reports :: "proactive_report list"
  wd_tick :: nat

text \<open>One store operation, at the next clock reading.\<close>

definition run_op :: "'w worker_env \<Rightarrow> string \<Rightarrow> long_task_op \<Rightarrow> 'w world \<Rightarrow> unit result \<times> 'w world" where
  "run_op env t oper w =
     (case store_op (we_clock env (wd_tick w)) (we_uuid env (wd_tick w)) t oper (wd_db w) of
        Inl e \<Rightarrow> (Inl e, w\<lparr>wd_tick := wd_tick w + 1\<rparr>)
      | Inr (r, db') \<Rightarrow> (Inr (), w\<lparr>wd_db := db', wd_tick := wd_tick w + 1\<rparr>))"


section \<open>Submitting\<close>

definition worker_submit :: "'w worker_env \<Rightarrow> long_task \<Rightarrow> 'w world \<Rightarrow> submit_outcome \<times> 'w world" where
  "worker_submit env r w =
     (let w1 = w\<lparr>wd_db := store_accept (we_clock env (wd_tick w)) r (wd_db w), wd_tick := wd_tick w + 1\<rparr>
      in if we_queue_size env = 0 \<or> length (wd_queue w1) < we_queue_size env
         then (Submitted, w1\<lparr>wd_queue := wd_queue w1 @ [r]\<rparr>)
         else (case run_op env (lt_id r)
                  (MarkFailed ''queue_full'' ''local long-task queue is full'' None FAILED) w1 of
                 (Inl e, w2) \<Rightarrow> (SubmitRaised e, w2)
               | (Inr u, w2) \<Rightarrow> (QueueFull, w2)))"


section \<open>Announcing a result\<close>

definition fallback_line :: utext where
  "fallback_line = [25105, 25226, 21018, 25165, 20132, 20195, 30340, 37027, 20214, 20107, 22788, 29702, 22909,
     20102, 65292, 32454, 33410, 20320, 21487, 20197, 38543, 26102, 38382, 25105, 12290]"

text \<open>\<open>_summarize_result_for_tts\<close>.\<close>

definition summarize_for_tts ::
  "'w worker_env \<Rightarrow> long_task \<Rightarrow> string \<Rightarrow> 'w world \<Rightarrow> string option result \<times> 'w world" where
  "summarize_for_tts env r text w =
     (case we_summarize env of
        None \<Rightarrow> (Inr None, w)
      | Some summarize \<Rightarrow>
          (if py_strip text = [] then (Inr None, w)
           else case summarize r text of
                  Inl e \<Rightarrow> (Inr None, w)
                | Inr s \<Rightarrow>
                    (if nonempty_opt s
                     then (case run_op env (lt_id r) (SetResultTtsSummary (the s)) w of
                             (Inl e, w1) \<Rightarrow> (Inl e, w1)
                           | (Inr u, w1) \<Rightarrow> (Inr s, w1))
                     else (Inr None, w))))"

definition proactive_subject :: "string \<Rightarrow> string" where
  "proactive_subject instance_id = ''agent.proactive.triggered.'' @ instance_id"

text \<open>\<open>_publish_proactive_report\<close>. Publishing is recorded; a bus that raises is logged and passed over.\<close>

definition publish_proactive_report ::
  "'w worker_env \<Rightarrow> long_task \<Rightarrow> string option \<Rightarrow> 'w world \<Rightarrow> unit result \<times> 'w world" where
  "publish_proactive_report env r summary w =
     (if \<not> we_bus env \<or> lt_companion_id r = [] then (Inr (), w)
      else case (case we_persona env of
             Some decide \<Rightarrow>
               (case decide r (case summary of None \<Rightarrow> [] | Some s \<Rightarrow> utext_of s) of
                  Inl e \<Rightarrow> Inl e
                | Inr (text, intent, style) \<Rightarrow> Inr (ustrip text, intent, style))
           | None \<Rightarrow> Inr (ustrip (if nonempty_opt summary then utext_of (the summary) else fallback_line),
                          ''long_task_done'', ''report'')) of
        Inl e \<Rightarrow> (Inl e, w)
      | Inr (text, intent, style) \<Rightarrow>
          (if text = [] then (Inr (), w)
           else (let subject = proactive_subject (lt_companion_id r);
                     w1 = w\<lparr>wd_tick := wd_tick w + 1\<rparr>
                 in case claim_callback_delivery (we_clock env (wd_tick w)) (lt_id r) subject (wd_db w) of
                      Inl e \<Rightarrow> (Inr (), w1)
                    | Inr (False, db') \<Rightarrow> (Inr (), w1\<lparr>wd_db := db'\<rparr>)
                    | Inr (True, db') \<Rightarrow>
                        (Inr (), w1\<lparr>wd_db := db', wd_reports := wd_reports w1 @
                           [\<lparr>pr_subject = subject, pr_instance_id = lt_companion_id r,
                             pr_device_id = (if nonempty_opt (lt_device_id r) then lt_device_id r
                                             else device_id_from_conversation_id (lt_conversation_id r)),
                             pr_intent = intent, pr_text = text, pr_style_hint = style,
                             pr_trace_id = lt_trace_id r, pr_source = ''mementos-long-task-worker''\<rparr>]\<rparr>))))"


section \<open>Running a task\<close>

text \<open>What the loop does once a terminal event is found.\<close>

definition finish_task ::
  "'w worker_env \<Rightarrow> long_task \<Rightarrow> json_dict \<Rightarrow> 'w world \<Rightarrow> unit result \<times> 'w world" where
  "finish_task env r terminal w =
     (let event_type = event_type_of (we_repr env) terminal;
          payload = as_dict (dict_get terminal ''payload'');
          content = json_str (we_repr env) (py_or (dict_get payload ''content'') (JStr []))
      in if event_type \<in> set terminal_success
         then (case run_op env (lt_id r) (Complete (Some content) (Some terminal) None) w of
                 (Inl e, w1) \<Rightarrow> (Inl e, w1)
               | (Inr u, w1) \<Rightarrow>
                   (case summarize_for_tts env r content w1 of
                      (Inl e, w2) \<Rightarrow> (Inl e, w2)
                    | (Inr summary, w2) \<Rightarrow> publish_proactive_report env r summary w2))
         else run_op env (lt_id r)
                (MarkFailed ''mementos_run_failed'' (if content = [] then event_type else content) (Some terminal) FAILED) w)"

text \<open>
  \<open>_poll_until_done\<close>. The list holds the event loop's clock readings, one per test of the loop
  condition; \<open>None\<close> means the task is still running after the last of them.
\<close>

fun poll_until_done ::
  "'w worker_env \<Rightarrow> long_task \<Rightarrow> string \<Rightarrow> int \<Rightarrow> int list \<Rightarrow> int option \<Rightarrow> 'w world
     \<Rightarrow> (unit result \<times> 'w world) option" where
  "poll_until_done env r session deadline [] last_seq w = None"
| "poll_until_done env r session deadline (t # readings) last_seq w =
     (if \<not> t < deadline
      then Some (run_op env (lt_id r) (MarkFailed ''mementos_timeout'' ''mementos task timed out'' None TIMED_OUT) w)
      else case we_get_messages env session (wd_client w) of
        (Inl e, c) \<Rightarrow> Some (Inl e, w\<lparr>wd_client := c\<rparr>)
      | (Inr messages, c) \<Rightarrow>
          (let w1 = w\<lparr>wd_client := c\<rparr>;
               events = (case dict_get messages ''messages'' of JList es \<Rightarrow> map as_dict es | _ \<Rightarrow> []);
               seq = opt_or (latest_seq events) last_seq
           in case terminal_event (we_repr env) events of
                Some terminal \<Rightarrow> Some (finish_task env r terminal w1)
              | None \<Rightarrow>
                  (case run_op env (lt_id r) (TouchPoll seq (Some ''running'')) w1 of
                     (Inl e, w2) \<Rightarrow> Some (Inl e, w2)
                   | (Inr u, w2) \<Rightarrow> poll_until_done env r session deadline readings seq w2)))"

text \<open>The part of \<open>_handle\<close> under \<open>try\<close>, up to the poll.\<close>

definition open_session :: "'w worker_env \<Rightarrow> long_task \<Rightarrow> 'w world \<Rightarrow> string result \<times> 'w world" where
  "open_session env r w =
     (case find_mementos_session_id (lt_session_key r) (wd_db w) of
        Inl e \<Rightarrow> (Inl e, w)
      | Inr (Some s) \<Rightarrow> (if s = [] then (Inl (RuntimeError ''mementos session id missing''), w) else (Inr s, w))
      | Inr None \<Rightarrow>
          (case we_create_session env (lt_session_key r) (wd_client w) of
             (Inl e, c) \<Rightarrow> (Inl e, w\<lparr>wd_client := c\<rparr>)
           | (Inr answer, c) \<Rightarrow>
               (let s = json_str (we_repr env)
                      (py_or (dict_get (as_dict (dict_get answer ''session'')) ''id'') (JStr []))
                in if s = [] then (Inl (RuntimeError ''mementos session id missing''), w\<lparr>wd_client := c\<rparr>)
                   else (Inr s, w\<lparr>wd_client := c\<rparr>))))"

definition try_run ::
  "'w worker_env \<Rightarrow> int \<Rightarrow> int list \<Rightarrow> long_task \<Rightarrow> 'w world \<Rightarrow> (unit result \<times> 'w world) option" where
  "try_run env start readings r w =
     (case open_session env r w of
        (Inl e, w1) \<Rightarrow> Some (Inl e, w1)
      | (Inr session, w1) \<Rightarrow>
          (case we_post_message env session (prompt_for_record r) (wd_client w1) of
             (Inl e, c) \<Rightarrow> Some (Inl e, w1\<lparr>wd_client := c\<rparr>)
           | (Inr answer, c) \<Rightarrow>
               (let conversation = json_str (we_repr env) (py_or (dict_get answer ''conversation_id'') (JStr []));
                    cid = (if conversation = [] then None else Some conversation);
                    seq = int_or_none (dict_get answer ''latest_seq'')
                in case run_op env (lt_id r) (AttachMementosRun (Some session) cid cid seq None (Some ''running''))
                          (w1\<lparr>wd_client := c\<rparr>) of
                     (Inl e, w2) \<Rightarrow> Some (Inl e, w2)
                   | (Inr u, w2) \<Rightarrow> poll_until_done env r session (start + we_task_timeout env) readings None w2)))"

definition handle_task ::
  "'w worker_env \<Rightarrow> int \<Rightarrow> int list \<Rightarrow> long_task \<Rightarrow> 'w world \<Rightarrow> (unit result \<times> 'w world) option" where
  "handle_task env start readings r w =
     (let lease = we_lease env (we_clock env (wd_tick w))
      in case run_op env (lt_id r) (MarkQueued (we_worker_id env) (Some lease)) w of
           (Inl e, w1) \<Rightarrow> Some (Inl e, w1)
         | (Inr u, w1) \<Rightarrow>
             (case try_run env start readings r w1 of
                None \<Rightarrow> None
              | Some (Inr u, w2) \<Rightarrow> Some (Inr (), w2)
              | Some (Inl e, w2) \<Rightarrow>
                  Some (run_op env (lt_id r)
                    (MarkFailed ''mementos_worker_error'' (exc_message e)
                       (Some [(''exception_type'', JStr (exc_type_name e))]) FAILED) w2)))"

text \<open>\<open>drain_once\<close>: whether there was a task, and what handling it did.\<close>

definition drain_once ::
  "'w worker_env \<Rightarrow> int \<Rightarrow> int list \<Rightarrow> 'w world \<Rightarrow> (bool result \<times> 'w world) option" where
  "drain_once env start readings w =
     (case wd_queue w of
        [] \<Rightarrow> Some (Inr False, w)
      | r # rest \<Rightarrow>
          (case handle_task env start readings r (w\<lparr>wd_queue := rest\<rparr>) of
             None \<Rightarrow> None
           | Some (Inl e, w1) \<Rightarrow> Some (Inl e, w1)
           | Some (Inr u, w1) \<Rightarrow> Some (Inr True, w1)))"


section \<open>What a run does to the tasks\<close>

definition env_ok :: "'w worker_env \<Rightarrow> bool" where
  "env_ok env \<longleftrightarrow> (\<forall>n. dt_valid (we_clock env n)) \<and> inj (we_uuid env)
     \<and> (\<forall>d. dt_valid d \<longrightarrow> dt_valid (we_lease env d))"

definition world_ok :: "'w worker_env \<Rightarrow> 'w world \<Rightarrow> bool" where
  "world_ok env w \<longleftrightarrow> jobs_ok (wd_db w)
     \<and> (\<forall>n \<ge> wd_tick w. ''audit-'' @ we_uuid env n \<notin> set (map au_event_id (db_audit (wd_db w))))"

text \<open>
  The worker changed nothing but the task \<open>t\<close>, which is still there; \<open>P\<close> holds of its status.
\<close>

definition only_touched ::
  "'w worker_env \<Rightarrow> string \<Rightarrow> (long_task_status \<Rightarrow> bool) \<Rightarrow> 'w world \<Rightarrow> 'w world \<Rightarrow> bool" where
  "only_touched env t P w w' \<longleftrightarrow> world_ok env w'
     \<and> (\<forall>i. i \<noteq> t \<longrightarrow> job_get i (wd_db w') = job_get i (wd_db w))
     \<and> (\<exists>r. job_get t (wd_db w') = Some r \<and> P (lt_status r))"

lemma only_touched_trans:
  "only_touched env t P w w' \<Longrightarrow> only_touched env t Q w' w'' \<Longrightarrow> only_touched env t Q w w''"
  by (auto simp: only_touched_def)

lemma only_touched_weaken: "only_touched env t P w w' \<Longrightarrow> (\<And>s. P s \<Longrightarrow> Q s) \<Longrightarrow> only_touched env t Q w w'"
  by (auto simp: only_touched_def)

lemma run_op_touches:
  assumes "env_ok env" "world_ok env w" "op_dates_ok oper" "job_get t (wd_db w) = Some r"
  shows "\<exists>w'. run_op env t oper w = (Inr (), w')
     \<and> only_touched env t (\<lambda>s. s = lt_status (op_mutator oper r (we_clock env (wd_tick w)))) w w'
     \<and> job_get t (wd_db w') = Some (op_mutator oper r (we_clock env (wd_tick w)))"
proof -
  let ?now = "we_clock env (wd_tick w)" and ?u = "we_uuid env (wd_tick w)"
  have ok: "jobs_ok (wd_db w)" and fresh: "''audit-'' @ ?u \<notin> set (map au_event_id (db_audit (wd_db w)))"
    and v: "dt_valid ?now"
    using assms(1,2) by (auto simp: world_ok_def env_ok_def)
  from store_operation_effect_aux [OF ok v assms(3,4) fresh]
  obtain db' new where op: "store_op ?now ?u t oper (wd_db w) = Inr (Some (op_mutator oper r ?now), db')"
    and ok': "jobs_ok db'" and get: "store_get t db' = Inr (Some (op_mutator oper r ?now))"
    and others: "\<forall>i. i \<noteq> t \<longrightarrow> store_get i db' = store_get i (wd_db w)" by blast
  have "''audit-'' @ we_uuid env n \<notin> set (map au_event_id (db_audit db'))" if "n \<ge> wd_tick w + 1" for n
  proof -
    have "inj (we_uuid env)" using assms(1) by (simp add: env_ok_def)
    with that have "we_uuid env n \<noteq> ?u" by (auto dest!: injD)
    moreover have "''audit-'' @ we_uuid env n \<notin> set (map au_event_id (db_audit (wd_db w)))"
      using assms(2) that by (simp add: world_ok_def)
    ultimately show ?thesis using store_op_audit_ids [OF ok op] by auto
  qed
  with ok' have "world_ok env (w\<lparr>wd_db := db', wd_tick := wd_tick w + 1\<rparr>)" by (simp add: world_ok_def)
  then show ?thesis using op get others by (simp add: run_op_def only_touched_def job_get_def)
qed

lemma claim_touches:
  assumes "env_ok env" "world_ok env w" "job_get t (wd_db w) = Some r"
  shows "\<exists>won db'. claim_callback_delivery (we_clock env (wd_tick w)) t subject (wd_db w) = Inr (won, db')
     \<and> only_touched env t (\<lambda>s. s = lt_status r) w (w\<lparr>wd_db := db', wd_tick := wd_tick w + 1\<rparr>)"
proof -
  let ?now = "we_clock env (wd_tick w)"
  have ok: "jobs_ok (wd_db w)" and v: "dt_valid ?now" using assms(1,2) by (auto simp: world_ok_def env_ok_def)
  have m: "jobs.mutator_ok (claim_mutator subject ?now)" by (rule claim_mutator_ok [OF v])
  have g: "job_get j (job_write ?now t (claim_mutator subject ?now) (wd_db w))
      = (if j = t then map_option (claim_mutator subject ?now) (job_get t (wd_db w)) else job_get j (wd_db w))" for j
    by (rule jobs.get_after_upd [OF ok m])
  have k: "jobs_ok (job_write ?now t (claim_mutator subject ?now) (wd_db w))" by (rule jobs.upd_keeps_ok [OF ok m])
  show ?thesis
    using assms(2,3) g k
    by (auto simp: claim_unfold [OF ok] only_touched_def world_ok_def claim_mutator_def)
qed

lemma only_touched_reports:
  "only_touched env t P w (w'\<lparr>wd_reports := x\<rparr>) = only_touched env t P w w'"
  by (simp add: only_touched_def world_ok_def)

lemma only_touched_refl:
  "world_ok env w \<Longrightarrow> job_get t (wd_db w) = Some r \<Longrightarrow> P (lt_status r) \<Longrightarrow> only_touched env t P w w"
  by (simp add: only_touched_def)

lemma only_touchedE:
  assumes "only_touched env t P w w'"
  obtains r where "world_ok env w'" "job_get t (wd_db w') = Some r" "P (lt_status r)"
  using assms by (auto simp: only_touched_def)

lemma publish_touches:
  assumes "env_ok env" "world_ok env w" "job_get (lt_id r) (wd_db w) = Some q"
    and "publish_proactive_report env r summary w = (res, w')"
  shows "only_touched env (lt_id r) (\<lambda>s. s = lt_status q) w w'"
proof -
  have stay: "only_touched env (lt_id r) (\<lambda>s. s = lt_status q) w w" by (rule only_touched_refl [OF assms(2,3) refl])
  obtain won db' where c: "claim_callback_delivery (we_clock env (wd_tick w)) (lt_id r)
        (proactive_subject (lt_companion_id r)) (wd_db w) = Inr (won, db')"
    and t: "only_touched env (lt_id r) (\<lambda>s. s = lt_status q) w (w\<lparr>wd_db := db', wd_tick := wd_tick w + 1\<rparr>)"
    using claim_touches [OF assms(1-3)] by blast
  from t have t1: "only_touched env (lt_id r) (\<lambda>s. s = lt_status q) w (w\<lparr>wd_tick := wd_tick w + 1, wd_db := db'\<rparr>)"
    and t2: "only_touched env (lt_id r) (\<lambda>s. s = lt_status q) w (w\<lparr>wd_tick := wd_tick w + 1, wd_db := db', wd_reports := x\<rparr>)" for x
    by (simp_all add: only_touched_def world_ok_def)
  show ?thesis
    using assms(4) stay t1 t2 c
    by (auto simp: publish_proactive_report_def Let_def split: if_splits sum.splits option.splits bool.splits prod.splits)
qed

lemma summarize_touches:
  assumes "env_ok env" "world_ok env w" "job_get (lt_id r) (wd_db w) = Some q"
    and "summarize_for_tts env r text w = (res, w')"
  shows "only_touched env (lt_id r) (\<lambda>s. s = lt_status q) w w' \<and> is_ok res"
proof -
  have stay: "only_touched env (lt_id r) (\<lambda>s. s = lt_status q) w w" by (rule only_touched_refl [OF assms(2,3) refl])
  have "\<exists>w1. run_op env (lt_id r) (SetResultTtsSummary x) w = (Inr (), w1)
      \<and> only_touched env (lt_id r) (\<lambda>s. s = lt_status q) w w1" for x
    using run_op_touches [OF assms(1,2) _ assms(3), of "SetResultTtsSummary x"] by (auto simp: mut_set_tts_def)
  then show ?thesis
    using assms(4) stay
    by (auto simp: summarize_for_tts_def split: option.splits if_splits sum.splits prod.splits)
      (metis Inr_inject Pair_inject old.unit.exhaust sum.simps(4) is_ok.simps)+
qed

abbreviation settled :: "long_task_status \<Rightarrow> bool" where
  "settled s \<equiv> s \<in> set terminal_statuses"

lemma fail_touches:
  assumes "env_ok env" "world_ok env w" "job_get t (wd_db w) = Some q" "status \<in> {FAILED, TIMED_OUT}"
  shows "\<exists>w'. run_op env t (MarkFailed c m p status) w = (Inr (), w') \<and> only_touched env t settled w w'"
  using run_op_touches [OF assms(1,2) _ assms(3), of "MarkFailed c m p status"] assms(4)
  by (fastforce simp: mut_mark_failed_def terminal_statuses_def intro: only_touched_weaken)

lemma finish_touches:
  assumes "env_ok env" "world_ok env w" "job_get (lt_id r) (wd_db w) = Some q" "finish_task env r e w = (res, w')"
  shows "only_touched env (lt_id r) settled w w'"
proof (cases "event_type_of (we_repr env) e \<in> set terminal_success")
  case False
  with assms(4) fail_touches [OF assms(1-3)] show ?thesis
    by (auto simp: finish_task_def Let_def) (metis Pair_inject)+
next
  case True
  let ?content = "json_str (we_repr env) (py_or (dict_get (as_dict (dict_get e ''payload'')) ''content'') (JStr []))"
  let ?op = "Complete (Some ?content) (Some e) None"
  have d: "op_dates_ok ?op" by simp
  from run_op_touches [OF assms(1,2) d assms(3)] obtain w1 where
    c: "run_op env (lt_id r) ?op w = (Inr (), w1)"
    and t1: "only_touched env (lt_id r) (\<lambda>s. s = SUCCEEDED) w w1"
    by (auto simp: mut_complete_def)
  from t1 obtain q1 where ok1: "world_ok env w1" and q1: "job_get (lt_id r) (wd_db w1) = Some q1"
    and s1: "lt_status q1 = SUCCEEDED" by (rule only_touchedE)
  obtain sres w2 where sm: "summarize_for_tts env r ?content w1 = (sres, w2)" by fastforce
  from summarize_touches [OF assms(1) ok1 q1 sm] s1 have t2: "only_touched env (lt_id r) (\<lambda>s. s = SUCCEEDED) w1 w2"
    and "is_ok sres" by simp_all
  then obtain summary where sres: "sres = Inr summary" by (auto simp: is_ok_iff)
  from t2 obtain q2 where ok2: "world_ok env w2" and q2: "job_get (lt_id r) (wd_db w2) = Some q2"
    and s2: "lt_status q2 = SUCCEEDED" by (rule only_touchedE)
  have "publish_proactive_report env r summary w2 = (res, w')"
    using assms(4) True c sm sres by (simp add: finish_task_def Let_def)
  from publish_touches [OF assms(1) ok2 q2 this] s2 have "only_touched env (lt_id r) (\<lambda>s. s = SUCCEEDED) w2 w'" by simp
  with t1 t2 have "only_touched env (lt_id r) (\<lambda>s. s = SUCCEEDED) w w'" by (blast intro: only_touched_trans)
  then show ?thesis by (rule only_touched_weaken) (simp add: terminal_statuses_def)
qed

text \<open>A state change of the client alone.\<close>

lemma client_step [simp]:
  "world_ok env (w\<lparr>wd_client := c\<rparr>) = world_ok env w"
  "only_touched env t P (w\<lparr>wd_client := c\<rparr>) w' = only_touched env t P w w'"
  "only_touched env t P w (w'\<lparr>wd_client := c\<rparr>) = only_touched env t P w w'"
  by (simp_all add: world_ok_def only_touched_def)

text \<open>Either the run settled the task, or it stopped with an exception and the task is still there.\<close>

definition run_result_ok :: "'w worker_env \<Rightarrow> string \<Rightarrow> 'w world \<Rightarrow> unit result \<times> 'w world \<Rightarrow> bool" where
  "run_result_ok env t w x \<longleftrightarrow>
     (case fst x of Inr u \<Rightarrow> only_touched env t settled w (snd x) | Inl e \<Rightarrow> only_touched env t (\<lambda>s. True) w (snd x))"

lemma run_result_ok_trans:
  "only_touched env t P w w1 \<Longrightarrow> run_result_ok env t w1 x \<Longrightarrow> run_result_ok env t w x"
  by (auto simp: run_result_ok_def split: sum.splits intro: only_touched_trans)

lemma run_result_ok_client [simp]: "run_result_ok env t (w\<lparr>wd_client := c\<rparr>) x = run_result_ok env t w x"
  by (simp add: run_result_ok_def only_touched_def split: sum.splits)

lemma run_result_okI:
  "only_touched env t settled w w' \<Longrightarrow> run_result_ok env t w (res, w')"
  by (auto simp: run_result_ok_def only_touched_def split: sum.splits)

lemma poll_result:
  assumes "env_ok env"
  shows "world_ok env w \<Longrightarrow> job_get (lt_id r) (wd_db w) = Some q
     \<Longrightarrow> poll_until_done env r session deadline readings seq w = Some x \<Longrightarrow> run_result_ok env (lt_id r) w x"
proof (induction readings arbitrary: seq w q)
  case (Cons t readings)
  show ?case
  proof (cases "t < deadline")
    case False
    with Cons.prems fail_touches [OF assms Cons.prems(1,2), of TIMED_OUT] show ?thesis
      by (auto intro!: run_result_okI)  (metis run_result_okI)
  next
    case True
    obtain g c where get: "we_get_messages env session (wd_client w) = (g, c)" by fastforce
    show ?thesis
    proof (cases g)
      case (Inl e)
      with Cons.prems True get show ?thesis
        by (auto simp: run_result_ok_def only_touched_def)
    next
      case (Inr messages)
      let ?events = "case dict_get messages ''messages'' of JList es \<Rightarrow> map as_dict es | _ \<Rightarrow> []"
      let ?w1 = "w\<lparr>wd_client := c\<rparr>" and ?seq = "opt_or (latest_seq ?events) seq"
      have ok1: "world_ok env ?w1" "job_get (lt_id r) (wd_db ?w1) = Some q" using Cons.prems by simp_all
      show ?thesis
      proof (cases "terminal_event (we_repr env) ?events")
        case (Some e)
        with Cons.prems(3) True get Inr have "finish_task env r e ?w1 = x" by (simp add: Let_def)
        with finish_touches [OF assms ok1, of e "fst x" "snd x"] show ?thesis
          using run_result_okI [of env "lt_id r" w "snd x" "fst x"] by simp
      next
        case None
        let ?op = "TouchPoll ?seq (Some ''running'')"
        have d: "op_dates_ok ?op" by simp
        from run_op_touches [OF assms ok1(1) d ok1(2)] obtain w2 where
          o: "run_op env (lt_id r) ?op ?w1 = (Inr (), w2)" and
          t2: "only_touched env (lt_id r) (\<lambda>s. s = lt_status (op_mutator ?op q (we_clock env (wd_tick ?w1)))) ?w1 w2"
          by blast
        from t2 obtain q2 where ok2: "world_ok env w2" "job_get (lt_id r) (wd_db w2) = Some q2"
          by (rule only_touchedE)
        have "poll_until_done env r session deadline readings ?seq w2 = Some x"
          using Cons.prems(3) True get Inr None o by (simp add: Let_def)
        from run_result_ok_trans [OF t2 Cons.IH [OF ok2 this]] show ?thesis by simp
      qed
    qed
  qed
qed simp

lemma poll_returns:
  "\<exists>t \<in> set readings. deadline \<le> t \<Longrightarrow> poll_until_done env r session deadline readings seq w \<noteq> None"
proof (induction readings arbitrary: seq w)
  case (Cons t readings)
  show ?case
  proof (cases "t < deadline")
    case True
    with Cons.prems have "\<exists>t \<in> set readings. deadline \<le> t" by auto
    from Cons.IH [OF this] True show ?thesis
      by (simp add: Let_def split: sum.split prod.split option.split)
  qed simp
qed simp

lemma open_session_client:
  "open_session env r w = (s, w1) \<Longrightarrow> \<exists>c. w1 = w\<lparr>wd_client := c\<rparr>"
  by (auto simp: open_session_def Let_def split: sum.splits option.splits prod.splits if_splits
      intro: exI [of _ "wd_client w"])

lemma try_run_result:
  assumes "env_ok env" "world_ok env w" "job_get (lt_id r) (wd_db w) = Some q" "try_run env start readings r w = Some x"
  shows "run_result_ok env (lt_id r) w x"
proof -
  obtain s w1 where os: "open_session env r w = (s, w1)" by fastforce
  then obtain c1 where w1: "w1 = w\<lparr>wd_client := c1\<rparr>" using open_session_client by blast
  have kept: "run_result_ok env (lt_id r) w (Inl e, w\<lparr>wd_client := c\<rparr>)" for e c
    using assms(2,3) by (simp add: run_result_ok_def only_touched_def)
  show ?thesis
  proof (cases s)
    case (Inl e)
    with assms(4) os w1 kept show ?thesis by (auto simp: try_run_def)
  next
    case (Inr session)
    obtain a c where po: "we_post_message env session (prompt_for_record r) (wd_client w1) = (a, c)" by fastforce
    show ?thesis
    proof (cases a)
      case (Inl e)
      with assms(4) os Inr po w1 kept show ?thesis by (auto simp: try_run_def)
    next
      case (Inr answer)
      note ans = Inr
      let ?conv = "json_str (we_repr env) (py_or (dict_get answer ''conversation_id'') (JStr []))"
      let ?cid = "if ?conv = [] then None else Some ?conv"
      let ?op = "AttachMementosRun (Some session) ?cid ?cid (int_or_none (dict_get answer ''latest_seq'')) None
        (Some ''running'')"
      let ?w1 = "w1\<lparr>wd_client := c\<rparr>"
      have ok1: "world_ok env ?w1" "job_get (lt_id r) (wd_db ?w1) = Some q" using assms(2,3) w1 by simp_all
      have d: "op_dates_ok ?op" by simp
      from run_op_touches [OF assms(1) ok1(1) d ok1(2)] obtain w2 where
        o: "run_op env (lt_id r) ?op ?w1 = (Inr (), w2)" and
        t2: "only_touched env (lt_id r) (\<lambda>s. s = lt_status (op_mutator ?op q (we_clock env (wd_tick ?w1)))) ?w1 w2"
        by blast
      from t2 obtain q2 where ok2: "world_ok env w2" "job_get (lt_id r) (wd_db w2) = Some q2"
        by (rule only_touchedE)
      have "poll_until_done env r session (start + we_task_timeout env) readings None w2 = Some x"
        using assms(4) os \<open>s = Inr session\<close> po ans o by (simp add: try_run_def Let_def)
      from run_result_ok_trans [OF t2 poll_result [OF assms(1) ok2 this]] w1 show ?thesis by simp
    qed
  qed
qed

lemma try_run_returns:
  "\<exists>t \<in> set readings. start + we_task_timeout env \<le> t \<Longrightarrow> try_run env start readings r w \<noteq> None"
  using poll_returns by (auto simp: try_run_def Let_def split: sum.splits prod.splits) blast+

text \<open>
  C35. The worker always settles a task: once the event loop's clock passes the deadline the run
  returns, without an exception, and whatever the service answered, the task is then in a terminal
  status; no other task was touched.
\<close>

theorem worker_settles_task:
  assumes "env_ok env" "world_ok env w" "job_get (lt_id r) (wd_db w) = Some q"
    and "\<exists>t \<in> set readings. start + we_task_timeout env \<le> t"
  shows "\<exists>w'. handle_task env start readings r w = Some (Inr (), w')
     \<and> (\<exists>r'. job_get (lt_id r) (wd_db w') = Some r' \<and> lt_status r' \<in> {SUCCEEDED, FAILED, CANCELLED, TIMED_OUT})
     \<and> (\<forall>i. i \<noteq> lt_id r \<longrightarrow> job_get i (wd_db w') = job_get i (wd_db w))"
proof -
  let ?op = "MarkQueued (we_worker_id env) (Some (we_lease env (we_clock env (wd_tick w))))"
  have d: "op_dates_ok ?op" using assms(1) by (simp add: env_ok_def)
  from run_op_touches [OF assms(1,2) d assms(3)] obtain w1 where
    o: "run_op env (lt_id r) ?op w = (Inr (), w1)" and
    t1: "only_touched env (lt_id r) (\<lambda>s. s = lt_status (op_mutator ?op q (we_clock env (wd_tick w)))) w w1" by blast
  from t1 obtain q1 where ok1: "world_ok env w1" "job_get (lt_id r) (wd_db w1) = Some q1" by (rule only_touchedE)
  from try_run_returns [OF assms(4)] obtain res w2 where t: "try_run env start readings r w1 = Some (res, w2)"
    by (metis option.exhaust surj_pair)
  from try_run_result [OF assms(1) ok1 t] have ro: "run_result_ok env (lt_id r) w1 (res, w2)" .
  have "\<exists>w'. handle_task env start readings r w = Some (Inr (), w') \<and> only_touched env (lt_id r) settled w1 w'"
  proof (cases res)
    case (Inr u)
    with ro have "only_touched env (lt_id r) settled w1 w2" by (simp add: run_result_ok_def)
    with o t Inr show ?thesis by (simp add: handle_task_def Let_def)
  next
    case (Inl e)
    with ro have t2: "only_touched env (lt_id r) (\<lambda>s. True) w1 w2" by (simp add: run_result_ok_def)
    then obtain q2 where ok2: "world_ok env w2" "job_get (lt_id r) (wd_db w2) = Some q2" by (rule only_touchedE)
    from fail_touches [OF assms(1) ok2, of FAILED ] obtain w3 where
      "run_op env (lt_id r) (MarkFailed ''mementos_worker_error'' (exc_message e)
         (Some [(''exception_type'', JStr (exc_type_name e))]) FAILED) w2 = (Inr (), w3)"
      "only_touched env (lt_id r) settled w2 w3" by blast
    with o t Inl only_touched_trans [OF t2] show ?thesis by (auto simp: handle_task_def Let_def)
  qed
  then obtain w' where h: "handle_task env start readings r w = Some (Inr (), w')"
    and "only_touched env (lt_id r) settled w1 w'" by blast
  from only_touched_trans [OF t1 this(2)] have "only_touched env (lt_id r) settled w w'" .
  with h show ?thesis by (auto simp: only_touched_def terminal_statuses_def)
qed

text \<open>
  A poll that finds a terminal success event completes the task with the content of the last one
  in the session, whatever run it belongs to: the sessions of one session key are shared, and an event
  an earlier task left there settles the later task at its first poll.
\<close>

theorem poll_takes_last_terminal_event:
  assumes "we_get_messages env session (wd_client w) = (Inr [(''messages'', JList (map JDict (old @ e # rest)))], c)"
    and "is_terminal_event (we_repr env) e" "\<forall>x \<in> set rest. \<not> is_terminal_event (we_repr env) x" "t < deadline"
  shows "poll_until_done env r session deadline (t # readings) seq w
     = Some (finish_task env r e (w\<lparr>wd_client := c\<rparr>))"
proof -
  have "terminal_event (we_repr env) (old @ e # rest) = Some e"
  proof -
    have "List.find (is_terminal_event (we_repr env)) (rev rest @ e # rev old) = Some e"
      using assms(2,3) by (induction rest rule: rev_induct) auto
    then show ?thesis by (simp add: terminal_event_def)
  qed
  moreover have "map as_dict (map JDict xs) = xs" for xs by (simp add: comp_def)
  ultimately show ?thesis using assms(1,4) by (simp add: dict_get_def Let_def)
qed


section \<open>A concrete worker\<close>

definition demo_env :: "json_dict list \<Rightarrow> unit worker_env" where
  "demo_env events = \<lparr>we_clock = (\<lambda>n. demo_time), we_uuid = nat_str, we_repr = (\<lambda>j. []), we_worker_id = ''w1'',
     we_queue_size = 256, we_lease = (\<lambda>d. d), we_task_timeout = 1800,
     we_create_session = (\<lambda>title c. (Inr [(''session'', JDict [(''id'', JStr ''s1'')])], c)),
     we_post_message = (\<lambda>session prompt c. (Inr [], c)),
     we_get_messages = (\<lambda>session c. (Inr [(''messages'', JList (map JDict events))], c)),
     we_summarize = None, we_persona = None, we_bus = True\<rparr>"

definition demo_world :: "unit world" where
  "demo_world = \<lparr>wd_db = jobs_db demo_task, wd_client = (), wd_queue = [], wd_reports = [], wd_tick = 0\<rparr>"

lemma demo_env_ok: "env_ok (demo_env events)"
  by (simp add: env_ok_def demo_env_def demo_time_valid inj_def nat_str_inj)

lemma demo_world_ok: "world_ok (demo_env events) demo_world"
  using demo_jobs(1) by (simp add: world_ok_def demo_world_def jobs_db_def empty_db_def)

lemma demo_world_task: "job_get (lt_id demo_task) (wd_db demo_world) = Some demo_task"
  using demo_jobs(2) by (simp add: demo_world_def demo_ids)

theorem worker_settles_task_witness:
  "\<exists>w' r'. handle_task (demo_env []) 0 [0, 1, 1800] demo_task demo_world = Some (Inr (), w')
     \<and> job_get ''j1'' (wd_db w') = Some r' \<and> lt_status r' \<in> {SUCCEEDED, FAILED, CANCELLED, TIMED_OUT}"
proof -
  have t: "\<exists>t \<in> set [0, 1, 1800::int]. 0 + we_task_timeout (demo_env []) \<le> t" by (simp add: demo_env_def)
  from worker_settles_task [OF demo_env_ok demo_world_ok demo_world_task t] show ?thesis
    unfolding demo_ids by blast
qed

definition earlier_end :: json_dict where
  "earlier_end = [(''event_type'', JStr ''RUN_END''), (''payload'', JDict [(''content'', JStr ''earlier result'')])]"

theorem poll_takes_last_terminal_event_witness:
  "poll_until_done (demo_env [earlier_end]) demo_task ''s1'' 1800 [0] None demo_world
     = Some (finish_task (demo_env [earlier_end]) demo_task earlier_end demo_world)"
proof -
  have g: "we_get_messages (demo_env [earlier_end]) ''s1'' (wd_client demo_world)
      = (Inr [(''messages'', JList (map JDict ([] @ earlier_end # [])))], ())" by (simp add: demo_env_def)
  have e: "is_terminal_event (we_repr (demo_env [earlier_end])) earlier_end"
    by (simp add: is_terminal_event_def event_type_of_def earlier_end_def dict_get_def py_or_def json_str_def
        terminal_success_def)
  have r: "\<forall>x \<in> set []. \<not> is_terminal_event (we_repr (demo_env [earlier_end])) x" by simp
  have t: "(0::int) < 1800" by simp
  have w: "demo_world\<lparr>wd_client := ()\<rparr> = demo_world" by simp
  from poll_takes_last_terminal_event [OF g e r t] show ?thesis unfolding w .
qed

end
