(* ===== verification/Conversation_Facts.thy ===== *)
theory Conversation_Facts
  imports Conversation_Store
begin

text \<open>
  What the conversation store guarantees: the database stays consistent, a conversation keeps its
  scope, a repeated write changes nothing, and what was written is read back in order.
\<close>

section \<open>Consistency\<close>

definition message_ids :: "runtime_db \<Rightarrow> bool" where
  "message_ids db \<longleftrightarrow> (\<forall>m \<in> set (db_messages db). mg_id m = turn_message_id (mg_turn_id m) (mg_seq m))"

definition history_ok :: "runtime_db \<Rightarrow> bool" where
  "history_ok db \<longleftrightarrow> db_ok db \<and> message_ids db"

lemmas history_ok_defs = history_ok_def message_ids_def db_ok_defs conv_turns_def

lemma find_conversation_Some:
  "find_conversation i db = Some c \<Longrightarrow> c \<in> set (db_conversations db) \<and> cv_id c = i"
  by (auto simp: find_conversation_def dest: find_SomeD)

lemma find_conversation_None: "find_conversation i db = None \<longleftrightarrow> i \<notin> set (map cv_id (db_conversations db))"
  by (auto simp: find_conversation_def find_None_iff)

lemma find_turn_Some: "find_turn i db = Some t \<Longrightarrow> t \<in> set (db_turns db) \<and> tn_id t = i"
  by (auto simp: find_turn_def dest: find_SomeD)

lemma find_turn_None: "find_turn i db = None \<longleftrightarrow> i \<notin> set (map tn_id (db_turns db))"
  by (auto simp: find_turn_def find_None_iff)

lemma history_ok_sessions:
  assumes "history_ok db" "distinct (map rs_session_id ss)"
    and "set (map rs_session_id (db_sessions db)) \<subseteq> set (map rs_session_id ss)"
  shows "history_ok (db\<lparr>db_sessions := ss\<rparr>)"
proof -
  have "fk_sessions (db\<lparr>db_sessions := ss\<rparr>)"
    using assms(1,3) unfolding history_ok_def db_ok_def fk_sessions_def by (simp add: subset_iff)
  then show ?thesis
    using assms(1,2) by (simp add: history_ok_def db_ok_def primary_keys_def fk_turns_def fk_messages_def
        turn_numbering_def conv_turns_def message_slots_def message_ids_def)
qed

definition touched_sessions :: "datetime \<Rightarrow> turn_input \<Rightarrow> string \<Rightarrow> runtime_db \<Rightarrow> session_row list" where
  "touched_sessions now ti sid db = db_sessions (upsert_session now ti sid db)"

lemma upsert_session_sessions: "upsert_session now ti sid db = db\<lparr>db_sessions := touched_sessions now ti sid db\<rparr>"
  by (simp add: upsert_session_def touched_sessions_def)

lemma touched_sessions_ids:
  "map rs_session_id (touched_sessions now ti sid db)
     = map rs_session_id (db_sessions db) @ (if sid \<in> set (map rs_session_id (db_sessions db)) then [] else [sid])"
  by (simp add: touched_sessions_def upsert_session_def touch_session_def)

lemma upsert_session_ok:
  assumes "history_ok db"
  shows "history_ok (upsert_session now ti sid db)"
    and "sid \<in> set (map rs_session_id (db_sessions (upsert_session now ti sid db)))"
proof -
  have "distinct (map rs_session_id (db_sessions db))"
    using assms by (simp add: history_ok_def db_ok_def primary_keys_def)
  then show "history_ok (upsert_session now ti sid db)"
    unfolding upsert_session_sessions
    by (intro history_ok_sessions [OF assms]) (auto simp: touched_sessions_ids simp del: set_map)
  show "sid \<in> set (map rs_session_id (db_sessions (upsert_session now ti sid db)))"
    unfolding upsert_session_sessions by (simp add: touched_sessions_ids del: set_map)
qed

lemma insert_conversation_ok:
  assumes "history_ok db" "\<forall>s. cv_runtime_session_id row = Some s \<longrightarrow> s \<in> rs_session_id ` set (db_sessions db)"
  shows "history_ok (insert_conversation row db)"
proof (cases "cv_id row \<in> set (map cv_id (db_conversations db))")
  case False
  let ?db = "db\<lparr>db_conversations := db_conversations db @ [row]\<rparr>"
  from assms(1) have p: "primary_keys db" "fk_sessions db" "fk_turns db" "fk_messages db" "turn_numbering db"
    "message_slots db" "message_ids db" by (simp_all add: history_ok_def db_ok_def)
  have "primary_keys ?db" using p(1) False by (simp add: primary_keys_def)
  moreover have "fk_sessions ?db" using p(2) assms(2) by (auto simp: fk_sessions_def)
  moreover have "fk_turns ?db" using p(3) by (auto simp: fk_turns_def)
  moreover have "fk_messages ?db" "turn_numbering ?db" "message_slots ?db" "message_ids ?db"
    using p by (simp_all add: fk_messages_def turn_numbering_def conv_turns_def message_slots_def message_ids_def)
  ultimately show ?thesis using False by (simp add: insert_conversation_def history_ok_def db_ok_def)
qed (simp add: insert_conversation_def assms(1))

lemma set_conversation_ok:
  assumes "history_ok db" "\<And>c. cv_id (f c) = cv_id c"
    and "\<And>c s. cv_runtime_session_id (f c) = Some s \<Longrightarrow> s \<in> rs_session_id ` set (db_sessions db)"
  shows "history_ok (set_conversation i f db)"
proof -
  let ?db = "set_conversation i f db"
  from assms(1) have p: "primary_keys db" "fk_sessions db" "fk_turns db" "fk_messages db" "turn_numbering db"
    "message_slots db" "message_ids db" by (simp_all add: history_ok_def db_ok_def)
  have ids: "map cv_id (db_conversations ?db) = map cv_id (db_conversations db)"
    using assms(2) by (simp add: set_conversation_def)
  then have idset: "cv_id ` set (db_conversations ?db) = cv_id ` set (db_conversations db)"
    by (metis list.set_map)
  have "primary_keys ?db" using p(1) ids by (simp add: primary_keys_def set_conversation_def del: map_map)
  moreover have "fk_sessions ?db"
    using p(2) assms(3) by (auto simp: fk_sessions_def set_conversation_def)
  moreover have "fk_turns ?db" using p(3) idset by (simp add: fk_turns_def set_conversation_def)
  moreover have "fk_messages ?db" "turn_numbering ?db" "message_slots ?db" "message_ids ?db"
    using p by (simp_all add: fk_messages_def turn_numbering_def conv_turns_def message_slots_def message_ids_def
        set_conversation_def)
  ultimately show ?thesis by (simp add: history_ok_def db_ok_def)
qed

lemma add_turn_ok:
  assumes "history_ok db" "tn_id t \<notin> set (map tn_id (db_turns db))"
    and "tn_conversation_id t \<in> cv_id ` set (db_conversations db)"
    and "tn_seq t = next_turn_seq (tn_conversation_id t) db"
    and "\<forall>s. tn_runtime_session_id t = Some s \<longrightarrow> s \<in> rs_session_id ` set (db_sessions db)"
  shows "history_ok (db\<lparr>db_turns := db_turns db @ [t]\<rparr>)"
proof -
  let ?db = "db\<lparr>db_turns := db_turns db @ [t]\<rparr>"
  from assms(1) have p: "primary_keys db" "fk_sessions db" "fk_turns db" "fk_messages db" "turn_numbering db"
    "message_slots db" "message_ids db" by (simp_all add: history_ok_def db_ok_def)
  have "primary_keys ?db" using p(1) assms(2) by (simp add: primary_keys_def)
  moreover have "fk_sessions ?db" using p(2) assms(5) by (auto simp: fk_sessions_def)
  moreover have "fk_turns ?db" using p(3) assms(3) by (auto simp: fk_turns_def)
  moreover have "fk_messages ?db" using p(4) by (auto simp: fk_messages_def)
  moreover have "turn_numbering ?db"
    using p(5) assms(4) by (auto simp: turn_numbering_def conv_turns_def next_turn_seq_def)
  moreover have "message_slots ?db" "message_ids ?db" using p by (simp_all add: message_slots_def message_ids_def)
  ultimately show ?thesis by (simp add: history_ok_def db_ok_def)
qed

lemma map_turn_ok:
  assumes "history_ok db" "\<And>t. tn_id (f t) = tn_id t" "\<And>t. tn_conversation_id (f t) = tn_conversation_id t"
    and "\<And>t. tn_seq (f t) = tn_seq t"
    and "\<And>t s. tn_runtime_session_id (f t) = Some s \<Longrightarrow> s \<in> rs_session_id ` set (db_sessions db)"
  shows "history_ok (db\<lparr>db_turns := map (\<lambda>t. if P t then f t else t) (db_turns db)\<rparr>)"
proof -
  let ?db = "db\<lparr>db_turns := map (\<lambda>t. if P t then f t else t) (db_turns db)\<rparr>"
  from assms(1) have p: "primary_keys db" "fk_sessions db" "fk_turns db" "fk_messages db" "turn_numbering db"
    "message_slots db" "message_ids db" by (simp_all add: history_ok_def db_ok_def)
  have ids: "map tn_id (db_turns ?db) = map tn_id (db_turns db)" using assms(2) by simp
  then have idset: "tn_id ` set (db_turns ?db) = tn_id ` set (db_turns db)" by (metis list.set_map)
  have "primary_keys ?db" using p(1) ids by (simp add: primary_keys_def del: map_map)
  moreover have "fk_sessions ?db" using p(2) assms(5) by (auto simp: fk_sessions_def)
  moreover have "fk_turns ?db" using p(3) assms(3) by (auto simp: fk_turns_def)
  moreover have "fk_messages ?db" using p(4) idset by (simp add: fk_messages_def)
  moreover have "turn_numbering ?db"
  proof -
    have "conv_turns i ?db = map (\<lambda>t. if P t then f t else t) (conv_turns i db)" for i
      using assms(3) by (auto simp: conv_turns_def filter_map comp_def intro!: arg_cong [where f = "map _"] filter_cong)
    moreover have "map tn_seq (map (\<lambda>t. if P t then f t else t) ts) = map tn_seq ts" for ts using assms(4) by simp
    ultimately show ?thesis using p(5) by (simp add: turn_numbering_def del: map_map)
  qed
  moreover have "message_slots ?db" "message_ids ?db" using p by (simp_all add: message_slots_def message_ids_def)
  ultimately show ?thesis by (simp add: history_ok_def db_ok_def)
qed

lemma upsert_message_ok:
  assumes "history_ok db" "cm_id m = turn_message_id tid seq" "tid \<in> tn_id ` set (db_turns db)"
  shows "history_ok (upsert_message tid seq m db)"
proof -
  let ?row = "message_to_row tid m (Some seq)"
  let ?slot = "\<lambda>r. mg_turn_id r = tid \<and> mg_seq r = seq"
  let ?new = "\<lambda>r. ?row\<lparr>mg_id := mg_id r\<rparr>"
  have row: "mg_turn_id ?row = tid" "mg_seq ?row = seq" "mg_id ?row = turn_message_id tid seq"
    using assms(2) by (simp_all add: message_to_row_def Let_def)
  from assms(1) have p: "primary_keys db" "fk_sessions db" "fk_turns db" "fk_messages db" "turn_numbering db"
    "message_slots db" "message_ids db" by (simp_all add: history_ok_def db_ok_def)
  have "distinct (map mg_id (db_messages (upsert_message tid seq m db)))
      \<and> distinct (map (\<lambda>m. (mg_turn_id m, mg_seq m)) (db_messages (upsert_message tid seq m db)))
      \<and> (\<forall>x \<in> set (db_messages (upsert_message tid seq m db)).
            mg_turn_id x \<in> tn_id ` set (db_turns db) \<and> mg_id x = turn_message_id (mg_turn_id x) (mg_seq x))"
  proof (cases "\<exists>r \<in> set (db_messages db). ?slot r")
    case True
    let ?ms = "map (\<lambda>r. if ?slot r then ?new r else r) (db_messages db)"
    have ms: "db_messages (upsert_message tid seq m db) = ?ms" using True by (simp add: upsert_message_def Let_def)
    have i1: "map mg_id ?ms = map mg_id (db_messages db)" by simp
    have i2: "map (\<lambda>m. (mg_turn_id m, mg_seq m)) ?ms = map (\<lambda>m. (mg_turn_id m, mg_seq m)) (db_messages db)"
      using row(1,2) by simp
    have "mg_turn_id x \<in> tn_id ` set (db_turns db) \<and> mg_id x = turn_message_id (mg_turn_id x) (mg_seq x)"
      if "x \<in> set ?ms" for x
    proof -
      from that obtain r where r: "r \<in> set (db_messages db)" "x = (if ?slot r then ?new r else r)" by auto
      from r(1) p(4,7) have "mg_turn_id r \<in> tn_id ` set (db_turns db)" "mg_id r = turn_message_id (mg_turn_id r) (mg_seq r)"
        by (simp_all add: fk_messages_def message_ids_def)
      with r(2) row assms(3) show ?thesis by (cases "?slot r") simp_all
    qed
    then show ?thesis
      unfolding ms i1 i2 using p(1,6) unfolding primary_keys_def message_slots_def by blast
  next
    case False
    have "turn_message_id tid seq \<notin> mg_id ` set (db_messages db)"
      using False p(7) by (auto simp: message_ids_def turn_message_id_inj)
    moreover have "(tid, seq) \<notin> (\<lambda>m. (mg_turn_id m, mg_seq m)) ` set (db_messages db)" using False by auto
    ultimately show ?thesis
      using False p(1,4,6,7) row assms(3)
      by (auto simp: upsert_message_def Let_def primary_keys_def message_slots_def fk_messages_def message_ids_def)
  qed
  moreover have "db_turns (upsert_message tid seq m db) = db_turns db"
    "db_conversations (upsert_message tid seq m db) = db_conversations db"
    "db_sessions (upsert_message tid seq m db) = db_sessions db" "db_jobs (upsert_message tid seq m db) = db_jobs db"
    by (simp_all add: upsert_message_def Let_def)
  ultimately show ?thesis
    using p by (simp add: history_ok_def db_ok_def primary_keys_def fk_sessions_def fk_turns_def fk_messages_def
        turn_numbering_def conv_turns_def message_slots_def message_ids_def)
qed

lemma upsert_message_turns [simp]:
  "db_turns (upsert_message tid seq m db) = db_turns db"
  "db_conversations (upsert_message tid seq m db) = db_conversations db"
  "db_sessions (upsert_message tid seq m db) = db_sessions db"
  by (simp_all add: upsert_message_def Let_def)

lemma write_messages_ok:
  assumes "history_ok db" "ti_turn_id ti \<in> tn_id ` set (db_turns db)"
  shows "history_ok (write_messages ti o1 db)"
  using assms
  by (auto simp: write_messages_def Let_def user_message_def assistant_message_def new_message_def
      intro!: upsert_message_ok)

lemma upsert_turn_ok:
  assumes "history_ok db" "check_turn_scope ti db = Inr existing" "sid \<in> rs_session_id ` set (db_sessions db)"
    and "ti_conversation_id ti \<in> cv_id ` set (db_conversations db)"
  shows "history_ok (upsert_turn ti sid o1 existing db)"
    and "ti_turn_id ti \<in> tn_id ` set (db_turns (upsert_turn ti sid o1 existing db))"
proof -
  have ex: "existing = find_turn (ti_turn_id ti) db"
    using assms(2) by (auto simp: check_turn_scope_def split: option.splits sum.splits)
  show "history_ok (upsert_turn ti sid o1 existing db)"
  proof (cases existing)
    case None
    then have "ti_turn_id ti \<notin> set (map tn_id (db_turns db))" using ex by (simp add: find_turn_None del: set_map)
    with None assms(1,3,4) show ?thesis
      by (auto simp: upsert_turn_def new_turn_row_def intro!: add_turn_ok)
  next
    case (Some t)
    with assms(1,3) show ?thesis by (auto simp: upsert_turn_def update_turn_row_def intro!: map_turn_ok)
  qed
  show "ti_turn_id ti \<in> tn_id ` set (db_turns (upsert_turn ti sid o1 existing db))"
  proof (cases existing)
    case None
    then show ?thesis by (simp add: upsert_turn_def new_turn_row_def)
  next
    case (Some t)
    then have "t \<in> set (db_turns db)" "tn_id t = ti_turn_id ti" using ex find_turn_Some by auto
    moreover have "map tn_id (db_turns (upsert_turn ti sid o1 existing db)) = map tn_id (db_turns db)"
      by (simp add: upsert_turn_def Some update_turn_row_def)
    ultimately show ?thesis by (metis image_eqI list.set_map)
  qed
qed

text \<open>One persisted turn, step by step.\<close>

lemma persist_once_cases:
  assumes "persist_once now ti o1 db = Inr db'"
  obtains sid md row existing where
    "runtime_session_id ti = Inr sid" "conversation_metadata ti = Inr md"
    "check_scope ti (insert_conversation (new_conversation ti md (Some sid) (to_started_at o1) (to_finished_at o1))
        (upsert_session now ti sid db)) = Inr row"
    "check_turn_scope ti (set_conversation (ti_conversation_id ti) (touch_conversation ti sid o1)
        (insert_conversation (new_conversation ti md (Some sid) (to_started_at o1) (to_finished_at o1))
          (upsert_session now ti sid db))) = Inr existing"
    "db' = write_messages ti o1 (upsert_turn ti sid o1 existing
        (set_conversation (ti_conversation_id ti) (touch_conversation ti sid o1)
          (insert_conversation (new_conversation ti md (Some sid) (to_started_at o1) (to_finished_at o1))
            (upsert_session now ti sid db))))"
  using assms by (auto simp: persist_once_def Let_def split: sum.splits)

lemma set_conversation_simps [simp]:
  "db_sessions (set_conversation i f db) = db_sessions db" "db_turns (set_conversation i f db) = db_turns db"
  "db_messages (set_conversation i f db) = db_messages db"
  by (simp_all add: set_conversation_def)

lemma insert_conversation_simps [simp]:
  "db_sessions (insert_conversation r db) = db_sessions db" "db_turns (insert_conversation r db) = db_turns db"
  "db_messages (insert_conversation r db) = db_messages db"
  by (simp_all add: insert_conversation_def)

lemma upsert_session_simps [simp]:
  "db_conversations (upsert_session now ti sid db) = db_conversations db"
  "db_turns (upsert_session now ti sid db) = db_turns db" "db_messages (upsert_session now ti sid db) = db_messages db"
  by (simp_all add: upsert_session_def)

lemma conversation_ids_set [simp]:
  "(\<And>c. cv_id (f c) = cv_id c) \<Longrightarrow> cv_id ` set (db_conversations (set_conversation i f db)) = cv_id ` set (db_conversations db)"
proof -
  assume "\<And>c. cv_id (f c) = cv_id c"
  then have "map cv_id (db_conversations (set_conversation i f db)) = map cv_id (db_conversations db)"
    by (simp add: set_conversation_def)
  then show ?thesis by (metis list.set_map)
qed

lemma touch_conversation_simps [simp]:
  "cv_id (touch_conversation ti sid o1 c) = cv_id c" "cv_owner_id (touch_conversation ti sid o1 c) = cv_owner_id c"
  "cv_companion_id (touch_conversation ti sid o1 c) = cv_companion_id c"
  "cv_metadata (touch_conversation ti sid o1 c) = cv_metadata c"
  "cv_runtime_session_id (touch_conversation ti sid o1 c) = Some sid"
  "cv_source_device_id (touch_conversation ti sid o1 c) = tx_device_id (ti_context ti)"
  by (simp_all add: touch_conversation_def)

lemma check_scope_row:
  assumes "check_scope ti db = Inr row"
  shows "find_conversation (ti_conversation_id ti) db = Some row" "verify_conversation_scope row ti = Inr ()"
  using assms by (auto simp: check_scope_def split: option.splits sum.splits)

lemma check_scope_found: "check_scope ti db = Inr row \<Longrightarrow> ti_conversation_id ti \<in> cv_id ` set (db_conversations db)"
  using check_scope_row(1) find_conversation_Some by (metis imageI)

lemma persist_once_ok: "history_ok db \<Longrightarrow> persist_once now ti o1 db = Inr db' \<Longrightarrow> history_ok db'"
proof (elim persist_once_cases)
  fix sid md row existing
  let ?db1 = "upsert_session now ti sid db"
  let ?db2 = "insert_conversation (new_conversation ti md (Some sid) (to_started_at o1) (to_finished_at o1)) ?db1"
  let ?db3 = "set_conversation (ti_conversation_id ti) (touch_conversation ti sid o1) ?db2"
  assume ok: "history_ok db" and row: "check_scope ti ?db2 = Inr row" and ex: "check_turn_scope ti ?db3 = Inr existing"
    and db': "db' = write_messages ti o1 (upsert_turn ti sid o1 existing ?db3)"
  have ok1: "history_ok ?db1" and sid: "sid \<in> rs_session_id ` set (db_sessions ?db1)"
    using upsert_session_ok [where now = now and ti = ti and sid = sid, OF ok] by simp_all
  have ok2: "history_ok ?db2"
    using sid by (intro insert_conversation_ok [OF ok1]) (simp add: new_conversation_def)
  have conv: "ti_conversation_id ti \<in> cv_id ` set (db_conversations ?db2)"
    by (rule check_scope_found [OF row])
  have ok3: "history_ok ?db3" using sid by (intro set_conversation_ok [OF ok2]) simp_all
  have sid3: "sid \<in> rs_session_id ` set (db_sessions ?db3)" using sid by simp
  have conv3: "ti_conversation_id ti \<in> cv_id ` set (db_conversations ?db3)" using conv by simp
  show "history_ok db'"
    unfolding db'
    by (rule write_messages_ok) (rule upsert_turn_ok [OF ok3 ex sid3 conv3])+
qed

lemma guard_ok: "history_ok db \<Longrightarrow> conversation_guard now ti db = Inr db' \<Longrightarrow> history_ok db'"
  by (auto simp: conversation_guard_def Let_def new_conversation_def split: sum.splits intro!: insert_conversation_ok)

text \<open>
  C2. Every admitted or persisted turn leaves the authority consistent: primary keys and slots stay
  unique, no row refers to a missing one, each conversation's turns stay numbered \<open>0, 1, 2, \<dots>\<close> in
  the order they were admitted, and message ids follow their turn and slot.
\<close>

theorem turn_writes_keep_history_ok:
  assumes "history_ok db" "conversation_guard now ti db = Inr db' \<or> persist_once now ti o1 db = Inr db'"
  shows "history_ok db'"
  using assms guard_ok persist_once_ok by blast


section \<open>Scope\<close>

text \<open>The two turns may share a conversation.\<close>

definition same_scope :: "turn_input \<Rightarrow> turn_input \<Rightarrow> bool" where
  "same_scope t u \<longleftrightarrow>
     (let a = ti_context t; b = ti_context u
      in tx_owner_id a = tx_owner_id b \<and> tx_companion_id a = tx_companion_id b
       \<and> shared_room t = shared_room u
       \<and> (if shared_room t
          then ti_session_id t = ti_session_id u \<and> tx_device_id a = tx_device_id b
          else tx_memory_realm_id a = tx_memory_realm_id b \<and> tx_memory_enabled a = tx_memory_enabled b
             \<and> tx_provisional_memory_save a = tx_provisional_memory_save b
             \<and> tx_provisional_memory_recall a = tx_provisional_memory_recall b
             \<and> tx_person_id a = tx_person_id b
             \<and> (tx_person_id a \<noteq> None \<or> \<not> tx_memory_enabled a \<longrightarrow>
                  tx_identity_epoch a = tx_identity_epoch b \<and> tx_person_revision a = tx_person_revision b
                  \<and> ti_session_id t = ti_session_id u \<and> tx_device_id a = tx_device_id b)))"

lemma py_eq_jopt_str [simp]: "py_eq (jopt_str a) (jopt_str b) \<longleftrightarrow> a = b"
  by (cases a; cases b) auto

lemma py_eq_jopt_int [simp]: "py_eq (jopt_int a) (jopt_int b) \<longleftrightarrow> a = b"
  by (cases a; cases b) auto

lemma py_eq_JBool [simp]: "py_eq (JBool a) (JBool b) \<longleftrightarrow> a = b"
  by (cases a; cases b) auto

lemma py_eq_JStr: "py_eq (JStr a) (JStr b) \<longleftrightarrow> a = b"
  by auto

lemma jopt_str_JNull [simp]: "jopt_str a = JNull \<longleftrightarrow> a = None" "py_eq (jopt_str a) (JStr s) \<longleftrightarrow> a = Some s"
  by (cases a; auto)+

lemma conversation_metadata_Inr:
  assumes "conversation_metadata ti = Inr md"
  shows "dict_get md ''source_session_id'' = jopt_str (tx_source_session_id (ti_context ti))"
    and "dict_get md ''session_id'' = JStr (ti_session_id ti)"
    and "\<not> shared_room ti \<Longrightarrow> dict_get md ''memory_realm_id'' = JStr (tx_memory_realm_id (ti_context ti))
       \<and> dict_get_or md ''memory_enabled'' d = JBool (tx_memory_enabled (ti_context ti))
       \<and> dict_get_or md ''provisional_memory_save'' d = JBool (tx_provisional_memory_save (ti_context ti))
       \<and> dict_get_or md ''provisional_memory_recall'' d = JBool (tx_provisional_memory_recall (ti_context ti))
       \<and> dict_get md ''person_id'' = jopt_str (tx_person_id (ti_context ti))
       \<and> dict_get md ''identity_epoch'' = jopt_int (tx_identity_epoch (ti_context ti))
       \<and> dict_get md ''person_revision'' = jopt_int (tx_person_revision (ti_context ti))"
  using assms
  by (auto simp: conversation_metadata_def Let_def dict_get_def dict_get_or_def room_keys_def split: sum.splits if_splits)

lemma verify_personal:
  assumes "verify_conversation_scope row u = Inr ()" "\<not> shared_room u"
    and "\<not> (py_eq (dict_get (cv_metadata row) ''source_session_id'') (dict_get (cv_metadata row) ''session_id'')
        \<and> dict_get (cv_metadata row) ''source_session_id'' \<noteq> JNull)"
  shows "cv_owner_id row = tx_owner_id (ti_context u) \<and> cv_companion_id row = tx_companion_id (ti_context u)
      \<and> py_eq (dict_get (cv_metadata row) ''memory_realm_id'') (JStr (tx_memory_realm_id (ti_context u)))
      \<and> py_eq (dict_get_or (cv_metadata row) ''provisional_memory_save'' (JBool False))
            (JBool (tx_provisional_memory_save (ti_context u)))
      \<and> py_eq (dict_get_or (cv_metadata row) ''provisional_memory_recall'' (JBool False))
            (JBool (tx_provisional_memory_recall (ti_context u)))
      \<and> py_eq (dict_get_or (cv_metadata row) ''memory_enabled'' (JBool True)) (JBool (tx_memory_enabled (ti_context u)))
      \<and> py_eq (dict_get (cv_metadata row) ''person_id'') (jopt_str (tx_person_id (ti_context u)))
      \<and> (tx_person_id (ti_context u) \<noteq> None \<or> \<not> tx_memory_enabled (ti_context u) \<longrightarrow>
           py_eq (dict_get (cv_metadata row) ''identity_epoch'') (jopt_int (tx_identity_epoch (ti_context u)))
         \<and> py_eq (dict_get (cv_metadata row) ''person_revision'') (jopt_int (tx_person_revision (ti_context u)))
         \<and> py_eq (dict_get (cv_metadata row) ''session_id'') (JStr (ti_session_id u))
         \<and> cv_source_device_id row = tx_device_id (ti_context u))"
  using assms unfolding verify_conversation_scope_def Let_def
  by (simp split: if_split_asm del: py_eq.simps) auto

lemma scope_of_created:
  assumes "conversation_metadata t = Inr md" "cv_metadata row = md" "cv_owner_id row = tx_owner_id (ti_context t)"
    and "cv_companion_id row = tx_companion_id (ti_context t)" "cv_source_device_id row = tx_device_id (ti_context t)"
    and "verify_conversation_scope row u = Inr ()"
  shows "same_scope t u"
proof -
  note md = conversation_metadata_Inr [OF assms(1)]
  show ?thesis
  proof (cases "shared_room t")
    case True
    then have "shared_room u"
      using assms(6) md(1,2) by (auto simp: verify_conversation_scope_def Let_def assms(2) shared_room_def split: if_splits)
    with True show ?thesis
      using assms(6) md(1,2)
      by (auto simp: verify_conversation_scope_def Let_def assms(2-5) same_scope_def shared_room_def split: if_splits)
  next
    case False
    then have src: "\<not> (py_eq (dict_get md ''source_session_id'') (dict_get md ''session_id'')
        \<and> dict_get md ''source_session_id'' \<noteq> JNull)"
      using md(1,2) by (auto simp: shared_room_def)
    have "\<not> shared_room u"
    proof
      assume s: "shared_room u"
      then have "py_eq (dict_get md ''source_session_id'') (jopt_str (tx_source_session_id (ti_context u)))
          \<and> py_eq (dict_get md ''session_id'') (JStr (ti_session_id u))"
        using assms(6) by (simp add: verify_conversation_scope_def Let_def assms(2) split: if_splits)
      with s md(1,2) False show False by (auto simp: shared_room_def)
    qed
    from verify_personal [OF assms(6) this] src False this show ?thesis
      unfolding assms(2-5)
      by (simp add: md(2) md(3) [OF False] same_scope_def Let_def py_eq_JStr del: py_eq.simps)
  qed
qed



section \<open>Reading back\<close>

lemma collect_map_Inr [simp]: "collect (map Inr xs) = Inr xs"
  by (induction xs) auto

lemma collect_length: "collect rs = Inr xs \<Longrightarrow> length xs = length rs"
  by (induction rs arbitrary: xs rule: collect.induct) (auto split: sum.splits)

lemma collect_nth: "collect rs = Inr xs \<Longrightarrow> i < length rs \<Longrightarrow> rs ! i = Inr (xs ! i)"
  by (induction rs arbitrary: xs i rule: collect.induct) (auto simp: nth_Cons split: sum.splits nat.splits)

lemma row_to_message_content:
  "row_to_message st started r = Inr m \<Longrightarrow> cm_content m = mg_content r \<and> cm_id m = mg_id r \<and> role_value (cm_role m) = mg_role r"
  by (auto simp: row_to_message_def Let_def role_of_value_def split: sum.splits if_splits)

text \<open>
  The hydrated history is the tail of the conversation in conversation order, the order of its
  turns' starts and the slots in them, whatever order the rows were written in; it has at most
  \<open>window\<close> messages, and fewer only when the conversation has.
\<close>

theorem hydrate_is_ordered_tail:
  assumes "hydrate cid window db = Inr ms"
  shows "\<exists>rows. rows = conversation_rows cid db \<and> sorted (map history_key rows)
     \<and> length ms = min window (length rows)
     \<and> map cm_id ms = map (\<lambda>p. mg_id (fst p)) (drop (length rows - window) rows)
     \<and> map cm_content ms = map (\<lambda>p. mg_content (fst p)) (drop (length rows - window) rows)"
proof -
  let ?rows = "conversation_rows cid db"
  let ?tail = "drop (length ?rows - window) ?rows"
  let ?rs = "map (\<lambda>(m, t). row_to_message (Some (tn_status t)) (Some (tn_started_at t)) m) ?tail"
  have c: "collect ?rs = Inr ms" using assms by (simp add: hydrate_def Let_def)
  have l: "length ms = length ?tail" using collect_length [OF c] by simp
  have n: "cm_content (ms ! i) = mg_content (fst (?tail ! i)) \<and> cm_id (ms ! i) = mg_id (fst (?tail ! i))"
    if "i < length ?tail" for i
  proof -
    from that have "?rs ! i = Inr (ms ! i)" by (intro collect_nth [OF c]) simp
    then show ?thesis using that by (auto simp: case_prod_beta dest: row_to_message_content)
  qed
  have "map cm_content ms = map (\<lambda>p. mg_content (fst p)) ?tail" "map cm_id ms = map (\<lambda>p. mg_id (fst p)) ?tail"
    using l n by (simp_all add: list_eq_iff_nth_eq)
  moreover have "sorted (map history_key ?rows)" by (simp add: conversation_rows_def)
  moreover have "length ms = min window (length ?rows)" using l by simp
  ultimately show ?thesis by blast
qed

lemma upsert_message_new:
  assumes "\<forall>r \<in> set (db_messages db). mg_turn_id r \<noteq> tid \<or> mg_seq r \<noteq> seq"
  shows "db_messages (upsert_message tid seq m db) = db_messages db @ [message_to_row tid m (Some seq)]"
  using assms by (auto simp: upsert_message_def Let_def)

lemma message_to_row_slot [simp]:
  "mg_turn_id (message_to_row tid m (Some s)) = tid" "mg_seq (message_to_row tid m (Some s)) = s"
  by (simp_all add: message_to_row_def Let_def)

text \<open>
  C36. What a finished turn said is what its messages say: after a first persist of a turn with a user
  text and a reply, listing the turn's messages gives exactly these two, in this order, with their
  texts, roles, ids and the privacy they were persisted with.
\<close>

definition message_private :: "chat_message \<Rightarrow> bool" where
  "message_private m = truthy (dict_get (cm_metadata m) ''is_private'')"

lemma row_back:
  "row_to_message None None (message_to_row tid m (Some s)) = Inr m'
     \<Longrightarrow> cm_content m' = cm_content m \<and> cm_role m' = cm_role m \<and> cm_id m' = cm_id m
        \<and> (message_private m' = truthy (dict_get (row_metadata tid m) ''is_private''))"
  by (auto simp: row_to_message_def message_to_row_def Let_def put_if_some_def message_private_def dict_get_def
      split: if_splits)

lemma row_back_total: "\<exists>m'. row_to_message None None (message_to_row tid m (Some s)) = Inr m'"
  by (auto simp: row_to_message_def message_to_row_def Let_def)

lemma private_metadata:
  "truthy (dict_get (row_metadata (ti_turn_id ti) (user_message ti o1)) ''is_private'') = to_is_private o1"
  "truthy (dict_get (row_metadata (ti_turn_id ti) (assistant_message ti o1)) ''is_private'') = to_is_private o1"
  by (auto simp: row_metadata_def user_message_def assistant_message_def new_message_def message_metadata_def
      put_if_some_def dict_get_def map_of_dict_setdefault map_of_dict_merge split: option.splits)

theorem persisted_turn_reads_back:
  assumes "history_ok db" "find_turn (ti_turn_id ti) db = None" "persist_once now ti o1 db = Inr db'"
    and "to_user_text o1 \<noteq> []" "to_assistant_text o1 \<noteq> []"
  shows "\<exists>u a. list_for_turn (ti_turn_id ti) db' = Inr [u, a]
     \<and> cm_role u = USER \<and> cm_content u = to_user_text o1 \<and> cm_id u = turn_message_id (ti_turn_id ti) 0
     \<and> cm_role a = ASSISTANT \<and> cm_content a = to_assistant_text o1 \<and> cm_id a = turn_message_id (ti_turn_id ti) 1
     \<and> message_private u = to_is_private o1 \<and> message_private a = to_is_private o1"
proof -
  let ?t = "ti_turn_id ti"
  let ?u = "message_to_row ?t (user_message ti o1) (Some 0)" and ?a = "message_to_row ?t (assistant_message ti o1) (Some 1)"
  have none: "\<forall>r \<in> set (db_messages db). mg_turn_id r \<noteq> ?t"
  proof
    fix r assume "r \<in> set (db_messages db)"
    then have "mg_turn_id r \<in> tn_id ` set (db_turns db)"
      using assms(1) by (simp add: history_ok_def db_ok_def fk_messages_def)
    moreover have "?t \<notin> tn_id ` set (db_turns db)" using assms(2) by (simp add: find_turn_None)
    ultimately show "mg_turn_id r \<noteq> ?t" by metis
  qed
  obtain db4 where db': "db' = write_messages ti o1 db4" and ms: "db_messages db4 = db_messages db"
    using assms(3)
    by (elim persist_once_cases) (auto simp: upsert_turn_def split: option.splits)
  have "db_messages db' = db_messages db @ [?u, ?a]"
  proof -
    let ?db5 = "upsert_message ?t 0 (user_message ti o1) db4"
    have m5: "db_messages ?db5 = db_messages db @ [?u]"
      using none ms by (subst upsert_message_new) auto
    have "db_messages (upsert_message ?t 1 (assistant_message ti o1) ?db5) = db_messages ?db5 @ [?a]"
      using none by (intro upsert_message_new) (auto simp: m5)
    then show ?thesis using assms(4,5) by (simp add: db' write_messages_def Let_def m5)
  qed
  then have "turn_messages ?t db' = [?u, ?a]" using none by (simp add: turn_messages_def filter_empty_conv)
  moreover obtain u a where ua: "row_to_message None None ?u = Inr u" "row_to_message None None ?a = Inr a"
    using row_back_total by blast
  ultimately have l: "list_for_turn ?t db' = Inr [u, a]" by (simp add: list_for_turn_def)
  have f: "cm_role (user_message ti o1) = USER" "cm_content (user_message ti o1) = to_user_text o1"
    "cm_id (user_message ti o1) = turn_message_id ?t 0" "cm_role (assistant_message ti o1) = ASSISTANT"
    "cm_content (assistant_message ti o1) = to_assistant_text o1" "cm_id (assistant_message ti o1) = turn_message_id ?t 1"
    by (simp_all add: user_message_def assistant_message_def new_message_def)
  from l row_back [OF ua(1)] row_back [OF ua(2)] show ?thesis
    unfolding f private_metadata by blast
qed


section \<open>A repeated write\<close>

text \<open>The database already holds what a persist of the turn writes.\<close>

definition turn_written :: "datetime \<Rightarrow> turn_input \<Rightarrow> string \<Rightarrow> turn_outcome \<Rightarrow> runtime_db \<Rightarrow> bool" where
  "turn_written now ti sid o1 db \<longleftrightarrow>
     sid \<in> rs_session_id ` set (db_sessions db)
   \<and> (\<forall>s \<in> set (db_sessions db). rs_session_id s = sid \<longrightarrow> touch_session now ti s = s)
   \<and> (\<forall>c \<in> set (db_conversations db). cv_id c = ti_conversation_id ti \<longrightarrow> touch_conversation ti sid o1 c = c)
   \<and> (\<forall>t \<in> set (db_turns db). tn_id t = ti_turn_id ti \<longrightarrow> update_turn_row ti sid o1 t = t)"

definition slot_written :: "string \<Rightarrow> int \<Rightarrow> chat_message \<Rightarrow> runtime_db \<Rightarrow> bool" where
  "slot_written tid seq m db \<longleftrightarrow>
     (\<exists>r \<in> set (db_messages db). mg_turn_id r = tid \<and> mg_seq r = seq)
   \<and> (\<forall>r \<in> set (db_messages db). mg_turn_id r = tid \<and> mg_seq r = seq \<longrightarrow>
        (message_to_row tid m (Some seq))\<lparr>mg_id := mg_id r\<rparr> = r)"

lemma upsert_message_same: "slot_written tid seq m db \<Longrightarrow> upsert_message tid seq m db = db"
  by (auto simp: slot_written_def upsert_message_def Let_def map_if_same)

lemma upsert_message_written: "slot_written tid seq m (upsert_message tid seq m db)"
proof (cases "\<exists>r \<in> set (db_messages db). mg_turn_id r = tid \<and> mg_seq r = seq")
  case True
  then obtain r where r: "r \<in> set (db_messages db)" "mg_turn_id r = tid \<and> mg_seq r = seq" by blast
  let ?new = "(message_to_row tid m (Some seq))\<lparr>mg_id := mg_id r\<rparr>"
  have "?new \<in> set (db_messages (upsert_message tid seq m db))"
    using True r by (auto simp: upsert_message_def Let_def intro!: image_eqI [of _ _ r])
  moreover have "mg_turn_id ?new = tid \<and> mg_seq ?new = seq" by simp
  moreover have "\<forall>x \<in> set (db_messages (upsert_message tid seq m db)). mg_turn_id x = tid \<and> mg_seq x = seq
      \<longrightarrow> (message_to_row tid m (Some seq))\<lparr>mg_id := mg_id x\<rparr> = x"
    using True by (auto simp: upsert_message_def Let_def)
  ultimately show ?thesis unfolding slot_written_def by blast
next
  case False
  then show ?thesis by (auto simp: slot_written_def upsert_message_def Let_def)
qed

lemma slot_written_other:
  "slot_written tid seq m db \<Longrightarrow> seq \<noteq> seq' \<Longrightarrow> slot_written tid seq m (upsert_message tid seq' m' db)"
  by (auto simp: slot_written_def upsert_message_def Let_def split: if_splits)

lemma write_messages_idem: "write_messages ti o1 (write_messages ti o1 db) = write_messages ti o1 db"
  by (simp add: write_messages_def Let_def upsert_message_same upsert_message_written slot_written_other)

lemma touch_idem [simp]:
  "touch_session now ti (touch_session now ti s) = touch_session now ti s"
  "touch_conversation ti sid o1 (touch_conversation ti sid o1 c) = touch_conversation ti sid o1 c"
  "rs_session_id (touch_session now ti s) = rs_session_id s"
  by (simp_all add: touch_session_def touch_conversation_def)

lemma outcome_entries_distinct:
  "distinct (map fst (outcome_metrics o1 @ [(''model'', jopt_str (to_model_id o1)), (''error_code'', jopt_str (to_error_code o1))]))"
  by (simp add: outcome_metrics_def)

lemma update_turn_row_idem [simp]: "update_turn_row ti sid o1 (update_turn_row ti sid o1 t) = update_turn_row ti sid o1 t"
  by (simp add: update_turn_row_def dict_merge_idem [OF outcome_entries_distinct])

lemma update_new_turn_row [simp]: "update_turn_row ti sid o1 (new_turn_row ti sid n o1) = new_turn_row ti sid n o1"
proof -
  have "dict_merge (turn_metrics_json ti o1)
      (outcome_metrics o1 @ [(''model'', jopt_str (to_model_id o1)), (''error_code'', jopt_str (to_error_code o1))])
    = turn_metrics_json ti o1"
    by (rule dict_merge_same) (simp add: turn_metrics_json_def outcome_metrics_def)
  then show ?thesis by (simp add: update_turn_row_def new_turn_row_def)
qed

lemma write_messages_simps [simp]:
  "db_sessions (write_messages ti o1 db) = db_sessions db"
  "db_conversations (write_messages ti o1 db) = db_conversations db"
  "db_turns (write_messages ti o1 db) = db_turns db"
  by (simp_all add: write_messages_def Let_def)

lemma turn_metadata_lookup:
  "dict_get_or (turn_metadata_json ti sid triage timings) ''provisional_memory_save'' d
     = JBool (tx_provisional_memory_save (ti_context ti))"
  "dict_get_or (turn_metadata_json ti sid triage timings) ''provisional_memory_recall'' d
     = JBool (tx_provisional_memory_recall (ti_context ti))"
  "dict_get (turn_metadata_json ti sid triage timings) ''person_id'' = jopt_str (tx_person_id (ti_context ti))"
  "dict_get (turn_metadata_json ti sid triage timings) ''person_revision'' = jopt_int (tx_person_revision (ti_context ti))"
  "dict_get (turn_metadata_json ti sid triage timings) ''identity_epoch'' = jopt_int (tx_identity_epoch (ti_context ti))"
  "dict_get (turn_metadata_json ti sid triage timings) ''memory_realm_id'' = JStr (tx_memory_realm_id (ti_context ti))"
  by (simp_all add: turn_metadata_json_def Let_def dict_get_def dict_get_or_def map_of_dict_merge)

lemma written_turn_scope:
  assumes "tn_conversation_id t = ti_conversation_id ti"
    and "tn_metadata t = turn_metadata_json ti sid triage timings"
  shows "verify_existing_turn_scope t ti = Inr ()"
  using assms by (simp add: verify_existing_turn_scope_def Let_def turn_metadata_lookup del: py_eq.simps) (simp add: py_eq_JStr)

lemma update_turn_row_simps [simp]:
  "tn_id (update_turn_row ti sid o1 t) = tn_id t"
  "tn_conversation_id (update_turn_row ti sid o1 t) = tn_conversation_id t"
  "tn_metadata (update_turn_row ti sid o1 t) = turn_metadata_json ti sid (to_triage o1) (to_timings o1)"
  by (simp_all add: update_turn_row_def)

lemma verify_touched:
  assumes "verify_conversation_scope row ti = Inr ()"
  shows "verify_conversation_scope (touch_conversation ti sid o1 row) ti = Inr ()"
proof (cases "shared_room ti \<or> (py_eq (dict_get (cv_metadata row) ''source_session_id'')
      (dict_get (cv_metadata row) ''session_id'') \<and> dict_get (cv_metadata row) ''source_session_id'' \<noteq> JNull)")
  case True
  with assms have "shared_room ti \<and> cv_owner_id row = tx_owner_id (ti_context ti)
      \<and> cv_companion_id row = tx_companion_id (ti_context ti) \<and> cv_source_device_id row = tx_device_id (ti_context ti)
      \<and> py_eq (dict_get (cv_metadata row) ''source_session_id'') (jopt_str (tx_source_session_id (ti_context ti)))
      \<and> py_eq (dict_get (cv_metadata row) ''session_id'') (JStr (ti_session_id ti))"
    unfolding verify_conversation_scope_def Let_def by (simp split: if_split_asm del: py_eq.simps)
  then show ?thesis
    unfolding verify_conversation_scope_def Let_def by (simp del: py_eq.simps)
next
  case False
  then have "\<not> shared_room ti" and room: "\<not> (py_eq (dict_get (cv_metadata row) ''source_session_id'')
      (dict_get (cv_metadata row) ''session_id'') \<and> dict_get (cv_metadata row) ''source_session_id'' \<noteq> JNull)" by blast+
  from verify_personal [OF assms this] this show ?thesis
    unfolding verify_conversation_scope_def Let_def touch_conversation_simps by (simp only: if_False simp_thms) (metis)
qed

lemma find_map_same:
  "(\<And>x. k (f x) = k x) \<Longrightarrow> List.find (\<lambda>x. k x = i) (map (\<lambda>x. if k x = i then f x else x) xs)
     = map_option f (List.find (\<lambda>x. k x = i) xs)"
  by (induction xs) auto

lemma find_turn_upsert:
  assumes "check_turn_scope ti db = Inr existing"
  shows "\<exists>t. find_turn (ti_turn_id ti) (upsert_turn ti sid o1 existing db) = Some t
     \<and> tn_conversation_id t = ti_conversation_id ti
     \<and> tn_metadata t = turn_metadata_json ti sid (to_triage o1) (to_timings o1)"
proof -
  have ex: "existing = find_turn (ti_turn_id ti) db"
    using assms by (auto simp: check_turn_scope_def split: option.splits sum.splits)
  show ?thesis
  proof (cases existing)
    case None
    then have "List.find (\<lambda>t. tn_id t = ti_turn_id ti) (db_turns db) = None" using ex by (simp add: find_turn_def)
    moreover have "List.find P (xs @ [y]) = (case List.find P xs of None \<Rightarrow> if P y then Some y else None | z \<Rightarrow> z)"
      for P xs and y :: turn_row by (induction xs) auto
    ultimately show ?thesis by (simp add: None upsert_turn_def find_turn_def new_turn_row_def)
  next
    case (Some t)
    then have f: "List.find (\<lambda>t. tn_id t = ti_turn_id ti) (db_turns db) = Some t"
      and v: "verify_existing_turn_scope t ti = Inr ()"
      using ex assms by (auto simp: find_turn_def check_turn_scope_def split: sum.splits)
    from v have "tn_conversation_id t = ti_conversation_id ti"
      by (simp add: verify_existing_turn_scope_def Let_def split: if_split_asm)
    then show ?thesis
      by (simp add: Some upsert_turn_def find_turn_def find_map_same [of tn_id] f)
  qed
qed

lemma persist_writes:
  assumes "persist_once now ti o1 db = Inr db'" "runtime_session_id ti = Inr sid"
  shows "turn_written now ti sid o1 db'"
    and "\<exists>row. find_conversation (ti_conversation_id ti) db' = Some row \<and> verify_conversation_scope row ti = Inr ()"
    and "\<exists>t. find_turn (ti_turn_id ti) db' = Some t \<and> verify_existing_turn_scope t ti = Inr ()"
    and "write_messages ti o1 db' = db'"
proof -
  obtain sid' md row existing where sid': "runtime_session_id ti = Inr sid'" and
    row: "check_scope ti (insert_conversation (new_conversation ti md (Some sid') (to_started_at o1) (to_finished_at o1))
        (upsert_session now ti sid' db)) = Inr row" and
    ex: "check_turn_scope ti (set_conversation (ti_conversation_id ti) (touch_conversation ti sid' o1)
        (insert_conversation (new_conversation ti md (Some sid') (to_started_at o1) (to_finished_at o1))
          (upsert_session now ti sid' db))) = Inr existing" and
    db': "db' = write_messages ti o1 (upsert_turn ti sid' o1 existing
        (set_conversation (ti_conversation_id ti) (touch_conversation ti sid' o1)
          (insert_conversation (new_conversation ti md (Some sid') (to_started_at o1) (to_finished_at o1))
            (upsert_session now ti sid' db))))"
    using assms(1) by (rule persist_once_cases)
  from sid' assms(2) have s: "sid' = sid" by simp
  let ?db2 = "insert_conversation (new_conversation ti md (Some sid) (to_started_at o1) (to_finished_at o1))
        (upsert_session now ti sid db)"
  let ?db3 = "set_conversation (ti_conversation_id ti) (touch_conversation ti sid o1) ?db2"
  note row = row [unfolded s] and ex = ex [unfolded s] and db' = db' [unfolded s]
  have sess: "db_sessions db' = touched_sessions now ti sid db"
    by (simp add: db' upsert_turn_def upsert_session_sessions split: option.splits)
  have "sid \<in> set (map rs_session_id (touched_sessions now ti sid db))"
    unfolding touched_sessions_ids by (simp del: set_map)
  then have in_sess: "sid \<in> rs_session_id ` set (db_sessions db')" by (simp add: sess)
  have touched: "\<forall>s \<in> set (db_sessions db'). rs_session_id s = sid \<longrightarrow> touch_session now ti s = s"
    unfolding sess by (auto simp: touched_sessions_def upsert_session_def split: if_splits)
  have conv: "db_conversations db' = db_conversations ?db3"
    by (simp add: db' upsert_turn_def split: option.splits)
  then have "\<forall>c \<in> set (db_conversations db'). cv_id c = ti_conversation_id ti \<longrightarrow> touch_conversation ti sid o1 c = c"
    by (auto simp: set_conversation_def)
  moreover have turns: "db_turns db' = db_turns (upsert_turn ti sid o1 existing ?db3)" by (simp add: db')
  have "\<forall>t \<in> set (db_turns db'). tn_id t = ti_turn_id ti \<longrightarrow> update_turn_row ti sid o1 t = t"
  proof (cases existing)
    case None
    then have "\<forall>t \<in> set (db_turns ?db3). tn_id t \<noteq> ti_turn_id ti"
      using ex by (auto simp: check_turn_scope_def find_turn_None image_iff split: option.splits sum.splits)
    then show ?thesis by (auto simp: turns upsert_turn_def None)
  next
    case (Some t)
    then show ?thesis by (auto simp: turns upsert_turn_def)
  qed
  ultimately show "turn_written now ti sid o1 db'" using in_sess touched by (simp add: turn_written_def)
  from check_scope_row [OF row] have f: "find_conversation (ti_conversation_id ti) ?db2 = Some row"
    and v: "verify_conversation_scope row ti = Inr ()" .
  have "find_conversation (ti_conversation_id ti) ?db3 = Some (touch_conversation ti sid o1 row)"
    using f unfolding find_conversation_def set_conversation_def by (simp add: find_map_same [of cv_id])
  then show "\<exists>row. find_conversation (ti_conversation_id ti) db' = Some row \<and> verify_conversation_scope row ti = Inr ()"
    using verify_touched [OF v] by (simp add: find_conversation_def conv)
  from find_turn_upsert [OF ex, of sid o1] written_turn_scope
  show "\<exists>t. find_turn (ti_turn_id ti) db' = Some t \<and> verify_existing_turn_scope t ti = Inr ()"
    unfolding find_turn_def turns by blast
  show "write_messages ti o1 db' = db'" by (simp add: db' write_messages_idem)
qed

text \<open>
  Persisting is idempotent: writing the same finished turn again succeeds and leaves the whole
  database as it is, so a retried or repeated finalizer neither duplicates nor changes anything.
\<close>

theorem persist_idempotent:
  assumes "persist_once now ti o1 db = Inr db'"
  shows "persist_once now ti o1 db' = Inr db'"
proof -
  obtain sid md where sid: "runtime_session_id ti = Inr sid" and md: "conversation_metadata ti = Inr md"
    using assms by (rule persist_once_cases) blast
  note w = persist_writes [OF assms sid]
  let ?new = "new_conversation ti md (Some sid) (to_started_at o1) (to_finished_at o1)"
  have s: "upsert_session now ti sid db' = db'"
    using w(1) by (auto simp: turn_written_def upsert_session_def map_if_same)
  obtain row where row: "find_conversation (ti_conversation_id ti) db' = Some row" "verify_conversation_scope row ti = Inr ()"
    using w(2) by blast
  have "ti_conversation_id ti \<in> cv_id ` set (db_conversations db')"
    using find_conversation_Some [OF row(1)] by (metis imageI)
  then have i: "insert_conversation ?new db' = db'" by (simp add: insert_conversation_def new_conversation_def)
  have c: "set_conversation (ti_conversation_id ti) (touch_conversation ti sid o1) db' = db'"
    using w(1) by (simp add: turn_written_def set_conversation_def map_if_same)
  obtain t where t: "find_turn (ti_turn_id ti) db' = Some t" "verify_existing_turn_scope t ti = Inr ()" using w(3) by blast
  have u: "upsert_turn ti sid o1 (Some t) db' = db'"
    using w(1) by (simp add: turn_written_def upsert_turn_def map_if_same)
  show ?thesis
    by (simp add: persist_once_def sid md Let_def s i c check_scope_def row check_turn_scope_def t u w(4))
qed


section \<open>A concrete turn\<close>

definition demo_tx :: turn_context where
  "demo_tx = \<lparr>tx_owner_id = ''o1'', tx_companion_id = ''c1'', tx_device_id = Some ''d1'',
     tx_memory_realm_id = ''realm'', tx_genome_id = ''g'', tx_trace_id = ''tr'', tx_request_id = ''rq'',
     tx_person_id = Some ''p1'', tx_identity_epoch = Some 1, tx_person_revision = Some 2,
     tx_schema_version = ''v1'', tx_genome_hash = ''h'', tx_realizer_version = ''r'', tx_locale = ''zh'',
     tx_memory_enabled = True, tx_speaker_observation = None, tx_source_session_id = None,
     tx_provisional_memory_save = False, tx_provisional_memory_recall = False\<rparr>"

definition demo_ti :: turn_input where
  "demo_ti = \<lparr>ti_turn_id = ''t1'', ti_conversation_id = ''k1'', ti_session_id = ''s1'', ti_context = demo_tx,
     ti_input_modality = Voice, ti_trigger = USER_UTTERANCE, ti_text = Some [104, 105], ti_metadata = []\<rparr>"

definition demo_outcome :: turn_outcome where
  "demo_outcome = \<lparr>to_status = OK, to_triage = SIMPLE, to_started_at = demo_time, to_finished_at = demo_time,
     to_first_delta_ms = Some 10, to_total_ms = 20, to_usage_in = 3, to_usage_out = 4, to_error_code = None,
     to_timings = [(''turn_trace'', JDict [])], to_user_text = [104, 105], to_assistant_text = [104, 111],
     to_is_private = False, to_model_id = Some ''m''\<rparr>"

lemma history_ok_empty: "history_ok empty_db"
  using db_ok_empty by (simp add: history_ok_def message_ids_def empty_db_def)

lemma demo_persist: "\<exists>db'. persist_once demo_time demo_ti demo_outcome empty_db = Inr db'"
proof -
  have "is_ok (persist_once demo_time demo_ti demo_outcome empty_db)" by code_simp
  then show ?thesis by (simp add: is_ok_iff)
qed

lemma demo_guard: "\<exists>db'. conversation_guard demo_time demo_ti empty_db = Inr db'
    \<and> (\<exists>db2. conversation_guard demo_time (demo_ti\<lparr>ti_turn_id := ''t2''\<rparr>) db' = Inr db2)"
proof -
  have "case conversation_guard demo_time demo_ti empty_db of Inl e \<Rightarrow> False
      | Inr db' \<Rightarrow> is_ok (conversation_guard demo_time (demo_ti\<lparr>ti_turn_id := ''t2''\<rparr>) db')" by code_simp
  then show ?thesis by (auto simp: is_ok_iff split: sum.splits)
qed

theorem turn_writes_keep_history_ok_witness:
  "\<exists>db'. persist_once demo_time demo_ti demo_outcome empty_db = Inr db' \<and> history_ok db'"
proof -
  obtain db' where p: "persist_once demo_time demo_ti demo_outcome empty_db = Inr db'" using demo_persist by blast
  have "conversation_guard demo_time demo_ti empty_db = Inr db' \<or> persist_once demo_time demo_ti demo_outcome empty_db = Inr db'"
    using p by blast
  from turn_writes_keep_history_ok [OF history_ok_empty this] p show ?thesis by blast
qed


lemma collect_total: "\<forall>r \<in> set rs. is_ok r \<Longrightarrow> is_ok (collect rs)"
  by (induction rs rule: collect.induct) (auto split: sum.splits)

lemma hydrate_total:
  assumes "\<forall>m \<in> set (db_messages db). is_ok (role_of_value (mg_role m))"
  shows "is_ok (hydrate cid window db)"
  unfolding hydrate_def Let_def
proof (rule collect_total, safe)
  fix r assume "r \<in> set (map (\<lambda>(m, t). row_to_message (Some (tn_status t)) (Some (tn_started_at t)) m)
      (drop (length (conversation_rows cid db) - window) (conversation_rows cid db)))"
  then obtain m t where r: "r = row_to_message (Some (tn_status t)) (Some (tn_started_at t)) m"
    and "(m, t) \<in> set (conversation_rows cid db)" by (auto dest: in_set_dropD)
  then have "m \<in> set (db_messages db)" by (auto simp: conversation_rows_def)
  with assms obtain role where "role_of_value (mg_role m) = Inr role" by (auto simp: is_ok_iff)
  then show "is_ok r" by (simp add: r row_to_message_def Let_def)
qed

theorem hydrate_is_ordered_tail_witness:
  "\<exists>db' ms. persist_once demo_time demo_ti demo_outcome empty_db = Inr db' \<and> hydrate ''k1'' 1 db' = Inr ms
     \<and> length ms = min 1 (length (conversation_rows ''k1'' db'))"
proof -
  have "case persist_once demo_time demo_ti demo_outcome empty_db of Inl e \<Rightarrow> False
      | Inr db' \<Rightarrow> \<forall>m \<in> set (db_messages db'). is_ok (role_of_value (mg_role m))" by code_simp
  then obtain db' where p: "persist_once demo_time demo_ti demo_outcome empty_db = Inr db'"
    and r: "\<forall>m \<in> set (db_messages db'). is_ok (role_of_value (mg_role m))" by (auto split: sum.splits)
  from hydrate_total [OF r, of "''k1''" 1] obtain ms where h: "hydrate ''k1'' 1 db' = Inr ms"
    unfolding is_ok_iff by blast
  from hydrate_is_ordered_tail [OF h] p h show ?thesis by blast
qed

theorem persisted_turn_reads_back_witness:
  "\<exists>db' u a. persist_once demo_time demo_ti demo_outcome empty_db = Inr db' \<and> list_for_turn ''t1'' db' = Inr [u, a]
     \<and> cm_content u = [104, 105] \<and> cm_content a = [104, 111]"
proof -
  obtain db' where p: "persist_once demo_time demo_ti demo_outcome empty_db = Inr db'" using demo_persist by blast
  have n: "find_turn (ti_turn_id demo_ti) empty_db = None" by (simp add: find_turn_def empty_db_def)
  have u: "to_user_text demo_outcome \<noteq> []" "to_assistant_text demo_outcome \<noteq> []" by (simp_all add: demo_outcome_def)
  have d: "ti_turn_id demo_ti = ''t1''" "to_user_text demo_outcome = [104, 105]"
    "to_assistant_text demo_outcome = [104, 111]" by (simp_all add: demo_ti_def demo_outcome_def)
  from persisted_turn_reads_back [OF history_ok_empty n p u] p show ?thesis unfolding d by blast
qed

theorem persist_idempotent_witness:
  "\<exists>db'. persist_once demo_time demo_ti demo_outcome empty_db = Inr db'
     \<and> persist_once demo_time demo_ti demo_outcome db' = Inr db'"
proof -
  obtain db' where p: "persist_once demo_time demo_ti demo_outcome empty_db = Inr db'" using demo_persist by blast
  from persist_idempotent [OF p] p show ?thesis by blast
qed

end
