(* ===== verification/Agent_Registry.thy ===== *)
theory Agent_Registry
  imports Py_Prelude Py_Time
begin

text \<open>
  The registry of live companion runtimes: \<open>AgentInstance\<close> and \<open>AgentRegistry\<close> of
  \<open>domain/agent/registry.py\<close>. The dict of instances is keyed by one string built from the three ids;
  \<open>resolve_runtime\<close> holds the lock while the factory runs, so it is one step. The factory (what it
  builds, or the exception it raises) is an argument. Instants are the microseconds of
  \<open>datetime.now(timezone.utc)\<close>.
\<close>

section \<open>State and operations\<close>

record 'a agent_instance =
  ai_owner_id :: string
  ai_companion_id :: string
  ai_genome_id :: string
  ai_nickname_alias :: "string option"
  ai_status :: string
  ai_created_at :: instant
  ai_last_active_at :: "instant option"
  ai_agent :: "'a option"

type_synonym 'a agent_registry = "(string \<times> 'a agent_instance) list"

definition list_instances :: "'a agent_registry \<Rightarrow> 'a agent_instance list" where
  "list_instances reg = map snd reg"

text \<open>The last use of an instance: \<open>inst.last_active_at or inst.created_at\<close>.\<close>

definition last_use :: "'a agent_instance \<Rightarrow> instant" where
  "last_use i = (case ai_last_active_at i of None \<Rightarrow> ai_created_at i | Some t \<Rightarrow> t)"

definition for_owner :: "string \<Rightarrow> 'a agent_registry \<Rightarrow> 'a agent_instance list" where
  "for_owner owner reg = sort_key_desc last_use (filter (\<lambda>i. ai_owner_id i = owner) (list_instances reg))"

definition runtime_key :: "string \<Rightarrow> string \<Rightarrow> string \<Rightarrow> string" where
  "runtime_key owner companion genome = owner @ '':'' @ companion @ '':'' @ genome"

definition new_instance :: "string \<Rightarrow> string \<Rightarrow> string \<Rightarrow> instant \<Rightarrow> 'a agent_instance" where
  "new_instance owner companion genome now =
     \<lparr>ai_owner_id = owner, ai_companion_id = companion, ai_genome_id = genome, ai_nickname_alias = None,
      ai_status = ''active'', ai_created_at = now, ai_last_active_at = Some now, ai_agent = None\<rparr>"

text \<open>\<open>(genome_id or "").strip()\<close>.\<close>

definition pinned_genome :: "string option \<Rightarrow> string" where
  "pinned_genome g = (case g of None \<Rightarrow> [] | Some s \<Rightarrow> py_strip s)"

definition resolve_runtime ::
  "('a agent_instance \<Rightarrow> 'a result) \<Rightarrow> instant \<Rightarrow> string \<Rightarrow> string \<Rightarrow> string option \<Rightarrow> 'a agent_registry
     \<Rightarrow> 'a agent_instance result \<times> 'a agent_registry" where
  "resolve_runtime factory now owner companion genome_id reg =
     (let genome = pinned_genome genome_id; key = runtime_key owner companion genome
      in if genome = [] then (Inl (NotFoundError ''runtime binding does not pin a persona genome''), reg)
         else case map_of reg key of
           Some i \<Rightarrow> (let i' = i\<lparr>ai_last_active_at := Some now\<rparr> in (Inr i', dict_put key i' reg))
         | None \<Rightarrow>
             (let i = new_instance owner companion genome now
              in case factory i of
                   Inl e \<Rightarrow> (Inl e, reg)
                 | Inr a \<Rightarrow> (let i' = i\<lparr>ai_agent := Some a\<rparr> in (Inr i', dict_put key i' reg))))"


section \<open>Properties\<close>

text \<open>A request of the running system: the factory's answer, the time and the three ids.\<close>

record 'a runtime_request =
  rr_factory :: "'a agent_instance \<Rightarrow> 'a result"
  rr_now :: instant
  rr_owner :: string
  rr_companion :: string
  rr_genome :: "string option"

definition serve_request :: "'a runtime_request \<Rightarrow> 'a agent_registry \<Rightarrow> 'a agent_registry" where
  "serve_request q reg = snd (resolve_runtime (rr_factory q) (rr_now q) (rr_owner q) (rr_companion q) (rr_genome q) reg)"

definition plain_id :: "string \<Rightarrow> bool" where
  "plain_id s = (CHR '':'' \<notin> set s)"

lemma split_at_first_colon:
  "plain_id a \<Longrightarrow> plain_id b \<Longrightarrow> a @ CHR '':'' # x = b @ CHR '':'' # y \<Longrightarrow> a = b \<and> x = y"
proof (induction a arbitrary: b)
  case Nil
  then show ?case by (cases b) (auto simp: plain_id_def)
next
  case (Cons c a)
  then show ?case by (cases b) (auto simp: plain_id_def)
qed

lemma runtime_key_inj:
  assumes "plain_id a" "plain_id b" "plain_id a'" "plain_id b'" "runtime_key a b c = runtime_key a' b' c'"
  shows "a = a' \<and> b = b' \<and> c = c'"
  using assms split_at_first_colon [of a a' "b @ CHR '':'' # c" "b' @ CHR '':'' # c'"]
    split_at_first_colon [of b b' c c']
  by (auto simp: runtime_key_def)

definition registry_ok :: "'a agent_registry \<Rightarrow> bool" where
  "registry_ok reg =
     (distinct (map fst reg)
        \<and> (\<forall>(k, i) \<in> set reg. plain_id (ai_owner_id i) \<and> plain_id (ai_companion_id i) \<and> ai_agent i \<noteq> None
             \<and> k = runtime_key (ai_owner_id i) (ai_companion_id i) (ai_genome_id i)))"

lemma set_dict_put_subset: "set (dict_put k v d) \<subseteq> insert (k, v) (set d)"
  by (induction d) auto

lemma registry_ok_put:
  assumes "registry_ok reg" "plain_id (ai_owner_id i)" "plain_id (ai_companion_id i)" "ai_agent i \<noteq> None"
    "k = runtime_key (ai_owner_id i) (ai_companion_id i) (ai_genome_id i)"
  shows "registry_ok (dict_put k i reg)"
  using assms set_dict_put_subset [of k i reg] distinct_dict_put [of reg k i]
  unfolding registry_ok_def by blast

lemma registry_lookup:
  assumes "registry_ok reg" "plain_id owner" "plain_id companion" "map_of reg (runtime_key owner companion genome) = Some i"
  shows "ai_owner_id i = owner \<and> ai_companion_id i = companion \<and> ai_genome_id i = genome \<and> ai_agent i \<noteq> None"
proof -
  have "(runtime_key owner companion genome, i) \<in> set reg" using assms(4) by (rule map_of_SomeD)
  then have i: "plain_id (ai_owner_id i)" "plain_id (ai_companion_id i)" "ai_agent i \<noteq> None"
    "runtime_key owner companion genome = runtime_key (ai_owner_id i) (ai_companion_id i) (ai_genome_id i)"
    using assms(1) unfolding registry_ok_def by auto
  show ?thesis using runtime_key_inj [OF assms(2,3) i(1,2,4)] i(3) by simp
qed

lemma resolve_runtime_facts:
  assumes "registry_ok reg" "plain_id owner" "plain_id companion"
    "resolve_runtime factory now owner companion g reg = (r, reg')"
  shows "registry_ok reg'"
    and "r = Inr i \<Longrightarrow> ai_owner_id i = owner \<and> ai_companion_id i = companion \<and> ai_genome_id i = pinned_genome g
           \<and> ai_agent i \<noteq> None \<and> ai_last_active_at i = Some now \<and> map_of reg' (runtime_key owner companion (pinned_genome g)) = Some i"
    and "k \<noteq> runtime_key owner companion (pinned_genome g) \<Longrightarrow> map_of reg' k = map_of reg k"
    and "r = Inl e \<Longrightarrow> reg' = reg"
proof -
  let ?key = "runtime_key owner companion (pinned_genome g)"
  have "registry_ok reg' \<and> (\<forall>i. r = Inr i \<longrightarrow> ai_owner_id i = owner \<and> ai_companion_id i = companion \<and> ai_genome_id i = pinned_genome g
           \<and> ai_agent i \<noteq> None \<and> ai_last_active_at i = Some now \<and> map_of reg' ?key = Some i)
     \<and> (\<forall>k. k \<noteq> ?key \<longrightarrow> map_of reg' k = map_of reg k) \<and> (\<forall>e. r = Inl e \<longrightarrow> reg' = reg)"
  proof (cases "pinned_genome g = []")
    case True
    with assms(1,4) show ?thesis by (auto simp: resolve_runtime_def Let_def)
  next
    case False
    show ?thesis
    proof (cases "map_of reg ?key")
      case (Some i)
      note found = registry_lookup [OF assms(1-3) Some]
      have "registry_ok (dict_put ?key (i\<lparr>ai_last_active_at := Some now\<rparr>) reg)"
        by (rule registry_ok_put) (use assms(1-3) found in simp_all)
      with assms(4) False Some found show ?thesis by (auto simp: resolve_runtime_def Let_def)
    next
      case None
      have "registry_ok (dict_put ?key ((new_instance owner companion (pinned_genome g) now)\<lparr>ai_agent := Some a\<rparr>) reg)" for a
        by (rule registry_ok_put) (use assms(1-3) in \<open>simp_all add: new_instance_def\<close>)
      with assms(1,4) False None show ?thesis
        by (auto simp: resolve_runtime_def Let_def new_instance_def split: sum.splits)
    qed
  qed
  then show "registry_ok reg'"
    "r = Inr i \<Longrightarrow> ai_owner_id i = owner \<and> ai_companion_id i = companion \<and> ai_genome_id i = pinned_genome g
           \<and> ai_agent i \<noteq> None \<and> ai_last_active_at i = Some now \<and> map_of reg' ?key = Some i"
    "k \<noteq> ?key \<Longrightarrow> map_of reg' k = map_of reg k" "r = Inl e \<Longrightarrow> reg' = reg"
    by blast+
qed

lemma registry_ok_serve:
  "\<forall>q \<in> set qs. plain_id (rr_owner q) \<and> plain_id (rr_companion q) \<Longrightarrow> registry_ok reg \<Longrightarrow> registry_ok (fold serve_request qs reg)"
proof (induction qs arbitrary: reg)
  case (Cons q qs)
  have "registry_ok (serve_request q reg)"
    unfolding serve_request_def using Cons.prems by (intro resolve_runtime_facts(1) [OF _ _ _ prod.collapse [symmetric]]) auto
  with Cons show ?case by simp
qed simp

text \<open>
  With ids that contain no colon, whatever was resolved before: a resolved runtime is the
  requesting owner's own, for the companion and the genome asked for, with an agent behind it and
  marked as used now; no other runtime of the registry changes; a request that fails (no genome
  pinned, or the factory raised) leaves the registry as it was; and an owner's list holds only that
  owner's runtimes.
\<close>

theorem registry_isolates_owners:
  assumes "\<forall>q \<in> set qs. plain_id (rr_owner q) \<and> plain_id (rr_companion q)" "plain_id owner" "plain_id companion"
    and "reg = fold serve_request qs []"
    and "resolve_runtime factory now owner companion g reg = (r, reg')"
  shows "(\<forall>i. r = Inr i \<longrightarrow> ai_owner_id i = owner \<and> ai_companion_id i = companion \<and> ai_genome_id i = pinned_genome g
            \<and> ai_agent i \<noteq> None \<and> last_use i = now \<and> i \<in> set (for_owner owner reg'))
     \<and> (\<forall>e. r = Inl e \<longrightarrow> reg' = reg)
     \<and> (\<forall>o' c' g'. plain_id o' \<and> plain_id c' \<and> (o', c', g') \<noteq> (owner, companion, pinned_genome g) \<longrightarrow>
            map_of reg' (runtime_key o' c' g') = map_of reg (runtime_key o' c' g'))
     \<and> (\<forall>o'. \<forall>i \<in> set (for_owner o' reg'). ai_owner_id i = o')"
proof -
  have ok: "registry_ok reg"
    unfolding assms(4) by (rule registry_ok_serve [OF assms(1)]) (simp add: registry_ok_def)
  note facts = resolve_runtime_facts [OF ok assms(2,3,5)]
  have listed: "i \<in> set (for_owner owner reg')" if "r = Inr i" for i
    using facts(2) [OF that] by (auto simp: for_owner_def list_instances_def dest!: map_of_SomeD intro: rev_image_eqI)
  have other: "map_of reg' (runtime_key o' c' g') = map_of reg (runtime_key o' c' g')"
    if "plain_id o'" "plain_id c'" "(o', c', g') \<noteq> (owner, companion, pinned_genome g)" for o' c' g'
    using facts(3) runtime_key_inj [OF that(1,2) assms(2,3)] that(3) by blast
  show ?thesis using facts(2,4) listed other by (auto simp: last_use_def for_owner_def)
qed

definition demo_runtime_request :: "string \<Rightarrow> string \<Rightarrow> unit runtime_request" where
  "demo_runtime_request o1 c1 = \<lparr>rr_factory = \<lambda>i. Inr (), rr_now = 1, rr_owner = o1, rr_companion = c1, rr_genome = Some ''g''\<rparr>"

theorem registry_isolates_owners_witness:
  "\<exists>i reg'. resolve_runtime (\<lambda>i. Inr ()) 5 ''o'' ''c'' (Some '' g '')
      (fold serve_request [demo_runtime_request ''p'' ''c''] []) = (Inr i, reg') \<and> ai_owner_id i = ''o'' \<and> last_use i = 5"
proof -
  let ?reg = "fold serve_request [demo_runtime_request ''p'' ''c''] []"
  obtain r reg' where r: "resolve_runtime (\<lambda>i. Inr ()) 5 ''o'' ''c'' (Some '' g '') ?reg = (r, reg')" by (rule prod.exhaust)
  have "is_ok (fst (resolve_runtime (\<lambda>i. Inr ()) 5 ''o'' ''c'' (Some '' g '') ?reg))" by code_simp
  then obtain i where i: "r = Inr i" unfolding r by (cases r) auto
  have "ai_owner_id i = ''o'' \<and> last_use i = 5"
    using registry_isolates_owners [OF _ _ _ refl r] i by (simp add: demo_runtime_request_def plain_id_def)
  with r i show ?thesis by blast
qed

text \<open>
  A colon inside an id defeats the key: two different owners resolve to the same runtime, and the
  second one is handed the first one's.
\<close>

lemma colon_ids_share_runtime:
  "(case fst (resolve_runtime (\<lambda>i. Inr ()) 5 ''o:p'' ''c'' (Some ''g'')
       (fold serve_request [demo_runtime_request ''o'' ''p:c''] [])) of
      Inr i \<Rightarrow> ai_owner_id i = ''o'' | Inl e \<Rightarrow> False)"
  by code_simp

end
