(* ===== verification/History_Fanout.thy ===== *)
theory History_Fanout
  imports Memory_Outbox
begin

text \<open>
  \<open>HistoryFanout\<close> of \<open>domain/history/fanout.py\<close>: how a completed turn is handed to the memory service.
  The actor context, the payloads and the subject of a memory space belong to the memory contracts
  package and are fields of the environment; the outbox is the model's own table. A bus, a route or
  a status sink that raises is a value. The clock is read once.
\<close>

section \<open>Environment and state\<close>

record fanout_request =
  fq_owner_id :: string
  fq_companion_id :: string
  fq_memory_realm_id :: string
  fq_device_id :: "string option"
  fq_session_id :: "string option"
  fq_turn_id :: string
  fq_user_text :: utext
  fq_assistant_text :: utext
  fq_timestamp_iso :: string
  fq_person_id :: "string option"
  fq_identity_epoch :: "int option"
  fq_trace_id :: "string option"
  fq_emotion_payload :: json
  fq_metadata :: "(string \<times> json) list"

record fanout_status =
  fs_turn_id :: string
  fs_owner_id :: string
  fs_companion_id :: string
  fs_memory_realm_id :: string
  fs_memory_space_id :: string
  fs_subject :: "string option"
  fs_state :: string
  fs_error :: "string option"
  fs_recorded_at :: string
  fs_trace_id :: string

text \<open>
  \<open>fe_context\<close> validates the actor context and derives its memory space; \<open>fe_turn\<close> builds the turn
  payload from the space, the request and the payload metadata; \<open>fe_envelope\<close> wraps it with a trace
  id. \<open>fe_outbox\<close>, \<open>fe_bus\<close>, \<open>fe_routes\<close> and \<open>fe_sink\<close> are the four constructor arguments.
\<close>

record 'w fanout_env =
  fe_context :: "fanout_request \<Rightarrow> string result"
  fe_turn :: "string \<Rightarrow> fanout_request \<Rightarrow> (string \<times> json) list \<Rightarrow> (string \<times> json) list result"
  fe_envelope :: "(string \<times> json) list \<Rightarrow> string \<Rightarrow> (string \<times> json) list result"
  fe_subject :: "string \<Rightarrow> string result"
  fe_routes :: "(string \<Rightarrow> 'w \<Rightarrow> string result \<times> 'w) option"
  fe_outbox :: bool
  fe_bus :: "(bus_event \<Rightarrow> 'w \<Rightarrow> unit result \<times> 'w) option"
  fe_sink :: "(fanout_status \<Rightarrow> 'w \<Rightarrow> unit result \<times> 'w) option"
  fe_now :: datetime

record 'w fanout_world =
  fw_rows :: "memory_row list"
  fw_ext :: 'w

definition is_durable :: "'w fanout_env \<Rightarrow> bool" where
  "is_durable env = fe_outbox env"


section \<open>Publishing a turn\<close>

text \<open>\<open>trace_id or turn_id\<close>.\<close>

definition correlation_id :: "fanout_request \<Rightarrow> string" where
  "correlation_id q = (if nonempty_opt (fq_trace_id q) then the (fq_trace_id q) else fq_turn_id q)"

definition fanout_metadata :: "fanout_request \<Rightarrow> (string \<times> json) list" where
  "fanout_metadata q =
     (let base = [(''source'', JStr ''eidolon-agent''), (''source_project'', JStr ''eidolon_agent''),
                  (''source_component'', JStr ''history.fanout''), (''source_turn_id'', JStr (fq_turn_id q)),
                  (''owner_id'', JStr (fq_owner_id q)), (''companion_id'', JStr (fq_companion_id q)),
                  (''memory_realm_id'', JStr (fq_memory_realm_id q))]
      in if fq_metadata q \<noteq> [] then dict_merge base (fq_metadata q) else base)"

definition fanout_status_of ::
  "'w fanout_env \<Rightarrow> fanout_request \<Rightarrow> string \<Rightarrow> string option \<Rightarrow> string \<Rightarrow> string option \<Rightarrow> fanout_status" where
  "fanout_status_of env q space subject state error =
     \<lparr>fs_turn_id = fq_turn_id q, fs_owner_id = fq_owner_id q, fs_companion_id = fq_companion_id q,
      fs_memory_realm_id = fq_memory_realm_id q, fs_memory_space_id = space, fs_subject = subject,
      fs_state = state, fs_error = error, fs_recorded_at = isoformat (fe_now env), fs_trace_id = correlation_id q\<rparr>"

text \<open>\<open>_record_status\<close>: a sink that raises is logged, nothing more.\<close>

definition record_status :: "'w fanout_env \<Rightarrow> fanout_status \<Rightarrow> 'w fanout_world \<Rightarrow> 'w fanout_world" where
  "record_status env st fw =
     (case fe_sink env of None \<Rightarrow> fw | Some sink \<Rightarrow> fw\<lparr>fw_ext := snd (sink st (fw_ext fw))\<rparr>)"

definition fanout_subject ::
  "'w fanout_env \<Rightarrow> string \<Rightarrow> 'w fanout_world \<Rightarrow> string result \<times> 'w fanout_world" where
  "fanout_subject env space fw =
     (case fe_routes env of
        None \<Rightarrow> (fe_subject env space, fw)
      | Some route \<Rightarrow> (case route space (fw_ext fw) of (r, w) \<Rightarrow> (r, fw\<lparr>fw_ext := w\<rparr>)))"

definition fanout_event :: "string \<Rightarrow> (string \<times> json) list \<Rightarrow> string \<Rightarrow> bus_event" where
  "fanout_event subject payload turn_id =
     \<lparr>ev_subject = subject, ev_payload = payload, ev_trace_id = None, ev_source = Some ''history.fanout'',
      ev_metadata = [(''msg_id'', JStr turn_id)]\<rparr>"

text \<open>Awaiting the bus; an absent one raises, as calling a method of \<open>None\<close> does.\<close>

definition fanout_publish :: "'w fanout_env \<Rightarrow> bus_event \<Rightarrow> 'w fanout_world \<Rightarrow> unit result \<times> 'w fanout_world" where
  "fanout_publish env e fw =
     (case fe_bus env of
        None \<Rightarrow> (Inl (OtherError ''AttributeError'' []), fw)
      | Some bus \<Rightarrow> (case bus e (fw_ext fw) of (r, w) \<Rightarrow> (r, fw\<lparr>fw_ext := w\<rparr>)))"

definition enqueue_request :: "fanout_request \<Rightarrow> string \<Rightarrow> (string \<times> json) list \<Rightarrow> memory_turn_request" where
  "enqueue_request q subject payload =
     \<lparr>mq_turn_id = fq_turn_id q, mq_owner_id = fq_owner_id q, mq_companion_id = fq_companion_id q,
      mq_subject = subject, mq_payload = payload, mq_trace_id = Some (correlation_id q)\<rparr>"

text \<open>The body of the \<open>try\<close>: the subject known so far, and the state or the exception.\<close>

definition fanout_deliver ::
  "'w fanout_env \<Rightarrow> fanout_request \<Rightarrow> string \<Rightarrow> (string \<times> json) list \<Rightarrow> 'w fanout_world
     \<Rightarrow> string option \<times> string result \<times> 'w fanout_world" where
  "fanout_deliver env q space payload fw =
     (case fanout_subject env space fw of
        (Inl e, fw1) \<Rightarrow> (None, Inl e, fw1)
      | (Inr subject, fw1) \<Rightarrow>
          (if fe_outbox env
           then (case memory_enqueue (dt_instant (fe_now env)) (enqueue_request q subject payload) (fw_rows fw1) of
                   (r, rows) \<Rightarrow> (Some subject, (case r of Inl e \<Rightarrow> Inl e | Inr u \<Rightarrow> Inr ''queued''), fw1\<lparr>fw_rows := rows\<rparr>))
           else (case fanout_publish env (fanout_event subject payload (fq_turn_id q)) fw1 of
                   (r, fw2) \<Rightarrow> (Some subject, (case r of Inl e \<Rightarrow> Inl e | Inr u \<Rightarrow> Inr ''published''), fw2))))"

definition emotion_fanout ::
  "'w fanout_env \<Rightarrow> fanout_request \<Rightarrow> (string \<times> json) list \<Rightarrow> 'w fanout_world \<Rightarrow> 'w fanout_world" where
  "emotion_fanout env q turn fw =
     (if truthy (fq_emotion_payload q) \<and> fq_person_id q = None
      then snd (fanout_publish env
             (fanout_event (topic_emotion_turn (fq_owner_id q)) (dict_put ''emotion'' (fq_emotion_payload q) turn) (fq_turn_id q)) fw)
      else fw)"

text \<open>\<open>publish_turn\<close>. Building the payloads is outside the \<open>try\<close>: what it raises gets out.\<close>

definition publish_turn :: "'w fanout_env \<Rightarrow> fanout_request \<Rightarrow> 'w fanout_world \<Rightarrow> fanout_status result \<times> 'w fanout_world" where
  "publish_turn env q fw =
     (if fe_bus env = None \<and> \<not> fe_outbox env
      then (let st = fanout_status_of env q (fq_memory_realm_id q) None ''skipped_no_bus'' None
            in (Inr st, record_status env st fw))
      else case fe_context env q of
        Inl e \<Rightarrow> (Inl e, fw)
      | Inr space \<Rightarrow>
     (case fe_turn env space q (fanout_metadata q) of
        Inl e \<Rightarrow> (Inl e, fw)
      | Inr turn \<Rightarrow>
     (case fe_envelope env turn (correlation_id q) of
        Inl e \<Rightarrow> (Inl e, fw)
      | Inr payload \<Rightarrow>
     (case fanout_deliver env q space payload fw of
        (subject, outcome, fw1) \<Rightarrow>
          (let st = (case outcome of
                       Inr state \<Rightarrow> fanout_status_of env q space subject state None
                     | Inl e \<Rightarrow> fanout_status_of env q space subject ''delivery_failed'' (Some (exc_message e)))
           in (Inr st, emotion_fanout env q turn (record_status env st fw1)))))))"


section \<open>Properties\<close>

lemma rows_of_effects [simp]:
  "fw_rows (record_status env st fw) = fw_rows fw"
  "fw_rows (emotion_fanout env q turn fw) = fw_rows fw"
  "fw_rows (snd (fanout_subject env space fw)) = fw_rows fw"
  "fw_rows (snd (fanout_publish env e fw)) = fw_rows fw"
  by (simp_all add: record_status_def emotion_fanout_def fanout_subject_def fanout_publish_def
      split: option.splits prod.splits)

lemma fanout_deliver_outbox:
  assumes "fe_outbox env" "fanout_deliver env q space payload fw = (subject, outcome, fw1)"
  shows "(\<exists>e. outcome = Inl e \<and> subject = None \<and> fw_rows fw1 = fw_rows fw)
     \<or> (\<exists>s. subject = Some s \<and> fw_rows fw1 = memory_insert (dt_instant (fe_now env)) (enqueue_request q s payload) (fw_rows fw)
          \<and> (outcome = Inr ''queued'' \<longleftrightarrow> memory_confirm (enqueue_request q s payload) (fw_rows fw1) = Inr ())
          \<and> (is_ok outcome \<longrightarrow> outcome = Inr ''queued''))"
proof -
  obtain r fw0 where s: "fanout_subject env space fw = (r, fw0)" by (rule prod.exhaust)
  have rows: "fw_rows fw0 = fw_rows fw" using rows_of_effects(3) [of env space fw] by (simp add: s)
  show ?thesis
  proof (cases r)
    case (Inl e)
    then show ?thesis using assms(2) s rows by (auto simp: fanout_deliver_def)
  next
    case (Inr sub)
    let ?rows = "memory_insert (dt_instant (fe_now env)) (enqueue_request q sub payload) (fw_rows fw)"
    show ?thesis
      using assms s Inr rows
      by (cases "memory_confirm (enqueue_request q sub payload) ?rows")
        (auto simp: fanout_deliver_def memory_enqueue_def Let_def)
  qed
qed

lemma find_memory_inserted:
  "find_memory (mq_turn_id q) (memory_insert now q rows) \<noteq> None"
  by (simp add: find_memory_None memory_insert_def)

lemma memory_confirm_ok:
  "memory_confirm q rows = Inr () \<Longrightarrow> \<exists>r \<in> set rows. mo_turn_id r = mq_turn_id q \<and> mo_owner_id r = mq_owner_id q
     \<and> mo_subject r = mq_subject q \<and> py_eq (JDict (mo_payload r)) (JDict (mq_payload q)) \<and> mo_trace_id r = mq_trace_id q"
  by (auto simp: memory_confirm_def split: option.splits if_split_asm dest!: find_memory_Some)

lemma memory_insert_fate:
  "mq_turn_id q \<in> set (map mo_turn_id rows) \<and> memory_insert now q rows = rows
     \<or> mq_turn_id q \<notin> set (map mo_turn_id rows) \<and> (\<exists>r. memory_insert now q rows = rows @ [r] \<and> mo_turn_id r = mq_turn_id q)"
  by (auto simp: memory_insert_def)

lemma confirm_after_insert:
  assumes "memory_rows_ok rows" "dict_ok (JDict (mq_payload q))" "memory_confirm q (memory_insert now q rows) = Inl e"
  shows "mq_turn_id q \<in> set (map mo_turn_id rows)"
proof (rule ccontr)
  assume new: "mq_turn_id q \<notin> set (map mo_turn_id rows)"
  then have "find_memory (mq_turn_id q) rows = None" by (simp only: find_memory_None) simp
  with assms(3) new show False
    using py_eq_refl [OF assms(2)]
    by (auto simp: memory_confirm_def memory_insert_def find_memory_snoc)
qed

lemma delivered_rows:
  assumes "fe_outbox env" "memory_rows_ok (fw_rows fw)" "dict_ok (JDict payload)"
    and "fanout_deliver env q space payload fw = (subject, outcome, fw1)"
  shows "memory_rows_ok (fw_rows fw1)
     \<and> (case outcome of
          Inl e \<Rightarrow> fw_rows fw1 = fw_rows fw
        | Inr state \<Rightarrow> state = ''queued''
            \<and> (\<exists>row \<in> set (fw_rows fw1). mo_turn_id row = fq_turn_id q \<and> mo_owner_id row = fq_owner_id q
                 \<and> Some (mo_subject row) = subject \<and> mo_trace_id row = Some (correlation_id q)))"
proof (cases subject)
  case None
  then obtain e where "outcome = Inl e" "fw_rows fw1 = fw_rows fw"
    using fanout_deliver_outbox [OF assms(1,4)] by blast
  with assms(2) show ?thesis by simp
next
  case (Some s)
  let ?q = "enqueue_request q s payload"
  have rows: "fw_rows fw1 = memory_insert (dt_instant (fe_now env)) ?q (fw_rows fw)"
    and out: "outcome = Inr ''queued'' \<longleftrightarrow> memory_confirm ?q (fw_rows fw1) = Inr ()" "is_ok outcome \<longrightarrow> outcome = Inr ''queued''"
    using fanout_deliver_outbox [OF assms(1,4)] unfolding Some by blast+
  have ok: "memory_rows_ok (fw_rows fw1)" unfolding rows using assms(2) by (rule memory_rows_ok_insert)
  show ?thesis
  proof (cases outcome)
    case (Inl e)
    then obtain e' where "memory_confirm ?q (fw_rows fw1) = Inl e'"
      using out(1) by (cases "memory_confirm ?q (fw_rows fw1)") auto
    then have "mq_turn_id ?q \<in> set (map mo_turn_id (fw_rows fw))"
      using confirm_after_insert [OF assms(2), of ?q] assms(3) unfolding rows by (simp add: enqueue_request_def)
    then have "fw_rows fw1 = fw_rows fw" using memory_insert_fate [of ?q "fw_rows fw"] unfolding rows by blast
    with ok Inl show ?thesis by simp
  next
    case (Inr state)
    then have "memory_confirm ?q (fw_rows fw1) = Inr ()" "state = ''queued''" using out by auto
    with memory_confirm_ok [of ?q "fw_rows fw1"] ok Inr Some show ?thesis by (auto simp: enqueue_request_def)
  qed
qed

text \<open>
  C37. With the durable outbox, the status \<open>publish_turn\<close> returns is true: \<open>queued\<close> means the table
  holds a row of this turn with this owner, subject and correlation id; the only other state is
  \<open>delivery_failed\<close>, and then the table is as it was: the message was not stored, or the turn's id
  was already taken. Neither the status sink nor the emotion fanout can change the outcome. It
  raises only where the contracts package refuses the turn, and then nothing is stored.
\<close>

theorem fanout_status_truthful:
  assumes "fe_outbox env" "memory_rows_ok (fw_rows fw)"
    and "\<forall>turn t payload. fe_envelope env turn t = Inr payload \<longrightarrow> dict_ok (JDict payload)"
    and "publish_turn env q fw = (r, fw')"
  shows "memory_rows_ok (fw_rows fw')
     \<and> (case r of
          Inl e \<Rightarrow> fw_rows fw' = fw_rows fw
            \<and> (fe_context env q = Inl e \<or> (\<exists>space. fe_turn env space q (fanout_metadata q) = Inl e)
               \<or> (\<exists>turn. fe_envelope env turn (correlation_id q) = Inl e))
        | Inr st \<Rightarrow> fs_turn_id st = fq_turn_id q
            \<and> (fs_state st = ''queued'' \<and> fs_error st = None
                 \<and> (\<exists>row \<in> set (fw_rows fw'). mo_turn_id row = fq_turn_id q \<and> mo_owner_id row = fq_owner_id q
                      \<and> Some (mo_subject row) = fs_subject st \<and> mo_trace_id row = Some (fs_trace_id st))
               \<or> fs_state st = ''delivery_failed'' \<and> fs_error st \<noteq> None \<and> fw_rows fw' = fw_rows fw))"
proof -
  have bus: "\<not> (fe_bus env = None \<and> \<not> fe_outbox env)" using assms(1) by simp
  show ?thesis
  proof (cases "fe_context env q")
    case (Inl e)
    with assms(2,4) bus show ?thesis by (auto simp: publish_turn_def)
  next
    case ctx: (Inr space)
    show ?thesis
    proof (cases "fe_turn env space q (fanout_metadata q)")
      case (Inl e)
      with assms(2,4) bus ctx show ?thesis by (auto simp: publish_turn_def)
    next
      case turn: (Inr turn)
      show ?thesis
      proof (cases "fe_envelope env turn (correlation_id q)")
        case (Inl e)
        with assms(2,4) bus ctx turn show ?thesis by (auto simp: publish_turn_def)
      next
        case payload: (Inr payload)
        obtain subject outcome fw1 where d: "fanout_deliver env q space payload fw = (subject, outcome, fw1)"
          by (rule prod_cases3)
        note del = delivered_rows [OF assms(1,2) assms(3) [rule_format, OF payload] d]
        show ?thesis
          using assms(4) bus ctx turn payload d del
          by (cases outcome) (auto simp: publish_turn_def Let_def fanout_status_of_def)
      qed
    qed
  qed
qed

definition demo_fanout_env :: "unit fanout_env" where
  "demo_fanout_env =
     \<lparr>fe_context = \<lambda>q. Inr ''realm'', fe_turn = \<lambda>s q md. Inr [(''metadata'', JDict md)],
      fe_envelope = \<lambda>turn t. Inr [(''trace_id'', JStr t)], fe_subject = \<lambda>s. Inr (''eidolon.memory.turn.'' @ s),
      fe_routes = None, fe_outbox = True, fe_bus = None, fe_sink = None,
      fe_now = \<lparr>dt_year = 2026, dt_month = 1, dt_day = 1, dt_hour = 0, dt_minute = 0, dt_second = 0, dt_micro = 0, dt_offset = Some 0\<rparr>\<rparr>"

definition demo_fanout_request :: fanout_request where
  "demo_fanout_request =
     \<lparr>fq_owner_id = ''o'', fq_companion_id = ''c'', fq_memory_realm_id = ''realm'', fq_device_id = None,
      fq_session_id = Some ''s'', fq_turn_id = ''t9'', fq_user_text = [1], fq_assistant_text = [], fq_timestamp_iso = [],
      fq_person_id = None, fq_identity_epoch = None, fq_trace_id = None, fq_emotion_payload = JNull, fq_metadata = []\<rparr>"

lemma demo_fanout_queued:
  "(case fst (publish_turn demo_fanout_env demo_fanout_request \<lparr>fw_rows = [], fw_ext = ()\<rparr>) of
      Inr st \<Rightarrow> fs_state st = ''queued'' \<and> fs_subject st = Some ''eidolon.memory.turn.realm'' | Inl e \<Rightarrow> False)"
  by code_simp

theorem fanout_status_truthful_witness:
  "\<exists>row \<in> set (fw_rows (snd (publish_turn demo_fanout_env demo_fanout_request \<lparr>fw_rows = [], fw_ext = ()\<rparr>))).
     mo_turn_id row = ''t9'' \<and> mo_subject row = ''eidolon.memory.turn.realm''"
proof -
  let ?fw = "\<lparr>fw_rows = [], fw_ext = ()\<rparr>"
  obtain r fw' where r: "publish_turn demo_fanout_env demo_fanout_request ?fw = (r, fw')" by (rule prod.exhaust)
  obtain st where st: "r = Inr st" "fs_state st = ''queued''" "fs_subject st = Some ''eidolon.memory.turn.realm''"
    using demo_fanout_queued unfolding r by (cases r) auto
  have env: "fe_outbox demo_fanout_env"
    "\<forall>turn t payload. fe_envelope demo_fanout_env turn t = Inr payload \<longrightarrow> dict_ok (JDict payload)"
    by (auto simp: demo_fanout_env_def)
  have "memory_rows_ok (fw_rows ?fw)" by (simp add: memory_rows_ok_def)
  from fanout_status_truthful [OF env(1) this env(2) r] st show ?thesis
    unfolding r by (auto simp: demo_fanout_request_def)
qed

end
