(* ===== verification/Guardrails.thy ===== *)
theory Guardrails
  imports Py_Text Event_Bus
begin

text \<open>
  The filters around a turn, \<open>domain/guardrails\<close>: the input filter, the output filter and the crisis
  handler. Lower-casing a text is a parameter: it is Unicode's. The Chinese phrases are lists of code points.
\<close>

datatype safety_action = Pass | Soften | Refuse | Escalate

text \<open>\<open>k in text\<close> on strings.\<close>

fun text_contains :: "'a list \<Rightarrow> 'a list \<Rightarrow> bool" where
  "text_contains k [] = (k = [])"
| "text_contains k (c # s) = (starts_with (c # s) k \<or> text_contains k s)"

definition crisis_keywords :: "utext list" where
  "crisis_keywords =
     [[24819, 27515],
      [27963, 19981, 19979, 21435],
      [32467, 26463, 29983, 21629],
      [19981, 24819, 27963],
      [33258, 26432],
      utext_of ''kill myself'',
      utext_of ''end my life'',
      utext_of ''suicide'']"

definition role_override :: "utext list" where
  "role_override =
     [utext_of ''ignore previous instructions'',
      [20320, 19981, 20877, 26159],
      utext_of ''act as a different'',
      [24573, 30053, 20320, 30340, 25152, 26377, 20154, 26684]]"

definition pii_markers :: "utext list" where
  "pii_markers =
     [[36523, 20221, 35777, 21495],
      utext_of ''credit card'',
      [20449, 29992, 21345, 21495]]"

text \<open>\<open>InputGuardrail.check\<close>.\<close>

definition input_check :: "(utext \<Rightarrow> utext) \<Rightarrow> utext option \<Rightarrow> safety_action" where
  "input_check lower txt =
     (case txt of
        None \<Rightarrow> Pass
      | Some t \<Rightarrow>
          (if t = [] then Pass
           else if \<exists>k \<in> set crisis_keywords. text_contains k t \<or> text_contains k (lower t) then Escalate
           else if \<exists>p \<in> set role_override. text_contains p (lower t) then Refuse
           else Pass))"

text \<open>\<open>OutputGuardrail.check\<close>.\<close>

definition output_check :: "utext \<Rightarrow> utext list \<Rightarrow> safety_action" where
  "output_check output_text taboos =
     (if output_text = [] then Pass
      else if \<exists>m \<in> set pii_markers. text_contains m output_text then Soften
      else if \<exists>t \<in> set taboos. t \<noteq> [] \<and> text_contains t output_text then Soften
      else Pass)"

definition crisis_reply :: utext where
  "crisis_reply =
     [25105, 21548, 21040, 20320, 20102, 65292, 35874, 35874, 20320, 24895, 24847, 21578, 35785, 25105, 12290,
      25105, 24456, 25285, 24515, 20320, 29616, 22312, 30340, 24863, 21463, 12290, 20320, 29616, 22312, 19981,
      38656, 35201, 19968, 20010, 20154, 25179, 8212, 8212, 21487, 20197, 25320, 25171, 36825, 20123, 30005,
      35805, 21644, 19987, 19994, 30340, 20154, 32842, 32842, 12290, 25105, 20250, 19968, 30452, 22312, 36825,
      12290]"

definition crisis_resources :: "utext list" where
  "crisis_resources =
     [[21271, 20140, 24515, 29702, 21361, 26426, 30740, 31350, 19982, 24178, 39044, 20013, 24515, 65306, 48,
      49, 48, 45, 56, 50, 57, 53, 49, 51, 51, 50, 32, 47, 32, 48, 49, 48, 45, 54, 50, 55, 49, 54, 55, 49, 52,
      65288, 50, 52, 104, 65289],
      [20840, 22269, 24515, 29702, 25588, 21161, 28909, 32447, 65306, 52, 48, 48, 45, 49, 54, 49, 45, 57, 57,
      57, 53, 65288, 50, 52, 104, 65289]]"

text \<open>The event \<open>CrisisHandler.handle\<close> publishes before it answers.\<close>

definition crisis_event :: "string \<Rightarrow> string \<Rightarrow> string \<Rightarrow> bus_event" where
  "crisis_event companion owner locale =
     \<lparr>ev_subject = ''agent.guardrail.crisis.'' @ companion,
      ev_payload = [(''owner_id'', JStr owner), (''locale'', JStr locale)],
      ev_trace_id = None, ev_source = Some ''guardrails.crisis'', ev_metadata = []\<rparr>"

text \<open>\<open>CrisisHandler.handle\<close>: the fixed reply and its resources, unless the bus, if there is one, raises.\<close>

definition crisis_handle ::
  "(bus_event \<Rightarrow> 'w \<Rightarrow> ('e + unit) \<times> 'w) option \<Rightarrow> string \<Rightarrow> string \<Rightarrow> string \<Rightarrow> 'w
     \<Rightarrow> ('e + utext \<times> utext list) \<times> 'w" where
  "crisis_handle bus companion owner locale w =
     (case bus of
        None \<Rightarrow> (Inr (crisis_reply, crisis_resources), w)
      | Some publish \<Rightarrow>
          (case publish (crisis_event companion owner locale) w of
             (Inl e, w') \<Rightarrow> (Inl e, w')
           | (Inr u, w') \<Rightarrow> (Inr (crisis_reply, crisis_resources), w')))"

lemma text_contains_iff: "text_contains k s \<longleftrightarrow> (\<exists>a b. s = a @ k @ b)"
proof (induction s)
  case (Cons c s)
  have "starts_with (c # s) k \<longleftrightarrow> (\<exists>b. c # s = k @ b)"
    unfolding starts_with_def by (metis append_eq_conv_conj append_take_drop_id)
  then show ?case using Cons by (auto simp: Cons_eq_append_conv)
qed simp

text \<open>A crisis phrase anywhere in the text wins over everything else.\<close>

lemma crisis_escalates: "k \<in> set crisis_keywords \<Longrightarrow> input_check lower (Some (a @ k @ b)) = Escalate"
proof -
  assume k: "k \<in> set crisis_keywords"
  then have "k \<noteq> []" by (auto simp: crisis_keywords_def utext_of_def)
  moreover have "text_contains k (a @ k @ b)" using text_contains_iff by blast
  ultimately show ?thesis using k by (auto simp: input_check_def)
qed

end
