(* ===== verification/Presentation.thy ===== *)
theory Presentation
  imports Core_Types Py_Text
begin

text \<open>
  The structured response of a turn, \<open>domain/agent/presentation.py\<close>. The SDK's models are records of
  the fields this code reads; validating the model's arguments against the SDK's schema is the
  parameter \<open>parse\<close>, and \<open>none_presentation\<close> is \<open>PresentationCandidate(intent="none")\<close>.
\<close>

section \<open>The SDK's values\<close>

record output_selection =
  os_speech :: bool
  os_dialogue_text :: bool
  os_expression :: bool
  os_motion :: bool

record presentation_candidate =
  pc_intent :: string
  pc_outcome_ref :: "string option"
  pc_details :: "(string \<times> json) list"

record response_candidate =
  rc_public_text :: "utext option"
  rc_presentation :: presentation_candidate

record response_intent =
  ri_candidate :: presentation_candidate
  ri_response_id :: string
  ri_turn_id :: string
  ri_session_id :: string

record presentation_sdk =
  ps_parse :: "(string \<times> json) list \<Rightarrow> response_candidate option"
  ps_none :: presentation_candidate

definition response_tool :: string where
  "response_tool = ''eidolon_respond''"

definition response_intent_of :: "presentation_candidate \<Rightarrow> string \<Rightarrow> string \<Rightarrow> response_intent" where
  "response_intent_of p turn_id session_id =
     \<lparr>ri_candidate = p, ri_response_id = ''response:'' @ turn_id, ri_turn_id = turn_id, ri_session_id = session_id\<rparr>"


section \<open>Validation\<close>

text \<open>\<open>not text or not text.strip()\<close>.\<close>

definition blank_text :: "utext option \<Rightarrow> bool" where
  "blank_text t = (case t of None \<Rightarrow> True | Some u \<Rightarrow> ustrip u = [])"

text \<open>The selection's effect on the candidate, or the reason it is refused.\<close>

definition apply_selection ::
  "presentation_sdk \<Rightarrow> output_selection option \<Rightarrow> response_candidate \<Rightarrow> string + response_candidate" where
  "apply_selection sdk outputs c =
     (case outputs of
        None \<Rightarrow> Inr c
      | Some o1 \<Rightarrow>
          (let silent = (if os_expression o1 \<or> os_motion o1 then (\<lambda>x. x) else (\<lambda>x. x\<lparr>rc_presentation := ps_none sdk\<rparr>))
           in if os_speech o1 \<or> os_dialogue_text o1
              then (if pc_intent (rc_presentation c) \<noteq> ''none'' \<and> blank_text (rc_public_text c)
                    then Inl ''PUBLIC_ANSWER_REQUIRED'' else Inr (silent c))
              else Inr (silent (c\<lparr>rc_public_text := None\<rparr>))))"

text \<open>A completed outcome of this turn, under the reference (an absent one reads as the empty id).\<close>

definition completed_outcome :: "(string \<times> tool_result) list \<Rightarrow> string option \<Rightarrow> bool" where
  "completed_outcome outcomes ref =
     (case map_of outcomes (case ref of None \<Rightarrow> [] | Some r \<Rightarrow> r) of
        None \<Rightarrow> False
      | Some r \<Rightarrow> tr_ok r \<and> dict_get (tr_metadata r) ''outcome_state'' = JStr ''completed'')"

definition validate_response ::
  "presentation_sdk \<Rightarrow> (string \<times> json) list \<Rightarrow> string \<Rightarrow> string \<Rightarrow> (string \<times> tool_result) list
     \<Rightarrow> output_selection option \<Rightarrow> string + response_candidate \<times> response_intent" where
  "validate_response sdk arguments turn_id session_id outcomes outputs =
     (case ps_parse sdk arguments of
        None \<Rightarrow> Inl ''INVALID_RESPONSE_CANDIDATE''
      | Some parsed \<Rightarrow>
     (case apply_selection sdk outputs parsed of
        Inl e \<Rightarrow> Inl e
      | Inr c \<Rightarrow>
          (let p = rc_presentation c; completed = completed_outcome outcomes (pc_outcome_ref p)
           in if pc_outcome_ref p \<noteq> None \<and> \<not> completed then Inl ''OUTCOME_NOT_COMPLETED_IN_THIS_TURN''
              else if pc_intent p \<in> {''confirm'', ''celebrate''} \<and> \<not> completed
              then Inl ''SUCCESS_INTENT_REQUIRES_COMPLETED_OUTCOME''
              else Inr (c, response_intent_of p turn_id session_id))))"

record resolved_response =
  rr_candidate :: response_candidate
  rr_intent :: response_intent
  rr_error :: "string option"

text \<open>\<open>resolve_response\<close>: a refused expression is dropped, the public answer kept if there is one.\<close>

definition resolve_response ::
  "presentation_sdk \<Rightarrow> (string \<times> json) list \<Rightarrow> string \<Rightarrow> string \<Rightarrow> (string \<times> tool_result) list
     \<Rightarrow> output_selection option \<Rightarrow> string + resolved_response" where
  "resolve_response sdk arguments turn_id session_id outcomes outputs =
     (case validate_response sdk arguments turn_id session_id outcomes outputs of
        Inr (c, i) \<Rightarrow> Inr \<lparr>rr_candidate = c, rr_intent = i, rr_error = None\<rparr>
      | Inl e \<Rightarrow>
     (case validate_response sdk (dict_put ''presentation'' (JDict [(''intent'', JStr ''none'')]) arguments)
             turn_id session_id outcomes outputs of
        Inl e' \<Rightarrow> Inl e'
      | Inr (c, i) \<Rightarrow>
          (if blank_text (rc_public_text c) then Inl e
           else Inr \<lparr>rr_candidate = c, rr_intent = i, rr_error = Some e\<rparr>)))"


section \<open>Properties\<close>

lemma validate_response_facts:
  assumes "validate_response sdk arguments t s outcomes outputs = Inr (c, i)"
  shows "ri_candidate i = rc_presentation c"
    and "pc_outcome_ref (rc_presentation c) \<noteq> None \<or> pc_intent (rc_presentation c) \<in> {''confirm'', ''celebrate''}
           \<Longrightarrow> completed_outcome outcomes (pc_outcome_ref (rc_presentation c))"
    and "\<exists>parsed. ps_parse sdk arguments = Some parsed \<and> apply_selection sdk outputs parsed = Inr c"
    and "ri_turn_id i = t \<and> ri_session_id i = s"
  using assms by (auto simp: validate_response_def Let_def response_intent_of_def split: option.splits sum.splits if_split_asm)

lemma apply_selection_facts:
  assumes "apply_selection sdk (Some o1) parsed = Inr c"
  shows "\<not> os_speech o1 \<and> \<not> os_dialogue_text o1 \<Longrightarrow> rc_public_text c = None"
    and "\<not> os_expression o1 \<and> \<not> os_motion o1 \<Longrightarrow> rc_presentation c = ps_none sdk"
    and "os_speech o1 \<or> os_dialogue_text o1 \<Longrightarrow> pc_intent (ps_none sdk) = ''none''
       \<Longrightarrow> pc_intent (rc_presentation c) = ''none'' \<or> \<not> blank_text (rc_public_text c)"
  using assms by (auto simp: apply_selection_def Let_def split: if_split_asm)

lemma resolve_response_cases:
  assumes "resolve_response sdk arguments t s outcomes outputs = Inr r"
  obtains args where "validate_response sdk args t s outcomes outputs = Inr (rr_candidate r, rr_intent r)"
    "rr_error r = None \<and> args = arguments
     \<or> rr_error r \<noteq> None \<and> \<not> blank_text (rc_public_text (rr_candidate r))
        \<and> args = dict_put ''presentation'' (JDict [(''intent'', JStr ''none'')]) arguments"
  using assms by (auto simp: resolve_response_def split: sum.splits if_split_asm)


definition demo_sdk :: presentation_sdk where
  "demo_sdk = \<lparr>ps_parse = \<lambda>args. Some \<lparr>rc_public_text = Some [100],
       rc_presentation = \<lparr>pc_intent = (case dict_get args ''presentation'' of JNull \<Rightarrow> ''confirm'' | _ \<Rightarrow> ''none''),
                          pc_outcome_ref = None, pc_details = []\<rparr>\<rparr>,
     ps_none = \<lparr>pc_intent = ''none'', pc_outcome_ref = None, pc_details = []\<rparr>\<rparr>"


end
