(* ===== verification/Turn_Types.thy ===== *)
theory Turn_Types
  imports Conversation_Store History_Manager History_Fanout Runtime_Session Guardrails Presentation Tool_Batch
begin

text \<open>
  What a turn of \<open>TurnEngine\<close> (\<open>domain/agent/turn.py\<close>) works on: the events it yields, the environment
  it runs in, the state it changes, and the way exceptions travel through it. The dict \<open>ti.metadata\<close>
  is part of the state. Wall-clock readings and the entries of the metadata that only feed traces
  (latencies, budgets, harness snapshots) are left out.
\<close>

section \<open>Events\<close>

datatype fsm_state = IDLE | LISTENING | THINKING | SPEAKING | REFLECTING

datatype done_extra = NoExtra | CrisisExtra "utext list" | TriageExtra triage_kind

datatype turn_event_data =
    EvState fsm_state
  | EvDelta utext "string option"
  | EvToolCall tool_call
  | EvToolResult string bool json "string option"
  | EvUsage int int
  | EvDone turn_status done_extra
  | EvError string string
  | EvProgress string
  | EvPresentation response_intent
  | EvHandoff json json

record turn_event =
  te_turn_id :: string
  te_seq :: int
  te_data :: turn_event_data


section \<open>What the model streams\<close>

datatype finish_reason = STOP | LENGTH | TOOL_CALLS | CONTENT_FILTER | ERROR_FINISH | CANCELLED_FINISH

record llm_delta =
  ld_text :: "utext option"
  ld_activity :: "string option"
  ld_tool_call :: "tool_call option"
  ld_finish :: "finish_reason option"
  ld_usage :: "(int \<times> int) option"


section \<open>Exceptions\<close>

text \<open>
  What can leave an awaited call. A cancellation carries the playback boundary the transport stashed in
  the metadata before it cancelled the turn, if it did.
\<close>

datatype turn_exc =
    ExcCancelled "int option"
  | ExcPresentation string
  | ExcBlocked string string
  | ExcOther py_error


section \<open>The input and the environment\<close>

text \<open>
  A turn's input with the parts of it that are objects: the tool that drives the head, the channel's
  tools, whether the text is a coordinated reply, and the receipt (status and dump) the device
  feedback will give, if there is a feedback.
\<close>

record 'w run_input =
  rn_input :: turn_input
  rn_config :: runtime_config
  rn_coordinated :: bool
  rn_motion_tool :: "'w tool option"
  rn_channel_tools :: "'w tool list option"
  rn_channel_capabilities :: "string list"
  rn_feedback :: "'w \<Rightarrow> (turn_exc + (string \<times> json) option) \<times> 'w"
  rn_has_feedback :: bool

text \<open>
  The engine's collaborators. Those modelled elsewhere (history, fanout, guardrails, dispatcher,
  presentation) are used as they are; the rest are functions of their arguments and of a world \<open>'w\<close>,
  which they may change, to an answer or an exception. \<open>en_interrupt\<close> and \<open>en_enqueue_interrupt\<close> are
  cancellations that arrive while the tools run or the outbox commits (with whether it committed).
\<close>

record 'w turn_env =
  en_guard :: "(turn_input \<Rightarrow> 'w \<Rightarrow> (turn_exc + unit) \<times> bool \<times> 'w) option"
  en_lower :: "utext \<Rightarrow> utext"
  en_crisis_bus :: "(bus_event \<Rightarrow> 'w \<Rightarrow> (turn_exc + unit) \<times> 'w) option"
  en_memory_mode :: string
  en_genome_id :: "string option"
  en_fanout :: "'w fanout_env"
  en_enqueue_interrupt :: "'w \<Rightarrow> (int option \<times> bool) option"
  en_compile :: "turn_input \<Rightarrow> json_dict \<Rightarrow> history_manager \<Rightarrow> 'w \<Rightarrow> (turn_exc + chat_message list) \<times> json_dict \<times> 'w"
  en_llm :: "chat_message list \<Rightarrow> tool_schema list \<Rightarrow> runtime_config \<Rightarrow> 'w \<Rightarrow> llm_delta list \<times> turn_exc option \<times> 'w"
  en_dispatcher :: "'w dispatcher"
  en_batch_timeout :: "string option"
  en_late :: "tool_call list \<Rightarrow> 'w \<Rightarrow> 'w option"
  en_sched :: "(nat \<times> tool_call) list \<Rightarrow> (nat \<times> tool_call) list"
  en_interrupt :: "tool_call list \<Rightarrow> 'w \<Rightarrow> (int option \<times> 'w) option"
  en_slow :: "tool_call list \<Rightarrow> 'w \<Rightarrow> bool"
  en_slow_hint_text :: utext
  en_slow_hint_role :: string
  en_body_tools :: "(turn_context \<Rightarrow> 'w \<Rightarrow> (turn_exc + tool_schema list \<times> (string \<times> 'w tool) list) \<times> 'w) option"
  en_hidden_tools :: "string list"
  en_max_tool_iters :: int
  en_taboos :: "utext list"
  en_sdk :: presentation_sdk
  en_outputs :: "json \<Rightarrow> output_selection option"
  en_response_schema :: "output_selection option \<Rightarrow> tool_schema"
  en_face_profile :: json
  en_read_decision :: "json \<Rightarrow> string option"
  en_decision_matches :: "string \<Rightarrow> utext option \<Rightarrow> bool"
  en_intent_json :: "response_intent \<Rightarrow> json"
  en_str :: "json \<Rightarrow> utext"
  en_json_bytes :: "json \<Rightarrow> nat"
  en_bus :: bool
  en_persister :: bool
  en_model_id :: "string option"
  en_first_delta_ms :: "int option"
  en_total_ms :: int
  en_timings :: json_dict
  en_started_at :: datetime
  en_now :: datetime
  en_fresh :: string


section \<open>The state of a turn\<close>

text \<open>
  The work left to the background: what the persister is told, the memory observation where the fanout
  is not durable, and the event on the bus.
\<close>

datatype turn_job = Persist_job turn_outcome | Observe_job | Completed_job bus_event

text \<open>
  \<open>st_rounds\<close> is a history variable: for each round, the results known so far and the calls handed to
  the dispatcher; \<open>st_streams\<close> counts the calls of the model.
\<close>

record 'w turn_state =
  st_events :: "turn_event list"
  st_seq :: int
  st_md :: json_dict
  st_policy :: privacy_trace
  st_history :: history_manager
  st_rows :: "memory_row list"
  st_ext :: 'w
  st_parts :: "utext list"
  st_usage_in :: int
  st_usage_out :: int
  st_announced :: "utext list"
  st_hinted :: bool
  st_failures :: "(string \<times> int) list"
  st_suppressed :: int
  st_outcomes :: "(string \<times> tool_result) list"
  st_trace :: "tool_result list"
  st_response :: "resolved_response option"
  st_persist_text :: utext
  st_finalized :: bool
  st_background :: "turn_job list"
  st_rounds :: "(tool_result list \<times> tool_call list) list"
  st_streams :: nat

type_synonym ('w, 'a) act = "'w turn_state \<Rightarrow> (turn_exc + 'a) \<times> 'w turn_state"

definition ret :: "'a \<Rightarrow> ('w, 'a) act" where
  "ret a st = (Inr a, st)"

definition fail :: "turn_exc \<Rightarrow> ('w, 'a) act" where
  "fail e st = (Inl e, st)"

definition abind :: "('w, 'a) act \<Rightarrow> ('a \<Rightarrow> ('w, 'b) act) \<Rightarrow> ('w, 'b) act" where
  "abind m k st = (case m st of (Inl e, st') \<Rightarrow> (Inl e, st') | (Inr a, st') \<Rightarrow> k a st')"

definition aseq :: "('w, unit) act \<Rightarrow> ('w, 'b) act \<Rightarrow> ('w, 'b) act" where
  "aseq m k = abind m (\<lambda>u. k)"

definition modify :: "('w turn_state \<Rightarrow> 'w turn_state) \<Rightarrow> ('w, unit) act" where
  "modify f st = (Inr (), f st)"

definition reads :: "('w turn_state \<Rightarrow> 'a) \<Rightarrow> ('w, 'a) act" where
  "reads f st = (Inr (f st), st)"

definition awhen :: "bool \<Rightarrow> ('w, unit) act \<Rightarrow> ('w, unit) act" where
  "awhen b m = (if b then m else ret ())"

text \<open>Awaiting a collaborator that may change the world.\<close>

definition external :: "('w \<Rightarrow> (turn_exc + 'a) \<times> 'w) \<Rightarrow> ('w, 'a) act" where
  "external f st = (case f (st_ext st) of (r, w) \<Rightarrow> (r, st\<lparr>st_ext := w\<rparr>))"

text \<open>\<open>_SeqGen.next\<close> and the \<open>yield\<close> of an event.\<close>

definition emit :: "'w run_input \<Rightarrow> turn_event_data \<Rightarrow> ('w, unit) act" where
  "emit ri d = modify (\<lambda>st. st\<lparr>st_seq := st_seq st + 1,
     st_events := st_events st @ [\<lparr>te_turn_id = ti_turn_id (rn_input ri), te_seq = st_seq st + 1, te_data = d\<rparr>]\<rparr>)"

text \<open>Answer text: counted in \<open>assistant_text_parts\<close> and streamed with the default role.\<close>

definition say :: "'w run_input \<Rightarrow> utext \<Rightarrow> ('w, unit) act" where
  "say ri t = aseq (modify (\<lambda>st. st\<lparr>st_parts := st_parts st @ [t]\<rparr>)) (emit ri (EvDelta t None))"

definition put_md :: "string \<Rightarrow> json \<Rightarrow> ('w, unit) act" where
  "put_md k v = modify (\<lambda>st. st\<lparr>st_md := dict_put k v (st_md st)\<rparr>)"

lemma ret_app [simp]: "ret a st = (Inr a, st)" and fail_app [simp]: "fail e st = (Inl e, st)"
  and modify_app [simp]: "modify f st = (Inr (), f st)" and reads_app [simp]: "reads g st = (Inr (g st), st)"
  by (simp_all add: ret_def fail_def modify_def reads_def)

lemma abind_app: "abind m k st = (case m st of (Inl e, st') \<Rightarrow> (Inl e, st') | (Inr a, st') \<Rightarrow> k a st')"
  by (simp add: abind_def)

lemma aseq_app: "aseq m k st = (case m st of (Inl e, st') \<Rightarrow> (Inl e, st') | (Inr u, st') \<Rightarrow> k st')"
  by (simp add: aseq_def abind_def)


section \<open>Invariants of an action\<close>

text \<open>
  \<open>keeps P m\<close>: from a state with \<open>P\<close> the action ends, normally or with an exception, in one with \<open>P\<close>.
  The rules follow the structure of the actions, so an invariant of the whole turn needs one lemma per
  elementary change.
\<close>

definition keeps :: "('w turn_state \<Rightarrow> bool) \<Rightarrow> ('w, 'a) act \<Rightarrow> bool" where
  "keeps P m \<longleftrightarrow> (\<forall>st. P st \<longrightarrow> P (snd (m st)))"

named_theorems keeps_rules

lemma keepsI: "(\<And>st. P st \<Longrightarrow> P (snd (m st))) \<Longrightarrow> keeps P m"
  by (simp add: keeps_def)

lemma keepsD: "keeps P m \<Longrightarrow> P st \<Longrightarrow> P (snd (m st))"
  by (simp add: keeps_def)

lemma keeps_run: "keeps P m \<Longrightarrow> P st \<Longrightarrow> m st = (r, st') \<Longrightarrow> P st'"
  by (metis keepsD snd_conv)

lemma keeps_ret [keeps_rules]: "keeps P (ret a)" and keeps_fail [keeps_rules]: "keeps P (fail e)"
  and keeps_reads [keeps_rules]: "keeps P (reads f)"
  by (simp_all add: keeps_def)

lemma keeps_modify: "(\<And>st. P st \<Longrightarrow> P (f st)) \<Longrightarrow> keeps P (modify f)"
  by (simp add: keeps_def)

lemma keeps_abind [keeps_rules]: "keeps P m \<Longrightarrow> (\<And>a. keeps P (k a)) \<Longrightarrow> keeps P (abind m k)"
  unfolding keeps_def abind_app by (auto split: prod.splits sum.splits)

lemma keeps_aseq [keeps_rules]: "keeps P m \<Longrightarrow> keeps P k \<Longrightarrow> keeps P (aseq m k)"
  by (simp add: aseq_def keeps_abind)

lemma keeps_awhen [keeps_rules]: "(b \<Longrightarrow> keeps P m) \<Longrightarrow> keeps P (awhen b m)"
  by (simp add: awhen_def keeps_ret)

lemma keeps_if [keeps_rules]: "(b \<Longrightarrow> keeps P m) \<Longrightarrow> (\<not> b \<Longrightarrow> keeps P k) \<Longrightarrow> keeps P (if b then m else k)"
  by simp

lemma keeps_option [keeps_rules]:
  "(x = None \<Longrightarrow> keeps P m) \<Longrightarrow> (\<And>a. x = Some a \<Longrightarrow> keeps P (k a)) \<Longrightarrow> keeps P (case x of None \<Rightarrow> m | Some a \<Rightarrow> k a)"
  by (cases x) simp_all

lemma keeps_prod [keeps_rules]:
  "(\<And>a b. x = (a, b) \<Longrightarrow> keeps P (k a b)) \<Longrightarrow> keeps P (case x of (a, b) \<Rightarrow> k a b)"
  by (cases x) simp

lemma keeps_sum [keeps_rules]:
  "(\<And>a. x = Inl a \<Longrightarrow> keeps P (m a)) \<Longrightarrow> (\<And>b. x = Inr b \<Longrightarrow> keeps P (k b)) \<Longrightarrow> keeps P (case x of Inl a \<Rightarrow> m a | Inr b \<Rightarrow> k b)"
  by (cases x) simp_all

lemma keeps_list [keeps_rules]:
  "(x = [] \<Longrightarrow> keeps P m) \<Longrightarrow> (\<And>a as. x = a # as \<Longrightarrow> keeps P (k a as)) \<Longrightarrow> keeps P (case x of [] \<Rightarrow> m | a # as \<Rightarrow> k a as)"
  by (cases x) simp_all

lemma keeps_let [keeps_rules]: "keeps P (k a) \<Longrightarrow> keeps P (let x = a in k x)"
  by simp

lemma keeps_external: "(\<And>st w. P st \<Longrightarrow> P (st\<lparr>st_ext := w\<rparr>)) \<Longrightarrow> keeps P (external f)"
  by (rule keepsI) (simp add: external_def split: prod.splits)


text \<open>\<open>returns_in Q m\<close>: where the action returns, it does so in a state with \<open>Q\<close>.\<close>

definition returns_in :: "('w turn_state \<Rightarrow> bool) \<Rightarrow> ('w, 'a) act \<Rightarrow> bool" where
  "returns_in Q m \<longleftrightarrow> (\<forall>st a st'. m st = (Inr a, st') \<longrightarrow> Q st')"

named_theorems returns_rules

lemma returns_inD: "returns_in Q m \<Longrightarrow> m st = (Inr a, st') \<Longrightarrow> Q st'"
  by (simp add: returns_in_def)

lemma returns_fail [returns_rules]: "returns_in Q (fail e)"
  by (simp add: returns_in_def)

lemma returns_abind [returns_rules]: "(\<And>a. returns_in Q (k a)) \<Longrightarrow> returns_in Q (abind m k)"
  unfolding returns_in_def abind_app by (auto split: prod.splits sum.splits)

lemma returns_aseq [returns_rules]: "returns_in Q k \<Longrightarrow> returns_in Q (aseq m k)"
  by (simp add: aseq_def returns_abind)

lemma returns_aseq_keeps: "returns_in Q m \<Longrightarrow> keeps Q k \<Longrightarrow> returns_in Q (aseq m k)"
  unfolding returns_in_def keeps_def aseq_app by (auto split: prod.splits sum.splits) (metis snd_conv)

lemma returns_if [returns_rules]: "(b \<Longrightarrow> returns_in Q m) \<Longrightarrow> (\<not> b \<Longrightarrow> returns_in Q k) \<Longrightarrow> returns_in Q (if b then m else k)"
  by simp

lemma returns_prod [returns_rules]: "(\<And>a b. returns_in Q (k a b)) \<Longrightarrow> returns_in Q (case x of (a, b) \<Rightarrow> k a b)"
  by (cases x) simp

lemma returns_let [returns_rules]: "(\<And>a. returns_in Q (k a)) \<Longrightarrow> returns_in Q (let x = a in k x)"
  by simp

lemma returns_emit: "(\<And>st. Q (snd (emit ri d st))) \<Longrightarrow> returns_in Q (emit ri d)"
  by (metis returns_in_def snd_conv)


text \<open>\<open>hoare P m Q R\<close>: from \<open>P\<close> the action returns into \<open>Q\<close> or raises into \<open>R\<close>.\<close>

definition hoare :: "('w turn_state \<Rightarrow> bool) \<Rightarrow> ('w, 'a) act \<Rightarrow> ('w turn_state \<Rightarrow> bool) \<Rightarrow> (turn_exc \<Rightarrow> 'w turn_state \<Rightarrow> bool) \<Rightarrow> bool" where
  "hoare P m Q R \<longleftrightarrow> (\<forall>st. P st \<longrightarrow> (case m st of (Inr a, st') \<Rightarrow> Q st' | (Inl e, st') \<Rightarrow> R e st'))"

lemma hoareD:
  assumes "hoare P m Q R" "P st" "m st = (r, st')"
  shows "case r of Inr a \<Rightarrow> Q st' | Inl e \<Rightarrow> R e st'"
  using assms(1) [unfolded hoare_def, rule_format, OF assms(2)] by (cases r) (simp_all add: assms(3))

lemma hoareI:
  assumes "\<And>st a st'. P st \<Longrightarrow> m st = (Inr a, st') \<Longrightarrow> Q st'" "\<And>st e st'. P st \<Longrightarrow> m st = (Inl e, st') \<Longrightarrow> R e st'"
  shows "hoare P m Q R"
  unfolding hoare_def by (auto split: prod.split sum.split intro: assms)

lemma hoare_keeps:
  assumes "keeps P m" "\<And>e st. P st \<Longrightarrow> R e st"
  shows "hoare P m P R"
  by (rule hoareI) (auto intro: assms(2) dest: keeps_run [OF assms(1)])

lemma hoare_abind:
  assumes "hoare P m Q' R" "\<And>a. hoare Q' (k a) Q R"
  shows "hoare P (abind m k) Q R"
proof -
  have "case abind m k st of (Inr a, st') \<Rightarrow> Q st' | (Inl e, st') \<Rightarrow> R e st'" if "P st" for st
  proof -
    obtain r st1 where m: "m st = (r, st1)" by (rule prod.exhaust)
    note q = hoareD [OF assms(1) that m]
    show ?thesis
    proof (cases r)
      case (Inl e)
      with q m show ?thesis by (simp add: abind_app)
    next
      case (Inr a)
      with q have "Q' st1" by simp
      with assms(2) [unfolded hoare_def] Inr m show ?thesis by (simp add: abind_app)
    qed
  qed
  then show ?thesis by (simp add: hoare_def)
qed

lemma hoare_aseq: "hoare P m Q' R \<Longrightarrow> hoare Q' k Q R \<Longrightarrow> hoare P (aseq m k) Q R"
  by (simp add: aseq_def hoare_abind)

lemma hoare_modify: "(\<And>st. P st \<Longrightarrow> Q (f st)) \<Longrightarrow> hoare P (modify f) Q R"
  by (simp add: hoare_def)

lemma hoare_if: "(b \<Longrightarrow> hoare P m Q R) \<Longrightarrow> (\<not> b \<Longrightarrow> hoare P k Q R) \<Longrightarrow> hoare P (if b then m else k) Q R"
  by simp

lemma hoare_weaken:
  assumes "hoare P m Q R" "\<And>st. P' st \<Longrightarrow> P st" "\<And>st. Q st \<Longrightarrow> Q' st" "\<And>e st. R e st \<Longrightarrow> R' e st"
  shows "hoare P' m Q' R'"
proof (rule hoareI)
  show "Q' st'" if "P' st" "m st = (Inr a, st')" for st a st'
    using hoareD [OF assms(1) assms(2) [OF that(1)] that(2)] assms(3) by simp
  show "R' e st'" if "P' st" "m st = (Inl e, st')" for st e st'
    using hoareD [OF assms(1) assms(2) [OF that(1)] that(2)] assms(4) by simp
qed

end
