(* ===== verification/Turn_Engine.thy ===== *)
theory Turn_Engine
  imports Turn_Types
begin

text \<open>
  \<open>TurnEngine.run\<close> and its helpers, \<open>domain/agent/turn.py\<close>: from the conversation guard to the work
  left to the background. The tool loop recurs on the tool rounds it may still make, so it ends.
\<close>

section \<open>The memory observation\<close>

definition normalize_guard_mode :: "string \<Rightarrow> string" where
  "normalize_guard_mode mode = (if mode \<in> {''enabled'', ''shadow'', ''disabled''} then mode else ''enabled'')"

text \<open>\<open>_memory_write_trace\<close>: why the turn is not observed, if it is not, and the entry that says so.\<close>

definition skipped_reason :: "turn_input \<Rightarrow> json_dict \<Rightarrow> privacy_trace \<Rightarrow> string \<Rightarrow> string option" where
  "skipped_reason ti md policy mode0 =
     (let c = ti_context ti; mode = normalize_guard_mode mode0
      in if \<not> memory_write_enabled c then Some ''unidentified_person''
         else if tx_provisional_memory_save c \<and> tx_source_session_id c \<noteq> Some (ti_session_id ti)
         then Some ''provisional_session_mismatch''
         else if mode = ''disabled'' then Some ''policy_disabled''
         else if ti_input_modality ti = Voice \<and> dict_get md ''committed_turn_persistence_allowed'' \<noteq> JBool True
         then Some ''uncommitted_voice_turn''
         else if ti_text ti = None \<or> ti_text ti = Some [] then Some ''empty_user_text''
         else if \<not> pt_memory_write_allowed policy then Some ''privacy_policy''
         else if mode = ''shadow'' then Some ''shadow_only''
         else None)"

definition ingest_policy :: "turn_input \<Rightarrow> string" where
  "ingest_policy ti = (if tx_provisional_memory_save (ti_context ti) then ''provisional_source'' else ''semantic_steward'')"

definition memory_write_trace :: "turn_input \<Rightarrow> json_dict \<Rightarrow> privacy_trace \<Rightarrow> string \<Rightarrow> json_dict" where
  "memory_write_trace ti md policy mode =
     (let reason = skipped_reason ti md policy mode
      in [(''trace_kind'', JStr ''memory_turn_observation''), (''durable_result'', JStr ''async_memory_worker''),
          (''source_turn_id'', JStr (ti_turn_id ti)), (''conversation_id'', JStr (ti_conversation_id ti)),
          (''privacy_mode'', JStr (pt_mode policy)), (''mode'', JStr (normalize_guard_mode mode)),
          (''shadow_only'', JBool (normalize_guard_mode mode = ''shadow'')), (''ingest_policy'', JStr (ingest_policy ti)),
          (''fanout_allowed'', JBool (reason = None)), (''skipped_reason'', jopt_str reason),
          (''enqueue_state'', dict_get md ''memory_observation_state''),
          (''enqueue_ms'', dict_get md ''memory_observation_enqueue_ms'')])"

text \<open>\<open>_publish_memory_observation\<close>: the user's words as evidence, never the assistant's.\<close>

definition observation_request :: "'w turn_env \<Rightarrow> 'w run_input \<Rightarrow> json_dict \<Rightarrow> fanout_request" where
  "observation_request env ri md =
     (let ti = rn_input ri; c = ti_context ti
      in \<lparr>fq_owner_id = tx_owner_id c, fq_companion_id = tx_companion_id c,
          fq_memory_realm_id = tx_memory_realm_id c, fq_device_id = tx_device_id c,
          fq_session_id = Some (ti_session_id ti), fq_turn_id = ti_turn_id ti,
          fq_user_text = (case ti_text ti of None \<Rightarrow> [] | Some t \<Rightarrow> t), fq_assistant_text = [],
          fq_timestamp_iso = isoformat (en_started_at env),
          fq_person_id = tx_person_id c,
          fq_identity_epoch = (if tx_person_id c = None then None else tx_identity_epoch c),
          fq_trace_id = Some (tx_trace_id c), fq_emotion_payload = JNull,
          fq_metadata = [(''memory_ingest_policy'', JStr (ingest_policy ti))]
            @ (if tx_provisional_memory_save c then [(''person_attribution'', JStr ''provisional'')] else [])
            @ [(''source_component'', JStr ''turn_observer''), (''conversation_id'', JStr (ti_conversation_id ti)),
               (''genome_id'', jopt_str (en_genome_id env)),
               (''privacy_mode'', JStr (pt_mode (policy_from_metadata md)))]\<rparr>)"

text \<open>The metadata after the fanout returned a status, or raised.\<close>

definition note_observation :: "fanout_status result \<Rightarrow> json_dict \<Rightarrow> json_dict" where
  "note_observation r md =
     (case r of
        Inl e \<Rightarrow> dict_put ''memory_observation_state'' (JStr ''enqueue_failed'') md
      | Inr s \<Rightarrow>
          (let md1 = dict_put ''memory_observation_state'' (JStr (fs_state s)) md
           in case fs_error s of
                None \<Rightarrow> md1
              | Some e \<Rightarrow> (if e = [] then md1 else dict_put ''memory_observation_error'' (JStr e) md1)))"

definition publish_observation :: "'w turn_env \<Rightarrow> 'w run_input \<Rightarrow> ('w, unit) act" where
  "publish_observation env ri st =
     (let ti = rn_input ri; c = ti_context ti
      in if \<not> memory_write_enabled c \<or> (tx_provisional_memory_save c \<and> tx_source_session_id c \<noteq> Some (ti_session_id ti))
         then (Inr (), st)
         else case publish_turn (en_fanout env) (observation_request env ri (st_md st)) \<lparr>fw_rows = st_rows st, fw_ext = st_ext st\<rparr> of
           (r, fw) \<Rightarrow>
             (case en_enqueue_interrupt env (st_ext st) of
                Some (played, committed) \<Rightarrow>
                  (Inl (ExcCancelled played), if committed then st\<lparr>st_rows := fw_rows fw, st_ext := fw_ext fw\<rparr> else st)
              | None \<Rightarrow>
                  (Inr (), st\<lparr>st_rows := fw_rows fw, st_ext := fw_ext fw, st_md := note_observation r (st_md st)\<rparr>)))"

text \<open>The step of \<open>run\<close> that decides whether, and how, the turn is observed.\<close>

definition observe_input :: "'w turn_env \<Rightarrow> 'w run_input \<Rightarrow> bool \<Rightarrow> ('w, unit) act" where
  "observe_input env ri speculative =
     abind (reads (\<lambda>st. memory_write_trace (rn_input ri) (st_md st) (st_policy st) (en_memory_mode env))) (\<lambda>trace.
     aseq (put_md ''memory_write_trace'' (JDict trace))
     (awhen (\<not> speculative \<and> dict_get trace ''fanout_allowed'' = JBool True)
       (aseq (put_md ''memory_observation_scheduled'' (JBool True))
         (if is_durable (en_fanout env) then publish_observation env ri
          else modify (\<lambda>st. st\<lparr>st_background := st_background st @ [Observe_job]\<rparr>)))))"


section \<open>The history window\<close>

text \<open>\<open>_remember_turn\<close>: the turn's messages as the window holds them.\<close>

definition remembered_messages ::
  "'w turn_env \<Rightarrow> 'w run_input \<Rightarrow> json_dict \<Rightarrow> utext \<Rightarrow> string \<Rightarrow> chat_message list" where
  "remembered_messages env ri md answer status =
     (let ti = rn_input ri;
          base = [(''turn_id'', JStr (ti_turn_id ti)), (''turn_started_at'', JStr (isoformat (en_started_at env))),
                  (''turn_status'', JStr status)]
                 @ (if mark_messages_private (policy_from_metadata md) then [(''is_private'', JBool True)] else []);
          user = (case ti_text ti of
                    None \<Rightarrow> []
                  | Some t \<Rightarrow> (if t = [] then []
                       else [(new_message (turn_message_id (ti_turn_id ti) 0) USER t (en_started_at env))
                               \<lparr>cm_metadata := base @ [(''seq_in_turn'', JInt 0),
                                  (''speaker_source'', speaker_source (tx_speaker_observation (ti_context ti)))]\<rparr>]));
          assistant = (if answer = [] then []
                       else [(new_message (turn_message_id (ti_turn_id ti) 1) ASSISTANT answer (en_now env))
                               \<lparr>cm_metadata := base @ [(''seq_in_turn'', JInt 1)]
                                  @ (if truthy (dict_get md ''capability_references'')
                                     then [(''capability_references'', dict_get md ''capability_references''),
                                           (''reference_session_id'', JStr (ti_session_id ti))]
                                     else [])\<rparr>])
      in user @ assistant)"

definition leaves_no_trace :: "json_dict \<Rightarrow> bool" where
  "leaves_no_trace md =
     (truthy (dict_get md ''speculative'') \<or> \<not> truthy (dict_get md ''committed_turn_persistence_allowed''))"

definition remember_turn :: "'w turn_env \<Rightarrow> 'w run_input \<Rightarrow> utext \<Rightarrow> turn_status option \<Rightarrow> ('w, unit) act" where
  "remember_turn env ri answer status = modify (\<lambda>st.
     if leaves_no_trace (st_md st) then st
     else st\<lparr>st_history := replace_turn (ti_conversation_id (rn_input ri)) (ti_turn_id (rn_input ri))
               (remembered_messages env ri (st_md st) answer
                  (case status of None \<Rightarrow> ''active'' | Some s \<Rightarrow> turn_status_value s)) (st_history st)\<rparr>)"

definition finalize :: "('w, unit) act" where
  "finalize = modify (\<lambda>st. st\<lparr>st_finalized := True\<rparr>)"

definition set_persist_text :: "utext \<Rightarrow> ('w, unit) act" where
  "set_persist_text t = modify (\<lambda>st. st\<lparr>st_persist_text := t\<rparr>)"


section \<open>Canned lines\<close>

text \<open>\<open>_persona_phrase\<close>: the genome's line, when it is a text that is not blank.\<close>

definition persona_phrase :: "json_dict \<Rightarrow> string \<Rightarrow> utext \<Rightarrow> utext" where
  "persona_phrase md key dflt =
     (case dict_get md ''persona_spoken_phrases'' of
        JDict phrases \<Rightarrow> (case dict_get phrases key of JStr s \<Rightarrow> (if py_strip s \<noteq> [] then utext_of s else dflt) | _ \<Rightarrow> dflt)
      | _ \<Rightarrow> dflt)"

definition delegated_reply :: utext where
  "delegated_reply =
     [25910, 21040, 65292, 25105, 24050, 20132, 32473, 21518, 21488, 32, 99, 111, 119, 111, 114, 107, 101,
      114, 32, 22788, 29702, 65292, 20250, 32487, 32493, 36319, 36827, 12290]"

definition refuse_reply :: utext where
  "refuse_reply =
     [25105, 19981, 33021, 37027, 26679, 20570, 65292, 19981, 36807, 25105, 21487, 20197, 32487, 32493, 38506,
      20320, 32842, 28857, 21035, 30340, 12290]"

definition soften_prefix :: utext where
  "soften_prefix = [65288, 35753, 25105, 25442, 20010, 35828, 27861, 65289]"

text \<open>\<open>_tool_answer_announcement\<close>.\<close>

definition tool_answer_announcement :: "json_dict \<Rightarrow> tool_call \<Rightarrow> utext" where
  "tool_answer_announcement md c =
     (if tc_name c = delegate_tool then persona_phrase md ''coworker_delegated'' delegated_reply else [])"


section \<open>The tools of the turn\<close>

type_synonym 'w tool_set = "tool_schema list \<times> (string \<times> 'w tool) list"

text \<open>The parts of \<open>_tool_schemas\<close>: the body's capabilities, the head, the channel's tools.\<close>

definition add_body_tools :: "'w turn_env \<Rightarrow> 'w run_input \<Rightarrow> 'w tool_set \<Rightarrow> ('w, 'w tool_set) act" where
  "add_body_tools env ri tools =
     (if rc_allow_body_control (rn_config ri)
      then (case en_body_tools env of
              None \<Rightarrow> ret tools
            | Some assemble \<Rightarrow>
                abind (external (assemble (ti_context (rn_input ri)))) (\<lambda>(schemas, ports).
                  let deny = rc_tool_deny (rn_config ri)
                  in ret (fst tools @ filter (\<lambda>s. ts_name s \<notin> set deny) schemas,
                          dict_merge (snd tools) (filter (\<lambda>p. fst p \<notin> set deny) ports))))
      else ret tools)"

definition wants_motion :: "json_dict \<Rightarrow> bool" where
  "wants_motion md =
     (\<not> truthy (dict_get md ''speculative'') \<and> dict_get md ''motion_profile'' = JStr ''stackchan.head.v1''
      \<and> dict_get (as_dict (dict_get md ''selected_outputs'')) ''motion'' = JBool True)"

definition add_motion_tool :: "'w run_input \<Rightarrow> json_dict \<Rightarrow> 'w tool_set \<Rightarrow> 'w tool_set" where
  "add_motion_tool ri md tools =
     (case rn_motion_tool ri of
        None \<Rightarrow> tools
      | Some t \<Rightarrow>
          (if rc_allow_body_control (rn_config ri) \<and> wants_motion md
              \<and> visible_schemas (rc_tool_allow (rn_config ri)) (rc_tool_deny (rn_config ri)) [tl_schema t] \<noteq> []
           then (fst tools @ [tl_schema t], dict_put (ts_name (tl_schema t)) t (snd tools))
           else tools))"

definition add_channel_tools :: "'w run_input \<Rightarrow> 'w tool_set \<Rightarrow> 'w tool_set" where
  "add_channel_tools ri tools =
     (case rn_channel_tools ri of
        None \<Rightarrow> tools
      | Some ts \<Rightarrow>
          (let capable = filter (\<lambda>t. ts_name (tl_schema t) \<in> set (rn_channel_capabilities ri)) ts;
               visible = visible_schemas (rc_tool_allow (rn_config ri)) (rc_tool_deny (rn_config ri)) (map tl_schema capable)
           in (fst tools @ visible,
               dict_merge (snd tools)
                 (map (\<lambda>t. (ts_name (tl_schema t), t))
                   (filter (\<lambda>t. ts_name (tl_schema t) \<in> set (map ts_name visible)) capable)))))"

definition harness_visible :: "string list \<Rightarrow> 'w tool_set \<Rightarrow> 'w tool_set" where
  "harness_visible hidden tools =
     (let visible = filter (\<lambda>s. ts_name s \<notin> set hidden) (fst tools)
      in (visible, filter (\<lambda>p. fst p \<in> set (map ts_name visible)) (snd tools)))"

definition tool_schemas :: "'w turn_env \<Rightarrow> 'w run_input \<Rightarrow> ('w, 'w tool_set) act" where
  "tool_schemas env ri =
     abind (add_body_tools env ri
        (visible_schemas (rc_tool_allow (rn_config ri)) (rc_tool_deny (rn_config ri))
           (list_schemas (d_registry (en_dispatcher env))), [])) (\<lambda>tools.
     reads (\<lambda>st. harness_visible (en_hidden_tools env) (add_channel_tools ri (add_motion_tool ri (st_md st) tools))))"

end
