(* ===== verification/Turn_Loop.thy ===== *)
theory Turn_Loop
  imports Turn_Engine
begin

text \<open>
  The model's stream and the tool loop of \<open>TurnEngine.run\<close>: what a delta does, which calls are
  dispatched, what a round of tools leaves for the next call of the model.
\<close>

section \<open>The stream\<close>

text \<open>A substantive announcement counts as answer text, once per turn.\<close>

definition announce :: "'w run_input \<Rightarrow> tool_call \<Rightarrow> ('w, unit) act" where
  "announce ri c =
     abind (reads (\<lambda>st. (tool_answer_announcement (st_md st) c, st_announced st))) (\<lambda>(line, seen).
     awhen (line \<noteq> [] \<and> line \<notin> set seen)
       (aseq (modify (\<lambda>st. st\<lparr>st_announced := line # st_announced st\<rparr>)) (say ri line)))"

definition on_delta :: "'w run_input \<Rightarrow> bool \<Rightarrow> llm_delta \<Rightarrow> ('w, unit) act" where
  "on_delta ri pm d =
     aseq (case ld_activity d of None \<Rightarrow> ret () | Some a \<Rightarrow> emit ri (EvProgress a))
     (aseq (case ld_text d of
              None \<Rightarrow> ret ()
            | Some t \<Rightarrow> awhen (t \<noteq> [] \<and> \<not> pm) (say ri t))
     (aseq (case ld_tool_call d of
              None \<Rightarrow> ret ()
            | Some c \<Rightarrow> awhen (\<not> pm \<or> tc_name c \<noteq> response_tool)
                (aseq (awhen (\<not> pm) (announce ri c)) (emit ri (EvToolCall c))))
       (case ld_usage d of
          None \<Rightarrow> ret ()
        | Some (i, o1) \<Rightarrow>
            aseq (modify (\<lambda>st. st\<lparr>st_usage_in := st_usage_in st + i, st_usage_out := st_usage_out st + o1\<rparr>))
              (emit ri (EvUsage i o1)))))"

fun stream_deltas ::
  "'w run_input \<Rightarrow> bool \<Rightarrow> llm_delta list \<Rightarrow> tool_call list \<Rightarrow> finish_reason option
     \<Rightarrow> ('w, tool_call list \<times> finish_reason option) act" where
  "stream_deltas ri pm [] calls fin = ret (calls, fin)"
| "stream_deltas ri pm (d # ds) calls fin =
     aseq (on_delta ri pm d)
       (stream_deltas ri pm ds
          (case ld_tool_call d of None \<Rightarrow> calls | Some c \<Rightarrow> calls @ [c])
          (case ld_finish d of None \<Rightarrow> fin | Some f \<Rightarrow> Some f))"

text \<open>One call of the model: the deltas it delivered and the exception that ended it, if one did.\<close>

definition call_model ::
  "'w turn_env \<Rightarrow> 'w run_input \<Rightarrow> tool_schema list \<Rightarrow> chat_message list \<Rightarrow> ('w, llm_delta list \<times> turn_exc option) act" where
  "call_model env ri schemas messages st =
     (case en_llm env messages schemas (rn_config ri) (st_ext st) of
        (deltas, e, w) \<Rightarrow> (Inr (deltas, e), st\<lparr>st_ext := w, st_streams := st_streams st + 1\<rparr>))"

definition stream_round ::
  "'w turn_env \<Rightarrow> 'w run_input \<Rightarrow> bool \<Rightarrow> tool_schema list \<Rightarrow> chat_message list
     \<Rightarrow> ('w, tool_call list \<times> finish_reason option) act" where
  "stream_round env ri pm schemas messages =
     abind (call_model env ri schemas messages) (\<lambda>(deltas, e).
     abind (stream_deltas ri pm deltas [] None) (\<lambda>r.
       case e of None \<Rightarrow> ret r | Some x \<Rightarrow> fail x))"


section \<open>A round of tools\<close>

definition max_failures_per_tool :: int where
  "max_failures_per_tool = 1"

definition failure_count :: "(string \<times> int) list \<Rightarrow> string \<Rightarrow> int" where
  "failure_count counts name = (case map_of counts name of None \<Rightarrow> 0 | Some n \<Rightarrow> n)"

definition worn_out :: "(string \<times> int) list \<Rightarrow> tool_call \<Rightarrow> bool" where
  "worn_out counts c = (failure_count counts (tc_name c) \<ge> max_failures_per_tool)"

text \<open>\<open>_suppressed_tool_result\<close>.\<close>

definition suppressed_tool_result :: "tool_call \<Rightarrow> tool_result" where
  "suppressed_tool_result c =
     (failed_result c ''tool_repeat_suppressed''
        (''tool '' @ tc_name c @ '' already failed in this turn; repeated call was suppressed. Answer the user ''
         @ ''from the latest available failure/result instead of retrying the same tool again.''))
       \<lparr>tr_metadata := [(''repeat_suppressed'', JBool True)]\<rparr>"

text \<open>\<open>_merge_tool_results\<close>: by call id, the last result of an id, in the order of the calls.\<close>

definition merge_tool_results :: "tool_call list \<Rightarrow> tool_result list \<Rightarrow> tool_result list" where
  "merge_tool_results calls results =
     (let by_id = fold (\<lambda>r. dict_put (tr_call_id r) r) results []
      in List.map_filter (\<lambda>c. map_of by_id (tc_id c)) calls)"

definition count_failure :: "tool_result \<Rightarrow> (string \<times> int) list \<Rightarrow> (string \<times> int) list" where
  "count_failure r counts =
     (if tr_ok r then dict_del (tr_name r) counts
      else dict_put (tr_name r) (failure_count counts (tr_name r) + 1) counts)"

text \<open>\<open>_handoff_from_tool_result\<close>.\<close>

definition handoff_of :: "tool_result \<Rightarrow> turn_event_data option" where
  "handoff_of r =
     (let content = as_dict (tr_content r);
          task = dict_get content ''task_id''; progress = dict_get content ''progress_subject''
      in if tr_name r \<noteq> delegate_tool \<or> \<not> tr_ok r then None
         else if \<not> truthy task \<or> \<not> truthy progress then None
         else Some (EvHandoff task progress))"

text \<open>The references a tool result leaves for later turns: the last four that are not too large.\<close>

definition retain_references :: "'w turn_env \<Rightarrow> tool_result \<Rightarrow> json_dict \<Rightarrow> json_dict" where
  "retain_references env r md =
     (case dict_get (tr_metadata r) ''reference_context'' of
        JDict refs \<Rightarrow>
          (if tr_ok r \<and> refs \<noteq> [] \<and> en_json_bytes env (JDict refs) \<le> 8192
           then dict_put ''capability_references''
                  (JList (py_tail 4 ((case dict_get md ''capability_references'' of JList l \<Rightarrow> l | _ \<Rightarrow> [])
                     @ [JDict [(''tool'', JStr (tr_name r)), (''call_id'', JStr (tr_call_id r)), (''objects'', JDict refs)]]))) md
           else md)
      | _ \<Rightarrow> md)"

text \<open>The message that tells the model what a tool returned.\<close>

definition outcome_states :: "json list" where
  "outcome_states = [JStr ''accepted'', JStr ''completed'', JStr ''failed'']"

definition tool_message_text :: "'w turn_env \<Rightarrow> tool_result \<Rightarrow> utext" where
  "tool_message_text env r =
     (let state = dict_get (tr_metadata r) ''outcome_state''
      in if tr_ok r \<and> state \<in> set outcome_states
         then en_str env (JDict [(''outcome_state'', state), (''result'', tr_content r)])
         else if tr_ok r then en_str env (tr_content r)
         else utext_of (case tr_error_message r of None \<Rightarrow> [] | Some m \<Rightarrow> m))"

definition tool_message :: "'w turn_env \<Rightarrow> tool_result \<Rightarrow> chat_message" where
  "tool_message env r =
     (new_message (en_fresh env) TOOL (tool_message_text env r) (en_now env))
       \<lparr>cm_tool_call_id := Some (tr_call_id r), cm_tool_name := Some (tr_name r)\<rparr>"

definition calls_message :: "'w turn_env \<Rightarrow> tool_call list \<Rightarrow> chat_message" where
  "calls_message env calls = (new_message (en_fresh env) ASSISTANT [] (en_now env))\<lparr>cm_tool_calls := calls\<rparr>"

definition on_result :: "'w turn_env \<Rightarrow> 'w run_input \<Rightarrow> tool_result \<Rightarrow> ('w, unit) act" where
  "on_result env ri r =
     aseq (modify (\<lambda>st. st\<lparr>st_outcomes := dict_put (tr_call_id r) r (st_outcomes st),
                           st_md := retain_references env r (st_md st)\<rparr>))
     (aseq (emit ri (EvToolResult (tr_name r) (tr_ok r) (tr_content r) (tr_error_code r)))
       (case handoff_of r of None \<Rightarrow> ret () | Some h \<Rightarrow> emit ri h))"

fun on_results :: "'w turn_env \<Rightarrow> 'w run_input \<Rightarrow> tool_result list \<Rightarrow> ('w, unit) act" where
  "on_results env ri [] = ret ()"
| "on_results env ri (r # rs) = aseq (on_result env ri r) (on_results env ri rs)"

definition turn_tool_ctx :: "'w run_input \<Rightarrow> tool_ctx" where
  "turn_tool_ctx ri =
     (let ti = rn_input ri; c = ti_context ti
      in \<lparr>tic_turn_context = c, tic_input_modality = ti_input_modality ti, tic_turn_id = ti_turn_id ti,
          tic_conversation_id = Some (ti_conversation_id ti), tic_session_id = Some (ti_session_id ti),
          tic_user_text = Some (case ti_text ti of None \<Rightarrow> [] | Some t \<Rightarrow> t),
          tic_companion_id = Some (tx_companion_id c), tic_memory_realm_id = Some (tx_memory_realm_id c),
          tic_dry_run = False, tic_denied_tools = rc_tool_deny (rn_config ri)\<rparr>)"

text \<open>The spoken hint while slow tools run, once per turn.\<close>

definition slow_tool_hint :: "'w turn_env \<Rightarrow> 'w run_input \<Rightarrow> bool \<Rightarrow> tool_call list \<Rightarrow> ('w, unit) act" where
  "slow_tool_hint env ri pm calls =
     abind (reads (\<lambda>st. (\<not> st_hinted st \<and> en_slow env calls (st_ext st),
                          persona_phrase (st_md st) ''slow_tool_hint'' (en_slow_hint_text env)))) (\<lambda>(slow, line).
     awhen (slow \<and> \<not> pm \<and> (\<exists>c \<in> set calls. tc_name c \<noteq> delegate_tool))
       (aseq (modify (\<lambda>st. st\<lparr>st_hinted := True\<rparr>)) (emit ri (EvDelta line (Some (en_slow_hint_role env))))))"

definition dispatch_calls ::
  "'w turn_env \<Rightarrow> 'w run_input \<Rightarrow> (string \<times> 'w tool) list \<Rightarrow> tool_call list \<Rightarrow> ('w, tool_result list) act" where
  "dispatch_calls env ri extra calls st =
     (let st1 = st\<lparr>st_rounds := st_rounds st @ [(st_trace st, calls)]\<rparr>
      in case en_interrupt env calls (st_ext st) of
           Some (played, w) \<Rightarrow> (Inl (ExcCancelled played), st1\<lparr>st_ext := w\<rparr>)
         | None \<Rightarrow>
             (case dispatch_batch (en_dispatcher env) (en_batch_timeout env) (en_late env calls (st_ext st)) (Some extra)
                     (turn_tool_ctx ri) (en_sched env) calls (st_ext st) of
                (results, w) \<Rightarrow> (Inr results, st1\<lparr>st_ext := w\<rparr>)))"

definition dispatch_round ::
  "'w turn_env \<Rightarrow> 'w run_input \<Rightarrow> bool \<Rightarrow> (string \<times> 'w tool) list \<Rightarrow> tool_call list \<Rightarrow> ('w, tool_result list) act" where
  "dispatch_round env ri pm extra calls =
     (if calls = [] then ret []
      else aseq (slow_tool_hint env ri pm calls) (dispatch_calls env ri extra calls))"

text \<open>One round: the calls of tools that already failed are answered without running them.\<close>

definition tool_round ::
  "'w turn_env \<Rightarrow> 'w run_input \<Rightarrow> bool \<Rightarrow> (string \<times> 'w tool) list \<Rightarrow> chat_message list \<Rightarrow> tool_call list
     \<Rightarrow> ('w, chat_message list) act" where
  "tool_round env ri pm extra messages calls =
     abind (reads st_failures) (\<lambda>counts.
     aseq (modify (\<lambda>st. st\<lparr>st_suppressed := st_suppressed st + int (length (filter (worn_out counts) calls))\<rparr>))
     (abind (dispatch_round env ri pm extra (filter (\<lambda>c. \<not> worn_out counts c) calls)) (\<lambda>dispatched.
       let results = merge_tool_results calls (dispatched @ map suppressed_tool_result (filter (worn_out counts) calls))
       in aseq (modify (\<lambda>st. st\<lparr>st_failures := fold count_failure results (st_failures st),
                                st_trace := st_trace st @ results\<rparr>))
         (aseq (on_results env ri results)
           (ret (messages @ calls_message env calls # map (tool_message env) results))))))"


section \<open>The loop\<close>

text \<open>The terminal response of presentation mode: alone, complete, and backed by this turn's outcomes.\<close>

definition terminal_response ::
  "'w turn_env \<Rightarrow> 'w run_input \<Rightarrow> output_selection option \<Rightarrow> tool_call list \<Rightarrow> finish_reason option
     \<Rightarrow> tool_call \<Rightarrow> ('w, unit) act" where
  "terminal_response env ri outputs calls fin c =
     (if length calls \<noteq> 1 \<or> fin \<noteq> Some TOOL_CALLS
      then fail (ExcPresentation ''TERMINAL_RESPONSE_MUST_BE_COMPLETE_AND_ALONE'')
      else abind (reads st_outcomes) (\<lambda>outcomes.
        case resolve_response (en_sdk env) (tc_arguments c) (ti_turn_id (rn_input ri)) (ti_session_id (rn_input ri))
               outcomes outputs of
          Inl e \<Rightarrow> fail (ExcPresentation e)
        | Inr r \<Rightarrow>
            aseq (modify (\<lambda>st. st\<lparr>st_response := Some r\<rparr>))
              (case rr_error r of
                 None \<Rightarrow> ret ()
               | Some e \<Rightarrow> awhen (e \<noteq> [])
                   (aseq (put_md ''presentation_error'' (JStr e)) (put_md ''presentation_delivery'' (JStr ''rejected''))))))"

text \<open>
  One pass of the \<open>while True\<close>: stream, and then finish, refuse, or hand the calls to \<open>next\<close>, which
  runs a round if one is left.
\<close>

definition loop_pass ::
  "'w turn_env \<Rightarrow> 'w run_input \<Rightarrow> bool \<Rightarrow> output_selection option \<Rightarrow> tool_schema list \<Rightarrow> chat_message list
     \<Rightarrow> (tool_call list \<Rightarrow> ('w, unit) act) \<Rightarrow> ('w, unit) act" where
  "loop_pass env ri pm outputs schemas messages next =
     abind (stream_round env ri pm schemas messages) (\<lambda>(calls, fin).
       case (if pm then filter (\<lambda>c. tc_name c = response_tool) calls else []) of
         c # cs \<Rightarrow> terminal_response env ri outputs calls fin c
       | [] \<Rightarrow>
           aseq (awhen (fin = Some LENGTH) (put_md ''output_truncated'' (JBool True)))
             (if fin = Some TOOL_CALLS \<and> calls \<noteq> []
              then (if rn_coordinated ri
                    then fail (ExcOther (OtherError ''PermissionError'' ''coordinated replies do not authorize tool actions''))
                    else next calls)
              else ret ()))"

primrec tool_loop ::
  "'w turn_env \<Rightarrow> 'w run_input \<Rightarrow> bool \<Rightarrow> output_selection option \<Rightarrow> 'w tool_set \<Rightarrow> nat \<Rightarrow> chat_message list
     \<Rightarrow> ('w, unit) act" where
  "tool_loop env ri pm outputs tools 0 messages =
     loop_pass env ri pm outputs (fst tools) messages (\<lambda>calls.
       emit ri (EvError ''tool_loop_exceeded'' (''exceeded max_tool_iters='' @ int_str (en_max_tool_iters env))))"
| "tool_loop env ri pm outputs tools (Suc n) messages =
     loop_pass env ri pm outputs (fst tools) messages (\<lambda>calls.
       abind (tool_round env ri pm (snd tools) messages calls) (tool_loop env ri pm outputs tools n))"

end
