(* ===== verification/Turn_Run.thy ===== *)
theory Turn_Run
  imports Turn_Loop
begin

text \<open>
  \<open>TurnEngine.run\<close>, whole: admission, the persistence boundary, the guarded body, what each kind of
  exception leaves behind, and the \<open>finally\<close> that runs whatever happened.
\<close>

section \<open>The three ways through the body\<close>

text \<open>The expression of a fixed answer.\<close>

definition safe_intent :: "'w turn_env \<Rightarrow> 'w run_input \<Rightarrow> string \<Rightarrow> response_intent" where
  "safe_intent env ri intent =
     response_intent_of ((ps_none (en_sdk env))\<lparr>pc_intent := intent\<rparr>) (ti_turn_id (rn_input ri)) (ti_session_id (rn_input ri))"

definition crisis_stage :: "'w turn_env \<Rightarrow> 'w run_input \<Rightarrow> bool \<Rightarrow> bool \<Rightarrow> ('w, unit) act" where
  "crisis_stage env ri pm speculative =
     (let c = ti_context (rn_input ri)
      in abind (external (crisis_handle (en_crisis_bus env) (tx_companion_id c) (tx_owner_id c) (tx_locale c))) (\<lambda>(text, resources).
         aseq (set_persist_text text)
         (aseq (emit ri (EvState SPEAKING))
         (aseq (awhen (pm \<and> \<not> speculative) (emit ri (EvPresentation (safe_intent env ri ''comfort''))))
         (aseq (emit ri (EvDelta text None))
         (aseq (remember_turn env ri text (Some OK))
         (aseq finalize (emit ri (EvDone OK (CrisisExtra resources))))))))))"

definition refuse_stage :: "'w turn_env \<Rightarrow> 'w run_input \<Rightarrow> bool \<Rightarrow> bool \<Rightarrow> ('w, unit) act" where
  "refuse_stage env ri pm speculative =
     aseq (set_persist_text refuse_reply)
     (aseq (awhen (pm \<and> \<not> speculative) (emit ri (EvPresentation (safe_intent env ri ''decline''))))
     (aseq (emit ri (EvDelta refuse_reply None))
     (aseq (remember_turn env ri refuse_reply (Some OK))
     (aseq finalize (emit ri (EvDone OK NoExtra))))))"

text \<open>
  Awaiting the compiler: it returns the messages or raises, and writes entries of the metadata. The keys
  are the ones \<open>domain/context/compiler.py\<close> writes.
\<close>

definition compiler_keys :: "string list" where
  "compiler_keys =
     [''persona_evidence_refs'', ''persona_spoken_phrases'', ''response_policy'', ''history_window_applied'',
      ''summary_trace'', ''memory_trace'', ''commitment_context_trace'', ''context_focus'',
      ''context_structure_version'', ''history_presentation'', ''context_tags'',
      ''interrupted_context_dropped_count'', ''context_ledger'', ''development_guards'', ''harness_snapshot'',
      ''memory_recall_query'']"

definition note_compiled :: "json_dict \<Rightarrow> json_dict \<Rightarrow> json_dict" where
  "note_compiled written md = fold (\<lambda>(k, v). dict_put k v) (filter (\<lambda>(k, v). k \<in> set compiler_keys) written) md"

definition compile_context :: "'w turn_env \<Rightarrow> 'w run_input \<Rightarrow> ('w, chat_message list) act" where
  "compile_context env ri st =
     (case en_compile env (rn_input ri) (st_md st) (st_history st) (st_ext st) of
        (r, written, w) \<Rightarrow> (r, st\<lparr>st_md := note_compiled written (st_md st), st_ext := w\<rparr>))"

text \<open>The selected outputs, where the metadata has them; the SDK may refuse them.\<close>

definition selected_outputs :: "'w turn_env \<Rightarrow> json_dict \<Rightarrow> py_error + output_selection option" where
  "selected_outputs env md =
     (case map_of md ''selected_outputs'' of
        None \<Rightarrow> Inr None
      | Some v \<Rightarrow> (case en_outputs env v of
                     None \<Rightarrow> Inl (ValidationError ''invalid selected_outputs'')
                   | Some o1 \<Rightarrow> Inr (Some o1)))"

text \<open>Presentation mode adds the response tool and a message that describes it.\<close>

definition add_response_tool ::
  "'w turn_env \<Rightarrow> bool \<Rightarrow> output_selection option \<Rightarrow> tool_schema list \<Rightarrow> chat_message list
     \<Rightarrow> ('w, output_selection option \<times> tool_schema list \<times> chat_message list) act" where
  "add_response_tool env pm outputs schemas messages =
     (if \<not> pm then ret (outputs, schemas, messages)
      else if \<exists>s \<in> set schemas. ts_name s = response_tool
      then fail (ExcOther (ValueError ''RESERVED_RESPONSE_TOOL_COLLISION''))
      else abind (reads st_md) (\<lambda>md.
        case selected_outputs env md of
          Inl e \<Rightarrow> fail (ExcOther e)
        | Inr outs \<Rightarrow>
            (let schema = en_response_schema env outs;
                 chosen = (case map_of md ''selected_outputs'' of None \<Rightarrow> JDict [] | Some v \<Rightarrow> v)
             in ret (outs, schemas @ [schema],
                  messages @ [new_message (en_fresh env) SYSTEM_ROLE
                    (ts_description schema @ utext_of '' Selected outputs: '' @ en_str env chosen) (en_now env)]))))"

definition intent_placeholder :: "string \<Rightarrow> utext" where
  "intent_placeholder intent =
     [91, 34920, 36798, 24847, 22270, 65306] @ utext_of intent @ [65307, 35774, 22791, 23637, 31034, 29366, 24577, 65306]
     @ utext_of ''unconfirmed]''"

text \<open>Announcing the intent and the answer; the text that is remembered.\<close>

definition present_response :: "'w turn_env \<Rightarrow> 'w run_input \<Rightarrow> bool \<Rightarrow> utext \<Rightarrow> ('w, utext) act" where
  "present_response env ri speculative final =
     abind (reads st_response) (\<lambda>resp.
       case resp of
         None \<Rightarrow> ret final
       | Some r \<Rightarrow>
           (if speculative then ret final
            else aseq (put_md ''response_intent'' (en_intent_json env (rr_intent r)))
              (aseq (modify (\<lambda>st. st\<lparr>st_md := dict_setdefault ''presentation_delivery'' (JStr ''unconfirmed'') (st_md st)\<rparr>))
              (aseq (emit ri (EvPresentation (rr_intent r)))
                (if final \<noteq> []
                 then aseq (put_md ''language_delivery'' (JStr ''unconfirmed''))
                   (aseq (modify (\<lambda>st. st\<lparr>st_parts := [final]\<rparr>))
                   (aseq (emit ri (EvDelta final None)) (ret final)))
                 else ret (intent_placeholder (pc_intent (ri_candidate (rr_intent r)))))))))"

definition await_receipt :: "'w run_input \<Rightarrow> bool \<Rightarrow> ('w, unit) act" where
  "await_receipt ri speculative =
     abind (reads st_response) (\<lambda>resp.
       case resp of
         None \<Rightarrow> ret ()
       | Some r \<Rightarrow>
           awhen (\<not> speculative \<and> rn_has_feedback ri \<and> pc_intent (ri_candidate (rr_intent r)) \<noteq> ''none'')
             (abind (external (rn_feedback ri)) (\<lambda>receipt.
                case receipt of
                  None \<Rightarrow> ret ()
                | Some (status, dump) \<Rightarrow>
                    aseq (put_md ''presentation_delivery'' (JStr status)) (put_md ''presentation_receipt'' dump))))"

text \<open>The answer so far: the structured one, or everything that was streamed.\<close>

definition raw_answer :: "'w turn_state \<Rightarrow> utext" where
  "raw_answer st =
     (case st_response st of
        Some r \<Rightarrow> (case rc_public_text (rr_candidate r) of None \<Rightarrow> [] | Some t \<Rightarrow> t)
      | None \<Rightarrow> concat (st_parts st))"

definition output_stage :: "'w turn_env \<Rightarrow> 'w run_input \<Rightarrow> bool \<Rightarrow> bool \<Rightarrow> ('w, unit) act" where
  "output_stage env ri pm speculative =
     abind (reads (\<lambda>st. (pm \<and> st_response st = None, raw_answer st,
                          persona_phrase (st_md st) ''soften_prefix'' soften_prefix))) (\<lambda>(missing, raw, prefix).
     if missing then fail (ExcPresentation ''STRUCTURED_RESPONSE_REQUIRED'')
     else
       let soften = (output_check raw (en_taboos env) = Soften)
       in aseq (awhen (soften \<and> \<not> pm) (emit ri (EvDelta prefix None)))
         (abind (present_response env ri speculative (if soften then prefix @ raw else raw)) (\<lambda>final.
          aseq (set_persist_text final)
          (aseq (remember_turn env ri final (Some OK))
          (aseq finalize
          (aseq (emit ri (EvDone OK (TriageExtra SIMPLE))) (await_receipt ri speculative)))))))"

text \<open>From the memory observation to the end of the tool loop.\<close>

definition generate_stage ::
  "'w turn_env \<Rightarrow> 'w run_input \<Rightarrow> bool \<Rightarrow> bool \<Rightarrow> output_selection option \<Rightarrow> ('w, unit) act" where
  "generate_stage env ri pm speculative outputs =
     aseq (observe_input env ri speculative)
     (aseq (emit ri (EvState THINKING))
     (abind (compile_context env ri) (\<lambda>messages.
      abind (if rn_coordinated ri then ret ([], []) else tool_schemas env ri) (\<lambda>tools.
      abind (add_response_tool env pm outputs (fst tools) messages) (\<lambda>(outs, schemas, msgs).
      aseq (emit ri (EvState SPEAKING))
        (tool_loop env ri pm outs (schemas, snd tools) (nat (en_max_tool_iters env)) msgs))))))"

definition answer_stage ::
  "'w turn_env \<Rightarrow> 'w run_input \<Rightarrow> bool \<Rightarrow> bool \<Rightarrow> output_selection option \<Rightarrow> ('w, unit) act" where
  "answer_stage env ri pm speculative outputs =
     aseq (generate_stage env ri pm speculative outputs) (output_stage env ri pm speculative)"

definition run_body ::
  "'w turn_env \<Rightarrow> 'w run_input \<Rightarrow> bool \<Rightarrow> bool \<Rightarrow> output_selection option \<Rightarrow> bool \<Rightarrow> ('w, unit) act" where
  "run_body env ri pm speculative outputs cancelled =
     (let verdict = input_check (en_lower env) (ti_text (rn_input ri))
      in aseq (awhen (verdict = Escalate)
                (modify (\<lambda>st. st\<lparr>st_md := dict_put ''is_private'' (JBool True) (st_md st),
                                 st_policy := policy_from_metadata (dict_put ''is_private'' (JBool True) (st_md st))\<rparr>)))
        (aseq (remember_turn env ri [] None)
          (if cancelled then fail (ExcCancelled None)
           else if verdict = Escalate then crisis_stage env ri pm speculative
           else if verdict = Refuse then refuse_stage env ri pm speculative
           else answer_stage env ri pm speculative outputs)))"


section \<open>Exceptions\<close>

text \<open>What was heard before a cancellation: the streamed answer up to the playback boundary.\<close>

definition heard_text :: "'w turn_state \<Rightarrow> utext" where
  "heard_text st =
     (case dict_get (st_md st) ''cancel_played_chars'' of
        JInt n \<Rightarrow> take (nat (max 0 n)) (concat (st_parts st))
      | _ \<Rightarrow> concat (st_parts st))"

definition note_boundary :: "int option \<Rightarrow> ('w, unit) act" where
  "note_boundary played = (case played of None \<Rightarrow> ret () | Some n \<Rightarrow> put_md ''cancel_played_chars'' (JInt n))"

text \<open>The \<open>except\<close> clauses: the status and the error code the turn ends with.\<close>

definition handle_exception :: "'w turn_env \<Rightarrow> 'w run_input \<Rightarrow> turn_exc \<Rightarrow> ('w, turn_status \<times> string) act" where
  "handle_exception env ri e =
     (case e of
        ExcCancelled played \<Rightarrow>
          aseq (note_boundary played)
          (abind (reads heard_text) (\<lambda>heard.
           aseq (set_persist_text heard)
           (aseq (remember_turn env ri heard (Some CANCELLED_TURN))
           (aseq finalize
           (aseq (emit ri (EvError ''eidolon.turn_cancelled'' ''cancelled''))
             (ret (CANCELLED_TURN, ''eidolon.turn_cancelled'')))))))
      | ExcPresentation m \<Rightarrow>
          aseq (emit ri (EvError ''invalid_presentation'' m)) (ret (ERRORED, ''invalid_presentation''))
      | ExcBlocked code m \<Rightarrow> aseq (emit ri (EvError code m)) (ret (ERRORED, code))
      | ExcOther x \<Rightarrow> aseq (emit ri (EvError ''internal'' (exc_message x))) (ret (ERRORED, ''internal'')))"

fun reraised :: "turn_exc \<Rightarrow> turn_exc option" where
  "reraised (ExcCancelled played) = Some (ExcCancelled played)"
| "reraised _ = None"


section \<open>What is left to the background\<close>

definition turn_outcome_of ::
  "'w turn_env \<Rightarrow> 'w run_input \<Rightarrow> bool \<Rightarrow> turn_status \<Rightarrow> string option \<Rightarrow> 'w turn_state \<Rightarrow> turn_outcome" where
  "turn_outcome_of env ri persist_allowed status code st =
     \<lparr>to_status = status, to_triage = SIMPLE, to_started_at = en_started_at env, to_finished_at = en_now env,
      to_first_delta_ms = en_first_delta_ms env, to_total_ms = en_total_ms env, to_usage_in = st_usage_in st,
      to_usage_out = st_usage_out st, to_error_code = code, to_timings = en_timings env,
      to_user_text = (if persist_allowed then (case ti_text (rn_input ri) of None \<Rightarrow> [] | Some t \<Rightarrow> t) else []),
      to_assistant_text = (if persist_allowed then st_persist_text st else []),
      to_is_private = mark_messages_private (st_policy st), to_model_id = en_model_id env\<rparr>"

text \<open>\<open>_publish_turn_completed\<close>'s event.\<close>

definition completed_event :: "'w run_input \<Rightarrow> turn_status \<Rightarrow> bus_event" where
  "completed_event ri status =
     (let ti = rn_input ri
      in \<lparr>ev_subject = topic_turn_completed (ti_conversation_id ti),
          ev_payload = [(''turn_id'', JStr (ti_turn_id ti)), (''status'', JStr (turn_status_value status)),
                        (''triage'', JStr (triage_value SIMPLE))],
          ev_trace_id = Some (tx_trace_id (ti_context ti)), ev_source = Some ''agent.turn'', ev_metadata = []\<rparr>)"

definition schedule :: "turn_job \<Rightarrow> ('w, unit) act" where
  "schedule j = modify (\<lambda>st. st\<lparr>st_background := st_background st @ [j]\<rparr>)"

definition schedule_persist ::
  "'w turn_env \<Rightarrow> 'w run_input \<Rightarrow> bool \<Rightarrow> turn_status \<Rightarrow> string option \<Rightarrow> ('w, unit) act" where
  "schedule_persist env ri persist_allowed status code =
     abind (reads (turn_outcome_of env ri persist_allowed status code)) (\<lambda>o1. schedule (Persist_job o1))"

definition finally_stage ::
  "'w turn_env \<Rightarrow> 'w run_input \<Rightarrow> bool \<Rightarrow> bool \<Rightarrow> turn_status \<Rightarrow> string option \<Rightarrow> ('w, unit) act" where
  "finally_stage env ri speculative persist_allowed status code =
     abind (reads (\<lambda>st. (st_finalized st, st_persist_text st))) (\<lambda>(done, text).
     aseq (awhen (\<not> done) (remember_turn env ri text (Some status)))
     (aseq (awhen (en_persister env \<and> \<not> speculative)
        (aseq (modify (\<lambda>st. st\<lparr>st_md := dict_put ''memory_write_trace''
                 (JDict (memory_write_trace (rn_input ri) (st_md st) (st_policy st) (en_memory_mode env))) (st_md st)\<rparr>))
          (schedule_persist env ri persist_allowed status code)))
     (awhen (en_bus env \<and> \<not> speculative \<and> persist_allowed) (schedule (Completed_job (completed_event ri status))))))"

text \<open>The \<open>try\<close> statement: what leaves it, and the state after its \<open>finally\<close>.\<close>

definition run_guarded ::
  "'w turn_env \<Rightarrow> 'w run_input \<Rightarrow> bool \<Rightarrow> bool \<Rightarrow> output_selection option \<Rightarrow> bool \<Rightarrow> bool \<Rightarrow> 'w turn_state
     \<Rightarrow> turn_exc option \<times> 'w turn_state" where
  "run_guarded env ri pm speculative outputs cancelled persist_allowed st =
     (case run_body env ri pm speculative outputs cancelled st of
        (Inr u, st1) \<Rightarrow> (None, snd (finally_stage env ri speculative persist_allowed OK None st1))
      | (Inl e, st1) \<Rightarrow>
          (case handle_exception env ri e st1 of
             (Inr (status, code), st2) \<Rightarrow>
               (reraised e, snd (finally_stage env ri speculative persist_allowed status (Some code) st2))
           | (Inl e', st2) \<Rightarrow> (Some e', st2)))"


section \<open>The run\<close>

definition initial_state :: "'w run_input \<Rightarrow> history_manager \<Rightarrow> memory_row list \<Rightarrow> 'w \<Rightarrow> 'w turn_state" where
  "initial_state ri h rows w =
     \<lparr>st_events = [], st_seq = -1, st_md = ti_metadata (rn_input ri),
      st_policy = policy_from_metadata (ti_metadata (rn_input ri)), st_history = h, st_rows = rows, st_ext = w,
      st_parts = [], st_usage_in = 0, st_usage_out = 0, st_announced = [], st_hinted = False, st_failures = [],
      st_suppressed = 0, st_outcomes = [], st_trace = [], st_response = None, st_persist_text = [],
      st_finalized = False, st_background = [], st_rounds = [], st_streams = 0\<rparr>"

text \<open>Admission: the guard's answer and whether a cancellation arrived while it was awaited.\<close>

definition admit :: "'w turn_env \<Rightarrow> turn_input \<Rightarrow> 'w \<Rightarrow> (turn_exc + bool) \<times> 'w" where
  "admit env ti w =
     (case en_guard env of
        Some guard \<Rightarrow>
          (case guard ti w of
             (Inl e, cancelled, w') \<Rightarrow> (Inl e, w')
           | (Inr u, cancelled, w') \<Rightarrow> (Inr cancelled, w'))
      | None \<Rightarrow>
          (if tx_person_id (ti_context ti) \<noteq> None \<or> \<not> tx_memory_enabled (ti_context ti)
           then (Inl (ExcOther (PermissionDeniedError ''interactive conversation guard is unavailable'')), w)
           else (Inr False, w)))"

text \<open>Whether the turn answers with a structured response.\<close>

definition presentation_mode :: "'w turn_env \<Rightarrow> json_dict \<Rightarrow> output_selection option \<Rightarrow> bool" where
  "presentation_mode env md outputs =
     (dict_get md ''presentation_profile'' = en_face_profile env
      \<or> (case outputs of None \<Rightarrow> False | Some o1 \<Rightarrow> os_motion o1 \<or> \<not> (os_speech o1 \<or> os_dialogue_text o1)))"

definition commit_decision :: "'w turn_env \<Rightarrow> 'w run_input \<Rightarrow> committed_validation" where
  "commit_decision env ri =
     validate_committed_turn (en_read_decision env) (en_decision_matches env)
       (dict_get (ti_metadata (rn_input ri)) ''turn_decision'') (ti_text (rn_input ri))
       (modality_value (ti_input_modality (rn_input ri)))"

definition note_commit :: "committed_validation \<Rightarrow> json_dict \<Rightarrow> json_dict" where
  "note_commit v md =
     dict_put ''committed_turn_persistence_allowed'' (JBool (va_persistence_allowed v))
       (dict_put ''committed_turn_decision_reason'' (JStr (va_reason v))
         (dict_put ''committed_turn_decision_valid'' (JBool (va_valid v)) md))"

definition run_turn ::
  "'w turn_env \<Rightarrow> 'w run_input \<Rightarrow> history_manager \<Rightarrow> memory_row list \<Rightarrow> 'w \<Rightarrow> turn_exc option \<times> 'w turn_state" where
  "run_turn env ri h rows w =
     (case admit env (rn_input ri) w of
        (Inl e, w') \<Rightarrow> (Some e, initial_state ri h rows w')
      | (Inr cancelled, w') \<Rightarrow>
          (let md = ti_metadata (rn_input ri); st = initial_state ri h rows w'
           in case selected_outputs env md of
                Inl e \<Rightarrow> (Some (ExcOther e), st)
              | Inr outputs \<Rightarrow>
                  (let v = commit_decision env ri
                   in run_guarded env ri (presentation_mode env md outputs) (truthy (dict_get md ''speculative''))
                        outputs cancelled (va_persistence_allowed v) (st\<lparr>st_md := note_commit v md\<rparr>))))"

text \<open>\<open>_persist_turn\<close>: the background write, whose exceptions are logged.\<close>

definition persist_turn :: "datetime \<Rightarrow> turn_input \<Rightarrow> turn_outcome \<Rightarrow> runtime_db \<Rightarrow> runtime_db" where
  "persist_turn now ti o1 db = (case persist_once now ti o1 db of Inl e \<Rightarrow> db | Inr db' \<Rightarrow> db')"

end
