(* ===== verification/Turn_Frame.thy ===== *)
theory Turn_Frame
  imports Turn_Run
begin

text \<open>
  Invariants of a turn. The locales state what an invariant has to survive, in the terms of the
  elementary changes a turn makes; in them, once and for all, every stage of the turn keeps it.
  \<open>turn_quiet\<close> is the part that calls neither model nor tool, \<open>turn_frame\<close> the tool loop, \<open>turn_opening\<close>
  what comes before it, \<open>turn_generation\<close> the two together, \<open>turn_stages\<close> everything but the calls of model
  and tools, and \<open>turn_invariant\<close> the whole run. \<open>Turn_Facts\<close> and \<open>Turn_Answers\<close> interpret them.
\<close>

section \<open>The elementary changes\<close>

text \<open>
  The keys of the metadata that decide what may be kept, and what a change has to leave alone to be
  scratch work: everything but the counters of the stream, the outcomes and the other metadata.
\<close>

definition boundary_keys :: "string list" where
  "boundary_keys =
     [''speculative'', ''committed_turn_persistence_allowed'', ''temporary'', ''temporary_mode'', ''is_private'',
      ''private'', ''cancel_played_chars'']"

definition same_core :: "'w turn_state \<Rightarrow> 'w turn_state \<Rightarrow> bool" where
  "same_core st st' \<longleftrightarrow>
     st_events st' = st_events st \<and> st_seq st' = st_seq st \<and> st_policy st' = st_policy st
     \<and> st_history st' = st_history st \<and> st_rows st' = st_rows st \<and> st_parts st' = st_parts st
     \<and> st_failures st' = st_failures st \<and> st_trace st' = st_trace st \<and> st_response st' = st_response st
     \<and> st_persist_text st' = st_persist_text st \<and> st_finalized st' = st_finalized st
     \<and> st_background st' = st_background st \<and> st_rounds st' = st_rounds st \<and> st_streams st' = st_streams st
     \<and> map (dict_get (st_md st')) boundary_keys = map (dict_get (st_md st)) boundary_keys"

lemma same_core_get: "same_core st st' \<Longrightarrow> k \<in> set boundary_keys \<Longrightarrow> dict_get (st_md st') k = dict_get (st_md st) k"
  by (simp add: same_core_def)

lemma dict_get_put [simp]: "dict_get (dict_put k v md) x = (if x = k then v else dict_get md x)"
  by (simp add: dict_get_def)

lemma dict_get_setdefault: "x \<noteq> k \<Longrightarrow> dict_get (dict_setdefault k v md) x = dict_get md x"
  by (simp add: dict_get_def map_of_dict_setdefault split: option.splits)

lemma compiler_keys_apart: "set boundary_keys \<inter> set compiler_keys = {}"
  by (simp add: boundary_keys_def compiler_keys_def)

lemma dict_get_compiled: "x \<notin> set compiler_keys \<Longrightarrow> dict_get (note_compiled written md) x = dict_get md x"
  unfolding note_compiled_def
proof (induction written arbitrary: md)
  case (Cons e written)
  then show ?case by (cases e) auto
qed simp

definition plain_event :: "turn_event_data \<Rightarrow> bool" where
  "plain_event d = (case d of EvDelta t None \<Rightarrow> False | EvDone s x \<Rightarrow> False | _ \<Rightarrow> True)"

lemma handoff_is_handoff: "handoff_of r = Some h \<Longrightarrow> \<exists>task progress. h = EvHandoff task progress"
  by (auto simp: handoff_of_def Let_def split: if_split_asm)

lemma dict_get_references:
  "x \<noteq> ''capability_references'' \<Longrightarrow> dict_get (retain_references env r md) x = dict_get md x"
  by (simp add: retain_references_def split: json.splits)

lemma slow_tool_hint_effect:
  "\<exists>st'. slow_tool_hint env ri pm calls st = (Inr (), st') \<and> st_failures st' = st_failures st
     \<and> st_trace st' = st_trace st \<and> st_rounds st' = st_rounds st \<and> st_streams st' = st_streams st"
  by (simp add: slow_tool_hint_def abind_app aseq_app awhen_def emit_def)


section \<open>Streams without calls\<close>

locale turn_quiet =
  fixes ri :: "'w run_input" and pm :: bool and P :: "'w turn_state \<Rightarrow> bool"
  assumes inv_same: "P st \<Longrightarrow> same_core st st' \<Longrightarrow> P st'"
    and inv_emit: "P st \<Longrightarrow> plain_event d \<Longrightarrow> P (snd (emit ri d st))"
    and inv_say: "P st \<Longrightarrow> \<not> pm \<Longrightarrow> P (snd (say ri t st))"
    and inv_respond: "P st \<Longrightarrow> pm \<Longrightarrow> P (st\<lparr>st_response := Some r\<rparr>)"
begin

lemma keeps_scratch: "(\<And>st. same_core st (f st)) \<Longrightarrow> keeps P (modify f)"
  by (rule keeps_modify) (rule inv_same)

lemma keeps_emit: "plain_event d \<Longrightarrow> keeps P (emit ri d)"
  by (rule keepsI) (rule inv_emit)

lemma keeps_say: "\<not> pm \<Longrightarrow> keeps P (say ri t)"
  by (rule keepsI) (rule inv_say)

lemma keeps_put_md: "k \<notin> set boundary_keys \<Longrightarrow> keeps P (put_md k v)"
  unfolding put_md_def by (rule keeps_scratch) (auto simp: same_core_def)

lemma keeps_ext: "keeps P (external f)"
  by (rule keeps_external) (erule inv_same, simp add: same_core_def)

lemma keeps_announce: "\<not> pm \<Longrightarrow> keeps P (announce ri c)"
  unfolding announce_def by (intro keeps_rules keeps_say keeps_scratch) (simp_all add: same_core_def)

lemma keeps_on_delta: "keeps P (on_delta ri pm d)"
  unfolding on_delta_def
  by (intro keeps_rules keeps_say keeps_scratch keeps_emit keeps_announce) (simp_all add: same_core_def plain_event_def)

lemma keeps_stream_deltas: "keeps P (stream_deltas ri pm ds calls fin)"
  by (induction ds arbitrary: calls fin) (auto intro!: keeps_rules keeps_on_delta)

lemma keeps_on_result: "keeps P (on_result env ri r)"
  unfolding on_result_def
  by (intro keeps_rules keeps_scratch keeps_emit)
    (auto simp: same_core_def plain_event_def boundary_keys_def dict_get_references dest: handoff_is_handoff)

lemma keeps_on_results: "keeps P (on_results env ri rs)"
  by (induction rs) (unfold on_results.simps, (intro keeps_rules keeps_on_result; assumption)+)

lemma keeps_slow_tool_hint: "keeps P (slow_tool_hint env ri pm calls)"
  unfolding slow_tool_hint_def
  by (intro keeps_rules keeps_scratch keeps_emit) (simp_all add: same_core_def plain_event_def)

lemma keeps_terminal_response: "pm \<Longrightarrow> keeps P (terminal_response env ri outputs calls fin c)"
  unfolding terminal_response_def
  by (intro keeps_rules keeps_put_md keeps_modify inv_respond) (simp_all add: boundary_keys_def)

end


section \<open>The tool loop\<close>

locale turn_frame = turn_quiet ri pm P
  for ri :: "'w run_input" and pm :: bool and P :: "'w turn_state \<Rightarrow> bool" +
  assumes inv_stream: "P st \<Longrightarrow> P (st\<lparr>st_streams := st_streams st + 1\<rparr>)"
    and inv_dispatch: "P st \<Longrightarrow> filter (worn_out (st_failures st)) calls = []
      \<Longrightarrow> P (st\<lparr>st_rounds := st_rounds st @ [(st_trace st, calls)]\<rparr>)"
    and inv_trace: "P st \<Longrightarrow> P (st\<lparr>st_failures := fold count_failure rs (st_failures st), st_trace := st_trace st @ rs\<rparr>)"
begin

lemma keeps_call_model: "keeps P (call_model env ri schemas messages)"
proof (rule keepsI)
  fix st assume "P st"
  obtain ds e w where llm: "en_llm env messages schemas (rn_config ri) (st_ext st) = (ds, e, w)" by (rule prod_cases3)
  from inv_stream [OF \<open>P st\<close>] show "P (snd (call_model env ri schemas messages st))"
    by (rule inv_same) (simp add: call_model_def llm same_core_def)
qed

lemma keeps_stream_round: "keeps P (stream_round env ri pm schemas messages)"
  unfolding stream_round_def by (intro keeps_rules keeps_call_model keeps_stream_deltas)

lemma keeps_dispatch_calls:
  assumes "P st" "filter (worn_out (st_failures st)) calls = []"
  shows "P (snd (dispatch_calls env ri extra calls st))"
  using inv_dispatch [OF assms]
  by (rule inv_same) (auto simp: dispatch_calls_def Let_def same_core_def split: option.splits prod.splits)

lemma keeps_dispatch_round:
  assumes "P st" "filter (worn_out (st_failures st)) calls = []"
  shows "P (snd (dispatch_round env ri pm extra calls st))"
proof -
  obtain st1 where hint: "slow_tool_hint env ri pm calls st = (Inr (), st1)" "st_failures st1 = st_failures st"
    using slow_tool_hint_effect [of env ri pm calls st] by blast
  have "P st1" using keepsD [OF keeps_slow_tool_hint [of env calls] assms(1)] by (simp add: hint)
  with assms show ?thesis
    by (simp add: dispatch_round_def aseq_app hint keeps_dispatch_calls)
qed

lemma keeps_tool_round: "keeps P (tool_round env ri pm extra messages calls)"
proof (rule keepsI)
  fix st assume "P st"
  let ?suppressed = "filter (worn_out (st_failures st)) calls"
  let ?fresh = "filter (\<lambda>c. \<not> worn_out (st_failures st) c) calls"
  let ?st = "st\<lparr>st_suppressed := st_suppressed st + int (length ?suppressed)\<rparr>"
  have "P ?st" using \<open>P st\<close> by (rule inv_same) (simp add: same_core_def)
  then have "P (snd (dispatch_round env ri pm extra ?fresh ?st))"
    by (rule keeps_dispatch_round) (simp add: filter_empty_conv)
  moreover obtain r st1 where "dispatch_round env ri pm extra ?fresh ?st = (r, st1)" by (rule prod.exhaust)
  ultimately have st1: "dispatch_round env ri pm extra ?fresh ?st = (r, st1)" "P st1" by simp_all
  show "P (snd (tool_round env ri pm extra messages calls st))"
  proof (cases r)
    case (Inl e)
    with st1 show ?thesis by (simp add: tool_round_def abind_app aseq_app)
  next
    case (Inr dispatched)
    let ?results = "merge_tool_results calls (dispatched @ map suppressed_tool_result ?suppressed)"
    have "keeps P (aseq (on_results env ri ?results) (ret (messages @ calls_message env calls # map (tool_message env) ?results)))"
      by (intro keeps_rules keeps_on_results)
    from keepsD [OF this inv_trace [OF st1(2), of ?results]] show ?thesis
      using st1 Inr by (simp add: tool_round_def abind_app aseq_app Let_def)
  qed
qed

lemma keeps_loop_pass:
  "(\<And>calls. keeps P (next_pass calls)) \<Longrightarrow> keeps P (loop_pass env ri pm outputs schemas messages next_pass)"
  unfolding loop_pass_def
  by (intro keeps_rules keeps_stream_round keeps_put_md keeps_terminal_response)
    (simp_all add: boundary_keys_def split: if_split_asm)

lemma keeps_tool_loop: "keeps P (tool_loop env ri pm outputs tools n messages)"
proof (induction n arbitrary: messages)
  case 0
  show ?case unfolding tool_loop.simps
    by (intro keeps_loop_pass keeps_emit) (simp add: plain_event_def)
next
  case (Suc n)
  show ?case unfolding tool_loop.simps
    by (intro keeps_loop_pass keeps_rules keeps_tool_round Suc)
qed

end


section \<open>The run\<close>

lemma fanout_allowed_iff:
  "dict_get (memory_write_trace ti md policy mode) ''fanout_allowed'' = JBool True \<longleftrightarrow> skipped_reason ti md policy mode = None"
  by (simp add: memory_write_trace_def dict_get_def Let_def)

lemma skipped_reason_cong:
  "dict_get md ''committed_turn_persistence_allowed'' = dict_get md' ''committed_turn_persistence_allowed''
     \<Longrightarrow> skipped_reason ti md policy mode = skipped_reason ti md' policy mode"
  unfolding skipped_reason_def by (simp only:)

definition escalated :: "'w turn_state \<Rightarrow> 'w turn_state" where
  "escalated st = st\<lparr>st_md := dict_put ''is_private'' (JBool True) (st_md st),
                     st_policy := policy_from_metadata (dict_put ''is_private'' (JBool True) (st_md st))\<rparr>"

locale turn_opening = turn_quiet ri pm P
  for ri :: "'w run_input" and pm :: bool and P :: "'w turn_state \<Rightarrow> bool" +
  fixes env :: "'w turn_env" and spec :: bool
  assumes inv_publish: "P st \<Longrightarrow> \<not> spec
      \<Longrightarrow> skipped_reason (rn_input ri) (st_md st) (st_policy st) (en_memory_mode env) = None
      \<Longrightarrow> P (snd (publish_observation env ri st))"
    and inv_observe_job: "P st \<Longrightarrow> \<not> spec
      \<Longrightarrow> skipped_reason (rn_input ri) (st_md st) (st_policy st) (en_memory_mode env) = None
      \<Longrightarrow> P (st\<lparr>st_background := st_background st @ [Observe_job]\<rparr>)"
begin

lemma keeps_observe_input: "keeps P (observe_input env ri spec)"
proof (rule keepsI)
  fix st assume "P st"
  let ?reason = "\<lambda>st. skipped_reason (rn_input ri) (st_md st) (st_policy st) (en_memory_mode env)"
  let ?trace = "memory_write_trace (rn_input ri) (st_md st) (st_policy st) (en_memory_mode env)"
  let ?st1 = "st\<lparr>st_md := dict_put ''memory_write_trace'' (JDict ?trace) (st_md st)\<rparr>"
  let ?st2 = "?st1\<lparr>st_md := dict_put ''memory_observation_scheduled'' (JBool True) (st_md ?st1)\<rparr>"
  have core: "same_core st ?st1" "same_core st ?st2" by (simp_all add: same_core_def boundary_keys_def)
  from inv_same [OF \<open>P st\<close> core(1)] inv_same [OF \<open>P st\<close> core(2)] have P: "P ?st1" "P ?st2" .
  have reason: "?reason ?st2 = ?reason st"
    using skipped_reason_cong [of "st_md ?st2" "st_md st"] by simp
  show "P (snd (observe_input env ri spec st))"
  proof (cases "\<not> spec \<and> ?reason st = None")
    case True
    then have "P (snd (publish_observation env ri ?st2))" "P (?st2\<lparr>st_background := st_background ?st2 @ [Observe_job]\<rparr>)"
      using inv_publish [OF P(2)] inv_observe_job [OF P(2)] reason by simp_all
    with True show ?thesis
      by (simp add: observe_input_def abind_app aseq_app awhen_def put_md_def fanout_allowed_iff)
  next
    case False
    with P show ?thesis
      by (auto simp: observe_input_def abind_app aseq_app awhen_def put_md_def fanout_allowed_iff)
  qed
qed

lemma keeps_compile: "keeps P (compile_context env ri)"
proof (rule keepsI)
  fix st assume "P st"
  obtain r written w where c: "en_compile env (rn_input ri) (st_md st) (st_history st) (st_ext st) = (r, written, w)"
    by (rule prod_cases3)
  have "same_core st (snd (compile_context env ri st))"
    using compiler_keys_apart
    by (auto simp: compile_context_def c same_core_def intro!: dict_get_compiled)
  with \<open>P st\<close> show "P (snd (compile_context env ri st))" by (rule inv_same)
qed

lemma keeps_tool_schemas: "keeps P (tool_schemas env ri)"
  unfolding tool_schemas_def add_body_tools_def by (intro keeps_rules keeps_ext)

lemma keeps_add_response_tool: "keeps P (add_response_tool env pm outputs schemas messages)"
  unfolding add_response_tool_def Let_def by (intro keeps_rules)


end

text \<open>The changes of a whole turn but for the calls of model and tools.\<close>

locale turn_stages = turn_opening ri pm P env spec
  for ri :: "'w run_input" and pm :: bool and P :: "'w turn_state \<Rightarrow> bool" and env :: "'w turn_env" and spec :: bool +
  fixes allowed :: bool
  assumes inv_text: "P st \<Longrightarrow> P (st\<lparr>st_persist_text := t\<rparr>)"
    and inv_finalize: "P st \<Longrightarrow> P (st\<lparr>st_finalized := True\<rparr>)"
    and inv_done: "P st \<Longrightarrow> P (snd (emit ri (EvDone s x) st))"
    and inv_reply: "P st \<Longrightarrow> P (snd (emit ri (EvDelta t None) st))"
    and inv_parts: "P st \<Longrightarrow> P (st\<lparr>st_parts := ps\<rparr>)"
    and inv_boundary: "P st \<Longrightarrow> P (snd (put_md ''cancel_played_chars'' v st))"
    and inv_escalated: "P st \<Longrightarrow> P (escalated st)"
    and inv_remember: "P st \<Longrightarrow> P (snd (remember_turn env ri t status st))"
    and inv_persist_job: "P st \<Longrightarrow> \<not> spec
      \<Longrightarrow> P (st\<lparr>st_background := st_background st @ [Persist_job (turn_outcome_of env ri allowed s code st)]\<rparr>)"
    and inv_completed_job: "P st \<Longrightarrow> \<not> spec \<Longrightarrow> allowed
      \<Longrightarrow> P (st\<lparr>st_background := st_background st @ [Completed_job (completed_event ri s)]\<rparr>)"
begin

lemma keeps_text: "keeps P (set_persist_text t)" and keeps_finalize: "keeps P finalize"
  unfolding set_persist_text_def finalize_def by (rule keeps_modify, erule inv_text inv_finalize)+

lemma keeps_done: "keeps P (emit ri (EvDone s x))"
  by (rule keepsI) (rule inv_done)

lemma keeps_reply: "keeps P (emit ri (EvDelta t None))"
  by (rule keepsI) (rule inv_reply)

lemma keeps_parts: "keeps P (modify (\<lambda>st. st\<lparr>st_parts := ps\<rparr>))"
  by (rule keeps_modify) (rule inv_parts)

lemma keeps_remember: "keeps P (remember_turn env ri t status)"
  by (rule keepsI) (rule inv_remember)

lemma keeps_present_response: "keeps P (present_response env ri spec final)"
proof -
  have "keeps P (modify (\<lambda>st. st\<lparr>st_md := dict_setdefault ''presentation_delivery'' (JStr ''unconfirmed'') (st_md st)\<rparr>))"
    by (rule keeps_scratch) (simp add: same_core_def boundary_keys_def dict_get_setdefault)
  then show ?thesis
    unfolding present_response_def
    by (intro keeps_rules keeps_put_md keeps_emit keeps_reply keeps_parts; simp add: boundary_keys_def plain_event_def)
qed

lemma keeps_await_receipt: "keeps P (await_receipt ri spec)"
  unfolding await_receipt_def by (intro keeps_rules keeps_ext keeps_put_md; simp add: boundary_keys_def)

lemma keeps_output_stage: "keeps P (output_stage env ri pm spec)"
  unfolding output_stage_def
  by (intro keeps_rules keeps_reply keeps_present_response keeps_text keeps_remember keeps_finalize keeps_done
      keeps_await_receipt)

lemma keeps_crisis_stage: "keeps P (crisis_stage env ri pm spec)"
  unfolding crisis_stage_def
  by (intro keeps_rules keeps_ext keeps_text keeps_emit keeps_reply keeps_remember keeps_finalize keeps_done;
      simp add: plain_event_def)

lemma keeps_refuse_stage: "keeps P (refuse_stage env ri pm spec)"
  unfolding refuse_stage_def
  by (intro keeps_rules keeps_text keeps_emit keeps_reply keeps_remember keeps_finalize keeps_done;
      simp add: plain_event_def)

lemma keeps_run_body_from:
  "keeps P (generate_stage env ri pm spec outputs) \<Longrightarrow> keeps P (run_body env ri pm spec outputs cancelled)"
  unfolding run_body_def escalated_def [symmetric] answer_stage_def
  by (intro keeps_rules keeps_modify inv_escalated keeps_remember keeps_crisis_stage keeps_refuse_stage keeps_output_stage)

lemma keeps_handle_exception: "keeps P (handle_exception env ri e)"
proof -
  have "keeps P (note_boundary played)" for played
    unfolding note_boundary_def by (intro keeps_rules keepsI inv_boundary)
  then show ?thesis
    by (cases e)
      (simp_all add: handle_exception_def, (intro keeps_rules keeps_text keeps_remember keeps_finalize keeps_emit;
        simp add: plain_event_def)+)
qed

lemma keeps_persist_job:
  "\<not> spec \<Longrightarrow> keeps P (schedule_persist env ri allowed status code)"
  by (rule keepsI) (simp add: schedule_persist_def abind_app schedule_def inv_persist_job)

lemma keeps_finally_stage: "keeps P (finally_stage env ri spec allowed status code)"
  unfolding finally_stage_def
proof (intro keeps_rules keeps_remember keeps_persist_job)
  show "keeps P (modify (\<lambda>st. st\<lparr>st_md := dict_put ''memory_write_trace''
          (JDict (memory_write_trace (rn_input ri) (st_md st) (st_policy st) (en_memory_mode env))) (st_md st)\<rparr>))"
    by (rule keeps_scratch) (simp add: same_core_def boundary_keys_def)
  show "en_bus env \<and> \<not> spec \<and> allowed \<Longrightarrow> keeps P (schedule (Completed_job (completed_event ri status)))"
    unfolding schedule_def by (rule keeps_modify) (simp add: inv_completed_job)
qed simp_all

lemma run_guarded_after:
  assumes "P (snd (run_body env ri pm spec outputs cancelled st))"
  shows "P (snd (run_guarded env ri pm spec outputs cancelled allowed st))"
proof -
  obtain r st1 where body: "run_body env ri pm spec outputs cancelled st = (r, st1)" by (rule prod.exhaust)
  with assms have "P st1" by simp
  show ?thesis
  proof (cases r)
    case (Inr u)
    with body show ?thesis by (simp add: run_guarded_def keepsD [OF keeps_finally_stage \<open>P st1\<close>])
  next
    case (Inl e)
    obtain r2 st2 where handled: "handle_exception env ri e st1 = (r2, st2)" by (rule prod.exhaust)
    with keeps_handle_exception \<open>P st1\<close> have "P st2" by (rule keeps_run)
    with body Inl handled show ?thesis
      by (cases r2) (auto simp: run_guarded_def keepsD [OF keeps_finally_stage])
  qed
qed

end

text \<open>Everything up to the end of the tool loop.\<close>

locale turn_generation = turn_frame ri pm P + turn_opening ri pm P env spec
  for ri :: "'w run_input" and pm :: bool and P :: "'w turn_state \<Rightarrow> bool" and env :: "'w turn_env" and spec :: bool
begin

lemma keeps_generate_stage: "keeps P (generate_stage env ri pm spec outputs)"
  unfolding generate_stage_def
  by (intro keeps_rules keeps_observe_input keeps_emit keeps_compile keeps_tool_schemas keeps_add_response_tool
      keeps_tool_loop; simp add: plain_event_def)

end

text \<open>The whole turn.\<close>

locale turn_invariant = turn_generation ri pm P env spec + turn_stages ri pm P env spec allowed
  for ri :: "'w run_input" and pm :: bool and P :: "'w turn_state \<Rightarrow> bool" and env :: "'w turn_env" and spec allowed :: bool
begin

lemma run_guarded_keeps: "P st \<Longrightarrow> P (snd (run_guarded env ri pm spec outputs cancelled allowed st))"
  by (rule run_guarded_after [OF keepsD [OF keeps_run_body_from [OF keeps_generate_stage]]])

end

end
