(* ===== verification/Turn_Facts.thy ===== *)
theory Turn_Facts
  imports Turn_Frame
begin

text \<open>
  What holds of every turn: the invariants, as interpretations of the locales of \<open>Turn_Frame\<close>, and the
  properties that rest on them.
\<close>

section \<open>Effects of the elementary changes\<close>

lemma publish_turn_rows:
  "fw_rows (snd (publish_turn fe q fw)) = fw_rows fw
   \<or> (\<exists>now s payload. fw_rows (snd (publish_turn fe q fw)) = memory_insert now (enqueue_request q s payload) (fw_rows fw))"
proof -
  have deliver: "fw_rows fw1 = fw_rows fw \<or> (\<exists>now s payload. fw_rows fw1 = memory_insert now (enqueue_request q s payload) (fw_rows fw))"
    if "fanout_deliver fe q space payload fw = (subject, outcome, fw1)" for space payload subject outcome fw1
  proof (cases "fe_outbox fe")
    case True
    from fanout_deliver_outbox [OF this that] show ?thesis by blast
  next
    case False
    obtain r fw0 where s: "fanout_subject fe space fw = (r, fw0)" by (rule prod.exhaust)
    have rows: "fw_rows fw0 = fw_rows fw" using rows_of_effects(3) [of fe space fw] by (simp add: s)
    have pub: "fw_rows fw1 = fw_rows fw" if "fanout_publish fe e fw0 = (r', fw1)" for e r'
      using rows_of_effects(4) [of fe e fw0] that rows by simp
    from that False s rows show ?thesis
      by (auto simp: fanout_deliver_def split: sum.splits prod.splits dest: pub)
  qed
  show ?thesis
    by (auto simp: publish_turn_def Let_def split: sum.splits prod.splits dest: deliver)
qed

lemma note_observation_get:
  "k \<in> set boundary_keys \<Longrightarrow> dict_get (note_observation r md) k = dict_get md k"
  by (auto simp: note_observation_def Let_def boundary_keys_def split: sum.splits option.splits)

text \<open>The fanout changes the rows, the world and notes in the metadata.\<close>

lemma publish_observation_effect:
  obtains rows x md where "snd (publish_observation env ri st) = st\<lparr>st_rows := rows, st_ext := x, st_md := md\<rparr>"
    and "\<forall>k \<in> set boundary_keys. dict_get md k = dict_get (st_md st) k"
    and "rows = st_rows st \<or> (\<exists>now s payload.
           rows = memory_insert now (enqueue_request (observation_request env ri (st_md st)) s payload) (st_rows st))"
proof -
  let ?q = "observation_request env ri (st_md st)"
  obtain r fw where p: "publish_turn (en_fanout env) ?q \<lparr>fw_rows = st_rows st, fw_ext = st_ext st\<rparr> = (r, fw)"
    by (rule prod.exhaust)
  have rows: "fw_rows fw = st_rows st \<or> (\<exists>now s payload. fw_rows fw = memory_insert now (enqueue_request ?q s payload) (st_rows st))"
    using publish_turn_rows [of "en_fanout env" ?q "\<lparr>fw_rows = st_rows st, fw_ext = st_ext st\<rparr>"] by (simp add: p)
  have "snd (publish_observation env ri st) \<in> {st, st\<lparr>st_rows := fw_rows fw, st_ext := fw_ext fw\<rparr>,
      st\<lparr>st_rows := fw_rows fw, st_ext := fw_ext fw, st_md := note_observation r (st_md st)\<rparr>}"
    by (simp add: publish_observation_def Let_def p split: option.splits prod.splits)
  then consider "snd (publish_observation env ri st) = st"
    | "snd (publish_observation env ri st) = st\<lparr>st_rows := fw_rows fw, st_ext := fw_ext fw\<rparr>"
    | "snd (publish_observation env ri st) = st\<lparr>st_rows := fw_rows fw, st_ext := fw_ext fw, st_md := note_observation r (st_md st)\<rparr>"
    by blast
  then show ?thesis
  proof cases
    case 1 then show ?thesis using that [where rows = "st_rows st" and x = "st_ext st" and md = "st_md st"] by simp
  next
    case 2 then show ?thesis using that [where rows = "fw_rows fw" and x = "fw_ext fw" and md = "st_md st"] rows by simp
  next
    case 3 then show ?thesis using that [where rows = "fw_rows fw" and x = "fw_ext fw" and md = "note_observation r (st_md st)"] rows note_observation_get by simp
  qed
qed

lemma remember_turn_effect:
  "snd (remember_turn env ri t status st) =
     (if leaves_no_trace (st_md st) then st
      else st\<lparr>st_history := replace_turn (ti_conversation_id (rn_input ri)) (ti_turn_id (rn_input ri))
               (remembered_messages env ri (st_md st) t (case status of None \<Rightarrow> ''active'' | Some s \<Rightarrow> turn_status_value s))
               (st_history st)\<rparr>)"
  by (simp add: remember_turn_def)

lemma emit_effect:
  "snd (emit ri d st) = st\<lparr>st_seq := st_seq st + 1,
     st_events := st_events st @ [\<lparr>te_turn_id = ti_turn_id (rn_input ri), te_seq = st_seq st + 1, te_data = d\<rparr>]\<rparr>"
  by (simp add: emit_def)

lemma say_effect:
  "snd (say ri t st) = st\<lparr>st_parts := st_parts st @ [t], st_seq := st_seq st + 1,
     st_events := st_events st @ [\<lparr>te_turn_id = ti_turn_id (rn_input ri), te_seq = st_seq st + 1, te_data = EvDelta t None\<rparr>]\<rparr>"
  by (simp add: say_def aseq_app emit_def)

lemma put_md_effect: "snd (put_md k v st) = st\<lparr>st_md := dict_put k v (st_md st)\<rparr>"
  by (simp add: put_md_def)

lemmas turn_effects = remember_turn_effect emit_effect say_effect put_md_effect escalated_def


section \<open>The numbering of the events\<close>

definition numbered :: "'w run_input \<Rightarrow> 'w turn_state \<Rightarrow> bool" where
  "numbered ri st \<longleftrightarrow>
     st_seq st = int (length (st_events st)) - 1 \<and> map te_seq (st_events st) = map int [0..<length (st_events st)]
     \<and> list_all (\<lambda>e. te_turn_id e = ti_turn_id (rn_input ri)) (st_events st)"

lemma numbered_emit: "numbered ri st \<Longrightarrow> numbered ri (st\<lparr>st_seq := st_seq st + 1,
     st_events := st_events st @ [\<lparr>te_turn_id = ti_turn_id (rn_input ri), te_seq = st_seq st + 1, te_data = d\<rparr>]\<rparr>)"
  by (simp add: numbered_def)

lemma numbered_cong: "st_events st' = st_events st \<Longrightarrow> st_seq st' = st_seq st \<Longrightarrow> numbered ri st' = numbered ri st"
  by (simp add: numbered_def)

interpretation seqs: turn_invariant ri pm "numbered ri" env spec allowed
  for ri :: "'w run_input" and pm :: bool and env :: "'w turn_env" and spec allowed :: bool
proof unfold_locales
  fix st st' :: "'w turn_state"
  assume "numbered ri st" "same_core st st'"
  then show "numbered ri st'" by (simp add: numbered_def same_core_def)
next
  fix st :: "'w turn_state" and t
  assume "numbered ri st"
  from numbered_emit [OF this] show "numbered ri (snd (say ri t st))" by (simp add: say_effect numbered_def)
next
  fix st :: "'w turn_state" assume n: "numbered ri st"
  obtain rows x md where "snd (publish_observation env ri st) = st\<lparr>st_rows := rows, st_ext := x, st_md := md\<rparr>"
    by (rule publish_observation_effect)
  with n show "numbered ri (snd (publish_observation env ri st))" by (simp add: numbered_def)
qed (simp_all add: turn_effects numbered_emit, simp_all add: numbered_def)


section \<open>How a turn ends\<close>

definition last_event :: "'w turn_state \<Rightarrow> turn_event_data option" where
  "last_event st = (if st_events st = [] then None else Some (te_data (last (st_events st))))"

definition done_ok :: "turn_event_data option \<Rightarrow> bool" where
  "done_ok d = (case d of Some (EvDone OK x) \<Rightarrow> True | _ \<Rightarrow> False)"

definition ended_with_error :: "turn_event_data option \<Rightarrow> bool" where
  "ended_with_error d = (case d of Some (EvError c m) \<Rightarrow> True | _ \<Rightarrow> False)"

lemma last_event_emit [simp]: "last_event (snd (emit ri d st)) = Some d"
  by (simp add: last_event_def emit_effect)

lemma last_event_cong: "st_events st' = st_events st \<Longrightarrow> last_event st' = last_event st"
  by (simp add: last_event_def)

lemma returns_done: "returns_in (\<lambda>st. done_ok (last_event st)) (emit ri (EvDone OK x))"
  by (rule returns_emit) (simp add: done_ok_def)

lemma keeps_done_receipt: "keeps (\<lambda>st. done_ok (last_event st)) (await_receipt ri spec)"
  unfolding await_receipt_def put_md_def
  by (intro keeps_rules keeps_external keeps_modify) (simp_all add: last_event_def split: if_split_asm)

lemma returns_output_stage: "returns_in (\<lambda>st. done_ok (last_event st)) (output_stage env ri pm spec)"
  unfolding output_stage_def Let_def
  by (intro returns_fail returns_abind returns_prod returns_if returns_aseq_keeps [OF returns_done keeps_done_receipt] returns_aseq)

lemma returns_run_body: "returns_in (\<lambda>st. done_ok (last_event st)) (run_body env ri pm spec outputs cancelled)"
  unfolding run_body_def crisis_stage_def refuse_stage_def answer_stage_def
  by (intro returns_rules returns_done returns_output_stage)

lemma handle_exception_returns: "\<exists>status code st'. handle_exception env ri e st = (Inr (status, code), st')"
  by (cases e) (auto simp: handle_exception_def note_boundary_def put_md_def abind_app aseq_app set_persist_text_def
      finalize_def emit_def remember_turn_def split: option.splits)

lemma returns_handle_exception:
  "returns_in (\<lambda>st. case reraised e of
       None \<Rightarrow> ended_with_error (last_event st)
     | Some x \<Rightarrow> last_event st = Some (EvError ''eidolon.turn_cancelled'' ''cancelled'')) (handle_exception env ri e)"
  by (cases e)
    (simp_all add: handle_exception_def, (intro returns_abind returns_aseq_keeps [OF returns_emit keeps_ret] returns_aseq;
      simp add: ended_with_error_def)+)

lemma keeps_events_finally: "keeps (\<lambda>st. st_events st = es) (finally_stage env ri spec allowed status code)"
  unfolding finally_stage_def schedule_persist_def schedule_def remember_turn_def
  by (intro keeps_rules keeps_modify) simp_all

lemma finally_events [simp]: "st_events (snd (finally_stage env ri spec allowed status code st)) = st_events st"
  using keepsD [OF keeps_events_finally refl] .

definition ended_right :: "turn_exc option \<Rightarrow> turn_event_data option \<Rightarrow> bool" where
  "ended_right e d =
     (case e of
        None \<Rightarrow> done_ok d \<or> ended_with_error d
      | Some x \<Rightarrow> d = Some (EvError ''eidolon.turn_cancelled'' ''cancelled''))"

lemma run_guarded_ends:
  assumes "run_guarded env ri pm spec outputs cancelled allowed st = (e, st')"
  shows "ended_right e (last_event st')"
proof -
  obtain r st1 where body: "run_body env ri pm spec outputs cancelled st = (r, st1)" by (rule prod.exhaust)
  show ?thesis
  proof (cases r)
    case (Inr u)
    with returns_inD [OF returns_run_body] body have "done_ok (last_event st1)" by blast
    with assms body Inr show ?thesis
      by (auto simp: run_guarded_def ended_right_def last_event_cong [OF finally_events])
  next
    case (Inl x)
    obtain status code st2 where handled: "handle_exception env ri x st1 = (Inr (status, code), st2)"
      using handle_exception_returns by blast
    with returns_inD [OF returns_handle_exception] have
      "case reraised x of None \<Rightarrow> ended_with_error (last_event st2)
        | Some y \<Rightarrow> last_event st2 = Some (EvError ''eidolon.turn_cancelled'' ''cancelled'')" by blast
    with assms body Inl handled show ?thesis
      by (auto simp: run_guarded_def ended_right_def last_event_cong [OF finally_events] split: option.splits)
  qed
qed

text \<open>A turn that is admitted runs guarded, from its initial state with the verdict of the boundary.\<close>

definition admitted :: "'w turn_env \<Rightarrow> 'w run_input \<Rightarrow> 'w \<Rightarrow> bool" where
  "admitted env ri w = (\<not> isl (fst (admit env (rn_input ri) w)) \<and> \<not> isl (selected_outputs env (ti_metadata (rn_input ri))))"

definition start_state :: "'w turn_env \<Rightarrow> 'w run_input \<Rightarrow> history_manager \<Rightarrow> memory_row list \<Rightarrow> 'w \<Rightarrow> 'w turn_state" where
  "start_state env ri h rows w =
     (initial_state ri h rows w)\<lparr>st_md := note_commit (commit_decision env ri) (ti_metadata (rn_input ri))\<rparr>"

lemma run_turn_cases:
  obtains e w' where "run_turn env ri h rows w = (Some e, initial_state ri h rows w')" "\<not> admitted env ri w"
  | outputs cancelled w' where "admitted env ri w"
      "admit env (rn_input ri) w = (Inr cancelled, w')"
      "selected_outputs env (ti_metadata (rn_input ri)) = Inr outputs"
      "run_turn env ri h rows w = run_guarded env ri (presentation_mode env (ti_metadata (rn_input ri)) outputs)
         (truthy (dict_get (ti_metadata (rn_input ri)) ''speculative'')) outputs cancelled
         (va_persistence_allowed (commit_decision env ri)) (start_state env ri h rows w')"
proof -
  obtain r w' where a: "admit env (rn_input ri) w = (r, w')" by (rule prod.exhaust)
  show ?thesis
  proof (cases r)
    case (Inl e)
    with a show ?thesis by (intro that(1)) (simp_all add: run_turn_def admitted_def)
  next
    case (Inr c)
    show ?thesis
    proof (cases "selected_outputs env (ti_metadata (rn_input ri))")
      case (Inl e)
      with a Inr show ?thesis by (intro that(1)) (simp_all add: run_turn_def admitted_def Let_def)
    next
      case (Inr outputs)
      with a \<open>r = Inr c\<close> show ?thesis
        by (intro that(2)) (simp_all add: run_turn_def admitted_def Let_def start_state_def)
    qed
  qed
qed

lemma run_turn_keeps:
  assumes "turn_invariant ri (presentation_mode env (ti_metadata (rn_input ri)) (projr (selected_outputs env (ti_metadata (rn_input ri)))))
       P env (truthy (dict_get (ti_metadata (rn_input ri)) ''speculative'')) (va_persistence_allowed (commit_decision env ri))"
    and "\<And>w. P (start_state env ri h rows w)" "\<And>w. P (initial_state ri h rows w)"
  shows "P (snd (run_turn env ri h rows w))"
proof (cases rule: run_turn_cases [of env ri h rows w])
  case (2 outputs cancelled w')
  then show ?thesis
    using turn_invariant.run_guarded_keeps [OF assms(1) assms(2), of outputs cancelled w'] by simp
qed (simp add: assms(3))

text \<open>
  C4. The events of a turn are numbered from zero without a gap, all carry the turn's id, and end as the
  contract of the stream says: an admitted turn that returns ends with DONE or with ERROR, one that is
  cancelled ends with the cancellation error before the cancellation goes on; a turn that is refused
  admission raises and has no event at all.
\<close>

theorem turn_events_well_formed:
  "case run_turn env ri h rows w of (e, st) \<Rightarrow>
     numbered ri st \<and> (if admitted env ri w then ended_right e (last_event st) else e \<noteq> None \<and> st_events st = [])"
proof -
  have "numbered ri (snd (run_turn env ri h rows w))"
    by (rule run_turn_keeps [OF seqs.turn_invariant_axioms])
      (simp_all add: numbered_def start_state_def initial_state_def)
  moreover have "(if admitted env ri w then ended_right (fst (run_turn env ri h rows w)) (last_event (snd (run_turn env ri h rows w)))
     else fst (run_turn env ri h rows w) \<noteq> None \<and> st_events (snd (run_turn env ri h rows w)) = [])"
    by (cases rule: run_turn_cases [of env ri h rows w])
      (auto simp: initial_state_def intro!: run_guarded_ends [OF prod.collapse [symmetric]])
  ultimately show ?thesis by (simp add: case_prod_beta)
qed


section \<open>What a turn may keep\<close>

text \<open>Nothing was kept: neither the window, nor the outbox, nor work for the background.\<close>

definition kept_nothing :: "history_manager \<Rightarrow> memory_row list \<Rightarrow> 'w turn_state \<Rightarrow> bool" where
  "kept_nothing h rows st \<longleftrightarrow> st_history st = h \<and> st_rows st = rows \<and> st_background st = []"

definition ephemeral :: "history_manager \<Rightarrow> memory_row list \<Rightarrow> 'w turn_state \<Rightarrow> bool" where
  "ephemeral h rows st \<longleftrightarrow> truthy (dict_get (st_md st) ''speculative'') \<and> kept_nothing h rows st"

lemma ephemeral_cong:
  "dict_get (st_md st') ''speculative'' = dict_get (st_md st) ''speculative'' \<Longrightarrow> st_history st' = st_history st
     \<Longrightarrow> st_rows st' = st_rows st \<Longrightarrow> st_background st' = st_background st \<Longrightarrow> ephemeral h rows st' = ephemeral h rows st"
  by (simp add: ephemeral_def kept_nothing_def)

interpretation ephemeral: turn_invariant ri pm "ephemeral h rows" env True allowed
  for ri :: "'w run_input" and pm h rows and env :: "'w turn_env" and allowed :: bool
proof unfold_locales
  fix st st' :: "'w turn_state" assume "ephemeral h rows st" "same_core st st'"
  then show "ephemeral h rows st'"
    using same_core_get [of st st' "''speculative''"]
    by (simp add: ephemeral_def kept_nothing_def same_core_def boundary_keys_def)
qed (simp_all add: turn_effects, auto simp: ephemeral_def kept_nothing_def leaves_no_trace_def)

text \<open>
  C6. A speculative turn, run to warm the model on a guess, leaves nothing behind: whatever model,
  tools and collaborators do, and however it ends, the history window and the outbox are as they were and
  nothing is left to the background: no row, no memory observation, no completion event.
\<close>

theorem speculative_turn_keeps_nothing:
  assumes "truthy (dict_get (ti_metadata (rn_input ri)) ''speculative'')"
  shows "kept_nothing h rows (snd (run_turn env ri h rows w))"
proof -
  have "ephemeral h rows (snd (run_turn env ri h rows w))"
  proof (rule run_turn_keeps)
    show "turn_invariant ri pm (ephemeral h rows) env (truthy (dict_get (ti_metadata (rn_input ri)) ''speculative'')) allowed"
      for pm allowed
      using ephemeral.turn_invariant_axioms by (simp only: assms)
  qed (simp_all add: assms ephemeral_def kept_nothing_def start_state_def initial_state_def note_commit_def)
  then show ?thesis by (simp add: ephemeral_def)
qed

text \<open>A job that carries none of the words of the turn.\<close>

definition wordless :: "turn_job \<Rightarrow> bool" where
  "wordless j = (case j of Persist_job o1 \<Rightarrow> to_user_text o1 = [] \<and> to_assistant_text o1 = [] | _ \<Rightarrow> False)"

definition unheard :: "'w run_input \<Rightarrow> history_manager \<Rightarrow> memory_row list \<Rightarrow> 'w turn_state \<Rightarrow> bool" where
  "unheard ri h rows st \<longleftrightarrow>
     ti_input_modality (rn_input ri) = Voice \<and> dict_get (st_md st) ''committed_turn_persistence_allowed'' = JBool False
     \<and> st_history st = h \<and> st_rows st = rows \<and> list_all wordless (st_background st)"

interpretation unheard: turn_invariant ri pm "unheard ri h rows" env spec False
  for ri :: "'w run_input" and pm h rows and env :: "'w turn_env" and spec :: bool
proof unfold_locales
  fix st st' :: "'w turn_state" assume "unheard ri h rows st" "same_core st st'"
  then show "unheard ri h rows st'"
    using same_core_get [of st st' "''committed_turn_persistence_allowed''"]
    by (simp add: unheard_def same_core_def boundary_keys_def)
qed (simp_all add: turn_effects, auto simp: unheard_def leaves_no_trace_def skipped_reason_def Let_def
      wordless_def turn_outcome_of_def split: if_split_asm)

text \<open>
  C19. A voice turn the channel has not committed leaves no words: without a decision bound to the
  transcript the history window and the outbox stay as they were, no completion event is published, and
  what is left to the background is at most a row without user and assistant text. The reply itself is not
  blocked.
\<close>

theorem uncommitted_voice_leaves_no_words:
  assumes "\<not> va_persistence_allowed (commit_decision env ri)"
  shows "let st = snd (run_turn env ri h rows w)
    in st_history st = h \<and> st_rows st = rows \<and> list_all wordless (st_background st)"
proof -
  have voice: "ti_input_modality (rn_input ri) = Voice"
    using assms by (cases "ti_input_modality (rn_input ri)")
      (simp_all add: commit_decision_def validate_committed_turn_def)
  show ?thesis
  proof (cases "admitted env ri w")
    case True
    have "unheard ri h rows (snd (run_turn env ri h rows w))"
    proof (cases rule: run_turn_cases [of env ri h rows w])
      case (2 outputs cancelled w')
      have "unheard ri h rows (start_state env ri h rows w')"
        using assms voice by (simp add: unheard_def start_state_def initial_state_def note_commit_def)
      from unheard.run_guarded_keeps [OF this] 2 assms show ?thesis by simp
    qed (simp add: True)
    then show ?thesis by (simp add: unheard_def)
  next
    case False
    then show ?thesis by (cases rule: run_turn_cases [of env ri h rows w]) (simp_all add: initial_state_def)
  qed
qed


section \<open>What reaches the memory outbox\<close>

text \<open>The row of this turn, as the outbox holds it when it was just accepted.\<close>

definition own_row :: "'w run_input \<Rightarrow> memory_row \<Rightarrow> bool" where
  "own_row ri row =
     (mo_turn_id row = ti_turn_id (rn_input ri) \<and> mo_owner_id row = tx_owner_id (ti_context (rn_input ri))
      \<and> mo_companion_id row = tx_companion_id (ti_context (rn_input ri))
      \<and> mo_attempt_count row = 0 \<and> mo_published_at row = None)"

definition observable :: "'w turn_env \<Rightarrow> 'w run_input \<Rightarrow> bool" where
  "observable env ri =
     (skipped_reason (rn_input ri) (note_commit (commit_decision env ri) (ti_metadata (rn_input ri)))
        (policy_from_metadata (ti_metadata (rn_input ri))) (en_memory_mode env) = None)"

definition observed :: "'w turn_env \<Rightarrow> 'w run_input \<Rightarrow> memory_row list \<Rightarrow> 'w turn_state \<Rightarrow> bool" where
  "observed env ri rows st \<longleftrightarrow>
     (st_rows st = rows \<or> (\<exists>row. observable env ri \<and> st_rows st = rows @ [row] \<and> own_row ri row))
     \<and> (if Observe_job \<in> set (st_background st) then observable env ri else True)"

definition evidence :: "'w turn_env \<Rightarrow> 'w run_input \<Rightarrow> memory_row list \<Rightarrow> 'w turn_state \<Rightarrow> bool" where
  "evidence env ri rows st \<longleftrightarrow>
     dict_get (st_md st) ''committed_turn_persistence_allowed'' = JBool (va_persistence_allowed (commit_decision env ri))
     \<and> (st_policy st = policy_from_metadata (ti_metadata (rn_input ri)) \<or> \<not> pt_memory_write_allowed (st_policy st))
     \<and> observed env ri rows st"

lemma evidence_observable:
  assumes "evidence env ri rows st" "skipped_reason (rn_input ri) (st_md st) (st_policy st) (en_memory_mode env) = None"
  shows "observable env ri"
proof -
  have "pt_memory_write_allowed (st_policy st)"
    using assms(2) by (simp add: skipped_reason_def Let_def split: if_split_asm)
  with assms(1) have "st_policy st = policy_from_metadata (ti_metadata (rn_input ri))" by (auto simp: evidence_def)
  moreover have "skipped_reason (rn_input ri) (st_md st) p m
    = skipped_reason (rn_input ri) (note_commit (commit_decision env ri) (ti_metadata (rn_input ri))) p m" for p m
    by (rule skipped_reason_cong) (use assms(1) in \<open>simp add: evidence_def note_commit_def\<close>)
  ultimately show ?thesis using assms(2) by (simp add: observable_def)
qed

lemma observation_row:
  "memory_insert now (enqueue_request (observation_request env ri md) s payload) rows = rows
   \<or> ti_turn_id (rn_input ri) \<notin> set (map mo_turn_id rows)
      \<and> (\<exists>row. memory_insert now (enqueue_request (observation_request env ri md) s payload) rows = rows @ [row] \<and> own_row ri row)"
  by (auto simp: memory_insert_def enqueue_request_def observation_request_def own_row_def Let_def)

lemma own_row_known: "own_row ri row \<Longrightarrow> ti_turn_id (rn_input ri) \<in> set (map mo_turn_id (rows @ [row]))"
  by (simp add: own_row_def)

interpretation evidence: turn_invariant ri pm "evidence env ri rows" env spec allowed
  for ri :: "'w run_input" and pm rows and env :: "'w turn_env" and spec allowed :: bool
proof unfold_locales
  fix st st' :: "'w turn_state" assume "evidence env ri rows st" "same_core st st'"
  then show "evidence env ri rows st'"
    using same_core_get [of st st' "''committed_turn_persistence_allowed''"]
    by (simp add: evidence_def observed_def same_core_def boundary_keys_def)
next
  fix st :: "'w turn_state"
  assume e: "evidence env ri rows st" and r: "skipped_reason (rn_input ri) (st_md st) (st_policy st) (en_memory_mode env) = None"
  note ok = evidence_observable [OF this]
  show "evidence env ri rows (st\<lparr>st_background := st_background st @ [Observe_job]\<rparr>)"
    using e ok by (simp add: evidence_def observed_def)
  obtain rows' x md where p: "snd (publish_observation env ri st) = st\<lparr>st_rows := rows', st_ext := x, st_md := md\<rparr>"
    and md: "\<forall>k \<in> set boundary_keys. dict_get md k = dict_get (st_md st) k"
    and rows': "rows' = st_rows st \<or> (\<exists>now s payload.
           rows' = memory_insert now (enqueue_request (observation_request env ri (st_md st)) s payload) (st_rows st))"
    by (rule publish_observation_effect [of env ri st])
  from rows' consider "rows' = st_rows st"
    | row where "ti_turn_id (rn_input ri) \<notin> set (map mo_turn_id (st_rows st))" "rows' = st_rows st @ [row]" "own_row ri row"
    using observation_row by metis
  then have "rows' = rows \<or> (\<exists>row. observable env ri \<and> rows' = rows @ [row] \<and> own_row ri row)"
  proof cases
    case 1
    with e show ?thesis by (simp add: evidence_def observed_def)
  next
    case 2
    then have "st_rows st = rows" using e own_row_known unfolding evidence_def observed_def by metis
    with 2 ok show ?thesis by blast
  qed
  with e md show "evidence env ri rows (snd (publish_observation env ri st))"
    by (simp add: p evidence_def observed_def boundary_keys_def)
qed (simp_all add: turn_effects, auto simp: evidence_def observed_def policy_from_metadata_def)


end
