(* ===== verification/Turn_Answers.thy ===== *)
theory Turn_Answers
  imports Turn_Facts
begin

text \<open>
  What holds of the answer: the tool loop is bounded and does not retry a failed tool, a cancelled turn
  keeps what was heard, and the crisis path calls neither model nor tool.
\<close>

section \<open>The bound of the tool loop\<close>

definition called :: "nat \<Rightarrow> nat \<Rightarrow> 'w turn_state \<Rightarrow> bool" where
  "called a b st \<longleftrightarrow> st_streams st = a \<and> length (st_rounds st) = b"

interpretation called: turn_stages ri pm "called a b" env spec allowed
  for ri :: "'w run_input" and pm a b and env :: "'w turn_env" and spec allowed :: bool
proof unfold_locales
  fix st :: "'w turn_state" assume "called a b st"
  moreover obtain rows x md where "snd (publish_observation env ri st) = st\<lparr>st_rows := rows, st_ext := x, st_md := md\<rparr>"
    by (rule publish_observation_effect)
  ultimately show "called a b (snd (publish_observation env ri st))" by (simp add: called_def)
qed (simp_all add: turn_effects called_def same_core_def)

text \<open>\<open>costs a b m\<close>: the action calls the model at most \<open>a\<close> times and the dispatcher at most \<open>b\<close> times.\<close>

definition costs :: "nat \<Rightarrow> nat \<Rightarrow> ('w, 'a) act \<Rightarrow> bool" where
  "costs a b m \<longleftrightarrow>
     (\<forall>st. st_streams (snd (m st)) \<le> st_streams st + a \<and> length (st_rounds (snd (m st))) \<le> length (st_rounds st) + b)"

lemma costs_free: "(\<And>a b. keeps (called a b) m) \<Longrightarrow> costs 0 0 m"
  by (simp add: costs_def keeps_def called_def)

lemma costs_mono: "costs a b m \<Longrightarrow> a \<le> a' \<Longrightarrow> b \<le> b' \<Longrightarrow> costs a' b' m"
  unfolding costs_def by (meson add_left_mono order_trans)

lemma costs_abind:
  assumes "costs a b m" "\<And>x. costs c d (k x)"
  shows "costs (a + c) (b + d) (abind m k)"
  unfolding costs_def
proof (intro allI)
  fix st
  obtain r st1 where m: "m st = (r, st1)" by (rule prod.exhaust)
  have 1: "st_streams st1 \<le> st_streams st + a" "length (st_rounds st1) \<le> length (st_rounds st) + b"
    using assms(1) m by (metis costs_def snd_conv)+
  show "st_streams (snd (abind m k st)) \<le> st_streams st + (a + c)
      \<and> length (st_rounds (snd (abind m k st))) \<le> length (st_rounds st) + (b + d)"
  proof (cases r)
    case (Inl e)
    with m 1 show ?thesis by (simp add: abind_app)
  next
    case (Inr x)
    have "st_streams (snd (k x st1)) \<le> st_streams st1 + c" "length (st_rounds (snd (k x st1))) \<le> length (st_rounds st1) + d"
      using assms(2) [of x] by (simp_all add: costs_def)
    with m Inr 1 show ?thesis by (simp add: abind_app)
  qed
qed

lemma costs_first: "costs a b m \<Longrightarrow> (\<And>x. costs 0 0 (k x)) \<Longrightarrow> costs a b (abind m k)"
  using costs_abind [of a b m 0 0 k] by simp

lemma costs_then: "costs 0 0 m \<Longrightarrow> (\<And>x. costs c d (k x)) \<Longrightarrow> costs c d (abind m k)"
  using costs_abind [of 0 0 m c d k] by simp

lemma costs_aseq_then: "costs 0 0 m \<Longrightarrow> costs c d k \<Longrightarrow> costs c d (aseq m k)"
  by (simp add: aseq_def costs_then)

lemma costs_prod: "(\<And>x y. p = (x, y) \<Longrightarrow> costs a b (k x y)) \<Longrightarrow> costs a b (case p of (x, y) \<Rightarrow> k x y)"
  by (cases p) simp

lemma costs_if: "(c \<Longrightarrow> costs a b m) \<Longrightarrow> (\<not> c \<Longrightarrow> costs a b k) \<Longrightarrow> costs a b (if c then m else k)"
  by simp

lemma costs_ret: "costs a b (ret x)" and costs_fail: "costs a b (fail e)" and costs_reads: "costs a b (reads f)"
  by (simp_all add: costs_def)

lemma costs_stream_round: "costs 1 0 (stream_round env ri pm schemas messages)"
proof -
  have call: "costs 1 0 (call_model env ri schemas messages)"
    by (simp add: costs_def call_model_def split: prod.splits)
  have rest: "costs 0 0 (abind (stream_deltas ri pm deltas [] None) (\<lambda>r. case e of None \<Rightarrow> ret r | Some x \<Rightarrow> fail x))" for deltas e
    by (rule costs_free) (intro keeps_rules called.keeps_stream_deltas)
  show ?thesis
    unfolding stream_round_def by (rule costs_first [OF call]) (rule costs_prod, rule rest)
qed

lemma costs_dispatch_round: "costs 0 1 (dispatch_round env ri pm extra calls)"
  unfolding dispatch_round_def
proof (intro costs_if costs_ret costs_aseq_then)
  show "costs 0 0 (slow_tool_hint env ri pm calls)"
    by (rule costs_free) (rule called.keeps_slow_tool_hint)
  show "costs 0 1 (dispatch_calls env ri extra calls)"
    by (auto simp: costs_def dispatch_calls_def Let_def split: option.splits prod.splits)
qed

lemma costs_tool_round: "costs 0 1 (tool_round env ri pm extra messages calls)"
  unfolding tool_round_def
  by (intro costs_then costs_reads costs_aseq_then costs_first costs_dispatch_round)
    (auto intro!: costs_free keeps_rules keeps_modify called.keeps_on_results simp: called_def)

lemma costs_loop_pass:
  assumes "\<And>calls. costs a b (next_pass calls)"
  shows "costs (1 + a) b (loop_pass env ri pm outputs schemas messages next_pass)"
proof -
  let ?k = "\<lambda>(calls, fin).
       case (if pm then filter (\<lambda>c. tc_name c = response_tool) calls else []) of
         c # cs \<Rightarrow> terminal_response env ri outputs calls fin c
       | [] \<Rightarrow>
           aseq (awhen (fin = Some LENGTH) (put_md ''output_truncated'' (JBool True)))
             (if fin = Some TOOL_CALLS \<and> calls \<noteq> []
              then (if rn_coordinated ri
                    then fail (ExcOther (OtherError ''PermissionError'' ''coordinated replies do not authorize tool actions''))
                    else next_pass calls)
              else ret ())"
  have "costs a b (?k r)" for r
  proof (cases "\<exists>c cs. (if pm then filter (\<lambda>c. tc_name c = response_tool) (fst r) else []) = c # cs")
    case True
    then obtain c cs where c: "(if pm then filter (\<lambda>c. tc_name c = response_tool) (fst r) else []) = c # cs" by blast
    then have "pm" by (cases pm) simp_all
    then have "costs 0 0 (terminal_response env ri outputs (fst r) (snd r) c)"
      by (intro costs_free called.keeps_terminal_response)
    then have "costs a b (terminal_response env ri outputs (fst r) (snd r) c)" by (rule costs_mono) simp_all
    with c show ?thesis by (simp add: case_prod_beta)
  next
    case False
    then have "(if pm then filter (\<lambda>c. tc_name c = response_tool) (fst r) else []) = []" by (metis neq_Nil_conv)
    moreover have "costs 0 0 (awhen b1 (put_md ''output_truncated'' (JBool True)))" for b1
      by (auto intro!: costs_free keeps_rules called.keeps_put_md simp: boundary_keys_def)
    ultimately show ?thesis
      using assms by (auto simp: case_prod_beta intro!: costs_aseq_then costs_ret costs_fail)
  qed
  then show ?thesis
    unfolding loop_pass_def
    using costs_abind [OF costs_stream_round, of a b ?k] by simp
qed

lemma costs_tool_loop: "costs (1 + n) n (tool_loop env ri pm outputs tools n messages)"
proof (induction n arbitrary: messages)
  case 0
  have "costs 0 0 (emit ri (EvError c m))" for c m
    by (rule costs_free) (rule called.keeps_emit, simp add: plain_event_def)
  from costs_loop_pass [OF this] show ?case by simp
next
  case (Suc n)
  have "costs (1 + n) (1 + n) (abind (tool_round env ri pm (snd tools) messages calls) (tool_loop env ri pm outputs tools n))" for calls
    using costs_abind [OF costs_tool_round Suc] by simp
  from costs_loop_pass [OF this] show ?case by simp
qed

lemma costs_generate_stage:
  "costs (1 + nat (en_max_tool_iters env)) (nat (en_max_tool_iters env)) (generate_stage env ri pm spec outputs)"
  unfolding generate_stage_def
  by (intro costs_then costs_aseq_then costs_prod costs_tool_loop)
    (auto intro!: costs_free keeps_rules called.keeps_observe_input called.keeps_emit called.keeps_compile
      called.keeps_tool_schemas called.keeps_add_response_tool simp: plain_event_def)

lemma costs_run_body:
  "costs (1 + nat (en_max_tool_iters env)) (nat (en_max_tool_iters env)) (run_body env ri pm spec outputs cancelled)"
proof -
  have softened: "costs 0 0 (output_stage env ri pm spec)" by (rule costs_free) (rule called.keeps_output_stage)
  have answer: "costs (1 + nat (en_max_tool_iters env)) (nat (en_max_tool_iters env)) (answer_stage env ri pm spec outputs)"
    unfolding answer_stage_def aseq_def by (rule costs_first [OF costs_generate_stage softened])
  have fixed: "costs 0 0 (crisis_stage env ri pm spec)" "costs 0 0 (refuse_stage env ri pm spec)"
    by (rule costs_free, rule called.keeps_crisis_stage called.keeps_refuse_stage)+
  show ?thesis
    unfolding run_body_def Let_def
    by (intro costs_aseq_then costs_if costs_fail answer costs_mono [OF fixed(1)] costs_mono [OF fixed(2)])
      (auto intro!: costs_free keeps_rules keeps_modify called.keeps_remember simp: called_def)
qed

lemma run_guarded_cost:
  assumes "costs a b (run_body env ri pm spec outputs cancelled)"
  shows "st_streams (snd (run_guarded env ri pm spec outputs cancelled allowed st)) \<le> st_streams st + a
     \<and> length (st_rounds (snd (run_guarded env ri pm spec outputs cancelled allowed st))) \<le> length (st_rounds st) + b"
proof -
  obtain r st1 where body: "run_body env ri pm spec outputs cancelled st = (r, st1)" by (rule prod.exhaust)
  have 1: "st_streams st1 \<le> st_streams st + a" "length (st_rounds st1) \<le> length (st_rounds st) + b"
    using assms body by (metis costs_def snd_conv)+
  have fin: "st_streams (snd (finally_stage env ri spec allowed status code st)) = st_streams st"
    "length (st_rounds (snd (finally_stage env ri spec allowed status code st))) = length (st_rounds st)"
    for status code and st :: "'a turn_state"
    using keepsD [OF called.keeps_finally_stage [of "st_streams st" "length (st_rounds st)"], of st] by (simp_all add: called_def)
  have exc: "st_streams st2 = st_streams st1 \<and> length (st_rounds st2) = length (st_rounds st1)"
    if "handle_exception env ri e st1 = (r2, st2)" for e r2 st2
    using keeps_run [OF called.keeps_handle_exception _ that, of "st_streams st1" "length (st_rounds st1)"] by (simp add: called_def)
  show ?thesis
    using body 1 by (auto simp: run_guarded_def fin split: sum.split prod.split dest: exc)
qed

text \<open>
  C9. The tool loop is bounded: whatever the model answers, a turn hands at most \<open>max_tool_iters\<close> rounds
  of calls to the dispatcher and calls the model at most once more than that.
\<close>

theorem tool_loop_bounded:
  "st_streams (snd (run_turn env ri h rows w)) \<le> nat (en_max_tool_iters env) + 1
   \<and> length (st_rounds (snd (run_turn env ri h rows w))) \<le> nat (en_max_tool_iters env)"
proof (cases rule: run_turn_cases [of env ri h rows w])
  case (2 outputs cancelled w')
  then show ?thesis
    using run_guarded_cost [OF costs_run_body, of env ri _ _ outputs cancelled _ "start_state env ri h rows w'"]
    by (simp add: start_state_def initial_state_def add.commute)
qed (simp add: initial_state_def)


section \<open>No retry of a failed tool\<close>

text \<open>The failures of a tool since its last success, and whether its last result was one.\<close>

definition trailing_failures :: "tool_result list \<Rightarrow> string \<Rightarrow> nat" where
  "trailing_failures trace n = length (takeWhile (\<lambda>r. \<not> tr_ok r) (filter (\<lambda>r. tr_name r = n) (rev trace)))"

definition last_failed :: "tool_result list \<Rightarrow> string \<Rightarrow> bool" where
  "last_failed trace n = (case filter (\<lambda>r. tr_name r = n) (rev trace) of [] \<Rightarrow> False | r # rs \<Rightarrow> \<not> tr_ok r)"

lemma trailing_failures_pos: "1 \<le> trailing_failures trace n \<longleftrightarrow> last_failed trace n"
  by (simp add: trailing_failures_def last_failed_def split: list.split)

lemma trailing_failures_snoc:
  "trailing_failures (trace @ [r]) n =
     (if tr_name r = n then if tr_ok r then 0 else trailing_failures trace n + 1 else trailing_failures trace n)"
  by (simp add: trailing_failures_def)

definition counts_match :: "(string \<times> int) list \<Rightarrow> tool_result list \<Rightarrow> bool" where
  "counts_match counts trace \<longleftrightarrow> (\<forall>n. failure_count counts n = int (trailing_failures trace n))"

lemma failure_count_step:
  "failure_count (count_failure r counts) n =
     (if tr_name r = n then if tr_ok r then 0 else failure_count counts n + 1 else failure_count counts n)"
  by (auto simp: count_failure_def failure_count_def map_of_dict_del)

lemma counts_match_step: "counts_match counts trace \<Longrightarrow> counts_match (count_failure r counts) (trace @ [r])"
  by (simp add: counts_match_def failure_count_step trailing_failures_snoc)

lemma counts_match_fold: "counts_match counts trace \<Longrightarrow> counts_match (fold count_failure rs counts) (trace @ rs)"
proof (induction rs arbitrary: counts trace)
  case (Cons r rs)
  from Cons.IH [OF counts_match_step [OF Cons.prems, of r]] show ?case by simp
qed simp

lemma worn_out_iff: "counts_match counts trace \<Longrightarrow> worn_out counts c \<longleftrightarrow> last_failed trace (tc_name c)"
  using trailing_failures_pos [of trace "tc_name c"]
  by (auto simp: worn_out_def counts_match_def max_failures_per_tool_def)

text \<open>No call of a round is of a tool whose last result known then was a failure.\<close>

definition fresh_rounds :: "(tool_result list \<times> tool_call list) list \<Rightarrow> bool" where
  "fresh_rounds rounds = list_all (\<lambda>(known, calls). filter (\<lambda>c. last_failed known (tc_name c)) calls = []) rounds"

definition no_retry :: "'w turn_state \<Rightarrow> bool" where
  "no_retry st \<longleftrightarrow> counts_match (st_failures st) (st_trace st) \<and> fresh_rounds (st_rounds st)"

interpretation no_retry: turn_invariant ri pm "no_retry" env spec allowed
  for ri :: "'w run_input" and pm and env :: "'w turn_env" and spec allowed :: bool
proof unfold_locales
  fix st :: "'w turn_state" and calls
  assume n: "no_retry st" and "filter (worn_out (st_failures st)) calls = []"
  then have "filter (\<lambda>c. last_failed (st_trace st) (tc_name c)) calls = []"
    by (auto simp: no_retry_def filter_empty_conv worn_out_iff)
  with n show "no_retry (st\<lparr>st_rounds := st_rounds st @ [(st_trace st, calls)]\<rparr>)"
    by (simp add: no_retry_def fresh_rounds_def)
next
  fix st :: "'w turn_state" assume "no_retry st"
  moreover obtain rows x md where "snd (publish_observation env ri st) = st\<lparr>st_rows := rows, st_ext := x, st_md := md\<rparr>"
    by (rule publish_observation_effect)
  ultimately show "no_retry (snd (publish_observation env ri st))" by (simp add: no_retry_def)
qed (simp_all add: turn_effects no_retry_def same_core_def counts_match_fold)

text \<open>
  C8. A tool that failed is not tried again: over the whole turn, no round hands the dispatcher a call
  of a tool whose last result in this turn was a failure, whatever the model asks for. The counters the
  code decides by agree with the trace.
\<close>

theorem failed_tool_not_retried: "no_retry (snd (run_turn env ri h rows w))"
  by (rule run_turn_keeps [OF no_retry.turn_invariant_axioms])
    (simp_all add: no_retry_def start_state_def initial_state_def fresh_rounds_def counts_match_def failure_count_def
      trailing_failures_def)


section \<open>The crisis path\<close>

definition private_job :: "turn_job \<Rightarrow> bool" where
  "private_job j = (case j of Persist_job o1 \<Rightarrow> to_is_private o1 | Observe_job \<Rightarrow> False | _ \<Rightarrow> True)"

definition secluded :: "memory_row list \<Rightarrow> 'w turn_state \<Rightarrow> bool" where
  "secluded rows st \<longleftrightarrow> mark_messages_private (st_policy st) \<and> \<not> pt_memory_write_allowed (st_policy st)
     \<and> mark_messages_private (policy_from_metadata (st_md st)) \<and> st_rows st = rows \<and> list_all private_job (st_background st)"

lemma policy_private: "mark_messages_private (policy_from_metadata md) \<longleftrightarrow> \<not> pt_memory_write_allowed (policy_from_metadata md)"
  by (simp add: policy_from_metadata_def mark_messages_private_def)

lemma policy_cong:
  "\<forall>k \<in> set boundary_keys. dict_get md' k = dict_get md k \<Longrightarrow> policy_from_metadata md' = policy_from_metadata md"
  by (simp add: boundary_keys_def policy_from_metadata_def)

lemma policy_put: "k \<notin> {''temporary'', ''temporary_mode'', ''is_private'', ''private''}
    \<Longrightarrow> policy_from_metadata (dict_put k v md) = policy_from_metadata md"
  by (auto simp: policy_from_metadata_def)

lemma policy_escalated: "mark_messages_private (policy_from_metadata (dict_put ''is_private'' (JBool True) md))"
  by (simp add: policy_from_metadata_def mark_messages_private_def)

interpretation secluded: turn_invariant ri pm "secluded rows" env spec allowed
  for ri :: "'w run_input" and pm rows and env :: "'w turn_env" and spec allowed :: bool
proof unfold_locales
  fix st st' :: "'w turn_state" assume "secluded rows st" "same_core st st'"
  then show "secluded rows st'"
    using policy_cong [of "st_md st'" "st_md st"] by (simp add: secluded_def same_core_def)
qed (simp_all add: turn_effects, auto simp: secluded_def policy_put policy_escalated policy_private [symmetric]
    skipped_reason_def Let_def private_job_def turn_outcome_of_def split: if_split_asm)

lemma escalated_body:
  assumes "input_check (en_lower env) (ti_text (rn_input ri)) = Escalate"
  shows "run_body env ri pm spec outputs cancelled st =
    aseq (remember_turn env ri [] None) (if cancelled then fail (ExcCancelled None) else crisis_stage env ri pm spec) (escalated st)"
  using assms by (simp add: run_body_def aseq_app awhen_def escalated_def)

lemma escalated_keeps:
  assumes "input_check (en_lower env) (ti_text (rn_input ri)) = Escalate" "P (escalated st)"
    and "\<And>t status. keeps P (remember_turn env ri t status)" "keeps P (crisis_stage env ri pm spec)"
  shows "P (snd (run_body env ri pm spec outputs cancelled st))"
proof -
  have "keeps P (aseq (remember_turn env ri [] None) (if cancelled then fail (ExcCancelled None) else crisis_stage env ri pm spec))"
    by (intro keeps_rules assms(3,4))
  then show ?thesis
    unfolding escalated_body [OF assms(1)] using assms(2) by (rule keepsD)
qed

text \<open>
  C21. An utterance the input filter takes for a crisis stays inside: neither the model nor a tool sees it,
  the memory outbox stays as it was, no memory observation is scheduled, and what is left to the background
  is marked private.
\<close>

theorem crisis_stays_inside:
  assumes "input_check (en_lower env) (ti_text (rn_input ri)) = Escalate"
  shows "let st = snd (run_turn env ri h rows w)
    in st_streams st = 0 \<and> st_rounds st = [] \<and> st_rows st = rows \<and> list_all private_job (st_background st)"
proof (cases rule: run_turn_cases [of env ri h rows w])
  case (2 outputs cancelled w')
  let ?st = "start_state env ri h rows w'"
  have "called 0 0 (escalated ?st)" by (simp add: called_def escalated_def start_state_def initial_state_def)
  note c = escalated_keeps [where P = "called 0 0", OF assms this called.keeps_remember called.keeps_crisis_stage]
  have "secluded rows (escalated ?st)"
    using policy_escalated by (simp add: secluded_def escalated_def start_state_def initial_state_def policy_private [symmetric])
  note s = escalated_keeps [where P = "secluded rows", OF assms this secluded.keeps_remember secluded.keeps_crisis_stage]
  from called.run_guarded_after [OF c] secluded.run_guarded_after [OF s] 2 show ?thesis
    by (simp add: called_def secluded_def Let_def)
qed (simp add: initial_state_def)

text \<open>
  A turn in private or temporary mode reaches no long-term store as an ordinary one: the memory outbox
  stays as it was, no memory observation is scheduled, and the row left to the background is marked private.
\<close>

theorem private_turn_stays_private:
  assumes "mark_messages_private (policy_from_metadata (ti_metadata (rn_input ri)))"
  shows "let st = snd (run_turn env ri h rows w)
    in st_rows st = rows \<and> list_all private_job (st_background st)"
proof (cases rule: run_turn_cases [of env ri h rows w])
  case (2 outputs cancelled w')
  have "secluded rows (start_state env ri h rows w')"
    using assms policy_private [of "ti_metadata (rn_input ri)"]
    by (simp add: secluded_def start_state_def initial_state_def note_commit_def policy_put)
  from secluded.run_guarded_keeps [OF this] 2 show ?thesis by (simp add: secluded_def)
qed (simp add: initial_state_def)

end
