(* ===== verification/Turn_Records.thy ===== *)
theory Turn_Records
  imports Turn_Answers
begin

text \<open>
  What a turn leaves on record: the history window and the row left to the background hold the same
  answer, and after a cancellation it is what the person heard.
\<close>

section \<open>The text that was streamed\<close>

definition spoken :: "'w turn_state \<Rightarrow> utext" where
  "spoken st = concat (map (\<lambda>e. case te_data e of EvDelta t None \<Rightarrow> t | _ \<Rightarrow> []) (st_events st))"

text \<open>In the loop the parts are the streamed text; with a structured response nothing is streamed.\<close>

definition in_step :: "bool \<Rightarrow> 'w turn_state \<Rightarrow> bool" where
  "in_step pm st \<longleftrightarrow> spoken st = concat (st_parts st)
     \<and> (if pm then st_parts st = [] else st_response st = None)"

definition spoken_parts :: "'w turn_state \<Rightarrow> bool" where
  "spoken_parts st \<longleftrightarrow> spoken st = concat (st_parts st)"

lemma spoken_cong: "st_events st' = st_events st \<Longrightarrow> spoken st' = spoken st"
  by (simp add: spoken_def)

lemma in_step_cong: "st_events st' = st_events st \<Longrightarrow> st_parts st' = st_parts st \<Longrightarrow> st_response st' = st_response st
    \<Longrightarrow> in_step pm st' = in_step pm st"
  by (simp add: in_step_def spoken_cong [of st' st])

lemma spoken_emit: "spoken (snd (emit ri d st)) = spoken st @ (case d of EvDelta t None \<Rightarrow> t | _ \<Rightarrow> [])"
  by (simp add: spoken_def emit_effect)

lemma spoken_plain: "plain_event d \<Longrightarrow> spoken (snd (emit ri d st)) = spoken st"
  by (simp add: spoken_emit plain_event_def split: turn_event_data.splits option.splits)

lemma spoken_say: "spoken (snd (say ri t st)) = spoken st @ t"
  by (simp add: spoken_def say_effect)

lemma emit_other [simp]: "st_parts (snd (emit ri d st)) = st_parts st" "st_response (snd (emit ri d st)) = st_response st"
  by (simp_all add: emit_effect)

interpretation in_step: turn_generation ri pm "in_step pm" env spec
  for ri :: "'w run_input" and pm and env :: "'w turn_env" and spec :: bool
proof unfold_locales
  fix st st' :: "'w turn_state" assume "in_step pm st" "same_core st st'"
  then show "in_step pm st'" using in_step_cong [of st' st pm] by (simp add: same_core_def)
next
  fix st :: "'w turn_state" assume n: "in_step pm st"
  obtain rows x md where "snd (publish_observation env ri st) = st\<lparr>st_rows := rows, st_ext := x, st_md := md\<rparr>"
    by (rule publish_observation_effect)
  with n in_step_cong [of "snd (publish_observation env ri st)" st pm]
  show "in_step pm (snd (publish_observation env ri st))" by simp
next
  fix st :: "'w turn_state" and d assume "in_step pm st" "plain_event d"
  then show "in_step pm (snd (emit ri d st))" by (auto simp: in_step_def spoken_plain)
next
  fix st :: "'w turn_state" and t assume "in_step pm st" "\<not> pm"
  then show "in_step pm (snd (say ri t st))"
    by (simp add: in_step_def spoken_say) (simp add: say_effect)
qed (simp_all add: in_step_def spoken_def)

lemma keeps_spoken_parts:
  "keeps spoken_parts (put_md k v)" "keeps spoken_parts (set_persist_text t)" "keeps spoken_parts finalize"
  "keeps spoken_parts (remember_turn env ri t status)" "keeps spoken_parts (emit ri (EvDone s x))"
  "keeps spoken_parts (external f)"
proof -
  show "keeps spoken_parts (external f)" by (rule keeps_external) (simp add: spoken_parts_def spoken_def)
  show "keeps spoken_parts (emit ri (EvDone s x))"
    by (rule keepsI) (simp add: spoken_parts_def spoken_emit)
qed (unfold put_md_def set_persist_text_def finalize_def remember_turn_def,
    (rule keeps_modify, simp add: spoken_parts_def spoken_def)+)

lemma keeps_spoken_receipt: "keeps spoken_parts (await_receipt ri spec)"
  unfolding await_receipt_def by (intro keeps_rules keeps_spoken_parts)

lemma hoare_ret: "(\<And>st. P st \<Longrightarrow> Q st) \<Longrightarrow> hoare P (ret a) Q R" and hoare_fail: "(\<And>st. P st \<Longrightarrow> R e st) \<Longrightarrow> hoare P (fail e) Q R"
  by (simp_all add: hoare_def)

lemma hoare_option:
  "(x = None \<Longrightarrow> hoare P m Q R) \<Longrightarrow> (\<And>a. x = Some a \<Longrightarrow> hoare P (k a) Q R)
     \<Longrightarrow> hoare P (case x of None \<Rightarrow> m | Some a \<Rightarrow> k a) Q R"
  by (cases x) simp_all

abbreviation raises_spoken :: "turn_exc \<Rightarrow> 'w turn_state \<Rightarrow> bool" where
  "raises_spoken \<equiv> \<lambda>e. spoken_parts"

lemma in_step_spoken: "in_step pm st \<Longrightarrow> spoken_parts st"
  by (simp add: in_step_def spoken_parts_def)

lemma hoare_in_step: "keeps (in_step pm) m \<Longrightarrow> hoare (in_step pm) m (in_step pm) raises_spoken"
  by (rule hoare_keeps) (auto simp: in_step_spoken)

lemma hoare_spoken: "keeps spoken_parts m \<Longrightarrow> hoare spoken_parts m spoken_parts raises_spoken"
  by (rule hoare_keeps)

lemma hoare_present: "hoare (in_step True) (present_response env ri spec final) spoken_parts raises_spoken"
proof -
  have delivery: "keeps (in_step True) (modify (\<lambda>st. st\<lparr>st_md := dict_setdefault ''presentation_delivery'' (JStr ''unconfirmed'') (st_md st)\<rparr>))"
    for ri :: "'a run_input"
    by (rule keeps_modify) (subst in_step_cong, simp_all)
  have md: "keeps (in_step True) (put_md k v)" for k v
    unfolding put_md_def by (rule keeps_modify) (subst in_step_cong, simp_all)
  have emit: "keeps (in_step True) (emit ri (EvPresentation i))" for i
    by (rule in_step.keeps_emit) (simp add: plain_event_def)
  have parts: "hoare (in_step True) (modify (\<lambda>st. st\<lparr>st_parts := [final]\<rparr>)) (\<lambda>st. spoken st = [] \<and> st_parts st = [final]) raises_spoken"
    by (rule hoare_modify) (auto simp: in_step_def spoken_cong [of "_\<lparr>st_parts := _\<rparr>"])
  have reply: "hoare (\<lambda>st. spoken st = [] \<and> st_parts st = [final]) (emit ri (EvDelta final None)) spoken_parts raises_spoken"
    by (rule hoareI) (simp_all add: spoken_parts_def spoken_def emit_def, auto)
  have branch: "hoare (in_step True) (aseq (put_md ''response_intent'' (en_intent_json env (rr_intent r)))
      (aseq (modify (\<lambda>st. st\<lparr>st_md := dict_setdefault ''presentation_delivery'' (JStr ''unconfirmed'') (st_md st)\<rparr>))
      (aseq (emit ri (EvPresentation (rr_intent r)))
        (if final \<noteq> []
         then aseq (put_md ''language_delivery'' (JStr ''unconfirmed''))
           (aseq (modify (\<lambda>st. st\<lparr>st_parts := [final]\<rparr>))
           (aseq (emit ri (EvDelta final None)) (ret final)))
         else ret (intent_placeholder (pc_intent (ri_candidate (rr_intent r)))))))) spoken_parts raises_spoken" for r
    by (intro hoare_aseq [OF hoare_in_step [OF md]] hoare_aseq [OF hoare_in_step [OF delivery]]
        hoare_aseq [OF hoare_in_step [OF emit]] hoare_if hoare_aseq [OF parts] hoare_aseq [OF reply] hoare_ret)
      (simp_all add: in_step_spoken)
  show ?thesis
    unfolding present_response_def
    by (rule hoare_abind [OF hoare_in_step [OF keeps_reads]])
      (intro hoare_option hoare_if branch hoare_ret in_step_spoken; assumption)
qed

lemma plain_answer_returns:
  assumes "st_response st = None"
  shows "\<exists>st'. output_stage env ri False spec st = (Inr (), st')"
proof -
  have present: "present_response env ri spec final st1 = (Inr final, st1)" if "st_response st1 = None" for final st1
    using that by (simp add: present_response_def abind_app)
  have receipt: "await_receipt ri spec st1 = (Inr (), st1)" if "st_response st1 = None" for st1
    using that by (simp add: await_receipt_def abind_app)
  show ?thesis
    using assms by (simp add: output_stage_def abind_app aseq_app Let_def awhen_def present receipt emit_def
        set_persist_text_def finalize_def remember_turn_def)
qed

lemma hoare_structured_answer:
  "hoare (in_step True) (output_stage env ri True spec) spoken_parts raises_spoken"
proof -
  have rest: "hoare spoken_parts (aseq (set_persist_text final) (aseq (remember_turn env ri final (Some OK))
      (aseq finalize (aseq (emit ri (EvDone OK (TriageExtra SIMPLE))) (await_receipt ri spec))))) spoken_parts raises_spoken" for final
    by (intro hoare_spoken keeps_rules keeps_spoken_parts keeps_spoken_receipt)
  have "hoare (in_step True) (aseq (awhen (b \<and> \<not> True) (emit ri (EvDelta prefix None)))
      (abind (present_response env ri spec t) (\<lambda>final. aseq (set_persist_text final) (aseq (remember_turn env ri final (Some OK))
      (aseq finalize (aseq (emit ri (EvDone OK (TriageExtra SIMPLE))) (await_receipt ri spec)))))))
      spoken_parts raises_spoken" for b t prefix
    by (intro hoare_aseq [OF hoare_in_step] hoare_abind [OF hoare_present] rest) (simp add: awhen_def keeps_ret)
  note answer = this
  show ?thesis
    unfolding output_stage_def Let_def
    by (rule hoare_abind [OF hoare_in_step [OF keeps_reads]])
      (auto split: prod.splits intro!: hoare_if hoare_fail in_step_spoken answer [simplified])
qed

lemma output_raises_spoken:
  assumes "in_step pm st" "output_stage env ri pm spec st = (Inl e, st')"
  shows "spoken_parts st'"
proof (cases pm)
  case True
  with assms hoareD [OF hoare_structured_answer] show ?thesis by fastforce
next
  case False
  with assms plain_answer_returns [of st env ri spec] show ?thesis by (auto simp: in_step_def)
qed

lemma crisis_raises_spoken:
  "in_step pm st \<Longrightarrow> crisis_stage env ri pm spec st = (Inl e, st') \<Longrightarrow> spoken_parts st'"
  by (auto simp: crisis_stage_def Let_def abind_app aseq_app external_def awhen_def emit_def set_persist_text_def
      finalize_def remember_turn_def in_step_def spoken_parts_def spoken_def split: prod.splits sum.splits if_split_asm)

lemma refuse_returns: "\<exists>st'. refuse_stage env ri pm spec st = (Inr (), st')"
  by (simp add: refuse_stage_def aseq_app awhen_def emit_def set_persist_text_def finalize_def remember_turn_def)

lemma hoare_run_body: "hoare (in_step pm) (run_body env ri pm spec outputs cancelled) (\<lambda>st. True) raises_spoken"
proof -
  have escalate: "keeps (in_step pm) (awhen b (modify (\<lambda>st. st\<lparr>st_md := dict_put ''is_private'' (JBool True) (st_md st),
      st_policy := policy_from_metadata (dict_put ''is_private'' (JBool True) (st_md st))\<rparr>)))" for b
    by (intro keeps_rules keeps_modify) (subst in_step_cong, simp_all)
  have remember: "keeps (in_step pm) (remember_turn env ri t status)" for t status
    unfolding remember_turn_def by (intro keeps_rules keeps_modify) (subst in_step_cong, simp_all)
  have answer: "hoare (in_step pm) (answer_stage env ri pm spec outputs) (\<lambda>st. True) raises_spoken"
    unfolding answer_stage_def
    by (rule hoare_aseq [OF hoare_in_step [OF in_step.keeps_generate_stage]]) (rule hoareI, simp, erule output_raises_spoken)
  have crisis: "hoare (in_step pm) (crisis_stage env ri pm spec) (\<lambda>st. True) raises_spoken"
    by (rule hoareI, simp, erule crisis_raises_spoken)
  have refuse: "hoare (in_step pm) (refuse_stage env ri pm spec) (\<lambda>st. True) raises_spoken"
    using refuse_returns [of env ri pm spec] by (intro hoareI) (auto, metis Inr_not_Inl fst_conv)
  show ?thesis
    unfolding run_body_def Let_def
    by (intro hoare_aseq [OF hoare_in_step [OF escalate]] hoare_aseq [OF hoare_in_step [OF remember]] hoare_if
        hoare_fail answer crisis refuse in_step_spoken)
qed


section \<open>The record of the answer\<close>

text \<open>The window holds the turn with this answer.\<close>

definition window_has :: "'w turn_env \<Rightarrow> 'w run_input \<Rightarrow> utext \<Rightarrow> 'w turn_state \<Rightarrow> bool" where
  "window_has env ri answer st \<longleftrightarrow>
     (\<exists>status older. st_history st = replace_turn (ti_conversation_id (rn_input ri)) (ti_turn_id (rn_input ri))
        (remembered_messages env ri (st_md st) answer status) older)"

text \<open>The turn is still open, or it is closed with the text that will be persisted.\<close>

definition opened :: "'w turn_state \<Rightarrow> bool" where
  "opened st \<longleftrightarrow> \<not> leaves_no_trace (st_md st) \<and> \<not> st_finalized st"

definition closed :: "'w turn_env \<Rightarrow> 'w run_input \<Rightarrow> 'w turn_state \<Rightarrow> bool" where
  "closed env ri st \<longleftrightarrow> \<not> leaves_no_trace (st_md st) \<and> window_has env ri (st_persist_text st) st"

definition settled :: "'w turn_env \<Rightarrow> 'w run_input \<Rightarrow> 'w turn_state \<Rightarrow> bool" where
  "settled env ri st \<longleftrightarrow> opened st \<or> closed env ri st"

lemma leaves_no_trace_cong:
  "\<forall>k \<in> set boundary_keys. dict_get md' k = dict_get md k \<Longrightarrow> leaves_no_trace md' = leaves_no_trace md"
  by (simp add: boundary_keys_def leaves_no_trace_def)

lemma opened_cong: "st_md st' = st_md st \<Longrightarrow> st_finalized st' = st_finalized st \<Longrightarrow> opened st' = opened st"
  by (simp add: opened_def)

interpretation opened: turn_generation ri pm opened env spec
  for ri :: "'w run_input" and pm and env :: "'w turn_env" and spec :: bool
proof unfold_locales
  fix st st' :: "'w turn_state" assume "opened st" "same_core st st'"
  then show "opened st'"
    using leaves_no_trace_cong [of "st_md st'" "st_md st"] by (simp add: opened_def same_core_def)
next
  fix st :: "'w turn_state" assume o: "opened st"
  obtain rows x md where p: "snd (publish_observation env ri st) = st\<lparr>st_rows := rows, st_ext := x, st_md := md\<rparr>"
    and "\<forall>k \<in> set boundary_keys. dict_get md k = dict_get (st_md st) k"
    by (rule publish_observation_effect [of env ri st])
  with o leaves_no_trace_cong [of md "st_md st"] show "opened (snd (publish_observation env ri st))"
    by (simp add: opened_def)
qed (simp_all add: turn_effects opened_def)

lemma remembered_cong:
  assumes "\<forall>k \<in> set (''capability_references'' # boundary_keys). dict_get md' k = dict_get md k"
  shows "remembered_messages env ri md' answer status = remembered_messages env ri md answer status"
proof -
  have "policy_from_metadata md' = policy_from_metadata md" using assms by (intro policy_cong) simp
  with assms show ?thesis by (simp add: remembered_messages_def Let_def split: option.splits)
qed

lemma closed_cong:
  assumes "\<forall>k \<in> set (''capability_references'' # boundary_keys). dict_get (st_md st') k = dict_get (st_md st) k"
    and "st_history st' = st_history st" "st_persist_text st' = st_persist_text st"
  shows "closed env ri st' = closed env ri st"
proof -
  have "remembered_messages env ri (st_md st') answer status = remembered_messages env ri (st_md st) answer status" for answer status
    by (rule remembered_cong [OF assms(1)])
  with assms leaves_no_trace_cong [of "st_md st'" "st_md st"] show ?thesis
    by (simp add: closed_def window_has_def)
qed

lemma keeps_closed_md:
  "k \<notin> set (''capability_references'' # boundary_keys) \<Longrightarrow> keeps (closed env ri) (put_md k v)"
  unfolding put_md_def by (rule keeps_modify) (subst closed_cong, auto)

lemma keeps_closed: "keeps (closed env ri) (emit ri d)" "keeps (closed env ri) (external f)" "keeps (closed env ri) finalize"
  "keeps (closed env ri) (schedule j)"
proof -
  show "keeps (closed env ri) (external f)" by (rule keeps_external) (subst closed_cong, simp_all)
qed (unfold emit_def finalize_def schedule_def, (rule keeps_modify, subst closed_cong, simp_all)+)

lemma keeps_closed_receipt: "keeps (closed env ri) (await_receipt ri spec)"
  unfolding await_receipt_def by (intro keeps_rules keeps_closed keeps_closed_md; simp add: boundary_keys_def)

lemma keeps_opened_text: "keeps (\<lambda>st. opened st \<and> st_persist_text st = t) (emit ri d)"
  unfolding emit_def by (rule keeps_modify) (simp add: opened_def)

lemma hoare_set_text: "hoare opened (set_persist_text t) (\<lambda>st. opened st \<and> st_persist_text st = t) R"
  unfolding set_persist_text_def by (rule hoare_modify) (simp add: opened_def)

lemma hoare_remember:
  "hoare (\<lambda>st. opened st \<and> st_persist_text st = t) (remember_turn env ri t status) (closed env ri) R"
  unfolding remember_turn_def by (rule hoare_modify) (auto simp: opened_def closed_def window_has_def)

abbreviation raises_settled :: "'w turn_env \<Rightarrow> 'w run_input \<Rightarrow> turn_exc \<Rightarrow> 'w turn_state \<Rightarrow> bool" where
  "raises_settled env ri \<equiv> \<lambda>e. settled env ri"

lemma hoare_opened: "keeps opened m \<Longrightarrow> hoare opened m opened (raises_settled env ri)"
  by (rule hoare_keeps) (auto simp: settled_def)

lemma hoare_closed: "keeps (closed env ri) m \<Longrightarrow> hoare (closed env ri) m (closed env ri) (raises_settled env ri)"
  by (rule hoare_keeps) (auto simp: settled_def)

lemma hoare_text: "keeps (\<lambda>st. opened st \<and> st_persist_text st = t) m
    \<Longrightarrow> hoare (\<lambda>st. opened st \<and> st_persist_text st = t) m (\<lambda>st. opened st \<and> st_persist_text st = t) (raises_settled env ri)"
  by (rule hoare_keeps) (auto simp: settled_def)

lemma keeps_opened_present: "keeps opened (present_response env ri spec final)"
proof -
  have delivery: "keeps opened (modify (\<lambda>st. st\<lparr>st_md := dict_setdefault ''presentation_delivery'' (JStr ''unconfirmed'') (st_md st)\<rparr>))"
  proof (rule keeps_modify)
    fix st assume "opened st"
    then show "opened (st\<lparr>st_md := dict_setdefault ''presentation_delivery'' (JStr ''unconfirmed'') (st_md st)\<rparr>)"
      using leaves_no_trace_cong [of "dict_setdefault ''presentation_delivery'' (JStr ''unconfirmed'') (st_md st)" "st_md st"]
      by (simp add: opened_def boundary_keys_def dict_get_setdefault)
  qed
  have md: "keeps opened (put_md k v)" if "k \<notin> set boundary_keys" for k v
    using that by (rule opened.keeps_put_md)
  have emits: "keeps opened (emit ri d)" for d
    unfolding emit_def by (rule keeps_modify) (simp add: opened_def)
  have parts: "keeps opened (modify (\<lambda>st. st\<lparr>st_parts := ps\<rparr>))" for ps
    by (rule keeps_modify) (simp add: opened_def)
  show ?thesis
    unfolding present_response_def
    by (intro keeps_rules md delivery emits parts; simp add: boundary_keys_def)
qed

lemma hoare_output_settled: "hoare opened (output_stage env ri pm spec) (closed env ri) (raises_settled env ri)"
proof -
  have rest: "hoare opened (aseq (set_persist_text final) (aseq (remember_turn env ri final (Some OK))
      (aseq finalize (aseq (emit ri (EvDone OK (TriageExtra SIMPLE))) (await_receipt ri spec))))) (closed env ri) (raises_settled env ri)" for final
    by (rule hoare_aseq [OF hoare_set_text hoare_aseq [OF hoare_remember]])
      (intro hoare_closed keeps_rules keeps_closed keeps_closed_receipt)
  have "hoare opened (aseq (awhen b (emit ri (EvDelta prefix None)))
      (abind (present_response env ri spec t) (\<lambda>final. aseq (set_persist_text final) (aseq (remember_turn env ri final (Some OK))
      (aseq finalize (aseq (emit ri (EvDone OK (TriageExtra SIMPLE))) (await_receipt ri spec)))))))
      (closed env ri) (raises_settled env ri)" for b t prefix
  proof -
    have soften: "keeps opened (awhen b (emit ri (EvDelta prefix None)))"
      unfolding emit_def by (intro keeps_rules keeps_modify) (simp add: opened_def)
    show ?thesis
      by (rule hoare_aseq [OF hoare_opened [OF soften] hoare_abind [OF hoare_opened [OF keeps_opened_present] rest]])
  qed
  note answer = this
  have missing: "hoare opened (fail (ExcPresentation ''STRUCTURED_RESPONSE_REQUIRED'')) (closed env ri) (raises_settled env ri)"
    by (rule hoare_fail) (simp add: settled_def)
  show ?thesis
    unfolding output_stage_def Let_def
    by (rule hoare_abind [OF hoare_opened [OF keeps_reads]])
      (auto split: prod.splits intro!: hoare_if missing answer)
qed

lemma hoare_crisis_settled: "hoare opened (crisis_stage env ri pm spec) (closed env ri) (raises_settled env ri)"
proof -
  have ext: "keeps opened (external f)" for f :: "'a \<Rightarrow> (turn_exc + utext \<times> utext list) \<times> 'a"
    by (rule keeps_external) (simp add: opened_def)
  have reply: "hoare opened (aseq (set_persist_text line)
         (aseq (emit ri (EvState SPEAKING))
         (aseq (awhen (pm \<and> \<not> spec) (emit ri (EvPresentation (safe_intent env ri ''comfort''))))
         (aseq (emit ri (EvDelta line None))
         (aseq (remember_turn env ri line (Some OK))
         (aseq finalize (emit ri (EvDone OK (CrisisExtra resources))))))))) (closed env ri) (raises_settled env ri)" for line resources
    by (rule hoare_aseq [OF hoare_set_text])
      (intro hoare_aseq [OF hoare_text] hoare_aseq [OF hoare_remember] hoare_closed keeps_rules keeps_opened_text keeps_closed)
  show ?thesis
    unfolding crisis_stage_def Let_def
    by (rule hoare_abind [OF hoare_opened [OF ext]]) (auto split: prod.splits intro!: reply)
qed

lemma hoare_refuse_settled: "hoare opened (refuse_stage env ri pm spec) (closed env ri) (raises_settled env ri)"
  unfolding refuse_stage_def
  by (rule hoare_aseq [OF hoare_set_text])
    (intro hoare_aseq [OF hoare_text] hoare_aseq [OF hoare_remember] hoare_closed keeps_rules keeps_opened_text keeps_closed)

lemma hoare_body_settled:
  "hoare opened (run_body env ri pm spec outputs cancelled) (closed env ri) (raises_settled env ri)"
proof -
  have escalate: "keeps opened (awhen b (modify (\<lambda>st. st\<lparr>st_md := dict_put ''is_private'' (JBool True) (st_md st),
      st_policy := policy_from_metadata (dict_put ''is_private'' (JBool True) (st_md st))\<rparr>)))" for b
    by (intro keeps_rules keeps_modify) (simp add: opened_def leaves_no_trace_def)
  have remember: "keeps opened (remember_turn env ri t status)" for t status
    unfolding remember_turn_def by (rule keeps_modify) (simp add: opened_def)
  have answer: "hoare opened (answer_stage env ri pm spec outputs) (closed env ri) (raises_settled env ri)"
    unfolding answer_stage_def
    by (rule hoare_aseq [OF hoare_opened [OF opened.keeps_generate_stage] hoare_output_settled])
  show ?thesis
    unfolding run_body_def Let_def
    by (intro hoare_aseq [OF hoare_opened [OF escalate]] hoare_aseq [OF hoare_opened [OF remember]] hoare_if hoare_fail
        answer hoare_crisis_settled hoare_refuse_settled) (simp add: settled_def)
qed


text \<open>What was heard of the streamed answer, by the playback boundary the transport left.\<close>

definition heard :: "'w turn_state \<Rightarrow> utext" where
  "heard st = (case dict_get (st_md st) ''cancel_played_chars'' of
                 JInt n \<Rightarrow> take (nat (max 0 n)) (spoken st) | _ \<Rightarrow> spoken st)"

definition row_left :: "turn_status \<Rightarrow> utext \<Rightarrow> 'w turn_state \<Rightarrow> bool" where
  "row_left status answer st \<longleftrightarrow>
     (\<exists>o1. Persist_job o1 \<in> set (st_background st) \<and> to_status o1 = status \<and> to_assistant_text o1 = answer)"

lemma finally_records:
  assumes "settled env ri st" "en_persister env"
  obtains st' where "snd (finally_stage env ri False True status code st) = st'" "closed env ri st'"
    "st_events st' = st_events st" "dict_get (st_md st') ''cancel_played_chars'' = dict_get (st_md st) ''cancel_played_chars''"
    "st_persist_text st' = st_persist_text st" "row_left status (st_persist_text st) st'"
proof -
  let ?trace = "\<lambda>st. st\<lparr>st_md := dict_put ''memory_write_trace''
         (JDict (memory_write_trace (rn_input ri) (st_md st) (st_policy st) (en_memory_mode env))) (st_md st)\<rparr>"
  let ?job = "\<lambda>st. st\<lparr>st_background := st_background st @ [Persist_job (turn_outcome_of env ri True status code st)]\<rparr>"
  define st1 where "st1 = (if st_finalized st then st else snd (remember_turn env ri (st_persist_text st) (Some status) st))"
  have closed1: "closed env ri st1"
    using assms(1) by (auto simp: st1_def settled_def opened_def closed_def remember_turn_def window_has_def)
  have same1: "st_events st1 = st_events st" "st_md st1 = st_md st" "st_persist_text st1 = st_persist_text st"
    by (simp_all add: st1_def remember_turn_def)
  define st2 where "st2 = ?job (?trace st1)"
  have "closed env ri st2" using closed1 by (subst closed_cong [of st2 st1]) (auto simp: st2_def boundary_keys_def)
  moreover have "row_left status (st_persist_text st) st2"
    unfolding row_left_def
    by (rule exI [of _ "turn_outcome_of env ri True status code (?trace st1)"]) (simp add: st2_def turn_outcome_of_def same1)
  moreover define st3 where "st3 = snd (awhen (en_bus env) (schedule (Completed_job (completed_event ri status))) st2)"
  ultimately have "closed env ri st3" "row_left status (st_persist_text st) st3" "st_md st3 = st_md st2"
    "st_events st3 = st_events st2" "st_persist_text st3 = st_persist_text st2"
    using closed_cong [of st3 st2 env ri] by (auto simp: awhen_def schedule_def row_left_def)
  moreover have "snd (finally_stage env ri False True status code st) = st3"
    using assms(2) by (simp add: finally_stage_def abind_app aseq_app awhen_def schedule_persist_def schedule_def st3_def
        st2_def st1_def remember_turn_def)
  ultimately show ?thesis
    by (intro that [of st3]) (simp_all add: st2_def same1)
qed

lemma aseq_returns: "fst (m st) = Inr () \<Longrightarrow> aseq m k st = k (snd (m st))"
  by (cases "m st") (simp add: aseq_app)

lemma returning: "fst (remember_turn env ri t status st) = Inr ()" "fst (emit ri d st) = Inr ()"
  "fst (note_boundary played st) = Inr ()" "fst (set_persist_text t st) = Inr ()" "fst (finalize st) = Inr ()"
  by (simp_all add: remember_turn_def emit_def note_boundary_def put_md_def set_persist_text_def finalize_def split: option.split)

lemma cancel_handled:
  assumes "handle_exception env ri (ExcCancelled played) st = (Inr (status, code), st')"
  obtains st1 st2 where "snd (note_boundary played st) = st1" "status = CANCELLED_TURN"
    "snd (remember_turn env ri (heard_text st1) (Some CANCELLED_TURN) (st1\<lparr>st_persist_text := heard_text st1\<rparr>)) = st2"
    "st' = snd (emit ri (EvError ''eidolon.turn_cancelled'' ''cancelled'') (st2\<lparr>st_finalized := True\<rparr>))"
proof (rule that [OF refl _ refl])
  show "status = CANCELLED_TURN" "st' = snd (emit ri (EvError ''eidolon.turn_cancelled'' ''cancelled'')
    ((snd (remember_turn env ri (heard_text (snd (note_boundary played st))) (Some CANCELLED_TURN)
       (snd (note_boundary played st)\<lparr>st_persist_text := heard_text (snd (note_boundary played st))\<rparr>)))\<lparr>st_finalized := True\<rparr>))"
    using assms
    by (simp_all add: handle_exception_def aseq_returns returning abind_app) (auto simp: set_persist_text_def finalize_def)
qed

lemma note_boundary_fields:
  "st_events (snd (note_boundary played st)) = st_events st" "st_parts (snd (note_boundary played st)) = st_parts st"
  "leaves_no_trace (st_md (snd (note_boundary played st))) = leaves_no_trace (st_md st)"
  by (simp_all add: note_boundary_def put_md_def leaves_no_trace_def split: option.split)

lemma settled_open: "settled env ri st \<Longrightarrow> \<not> leaves_no_trace (st_md st)"
  by (auto simp: settled_def opened_def closed_def)

lemma remembered_fields:
  "st_md (snd (remember_turn env ri t status st)) = st_md st" "st_events (snd (remember_turn env ri t status st)) = st_events st"
  "st_parts (snd (remember_turn env ri t status st)) = st_parts st"
  "st_persist_text (snd (remember_turn env ri t status st)) = st_persist_text st"
  by (simp_all add: remember_turn_def)

lemma remembered_closed: "\<not> leaves_no_trace (st_md st) \<Longrightarrow> st_persist_text st = t
    \<Longrightarrow> closed env ri (snd (remember_turn env ri t status st))"
  by (auto simp: remember_turn_def closed_def window_has_def)

lemma error_settled: "settled env ri st \<Longrightarrow> settled env ri (snd (emit ri d st))"
  using keepsD [OF keeps_closed(1)] by (auto simp: settled_def opened_def emit_effect)

lemma exception_settled:
  assumes "settled env ri st" "handle_exception env ri e st = (Inr (status, code), st')"
  shows "settled env ri st'"
proof (cases e)
  case (ExcCancelled played)
  show ?thesis
  proof (rule cancel_handled [OF assms(2) [unfolded ExcCancelled]])
    fix st1 st2 :: "'a turn_state"
    let ?st = "st1\<lparr>st_persist_text := heard_text st1\<rparr>"
    assume st1: "snd (note_boundary played st) = st1"
      and st2: "snd (remember_turn env ri (heard_text st1) (Some CANCELLED_TURN) ?st) = st2"
      and st': "st' = snd (emit ri (EvError ''eidolon.turn_cancelled'' ''cancelled'') (st2\<lparr>st_finalized := True\<rparr>))"
    have "\<not> leaves_no_trace (st_md ?st)"
      using settled_open [OF assms(1)] note_boundary_fields(3) [of played st] st1 by simp
    then have "closed env ri st2" unfolding st2 [symmetric] by (rule remembered_closed) simp
    then have "settled env ri (st2\<lparr>st_finalized := True\<rparr>)"
      using closed_cong [of "st2\<lparr>st_finalized := True\<rparr>" st2] by (simp add: settled_def)
    then show ?thesis unfolding st' by (rule error_settled)
  qed
qed (use assms error_settled [OF assms(1)] in \<open>auto simp: handle_exception_def aseq_returns returning\<close>)

lemma heard_cong:
  "st_events st' = st_events st \<Longrightarrow> dict_get (st_md st') ''cancel_played_chars'' = dict_get (st_md st) ''cancel_played_chars''
     \<Longrightarrow> heard st' = heard st"
  by (simp add: heard_def spoken_cong [of st' st] split: json.split)

lemma cancellation_settled:
  assumes "spoken_parts st" "handle_exception env ri (ExcCancelled played) st = (Inr (status, code), st')"
  shows "status = CANCELLED_TURN \<and> st_persist_text st' = heard st'"
proof (rule cancel_handled [OF assms(2)])
  fix st1 st2 :: "'a turn_state"
  let ?st = "st1\<lparr>st_persist_text := heard_text st1\<rparr>"
  assume st1: "snd (note_boundary played st) = st1" and status: "status = CANCELLED_TURN"
    and st2: "snd (remember_turn env ri (heard_text st1) (Some CANCELLED_TURN) ?st) = st2"
    and st': "st' = snd (emit ri (EvError ''eidolon.turn_cancelled'' ''cancelled'') (st2\<lparr>st_finalized := True\<rparr>))"
  have "spoken st' = spoken st2" unfolding st' by (simp add: spoken_emit spoken_cong [of "st2\<lparr>st_finalized := True\<rparr>" st2])
  also have "\<dots> = spoken st" using remembered_fields(2) [of env ri "heard_text st1" "Some CANCELLED_TURN" ?st]
      note_boundary_fields(1) [of played st] by (simp add: st1 st2 spoken_def)
  finally have "spoken st' = concat (st_parts st1)"
    using assms(1) note_boundary_fields(2) [of played st] by (simp add: st1 spoken_parts_def)
  moreover have "st_md st' = st_md st1" "st_persist_text st' = heard_text st1"
    using remembered_fields [of env ri "heard_text st1" "Some CANCELLED_TURN" ?st] by (simp_all add: st' st2 emit_effect)
  ultimately show ?thesis by (simp add: status heard_def heard_text_def split: json.split)
qed

lemma run_guarded_records:
  assumes "opened st" "in_step pm st" "en_persister env"
    and "run_guarded env ri pm False outputs cancelled True st = (e, st')"
  shows "closed env ri st' \<and> (\<exists>status. row_left status (st_persist_text st') st')
    \<and> (case e of None \<Rightarrow> True | Some x \<Rightarrow> row_left CANCELLED_TURN (heard st') st' \<and> st_persist_text st' = heard st')"
proof -
  obtain r st1 where body: "run_body env ri pm False outputs cancelled st = (r, st1)" by (rule prod.exhaust)
  note settled1 = hoareD [OF hoare_body_settled assms(1) body]
  show ?thesis
  proof (cases r)
    case (Inr u)
    with settled1 have "settled env ri st1" by (simp add: settled_def)
    then obtain st3 where "snd (finally_stage env ri False True OK None st1) = st3" "closed env ri st3"
      "row_left OK (st_persist_text st3) st3"
      using finally_records [OF _ assms(3), of ri st1 OK None] by metis
    with assms(4) body Inr show ?thesis by (auto simp: run_guarded_def)
  next
    case (Inl x)
    obtain status code st2 where handled: "handle_exception env ri x st1 = (Inr (status, code), st2)"
      using handle_exception_returns by blast
    from settled1 Inl have "settled env ri st1" by simp
    note settled2 = exception_settled [OF this handled]
    obtain st3 where st3: "snd (finally_stage env ri False True status (Some code) st2) = st3" "closed env ri st3"
      "st_events st3 = st_events st2" "dict_get (st_md st3) ''cancel_played_chars'' = dict_get (st_md st2) ''cancel_played_chars''"
      "st_persist_text st3 = st_persist_text st2" "row_left status (st_persist_text st2) st3"
      by (rule finally_records [OF settled2 assms(3)])
    have run: "e = reraised x" "st' = st3" using assms(4) body Inl handled st3(1) by (auto simp: run_guarded_def)
    show ?thesis
    proof (cases "reraised x")
      case None
      with run st3 show ?thesis by auto
    next
      case (Some y)
      then obtain played where x: "x = ExcCancelled played" by (cases x) auto
      have "spoken_parts st1" using hoareD [OF hoare_run_body assms(2) body] Inl by simp
      from cancellation_settled [OF this handled [unfolded x]]
      have "status = CANCELLED_TURN" "st_persist_text st2 = heard st2" by simp_all
      moreover have "heard st3 = heard st2" using st3 by (intro heard_cong)
      ultimately show ?thesis using run st3 Some by auto
    qed
  qed
qed

lemma committed_turn_records:
  assumes "admitted env ri w" "en_persister env" "va_persistence_allowed (commit_decision env ri)"
    and "\<not> truthy (dict_get (ti_metadata (rn_input ri)) ''speculative'')" "run_turn env ri h rows w = (e, st)"
  shows "closed env ri st \<and> (\<exists>status. row_left status (st_persist_text st) st)
    \<and> (case e of None \<Rightarrow> True | Some x \<Rightarrow> row_left CANCELLED_TURN (heard st) st \<and> st_persist_text st = heard st)"
proof (cases rule: run_turn_cases [of env ri h rows w])
  case (2 outputs cancelled w')
  let ?st = "start_state env ri h rows w'"
  have "opened ?st" "in_step pm ?st" for pm
    using assms(3,4) by (simp_all add: opened_def in_step_def spoken_def start_state_def initial_state_def note_commit_def
        leaves_no_trace_def)
  moreover have "run_guarded env ri (presentation_mode env (ti_metadata (rn_input ri)) outputs) False outputs cancelled True ?st = (e, st)"
    using 2(4) assms(3,4,5) by simp
  ultimately show ?thesis using run_guarded_records [OF _ _ assms(2)] by blast
qed (use assms(1) in simp)

text \<open>
  C20. The two records of a committed turn agree: however the turn ends, the history window holds it with
  exactly the answer that is handed to the persister, so the next context and the database tell the same
  conversation.
\<close>

theorem window_and_row_agree:
  assumes "admitted env ri w" "en_persister env" "va_persistence_allowed (commit_decision env ri)"
    and "\<not> truthy (dict_get (ti_metadata (rn_input ri)) ''speculative'')"
  shows "let st = snd (run_turn env ri h rows w)
    in \<exists>status answer. row_left status answer st \<and> window_has env ri answer st"
  using committed_turn_records [OF assms surjective_pairing, of h rows] by (auto simp: closed_def Let_def)

text \<open>
  C5. A barge-in keeps what was heard: when a committed turn is cancelled, the window and the row hold
  exactly the streamed answer cut at the playback boundary the transport left, or all of it where the
  boundary is unknown, and the row says the turn was cancelled.
\<close>

theorem cancelled_turn_keeps_what_was_heard:
  assumes "admitted env ri w" "en_persister env" "va_persistence_allowed (commit_decision env ri)"
    and "\<not> truthy (dict_get (ti_metadata (rn_input ri)) ''speculative'')" "run_turn env ri h rows w = (Some e, st)"
  shows "row_left CANCELLED_TURN (heard st) st \<and> window_has env ri (heard st) st"
  using committed_turn_records [OF assms] by (auto simp: closed_def)

end
