(* ===== verification/Turn_Demo.thy ===== *)
theory Turn_Demo
  imports Turn_Run
begin

text \<open>
  A concrete environment and concrete inputs for the witnesses: a dispatcher without tools, a durable
  outbox, and a model that plays a script, one entry per call, over a world that counts the calls.
\<close>

definition demo_turn_time :: datetime where
  "demo_turn_time =
     \<lparr>dt_year = 2026, dt_month = 3, dt_day = 1, dt_hour = 8, dt_minute = 0, dt_second = 0, dt_micro = 0, dt_offset = Some 0\<rparr>"

definition demo_turn_fanout :: "nat fanout_env" where
  "demo_turn_fanout =
     \<lparr>fe_context = \<lambda>q. Inr ''realm'', fe_turn = \<lambda>s q md. Inr [(''metadata'', JDict md)],
      fe_envelope = \<lambda>turn t. Inr [(''trace_id'', JStr t)], fe_subject = \<lambda>s. Inr (''eidolon.memory.turn.'' @ s),
      fe_routes = None, fe_outbox = True, fe_bus = None, fe_sink = None, fe_now = demo_turn_time\<rparr>"

definition demo_turn_dispatcher :: "nat dispatcher" where
  "demo_turn_dispatcher =
     \<lparr>d_registry = \<lparr>reg_tools = [], reg_aliases = []\<rparr>, d_idemp = None, d_allowed = None, d_schema_strict = True,
      d_require_idempotency = False, d_sha256 = (\<lambda>s. s), d_str = (\<lambda>v. ''?''), d_float_repr = (\<lambda>q. ''0.0'')\<rparr>"

type_synonym model_script = "(llm_delta list \<times> turn_exc option) list"

definition demo_turn_env :: "model_script \<Rightarrow> nat turn_env" where
  "demo_turn_env script =
     \<lparr>en_guard = Some (\<lambda>ti w. (Inr (), False, w)), en_lower = (\<lambda>t. t), en_crisis_bus = None,
      en_memory_mode = ''enabled'', en_genome_id = None, en_fanout = demo_turn_fanout,
      en_enqueue_interrupt = (\<lambda>w. None), en_compile = (\<lambda>ti md h w. (Inr [], [], w)),
      en_llm = (\<lambda>ms ts cfg w. (if w < length script then (fst (script ! w), snd (script ! w), w + 1) else ([], None, w + 1))),
      en_dispatcher = demo_turn_dispatcher, en_batch_timeout = None, en_late = (\<lambda>cs w. None), en_sched = (\<lambda>cs. cs),
      en_interrupt = (\<lambda>cs w. None), en_slow = (\<lambda>cs w. False), en_slow_hint_text = [], en_slow_hint_role = ''hint'',
      en_body_tools = None, en_hidden_tools = [], en_max_tool_iters = 1, en_taboos = [],
      en_sdk = \<lparr>ps_parse = (\<lambda>d. None), ps_none = \<lparr>pc_intent = ''none'', pc_outcome_ref = None, pc_details = []\<rparr>\<rparr>,
      en_outputs = (\<lambda>v. None), en_response_schema = (\<lambda>o1. demo_schema ''eidolon_respond'' False None),
      en_face_profile = JStr ''face'', en_read_decision = (\<lambda>v. None), en_decision_matches = (\<lambda>d t. False),
      en_intent_json = (\<lambda>i. JNull), en_str = (\<lambda>v. []), en_json_bytes = (\<lambda>v. 0), en_bus = True, en_persister = True,
      en_model_id = None, en_first_delta_ms = None, en_total_ms = 0, en_timings = [],
      en_started_at = demo_turn_time, en_now = demo_turn_time, en_fresh = ''m''\<rparr>"

definition demo_turn_input :: "input_modality \<Rightarrow> json_dict \<Rightarrow> utext \<Rightarrow> turn_input" where
  "demo_turn_input modality md txt =
     \<lparr>ti_turn_id = ''t1'', ti_conversation_id = ''conv'', ti_session_id = ''s1'', ti_context = demo_context,
      ti_input_modality = modality, ti_trigger = USER_UTTERANCE, ti_text = Some txt, ti_metadata = md\<rparr>"

definition demo_run_input :: "input_modality \<Rightarrow> json_dict \<Rightarrow> utext \<Rightarrow> nat run_input" where
  "demo_run_input modality md txt =
     \<lparr>rn_input = demo_turn_input modality md txt,
      rn_config = \<lparr>rc_model = None, rc_temperature = 0, rc_tool_allow = [], rc_tool_deny = [], rc_allow_body_control = False,
                   rc_max_tool_iters = None, rc_max_output_tokens = None\<rparr>,
      rn_coordinated = False, rn_motion_tool = None, rn_channel_tools = None, rn_channel_capabilities = [],
      rn_feedback = (\<lambda>w. (Inr None, w)), rn_has_feedback = False\<rparr>"

definition text_delta :: "utext \<Rightarrow> llm_delta" where
  "text_delta t = \<lparr>ld_text = Some t, ld_activity = None, ld_tool_call = None, ld_finish = None, ld_usage = None\<rparr>"

definition call_delta :: "string \<Rightarrow> string \<Rightarrow> llm_delta" where
  "call_delta i name =
     \<lparr>ld_text = None, ld_activity = None, ld_tool_call = Some (demo_call i name), ld_finish = Some TOOL_CALLS, ld_usage = None\<rparr>"

definition demo_window :: history_manager where
  "demo_window = new_history 4 (\<lambda>v. ''?'')"

text \<open>An answer cut off after five characters of which three were played.\<close>

definition demo_cut_off :: model_script where
  "demo_cut_off = [([text_delta [104, 101, 108], text_delta [108, 111]], Some (ExcCancelled (Some 3)))]"

text \<open>A model that keeps calling a tool that fails.\<close>

definition demo_stubborn :: model_script where
  "demo_stubborn = [([call_delta ''c1'' ''light''], None), ([call_delta ''c2'' ''light''], None)]"

end
