(* ===== verification/Turn_Witnesses.thy ===== *)
theory Turn_Witnesses
  imports Turn_Records Turn_Demo
begin

text \<open>
  The properties of a turn at concrete inputs of \<open>Turn_Demo\<close>, and the run of a cancelled turn computed.
\<close>

abbreviation demo_hello :: "nat run_input" where
  "demo_hello \<equiv> demo_run_input TextInput [] [1]"

lemma abind_returns: "fst (m st) = Inr a \<Longrightarrow> abind m k st = k a (snd (m st))"
  by (cases "m st") (simp add: abind_app)

lemma aseq_raises: "fst (m st) = Inl e \<Longrightarrow> fst (aseq m k st) = Inl e"
  by (cases "m st") (simp add: aseq_app)

lemma demo_env_fields:
  "en_guard (demo_turn_env s) = Some (\<lambda>ti w. (Inr (), False, w))"
  "en_lower (demo_turn_env s) = (\<lambda>t. t)"
  "en_memory_mode (demo_turn_env s) = ''enabled''"
  "en_fanout (demo_turn_env s) = demo_turn_fanout"
  "en_enqueue_interrupt (demo_turn_env s) = (\<lambda>w. None)"
  "en_compile (demo_turn_env s) = (\<lambda>ti md h w. (Inr [], [], w))"
  "en_llm (demo_turn_env s) = (\<lambda>ms ts cfg w. (if w < length s then (fst (s ! w), snd (s ! w), w + 1) else ([], None, w + 1)))"
  "en_dispatcher (demo_turn_env s) = demo_turn_dispatcher"
  "en_body_tools (demo_turn_env s) = None" "en_hidden_tools (demo_turn_env s) = []"
  "en_max_tool_iters (demo_turn_env s) = 1" "en_taboos (demo_turn_env s) = []"
  "en_outputs (demo_turn_env s) = (\<lambda>v. None)" "en_face_profile (demo_turn_env s) = JStr ''face''"
  "en_bus (demo_turn_env s) = True" "en_persister (demo_turn_env s) = True"
  "en_read_decision (demo_turn_env s) = (\<lambda>v. None)"
  by (simp_all add: demo_turn_env_def)

lemma demo_run_fields: "rn_input (demo_run_input m md t) = demo_turn_input m md t" "rn_coordinated (demo_run_input m md t) = False"
  by (simp_all add: demo_run_input_def)

lemma demo_input_fields: "ti_turn_id (demo_turn_input m md t) = ''t1''" "ti_metadata (demo_turn_input m md t) = md" "ti_input_modality (demo_turn_input m md t) = m"
   "ti_text (demo_turn_input m md t) = Some t" "ti_context (demo_turn_input m md t) = demo_context"
  by (simp_all add: demo_turn_input_def)

lemma demo_check: "input_check (\<lambda>t. t) (Some [1]) = Pass" by code_simp

lemma demo_admit: "admit (demo_turn_env s) ti w = (Inr False, w)"
  by (simp add: admit_def demo_env_fields)

lemma demo_commit: "commit_decision (demo_turn_env s) (demo_run_input TextInput md t) = \<lparr>va_valid = False, va_persistence_allowed = True, va_reason = ''synchronous_text_boundary''\<rparr>"
  by (simp add: commit_decision_def validate_committed_turn_def demo_run_fields demo_input_fields)

lemma demo_observe: "fst (observe_input (demo_turn_env s) ri spec st) = Inr ()"
  by (simp add: observe_input_def abind_app aseq_app put_md_def awhen_def publish_observation_def Let_def demo_env_fields split: prod.split)

lemma demo_fanout_ext: "publish_turn demo_turn_fanout q \<lparr>fw_rows = rows, fw_ext = x\<rparr> = (r, fw) \<Longrightarrow> fw_ext fw = x"
  by (auto simp: publish_turn_def demo_turn_fanout_def fanout_deliver_def Let_def fanout_subject_def emotion_fanout_def fanout_publish_def record_status_def split: prod.splits sum.splits)

lemma demo_observe_ext: "st_ext (snd (observe_input (demo_turn_env s) ri spec st)) = st_ext st"
  by (auto simp: observe_input_def abind_app aseq_app put_md_def awhen_def publish_observation_def Let_def demo_env_fields dest: demo_fanout_ext split: prod.split)

lemma demo_compile: "compile_context (demo_turn_env s) ri st = (Inr [], st)"
  by (simp add: compile_context_def demo_env_fields note_compiled_def)

lemma demo_tools: "tool_schemas (demo_turn_env s) demo_hello st = (Inr ([], []), st)"
  by (simp add: tool_schemas_def add_body_tools_def abind_app demo_env_fields demo_run_input_def demo_turn_dispatcher_def
    add_motion_tool_def add_channel_tools_def harness_visible_def list_schemas_def)

lemma demo_stream: "st_ext st = 0 \<Longrightarrow> fst (stream_round (demo_turn_env demo_cut_off) demo_hello False schemas messages st) = Inl (ExcCancelled (Some 3))"
  by (simp add: stream_round_def abind_app aseq_app call_model_def demo_env_fields demo_cut_off_def on_delta_def text_delta_def awhen_def say_def emit_def)

lemma demo_loop: "st_ext st = 0 \<Longrightarrow> fst (tool_loop (demo_turn_env demo_cut_off) demo_hello False outs tools (Suc 0) messages st) = Inl (ExcCancelled (Some 3))"
  using demo_stream [of st "fst tools" messages]
  by (auto simp: loop_pass_def abind_app split: prod.splits)

lemma demo_generate: "st_ext st = 0 \<Longrightarrow> fst (generate_stage (demo_turn_env demo_cut_off) demo_hello False False outs st) = Inl (ExcCancelled (Some 3))"
  by (simp add: generate_stage_def aseq_returns demo_observe abind_returns demo_compile demo_run_fields returning demo_tools add_response_tool_def demo_env_fields
    demo_loop emit_effect demo_observe_ext del: tool_loop.simps)

lemma demo_body: "st_ext st = 0 \<Longrightarrow> fst (run_body (demo_turn_env demo_cut_off) demo_hello False False outs False st) = Inl (ExcCancelled (Some 3))"
  by (simp add: run_body_def Let_def demo_env_fields demo_run_fields demo_input_fields demo_check awhen_def aseq_returns returning answer_stage_def aseq_raises demo_generate remember_turn_effect)

lemma demo_cancelled: "fst (run_turn (demo_turn_env demo_cut_off) demo_hello h rows 0) = Some (ExcCancelled (Some 3))"
proof -
  have "selected_outputs (demo_turn_env s) [] = Inr None" "presentation_mode (demo_turn_env s) [] None = False" for s
    by (simp_all add: selected_outputs_def presentation_mode_def demo_env_fields dict_get_def)
  moreover have "truthy (dict_get [] ''speculative'') = False" by (simp add: dict_get_def)
  moreover have "fst (run_guarded (demo_turn_env demo_cut_off) demo_hello False False None False True st) = Some (ExcCancelled (Some 3))" if "st_ext st = 0" for st
    using demo_body [OF that, of None] handle_exception_returns [of "demo_turn_env demo_cut_off" demo_hello "ExcCancelled (Some 3)" "snd (run_body (demo_turn_env demo_cut_off) demo_hello False False None False st)"]
    by (auto simp: run_guarded_def split: prod.splits sum.splits)
  ultimately show ?thesis
    by (simp add: run_turn_def demo_admit demo_run_fields demo_input_fields Let_def demo_commit initial_state_def)
qed

theorem cancelled_turn_keeps_what_was_heard_witness:
  "let st = snd (run_turn (demo_turn_env demo_cut_off) demo_hello demo_window [] 0)
   in row_left CANCELLED_TURN (heard st) st \<and> window_has (demo_turn_env demo_cut_off) demo_hello (heard st) st"
proof -
  let ?run = "run_turn (demo_turn_env demo_cut_off) demo_hello demo_window [] 0"
  have "admitted (demo_turn_env demo_cut_off) demo_hello 0"
    by (simp add: admitted_def demo_admit selected_outputs_def demo_run_fields demo_input_fields)
  moreover have "?run = (Some (ExcCancelled (Some 3)), snd ?run)" by (rule prod_eqI) (simp_all add: demo_cancelled)
  ultimately show ?thesis
    using cancelled_turn_keeps_what_was_heard [of "demo_turn_env demo_cut_off" demo_hello 0 demo_window "[]" "ExcCancelled (Some 3)" "snd ?run"]
    by (simp add: demo_env_fields demo_commit demo_run_fields demo_input_fields dict_get_def)
qed

theorem window_and_row_agree_witness:
  "let st = snd (run_turn (demo_turn_env demo_stubborn) demo_hello demo_window [] 0)
   in \<exists>status answer. row_left status answer st \<and> window_has (demo_turn_env demo_stubborn) demo_hello answer st"
proof -
  have "admitted (demo_turn_env demo_stubborn) demo_hello 0"
    by (simp add: admitted_def demo_admit selected_outputs_def demo_run_fields demo_input_fields)
  from window_and_row_agree [OF this, of demo_window "[]"] show ?thesis
    by (simp add: demo_env_fields demo_commit demo_run_fields demo_input_fields dict_get_def)
qed

theorem speculative_turn_keeps_nothing_witness:
  "kept_nothing demo_window []
     (snd (run_turn (demo_turn_env demo_stubborn) (demo_run_input TextInput [(''speculative'', JBool True)] [1]) demo_window [] 0))"
  by (rule speculative_turn_keeps_nothing) (simp add: demo_run_fields demo_input_fields dict_get_def)

theorem uncommitted_voice_leaves_no_words_witness:
  "let st = snd (run_turn (demo_turn_env demo_stubborn) (demo_run_input Voice [] [1]) demo_window [] 0)
   in st_history st = demo_window \<and> st_rows st = [] \<and> list_all wordless (st_background st)"
  by (rule uncommitted_voice_leaves_no_words)
    (simp add: commit_decision_def validate_committed_turn_def demo_run_fields demo_input_fields demo_env_fields)

theorem private_turn_stays_private_witness:
  "let st = snd (run_turn (demo_turn_env demo_stubborn) (demo_run_input TextInput [(''private'', JBool True)] [1]) demo_window [] 0)
   in st_rows st = [] \<and> list_all private_job (st_background st)"
  by (rule private_turn_stays_private)
    (simp add: demo_run_fields demo_input_fields dict_get_def policy_from_metadata_def mark_messages_private_def)

theorem crisis_stays_inside_witness:
  "let st = snd (run_turn (demo_turn_env demo_stubborn) (demo_run_input TextInput [] (hd crisis_keywords)) demo_window [] 0)
   in st_streams st = 0 \<and> st_rounds st = [] \<and> st_rows st = [] \<and> list_all private_job (st_background st)"
proof (rule crisis_stays_inside)
  have "input_check (\<lambda>t. t) (Some (hd crisis_keywords)) = Escalate" by code_simp
  then show "input_check (en_lower (demo_turn_env demo_stubborn))
      (ti_text (rn_input (demo_run_input TextInput [] (hd crisis_keywords)))) = Escalate"
    by (simp add: demo_run_fields demo_input_fields demo_env_fields)
qed

text \<open>
  The loop's error event is not its end: after \<open>tool_loop_exceeded\<close> the turn goes on to its output stage
  and, unless that fails, to DONE with status ok.
\<close>

lemma exceeded_loop_goes_on:
  assumes "st_ext st = 1"
  shows "\<exists>st'. tool_loop (demo_turn_env demo_stubborn) demo_hello False outs tools 0 messages st = (Inr (), st')
    \<and> last_event st' = Some (EvError ''tool_loop_exceeded'' ''exceeded max_tool_iters=1'')"
proof -
  have "int_str 1 = ''1''" by code_simp
  with assms show ?thesis
    by (simp add: loop_pass_def stream_round_def call_model_def demo_stubborn_def demo_env_fields abind_app aseq_app
      on_delta_def call_delta_def awhen_def announce_def tool_answer_announcement_def demo_call_def emit_def last_event_def
      demo_run_fields delegate_tool_def)
qed

end
