(* ===== verification/Spec2Isabelle.thy ===== *)
theory Spec2Isabelle
  imports Coord_Team_Props Context_Witnesses Tool_Batch Kv_Store Event_Bus Memory_Outbox Audit_Outbox Mementos_Worker Long_Task_Admin
    Conversation_Facts Runtime_Session Agent_Registry History_Manager History_Fanout Turn_Witnesses
begin

text \<open>
  \<^bold>\<open>A model of eidolon-agent\<close>

  eidolon-agent is the service that runs the turns of a companion: it authenticates a session, takes
  an utterance, compiles a context, streams a language model's answer with tool calls, and keeps what
  was said. This library models the parts that decide and that keep state, all under
  \<open>src/eidolon_agent/\<close>. Paths below are relative to it.

  \<^bold>\<open>How the model is written\<close>

  A class becomes a record of its state and one function per method, from the state to the result and
  the state after. An exception is a value of \<open>py_error\<close>, a fallible result is \<open>py_error + 'a\<close>. A
  dict is an association list in insertion order, JSON values are the datatype \<open>json\<close>. Python
  integers are \<open>int\<close>. A database transaction is one function on the tables; where several
  transactions of one operation can be interleaved with others, there is a step relation with one step
  per transaction, and a refinement from the method to the steps. Clocks, fresh identifiers and what
  the outside answers (a bus, a tool body, the memory contracts package, the data authority, a
  server) are arguments.

  \<^bold>\<open>The theories\<close>

  \<^item> \<open>Py_Prelude\<close>, \<open>Py_Time\<close>, \<open>Py_Text\<close>, \<open>Glob\<close>: the language's dicts, JSON, strings, datetimes
    and \<open>fnmatch\<close>, with the round trip of \<open>isoformat\<close> and \<open>fromisoformat\<close>.
  \<^item> \<open>Core_Types\<close>: \<open>core/types\<close>: turn context, tools, messages, enumerations.
  \<^item> \<open>Kv_Store\<close>, \<open>Event_Bus\<close>: \<open>infra/events/adapters/inmem.py\<close>. Compare-and-swap is exclusive,
    listings agree with reads, and a publish reaches each subscription and queue group once.
  \<^item> \<open>Tool_Registry\<close>, \<open>Tool_Dispatcher\<close>, \<open>Tool_Batch\<close>: \<open>domain/tools\<close>. Denied tools never run,
    effects need valid arguments and permissions, keyed tools run once, a batch is a serial run.
  \<^item> \<open>Runtime_Tables\<close>: the tables of \<open>infra/persistence/runtime_store.py\<close> with keys, references and
    cascades, and the deletion of an Owner or a Companion.
  \<^item> \<open>Memory_Outbox\<close>, \<open>Audit_Outbox\<close>: the two outboxes and their dispatchers. Turns of a subject
    are handed over in order, under any interleaving and any crash; audit events are not lost.
  \<^item> \<open>Long_Task_Types\<close>, \<open>Long_Task_Store\<close>, \<open>Long_Task_Ops\<close>, \<open>Long_Task_Admin\<close>: the record of a
    delegated task, its JSON form and rows, the store of \<open>infra/persistence/agent_runtime.py\<close> and the
    routes of \<open>app/admin/routers/long_tasks.py\<close>.
  \<^item> \<open>Mementos_Worker\<close>: the worker of \<open>infra/long_tasks/mementos.py\<close> over the store.
  \<^item> \<open>Conversation_Store\<close>, \<open>Conversation_Facts\<close>: admission, persistence and hydration of turns.
  \<^item> \<open>Runtime_Session\<close>: \<open>domain/runtime_session.py\<close>, the runtime configuration, the privacy policy
    and the persistence boundary of an input.
  \<^item> \<open>Agent_Registry\<close>: \<open>domain/agent/registry.py\<close>.
  \<^item> \<open>History_Manager\<close>, \<open>History_Fanout\<close>: \<open>domain/history\<close>: the window the context reads, and the
    hand-over of a turn to the memory outbox.
  \<^item> \<open>Context_Budget\<close>, \<open>Context_Prompt\<close>, \<open>Context_Texts\<close>, \<open>Context_Recall\<close>, \<open>Persona_Realizer\<close>,
    \<open>Context_Compiler\<close>, \<open>Context_Compile\<close>: \<open>domain/context\<close>, \<open>domain/history/source.py\<close> and the prompts of
    \<open>domain/personas\<close>: budget and ledger, the texts of the prompt word by word, the reads with their
    deadlines, the segments and \<open>ContextCompiler.compile\<close>. \<open>Context_Facts\<close> shows the order of the prompt, that no
    read fails a compile, the independence of a private or temporary turn of what is kept, the budget and the
    window; \<open>Context_Reads\<close> bounds the requests to the memory service and shows the receipt in the prompt
    true; \<open>Context_Witnesses\<close> runs a concrete turn.
  \<^item> \<open>Guardrails\<close>, \<open>Presentation\<close>: \<open>domain/guardrails\<close> and \<open>domain/agent/presentation.py\<close>: the filters
    around the model and the structured response.
  \<^item> \<open>Turn_Types\<close>, \<open>Turn_Engine\<close>, \<open>Turn_Loop\<close>, \<open>Turn_Run\<close>: \<open>TurnEngine.run\<close> of \<open>domain/agent/turn.py\<close>,
    as actions on a state that return or raise. \<open>Turn_Frame\<close> states in five locales what an invariant of a
    turn has to survive and proves that then every stage keeps it; \<open>Turn_Facts\<close>, \<open>Turn_Answers\<close> and
    \<open>Turn_Records\<close> interpret them: numbering and end of the events, what a speculative, private, crisis or
    uncommitted turn may keep, the bound of the tool loop, no retry of a failed tool, and the agreement of
    window and row, also after a barge-in. \<open>Turn_Demo\<close> and \<open>Turn_Witnesses\<close> run it on concrete inputs.

  \<^item> \<open>Coord_Types\<close>, \<open>Coord_Session\<close>: \<open>CoordinationSession\<close> of \<open>app/interaction/coordination\<close>: the scene in which
    several companions speak. A coroutine is a value at the await where it is suspended, \<open>scene_step\<close> is the
    relation of all that can happen next; what a port answers, when, and which timers fire is free. \<open>Coord_Facts\<close>
    is the invariant, \<open>Coord_Moves\<close> the protocol an observer sees, with the refinement, \<open>Coord_Safety\<close> and
    \<open>Coord_Status\<close> what follows: silence before speech, the budget, captures, words, late answers, the status shown.
    \<open>Coord_Props\<close> has the properties and a run.
  \<^item> \<open>Coord_Stream\<close>, \<open>Coord_Team\<close>, \<open>Coord_Team_Props\<close>: \<open>CoordinationStream\<close> of \<open>app/transport/coordination.py\<close>, its
    queue, receipts and transcripts, and the session and its transport together: no reply starts before the device
    of every member acknowledged its stop.

  \<^bold>\<open>How the parts interact\<close>

  The guard of \<open>Conversation_Store\<close> admits a turn into the tables of \<open>Runtime_Tables\<close>; \<open>Turn_Run\<close> runs it,
  with \<open>Guardrails\<close> before and after the model, \<open>Tool_Batch\<close> for its calls, \<open>History_Manager\<close> and
  \<open>History_Fanout\<close> for what it leaves, and a job for the persister of \<open>Conversation_Store\<close>;
  \<open>History_Manager\<close> keeps its messages for the next context and asks \<open>hydrate\<close> for older ones;
  \<open>History_Fanout\<close> enqueues it in \<open>Memory_Outbox\<close>, which publishes on a bus. Tools run through
  \<open>Tool_Batch\<close>, whose idempotency cache is a bucket with the laws of the locale \<open>idemp_bucket\<close>,
  interpreted on \<open>Kv_Store\<close>. A delegated task goes to the long-task store, whose laws are the locale
  \<open>record_store\<close>, interpreted on the job rows; the worker and the routes use the store, and the store
  writes receipts to \<open>Audit_Outbox\<close>.

  \<^bold>\<open>Bounds and fuel\<close>

  The polling loop of the worker recurs on the readings of the event loop's clock, one per test of its
  condition; \<open>worker_settles_task\<close> shows that it returns once a reading reaches the deadline. \<open>persist_retry\<close> recurs on the number of attempts the code
  allows. The tool loop recurs on the rounds left of \<open>max_tool_iters\<close>. Everything else is structural or has a measure.

  \<^bold>\<open>Not modelled\<close>

  Smart home, body control, interpretation, signals, the memory
  client and the language-model router are not modelled yet. For the turn engine the compiler is a
  function of its environment that writes the metadata keys \<open>compile\<close> writes. In the turn engine, wall-clock
  readings and the metadata that only feeds traces are left out, and a cancellation arrives where the code
  awaits a collaborator. HTTP and gRPC
  glue, response models, logging, configuration, benchmarks and scripts are left out. Inside the
  modelled parts: opening the SQLite engine, non-integrity database faults, and float arithmetic.
\<close>

end
